(* ===== verification/Prelude.thy ===== *)
theory Prelude
  imports Main "HOL-Library.Char_ord" "HOL-Library.List_Lexorder"
    "HOL-Library.Product_Lexorder" "HOL-Library.Multiset" "HOL-Library.Sublist"
begin

text \<open>
  The facts every component of the development shares: the collections of simplification
  rules, list and association-list lemmas, and the model of Go's \<open>sort.Slice\<close>.

  A Go string is a sequence of bytes, hence an Isabelle \<^typ>\<open>string\<close> (a \<open>char list\<close>, a
  \<^typ>\<open>char\<close> being one byte), and Go's \<open><\<close> on strings is the lexicographic order that
  \<open>Char_ord\<close> and \<open>List_Lexorder\<close> put on that type. A Go map with string keys is an association
  list read with \<^const>\<open>map_of\<close>, or a partial function where only lookups matter.
\<close>

named_theorems order_simps \<open>the decision lattice\<close>
named_theorems walk_simps \<open>unfolding the assert-tree walker one level\<close>
named_theorems effect_defs \<open>the effect-to-decision tables\<close>
named_theorems reconcile_defs \<open>unfolding the reconciliation steps\<close>

type_synonym 'a assoc = "(string \<times> 'a) list"

subsection \<open>Results of fallible code\<close>

text \<open>A Go function returning \<open>(T, error)\<close> is a sum: \<open>Inl\<close> the error, \<open>Inr\<close> the value.\<close>

definition bind_res :: "'e + 'a \<Rightarrow> ('a \<Rightarrow> 'e + 'b) \<Rightarrow> 'e + 'b" where
  "bind_res r f = (case r of Inl e \<Rightarrow> Inl e | Inr a \<Rightarrow> f a)"

lemma bind_res_simps [simp]:
  "bind_res (Inl e) f = Inl e"
  "bind_res (Inr a) f = f a"
  by (simp_all add: bind_res_def)

lemma bind_res_Inr_iff: "bind_res r f = Inr b \<longleftrightarrow> (\<exists>a. r = Inr a \<and> f a = Inr b)"
  by (cases r) simp_all

subsection \<open>sort.Slice\<close>

text \<open>
  \<open>sort.Slice\<close> sorts in place by a strict order and is not stable. It is modelled by
  \<^const>\<open>sort_key\<close>; the lemma below says that on a list whose elements agree whenever their
  keys do, every sorted rearrangement is the same list, so stability does not matter there.
\<close>

lemma sort_key_any:
  assumes "mset xs = mset ys" and "sorted (map k ys)"
    and "\<And>x y. x \<in> set xs \<Longrightarrow> y \<in> set xs \<Longrightarrow> k x = k y \<Longrightarrow> x = y"
  shows "sort_key k xs = ys"
  using assms by (intro sort_key_inj_key_eq) (auto simp: inj_on_def)

lemma sort_key_perm:
  assumes "mset xs = mset ys"
    and "\<And>x y. x \<in> set xs \<Longrightarrow> y \<in> set xs \<Longrightarrow> k x = k y \<Longrightarrow> x = y"
  shows "sort_key k xs = sort_key k ys"
  by (rule sort_key_any) (use assms in auto)

subsection \<open>Lists and association lists\<close>

lemma filter_eq_Nil_iff: "filter P xs = [] \<longleftrightarrow> (\<forall>x \<in> set xs. \<not> P x)"
  by (auto simp: filter_empty_conv)

lemma mset_concat_map_perm:
  "mset xs = mset ys \<Longrightarrow> mset (concat (map f xs)) = mset (concat (map f ys))"
  by (simp add: mset_concat flip: sum_mset_sum_list)

lemma mset_eq_set: "mset xs = mset ys \<Longrightarrow> set xs = set ys"
  by (metis set_mset_mset)

lemma mset_eq_Nil_iff: "mset xs = mset ys \<Longrightarrow> xs = [] \<longleftrightarrow> ys = []"
  by (metis mset_zero_iff)

lemma filter_perm: "mset xs = mset ys \<Longrightarrow> mset (filter P xs) = mset (filter P ys)"
  by simp

lemma sum_list_perm: "mset xs = mset ys \<Longrightarrow> sum_list (map f xs) = (sum_list (map f ys) :: int)"
  by (metis mset_map sum_mset_sum_list)

text \<open>The first occurrence of each element, in order: the \<open>seen\<close>-map idiom of the code.\<close>

fun dedup :: "'a list \<Rightarrow> 'a list" where
  "dedup [] = []"
| "dedup (x # xs) = x # filter (\<lambda>y. y \<noteq> x) (dedup xs)"

lemma set_dedup [simp]: "set (dedup xs) = set xs"
  by (induction xs) auto

lemma distinct_dedup [simp]: "distinct (dedup xs)"
  by (induction xs) auto

lemma dedup_Nil_iff [simp]: "dedup xs = [] \<longleftrightarrow> xs = []"
  by (cases xs) auto

lemma dedup_perm: "set xs = set ys \<Longrightarrow> mset (dedup xs) = mset (dedup ys)"
  by (simp add: set_eq_iff_mset_eq_distinct [symmetric])

lemma fold_max_perm_comm:
  "(\<And>x y. f x \<circ> f y = f y \<circ> f x) \<Longrightarrow> mset xs = mset ys \<Longrightarrow> fold f xs = fold f ys"
  by (rule fold_multiset_equiv) auto

end
