(* ===== verification/GoStrings.thy ===== *)
theory GoStrings
  imports Prelude
begin

text \<open>
  The parts of Go's standard library (\<open>strings\<close>, \<open>strconv\<close>, \<open>unicode/utf8\<close>) that the
  modelled code calls, on byte strings.
\<close>

subsection \<open>Go's strings package\<close>

abbreviation hasPrefix :: "string \<Rightarrow> string \<Rightarrow> bool" where
  "hasPrefix s p \<equiv> prefix p s"

abbreviation hasSuffix :: "string \<Rightarrow> string \<Rightarrow> bool" where
  "hasSuffix s p \<equiv> suffix p s"

definition trimPrefix :: "string \<Rightarrow> string \<Rightarrow> string" where
  "trimPrefix s p = (if prefix p s then drop (length p) s else s)"

fun containsSub :: "string \<Rightarrow> string \<Rightarrow> bool" where
  "containsSub [] p = (p = [])"
| "containsSub (c # cs) p = (prefix p (c # cs) \<or> containsSub cs p)"

text \<open>\<open>strings.ReplaceAll\<close> with a one- or two-byte pattern: leftmost, non-overlapping.\<close>

fun replaceAll1 :: "char \<Rightarrow> string \<Rightarrow> string \<Rightarrow> string" where
  "replaceAll1 a new [] = []"
| "replaceAll1 a new (c # cs) =
     (if c = a then new @ replaceAll1 a new cs else c # replaceAll1 a new cs)"

fun replaceAll2 :: "char \<Rightarrow> char \<Rightarrow> string \<Rightarrow> string \<Rightarrow> string" where
  "replaceAll2 a b new [] = []"
| "replaceAll2 a b new [c] = [c]"
| "replaceAll2 a b new (c # d # cs) =
     (if c = a \<and> d = b then new @ replaceAll2 a b new cs
      else c # replaceAll2 a b new (d # cs))"

lemma replaceAll1_append:
  "replaceAll1 a new (xs @ ys) = replaceAll1 a new xs @ replaceAll1 a new ys"
  by (induction xs) auto

lemma replaceAll1_absent: "a \<notin> set xs \<Longrightarrow> replaceAll1 a new xs = xs"
  by (induction xs) auto

text \<open>\<open>strings.Split(s, sep)\<close> for a one-byte separator: never empty.\<close>

fun splitOn :: "char \<Rightarrow> string \<Rightarrow> string list" where
  "splitOn a [] = [[]]"
| "splitOn a (c # cs) =
     (if c = a then [] # splitOn a cs
      else (case splitOn a cs of [] \<Rightarrow> [[c]] | t # ts \<Rightarrow> (c # t) # ts))"

lemma splitOn_not_Nil [simp]: "splitOn a s \<noteq> []"
  by (cases s) (auto split: list.splits)

lemma splitOn_absent: "a \<notin> set s \<Longrightarrow> splitOn a s = [s]"
  by (induction s) auto

lemma splitOn_append:
  "a \<notin> set s \<Longrightarrow> splitOn a (s @ a # t) = s # splitOn a t"
  by (induction s) auto

text \<open>\<open>strings.Join(ts, sep)\<close>, and the inverse of \<^const>\<open>splitOn\<close> it gives.\<close>

fun joinOn :: "string \<Rightarrow> string list \<Rightarrow> string" where
  "joinOn sep [] = []"
| "joinOn sep [t] = t"
| "joinOn sep (t # ts) = t @ sep @ joinOn sep ts"

lemma joinOn_splitOn: "joinOn [a] (splitOn a s) = s"
proof (induction s)
  case (Cons c s)
  obtain t ts where "splitOn a s = t # ts" by (cases "splitOn a s") auto
  with Cons show ?case by (cases ts) auto
qed simp

lemma splitOn_joinOn:
  "ts \<noteq> [] \<Longrightarrow> \<forall>t \<in> set ts. a \<notin> set t \<Longrightarrow> splitOn a (joinOn [a] ts) = ts"
  by (induction "[a]" ts rule: joinOn.induct) (auto simp: splitOn_append splitOn_absent)

text \<open>\<open>strings.Cut\<close> at the first occurrence of a byte.\<close>

fun cutAt :: "char \<Rightarrow> string \<Rightarrow> (string \<times> string) option" where
  "cutAt a [] = None"
| "cutAt a (c # cs) =
     (if c = a then Some ([], cs) else map_option (\<lambda>(x, y). (c # x, y)) (cutAt a cs))"

text \<open>The part after the last occurrence of a byte, or the whole string.\<close>

definition afterLast :: "char \<Rightarrow> string \<Rightarrow> string" where
  "afterLast a s = last (splitOn a s)"

text \<open>\<open>strings.TrimSpace\<close>: the UTF-8 encodings of the characters of \<open>unicode.IsSpace\<close>.\<close>

definition byte :: "nat \<Rightarrow> char" where
  "byte n = char_of n"

definition space_encodings :: "string list" where
  "space_encodings =
     map (\<lambda>n. [byte n]) [9, 10, 11, 12, 13, 32]
     @ map (map byte) ([[194, 133], [194, 160], [225, 154, 128]]
     @ map (\<lambda>n. [226, 128, n]) ([128..<139] @ [168, 169, 175])
     @ [[226, 129, 159], [227, 128, 128]])"

lemma space_encodings_not_Nil: "p \<in> set space_encodings \<Longrightarrow> p \<noteq> []"
  by (auto simp: space_encodings_def)

function trimLeft :: "string \<Rightarrow> string" where
  "trimLeft s = (case find (\<lambda>p. prefix p s) space_encodings of
       None \<Rightarrow> s | Some p \<Rightarrow> trimLeft (drop (length p) s))"
  by pat_completeness auto
termination
proof (relation "measure length")
  fix s p assume "find (\<lambda>p. prefix p s) space_encodings = Some p"
  then have "p \<in> set space_encodings" "prefix p s" by (auto simp: find_Some_iff)
  then show "(drop (length p) s, s) \<in> measure length"
    using space_encodings_not_Nil [of p] by (cases p; cases s) auto
qed simp

declare trimLeft.simps [simp del]

function trimRight :: "string \<Rightarrow> string" where
  "trimRight s = (case find (\<lambda>p. suffix p s) space_encodings of
       None \<Rightarrow> s | Some p \<Rightarrow> trimRight (take (length s - length p) s))"
  by pat_completeness auto
termination
proof (relation "measure length")
  fix s p assume "find (\<lambda>p. suffix p s) space_encodings = Some p"
  then have "p \<in> set space_encodings" "suffix p s" by (auto simp: find_Some_iff)
  then show "(take (length s - length p) s, s) \<in> measure length"
    using space_encodings_not_Nil [of p] by (cases p; cases s) auto
qed simp

declare trimRight.simps [simp del]

definition trimSpace :: "string \<Rightarrow> string" where
  "trimSpace s = trimRight (trimLeft s)"

text \<open>A text between printable ASCII characters is trimmed already.\<close>

lemma space_ends:
  "p \<in> set space_encodings \<Longrightarrow>
     p \<noteq> [] \<and> (of_char (hd p) \<le> (32::nat) \<or> 128 \<le> (of_char (hd p) :: nat)) \<and> (of_char (last p) \<le> (32::nat) \<or> 128 \<le> (of_char (last p) :: nat))"
proof -
  have "list_all (\<lambda>p. p \<noteq> [] \<and> (of_char (hd p) \<le> (32::nat) \<or> 128 \<le> (of_char (hd p) :: nat))
      \<and> (of_char (last p) \<le> (32::nat) \<or> 128 \<le> (of_char (last p) :: nat))) space_encodings"
    by (simp add: space_encodings_def byte_def upt_rec)
  then show "p \<in> set space_encodings \<Longrightarrow> ?thesis" unfolding list_all_iff by blast
qed

lemma trimSpace_plain:
  assumes s: "s \<noteq> []" and h: "(32::nat) < of_char (hd s)" "of_char (hd s) < (128::nat)"
    and l: "(32::nat) < of_char (last s)" "of_char (last s) < (128::nat)"
  shows "trimSpace s = s"
proof -
  have "\<not> prefix p s" if "p \<in> set space_encodings" for p
    using space_ends [OF that] s h by (cases p; cases s) auto
  then have "find (\<lambda>p. prefix p s) space_encodings = None" by (simp add: find_None_iff)
  then have "trimLeft s = s" by (subst trimLeft.simps) simp
  moreover have "\<not> suffix p s" if "p \<in> set space_encodings" for p
  proof
    assume "suffix p s"
    then have "last p = last s" using space_ends [OF that] by (auto simp: suffix_def)
    then show False using space_ends [OF that] l by auto
  qed
  then have "find (\<lambda>p. suffix p s) space_encodings = None" by (simp add: find_None_iff)
  then have "trimRight s = s" by (subst trimRight.simps) simp
  ultimately show ?thesis by (simp add: trimSpace_def)
qed

subsection \<open>UTF-8 decoding\<close>

text \<open>
  \<open>[]rune(s)\<close> and \<open>range s\<close>: an invalid or truncated encoding yields U+FFFD and skips one
  byte (\<open>utf8.DecodeRuneInString\<close>).
\<close>

definition cont :: "char \<Rightarrow> bool" where
  "cont c \<longleftrightarrow> of_char c div 64 = (2::nat)"

definition low6 :: "char \<Rightarrow> nat" where
  "low6 c = of_char c mod 64"

definition rune2 :: "char \<Rightarrow> char \<Rightarrow> nat option" where
  "rune2 a b = (let x = of_char a in
     if 194 \<le> x \<and> x < 224 \<and> cont b then Some ((x - 192) * 64 + low6 b) else None)"

definition rune3 :: "char \<Rightarrow> char \<Rightarrow> char \<Rightarrow> nat option" where
  "rune3 a b c = (let x = of_char a; r = (x - 224) * 4096 + low6 b * 64 + low6 c in
     if 224 \<le> x \<and> x < 240 \<and> cont b \<and> cont c \<and> 2048 \<le> r \<and> \<not> (55296 \<le> r \<and> r < 57344)
     then Some r else None)"

definition rune4 :: "char \<Rightarrow> char \<Rightarrow> char \<Rightarrow> char \<Rightarrow> nat option" where
  "rune4 a b c d = (let x = of_char a;
     r = (x - 240) * 262144 + low6 b * 4096 + low6 c * 64 + low6 d in
     if 240 \<le> x \<and> x < 245 \<and> cont b \<and> cont c \<and> cont d \<and> 65536 \<le> r \<and> r < 1114112
     then Some r else None)"

definition decodeRune :: "char \<Rightarrow> string \<Rightarrow> nat \<times> nat" where
  "decodeRune a s =
     (if of_char a < (128::nat) then (of_char a, 0)
      else (case s of
        b # c # d # _ \<Rightarrow>
          (case rune2 a b of Some r \<Rightarrow> (r, 1) | None \<Rightarrow>
          (case rune3 a b c of Some r \<Rightarrow> (r, 2) | None \<Rightarrow>
          (case rune4 a b c d of Some r \<Rightarrow> (r, 3) | None \<Rightarrow> (65533, 0))))
      | [b, c] \<Rightarrow>
          (case rune2 a b of Some r \<Rightarrow> (r, 1) | None \<Rightarrow>
          (case rune3 a b c of Some r \<Rightarrow> (r, 2) | None \<Rightarrow> (65533, 0)))
      | [b] \<Rightarrow> (case rune2 a b of Some r \<Rightarrow> (r, 1) | None \<Rightarrow> (65533, 0))
      | [] \<Rightarrow> (65533, 0)))"

text \<open>\<^const>\<open>decodeRune\<close> gives the rune and how many further bytes it took.\<close>

function runes :: "string \<Rightarrow> nat list" where
  "runes [] = []"
| "runes (a # s) = (let (r, k) = decodeRune a s in r # runes (drop k s))"
  by pat_completeness auto
termination by (relation "measure length") auto

abbreviation ascii :: "string \<Rightarrow> bool" where
  "ascii s \<equiv> list_all (\<lambda>c. of_char c < (128::nat)) s"

lemma runes_ascii: "ascii s \<Longrightarrow> runes s = map of_char s"
  by (induction s) (auto simp: decodeRune_def)

lemma runes_ascii_append: "ascii s \<Longrightarrow> runes (s @ t) = map of_char s @ runes t"
  by (induction s) (auto simp: decodeRune_def)

lemma length_runes: "length (runes s) \<le> length s"
  by (induction s rule: runes.induct)
    (fastforce simp: le_Suc_eq split: prod.splits intro: le_trans)+

subsection \<open>Decimal integers\<close>

definition digit_char :: "nat \<Rightarrow> char" where
  "digit_char d = char_of (48 + d)"

definition is_digit :: "char \<Rightarrow> bool" where
  "is_digit c \<longleftrightarrow> 48 \<le> (of_char c :: nat) \<and> (of_char c :: nat) < 58"

fun nat_digits :: "nat \<Rightarrow> string" where
  "nat_digits n = (if n < 10 then [digit_char n] else nat_digits (n div 10) @ [digit_char (n mod 10)])"

declare nat_digits.simps [simp del]

text \<open>\<open>strconv.FormatInt(i, 10)\<close> and \<open>%d\<close>.\<close>

definition itoa :: "int \<Rightarrow> string" where
  "itoa i = (if i < 0 then ''-'' @ nat_digits (nat (- i)) else nat_digits (nat i))"

definition digits_value :: "string \<Rightarrow> nat" where
  "digits_value s = foldl (\<lambda>n c. 10 * n + (of_char c - 48)) 0 s"

definition min_int64 :: int where "min_int64 = - (2 ^ 63)"
definition max_int64 :: int where "max_int64 = 2 ^ 63 - 1"

text \<open>
  \<open>strconv.ParseInt(s, 10, 64)\<close> and, on the 64-bit platforms the releases target,
  \<open>strconv.Atoi\<close>: an optional sign, then digits only, in the range of a 64-bit integer.
\<close>

definition parseInt64 :: "string \<Rightarrow> int option" where
  "parseInt64 s =
     (let (neg, ds) = (case s of
          c # r \<Rightarrow> if c = CHR ''-'' then (True, r) else if c = CHR ''+'' then (False, r) else (False, s)
        | [] \<Rightarrow> (False, []))
      in if ds = [] \<or> \<not> list_all is_digit ds then None
         else let v = (if neg then - int (digits_value ds) else int (digits_value ds))
              in if min_int64 \<le> v \<and> v \<le> max_int64 then Some v else None)"

lemma of_char_digit [simp]: "d < 10 \<Longrightarrow> (of_char (digit_char d) :: nat) = 48 + d"
  by (simp add: digit_char_def)

lemma is_digit_digit_char [simp]: "d < 10 \<Longrightarrow> is_digit (digit_char d)"
  by (simp add: is_digit_def)

lemma nat_digits_digits: "list_all is_digit (nat_digits n)"
proof (induction n rule: nat_digits.induct)
  case (1 n)
  then show ?case by (subst nat_digits.simps) auto
qed

lemma nat_digits_not_Nil [simp]: "nat_digits n \<noteq> []"
  by (subst nat_digits.simps) simp

lemma digits_value_nat_digits [simp]: "digits_value (nat_digits n) = n"
proof (induction n rule: nat_digits.induct)
  case (1 n)
  then show ?case by (subst nat_digits.simps) (auto simp: digits_value_def)
qed

lemma hd_nat_digits: "is_digit (hd (nat_digits n))"
  using nat_digits_digits [of n] by (cases "nat_digits n") auto

lemma sign_not_digit [simp]: "\<not> is_digit (CHR ''-'')" "\<not> is_digit (CHR ''+'')"
  by (simp_all add: is_digit_def)

lemma parseInt64_itoa: "min_int64 \<le> i \<Longrightarrow> i \<le> max_int64 \<Longrightarrow> parseInt64 (itoa i) = Some i"
proof -
  assume r: "min_int64 \<le> i" "i \<le> max_int64"
  obtain c cs where d: "nat_digits (nat i) = c # cs" by (cases "nat_digits (nat i)") auto
  have "is_digit c" using hd_nat_digits [of "nat i"] d by simp
  then have "c \<noteq> CHR ''-''" "c \<noteq> CHR ''+''" by auto
  then show ?thesis
    using r d nat_digits_digits [of "nat i"] digits_value_nat_digits [of "nat i"]
      nat_digits_digits [of "nat (- i)"]
    by (auto simp: parseInt64_def itoa_def Let_def)
qed

lemma parseInt64_range: "parseInt64 s = Some i \<Longrightarrow> min_int64 \<le> i \<and> i \<le> max_int64"
  by (auto simp: parseInt64_def Let_def split: if_splits prod.splits)

lemma nat_digits_inj: "nat_digits m = nat_digits n \<Longrightarrow> m = n"
  by (metis digits_value_nat_digits)

end
