(* ===== verification/Glob.thy ===== *)
theory Glob
  imports GoStrings
begin

text \<open>
  \<open>internal/glob\<close>: the path and pointer glob matcher that the routing classifier and the
  coverage loop share. \<open>Match\<close> translates the pattern to an anchored regular expression: the
  loop over the pattern's bytes is \<open>globTokens\<close>, one token per regexp atom it writes, and
  \<open>MatchString\<close> of the compiled expression is the language of the token list.
\<close>

text \<open>
  The three atoms the loop writes: \<open>.*\<close> (which in Go does not match a newline), \<open>[^/]*\<close>
  (which does), and the quoted \<open>string(c)\<close> of one pattern byte \<open>c\<close>. Converting a byte to a
  string yields the UTF-8 text of the code point of that number, so the atom matches that one
  code point and, beyond ASCII, not the byte.
\<close>

datatype glob_token = AnyRun | SegRun | Lit nat

fun globTokens :: "string \<Rightarrow> glob_token list" where
  "globTokens [] = []"
| "globTokens (c # cs) =
     (if c = CHR ''*'' then
        (case cs of
           d # ds \<Rightarrow> if d = CHR ''*'' then AnyRun # globTokens ds else SegRun # globTokens cs
         | [] \<Rightarrow> [SegRun])
      else Lit (of_char c) # globTokens cs)"

fun matchTokens :: "glob_token list \<Rightarrow> nat list \<Rightarrow> bool" where
  "matchTokens [] xs \<longleftrightarrow> xs = []"
| "matchTokens (Lit r # ts) [] \<longleftrightarrow> False"
| "matchTokens (Lit r # ts) (x # xs) \<longleftrightarrow> x = r \<and> matchTokens ts xs"
| "matchTokens (AnyRun # ts) [] \<longleftrightarrow> matchTokens ts []"
| "matchTokens (AnyRun # ts) (x # xs) \<longleftrightarrow>
     matchTokens ts (x # xs) \<or> x \<noteq> 10 \<and> matchTokens (AnyRun # ts) xs"
| "matchTokens (SegRun # ts) [] \<longleftrightarrow> matchTokens ts []"
| "matchTokens (SegRun # ts) (x # xs) \<longleftrightarrow>
     matchTokens ts (x # xs) \<or> x \<noteq> 47 \<and> matchTokens (SegRun # ts) xs"

text \<open>\<open>glob.Match\<close> (the name \<open>Match\<close> is the policy's match record in this development).\<close>

definition globMatch :: "string \<Rightarrow> string \<Rightarrow> bool" where
  "globMatch pattern s = matchTokens (globTokens pattern) (runes s)"

subsection \<open>The declarative language of a pattern\<close>

fun tokenLang :: "glob_token \<Rightarrow> nat list \<Rightarrow> bool" where
  "tokenLang AnyRun w \<longleftrightarrow> 10 \<notin> set w"
| "tokenLang SegRun w \<longleftrightarrow> 47 \<notin> set w"
| "tokenLang (Lit r) w \<longleftrightarrow> w = [r]"

fun splits :: "glob_token list \<Rightarrow> nat list \<Rightarrow> bool" where
  "splits [] xs \<longleftrightarrow> xs = []"
| "splits (t # ts) xs \<longleftrightarrow> (\<exists>w v. xs = w @ v \<and> tokenLang t w \<and> splits ts v)"

lemma splits_run_Cons:
  assumes "tokenLang t = (\<lambda>w. c \<notin> set w)"
  shows "splits (t # ts) (x # xs) \<longleftrightarrow> splits ts (x # xs) \<or> x \<noteq> c \<and> splits (t # ts) xs"
proof
  assume "splits (t # ts) (x # xs)"
  then obtain w v where w: "x # xs = w @ v" "c \<notin> set w" "splits ts v"
    using assms by auto
  show "splits ts (x # xs) \<or> x \<noteq> c \<and> splits (t # ts) xs"
    using w assms by (cases w) auto
next
  assume "splits ts (x # xs) \<or> x \<noteq> c \<and> splits (t # ts) xs"
  then show "splits (t # ts) (x # xs)"
  proof
    assume "splits ts (x # xs)"
    then have "x # xs = [] @ (x # xs) \<and> c \<notin> set [] \<and> splits ts (x # xs)" by simp
    then show ?thesis using assms by (simp, blast)
  next
    assume "x \<noteq> c \<and> splits (t # ts) xs"
    then obtain w v where "xs = w @ v" "c \<notin> set w" "splits ts v" "x \<noteq> c"
      using assms by auto
    then have "x # xs = (x # w) @ v \<and> c \<notin> set (x # w) \<and> splits ts v" by simp
    then show ?thesis using assms by (simp, blast)
  qed
qed

lemma splits_AnyRun_Cons:
  "splits (AnyRun # ts) (x # xs) \<longleftrightarrow> splits ts (x # xs) \<or> x \<noteq> 10 \<and> splits (AnyRun # ts) xs"
  by (rule splits_run_Cons) (simp add: fun_eq_iff)

lemma splits_SegRun_Cons:
  "splits (SegRun # ts) (x # xs) \<longleftrightarrow> splits ts (x # xs) \<or> x \<noteq> 47 \<and> splits (SegRun # ts) xs"
  by (rule splits_run_Cons) (simp add: fun_eq_iff)

lemma matchTokens_splits: "matchTokens ts xs \<longleftrightarrow> splits ts xs"
proof (induction ts xs rule: matchTokens.induct)
  case (3 r ts x xs)
  show ?case by (auto simp: "3.IH")
next
  case (5 ts x xs)
  show ?case
    by (simp only: matchTokens.simps "5.IH" splits_AnyRun_Cons)
next
  case (7 ts x xs)
  show ?case
    by (simp only: matchTokens.simps "7.IH" splits_SegRun_Cons)
qed auto

lemma splits_append: "splits (ts @ us) xs \<longleftrightarrow> (\<exists>w v. xs = w @ v \<and> splits ts w \<and> splits us v)"
proof (induction ts arbitrary: xs)
  case (Cons t ts)
  show ?case
  proof
    assume "splits ((t # ts) @ us) xs"
    then obtain a b w v where "xs = a @ w @ v" "tokenLang t a" "splits ts w" "splits us v" "b = w @ v"
      using Cons.IH by auto
    then have "xs = (a @ w) @ v" "splits (t # ts) (a @ w)" "splits us v" by auto
    then show "\<exists>w v. xs = w @ v \<and> splits (t # ts) w \<and> splits us v" by blast
  next
    assume "\<exists>w v. xs = w @ v \<and> splits (t # ts) w \<and> splits us v"
    then obtain a b v where "xs = a @ (b @ v)" "tokenLang t a" "splits ts b" "splits us v" by auto
    then show "splits ((t # ts) @ us) xs" using Cons.IH by auto
  qed
qed simp

lemma globTokens_literal: "CHR ''*'' \<notin> set p \<Longrightarrow> globTokens p = map (\<lambda>c. Lit (of_char c)) p"
  by (induction p) auto

lemma splits_literal: "splits (map (\<lambda>c. Lit (of_char c)) p) xs \<longleftrightarrow> xs = map of_char p"
  by (induction p arbitrary: xs) auto

lemma globTokens_append:
  "CHR ''*'' \<notin> set p \<Longrightarrow> globTokens (p @ q) = map (\<lambda>c. Lit (of_char c)) p @ globTokens q"
  by (induction p) auto

subsection \<open>Runes of a string and its bytes\<close>

lemma decodeRune_ge: "\<not> of_char a < (128::nat) \<Longrightarrow> 128 \<le> fst (decodeRune a s)"
  by (auto simp: decodeRune_def rune2_def rune3_def rune4_def Let_def split: list.splits option.splits if_splits)

lemma runes_small_ascii: "list_all (\<lambda>r. r < 128) (runes s) \<Longrightarrow> ascii s"
proof (induction s rule: runes.induct)
  case (2 a s)
  obtain r k where rk: "decodeRune a s = (r, k)" by (cases "decodeRune a s")
  from "2.prems" rk have r: "r < 128" "list_all (\<lambda>r. r < 128) (runes (drop k s))" by auto
  have a: "of_char a < (128::nat)"
    using decodeRune_ge [of a s] rk r(1) by fastforce
  then have "k = 0" using rk by (simp add: decodeRune_def)
  with "2.IH" rk r a show ?case by auto
qed simp

lemma of_char_map_inj: "map (of_char :: char \<Rightarrow> nat) s = map of_char p \<Longrightarrow> s = p"
  by (induction s arbitrary: p) auto

lemma runes_eq_ascii_iff: "ascii p \<Longrightarrow> runes s = map of_char p \<longleftrightarrow> s = p"
proof
  assume p: "ascii p" and e: "runes s = map of_char p"
  have "list_all (\<lambda>r. r < 128) (runes s)" using p e by (simp add: list_all_iff)
  then have "ascii s" by (rule runes_small_ascii)
  then have "map (of_char :: char \<Rightarrow> nat) s = map of_char p" using e by (simp add: runes_ascii)
  then show "s = p" by (rule of_char_map_inj)
qed (simp add: runes_ascii)

lemma globMatch_literal:
  "ascii p \<Longrightarrow> CHR ''*'' \<notin> set p \<Longrightarrow> globMatch p s \<longleftrightarrow> s = p"
  by (simp add: globMatch_def globTokens_literal matchTokens_splits splits_literal runes_eq_ascii_iff)

lemma globMatch_prefix_any:
  assumes "ascii p" and "CHR ''*'' \<notin> set p"
  shows "globMatch (p @ ''**'') s \<longleftrightarrow> (\<exists>v. runes s = map of_char p @ v \<and> 10 \<notin> set v)"
  using assms
  by (auto simp: globMatch_def globTokens_append matchTokens_splits splits_append splits_literal)

lemma globMatch_one_segment:
  assumes "ascii p" and "CHR ''*'' \<notin> set p" and "ascii q" and "CHR ''*'' \<notin> set q"
    and "ascii m"
  shows "globMatch (p @ ''*'' @ q) (p @ m @ q) \<longleftrightarrow> CHR ''/'' \<notin> set m"
proof -
  have slash: "(47::nat) \<in> of_char ` set m \<longleftrightarrow> CHR ''/'' \<in> set m"
  proof -
    have "(47::nat) = of_char (CHR ''/'')" by simp
    then show ?thesis by (metis imageE image_eqI of_char_eq_iff)
  qed
  have tok: "globTokens (''*'' @ q) = SegRun # map (\<lambda>c. Lit (of_char c)) q"
    using assms(4) by (cases q) (auto simp: globTokens_literal)
  have "globMatch (p @ ''*'' @ q) (p @ m @ q) \<longleftrightarrow> (47::nat) \<notin> of_char ` set m"
    using assms tok
    by (auto simp: globMatch_def globTokens_append matchTokens_splits splits_append splits_literal
        runes_ascii list_all_append)
  then show ?thesis using slash by auto
qed

end
