(* ===== verification/Policy.thy ===== *)
theory Policy
  imports Glob
begin

text \<open>
  \<open>internal/core/policy\<close>: the authored contracts (merge policy, ruleset binding, config,
  pack, profile) as records, the loader's narrowing of file events, the provider-posture
  check and the covering set of profiles with its single-writer invariant. Effects, phases and
  change kinds are Go string types, so they stay strings here and the unknown-value branches
  of the code remain branches of the model.
\<close>

subsection \<open>Authored types (policy.go)\<close>

type_synonym effect = string
type_synonym phase = string

abbreviation EffectComment :: effect where "EffectComment \<equiv> ''comment''"
abbreviation EffectChallenge :: effect where "EffectChallenge \<equiv> ''challenge''"
abbreviation EffectBlock :: effect where "EffectBlock \<equiv> ''block''"
abbreviation EffectRequireReview :: effect where "EffectRequireReview \<equiv> ''require-review''"

abbreviation PhaseOff :: phase where "PhaseOff \<equiv> ''off''"
abbreviation PhaseObserve :: phase where "PhaseObserve \<equiv> ''observe''"
abbreviation PhaseEnforce :: phase where "PhaseEnforce \<equiv> ''enforce''"

record filesMatch =
  fm_paths :: "string list"

record valuesMatch =
  vm_paths :: "string list"
  vm_pointers :: "string list"

record fileEventsMatch =
  fe_paths :: "string list"
  fe_kinds :: "string list"

record valueChangesMatch =
  vc_paths :: "string list"
  vc_pointers :: "string list"
  vc_kinds :: "string list"

text \<open>A nil pointer is \<^const>\<open>None\<close>; the frozen schema allows exactly one domain to be set.\<close>

record matchDomain =
  m_files :: "filesMatch option"
  m_values :: "valuesMatch option"
  m_fileEvents :: "fileEventsMatch option"
  m_valueChanges :: "valueChangesMatch option"

record leaf =
  lf_cel :: string
  lf_message :: string

text \<open>
  \<open>AssertTree\<close> is a struct with four optional fields, not a tagged union: a hand-built tree may
  set none or several, and the walkers below read them in their own order. A nil slice is
  \<^const>\<open>None\<close>, an empty non-nil slice is \<open>Some []\<close>.
\<close>

datatype assertTree = AssertTree
  (at_leaf: "leaf option") (at_all: "assertTree list option")
  (at_any: "assertTree list option") (at_not: "assertTree option")

record prove =
  pv_obligation :: string
  pv_when :: assertTree

record onFailure =
  of_effect :: effect
  of_code :: string

record rule =
  r_name :: string
  r_phase :: phase
  r_match :: matchDomain
  r_prove :: "prove option"
  r_onFailure :: "onFailure option"
  r_effect :: effect
  r_message :: string
  r_points :: int

record mergePolicy =
  mp_name :: string
  mp_rules :: "rule list"

record binding =
  b_class :: string
  b_environment :: string
  b_packs :: "string list"
  b_threshold :: int
  b_require :: "string list"

record provider =
  p_type :: string
  p_url :: string
  p_failure :: string

record config =
  cfg_providers :: "provider assoc"
  cfg_profiles :: "string list"

record profile =
  pf_name :: string
  pf_writes :: bool
  pf_environments :: "string list"
  pf_classes :: "string list"

subsection \<open>Loading a merge policy (loader.go)\<close>

datatype policy_error =
    SchemaRejected
  | DecodeFailed
  | UnsupportedFileEventKind string nat string
  | OpenAuthorizationProvider string string string
  | UnknownProfile string
  | SingleWriterViolated string string nat

definition fileEventKindEmittable :: "string \<Rightarrow> bool" where
  "fileEventKindEmittable kind \<longleftrightarrow> kind = ''add'' \<or> kind = ''delete''"

text \<open>The loop over the decoded rules: the first un-emittable kind, with the rule's index.\<close>

fun narrowKinds :: "string \<Rightarrow> nat \<Rightarrow> string list \<Rightarrow> policy_error option" where
  "narrowKinds name i [] = None"
| "narrowKinds name i (k # ks) =
     (if \<not> fileEventKindEmittable k then Some (UnsupportedFileEventKind name i k)
      else narrowKinds name i ks)"

fun narrowFileEvents :: "nat \<Rightarrow> rule list \<Rightarrow> policy_error option" where
  "narrowFileEvents i [] = None"
| "narrowFileEvents i (r # rs) =
     (case m_fileEvents (r_match r) of
        None \<Rightarrow> narrowFileEvents (Suc i) rs
      | Some fe \<Rightarrow> (case narrowKinds (r_name r) i (fe_kinds fe) of
            Some e \<Rightarrow> Some e
          | None \<Rightarrow> narrowFileEvents (Suc i) rs))"

text \<open>
  \<open>LoadMergePolicy\<close>. The frozen JSON Schema check and the YAML decoder are third-party code,
  parameters here: \<open>validate raw\<close> is whether the schema accepts, \<open>decode raw\<close> the decoded value.
\<close>

definition loadMergePolicy ::
  "('raw \<Rightarrow> bool) \<Rightarrow> ('raw \<Rightarrow> mergePolicy option) \<Rightarrow> 'raw \<Rightarrow> policy_error + mergePolicy" where
  "loadMergePolicy validate decode raw =
     (if \<not> validate raw then Inl SchemaRejected
      else (case decode raw of
          None \<Rightarrow> Inl DecodeFailed
        | Some mp \<Rightarrow> (case narrowFileEvents 0 (mp_rules mp) of
              Some e \<Rightarrow> Inl e
            | None \<Rightarrow> Inr mp)))"

lemma narrowKinds_None_iff: "narrowKinds n i ks = None \<longleftrightarrow> (\<forall>k \<in> set ks. fileEventKindEmittable k)"
  by (induction ks) auto

lemma narrowKinds_Some: "narrowKinds n i ks = Some e \<Longrightarrow> \<exists>k \<in> set ks. \<not> fileEventKindEmittable k"
  using narrowKinds_None_iff [of n i ks] by auto

lemma narrowFileEvents_None_iff:
  "narrowFileEvents i rs = None \<longleftrightarrow>
     (\<forall>r \<in> set rs. \<forall>fe. m_fileEvents (r_match r) = Some fe \<longrightarrow>
        (\<forall>k \<in> set (fe_kinds fe). fileEventKindEmittable k))"
  by (induction rs arbitrary: i) (auto simp: narrowKinds_None_iff split: option.splits dest: narrowKinds_Some)

subsection \<open>Provider posture (provider.go)\<close>

definition is_word :: "char \<Rightarrow> bool" where
  "is_word c \<longleftrightarrow> (let n = of_char c :: nat in
     48 \<le> n \<and> n \<le> 57 \<or> 65 \<le> n \<and> n \<le> 90 \<or> 97 \<le> n \<and> n \<le> 122 \<or> n = 95)"

definition is_ident_start :: "char \<Rightarrow> bool" where
  "is_ident_start c \<longleftrightarrow> is_word c \<and> \<not> is_digit c"

text \<open>
  \<open>factRefRe.FindAllStringSubmatch\<close>: leftmost, non-overlapping matches of \<open>facts.\<close> at a word
  boundary followed by an identifier; the flag says whether the byte before is a word byte.
\<close>

function factRefs :: "bool \<Rightarrow> string \<Rightarrow> string list" where
  "factRefs pw [] = []"
| "factRefs pw (c # cs) =
     (let rest = drop 6 (c # cs); ident = takeWhile is_word rest in
      if \<not> pw \<and> prefix ''facts.'' (c # cs) \<and> rest \<noteq> [] \<and> is_ident_start (hd rest)
      then ident # factRefs True (drop (length ident) rest)
      else factRefs (is_word c) cs)"
  by pat_completeness auto
termination by (relation "measure (length \<circ> snd)") auto

text \<open>The recursive \<open>walk\<close> closure: every leaf of the tree, whichever fields are set.\<close>

function treeLeaves :: "assertTree \<Rightarrow> leaf list" where
  "treeLeaves (AssertTree l al an nt) =
     (case l of Some lf \<Rightarrow> [lf] | None \<Rightarrow> [])
     @ (case al of Some ts \<Rightarrow> concat (map treeLeaves ts) | None \<Rightarrow> [])
     @ (case an of Some ts \<Rightarrow> concat (map treeLeaves ts) | None \<Rightarrow> [])
     @ (case nt of Some t \<Rightarrow> treeLeaves t | None \<Rightarrow> [])"
  by pat_completeness auto
termination
  by (relation "measure size")
    (auto simp: less_Suc_eq_le dest!: size_list_estimation' [OF _ order_refl, of _ _ size])

definition providersReferenced :: "assertTree \<Rightarrow> string list" where
  "providersReferenced t = dedup (concat (map (\<lambda>l. factRefs False (lf_cel l)) (treeLeaves t)))"

text \<open>\<open>ValidateProviderPosture\<close>, with its two loops and early returns.\<close>

fun openProvider :: "config \<Rightarrow> string list \<Rightarrow> string option" where
  "openProvider cfg [] = None"
| "openProvider cfg (prov # provs) =
     (case map_of (cfg_providers cfg) prov of
        None \<Rightarrow> openProvider cfg provs
      | Some p \<Rightarrow> if p_failure p = ''open'' then Some prov else openProvider cfg provs)"

fun postureRules :: "config \<Rightarrow> rule list \<Rightarrow> policy_error option" where
  "postureRules cfg [] = None"
| "postureRules cfg (r # rs) =
     (case (r_prove r, r_onFailure r) of
        (Some pv, Some onf) \<Rightarrow>
          if of_effect onf \<noteq> EffectRequireReview then postureRules cfg rs
          else (case openProvider cfg (providersReferenced (pv_when pv)) of
              Some prov \<Rightarrow> Some (OpenAuthorizationProvider prov (pv_obligation pv) (r_name r))
            | None \<Rightarrow> postureRules cfg rs)
      | _ \<Rightarrow> postureRules cfg rs)"

definition validateProviderPosture :: "config option \<Rightarrow> mergePolicy option \<Rightarrow> policy_error option" where
  "validateProviderPosture cfg mp =
     (case (cfg, mp) of (Some c, Some p) \<Rightarrow> postureRules c (mp_rules p) | _ \<Rightarrow> None)"

lemma openProvider_None_iff:
  "openProvider cfg ps = None \<longleftrightarrow>
     (\<forall>x \<in> set ps. \<forall>p. map_of (cfg_providers cfg) x = Some p \<longrightarrow> p_failure p \<noteq> ''open'')"
  by (induction ps) (auto split: option.splits)

lemma openProvider_Some:
  "openProvider cfg ps = Some x \<Longrightarrow> \<exists>x \<in> set ps. \<exists>p. map_of (cfg_providers cfg) x = Some p \<and> p_failure p = ''open''"
  by (induction ps) (auto split: option.splits if_splits)

lemma postureRules_None_iff:
  "postureRules cfg rs = None \<longleftrightarrow>
     (\<forall>r \<in> set rs. \<forall>pv onf. r_prove r = Some pv \<longrightarrow> r_onFailure r = Some onf \<longrightarrow>
        of_effect onf = EffectRequireReview \<longrightarrow>
        (\<forall>x \<in> set (providersReferenced (pv_when pv)). \<forall>p.
            map_of (cfg_providers cfg) x = Some p \<longrightarrow> p_failure p \<noteq> ''open''))"
  by (induction rs) (auto simp: openProvider_None_iff split: option.splits dest: openProvider_Some)

subsection \<open>Profiles (profile.go)\<close>

definition scopeCovers :: "string list \<Rightarrow> string \<Rightarrow> bool" where
  "scopeCovers scope v \<longleftrightarrow> (\<exists>s \<in> set scope. s = ''*'' \<or> s = v)"

definition covers :: "profile \<Rightarrow> string \<Rightarrow> string \<Rightarrow> bool" where
  "covers p env cls \<longleftrightarrow> scopeCovers (pf_environments p) env \<and> scopeCovers (pf_classes p) cls"

text \<open>The \<open>byName\<close> map: nil documents are skipped and a later document of a name wins.\<close>

definition profilesByName :: "profile option list \<Rightarrow> string \<Rightarrow> profile option" where
  "profilesByName ps =
     fold (\<lambda>p m. case p of None \<Rightarrow> m | Some q \<Rightarrow> m(pf_name q \<mapsto> q)) ps Map.empty"

fun coverWalk ::
  "(string \<Rightarrow> profile option) \<Rightarrow> string \<Rightarrow> string \<Rightarrow> string list \<Rightarrow> policy_error + profile list" where
  "coverWalk byName env cls [] = Inr []"
| "coverWalk byName env cls (ref # refs) =
     (case byName ref of
        None \<Rightarrow> Inl (UnknownProfile ref)
      | Some p \<Rightarrow> bind_res (coverWalk byName env cls refs)
          (\<lambda>ps. Inr (if covers p env cls then p # ps else ps)))"

definition coveringProfiles ::
  "string list \<Rightarrow> profile option list \<Rightarrow> string \<Rightarrow> string \<Rightarrow> policy_error + profile list" where
  "coveringProfiles precedence profiles env cls =
     bind_res (coverWalk (profilesByName profiles) env cls precedence)
       (\<lambda>covering. let writers = length (filter pf_writes covering) in
          if writers > 1 then Inl (SingleWriterViolated env cls writers) else Inr covering)"

lemma coverWalk_Inr:
  "coverWalk byName env cls refs = Inr ps \<Longrightarrow>
     ps = filter (\<lambda>p. covers p env cls) (map (the \<circ> byName) refs) \<and> (\<forall>r \<in> set refs. byName r \<noteq> None)"
  by (induction refs arbitrary: ps) (auto simp: bind_res_Inr_iff split: option.splits)

lemma coverWalk_dangling:
  "(\<exists>r \<in> set refs. byName r = None) \<Longrightarrow> \<exists>r. coverWalk byName env cls refs = Inl (UnknownProfile r) \<and> byName r = None"
proof (induction refs)
  case (Cons a refs)
  then show ?case by (cases "byName a") auto
qed simp

lemma coveringProfiles_Inr:
  "coveringProfiles prec profiles env cls = Inr ps \<Longrightarrow>
     ps = filter (\<lambda>p. covers p env cls) (map (the \<circ> profilesByName profiles) prec)
     \<and> length (filter pf_writes ps) \<le> 1"
  by (auto simp: coveringProfiles_def bind_res_Inr_iff Let_def split: if_splits dest: coverWalk_Inr)

end
