(* ===== verification/EvalLeaf.thy ===== *)
theory EvalLeaf
  imports Policy
begin

text \<open>
  \<open>internal/core/aggregate/evalinput.go\<close> and \<open>evaluate.go\<close>: the evaluation input, its
  conversion to the CEL activation and the single-leaf evaluation with its text-order guard.
  The CEL library (cel-go) is third-party code: the record \<open>cel_runtime\<close> holds its operations
  as parameters. What the guard needs of an evaluation is the sequence of operand values the
  library's decorator hook shows to it, in evaluation order, with the called function's name.
\<close>

subsection \<open>Decoded values (evalinput.go)\<close>

text \<open>A Go \<open>any\<close> decoded from JSON with \<open>UseNumber\<close>: a number is its literal.\<close>

datatype gval =
    GNil
  | GBool bool
  | GNum string
  | GStr string
  | GList "gval list"
  | GMap "(string \<times> gval) list"

record evalChange =
  ec_subject :: string
  ec_file :: string
  ec_path :: string
  ec_kind :: string
  ec_old :: gval
  ec_new :: gval
  ec_entry :: gval
  ec_oldEntry :: gval

record fact =
  f_state :: string
  f_sensitive :: bool
  f_observedAt :: string
  f_expiresAt :: string
  f_value :: gval
  f_reason :: string

record mrInfo =
  mr_author :: string
  mr_sourceBranch :: string
  mr_targetBranch :: string
  mr_labels :: "string list"

record evalInput =
  in_changes :: "evalChange list"
  in_facts :: "fact assoc assoc"
  in_mr :: mrInfo
  in_require :: "string list"

subsection \<open>CEL values and the CEL library\<close>

text \<open>
  The values the activation binds and an evaluation yields. A double is kept as the literal
  it was parsed from (its rounding happens inside the library); \<open>CErr\<close> is \<open>types.NewErr\<close>.
\<close>

datatype cval =
    CNull
  | CBool bool
  | CInt int
  | CDouble string
  | CStr string
  | CBytes string
  | CErr string
  | CList "cval list"
  | CMap "(string \<times> cval) list"

record cel_runtime =
  rt_newEnv :: "(string \<times> string) list \<Rightarrow> string option"
  rt_compile :: "(string \<times> string) list \<Rightarrow> string \<Rightarrow> string option"
  rt_program :: "nat \<Rightarrow> string \<Rightarrow> string option"
  rt_eval :: "string \<Rightarrow> cval \<Rightarrow> (string \<times> cval) list \<times> string option \<times> cval option"
  rt_parseFloat :: "string \<Rightarrow> bool"
  rt_fmtDouble :: "string \<Rightarrow> string"

text \<open>
  \<open>rt_newEnv\<close>, \<open>rt_compile\<close> and \<open>rt_program\<close> give the error, if any. \<open>rt_eval expr act\<close> gives
  the operand values of every call evaluated, the evaluation error and the result (\<^const>\<open>None\<close>
  for a nil result).
\<close>

definition celCostBudget :: nat where
  "celCostBudget = 1000000"

definition newEvalEnv :: "(string \<times> string) list" where
  "newEvalEnv =
     [(''old'', ''dyn''), (''new'', ''dyn''), (''entry'', ''dyn''), (''oldEntry'', ''dyn''),
      (''path'', ''string''), (''kind'', ''string''), (''file'', ''string''), (''env'', ''string''),
      (''changes'', ''list''), (''facts'', ''dyn''), (''mr'', ''dyn'')]"

subsection \<open>Binding the activation (evaluate.go)\<close>

fun toCEL :: "cel_runtime \<Rightarrow> gval \<Rightarrow> cval" where
  "toCEL rt GNil = CNull"
| "toCEL rt (GBool b) = CBool b"
| "toCEL rt (GStr s) = CStr s"
| "toCEL rt (GNum n) =
     (case parseInt64 n of
        Some i \<Rightarrow> CInt i
      | None \<Rightarrow> if rt_parseFloat rt n then CDouble n
          else CErr (''the number '' @ n @ '' is too large for assent to compare (it exceeds the representable numeric range)''))"
| "toCEL rt (GMap m) = CMap (map (\<lambda>(k, v). (k, toCEL rt v)) m)"
| "toCEL rt (GList vs) = CList (map (toCEL rt) vs)"

definition entryOr :: "gval \<Rightarrow> gval \<Rightarrow> gval" where
  "entryOr entry fallback = (if entry \<noteq> GNil then entry else fallback)"

abbreviation stateResolved :: string where
  "stateResolved \<equiv> ''resolved''"

definition factToCEL :: "cel_runtime \<Rightarrow> fact \<Rightarrow> cval" where
  "factToCEL rt f = CMap
     ([(''state'', CStr (f_state f)), (''sensitive'', CBool (f_sensitive f)),
       (''observedAt'', CStr (f_observedAt f))]
      @ (if f_expiresAt f \<noteq> [] then [(''expiresAt'', CStr (f_expiresAt f))] else [])
      @ (if f_reason f \<noteq> [] then [(''reason'', CStr (f_reason f))] else [])
      @ (if f_state f = stateResolved \<and> f_value f \<noteq> GNil
         then [(''value'', toCEL rt (f_value f))] else []))"

definition factsToCEL :: "cel_runtime \<Rightarrow> fact assoc assoc \<Rightarrow> cval" where
  "factsToCEL rt facts =
     CMap (map (\<lambda>(prov, byName). (prov, CMap (map (\<lambda>(name, f). (name, factToCEL rt f)) byName))) facts)"

definition mrToCEL :: "mrInfo \<Rightarrow> cval" where
  "mrToCEL mr = CMap
     [(''author'', CStr (mr_author mr)), (''sourceBranch'', CStr (mr_sourceBranch mr)),
      (''targetBranch'', CStr (mr_targetBranch mr)), (''labels'', CList (map CStr (mr_labels mr)))]"

definition changeToCEL :: "cel_runtime \<Rightarrow> evalChange \<Rightarrow> cval" where
  "changeToCEL rt c = CMap
     [(''subject'', CStr (ec_subject c)), (''file'', CStr (ec_file c)), (''path'', CStr (ec_path c)),
      (''kind'', CStr (ec_kind c)), (''old'', toCEL rt (ec_old c)), (''new'', toCEL rt (ec_new c))]"

definition bindLeafActivation :: "cel_runtime \<Rightarrow> evalInput \<Rightarrow> evalChange \<Rightarrow> string \<Rightarrow> cval" where
  "bindLeafActivation rt i ch envLabel = CMap
     [(''old'', toCEL rt (ec_old ch)),
      (''new'', toCEL rt (ec_new ch)),
      (''entry'', toCEL rt (entryOr (ec_entry ch) (ec_new ch))),
      (''oldEntry'', toCEL rt (entryOr (ec_oldEntry ch) (ec_old ch))),
      (''path'', CStr (ec_path ch)),
      (''kind'', CStr (ec_kind ch)),
      (''file'', CStr (ec_file ch)),
      (''env'', CStr envLabel),
      (''changes'', CList (map (changeToCEL rt) (in_changes i))),
      (''facts'', factsToCEL rt (in_facts i)),
      (''mr'', mrToCEL (in_mr i))]"

subsection \<open>The text-order guard\<close>

definition relationalOperators :: "(string \<times> string) list" where
  "relationalOperators =
     [(''_<_'', ''<''), (''_<=_'', ''<=''), (''_>_'', ''>''), (''_>=_'', ''>='')]"

record textOrderGuard =
  g_hit :: bool
  g_op :: string
  g_value :: string

definition newTextOrderGuard :: textOrderGuard where
  "newTextOrderGuard = \<lparr>g_hit = False, g_op = [], g_value = []\<rparr>"

definition guardRecord :: "string \<Rightarrow> string \<Rightarrow> textOrderGuard \<Rightarrow> textOrderGuard" where
  "guardRecord op v g = (if g_hit g then g else g\<lparr>g_hit := True, g_op := op, g_value := v\<rparr>)"

text \<open>\<open>textOrderWatch.Eval\<close>: only operands of relational calls are watched, and only text hits.\<close>

fun guardWatch :: "string \<times> cval \<Rightarrow> textOrderGuard \<Rightarrow> textOrderGuard" where
  "guardWatch (fn, v) g =
     (case map_of relationalOperators fn of
        None \<Rightarrow> g
      | Some op \<Rightarrow> (case v of
            CStr s \<Rightarrow> guardRecord op s g
          | CBytes s \<Rightarrow> guardRecord op s g
          | _ \<Rightarrow> g))"

datatype eval_error =
    CompileError string string
  | ProgramError string string
  | EvalError string string
  | ErrorValue string
  | TextOrdered string string string
  | NotBool string

definition guardErr :: "string \<Rightarrow> textOrderGuard \<Rightarrow> eval_error option" where
  "guardErr expr g = (if g_hit g then Some (TextOrdered expr (g_op g) (g_value g)) else None)"

definition evalLeaf ::
  "cel_runtime \<Rightarrow> evalInput \<Rightarrow> evalChange \<Rightarrow> string \<Rightarrow> string \<Rightarrow> eval_error + bool" where
  "evalLeaf rt i ch envLabel expr =
     (case rt_compile rt newEvalEnv expr of Some e \<Rightarrow> Inl (CompileError expr e) | None \<Rightarrow>
     (case rt_program rt celCostBudget expr of Some e \<Rightarrow> Inl (ProgramError expr e) | None \<Rightarrow>
     (let (trace, evalErr, out) = rt_eval rt expr (bindLeafActivation rt i ch envLabel) in
      case evalErr of Some e \<Rightarrow> Inl (EvalError expr e) | None \<Rightarrow>
      (case out of
         None \<Rightarrow> Inl (ErrorValue expr)
       | Some v \<Rightarrow>
           if (case v of CErr _ \<Rightarrow> True | _ \<Rightarrow> False) then Inl (ErrorValue expr)
           else (case guardErr expr (fold guardWatch trace newTextOrderGuard) of
               Some e \<Rightarrow> Inl e
             | None \<Rightarrow> (case v of CBool b \<Rightarrow> Inr b | _ \<Rightarrow> Inl (NotBool expr)))))))"

text \<open>\<open>CompileCheck\<close> (compilecheck.go), the lint's compile-only entry over the same environment.\<close>

definition compileCheck :: "cel_runtime \<Rightarrow> string \<Rightarrow> eval_error option" where
  "compileCheck rt expr =
     (case rt_newEnv rt newEvalEnv of Some e \<Rightarrow> Some (CompileError [] e) | None \<Rightarrow>
     (case rt_compile rt newEvalEnv expr of Some e \<Rightarrow> Some (CompileError expr e) | None \<Rightarrow>
     (case rt_program rt celCostBudget expr of Some e \<Rightarrow> Some (ProgramError expr e) | None \<Rightarrow> None)))"

text \<open>\<open>EvalScalar\<close> (evalscalar.go), used by message interpolation; it plants no guard.\<close>

definition evalScalar :: "cel_runtime \<Rightarrow> string \<Rightarrow> cval \<Rightarrow> eval_error + cval" where
  "evalScalar rt expr activation =
     (case compileCheck rt expr of Some e \<Rightarrow> Inl e | None \<Rightarrow>
     (let (trace, evalErr, out) = rt_eval rt expr activation in
      case evalErr of Some e \<Rightarrow> Inl (EvalError expr e) | None \<Rightarrow>
      (case out of
         None \<Rightarrow> Inl (ErrorValue expr)
       | Some v \<Rightarrow> if (case v of CErr _ \<Rightarrow> True | _ \<Rightarrow> False) then Inl (ErrorValue expr) else Inr v)))"

subsection \<open>Facts about the guard\<close>

definition text_value :: "cval \<Rightarrow> bool" where
  "text_value v \<longleftrightarrow> (\<exists>s. v = CStr s \<or> v = CBytes s)"

definition relational :: "string \<Rightarrow> bool" where
  "relational fn \<longleftrightarrow> fn \<in> fst ` set relationalOperators"

lemma guardWatch_keeps_hit: "g_hit g \<Longrightarrow> guardWatch x g = g"
  by (cases x) (auto simp: guardRecord_def split: option.splits cval.splits)

lemma fold_guardWatch_hit: "g_hit g \<Longrightarrow> fold guardWatch tr g = g"
  by (induction tr) (auto simp: guardWatch_keeps_hit)

lemma guardWatch_hit_iff:
  "g_hit (guardWatch (fn, v) g) \<longleftrightarrow> g_hit g \<or> relational fn \<and> text_value v"
proof -
  have "map_of relationalOperators fn = None \<longleftrightarrow> \<not> relational fn"
    by (simp add: relational_def map_of_eq_None_iff)
  then show ?thesis
    by (auto simp: guardRecord_def text_value_def split: option.splits cval.splits)
qed

lemma fold_guardWatch_iff:
  "g_hit (fold guardWatch tr g) \<longleftrightarrow> g_hit g \<or> (\<exists>(fn, v) \<in> set tr. relational fn \<and> text_value v)"
proof (induction tr arbitrary: g)
  case (Cons x tr)
  show ?case by (cases x) (auto simp: Cons.IH guardWatch_hit_iff simp del: guardWatch.simps)
qed simp

lemma evalLeaf_InrD:
  assumes "evalLeaf rt i ch env expr = Inr b"
  shows "rt_compile rt newEvalEnv expr = None" "rt_program rt celCostBudget expr = None"
    "\<exists>tr. rt_eval rt expr (bindLeafActivation rt i ch env) = (tr, None, Some (CBool b))
       \<and> (\<forall>(fn, v) \<in> set tr. \<not> (relational fn \<and> text_value v))"
proof -
  obtain tr ee out where e: "rt_eval rt expr (bindLeafActivation rt i ch env) = (tr, ee, out)"
    by (cases "rt_eval rt expr (bindLeafActivation rt i ch env)") auto
  show "rt_compile rt newEvalEnv expr = None" "rt_program rt celCostBudget expr = None"
    using assms by (auto simp: evalLeaf_def split: option.splits)
  show "\<exists>tr. rt_eval rt expr (bindLeafActivation rt i ch env) = (tr, None, Some (CBool b))
       \<and> (\<forall>(fn, v) \<in> set tr. \<not> (relational fn \<and> text_value v))"
    using assms e fold_guardWatch_iff [of tr newTextOrderGuard]
    by (auto simp: evalLeaf_def guardErr_def newTextOrderGuard_def
        split: option.splits cval.splits if_splits)
qed

text \<open>Two engines that agree on the activation a leaf sees give the leaf the same answer.\<close>

lemma evalLeaf_cong:
  "rt_eval rt expr (bindLeafActivation rt i ch env) = rt_eval rt expr (bindLeafActivation rt j ch env)
   \<Longrightarrow> evalLeaf rt i ch env expr = evalLeaf rt j ch env expr"
  by (simp only: evalLeaf_def)

end
