(* ===== verification/AssertWalk.thy ===== *)
theory AssertWalk
  imports EvalLeaf
begin

text \<open>
  \<open>internal/core/aggregate/asserttree.go\<close>: the tri-state walk of an assert tree and the
  expansion of a leaf's message. A walk yields \<open>(satisfied, message, error)\<close> as the code does.
  Below the walker stands its specification: Kleene's three-valued connectives over the leaf
  verdicts, which forget the message and so the order of the children.
\<close>

subsection \<open>Message expansion\<close>

text \<open>
  \<open>resolveActivationPath\<close>: dotted descent through maps; a map, list or nil is not printable.
\<close>

fun descend :: "cval \<Rightarrow> string list \<Rightarrow> cval option" where
  "descend cur [] = Some cur"
| "descend cur (seg # segs) =
     (case cur of
        CMap m \<Rightarrow> (case map_of m seg of None \<Rightarrow> None | Some nxt \<Rightarrow> descend nxt segs)
      | _ \<Rightarrow> None)"

definition resolveActivationPath :: "cval \<Rightarrow> string \<Rightarrow> cval option" where
  "resolveActivationPath act dotted =
     (case descend act (splitOn (CHR ''.'') dotted) of
        None \<Rightarrow> None
      | Some v \<Rightarrow> (case v of CMap _ \<Rightarrow> None | CList _ \<Rightarrow> None | CNull \<Rightarrow> None | _ \<Rightarrow> Some v))"

text \<open>\<open>fmt.Sprintf("%v", v)\<close> on the values a path can resolve to.\<close>

fun fmtV :: "cel_runtime \<Rightarrow> cval \<Rightarrow> string" where
  "fmtV rt (CBool b) = (if b then ''true'' else ''false'')"
| "fmtV rt (CInt i) = itoa i"
| "fmtV rt (CDouble d) = rt_fmtDouble rt d"
| "fmtV rt (CStr s) = s"
| "fmtV rt (CBytes b) = ''['' @ joinOn '' '' (map (\<lambda>c. itoa (int (of_char c))) b) @ '']''"
| "fmtV rt (CErr e) = e"
| "fmtV rt v = []"

text \<open>
  \<open>tmplPlaceholder.ReplaceAllStringFunc\<close> for the expression \<open>{{[^{}]*}}\<close>: at each position a
  match needs two opening braces, a run without braces and two closing braces; otherwise the
  scan moves one byte on.
\<close>

definition no_brace :: "char \<Rightarrow> bool" where
  "no_brace c \<longleftrightarrow> c \<noteq> CHR ''{'' \<and> c \<noteq> CHR ''}''"

function replacePlaceholders :: "(string \<Rightarrow> string) \<Rightarrow> string \<Rightarrow> string" where
  "replacePlaceholders f [] = []"
| "replacePlaceholders f (c # cs) =
     (let body = takeWhile no_brace (drop 2 (c # cs));
          rest = drop (2 + length body) (c # cs) in
      if prefix ''{{'' (c # cs) \<and> prefix ''}}'' rest
      then f body @ replacePlaceholders f (drop 2 rest)
      else c # replacePlaceholders f cs)"
  by pat_completeness auto
termination by (relation "measure (length \<circ> snd)") auto

text \<open>The closure: \<open>body\<close> is the token without its braces.\<close>

definition expandToken :: "cel_runtime \<Rightarrow> cval \<Rightarrow> string \<Rightarrow> string" where
  "expandToken rt act body =
     (let token = ''{{'' @ body @ ''}}''; path = trimSpace body in
      if path = [] then token
      else (case resolveActivationPath act path of None \<Rightarrow> token | Some v \<Rightarrow> fmtV rt v))"

definition expandMessage :: "cel_runtime \<Rightarrow> string \<Rightarrow> evalInput \<Rightarrow> evalChange \<Rightarrow> string \<Rightarrow> string" where
  "expandMessage rt msg i ch envLabel =
     (if \<not> containsSub msg ''{{'' then msg
      else replacePlaceholders (expandToken rt (bindLeafActivation rt i ch envLabel)) msg)"

subsection \<open>The walker\<close>

datatype walk_error =
    LeafError eval_error
  | TooDeep
  | EmptyAll
  | EmptyAny
  | NoBranch

type_synonym tri = "bool \<times> string \<times> walk_error option"

definition maxAssertDepth :: nat where
  "maxAssertDepth = 32"

text \<open>
  The loop over the children of \<open>all\<close>: the accumulators are the first clean-false message and
  the first error with its message, and the verdict after the loop lets false dominate.
\<close>

record allAcc =
  aa_false :: "string option"
  aa_err :: "(walk_error \<times> string) option"

definition allInit :: allAcc where
  "allInit = \<lparr>aa_false = None, aa_err = None\<rparr>"

fun allStep :: "tri \<Rightarrow> allAcc \<Rightarrow> allAcc" where
  "allStep (s, m, Some e) acc =
     (if aa_err acc = None then acc\<lparr>aa_err := Some (e, m)\<rparr> else acc)"
| "allStep (False, m, None) acc =
     (if aa_false acc = None then acc\<lparr>aa_false := Some m\<rparr> else acc)"
| "allStep (True, m, None) acc = acc"

definition allVerdict :: "allAcc \<Rightarrow> tri" where
  "allVerdict acc =
     (case aa_false acc of Some m \<Rightarrow> (False, m, None) | None \<Rightarrow>
     (case aa_err acc of Some (e, m) \<Rightarrow> (False, m, Some e) | None \<Rightarrow> (True, [], None)))"

text \<open>The loop of \<open>any\<close> returns at the first satisfied child; then an error dominates.\<close>

fun anyLoop :: "tri list \<Rightarrow> allAcc \<Rightarrow> tri" where
  "anyLoop [] acc =
     (case aa_err acc of Some (e, m) \<Rightarrow> (False, m, Some e) | None \<Rightarrow>
     (case aa_false acc of Some m \<Rightarrow> (False, m, None) | None \<Rightarrow> (False, [], None)))"
| "anyLoop ((s, m, None) # rs) acc =
     (if s then (True, [], None) else anyLoop rs (allStep (s, m, None) acc))"
| "anyLoop ((s, m, Some e) # rs) acc = anyLoop rs (allStep (s, m, Some e) acc)"

fun notVerdict :: "tri \<Rightarrow> tri" where
  "notVerdict (s, m, Some e) = (False, m, Some e)"
| "notVerdict (s, m, None) = (if s then (False, m, None) else (True, [], None))"

definition walkLeaf :: "cel_runtime \<Rightarrow> evalInput \<Rightarrow> evalChange \<Rightarrow> string \<Rightarrow> leaf \<Rightarrow> tri" where
  "walkLeaf rt i ch envLabel l =
     (case evalLeaf rt i ch envLabel (lf_cel l) of
        Inl e \<Rightarrow> (False, expandMessage rt (lf_message l) i ch envLabel, Some (LeafError e))
      | Inr b \<Rightarrow> if b then (True, [], None)
          else (False, expandMessage rt (lf_message l) i ch envLabel, None))"

function walkAssertTreeDepth ::
  "cel_runtime \<Rightarrow> evalInput \<Rightarrow> evalChange \<Rightarrow> string \<Rightarrow> assertTree \<Rightarrow> nat \<Rightarrow> tri" where
  "walkAssertTreeDepth rt i ch envLabel (AssertTree l al an nt) depth =
     (if depth > maxAssertDepth then (False, [], Some TooDeep)
      else case l of Some lf \<Rightarrow> walkLeaf rt i ch envLabel lf | None \<Rightarrow>
      (case al of Some ts \<Rightarrow>
          if ts = [] then (False, [], Some EmptyAll)
          else allVerdict (fold allStep
            (map (\<lambda>t. walkAssertTreeDepth rt i ch envLabel t (depth + 1)) ts) allInit)
      | None \<Rightarrow>
      (case an of Some ts \<Rightarrow>
          if ts = [] then (False, [], Some EmptyAny)
          else anyLoop (map (\<lambda>t. walkAssertTreeDepth rt i ch envLabel t (depth + 1)) ts) allInit
      | None \<Rightarrow>
      (case nt of Some t \<Rightarrow> notVerdict (walkAssertTreeDepth rt i ch envLabel t (depth + 1))
      | None \<Rightarrow> (False, [], Some NoBranch)))))"
  by pat_completeness auto
termination
  by (relation "measure (\<lambda>(rt, i, ch, envLabel, t, depth). size t)")
    (auto simp: less_Suc_eq_le dest!: size_list_estimation' [OF _ order_refl, of _ _ size])

declare walkAssertTreeDepth.simps [simp del]

definition walkAssertTree ::
  "cel_runtime \<Rightarrow> evalInput \<Rightarrow> evalChange \<Rightarrow> string \<Rightarrow> assertTree \<Rightarrow> tri" where
  "walkAssertTree rt i ch envLabel t = walkAssertTreeDepth rt i ch envLabel t 0"

subsection \<open>Specification: three-valued logic\<close>

datatype kleene = KTrue | KFalse | KUnknown

fun verdict :: "tri \<Rightarrow> kleene" where
  "verdict (s, m, Some e) = KUnknown"
| "verdict (s, m, None) = (if s then KTrue else KFalse)"

definition kAll :: "kleene set \<Rightarrow> kleene" where
  "kAll vs = (if KFalse \<in> vs then KFalse else if KUnknown \<in> vs then KUnknown else KTrue)"

definition kAny :: "kleene set \<Rightarrow> kleene" where
  "kAny vs = (if KTrue \<in> vs then KTrue else if KUnknown \<in> vs then KUnknown else KFalse)"

fun kNot :: "kleene \<Rightarrow> kleene" where
  "kNot KTrue = KFalse" | "kNot KFalse = KTrue" | "kNot KUnknown = KUnknown"

function kleeneTree :: "(leaf \<Rightarrow> kleene) \<Rightarrow> nat \<Rightarrow> assertTree \<Rightarrow> kleene" where
  "kleeneTree lv d (AssertTree l al an nt) =
     (if d > maxAssertDepth then KUnknown
      else case l of Some lf \<Rightarrow> lv lf | None \<Rightarrow>
      (case al of Some ts \<Rightarrow> if ts = [] then KUnknown else kAll (set (map (kleeneTree lv (d + 1)) ts))
      | None \<Rightarrow>
      (case an of Some ts \<Rightarrow> if ts = [] then KUnknown else kAny (set (map (kleeneTree lv (d + 1)) ts))
      | None \<Rightarrow>
      (case nt of Some t \<Rightarrow> kNot (kleeneTree lv (d + 1) t) | None \<Rightarrow> KUnknown))))"
  by pat_completeness auto
termination
  by (relation "measure (\<lambda>(lv, d, t). size t)")
    (auto simp: less_Suc_eq_le dest!: size_list_estimation' [OF _ order_refl, of _ _ size])

declare kleeneTree.simps [simp del]

lemma allStep_cases:
  "aa_err (allStep r acc) = None \<longleftrightarrow> aa_err acc = None \<and> verdict r \<noteq> KUnknown"
  "aa_false (allStep r acc) = None \<longleftrightarrow> aa_false acc = None \<and> verdict r \<noteq> KFalse"
  by (cases "(r, acc)" rule: allStep.cases; simp)+

lemma fold_allStep:
  "aa_err (fold allStep rs acc) = None \<longleftrightarrow> aa_err acc = None \<and> KUnknown \<notin> verdict ` set rs"
  "aa_false (fold allStep rs acc) = None \<longleftrightarrow> aa_false acc = None \<and> KFalse \<notin> verdict ` set rs"
  by (induction rs arbitrary: acc) (auto simp: allStep_cases)

lemma verdict_allVerdict:
  "verdict (allVerdict acc) =
     (if aa_false acc \<noteq> None then KFalse else if aa_err acc \<noteq> None then KUnknown else KTrue)"
  by (auto simp: allVerdict_def split: option.splits)

lemma verdict_all: "verdict (allVerdict (fold allStep rs allInit)) = kAll (verdict ` set rs)"
  by (auto simp: verdict_allVerdict fold_allStep kAll_def allInit_def)

lemma verdict_anyLoop:
  "verdict (anyLoop rs acc) =
     (if KTrue \<in> verdict ` set rs then KTrue
      else if aa_err acc \<noteq> None \<or> KUnknown \<in> verdict ` set rs then KUnknown else KFalse)"
proof (induction rs acc rule: anyLoop.induct)
  case (1 acc)
  then show ?case by (auto split: option.splits)
next
  case (2 s m rs acc)
  then show ?case by (auto simp: allStep_cases)
next
  case (3 s m e rs acc)
  then show ?case by (auto simp: allStep_cases)
qed

lemma verdict_any: "verdict (anyLoop rs allInit) = kAny (verdict ` set rs)"
  by (auto simp: verdict_anyLoop kAny_def allInit_def)

lemma verdict_not: "verdict (notVerdict r) = kNot (verdict r)"
  by (cases r rule: notVerdict.cases) auto

definition leafVerdict :: "cel_runtime \<Rightarrow> evalInput \<Rightarrow> evalChange \<Rightarrow> string \<Rightarrow> leaf \<Rightarrow> kleene" where
  "leafVerdict rt i ch envLabel l =
     (case evalLeaf rt i ch envLabel (lf_cel l) of
        Inl _ \<Rightarrow> KUnknown | Inr True \<Rightarrow> KTrue | Inr False \<Rightarrow> KFalse)"

lemma verdict_walkLeaf: "verdict (walkLeaf rt i ch env l) = leafVerdict rt i ch env l"
  by (auto simp: walkLeaf_def leafVerdict_def split: sum.splits bool.splits)

lemma verdict_walk:
  "verdict (walkAssertTreeDepth rt i ch env t d) = kleeneTree (leafVerdict rt i ch env) d t"
proof (induction rt i ch env t d rule: walkAssertTreeDepth.induct)
  case (1 rt i ch env l al an nt d)
  show ?case
  proof (cases "d > maxAssertDepth \<or> l \<noteq> None")
    case True
    then show ?thesis
      by (auto simp: walkAssertTreeDepth.simps kleeneTree.simps verdict_walkLeaf)
  next
    case False
    then have d: "\<not> d > maxAssertDepth" and l: "l = None" by auto
    note ih = "1.IH" [OF d l]
    show ?thesis
    proof (cases al)
      case (Some ts)
      have "verdict ` set (map (\<lambda>t. walkAssertTreeDepth rt i ch env t (d + 1)) ts)
          = set (map (kleeneTree (leafVerdict rt i ch env) (d + 1)) ts)" if "ts \<noteq> []"
        using ih(3) [OF Some that] by (auto simp: image_image)
      then show ?thesis using d l Some
        by (simp add: walkAssertTreeDepth.simps kleeneTree.simps
            verdict_all del: set_map)
    next
      case al: None
      show ?thesis
      proof (cases an)
        case (Some ts)
        have "verdict ` set (map (\<lambda>t. walkAssertTreeDepth rt i ch env t (d + 1)) ts)
            = set (map (kleeneTree (leafVerdict rt i ch env) (d + 1)) ts)" if "ts \<noteq> []"
          using ih(2) [OF al Some that] by (auto simp: image_image)
        then show ?thesis using d l al Some
          by (simp add: walkAssertTreeDepth.simps kleeneTree.simps
              verdict_any del: set_map)
      next
        case an: None
        then show ?thesis using d l al ih(1) [OF al an]
          by (cases nt) (simp_all add: walkAssertTreeDepth.simps
              kleeneTree.simps verdict_not)
      qed
    qed
  qed
qed

text \<open>A satisfied walk carries no error and no message; a walk is never both.\<close>

lemma notVerdict_True: "notVerdict r = (True, m, e) \<Longrightarrow> m = [] \<and> e = None"
  by (cases r rule: notVerdict.cases) (auto split: if_splits)

lemma anyLoop_True: "anyLoop rs acc = (True, m, e) \<Longrightarrow> m = [] \<and> e = None"
  by (induction rs acc rule: anyLoop.induct) (auto split: option.splits if_splits)

lemma allVerdict_True: "allVerdict acc = (True, m, e) \<Longrightarrow> m = [] \<and> e = None"
  by (auto simp: allVerdict_def split: option.splits)

lemma walk_satisfied:
  "walkAssertTreeDepth rt i ch env t d = (True, m, e) \<Longrightarrow> m = [] \<and> e = None"
  by (cases t) (auto simp: walkAssertTreeDepth.simps walkLeaf_def split: if_splits option.splits sum.splits
      dest: notVerdict_True anyLoop_True allVerdict_True)

end
