(* ===== verification/Approval.thy ===== *)
theory Approval
  imports AssertWalk
begin

text \<open>
  \<open>internal/core/aggregate/approval.go\<close>: when injected approval evidence satisfies a
  require-review obligation. The evidence map of the code has pointer values, so a missing
  subject and a nil pointer are both \<^const>\<open>None\<close>.
\<close>

record approver =
  ap_id :: string
  ap_username :: string
  ap_isAuthor :: bool

record approvalEvidence =
  ae_verifyingCapability :: string
  ae_approvalsRequired :: int
  ae_approvedBy :: "approver list"
  ae_eligibility :: "string list"
  ae_pinSourceSha :: string
  ae_expired :: bool

record approvalContext =
  ac_sourceSha :: string
  ac_evidence :: "string \<Rightarrow> approvalEvidence option"

definition capabilityGapNone :: string where
  "capabilityGapNone = ''approval-capability-none''"

definition evidenceFor :: "approvalContext option \<Rightarrow> string \<Rightarrow> approvalEvidence option" where
  "evidenceFor a subj = (case a of None \<Rightarrow> None | Some c \<Rightarrow> ac_evidence c subj)"

definition sourceSha :: "approvalContext option \<Rightarrow> string" where
  "sourceSha a = (case a of None \<Rightarrow> [] | Some c \<Rightarrow> ac_sourceSha c)"

definition countsAsApprover :: "approver \<Rightarrow> string list \<Rightarrow> string \<Rightarrow> bool" where
  "countsAsApprover a eligible mrAuthor =
     (if ap_isAuthor a then False
      else if mrAuthor \<noteq> [] \<and> (ap_username a = mrAuthor \<or> ap_id a = mrAuthor) then False
      else ap_id a \<in> set eligible)"

text \<open>The \<open>distinct\<close> map of the code: the ids of the counting approvers, without repetition.\<close>

definition distinctApprovers :: "approvalEvidence \<Rightarrow> string \<Rightarrow> string list" where
  "distinctApprovers ev mrAuthor =
     remdups (map ap_id (filter (\<lambda>a. countsAsApprover a (ae_eligibility ev) mrAuthor) (ae_approvedBy ev)))"

text \<open>\<open>(satisfied, capabilityGap)\<close>, with the early returns in the code's order.\<close>

definition approvalSatisfies :: "approvalEvidence option \<Rightarrow> string \<Rightarrow> string \<Rightarrow> bool \<times> bool" where
  "approvalSatisfies e sha mrAuthor =
     (case e of
        None \<Rightarrow> (False, False)
      | Some ev \<Rightarrow>
          if ae_verifyingCapability ev = ''none'' then (False, True)
          else if ae_verifyingCapability ev \<noteq> ''approval-rules-api''
               \<and> ae_verifyingCapability ev \<noteq> ''codeowners'' then (False, False)
          else if ae_expired ev then (False, False)
          else if sha = [] \<or> ae_pinSourceSha ev = [] \<or> ae_pinSourceSha ev \<noteq> sha then (False, False)
          else if ae_approvalsRequired ev < 1 then (False, False)
          else if int (length (distinctApprovers ev mrAuthor)) < ae_approvalsRequired ev then (False, False)
          else (True, False))"

lemma approvalSatisfies_gap:
  "approvalSatisfies e sha author = (s, True) \<Longrightarrow> \<not> s"
  by (auto simp: approvalSatisfies_def split: option.splits if_splits)

lemma set_distinctApprovers:
  "set (distinctApprovers ev author) =
     {ap_id a | a. a \<in> set (ae_approvedBy ev) \<and> countsAsApprover a (ae_eligibility ev) author}"
  by (auto simp: distinctApprovers_def)

text \<open>
  The contract of a satisfied obligation: a real capability, evidence observed at the
  evaluated commit and not expired, and enough different people, all forge-proven eligible
  and none of them the author.
\<close>

definition approvalContract :: "approvalEvidence \<Rightarrow> string \<Rightarrow> string \<Rightarrow> bool" where
  "approvalContract ev sha author \<longleftrightarrow>
     ae_verifyingCapability ev \<in> {''approval-rules-api'', ''codeowners''}
     \<and> \<not> ae_expired ev \<and> sha \<noteq> [] \<and> ae_pinSourceSha ev = sha
     \<and> 1 \<le> ae_approvalsRequired ev
     \<and> (\<exists>ids. distinct ids \<and> int (length ids) \<ge> ae_approvalsRequired ev
          \<and> (\<forall>x \<in> set ids. x \<in> set (ae_eligibility ev) \<and> (author \<noteq> [] \<longrightarrow> x \<noteq> author)
               \<and> (\<exists>a \<in> set (ae_approvedBy ev). ap_id a = x \<and> \<not> ap_isAuthor a
                    \<and> (author \<noteq> [] \<longrightarrow> ap_username a \<noteq> author))))"

lemma contract_ids_counted:
  assumes "x \<in> set (ae_eligibility ev)" "author \<noteq> [] \<longrightarrow> x \<noteq> author"
    and "\<exists>a \<in> set (ae_approvedBy ev). ap_id a = x \<and> \<not> ap_isAuthor a
           \<and> (author \<noteq> [] \<longrightarrow> ap_username a \<noteq> author)"
  shows "x \<in> set (distinctApprovers ev author)"
  using assms by (auto simp: set_distinctApprovers countsAsApprover_def)

lemma distinct_length_le: "distinct xs \<Longrightarrow> set xs \<subseteq> set ys \<Longrightarrow> distinct ys \<Longrightarrow> length xs \<le> length ys"
  by (metis List.finite_set card_mono distinct_card)

lemma approvalSatisfies_iff_contract:
  "fst (approvalSatisfies (Some ev) sha author) \<longleftrightarrow> approvalContract ev sha author"
proof
  assume s: "fst (approvalSatisfies (Some ev) sha author)"
  let ?ids = "distinctApprovers ev author"
  have "\<forall>x \<in> set ?ids. x \<in> set (ae_eligibility ev) \<and> (author \<noteq> [] \<longrightarrow> x \<noteq> author)
               \<and> (\<exists>a \<in> set (ae_approvedBy ev). ap_id a = x \<and> \<not> ap_isAuthor a
                    \<and> (author \<noteq> [] \<longrightarrow> ap_username a \<noteq> author))"
    by (auto simp: set_distinctApprovers countsAsApprover_def split: if_splits)
  moreover have "distinct ?ids" by (simp add: distinctApprovers_def)
  ultimately show "approvalContract ev sha author"
    using s by (auto simp: approvalSatisfies_def approvalContract_def not_less split: if_splits
        intro!: exI [of _ ?ids])
next
  assume c: "approvalContract ev sha author"
  then obtain ids where ids: "distinct ids" "int (length ids) \<ge> ae_approvalsRequired ev"
    "set ids \<subseteq> set (distinctApprovers ev author)"
    unfolding approvalContract_def using contract_ids_counted [of _ ev author] by (metis subsetI)
  have "length ids \<le> length (distinctApprovers ev author)"
    by (rule distinct_length_le) (use ids in \<open>auto simp: distinctApprovers_def\<close>)
  then show "fst (approvalSatisfies (Some ev) sha author)"
    using c ids(2) by (auto simp: approvalSatisfies_def approvalContract_def)
qed

end
