(* ===== verification/Coverage.thy ===== *)
theory Coverage
  imports Approval
begin

text \<open>
  \<open>internal/core/aggregate/{aggregate,risk,coverage}.go\<close>: the decision lattice, the effect
  tables, matching, and the obligation-coverage loop. The loop's local variables are the
  record \<open>coverState\<close>, threaded through one step function per loop body.
\<close>

subsection \<open>Decisions, findings, results (aggregate.go)\<close>

datatype decision = APPROVE | REVIEW | BLOCK

fun severity :: "decision \<Rightarrow> nat" where
  "severity BLOCK = 2"
| "severity REVIEW = 1"
| "severity APPROVE = 0"

definition worse :: "decision \<Rightarrow> decision \<Rightarrow> decision" where
  "worse a b = (if severity b > severity a then b else a)"

record finding =
  fd_rule :: string
  fd_obligation :: string
  fd_effect :: effect
  fd_subject :: string
  fd_points :: int
  fd_code :: string
  fd_message :: string

record result =
  res_decision :: decision
  res_findings :: "finding list"
  res_observed :: "finding list"
  res_gaps :: "string \<Rightarrow> string option"
  res_profile :: string
  res_writeAllowed :: bool

abbreviation ruleUndecidable :: string where "ruleUndecidable \<equiv> ''aggregate.changeset''"
abbreviation ruleUncovered :: string where "ruleUncovered \<equiv> ''aggregate.uncovered''"
abbreviation ruleUnmatchedDelete :: string where "ruleUnmatchedDelete \<equiv> ''aggregate.unmatchedDelete''"
abbreviation ruleUnmatchedEdit :: string where "ruleUnmatchedEdit \<equiv> ''aggregate.unmatchedEdit''"
abbreviation ReservedPolicyClass :: string where "ReservedPolicyClass \<equiv> ''assent-policy''"

definition effectDecision :: "effect \<Rightarrow> decision" where
  "effectDecision e = (if e = EffectBlock then BLOCK else REVIEW)"

definition findingKey :: "finding \<Rightarrow> string \<times> string \<times> string \<times> string \<times> string" where
  "findingKey f = (fd_subject f, fd_rule f, fd_obligation f, fd_code f, fd_effect f)"

definition sortFindings :: "finding list \<Rightarrow> finding list" where
  "sortFindings fs = sort_key findingKey fs"

subsection \<open>Risk (risk.go)\<close>

text \<open>Go's \<open>int\<close> has 64 bits on the released platforms and wraps around.\<close>

definition wrap64 :: "int \<Rightarrow> int" where
  "wrap64 i = signed_take_bit 63 i"

definition firingEffectDecision :: "effect \<Rightarrow> decision" where
  "firingEffectDecision e = (if e = EffectComment then APPROVE else effectDecision e)"

definition riskDecision :: "int \<Rightarrow> int \<Rightarrow> decision" where
  "riskDecision points threshold = (if points > threshold then REVIEW else APPROVE)"

subsection \<open>Phases and matching (coverage.go)\<close>

definition phaseRank :: "phase \<Rightarrow> nat" where
  "phaseRank p = (if p = PhaseObserve then 1 else if p = PhaseEnforce then 2 else 0)"

definition effectivePhase :: "phase \<Rightarrow> phase \<Rightarrow> phase" where
  "effectivePhase rule ceiling = (if phaseRank ceiling < phaseRank rule then ceiling else rule)"

abbreviation kindModify :: string where "kindModify \<equiv> ''modify''"
abbreviation kindDelete :: string where "kindDelete \<equiv> ''delete''"

definition matchesAnyGlob :: "string list \<Rightarrow> string \<Rightarrow> bool" where
  "matchesAnyGlob patterns s \<longleftrightarrow> (\<exists>p \<in> set patterns. globMatch p s)"

definition fileEventSelects :: "fileEventsMatch \<Rightarrow> evalChange \<Rightarrow> bool" where
  "fileEventSelects fe ch \<longleftrightarrow>
     ec_path ch = [] \<and> ec_kind ch \<in> set (fe_kinds fe) \<and> matchesAnyGlob (fe_paths fe) (ec_file ch)"

definition filesSelects :: "filesMatch \<Rightarrow> evalChange \<Rightarrow> bool" where
  "filesSelects fm ch \<longleftrightarrow> ec_path ch \<noteq> [] \<and> matchesAnyGlob (fm_paths fm) (ec_file ch)"

definition valueChangesSelects :: "valueChangesMatch \<Rightarrow> evalChange \<Rightarrow> bool" where
  "valueChangesSelects vc ch \<longleftrightarrow>
     ec_path ch \<noteq> [] \<and> matchesAnyGlob (vc_pointers vc) (ec_path ch)
     \<and> (vc_kinds vc \<noteq> [] \<longrightarrow> ec_kind ch \<in> set (vc_kinds vc))
     \<and> (vc_paths vc \<noteq> [] \<longrightarrow> matchesAnyGlob (vc_paths vc) (ec_file ch))"

definition valuesSelects :: "valuesMatch \<Rightarrow> evalChange \<Rightarrow> bool" where
  "valuesSelects v ch \<longleftrightarrow>
     ec_path ch \<noteq> [] \<and> ec_kind ch = kindModify
     \<and> (vm_pointers v \<noteq> [] \<longrightarrow> matchesAnyGlob (vm_pointers v) (ec_path ch))
     \<and> (vm_paths v \<noteq> [] \<longrightarrow> matchesAnyGlob (vm_paths v) (ec_file ch))"

datatype match_error = NoSelectors | NoDomain

definition matchChanges :: "matchDomain \<Rightarrow> evalChange list \<Rightarrow> match_error + evalChange list" where
  "matchChanges m changes =
     (case m_fileEvents m of Some fe \<Rightarrow> Inr (filter (fileEventSelects fe) changes) | None \<Rightarrow>
     (case m_files m of Some fm \<Rightarrow> Inr (filter (filesSelects fm) changes) | None \<Rightarrow>
     (case m_valueChanges m of Some vc \<Rightarrow> Inr (filter (valueChangesSelects vc) changes) | None \<Rightarrow>
     (case m_values m of
        Some v \<Rightarrow> if vm_pointers v = [] \<and> vm_paths v = [] then Inl NoSelectors
                  else Inr (filter (valuesSelects v) changes)
      | None \<Rightarrow> Inl NoDomain))))"

definition matchesAny :: "matchDomain \<Rightarrow> evalChange list \<Rightarrow> match_error + bool" where
  "matchesAny m changes = bind_res (matchChanges m changes) (\<lambda>cs. Inr (cs \<noteq> []))"

definition subjectsOf :: "evalChange list \<Rightarrow> string list" where
  "subjectsOf matched = dedup (map ec_subject matched)"

text \<open>The guard both escalations ask: an enforce-effective prove rule that selects the change.\<close>

definition selectsOne :: "rule \<Rightarrow> evalChange \<Rightarrow> bool" where
  "selectsOne r ch \<longleftrightarrow> (case matchChanges (r_match r) [ch] of Inl _ \<Rightarrow> False | Inr m \<Rightarrow> m \<noteq> [])"

definition fileDeleteGoverned :: "rule list \<Rightarrow> evalChange \<Rightarrow> phase \<Rightarrow> bool" where
  "fileDeleteGoverned rules ch ceiling \<longleftrightarrow>
     (\<exists>r \<in> set rules. r_prove r \<noteq> None \<and> m_fileEvents (r_match r) \<noteq> None
        \<and> effectivePhase (r_phase r) ceiling = PhaseEnforce \<and> selectsOne r ch)"

definition editGoverned :: "rule list \<Rightarrow> evalChange \<Rightarrow> phase \<Rightarrow> bool" where
  "editGoverned rules ch ceiling \<longleftrightarrow>
     (\<exists>r \<in> set rules. r_prove r \<noteq> None
        \<and> effectivePhase (r_phase r) ceiling = PhaseEnforce \<and> selectsOne r ch)"

subsection \<open>One rule on one subject\<close>

record subjAcc =
  sa_anyErr :: bool
  sa_anyFalse :: bool
  sa_firings :: nat
  sa_errMsg :: string
  sa_falseMsg :: string

definition subjInit :: subjAcc where
  "subjInit = \<lparr>sa_anyErr = False, sa_anyFalse = False, sa_firings = 0, sa_errMsg = [], sa_falseMsg = []\<rparr>"

fun subjStep :: "tri \<Rightarrow> subjAcc \<Rightarrow> subjAcc" where
  "subjStep (ok, msg, Some e) a =
     a\<lparr>sa_firings := sa_firings a + 1,
       sa_errMsg := (if \<not> sa_anyErr a \<or> msg < sa_errMsg a then msg else sa_errMsg a),
       sa_anyErr := True\<rparr>"
| "subjStep (ok, msg, None) a =
     (if ok then a
      else a\<lparr>sa_firings := sa_firings a + 1,
             sa_falseMsg := (if \<not> sa_anyFalse a \<or> msg < sa_falseMsg a then msg else sa_falseMsg a),
             sa_anyFalse := True\<rparr>)"

record coverCtx =
  cx_rt :: cel_runtime
  cx_in :: evalInput
  cx_rule :: rule
  cx_prove :: prove
  cx_envLabel :: string
  cx_appr :: "approvalContext option"
  cx_mrAuthor :: string

definition walkSubject :: "coverCtx \<Rightarrow> string \<Rightarrow> evalChange list \<Rightarrow> tri list" where
  "walkSubject c subj matched =
     map (\<lambda>ch. walkAssertTree (cx_rt c) (cx_in c) ch (cx_envLabel c) (pv_when (cx_prove c)))
       (filter (\<lambda>ch. ec_subject ch = subj) matched)"

definition mkFinding :: "coverCtx \<Rightarrow> string \<Rightarrow> effect \<Rightarrow> string \<Rightarrow> string \<Rightarrow> finding" where
  "mkFinding c subj eff code msg =
     \<lparr>fd_rule = r_name (cx_rule c), fd_obligation = pv_obligation (cx_prove c), fd_effect = eff,
      fd_subject = subj, fd_points = r_points (cx_rule c), fd_code = code, fd_message = msg\<rparr>"

text \<open>
  The four results of \<open>coverSubject\<close>: the finding (when \<open>contributes\<close>), the firing count and
  the capability gap. A finding that does not contribute is \<^const>\<open>None\<close>.
\<close>

definition coverSubject :: "coverCtx \<Rightarrow> string \<Rightarrow> evalChange list \<Rightarrow> finding option \<times> nat \<times> bool" where
  "coverSubject c subj matched =
     (let a = fold subjStep (walkSubject c subj matched) subjInit in
      if sa_anyErr a then
        (Some (mkFinding c subj EffectRequireReview ''predicate.error'' (sa_errMsg a)), sa_firings a, False)
      else if sa_anyFalse a then
        (case r_onFailure (cx_rule c) of
           None \<Rightarrow> (Some (mkFinding c subj EffectRequireReview ''policy.shape-error'' (sa_falseMsg a)),
                    sa_firings a, False)
         | Some onf \<Rightarrow>
             if of_effect onf = EffectRequireReview then
               (let (satisfied, gap) = approvalSatisfies (evidenceFor (cx_appr c) subj)
                      (sourceSha (cx_appr c)) (cx_mrAuthor c) in
                if satisfied then (None, 0, False)
                else (Some (mkFinding c subj EffectRequireReview (of_code onf) (sa_falseMsg a)),
                      sa_firings a, gap))
             else (Some (mkFinding c subj (of_effect onf) (of_code onf) (sa_falseMsg a)),
                   sa_firings a, False))
      else (None, 0, False))"

subsection \<open>The coverage loop\<close>

record coverState =
  cs_decision :: decision
  cs_findings :: "finding list"
  cs_observed :: "finding list"
  cs_gaps :: "string \<Rightarrow> string option"
  cs_points :: int
  cs_covered :: "string set"

definition coverInit :: coverState where
  "coverInit = \<lparr>cs_decision = APPROVE, cs_findings = [], cs_observed = [], cs_gaps = Map.empty,
                cs_points = 0, cs_covered = {}\<rparr>"

definition obligationEffect :: "string list \<Rightarrow> string \<Rightarrow> effect \<Rightarrow> decision" where
  "obligationEffect require obligation e =
     (if obligation \<in> set require then effectDecision e else firingEffectDecision e)"

definition subjectStep ::
  "string list \<Rightarrow> phase \<Rightarrow> coverCtx \<Rightarrow> evalChange list \<Rightarrow> string \<Rightarrow> coverState \<Rightarrow> coverState" where
  "subjectStep require phase c matched subj s =
     (let (f, firings, gap) = coverSubject c subj matched in
      if phase = PhaseObserve then
        (case f of Some x \<Rightarrow> s\<lparr>cs_observed := cs_observed s @ [x]\<rparr> | None \<Rightarrow> s)
      else
        (let s = (if gap then s\<lparr>cs_gaps := (cs_gaps s)(subj \<mapsto> capabilityGapNone)\<rparr> else s) in
         case f of
           None \<Rightarrow> s
         | Some x \<Rightarrow>
             s\<lparr>cs_points := wrap64 (cs_points s + wrap64 (int firings * r_points (cx_rule c))),
               cs_decision := worse (cs_decision s)
                 (obligationEffect require (pv_obligation (cx_prove c)) (fd_effect x)),
               cs_findings := cs_findings s @ [x]\<rparr>))"

datatype cover_error =
    NilInput
  | BuildEnv string
  | RuleMatch string match_error
  | ProfileError policy_error
  | EmptyRequire string string

text \<open>One iteration over the policy's rules, with its \<open>continue\<close>s in order.\<close>

definition ruleStep ::
  "cel_runtime \<Rightarrow> binding \<Rightarrow> evalInput \<Rightarrow> approvalContext option \<Rightarrow> phase \<Rightarrow> rule \<Rightarrow> coverState
   \<Rightarrow> cover_error + coverState" where
  "ruleStep rt bnd i appr ceiling r s =
     (let phase = effectivePhase (r_phase r) ceiling in
      if phase \<noteq> PhaseEnforce \<and> phase \<noteq> PhaseObserve then Inr s
      else (case r_prove r of
          None \<Rightarrow> Inr s
        | Some pv \<Rightarrow>
            (let s = (if phase = PhaseEnforce
                      then s\<lparr>cs_covered := insert (pv_obligation pv) (cs_covered s)\<rparr> else s) in
             case matchChanges (r_match r) (in_changes i) of
               Inl e \<Rightarrow> Inl (RuleMatch (r_name r) e)
             | Inr matched \<Rightarrow>
                 (let c = \<lparr>cx_rt = rt, cx_in = i, cx_rule = r, cx_prove = pv,
                           cx_envLabel = b_environment bnd, cx_appr = appr,
                           cx_mrAuthor = mr_author (in_mr i)\<rparr> in
                  Inr (fold (subjectStep (b_require bnd) phase c matched) (subjectsOf matched) s)))))"

fun rulesLoop ::
  "cel_runtime \<Rightarrow> binding \<Rightarrow> evalInput \<Rightarrow> approvalContext option \<Rightarrow> phase \<Rightarrow> rule list \<Rightarrow> coverState
   \<Rightarrow> cover_error + coverState" where
  "rulesLoop rt bnd i appr ceiling [] s = Inr s"
| "rulesLoop rt bnd i appr ceiling (r # rs) s =
     bind_res (ruleStep rt bnd i appr ceiling r s) (rulesLoop rt bnd i appr ceiling rs)"

definition synthetic :: "string \<Rightarrow> string \<Rightarrow> string \<Rightarrow> string \<Rightarrow> finding" where
  "synthetic rule obligation subj code =
     \<lparr>fd_rule = rule, fd_obligation = obligation, fd_effect = EffectRequireReview,
      fd_subject = subj, fd_points = 0, fd_code = code, fd_message = []\<rparr>"

definition escalate :: "finding \<Rightarrow> coverState \<Rightarrow> coverState" where
  "escalate f s = s\<lparr>cs_decision := worse (cs_decision s) REVIEW, cs_findings := cs_findings s @ [f]\<rparr>"

definition uncoveredStep :: "string \<Rightarrow> coverState \<Rightarrow> coverState" where
  "uncoveredStep obl s =
     (if obl \<in> cs_covered s then s
      else escalate (synthetic ruleUncovered obl [] ''obligation.uncovered'') s)"

definition deleteStep :: "rule list \<Rightarrow> phase \<Rightarrow> evalChange \<Rightarrow> coverState \<Rightarrow> coverState" where
  "deleteStep rules ceiling ch s =
     (if ec_path ch \<noteq> [] \<or> ec_kind ch \<noteq> kindDelete then s
      else if fileDeleteGoverned rules ch ceiling then s
      else escalate (synthetic ruleUnmatchedDelete [] (ec_subject ch) ''fileEvent.unmatchedDelete'') s)"

definition requiredObligationCovered :: "binding \<Rightarrow> string set \<Rightarrow> bool" where
  "requiredObligationCovered bnd covered \<longleftrightarrow> (\<exists>obl \<in> set (b_require bnd). obl \<in> covered)"

text \<open>The edit loop carries the \<open>escalated\<close> set of subjects beside the state.\<close>

definition editStep ::
  "rule list \<Rightarrow> phase \<Rightarrow> evalChange \<Rightarrow> string set \<times> coverState \<Rightarrow> string set \<times> coverState" where
  "editStep rules ceiling ch es =
     (case es of (escalated, s) \<Rightarrow>
        if ec_path ch = [] then (escalated, s)
        else if ec_subject ch \<in> escalated then (escalated, s)
        else if editGoverned rules ch ceiling then (escalated, s)
        else (insert (ec_subject ch) escalated,
              escalate (synthetic ruleUnmatchedEdit [] (ec_subject ch) ''change.unmatchedEdit'') s))"

definition editLoop :: "rule list \<Rightarrow> phase \<Rightarrow> evalChange list \<Rightarrow> coverState \<Rightarrow> coverState" where
  "editLoop rules ceiling changes s = snd (fold (editStep rules ceiling) changes ({}, s))"

text \<open>Everything after the rules loop.\<close>

definition coverTail :: "binding \<Rightarrow> rule list \<Rightarrow> phase \<Rightarrow> evalChange list \<Rightarrow> coverState \<Rightarrow> coverState" where
  "coverTail bnd rules ceiling changes s =
     (let s1 = fold uncoveredStep (b_require bnd) s;
          s2 = fold (deleteStep rules ceiling) changes s1;
          s3 = (if requiredObligationCovered bnd (cs_covered s2)
                then editLoop rules ceiling changes s2 else s2)
      in s3\<lparr>cs_decision := worse (cs_decision s3) (riskDecision (cs_points s3) (b_threshold bnd))\<rparr>)"

definition resultOf :: "coverState \<Rightarrow> result" where
  "resultOf s = \<lparr>res_decision = cs_decision s, res_findings = sortFindings (cs_findings s),
                 res_observed = sortFindings (cs_observed s), res_gaps = cs_gaps s,
                 res_profile = [], res_writeAllowed = False\<rparr>"

definition cover ::
  "cel_runtime \<Rightarrow> mergePolicy option \<Rightarrow> binding option \<Rightarrow> evalInput option \<Rightarrow> approvalContext option
   \<Rightarrow> phase \<Rightarrow> cover_error + result" where
  "cover rt pol bnd i appr ceiling0 =
     (case (pol, bnd, i) of
        (Some p, Some b, Some inp) \<Rightarrow>
          (let ceiling = (if ceiling0 = [] then PhaseEnforce else ceiling0) in
           case rt_newEnv rt newEvalEnv of Some e \<Rightarrow> Inl (BuildEnv e) | None \<Rightarrow>
           bind_res (rulesLoop rt b inp appr ceiling (mp_rules p) coverInit)
             (\<lambda>s. Inr (resultOf (coverTail b (mp_rules p) ceiling (in_changes inp) s))))
      | _ \<Rightarrow> Inl NilInput)"

text \<open>The exported entries kept for older callers.\<close>

definition coverPlain where
  "coverPlain rt pol bnd i = cover rt pol bnd i None PhaseEnforce"

definition coverWithApproval where
  "coverWithApproval rt pol bnd i appr = cover rt pol bnd i appr PhaseEnforce"

definition coverWithPhaseCeiling where
  "coverWithPhaseCeiling rt pol bnd i appr ceiling = cover rt pol bnd i appr ceiling"

end
