(* ===== verification/CoverageFacts.thy ===== *)
theory CoverageFacts
  imports Coverage
begin

text \<open>
  The coverage loop as an accumulation: every loop body of \<open>cover\<close> absorbs a contribution
  that does not depend on the loop state, so the final state is a function of the list of
  contributions. The properties of the decision engine rest on this form.
\<close>

subsection \<open>The decision lattice\<close>

instantiation decision :: linorder
begin

definition less_eq_decision :: "decision \<Rightarrow> decision \<Rightarrow> bool" where
  "a \<le> b \<longleftrightarrow> severity a \<le> severity b"

definition less_decision :: "decision \<Rightarrow> decision \<Rightarrow> bool" where
  "a < b \<longleftrightarrow> severity a < severity b"

instance
proof
  fix x y z :: decision
  show "x < y \<longleftrightarrow> x \<le> y \<and> \<not> y \<le> x" by (auto simp: less_eq_decision_def less_decision_def)
  show "x \<le> x" by (simp add: less_eq_decision_def)
  show "x \<le> y \<Longrightarrow> y \<le> z \<Longrightarrow> x \<le> z" by (simp add: less_eq_decision_def)
  show "x \<le> y \<Longrightarrow> y \<le> x \<Longrightarrow> x = y" by (cases x; cases y; simp add: less_eq_decision_def)
  show "x \<le> y \<or> y \<le> x" by (auto simp: less_eq_decision_def)
qed

end

lemma APPROVE_least [order_simps]: "APPROVE \<le> d"
  by (simp add: less_eq_decision_def)

lemma BLOCK_greatest [order_simps]: "d \<le> BLOCK"
  by (cases d) (auto simp: less_eq_decision_def)

lemma le_APPROVE [order_simps]: "d \<le> APPROVE \<longleftrightarrow> d = APPROVE"
  by (cases d) (auto simp: less_eq_decision_def)

lemma BLOCK_le [order_simps]: "BLOCK \<le> d \<longleftrightarrow> d = BLOCK"
  by (cases d) (auto simp: less_eq_decision_def)

lemma worse_max: "worse a b = max a b"
  by (cases a; cases b) (auto simp: worse_def max_def less_eq_decision_def)

lemma max_APPROVE [order_simps]: "max a b = APPROVE \<longleftrightarrow> a = APPROVE \<and> b = APPROVE"
  by (cases a; cases b) (auto simp: max_def less_eq_decision_def)

lemma max_BLOCK [order_simps]: "max a b = BLOCK \<longleftrightarrow> a = BLOCK \<or> b = BLOCK"
  by (cases a; cases b) (auto simp: max_def less_eq_decision_def)

lemma max_APPROVE_left [simp]: "max APPROVE d = d" "max d APPROVE = d"
  by (cases d; simp add: max_def less_eq_decision_def)+

lemma effectDecision_APPROVE [simp]: "effectDecision e \<noteq> APPROVE"
  by (simp add: effectDecision_def)

lemma effectDecision_BLOCK [simp]: "effectDecision e = BLOCK \<longleftrightarrow> e = EffectBlock"
  by (simp add: effectDecision_def)

lemma obligationEffect_APPROVE:
  "obligationEffect req obl e = APPROVE \<longleftrightarrow> obl \<notin> set req \<and> e = EffectComment"
  by (simp add: obligationEffect_def firingEffectDecision_def)

lemma obligationEffect_BLOCK: "obligationEffect req obl e = BLOCK \<longleftrightarrow> e = EffectBlock"
  by (simp add: obligationEffect_def firingEffectDecision_def)

lemma wrap64_idem [simp]: "wrap64 (wrap64 i) = wrap64 i"
  by (simp add: wrap64_def)

lemma wrap64_zero [simp]: "wrap64 0 = 0"
  by (simp add: wrap64_def)

lemma wrap64_add: "wrap64 (wrap64 a + b) = wrap64 (a + b)" "wrap64 (a + wrap64 b) = wrap64 (a + b)"
  by (metis signed_take_bit_add signed_take_bit_signed_take_bit min.idem wrap64_def)+

lemma wrap64_small: "min_int64 \<le> i \<Longrightarrow> i \<le> max_int64 \<Longrightarrow> wrap64 i = i"
  by (simp add: wrap64_def min_int64_def max_int64_def signed_take_bit_int_eq_self)

subsection \<open>What the changes of one subject evaluate to\<close>

text \<open>The verdicts decide which finding is emitted; the messages only choose its text.\<close>

lemma subjStep_fields:
  "sa_anyErr (subjStep r a) \<longleftrightarrow> sa_anyErr a \<or> verdict r = KUnknown"
  "sa_anyFalse (subjStep r a) \<longleftrightarrow> sa_anyFalse a \<or> verdict r = KFalse"
  "sa_firings (subjStep r a) = sa_firings a + (if verdict r = KTrue then 0 else 1)"
  by (cases "(r, a)" rule: subjStep.cases; simp)+

lemma fold_subjStep_fields:
  "sa_anyErr (fold subjStep rs a) \<longleftrightarrow> sa_anyErr a \<or> KUnknown \<in> verdict ` set rs"
  "sa_anyFalse (fold subjStep rs a) \<longleftrightarrow> sa_anyFalse a \<or> KFalse \<in> verdict ` set rs"
  "sa_firings (fold subjStep rs a) = sa_firings a + length (filter (\<lambda>r. verdict r \<noteq> KTrue) rs)"
  by (induction rs arbitrary: a) (auto simp: subjStep_fields)

text \<open>
  Two walks in either order leave the same accumulator: the message kept is the least one of
  the failing set.
\<close>

lemma least_comm:
  fixes x y v :: "'b :: linorder"
  shows "(if x < (if f \<longrightarrow> y < v then y else v) then x else if f \<longrightarrow> y < v then y else v)
    = (if y < (if f \<longrightarrow> x < v then x else v) then y else if f \<longrightarrow> x < v then x else v)"
  by (cases f; cases x y rule: linorder_cases) auto

lemma subjStep_comm: "subjStep r (subjStep q a) = subjStep q (subjStep r a)"
proof (cases "(r, a)" rule: subjStep.cases; cases "(q, a)" rule: subjStep.cases)
  fix ok msg e a' ok' msg' e' a''
  assume "(r, a) = ((ok, msg, Some e), a')" "(q, a) = ((ok', msg', Some e'), a'')"
  then show ?thesis by (simp add: least_comm [of msg] split del: if_split cong: if_cong)
next
  fix ok msg e a' ok' msg' a''
  assume "(r, a) = ((ok, msg, Some e), a')" "(q, a) = ((ok', msg', None), a'')"
  then show ?thesis by (cases ok') (simp_all split del: if_split cong: if_cong)
next
  fix ok msg e a' ok' msg' a''
  assume "(r, a) = ((ok', msg', None), a'')" "(q, a) = ((ok, msg, Some e), a')"
  then show ?thesis by (cases ok') (simp_all split del: if_split cong: if_cong)
next
  fix ok msg a' ok' msg' a''
  assume "(r, a) = ((ok, msg, None), a')" "(q, a) = ((ok', msg', None), a'')"
  then show ?thesis by (cases ok; cases ok') (simp_all add: least_comm [of msg] split del: if_split cong: if_cong)
qed

lemma fold_subjStep_perm: "mset rs = mset qs \<Longrightarrow> fold subjStep rs a = fold subjStep qs a"
proof -
  assume "mset rs = mset qs"
  then have "fold subjStep rs = fold subjStep qs"
    by (rule fold_max_perm_comm [rotated]) (simp add: fun_eq_iff subjStep_comm)
  then show ?thesis by simp
qed

definition verdicts :: "coverCtx \<Rightarrow> string \<Rightarrow> evalChange list \<Rightarrow> kleene set" where
  "verdicts c subj matched = verdict ` set (walkSubject c subj matched)"

lemma coverSubject_cases:
  assumes "coverSubject c subj matched = (f, k, gap)"
  shows "KUnknown \<in> verdicts c subj matched \<Longrightarrow>
      \<exists>m. f = Some (mkFinding c subj EffectRequireReview ''predicate.error'' m) \<and> \<not> gap"
    and "KUnknown \<notin> verdicts c subj matched \<Longrightarrow> KFalse \<in> verdicts c subj matched \<Longrightarrow>
      r_onFailure (cx_rule c) = None \<Longrightarrow>
      \<exists>m. f = Some (mkFinding c subj EffectRequireReview ''policy.shape-error'' m) \<and> \<not> gap"
    and "KUnknown \<notin> verdicts c subj matched \<Longrightarrow> KFalse \<in> verdicts c subj matched \<Longrightarrow>
      r_onFailure (cx_rule c) = Some onf \<Longrightarrow> of_effect onf \<noteq> EffectRequireReview \<Longrightarrow>
      \<exists>m. f = Some (mkFinding c subj (of_effect onf) (of_code onf) m) \<and> \<not> gap"
    and "KUnknown \<notin> verdicts c subj matched \<Longrightarrow> KFalse \<in> verdicts c subj matched \<Longrightarrow>
      r_onFailure (cx_rule c) = Some onf \<Longrightarrow> of_effect onf = EffectRequireReview \<Longrightarrow>
      (if fst (approvalSatisfies (evidenceFor (cx_appr c) subj) (sourceSha (cx_appr c)) (cx_mrAuthor c))
       then f = None \<and> \<not> gap
       else \<exists>m. f = Some (mkFinding c subj EffectRequireReview (of_code onf) m)
          \<and> gap = snd (approvalSatisfies (evidenceFor (cx_appr c) subj) (sourceSha (cx_appr c)) (cx_mrAuthor c)))"
    and "KUnknown \<notin> verdicts c subj matched \<Longrightarrow> KFalse \<notin> verdicts c subj matched \<Longrightarrow> f = None \<and> \<not> gap"
    and "k = (if f = None then 0
              else length (filter (\<lambda>r. verdict r \<noteq> KTrue) (walkSubject c subj matched)))"
  using assms
  by (auto simp: coverSubject_def verdicts_def fold_subjStep_fields subjInit_def Let_def
      split: if_splits prod.splits option.splits)

lemma coverSubject_None_iff:
  "fst (coverSubject c subj matched) = None \<longleftrightarrow>
     KUnknown \<notin> verdicts c subj matched \<and>
     (KFalse \<in> verdicts c subj matched \<longrightarrow>
        (\<exists>onf. r_onFailure (cx_rule c) = Some onf \<and> of_effect onf = EffectRequireReview
           \<and> fst (approvalSatisfies (evidenceFor (cx_appr c) subj) (sourceSha (cx_appr c)) (cx_mrAuthor c))))"
  by (auto simp: coverSubject_def verdicts_def fold_subjStep_fields subjInit_def Let_def
      split: if_splits prod.splits option.splits)

lemma coverSubject_effect_comment:
  "coverSubject c subj matched = (Some x, k, gap) \<Longrightarrow> fd_effect x = EffectComment \<Longrightarrow>
     KUnknown \<notin> verdicts c subj matched \<and>
     (\<exists>onf. r_onFailure (cx_rule c) = Some onf \<and> of_effect onf = EffectComment)"
  by (auto simp: coverSubject_def verdicts_def fold_subjStep_fields subjInit_def Let_def mkFinding_def
      split: if_splits prod.splits option.splits)

lemma coverSubject_finding:
  "coverSubject c subj matched = (Some x, k, gap) \<Longrightarrow>
     fd_rule x = r_name (cx_rule c) \<and> fd_subject x = subj
     \<and> fd_obligation x = pv_obligation (cx_prove c) \<and> fd_points x = r_points (cx_rule c)"
  by (auto simp: coverSubject_def Let_def mkFinding_def split: if_splits prod.splits option.splits)

subsection \<open>Contributions\<close>

record contrib =
  ct_decision :: decision
  ct_findings :: "finding list"
  ct_observed :: "finding list"
  ct_gaps :: "string set"
  ct_points :: int
  ct_covered :: "string set"

definition absorb :: "contrib \<Rightarrow> coverState \<Rightarrow> coverState" where
  "absorb c s =
     \<lparr>cs_decision = max (cs_decision s) (ct_decision c),
      cs_findings = cs_findings s @ ct_findings c,
      cs_observed = cs_observed s @ ct_observed c,
      cs_gaps = (\<lambda>x. if x \<in> ct_gaps c then Some capabilityGapNone else cs_gaps s x),
      cs_points = wrap64 (cs_points s + ct_points c),
      cs_covered = cs_covered s \<union> ct_covered c\<rparr>"

definition wrapped :: "coverState \<Rightarrow> bool" where
  "wrapped s \<longleftrightarrow> wrap64 (cs_points s) = cs_points s"

lemma wrapped_absorb [simp]: "wrapped (absorb c s)"
  by (simp add: wrapped_def absorb_def)

lemma wrapped_init [simp]: "wrapped coverInit"
  by (simp add: wrapped_def coverInit_def)

lemma wrapped_fold_absorb [simp]: "wrapped s \<Longrightarrow> wrapped (fold absorb cs s)"
  by (induction cs arbitrary: s) auto

lemma fold_absorb_decision:
  "cs_decision (fold absorb cs s) = fold max (map ct_decision cs) (cs_decision s)"
  by (induction cs arbitrary: s) (auto simp: absorb_def max.commute)

lemma fold_absorb_findings:
  "cs_findings (fold absorb cs s) = cs_findings s @ concat (map ct_findings cs)"
  by (induction cs arbitrary: s) (auto simp: absorb_def)

lemma fold_absorb_observed:
  "cs_observed (fold absorb cs s) = cs_observed s @ concat (map ct_observed cs)"
  by (induction cs arbitrary: s) (auto simp: absorb_def)

lemma fold_absorb_points:
  "wrapped s \<Longrightarrow> cs_points (fold absorb cs s) = wrap64 (cs_points s + sum_list (map ct_points cs))"
  by (induction cs arbitrary: s) (auto simp: absorb_def wrap64_add wrapped_def add.assoc)

lemma fold_absorb_gaps:
  "cs_gaps (fold absorb cs s) x =
     (if \<exists>c \<in> set cs. x \<in> ct_gaps c then Some capabilityGapNone else cs_gaps s x)"
  by (induction cs arbitrary: s) (auto simp: absorb_def)

lemma fold_absorb_covered:
  "cs_covered (fold absorb cs s) = cs_covered s \<union> \<Union> (ct_covered ` set cs)"
  by (induction cs arbitrary: s) (auto simp: absorb_def)

lemmas fold_absorb = fold_absorb_decision fold_absorb_findings fold_absorb_observed
  fold_absorb_points fold_absorb_gaps fold_absorb_covered

lemma fold_max_APPROVE:
  "fold max ds d = APPROVE \<longleftrightarrow> d = APPROVE \<and> (\<forall>x \<in> set ds. x = APPROVE)"
  by (induction ds arbitrary: d) (auto simp: order_simps)

lemma fold_max_BLOCK: "fold max ds d = BLOCK \<longleftrightarrow> d = BLOCK \<or> BLOCK \<in> set ds"
  by (induction ds arbitrary: d) (auto simp: order_simps)

lemma fold_max_perm: "mset ds = mset es \<Longrightarrow> fold max ds d = fold max es (d :: decision)"
  using fold_max_perm_comm [of max ds es] by (simp add: fun_eq_iff max.left_commute)

end
