(* ===== verification/CoverSpec.thy ===== *)
theory CoverSpec
  imports CoverageFacts
begin

text \<open>
  What \<open>cover\<close> computes, stated without its loops: the rules contribute one record per
  governed subject, the guards after the rules loop contribute one synthetic finding per
  uncovered obligation, ungoverned delete and ungoverned edited subject, and the result is
  the sum of the contributions. \<open>cover_char\<close> is the refinement; the permutation and
  dominance properties of the engine are read off it.
\<close>

subsection \<open>Contributions of the rules\<close>

definition activePhase :: "phase \<Rightarrow> bool" where
  "activePhase p \<longleftrightarrow> p = PhaseEnforce \<or> p = PhaseObserve"

definition ruleCtx ::
  "cel_runtime \<Rightarrow> binding \<Rightarrow> evalInput \<Rightarrow> approvalContext option \<Rightarrow> rule \<Rightarrow> prove \<Rightarrow> coverCtx" where
  "ruleCtx rt bnd i appr r pv =
     \<lparr>cx_rt = rt, cx_in = i, cx_rule = r, cx_prove = pv, cx_envLabel = b_environment bnd,
      cx_appr = appr, cx_mrAuthor = mr_author (in_mr i)\<rparr>"

definition subjContrib ::
  "string list \<Rightarrow> phase \<Rightarrow> coverCtx \<Rightarrow> evalChange list \<Rightarrow> string \<Rightarrow> contrib" where
  "subjContrib require phase c matched subj =
     (let (f, firings, gap) = coverSubject c subj matched; fs = (case f of None \<Rightarrow> [] | Some x \<Rightarrow> [x]) in
      if phase = PhaseObserve then
        \<lparr>ct_decision = APPROVE, ct_findings = [], ct_observed = fs, ct_gaps = {}, ct_points = 0,
         ct_covered = {}\<rparr>
      else
        \<lparr>ct_decision = (case f of None \<Rightarrow> APPROVE
            | Some x \<Rightarrow> obligationEffect require (pv_obligation (cx_prove c)) (fd_effect x)),
         ct_findings = fs, ct_observed = [], ct_gaps = (if gap then {subj} else {}),
         ct_points = (case f of None \<Rightarrow> 0 | Some x \<Rightarrow> wrap64 (int firings * r_points (cx_rule c))),
         ct_covered = {}\<rparr>)"

definition markContrib :: "string \<Rightarrow> contrib" where
  "markContrib obl = \<lparr>ct_decision = APPROVE, ct_findings = [], ct_observed = [], ct_gaps = {},
                      ct_points = 0, ct_covered = {obl}\<rparr>"

definition ruleContribs ::
  "cel_runtime \<Rightarrow> binding \<Rightarrow> evalInput \<Rightarrow> approvalContext option \<Rightarrow> phase \<Rightarrow> rule \<Rightarrow> contrib list" where
  "ruleContribs rt bnd i appr ceiling r =
     (let phase = effectivePhase (r_phase r) ceiling in
      if \<not> activePhase phase then []
      else (case r_prove r of
          None \<Rightarrow> []
        | Some pv \<Rightarrow>
            (if phase = PhaseEnforce then [markContrib (pv_obligation pv)] else [])
            @ (case matchChanges (r_match r) (in_changes i) of
                 Inl e \<Rightarrow> []
               | Inr matched \<Rightarrow>
                   map (subjContrib (b_require bnd) phase (ruleCtx rt bnd i appr r pv) matched)
                     (subjectsOf matched))))"

text \<open>The only error of a rule: an active prove rule whose match domain is malformed.\<close>

definition ruleFails :: "phase \<Rightarrow> rule \<Rightarrow> match_error option" where
  "ruleFails ceiling r =
     (if activePhase (effectivePhase (r_phase r) ceiling) \<and> r_prove r \<noteq> None
      then (case matchChanges (r_match r) [] of Inl e \<Rightarrow> Some e | Inr _ \<Rightarrow> None) else None)"

lemma matchChanges_error:
  "matchChanges m changes = Inl e \<longleftrightarrow> matchChanges m [] = Inl e"
  by (auto simp: matchChanges_def split: option.splits)

lemma selectsOne_matches:
  "matchChanges (r_match r) changes = Inr ms \<Longrightarrow> ms = filter (selectsOne r) changes"
  by (auto simp: matchChanges_def selectsOne_def split: option.splits if_splits intro!: filter_cong)

lemma subjectStep_absorb:
  "wrapped s \<Longrightarrow>
     subjectStep require phase c matched subj s = absorb (subjContrib require phase c matched subj) s"
  by (cases s) (auto simp: subjectStep_def subjContrib_def absorb_def wrapped_def worse_max Let_def
      fun_upd_def split: prod.splits option.splits)

lemma fold_subjectStep_absorb:
  "wrapped s \<Longrightarrow> fold (subjectStep require phase c matched) subjs s =
     fold absorb (map (subjContrib require phase c matched) subjs) s"
  by (induction subjs arbitrary: s) (auto simp: subjectStep_absorb)

lemma mark_absorb:
  "wrapped s \<Longrightarrow> s\<lparr>cs_covered := insert obl (cs_covered s)\<rparr> = absorb (markContrib obl) s"
  by (simp add: absorb_def markContrib_def wrapped_def)

lemma ruleStep_absorb:
  assumes "wrapped s"
  shows "ruleStep rt bnd i appr ceiling r s =
     (case ruleFails ceiling r of
        Some e \<Rightarrow> Inl (RuleMatch (r_name r) e)
      | None \<Rightarrow> Inr (fold absorb (ruleContribs rt bnd i appr ceiling r) s))"
proof (cases "matchChanges (r_match r) (in_changes i)")
  case (Inl e)
  then have "matchChanges (r_match r) [] = Inl e" using matchChanges_error by blast
  with Inl show ?thesis
    by (auto simp: ruleStep_def ruleFails_def ruleContribs_def activePhase_def Let_def
        split: option.splits)
next
  case (Inr matched)
  then have "\<exists>x. matchChanges (r_match r) [] = Inr x"
    by (metis matchChanges_error sum.exhaust)
  with Inr assms show ?thesis
    by (auto simp: ruleStep_def ruleFails_def ruleContribs_def activePhase_def ruleCtx_def Let_def
        mark_absorb fold_subjectStep_absorb split: option.splits)
qed

definition failingRules :: "phase \<Rightarrow> rule list \<Rightarrow> rule list" where
  "failingRules ceiling rules = filter (\<lambda>r. ruleFails ceiling r \<noteq> None) rules"

lemma rulesLoop_absorb:
  "wrapped s \<Longrightarrow> rulesLoop rt bnd i appr ceiling rules s =
     (case failingRules ceiling rules of
        r # _ \<Rightarrow> Inl (RuleMatch (r_name r) (the (ruleFails ceiling r)))
      | [] \<Rightarrow> Inr (fold absorb (concat (map (ruleContribs rt bnd i appr ceiling) rules)) s))"
  by (induction rules arbitrary: s)
    (auto simp: ruleStep_absorb failingRules_def split: option.splits list.splits)

subsection \<open>Contributions of the guards\<close>

definition escContrib :: "finding \<Rightarrow> contrib" where
  "escContrib f = \<lparr>ct_decision = REVIEW, ct_findings = [f], ct_observed = [], ct_gaps = {},
                   ct_points = 0, ct_covered = {}\<rparr>"

definition uncovered :: "binding \<Rightarrow> string set \<Rightarrow> string list" where
  "uncovered bnd covered = filter (\<lambda>obl. obl \<notin> covered) (b_require bnd)"

definition ungovernedDeletes :: "rule list \<Rightarrow> phase \<Rightarrow> evalChange list \<Rightarrow> evalChange list" where
  "ungovernedDeletes rules ceiling changes =
     filter (\<lambda>ch. ec_path ch = [] \<and> ec_kind ch = kindDelete \<and> \<not> fileDeleteGoverned rules ch ceiling) changes"

definition ungovernedEdits :: "rule list \<Rightarrow> phase \<Rightarrow> evalChange list \<Rightarrow> string list" where
  "ungovernedEdits rules ceiling changes =
     dedup (map ec_subject (filter (\<lambda>ch. ec_path ch \<noteq> [] \<and> \<not> editGoverned rules ch ceiling) changes))"

definition guardContribs :: "binding \<Rightarrow> rule list \<Rightarrow> phase \<Rightarrow> evalChange list \<Rightarrow> string set \<Rightarrow> contrib list" where
  "guardContribs bnd rules ceiling changes covered =
     map (\<lambda>obl. escContrib (synthetic ruleUncovered obl [] ''obligation.uncovered'')) (uncovered bnd covered)
     @ map (\<lambda>ch. escContrib (synthetic ruleUnmatchedDelete [] (ec_subject ch) ''fileEvent.unmatchedDelete''))
         (ungovernedDeletes rules ceiling changes)
     @ (if requiredObligationCovered bnd covered
        then map (\<lambda>subj. escContrib (synthetic ruleUnmatchedEdit [] subj ''change.unmatchedEdit''))
               (ungovernedEdits rules ceiling changes)
        else [])"

lemma escalate_absorb: "wrapped s \<Longrightarrow> escalate f s = absorb (escContrib f) s"
  by (simp add: escalate_def absorb_def escContrib_def wrapped_def worse_max)

lemma absorb_esc_covered [simp]: "cs_covered (absorb (escContrib f) s) = cs_covered s"
  by (simp add: absorb_def escContrib_def)

lemma fold_absorb_esc_covered [simp]:
  "cs_covered (fold absorb (map (\<lambda>x. escContrib (g x)) xs) s) = cs_covered s"
  by (induction xs arbitrary: s) auto

lemma fold_uncoveredStep:
  "wrapped s \<Longrightarrow> fold uncoveredStep obls s =
     fold absorb (map (\<lambda>obl. escContrib (synthetic ruleUncovered obl [] ''obligation.uncovered''))
       (filter (\<lambda>obl. obl \<notin> cs_covered s) obls)) s"
  by (induction obls arbitrary: s) (auto simp: uncoveredStep_def escalate_absorb)

lemma fold_deleteStep:
  "wrapped s \<Longrightarrow> fold (deleteStep rules ceiling) changes s =
     fold absorb (map (\<lambda>ch. escContrib (synthetic ruleUnmatchedDelete [] (ec_subject ch) ''fileEvent.unmatchedDelete''))
       (ungovernedDeletes rules ceiling changes)) s"
  by (induction changes arbitrary: s) (auto simp: deleteStep_def ungovernedDeletes_def escalate_absorb)

lemma ungovernedEdits_Cons:
  "ungovernedEdits rules ceiling (ch # changes) =
     (if ec_path ch \<noteq> [] \<and> \<not> editGoverned rules ch ceiling
      then ec_subject ch # filter (\<lambda>y. y \<noteq> ec_subject ch) (ungovernedEdits rules ceiling changes)
      else ungovernedEdits rules ceiling changes)"
  by (simp add: ungovernedEdits_def)

lemma editStep_cases:
  "editStep rules ceiling ch (done, s) =
     (if ec_path ch \<noteq> [] \<and> \<not> editGoverned rules ch ceiling \<and> ec_subject ch \<notin> done
      then (insert (ec_subject ch) done,
            escalate (synthetic ruleUnmatchedEdit [] (ec_subject ch) ''change.unmatchedEdit'') s)
      else (done, s))"
  by (simp add: editStep_def)

lemma fold_editStep:
  "wrapped s \<Longrightarrow> snd (fold (editStep rules ceiling) changes (done, s)) =
     fold absorb (map (\<lambda>subj. escContrib (synthetic ruleUnmatchedEdit [] subj ''change.unmatchedEdit''))
       (filter (\<lambda>x. x \<notin> done) (ungovernedEdits rules ceiling changes))) s"
proof (induction changes arbitrary: "done" s)
  case (Cons ch changes)
  have *: "filter (\<lambda>x. x \<noteq> a \<and> x \<notin> done) xs = filter (\<lambda>x. x \<notin> insert a done) xs" for a xs
    by (auto intro!: filter_cong)
  have **: "a \<in> done \<Longrightarrow> filter (\<lambda>x. x \<notin> insert a done) xs = filter (\<lambda>x. x \<notin> done) xs" for a xs
    by (auto intro!: filter_cong)
  show ?case
    using Cons.prems
    by (simp add: editStep_cases ungovernedEdits_Cons escalate_absorb Cons.IH * ** del: insert_iff)
qed (simp add: ungovernedEdits_def)

lemma coverTail_absorb:
  "wrapped s \<Longrightarrow> coverTail bnd rules ceiling changes s =
    (let t = fold absorb (guardContribs bnd rules ceiling changes (cs_covered s)) s in
     t\<lparr>cs_decision := max (cs_decision t) (riskDecision (cs_points t) (b_threshold bnd))\<rparr>)"
  by (simp add: coverTail_def guardContribs_def fold_uncoveredStep fold_deleteStep editLoop_def
      fold_editStep uncovered_def worse_max Let_def)

subsection \<open>The whole of cover\<close>

definition normCeiling :: "phase \<Rightarrow> phase" where
  "normCeiling c = (if c = [] then PhaseEnforce else c)"

definition allContribs ::
  "cel_runtime \<Rightarrow> binding \<Rightarrow> evalInput \<Rightarrow> approvalContext option \<Rightarrow> phase \<Rightarrow> rule list \<Rightarrow> contrib list" where
  "allContribs rt bnd i appr ceiling rules =
     (let rc = concat (map (ruleContribs rt bnd i appr ceiling) rules) in
      rc @ guardContribs bnd rules ceiling (in_changes i) (\<Union> (ct_covered ` set rc)))"

text \<open>The specification: one reduction over the contributions.\<close>

definition reduceContribs :: "int \<Rightarrow> contrib list \<Rightarrow> result" where
  "reduceContribs threshold cs =
     \<lparr>res_decision = max (fold max (map ct_decision cs) APPROVE)
        (riskDecision (wrap64 (sum_list (map ct_points cs))) threshold),
      res_findings = sortFindings (concat (map ct_findings cs)),
      res_observed = sortFindings (concat (map ct_observed cs)),
      res_gaps = (\<lambda>x. if \<exists>c \<in> set cs. x \<in> ct_gaps c then Some capabilityGapNone else None),
      res_profile = [], res_writeAllowed = False\<rparr>"

lemma resultOf_fold:
  "resultOf ((fold absorb cs coverInit)\<lparr>cs_decision := max (cs_decision (fold absorb cs coverInit))
      (riskDecision (cs_points (fold absorb cs coverInit)) threshold)\<rparr>) = reduceContribs threshold cs"
  by (auto simp: resultOf_def reduceContribs_def fold_absorb coverInit_def wrapped_def)

theorem cover_char:
  "cover rt (Some p) (Some b) (Some i) appr ceiling =
     (case rt_newEnv rt newEvalEnv of
        Some e \<Rightarrow> Inl (BuildEnv e)
      | None \<Rightarrow> (case failingRules (normCeiling ceiling) (mp_rules p) of
          r # _ \<Rightarrow> Inl (RuleMatch (r_name r) (the (ruleFails (normCeiling ceiling) r)))
        | [] \<Rightarrow> Inr (reduceContribs (b_threshold b)
            (allContribs rt b i appr (normCeiling ceiling) (mp_rules p)))))"
proof -
  let ?rc = "concat (map (ruleContribs rt b i appr (normCeiling ceiling)) (mp_rules p))"
  have cov: "cs_covered (fold absorb ?rc coverInit) = \<Union> (ct_covered ` set ?rc)"
    by (simp add: fold_absorb_covered coverInit_def)
  have split: "fold absorb (allContribs rt b i appr (normCeiling ceiling) (mp_rules p)) coverInit =
    fold absorb (guardContribs b (mp_rules p) (normCeiling ceiling) (in_changes i)
       (cs_covered (fold absorb ?rc coverInit))) (fold absorb ?rc coverInit)"
    by (simp add: allContribs_def Let_def cov)
  have tail: "resultOf (coverTail b (mp_rules p) (normCeiling ceiling) (in_changes i)
       (fold absorb ?rc coverInit)) =
     reduceContribs (b_threshold b) (allContribs rt b i appr (normCeiling ceiling) (mp_rules p))"
    by (simp add: coverTail_absorb split [symmetric] resultOf_fold [symmetric] Let_def)
  show ?thesis
    using tail
    by (auto simp: cover_def normCeiling_def [symmetric] rulesLoop_absorb Let_def
        split: option.splits list.splits)
qed

end
