(* ===== verification/CoverOrder.thy ===== *)
theory CoverOrder
  imports CoverSpec
begin

text \<open>
  Order independence of \<open>cover\<close>: the result does not change when the rules of the policy or
  the changes of the input are shuffled, as the doc comment of \<open>sortFindings\<close> promises. Two
  facts about the environment are needed and stated as predicates: the rules have distinct
  names outside the reserved \<open>aggregate.\<close> namespace, and no expression reads the \<open>changes\<close>
  list by position.
\<close>

subsection \<open>The reduction does not see the order of the contributions\<close>

definition keyed :: "finding list \<Rightarrow> bool" where
  "keyed fs \<longleftrightarrow> (\<forall>x \<in> set fs. \<forall>y \<in> set fs. findingKey x = findingKey y \<longrightarrow> x = y)"

lemma sortFindings_perm: "mset fs = mset gs \<Longrightarrow> keyed fs \<Longrightarrow> sortFindings fs = sortFindings gs"
  unfolding sortFindings_def keyed_def by (rule sort_key_perm) auto

lemma reduceContribs_perm:
  assumes p: "mset cs = mset ds"
    and "keyed (concat (map ct_findings cs))" "keyed (concat (map ct_observed cs))"
  shows "reduceContribs t cs = reduceContribs t ds"
proof -
  have "fold max (map ct_decision cs) APPROVE = fold max (map ct_decision ds) APPROVE"
    by (rule fold_max_perm) (use p in \<open>metis mset_map\<close>)
  moreover have "sum_list (map ct_points cs) = sum_list (map ct_points ds)"
    by (rule sum_list_perm) (rule p)
  moreover have "sortFindings (concat (map ct_findings cs)) = sortFindings (concat (map ct_findings ds))"
    by (rule sortFindings_perm [OF mset_concat_map_perm [OF p]]) (rule assms)
  moreover have "sortFindings (concat (map ct_observed cs)) = sortFindings (concat (map ct_observed ds))"
    by (rule sortFindings_perm [OF mset_concat_map_perm [OF p]]) (rule assms)
  moreover have "set cs = set ds" by (rule mset_eq_set) (rule p)
  ultimately show ?thesis by (simp add: reduceContribs_def)
qed

lemma mset_concat_map_pointwise:
  "(\<And>x. x \<in> set xs \<Longrightarrow> mset (f x) = mset (g x)) \<Longrightarrow> mset (concat (map f xs)) = mset (concat (map g xs))"
  by (induction xs) auto

subsection \<open>The findings of a run are determined by their sort key\<close>

definition ruleNamesOk :: "rule list \<Rightarrow> bool" where
  "ruleNamesOk rules \<longleftrightarrow> inj_on r_name (set rules) \<and>
     (\<forall>r \<in> set rules. r_name r \<noteq> ruleUncovered \<and> r_name r \<noteq> ruleUnmatchedDelete \<and> r_name r \<noteq> ruleUnmatchedEdit)"

definition authoredFinding ::
  "cel_runtime \<Rightarrow> binding \<Rightarrow> evalInput \<Rightarrow> approvalContext option \<Rightarrow> rule list \<Rightarrow> finding \<Rightarrow> bool" where
  "authoredFinding rt b i appr rules x \<longleftrightarrow>
     (\<exists>r \<in> set rules. \<exists>pv ms. r_prove r = Some pv \<and> matchChanges (r_match r) (in_changes i) = Inr ms
        \<and> fst (coverSubject (ruleCtx rt b i appr r pv) (fd_subject x) ms) = Some x \<and> fd_rule x = r_name r)"

lemma subjContrib_authored:
  assumes "r \<in> set rules" "r_prove r = Some pv" "matchChanges (r_match r) (in_changes i) = Inr ms"
    and "c = subjContrib req ph (ruleCtx rt b i appr r pv) ms subj"
    and "x \<in> set (ct_findings c) \<or> x \<in> set (ct_observed c)"
  shows "authoredFinding rt b i appr rules x"
proof -
  obtain f k gap where cs: "coverSubject (ruleCtx rt b i appr r pv) subj ms = (f, k, gap)"
    by (metis prod_cases3)
  with assms(4,5) have "f = Some x"
    by (auto simp: subjContrib_def Let_def split: if_splits option.splits)
  with coverSubject_finding cs have "fd_rule x = r_name r" "fd_subject x = subj"
    by (force simp: ruleCtx_def)+
  with assms cs \<open>f = Some x\<close> show ?thesis unfolding authoredFinding_def by fastforce
qed

lemma ruleContribs_cases:
  assumes "c \<in> set (ruleContribs rt b i appr ceiling r)"
  obtains obl where "c = markContrib obl"
  | pv ms subj where "r_prove r = Some pv" "matchChanges (r_match r) (in_changes i) = Inr ms"
      "subj \<in> set (subjectsOf ms)"
      "c = subjContrib (b_require b) (effectivePhase (r_phase r) ceiling) (ruleCtx rt b i appr r pv) ms subj"
proof (cases "r_prove r")
  case None
  then show ?thesis using assms by (auto simp: ruleContribs_def Let_def split: if_splits)
next
  case (Some pv)
  show ?thesis
  proof (cases "matchChanges (r_match r) (in_changes i)")
    case (Inl e)
    then show ?thesis using assms Some that(1) by (auto simp: ruleContribs_def Let_def split: if_splits)
  next
    case (Inr ms)
    then show ?thesis using assms Some that by (auto simp: ruleContribs_def Let_def split: if_splits)
  qed
qed

lemma ruleContribs_authored:
  assumes "r \<in> set rules" "c \<in> set (ruleContribs rt b i appr ceiling r)"
    and "x \<in> set (ct_findings c) \<or> x \<in> set (ct_observed c)"
  shows "authoredFinding rt b i appr rules x"
  using assms(2)
proof (cases rule: ruleContribs_cases)
  case 1
  then show ?thesis using assms(3) by (simp add: markContrib_def)
next
  case 2
  then show ?thesis using subjContrib_authored [OF assms(1) _ _ _ assms(3)] by blast
qed

lemma authored_unique:
  assumes "ruleNamesOk rules" "authoredFinding rt b i appr rules x" "authoredFinding rt b i appr rules y"
    and "findingKey x = findingKey y"
  shows "x = y"
  using assms unfolding authoredFinding_def ruleNamesOk_def findingKey_def
  by (force simp: inj_on_def)

definition synthFinding :: "finding \<Rightarrow> bool" where
  "synthFinding x \<longleftrightarrow> fd_rule x \<in> {ruleUncovered, ruleUnmatchedDelete, ruleUnmatchedEdit}
     \<and> fd_points x = 0 \<and> fd_message x = []"

lemma guardContribs_synth:
  "c \<in> set (guardContribs b rules ceiling changes cov) \<Longrightarrow> x \<in> set (ct_findings c) \<Longrightarrow> synthFinding x"
  "c \<in> set (guardContribs b rules ceiling changes cov) \<Longrightarrow> ct_observed c = []"
  by (auto simp: guardContribs_def escContrib_def synthetic_def synthFinding_def split: if_splits)

lemma synth_unique: "synthFinding x \<Longrightarrow> synthFinding y \<Longrightarrow> findingKey x = findingKey y \<Longrightarrow> x = y"
  by (simp add: synthFinding_def findingKey_def)

lemma allContribs_findings:
  assumes "c \<in> set (allContribs rt b i appr ceiling rules)" "x \<in> set (ct_findings c) \<or> x \<in> set (ct_observed c)"
  shows "authoredFinding rt b i appr rules x \<or> synthFinding x"
  using assms ruleContribs_authored guardContribs_synth
  by (fastforce simp: allContribs_def Let_def)

lemma allContribs_keyed:
  assumes "ruleNamesOk rules"
  shows "keyed (concat (map ct_findings (allContribs rt b i appr ceiling rules)))"
    "keyed (concat (map ct_observed (allContribs rt b i appr ceiling rules)))"
proof -
  have rule_eq: "fd_rule x = fd_rule y" if "findingKey x = findingKey y" for x y
    using that by (simp add: findingKey_def)
  have apart: "fd_rule x \<noteq> fd_rule y" if "authoredFinding rt b i appr rules x" "synthFinding y" for x y
    using that assms by (auto simp: authoredFinding_def ruleNamesOk_def synthFinding_def)
  have key: "x = y" if x: "authoredFinding rt b i appr rules x \<or> synthFinding x"
    and y: "authoredFinding rt b i appr rules y \<or> synthFinding y" and k: "findingKey x = findingKey y" for x y
    using x y
  proof (elim disjE)
    assume "authoredFinding rt b i appr rules x" "authoredFinding rt b i appr rules y"
    with assms k show ?thesis by (intro authored_unique)
  next
    assume "synthFinding x" "synthFinding y"
    with k show ?thesis by (intro synth_unique)
  qed (use apart rule_eq k in metis)+
  show "keyed (concat (map ct_findings (allContribs rt b i appr ceiling rules)))"
    unfolding keyed_def using allContribs_findings key by (auto; blast)
  show "keyed (concat (map ct_observed (allContribs rt b i appr ceiling rules)))"
    unfolding keyed_def using allContribs_findings key by (auto; blast)
qed

subsection \<open>Shuffled rules\<close>

lemma governed_set:
  "set rules = set rules' \<Longrightarrow> fileDeleteGoverned rules ch ceiling = fileDeleteGoverned rules' ch ceiling"
  "set rules = set rules' \<Longrightarrow> editGoverned rules ch ceiling = editGoverned rules' ch ceiling"
  by (simp_all only: fileDeleteGoverned_def editGoverned_def)

lemma guardContribs_set:
  "set rules = set rules' \<Longrightarrow> guardContribs b rules ceiling changes cov = guardContribs b rules' ceiling changes cov"
  by (simp only: guardContribs_def ungovernedDeletes_def ungovernedEdits_def governed_set [of rules rules'])

lemma allContribs_rules_perm:
  assumes "mset rules = mset rules'"
  shows "mset (allContribs rt b i appr ceiling rules) = mset (allContribs rt b i appr ceiling rules')"
proof -
  have rc: "mset (concat (map (ruleContribs rt b i appr ceiling) rules)) =
      mset (concat (map (ruleContribs rt b i appr ceiling) rules'))"
    by (rule mset_concat_map_perm) (rule assms)
  have s: "set rules = set rules'" by (rule mset_eq_set) (rule assms)
  have cov: "set (concat (map (ruleContribs rt b i appr ceiling) rules)) =
      set (concat (map (ruleContribs rt b i appr ceiling) rules'))"
    by (rule mset_eq_set) (rule rc)
  show ?thesis
    unfolding allContribs_def Let_def using rc
    by (simp only: mset_append cov guardContribs_set [OF s])
qed

lemma failingRules_perm:
  "mset rules = mset rules' \<Longrightarrow> failingRules ceiling rules = [] \<longleftrightarrow> failingRules ceiling rules' = []"
  unfolding failingRules_def by (rule mset_eq_Nil_iff) (rule filter_perm)

subsection \<open>Shuffled changes\<close>

definition withChanges :: "evalInput \<Rightarrow> evalChange list \<Rightarrow> evalInput" where
  "withChanges i cs = i\<lparr>in_changes := cs\<rparr>"

definition orderBlind :: "cel_runtime \<Rightarrow> evalInput \<Rightarrow> bool" where
  "orderBlind rt i \<longleftrightarrow> (\<forall>cs expr ch env. mset cs = mset (in_changes i) \<longrightarrow>
     rt_eval rt expr (bindLeafActivation rt (withChanges i cs) ch env)
       = rt_eval rt expr (bindLeafActivation rt i ch env))"

lemma resolve_changes:
  "resolveActivationPath (bindLeafActivation rt (withChanges i cs) ch env) path
     = resolveActivationPath (bindLeafActivation rt i ch env) path"
proof -
  define segs where "segs = splitOn (CHR ''.'') path"
  have "(case descend (bindLeafActivation rt (withChanges i cs) ch env) segs of
      None \<Rightarrow> None | Some v \<Rightarrow> (case v of CMap _ \<Rightarrow> None | CList _ \<Rightarrow> None | CNull \<Rightarrow> None | _ \<Rightarrow> Some v))
   = (case descend (bindLeafActivation rt i ch env) segs of
      None \<Rightarrow> None | Some v \<Rightarrow> (case v of CMap _ \<Rightarrow> None | CList _ \<Rightarrow> None | CNull \<Rightarrow> None | _ \<Rightarrow> Some v))"
  proof (cases segs)
    case Nil
    then show ?thesis by (simp add: bindLeafActivation_def)
  next
    case (Cons seg rest)
    show ?thesis
    proof (cases "seg = ''changes''")
      case True
      then show ?thesis using Cons by (cases rest) (simp_all add: bindLeafActivation_def)
    next
      case False
      then show ?thesis using Cons by (simp add: bindLeafActivation_def withChanges_def)
    qed
  qed
  then show ?thesis unfolding resolveActivationPath_def segs_def .
qed

lemma expandMessage_changes:
  "expandMessage rt msg (withChanges i cs) ch env = expandMessage rt msg i ch env"
proof -
  have "expandToken rt (bindLeafActivation rt (withChanges i cs) ch env) =
      expandToken rt (bindLeafActivation rt i ch env)"
    by (rule ext) (simp only: expandToken_def resolve_changes)
  then show ?thesis by (simp add: expandMessage_def)
qed

lemma walk_cong:
  assumes "\<And>l. walkLeaf rt i ch env l = walkLeaf rt j ch env l"
  shows "walkAssertTreeDepth rt i ch env t d = walkAssertTreeDepth rt j ch env t d"
  using assms
proof (induction rt i ch env t d rule: walkAssertTreeDepth.induct)
  case (1 rt i ch env l al an nt d)
  have "walkAssertTreeDepth rt i ch env t (d + 1) = walkAssertTreeDepth rt j ch env t (d + 1)"
    if "\<not> d > maxAssertDepth" "l = None" "al = Some ts" "ts \<noteq> []" "t \<in> set ts" for t ts
    using "1.IH"(3) that "1.prems" by blast
  moreover have "walkAssertTreeDepth rt i ch env t (d + 1) = walkAssertTreeDepth rt j ch env t (d + 1)"
    if "\<not> d > maxAssertDepth" "l = None" "al = None" "an = Some ts" "ts \<noteq> []" "t \<in> set ts" for t ts
    using "1.IH"(2) that "1.prems" by blast
  moreover have "walkAssertTreeDepth rt i ch env t (d + 1) = walkAssertTreeDepth rt j ch env t (d + 1)"
    if "\<not> d > maxAssertDepth" "l = None" "al = None" "an = None" "nt = Some t" for t
    using "1.IH"(1) that "1.prems" by blast
  ultimately show ?case
    using "1.prems" by (simp add: walkAssertTreeDepth.simps split: option.split cong: map_cong)
qed

lemma orderBlind_walkLeaf:
  assumes "orderBlind rt i" "mset cs = mset (in_changes i)"
  shows "walkLeaf rt (withChanges i cs) ch env l = walkLeaf rt i ch env l"
proof -
  have "evalLeaf rt (withChanges i cs) ch env (lf_cel l) = evalLeaf rt i ch env (lf_cel l)"
    by (rule evalLeaf_cong) (use assms in \<open>simp add: orderBlind_def\<close>)
  then show ?thesis by (simp only: walkLeaf_def expandMessage_changes)
qed

lemma withChanges_mr [simp]: "in_mr (withChanges i cs) = in_mr i"
  by (simp add: withChanges_def)

lemma withChanges_changes [simp]: "in_changes (withChanges i cs) = cs"
  by (simp add: withChanges_def)

lemma walkSubject_perm:
  assumes "orderBlind rt i" "mset cs = mset (in_changes i)" "mset ms = mset ns"
  shows "mset (walkSubject (ruleCtx rt b (withChanges i cs) appr r pv) subj ms)
     = mset (walkSubject (ruleCtx rt b i appr r pv) subj ns)"
proof -
  have "walkAssertTree rt (withChanges i cs) ch env t = walkAssertTree rt i ch env t" for ch env t
    unfolding walkAssertTree_def by (rule walk_cong) (rule orderBlind_walkLeaf [OF assms(1,2)])
  then show ?thesis using assms(3) by (simp add: walkSubject_def ruleCtx_def)
qed

lemma ruleCtx_sel [simp]:
  "cx_rule (ruleCtx rt b i appr r pv) = r" "cx_prove (ruleCtx rt b i appr r pv) = pv"
  "cx_appr (ruleCtx rt b i appr r pv) = appr" "cx_mrAuthor (ruleCtx rt b i appr r pv) = mr_author (in_mr i)"
  by (simp_all add: ruleCtx_def)

lemma coverSubject_perm:
  assumes "orderBlind rt i" "mset cs = mset (in_changes i)" "mset ms = mset ns"
  shows "coverSubject (ruleCtx rt b (withChanges i cs) appr r pv) subj ms
     = coverSubject (ruleCtx rt b i appr r pv) subj ns"
proof -
  have "fold subjStep (walkSubject (ruleCtx rt b (withChanges i cs) appr r pv) subj ms) subjInit
      = fold subjStep (walkSubject (ruleCtx rt b i appr r pv) subj ns) subjInit"
    by (rule fold_subjStep_perm) (rule walkSubject_perm [OF assms])
  then show ?thesis by (simp only: coverSubject_def mkFinding_def ruleCtx_sel withChanges_mr)
qed

lemma subjContrib_perm:
  assumes "orderBlind rt i" "mset cs = mset (in_changes i)" "mset ms = mset ns"
  shows "subjContrib req ph (ruleCtx rt b (withChanges i cs) appr r pv) ms
     = subjContrib req ph (ruleCtx rt b i appr r pv) ns"
  by (rule ext) (simp only: subjContrib_def coverSubject_perm [OF assms] ruleCtx_sel)

lemma matchChanges_perm:
  assumes "mset cs = mset ds" "matchChanges m cs = Inr ms"
  shows "\<exists>ns. matchChanges m ds = Inr ns \<and> mset ms = mset ns"
  using assms by (auto simp: matchChanges_def split: option.splits if_splits)

lemma matchChanges_Inl_perm: "matchChanges m cs = Inl e \<Longrightarrow> matchChanges m ds = Inl e"
  by (auto simp: matchChanges_def split: option.splits if_splits)

lemma ruleContribs_changes_perm:
  assumes "orderBlind rt i" "mset cs = mset (in_changes i)"
  shows "mset (ruleContribs rt b (withChanges i cs) appr ceiling r) = mset (ruleContribs rt b i appr ceiling r)"
proof (cases "matchChanges (r_match r) cs")
  case (Inl e)
  with matchChanges_Inl_perm have "matchChanges (r_match r) (in_changes i) = Inl e" by blast
  with Inl show ?thesis by (simp add: ruleContribs_def Let_def split: option.split)
next
  case (Inr ms)
  then obtain ns where ns: "matchChanges (r_match r) (in_changes i) = Inr ns" "mset ms = mset ns"
    using matchChanges_perm assms(2) by blast
  have "mset (subjectsOf ms) = mset (subjectsOf ns)"
    unfolding subjectsOf_def by (rule dedup_perm) (use mset_eq_set [OF ns(2)] in simp)
  with Inr ns show ?thesis
    by (simp add: ruleContribs_def Let_def subjContrib_perm [OF assms ns(2)] split: option.split)
qed

lemma guardContribs_changes_perm:
  assumes "mset cs = mset ds"
  shows "mset (guardContribs b rules ceiling cs cov) = mset (guardContribs b rules ceiling ds cov)"
proof -
  have "mset (ungovernedEdits rules ceiling cs) = mset (ungovernedEdits rules ceiling ds)"
    unfolding ungovernedEdits_def by (rule dedup_perm) (use mset_eq_set [OF assms] in simp)
  moreover have "mset (ungovernedDeletes rules ceiling cs) = mset (ungovernedDeletes rules ceiling ds)"
    unfolding ungovernedDeletes_def by (rule filter_perm) (rule assms)
  ultimately show ?thesis by (simp add: guardContribs_def)
qed

lemma allContribs_changes_perm:
  assumes "orderBlind rt i" "mset cs = mset (in_changes i)"
  shows "mset (allContribs rt b (withChanges i cs) appr ceiling rules) = mset (allContribs rt b i appr ceiling rules)"
proof -
  let ?rc = "\<lambda>i. concat (map (ruleContribs rt b i appr ceiling) rules)"
  have rc: "mset (?rc (withChanges i cs)) = mset (?rc i)"
    by (rule mset_concat_map_pointwise) (rule ruleContribs_changes_perm [OF assms])
  have cov: "set (?rc (withChanges i cs)) = set (?rc i)" by (rule mset_eq_set) (rule rc)
  show ?thesis
    unfolding allContribs_def Let_def mset_append rc cov withChanges_changes
    by (simp only: guardContribs_changes_perm [OF assms(2)])
qed

text \<open>Both shuffles at once, in the form the property states.\<close>

lemma cover_perm:
  assumes "ruleNamesOk (mp_rules p)" "orderBlind rt i"
    and "mset (mp_rules q) = mset (mp_rules p)" "mset cs = mset (in_changes i)"
  shows "cover rt (Some q) (Some b) (Some (withChanges i cs)) appr ceiling = Inr res
     \<longleftrightarrow> cover rt (Some p) (Some b) (Some i) appr ceiling = Inr res"
proof -
  let ?c = "normCeiling ceiling"
  have m: "mset (allContribs rt b (withChanges i cs) appr ?c (mp_rules q))
      = mset (allContribs rt b i appr ?c (mp_rules p))"
    using allContribs_rules_perm [OF assms(3)] allContribs_changes_perm [OF assms(2,4)] by metis
  have "reduceContribs t (allContribs rt b i appr ?c (mp_rules p))
      = reduceContribs t (allContribs rt b (withChanges i cs) appr ?c (mp_rules q))" for t
    by (rule reduceContribs_perm [OF m [symmetric]]) (rule allContribs_keyed [OF assms(1)])+
  moreover have "failingRules ?c (mp_rules q) = [] \<longleftrightarrow> failingRules ?c (mp_rules p) = []"
    by (rule failingRules_perm) (rule assms)
  ultimately show ?thesis by (auto simp: cover_char split: option.splits list.splits)
qed

end
