(* ===== verification/Decide.thy ===== *)
theory Decide
  imports CoverOrder
begin

text \<open>
  \<open>internal/core/aggregate/{profile,decide}.go\<close>: profile resolution by specificity, the stamp of
  write authority on a result, and \<open>Decide\<close>, the one guarded entry to the engine.
\<close>

subsection \<open>Profile resolution (profile.go)\<close>

record resolvedProfile =
  rp_name :: string
  rp_writes :: bool

definition hasWildcard :: "string list \<Rightarrow> bool" where
  "hasWildcard scope \<longleftrightarrow> (\<exists>s \<in> set scope. s = ''*'')"

definition specificity :: "profile \<Rightarrow> nat" where
  "specificity p =
     (if \<not> hasWildcard (pf_environments p) then 1 else 0) + (if \<not> hasWildcard (pf_classes p) then 1 else 0)"

text \<open>The loop over \<open>covering[1:]\<close> with its two variables \<open>winner\<close> and \<open>best\<close>.\<close>

definition pickStep :: "profile \<Rightarrow> profile \<times> nat \<Rightarrow> profile \<times> nat" where
  "pickStep p wb = (let s = specificity p in if s > snd wb then (p, s) else wb)"

definition resolveProfile ::
  "string list \<Rightarrow> profile option list \<Rightarrow> string \<Rightarrow> string \<Rightarrow> policy_error + resolvedProfile option" where
  "resolveProfile precedence profiles env cls =
     bind_res (coveringProfiles precedence profiles env cls)
       (\<lambda>covering. case covering of
          [] \<Rightarrow> Inr None
        | c # cs \<Rightarrow> (let winner = fst (fold pickStep cs (c, specificity c)) in
            Inr (Some \<lparr>rp_name = pf_name winner, rp_writes = pf_writes winner\<rparr>)))"

definition withProfile :: "result \<Rightarrow> resolvedProfile option \<Rightarrow> result" where
  "withProfile r rp =
     (case rp of None \<Rightarrow> r | Some p \<Rightarrow> r\<lparr>res_profile := rp_name p, res_writeAllowed := rp_writes p\<rparr>)"

definition coverWithProfile ::
  "cel_runtime \<Rightarrow> mergePolicy option \<Rightarrow> binding \<Rightarrow> evalInput option \<Rightarrow> approvalContext option \<Rightarrow> phase
   \<Rightarrow> string list \<Rightarrow> profile option list \<Rightarrow> cover_error + result" where
  "coverWithProfile rt pol bnd i appr ceiling precedence profiles =
     (case resolveProfile precedence profiles (b_environment bnd) (b_class bnd) of
        Inl e \<Rightarrow> Inl (ProfileError e)
      | Inr rp \<Rightarrow> bind_res (cover rt pol (Some bnd) i appr ceiling) (\<lambda>res. Inr (withProfile res rp)))"

lemma pickStep_spec:
  fixes ps :: "profile list" and p :: profile
  defines "w \<equiv> fold pickStep ps (p, specificity p)"
  shows "snd w = specificity (fst w)" "fst w \<in> set (p # ps)" "\<forall>q \<in> set (p # ps). specificity q \<le> snd w"
    "\<exists>us vs. p # ps = us @ fst w # vs \<and> (\<forall>q \<in> set us. specificity q < snd w)"
proof -
  have "snd (fold pickStep ps (p, specificity p)) = specificity (fst (fold pickStep ps (p, specificity p)))
      \<and> (\<forall>q \<in> set (p # ps). specificity q \<le> snd (fold pickStep ps (p, specificity p)))
      \<and> (\<exists>us vs. p # ps = us @ fst (fold pickStep ps (p, specificity p)) # vs
           \<and> (\<forall>q \<in> set us. specificity q < snd (fold pickStep ps (p, specificity p))))"
  proof (induction ps rule: rev_induct)
    case Nil
    show ?case by (auto intro: exI [of _ "[]"])
  next
    case (snoc x ps)
    let ?w = "fold pickStep ps (p, specificity p)"
    from snoc obtain us vs where w: "snd ?w = specificity (fst ?w)"
      "\<forall>q \<in> set (p # ps). specificity q \<le> snd ?w" "p # ps = us @ fst ?w # vs"
      "\<forall>q \<in> set us. specificity q < snd ?w" by blast
    have step: "fold pickStep (ps @ [x]) (p, specificity p) = (if specificity x > snd ?w then (x, specificity x) else ?w)"
      by (simp add: pickStep_def [of x] Let_def)
    show ?case
    proof (cases "specificity x > snd ?w")
      case True
      have "p # (ps @ [x]) = (p # ps) @ x # []" by simp
      moreover have "\<forall>q \<in> set (p # ps). specificity q < specificity x" using w(2) True by auto
      moreover have "\<forall>q \<in> set (p # ps @ [x]). specificity q \<le> specificity x" using w(2) True by auto
      ultimately show ?thesis unfolding step if_P [OF True] fst_conv snd_conv by blast
    next
      case False
      have "p # (ps @ [x]) = us @ fst ?w # (vs @ [x])" using w(3) by simp
      moreover have "\<forall>q \<in> set (p # ps @ [x]). specificity q \<le> snd ?w" using w(2) False by auto
      ultimately show ?thesis unfolding step if_not_P [OF False] using w(1,4) by blast
    qed
  qed
  then show "snd w = specificity (fst w)" "\<forall>q \<in> set (p # ps). specificity q \<le> snd w"
    "\<exists>us vs. p # ps = us @ fst w # vs \<and> (\<forall>q \<in> set us. specificity q < snd w)"
    by (auto simp: w_def)
  then show "fst w \<in> set (p # ps)" by (metis in_set_conv_decomp)
qed

text \<open>The winner: no candidate is narrower, and every earlier one is strictly broader.\<close>

definition wonBy :: "profile list \<Rightarrow> profile \<Rightarrow> bool" where
  "wonBy ps p \<longleftrightarrow> (\<exists>us vs. ps = us @ p # vs \<and> (\<forall>q \<in> set us. specificity q < specificity p))
     \<and> (\<forall>q \<in> set ps. specificity q \<le> specificity p)"

lemma pick_wonBy: "wonBy (c # cs) (fst (fold pickStep cs (c, specificity c)))"
  using pickStep_spec [where ps = cs and p = c] unfolding wonBy_def by metis

lemma withProfile_keeps [simp]:
  "res_decision (withProfile r rp) = res_decision r" "res_findings (withProfile r rp) = res_findings r"
  "res_observed (withProfile r rp) = res_observed r" "res_gaps (withProfile r rp) = res_gaps r"
  by (auto simp: withProfile_def split: option.splits)

subsection \<open>The guarded entry (decide.go)\<close>

record decideRequest =
  dr_subject :: string
  dr_subjectClass :: string
  dr_opaque :: bool
  dr_policy :: "mergePolicy option"
  dr_binding :: "binding option"
  dr_input :: "evalInput option"
  dr_approval :: "approvalContext option"
  dr_ceiling :: phase
  dr_precedence :: "string list"
  dr_profiles :: "profile option list"

datatype decide_error =
    NilEvaluationInput
  | NoRequiredObligations string string
  | CoverError cover_error

definition guardResult :: "decision \<Rightarrow> finding \<Rightarrow> result" where
  "guardResult d f = \<lparr>res_decision = d, res_findings = [f], res_observed = [], res_gaps = Map.empty,
                      res_profile = [], res_writeAllowed = False\<rparr>"

definition reservedClassBlock :: "string \<Rightarrow> result" where
  "reservedClassBlock subject = guardResult BLOCK
     \<lparr>fd_rule = ReservedPolicyClass, fd_obligation = [], fd_effect = EffectBlock, fd_subject = subject,
      fd_points = 0, fd_code = ''assent-policy.self-edit'', fd_message = []\<rparr>"

definition undecidableReview :: "string \<Rightarrow> result" where
  "undecidableReview subject = guardResult REVIEW
     \<lparr>fd_rule = ruleUndecidable, fd_obligation = [], fd_effect = EffectRequireReview, fd_subject = subject,
      fd_points = 0, fd_code = ''changeset.undecidable'', fd_message = []\<rparr>"

definition decide :: "cel_runtime \<Rightarrow> decideRequest \<Rightarrow> decide_error + result" where
  "decide rt req =
     (if dr_subjectClass req = ReservedPolicyClass then Inr (reservedClassBlock (dr_subject req))
      else case dr_input req of
        None \<Rightarrow> Inl NilEvaluationInput
      | Some i \<Rightarrow>
          if dr_opaque req \<or> in_changes i = [] then Inr (undecidableReview (dr_subject req))
          else (case dr_binding req of
              None \<Rightarrow> Inl (NoRequiredObligations [] [])
            | Some b \<Rightarrow>
                if b_require b = [] then Inl (NoRequiredObligations (b_class b) (b_environment b))
                else (case coverWithProfile rt (dr_policy req) b (Some i) (dr_approval req)
                        (dr_ceiling req) (dr_precedence req) (dr_profiles req) of
                    Inl e \<Rightarrow> Inl (CoverError e)
                  | Inr res \<Rightarrow> Inr res)))"

subsection \<open>The specification of an approval\<close>

definition enforced :: "phase \<Rightarrow> rule \<Rightarrow> prove \<Rightarrow> bool" where
  "enforced ceiling r pv \<longleftrightarrow> r_prove r = Some pv \<and> effectivePhase (r_phase r) (normCeiling ceiling) = PhaseEnforce"

text \<open>A subject is proven when no walk erred and none is false, or a review by people covers it.\<close>

definition reviewedBy :: "approvalContext option \<Rightarrow> evalInput \<Rightarrow> rule \<Rightarrow> string \<Rightarrow> bool" where
  "reviewedBy appr i r subj \<longleftrightarrow>
     (\<exists>onf ac ev. r_onFailure r = Some onf \<and> of_effect onf = EffectRequireReview \<and> appr = Some ac
        \<and> ac_evidence ac subj = Some ev \<and> approvalContract ev (ac_sourceSha ac) (mr_author (in_mr i)))"

definition provenOn ::
  "cel_runtime \<Rightarrow> binding \<Rightarrow> evalInput \<Rightarrow> approvalContext option \<Rightarrow> rule \<Rightarrow> prove \<Rightarrow> string \<Rightarrow> bool" where
  "provenOn rt b i appr r pv subj \<longleftrightarrow>
     (let vs = (\<lambda>ch. kleeneTree (leafVerdict rt i ch (b_environment b)) 0 (pv_when pv))
                 ` {ch \<in> set (in_changes i). selectsOne r ch \<and> ec_subject ch = subj} in
      KUnknown \<notin> vs \<and> (KFalse \<in> vs \<longrightarrow> reviewedBy appr i r subj))"

lemma verdicts_kleene:
  assumes "matchChanges (r_match r) (in_changes i) = Inr ms"
  shows "verdicts (ruleCtx rt b i appr r pv) subj ms =
    (\<lambda>ch. kleeneTree (leafVerdict rt i ch (b_environment b)) 0 (pv_when pv))
       ` {ch \<in> set (in_changes i). selectsOne r ch \<and> ec_subject ch = subj}"
  using selectsOne_matches [OF assms]
  by (auto simp: verdicts_def walkSubject_def ruleCtx_def walkAssertTree_def verdict_walk image_iff)

lemma evidence_reviewed:
  "r_onFailure r = Some onf \<Longrightarrow> of_effect onf = EffectRequireReview \<Longrightarrow>
     fst (approvalSatisfies (evidenceFor appr subj) (sourceSha appr) (mr_author (in_mr i)))
     \<longleftrightarrow> reviewedBy appr i r subj"
proof (cases appr)
  case (Some ac)
  assume "r_onFailure r = Some onf" "of_effect onf = EffectRequireReview"
  with Some show ?thesis
    by (cases "ac_evidence ac subj") (auto simp: reviewedBy_def evidenceFor_def sourceSha_def
        approvalSatisfies_iff_contract approvalSatisfies_def [of None])
qed (simp add: reviewedBy_def evidenceFor_def approvalSatisfies_def)

lemma coverSubject_proven:
  assumes "matchChanges (r_match r) (in_changes i) = Inr ms"
  shows "fst (coverSubject (ruleCtx rt b i appr r pv) subj ms) = None \<longleftrightarrow> provenOn rt b i appr r pv subj"
proof -
  have "(\<exists>onf. r_onFailure r = Some onf \<and> of_effect onf = EffectRequireReview
       \<and> fst (approvalSatisfies (evidenceFor appr subj) (sourceSha appr) (mr_author (in_mr i))))
     \<longleftrightarrow> reviewedBy appr i r subj"
    using evidence_reviewed by (auto simp: reviewedBy_def)
  then show ?thesis
    by (simp add: coverSubject_None_iff provenOn_def verdicts_kleene [OF assms] Let_def)
qed


text \<open>
  What an APPROVE stands for: every required obligation is proven by an enforced rule; every
  enforced rule is proven on each subject it selects, or its obligation is not required and
  its only effect is a comment; every deleted file and edited value is selected by an
  enforced rule; and the points stay within the threshold.
\<close>

definition clearedOn ::
  "cel_runtime \<Rightarrow> binding \<Rightarrow> evalInput \<Rightarrow> approvalContext option \<Rightarrow> rule \<Rightarrow> prove \<Rightarrow> string \<Rightarrow> bool" where
  "clearedOn rt b i appr r pv subj \<longleftrightarrow> provenOn rt b i appr r pv subj
     \<or> pv_obligation pv \<notin> set (b_require b)
       \<and> (\<exists>onf. r_onFailure r = Some onf \<and> of_effect onf = EffectComment)
       \<and> KUnknown \<notin> (\<lambda>ch. kleeneTree (leafVerdict rt i ch (b_environment b)) 0 (pv_when pv))
           ` {ch \<in> set (in_changes i). selectsOne r ch \<and> ec_subject ch = subj}"

definition approveSpec ::
  "cel_runtime \<Rightarrow> mergePolicy \<Rightarrow> binding \<Rightarrow> evalInput \<Rightarrow> approvalContext option \<Rightarrow> phase \<Rightarrow> bool" where
  "approveSpec rt p b i appr ceiling \<longleftrightarrow>
     (\<forall>obl \<in> set (b_require b). \<exists>r \<in> set (mp_rules p). \<exists>pv. enforced ceiling r pv \<and> pv_obligation pv = obl)
     \<and> (\<forall>r \<in> set (mp_rules p). \<forall>pv. enforced ceiling r pv \<longrightarrow>
          (\<forall>ch \<in> set (in_changes i). selectsOne r ch \<longrightarrow>
             clearedOn rt b i appr r pv (ec_subject ch)))
     \<and> (\<forall>ch \<in> set (in_changes i). ec_path ch = [] \<and> ec_kind ch = kindDelete \<longrightarrow>
          (\<exists>r \<in> set (mp_rules p). \<exists>pv. enforced ceiling r pv \<and> m_fileEvents (r_match r) \<noteq> None \<and> selectsOne r ch))
     \<and> (\<forall>ch \<in> set (in_changes i). ec_path ch \<noteq> [] \<and> b_require b \<noteq> [] \<longrightarrow>
          (\<exists>r \<in> set (mp_rules p). \<exists>pv. enforced ceiling r pv \<and> selectsOne r ch))"

definition pointsOf ::
  "cel_runtime \<Rightarrow> mergePolicy \<Rightarrow> binding \<Rightarrow> evalInput \<Rightarrow> approvalContext option \<Rightarrow> phase \<Rightarrow> int" where
  "pointsOf rt p b i appr ceiling =
     wrap64 (sum_list (map ct_points (allContribs rt b i appr (normCeiling ceiling) (mp_rules p))))"

lemma subjContrib_APPROVE:
  assumes "matchChanges (r_match r) (in_changes i) = Inr ms" "ph = PhaseEnforce"
  shows "ct_decision (subjContrib (b_require b) ph (ruleCtx rt b i appr r pv) ms subj) = APPROVE
     \<longleftrightarrow> clearedOn rt b i appr r pv subj"
proof (cases "coverSubject (ruleCtx rt b i appr r pv) subj ms")
  case (fields f k gap)
  have cl: "clearedOn rt b i appr r pv subj \<longleftrightarrow> provenOn rt b i appr r pv subj
     \<or> pv_obligation pv \<notin> set (b_require b)
       \<and> (\<exists>onf. r_onFailure r = Some onf \<and> of_effect onf = EffectComment)
       \<and> KUnknown \<notin> verdicts (ruleCtx rt b i appr r pv) subj ms"
    by (simp only: clearedOn_def verdicts_kleene [OF assms(1)])
  show ?thesis
  proof (cases f)
    case None
    with fields coverSubject_proven [OF assms(1)] have "provenOn rt b i appr r pv subj"
      by (metis fst_conv)
    with None fields assms(2) show ?thesis by (simp add: subjContrib_def cl)
  next
    case (Some x)
    with fields coverSubject_proven [OF assms(1)] have np: "\<not> provenOn rt b i appr r pv subj"
      by (metis fst_conv option.distinct(1))
    have "fd_effect x = EffectComment \<longleftrightarrow> (\<exists>onf. r_onFailure r = Some onf \<and> of_effect onf = EffectComment)
        \<and> KUnknown \<notin> verdicts (ruleCtx rt b i appr r pv) subj ms"
    proof
      assume "fd_effect x = EffectComment"
      with fields Some coverSubject_effect_comment show "(\<exists>onf. r_onFailure r = Some onf
          \<and> of_effect onf = EffectComment) \<and> KUnknown \<notin> verdicts (ruleCtx rt b i appr r pv) subj ms"
        by (metis ruleCtx_sel(1))
    next
      assume a: "(\<exists>onf. r_onFailure r = Some onf \<and> of_effect onf = EffectComment)
        \<and> KUnknown \<notin> verdicts (ruleCtx rt b i appr r pv) subj ms"
      with np have "KFalse \<in> verdicts (ruleCtx rt b i appr r pv) subj ms"
        by (auto simp: provenOn_def verdicts_kleene [OF assms(1)] Let_def)
      with a coverSubject_cases(3) [OF fields] Some show "fd_effect x = EffectComment"
        by (fastforce simp: mkFinding_def)
    qed
    with Some fields assms(2) np show ?thesis
      by (auto simp: subjContrib_def obligationEffect_APPROVE cl)
  qed
qed

lemma ruleContribs_APPROVE:
  assumes ok: "ruleFails (normCeiling ceiling) r = None"
  shows "(\<forall>c \<in> set (ruleContribs rt b i appr (normCeiling ceiling) r). ct_decision c = APPROVE) \<longleftrightarrow>
     (\<forall>pv. enforced ceiling r pv \<longrightarrow>
        (\<forall>ch \<in> set (in_changes i). selectsOne r ch \<longrightarrow>
             clearedOn rt b i appr r pv (ec_subject ch)))"
proof (cases "r_prove r")
  case None
  then show ?thesis by (simp add: ruleContribs_def enforced_def Let_def)
next
  case (Some pv)
  show ?thesis
  proof (cases "matchChanges (r_match r) (in_changes i)")
    case (Inl e)
    then have "matchChanges (r_match r) [] = Inl e" by (rule matchChanges_Inl_perm)
    then have "\<not> activePhase (effectivePhase (r_phase r) (normCeiling ceiling))"
      using ok Some by (auto simp: ruleFails_def split: if_splits)
    then show ?thesis by (simp add: ruleContribs_def enforced_def activePhase_def Let_def)
  next
    case (Inr ms)
    show ?thesis
    proof (cases "effectivePhase (r_phase r) (normCeiling ceiling) = PhaseEnforce")
      case True
      have subj: "set (subjectsOf ms) = ec_subject ` {ch \<in> set (in_changes i). selectsOne r ch}"
        using selectsOne_matches [OF Inr] by (auto simp: subjectsOf_def)
      have "set (ruleContribs rt b i appr (normCeiling ceiling) r) = insert (markContrib (pv_obligation pv))
          (subjContrib (b_require b) PhaseEnforce (ruleCtx rt b i appr r pv) ms ` set (subjectsOf ms))"
        using True Some Inr by (simp add: ruleContribs_def activePhase_def Let_def)
      then show ?thesis
        using True Some subjContrib_APPROVE [OF Inr refl, of b rt appr pv]
        by (auto simp: enforced_def markContrib_def subj)
    next
      case False
      then show ?thesis
        using Some Inr by (auto simp: ruleContribs_def enforced_def activePhase_def subjContrib_def Let_def split: prod.splits)
    qed
  qed
qed

lemma ruleContribs_covered:
  "\<Union> (ct_covered ` set (concat (map (ruleContribs rt b i appr (normCeiling ceiling)) rules)))
     = {pv_obligation pv | r pv. r \<in> set rules \<and> enforced ceiling r pv}"
proof -
  have sub: "ct_covered (subjContrib req ph c ms subj) = {}" for req ph c ms subj
    by (simp add: subjContrib_def Let_def split: prod.split)
  have "\<Union> (ct_covered ` set (ruleContribs rt b i appr (normCeiling ceiling) r))
      = {pv_obligation pv | pv. enforced ceiling r pv}" for r
    by (auto simp: ruleContribs_def enforced_def activePhase_def markContrib_def sub Let_def
        split: option.splits sum.splits if_splits)
  then show ?thesis by auto
qed

lemma governed_enforced:
  "editGoverned rules ch (normCeiling ceiling) \<longleftrightarrow> (\<exists>r \<in> set rules. \<exists>pv. enforced ceiling r pv \<and> selectsOne r ch)"
  "fileDeleteGoverned rules ch (normCeiling ceiling) \<longleftrightarrow>
     (\<exists>r \<in> set rules. \<exists>pv. enforced ceiling r pv \<and> m_fileEvents (r_match r) \<noteq> None \<and> selectsOne r ch)"
  by (auto simp: editGoverned_def fileDeleteGoverned_def enforced_def)

lemma guardContribs_APPROVE:
  "(\<forall>c \<in> set (guardContribs b rules ceiling changes cov). ct_decision c = APPROVE) \<longleftrightarrow>
     uncovered b cov = [] \<and> ungovernedDeletes rules ceiling changes = []
     \<and> (requiredObligationCovered b cov \<longrightarrow> ungovernedEdits rules ceiling changes = [])"
proof -
  have "ct_decision (escContrib f) \<noteq> APPROVE" for f by (simp add: escContrib_def)
  then have "(\<forall>x \<in> set (map (\<lambda>x. escContrib (g x)) xs). ct_decision x = APPROVE) \<longleftrightarrow> xs = []"
    for g :: "'a \<Rightarrow> finding" and xs by (cases xs) auto
  note esc = this
  show ?thesis
    unfolding guardContribs_def set_append ball_Un esc
    by (cases "requiredObligationCovered b cov") (simp_all add: esc del: set_map)
qed

lemma allContribs_APPROVE:
  assumes "failingRules (normCeiling ceiling) (mp_rules p) = []"
  shows "(\<forall>c \<in> set (allContribs rt b i appr (normCeiling ceiling) (mp_rules p)). ct_decision c = APPROVE)
    \<longleftrightarrow> approveSpec rt p b i appr ceiling"
proof -
  let ?n = "normCeiling ceiling"
  let ?cov = "{pv_obligation pv | r pv. r \<in> set (mp_rules p) \<and> enforced ceiling r pv}"
  have ok: "\<forall>r \<in> set (mp_rules p). ruleFails ?n r = None"
    using assms by (simp add: failingRules_def filter_eq_Nil_iff)
  have rules: "(\<forall>c \<in> set (concat (map (ruleContribs rt b i appr ?n) (mp_rules p))). ct_decision c = APPROVE)
      \<longleftrightarrow> (\<forall>r \<in> set (mp_rules p). \<forall>c \<in> set (ruleContribs rt b i appr ?n r). ct_decision c = APPROVE)"
    by auto
  have unc: "uncovered b ?cov = [] \<longleftrightarrow>
      (\<forall>obl \<in> set (b_require b). \<exists>r \<in> set (mp_rules p). \<exists>pv. enforced ceiling r pv \<and> pv_obligation pv = obl)"
    unfolding uncovered_def filter_eq_Nil_iff by fast
  have some_cov: "uncovered b ?cov = [] \<Longrightarrow> requiredObligationCovered b ?cov \<longleftrightarrow> b_require b \<noteq> []"
    by (cases "b_require b") (auto simp: uncovered_def requiredObligationCovered_def filter_eq_Nil_iff)
  have dels: "ungovernedDeletes (mp_rules p) ?n (in_changes i) = [] \<longleftrightarrow>
     (\<forall>ch \<in> set (in_changes i). ec_path ch = [] \<and> ec_kind ch = kindDelete \<longrightarrow>
        fileDeleteGoverned (mp_rules p) ch ?n)"
    by (auto simp: ungovernedDeletes_def filter_eq_Nil_iff)
  have edits: "ungovernedEdits (mp_rules p) ?n (in_changes i) = [] \<longleftrightarrow>
     (\<forall>ch \<in> set (in_changes i). ec_path ch \<noteq> [] \<longrightarrow> editGoverned (mp_rules p) ch ?n)"
    by (auto simp: ungovernedEdits_def filter_eq_Nil_iff)
  have "(\<forall>c \<in> set (allContribs rt b i appr ?n (mp_rules p)). ct_decision c = APPROVE) \<longleftrightarrow>
     (\<forall>r \<in> set (mp_rules p). \<forall>c \<in> set (ruleContribs rt b i appr ?n r). ct_decision c = APPROVE)
     \<and> uncovered b ?cov = [] \<and> ungovernedDeletes (mp_rules p) ?n (in_changes i) = []
     \<and> (requiredObligationCovered b ?cov \<longrightarrow> ungovernedEdits (mp_rules p) ?n (in_changes i) = [])"
    unfolding allContribs_def Let_def ruleContribs_covered set_append ball_Un rules guardContribs_APPROVE ..
  also have "\<dots> \<longleftrightarrow> approveSpec rt p b i appr ceiling"
    unfolding approveSpec_def unc [symmetric] governed_enforced [symmetric] dels edits
    using some_cov ok by (auto simp: ruleContribs_APPROVE)
  finally show ?thesis .
qed

subsection \<open>The specification of a block\<close>

text \<open>A block is authored: a rule with the block effect is cleanly false on a subject.\<close>

definition blocksOn ::
  "cel_runtime \<Rightarrow> binding \<Rightarrow> evalInput \<Rightarrow> rule \<Rightarrow> prove \<Rightarrow> string \<Rightarrow> bool" where
  "blocksOn rt b i r pv subj \<longleftrightarrow>
     (let vs = (\<lambda>ch. kleeneTree (leafVerdict rt i ch (b_environment b)) 0 (pv_when pv))
                 ` {ch \<in> set (in_changes i). selectsOne r ch \<and> ec_subject ch = subj} in
      KUnknown \<notin> vs \<and> KFalse \<in> vs \<and> (\<exists>onf. r_onFailure r = Some onf \<and> of_effect onf = EffectBlock))"

lemma coverSubject_block:
  assumes "matchChanges (r_match r) (in_changes i) = Inr ms"
  shows "(\<exists>x. fst (coverSubject (ruleCtx rt b i appr r pv) subj ms) = Some x \<and> fd_effect x = EffectBlock)
     \<longleftrightarrow> blocksOn rt b i r pv subj"
  unfolding blocksOn_def verdicts_kleene [OF assms, of rt b appr pv subj, symmetric] Let_def
  by (auto simp: coverSubject_def verdicts_def fold_subjStep_fields subjInit_def mkFinding_def Let_def
      split: if_splits prod.splits option.splits)

lemma ruleContribs_BLOCK:
  "(\<exists>c \<in> set (ruleContribs rt b i appr (normCeiling ceiling) r). ct_decision c = BLOCK) \<longleftrightarrow>
     (\<exists>pv. enforced ceiling r pv \<and> ruleFails (normCeiling ceiling) r = None
        \<and> (\<exists>ch \<in> set (in_changes i). selectsOne r ch \<and> blocksOn rt b i r pv (ec_subject ch)))"
proof (cases "r_prove r")
  case None
  then show ?thesis by (simp add: ruleContribs_def enforced_def Let_def)
next
  case (Some pv)
  show ?thesis
  proof (cases "matchChanges (r_match r) (in_changes i)")
    case (Inl e)
    then have "matchChanges (r_match r) [] = Inl e" by (rule matchChanges_Inl_perm)
    with Inl Some show ?thesis
      by (auto simp: ruleContribs_def enforced_def activePhase_def markContrib_def ruleFails_def Let_def)
  next
    case (Inr ms)
    then have "\<exists>x. matchChanges (r_match r) [] = Inr x"
      by (metis matchChanges_error sum.exhaust)
    then have ok: "ruleFails (normCeiling ceiling) r = None" by (auto simp: ruleFails_def)
    have subj: "set (subjectsOf ms) = ec_subject ` {ch \<in> set (in_changes i). selectsOne r ch}"
      using selectsOne_matches [OF Inr] by (auto simp: subjectsOf_def)
    have "ct_decision (subjContrib (b_require b) PhaseEnforce (ruleCtx rt b i appr r pv) ms subj) = BLOCK
        \<longleftrightarrow> blocksOn rt b i r pv subj" for subj
      using coverSubject_block [OF Inr, of rt b appr pv subj]
      by (auto simp: subjContrib_def obligationEffect_BLOCK split: prod.splits option.splits)
    then show ?thesis
      using Some Inr ok by (cases "effectivePhase (r_phase r) (normCeiling ceiling) = PhaseEnforce")
        (auto simp: ruleContribs_def enforced_def activePhase_def markContrib_def subjContrib_def subj Let_def
          split: prod.splits)
  qed
qed

lemma guardContribs_BLOCK: "c \<in> set (guardContribs b rules ceiling changes cov) \<Longrightarrow> ct_decision c \<noteq> BLOCK"
  by (auto simp: guardContribs_def escContrib_def split: if_splits)

lemma allContribs_BLOCK:
  assumes "failingRules (normCeiling ceiling) rules = []"
  shows "(\<exists>c \<in> set (allContribs rt b i appr (normCeiling ceiling) rules). ct_decision c = BLOCK) \<longleftrightarrow>
     (\<exists>r \<in> set rules. \<exists>pv. enforced ceiling r pv
        \<and> (\<exists>ch \<in> set (in_changes i). selectsOne r ch \<and> blocksOn rt b i r pv (ec_subject ch)))"
proof -
  have ok: "\<forall>r \<in> set rules. ruleFails (normCeiling ceiling) r = None"
    using assms by (simp add: failingRules_def filter_eq_Nil_iff)
  have "(\<exists>c \<in> set (allContribs rt b i appr (normCeiling ceiling) rules). ct_decision c = BLOCK) \<longleftrightarrow>
     (\<exists>r \<in> set rules. \<exists>c \<in> set (ruleContribs rt b i appr (normCeiling ceiling) r). ct_decision c = BLOCK)"
    by (auto simp: allContribs_def Let_def dest: guardContribs_BLOCK)
  with ok show ?thesis by (simp add: ruleContribs_BLOCK)
qed

subsection \<open>Observed rules\<close>

text \<open>Dropping the rules whose effective phase is not enforce leaves everything but \<open>observed\<close>.\<close>

definition enforcing :: "phase \<Rightarrow> rule list \<Rightarrow> rule list" where
  "enforcing ceiling rules = filter (\<lambda>r. effectivePhase (r_phase r) (normCeiling ceiling) = PhaseEnforce) rules"

definition silent :: "contrib \<Rightarrow> bool" where
  "silent c \<longleftrightarrow> ct_decision c = APPROVE \<and> ct_findings c = [] \<and> ct_gaps c = {} \<and> ct_points c = 0"

lemma reduce_drop_silent:
  "(reduceContribs t (filter (\<lambda>c. \<not> silent c) cs))\<lparr>res_observed := x\<rparr> = (reduceContribs t cs)\<lparr>res_observed := x\<rparr>"
proof -
  let ?f = "filter (\<lambda>c. \<not> silent c) cs"
  have "fold max (map ct_decision ?f) d = fold max (map ct_decision cs) d" for d
    by (induction cs arbitrary: d) (auto simp: silent_def)
  moreover have "sum_list (map ct_points ?f) = sum_list (map ct_points cs)"
    by (induction cs) (auto simp: silent_def)
  moreover have "concat (map ct_findings ?f) = concat (map ct_findings cs)"
    by (induction cs) (auto simp: silent_def)
  moreover have "(\<exists>c \<in> set ?f. y \<in> ct_gaps c) \<longleftrightarrow> (\<exists>c \<in> set cs. y \<in> ct_gaps c)" for y
    by (auto simp: silent_def)
  ultimately show ?thesis by (simp only: reduceContribs_def) simp
qed

lemma ruleContribs_unenforced:
  assumes "effectivePhase (r_phase r) ceiling \<noteq> PhaseEnforce" "c \<in> set (ruleContribs rt b i appr ceiling r)"
  shows "silent c \<and> ct_covered c = {}"
proof -
  have obs: "effectivePhase (r_phase r) ceiling = PhaseObserve"
    using assms by (auto simp: ruleContribs_def activePhase_def Let_def split: if_splits)
  have "silent (subjContrib req PhaseObserve d ms subj) \<and> ct_covered (subjContrib req PhaseObserve d ms subj) = {}"
    for req d ms subj by (simp add: subjContrib_def silent_def Let_def split: prod.split)
  with assms(2) obs show ?thesis
    by (auto simp: ruleContribs_def activePhase_def Let_def split: if_splits option.splits sum.splits)
qed

lemma rules_drop_observed:
  fixes ceiling :: phase
  defines "n \<equiv> normCeiling ceiling"
  shows "filter (\<lambda>c. \<not> silent c) (concat (map (ruleContribs rt b i appr n) (enforcing ceiling rules)))
       = filter (\<lambda>c. \<not> silent c) (concat (map (ruleContribs rt b i appr n) rules))"
    "\<Union> (ct_covered ` set (concat (map (ruleContribs rt b i appr n) (enforcing ceiling rules))))
       = \<Union> (ct_covered ` set (concat (map (ruleContribs rt b i appr n) rules)))"
proof (induction rules)
  case (Cons r rules)
  have "filter (\<lambda>c. \<not> silent c) (ruleContribs rt b i appr n r) = []"
    "\<Union> (ct_covered ` set (ruleContribs rt b i appr n r)) = {}"
    if "effectivePhase (r_phase r) n \<noteq> PhaseEnforce"
    using ruleContribs_unenforced [OF that] by (auto simp: filter_eq_Nil_iff)
  then show "filter (\<lambda>c. \<not> silent c) (concat (map (ruleContribs rt b i appr n) (enforcing ceiling (r # rules))))
       = filter (\<lambda>c. \<not> silent c) (concat (map (ruleContribs rt b i appr n) (r # rules)))"
    "\<Union> (ct_covered ` set (concat (map (ruleContribs rt b i appr n) (enforcing ceiling (r # rules)))))
       = \<Union> (ct_covered ` set (concat (map (ruleContribs rt b i appr n) (r # rules))))"
    using Cons by (auto simp: enforcing_def n_def)
qed (simp_all add: enforcing_def)

lemma guards_drop_observed:
  "guardContribs b (enforcing ceiling rules) (normCeiling ceiling) changes cov
     = guardContribs b rules (normCeiling ceiling) changes cov"
proof -
  have "fileDeleteGoverned (enforcing ceiling rules) ch (normCeiling ceiling) = fileDeleteGoverned rules ch (normCeiling ceiling)"
    "editGoverned (enforcing ceiling rules) ch (normCeiling ceiling) = editGoverned rules ch (normCeiling ceiling)" for ch
    by (auto simp: fileDeleteGoverned_def editGoverned_def enforcing_def)
  then show ?thesis by (simp only: guardContribs_def ungovernedDeletes_def ungovernedEdits_def)
qed

lemma allContribs_drop_observed:
  "filter (\<lambda>c. \<not> silent c) (allContribs rt b i appr (normCeiling ceiling) (enforcing ceiling rules))
     = filter (\<lambda>c. \<not> silent c) (allContribs rt b i appr (normCeiling ceiling) rules)"
  unfolding allContribs_def Let_def filter_append rules_drop_observed guards_drop_observed ..

end
