(* ===== verification/EngineProps.thy ===== *)
theory EngineProps
  imports Decide
begin

text \<open>
  The properties of the decision engine (\<open>internal/core/aggregate\<close>): when it approves, when it
  blocks, what cannot change its result and what evidence it accepts. The last part fixes a
  small expression runtime, policy and input on which the hypotheses are shown to hold.
\<close>

subsection \<open>Example data\<close>

text \<open>
  Expressions of the example runtime: \<open>ok\<close>, \<open>no\<close>, \<open>bounded\<close> (the value after the change is an
  integer of at most ten) and \<open>text\<close> (a text comparison); anything else fails to evaluate.
\<close>

definition demo_eval :: "string \<Rightarrow> cval \<Rightarrow> (string \<times> cval) list \<times> string option \<times> cval option" where
  "demo_eval expr act =
     (if expr = ''ok'' then ([], None, Some (CBool True))
      else if expr = ''no'' then ([], None, Some (CBool False))
      else if expr = ''text'' then ([(''_<_'', CStr ''10''), (''_<_'', CStr ''9'')], None, Some (CBool True))
      else if expr = ''bounded'' then
        (case resolveActivationPath act ''new'' of
           Some (CInt n) \<Rightarrow> ([(''_<=_'', CInt n), (''_<=_'', CInt 10)], None, Some (CBool (n \<le> 10)))
         | _ \<Rightarrow> ([], Some ''no such overload'', None))
      else ([], Some ''undeclared reference'', None))"

definition demo_rt :: cel_runtime where
  "demo_rt = \<lparr>rt_newEnv = (\<lambda>_. None), rt_compile = (\<lambda>_ _. None), rt_program = (\<lambda>_ _. None),
     rt_eval = demo_eval, rt_parseFloat = (\<lambda>_. True), rt_fmtDouble = id\<rparr>"

definition demo_change :: "string \<Rightarrow> int \<Rightarrow> evalChange" where
  "demo_change subj n = \<lparr>ec_subject = subj, ec_file = ''topics.yaml'', ec_path = ''/partitions'',
     ec_kind = ''modify'', ec_old = GNum ''3'', ec_new = GNum (itoa n), ec_entry = GNil, ec_oldEntry = GNil\<rparr>"

definition demo_input :: "evalChange list \<Rightarrow> evalInput" where
  "demo_input cs = \<lparr>in_changes = cs, in_facts = [], in_mr = \<lparr>mr_author = ''ann'', mr_sourceBranch = ''f'',
     mr_targetBranch = ''main'', mr_labels = []\<rparr>, in_require = []\<rparr>"

definition demo_rule :: "string \<Rightarrow> string \<Rightarrow> effect \<Rightarrow> int \<Rightarrow> rule" where
  "demo_rule name expr eff points = \<lparr>r_name = name, r_phase = PhaseEnforce,
     r_match = \<lparr>m_files = None, m_values = Some \<lparr>vm_paths = [], vm_pointers = [''/partitions'']\<rparr>,
        m_fileEvents = None, m_valueChanges = None\<rparr>,
     r_prove = Some \<lparr>pv_obligation = ''bounded-partitions'',
        pv_when = AssertTree (Some \<lparr>lf_cel = expr, lf_message = ''too many''\<rparr>) None None None\<rparr>,
     r_onFailure = Some \<lparr>of_effect = eff, of_code = ''partitions''\<rparr>,
     r_effect = [], r_message = [], r_points = points\<rparr>"

definition demo_policy :: "rule list \<Rightarrow> mergePolicy" where
  "demo_policy rs = \<lparr>mp_name = ''topics'', mp_rules = rs\<rparr>"

definition demo_binding :: binding where
  "demo_binding = \<lparr>b_class = ''topic'', b_environment = ''dev'', b_packs = [], b_threshold = 10,
     b_require = [''bounded-partitions'']\<rparr>"

definition demo_request :: "rule list \<Rightarrow> evalChange list \<Rightarrow> decideRequest" where
  "demo_request rs cs = \<lparr>dr_subject = ''topics.yaml'', dr_subjectClass = ''topic'', dr_opaque = False,
     dr_policy = Some (demo_policy rs), dr_binding = Some demo_binding, dr_input = Some (demo_input cs),
     dr_approval = None, dr_ceiling = PhaseEnforce, dr_precedence = [''writers''],
     dr_profiles = [Some \<lparr>pf_name = ''writers'', pf_writes = True, pf_environments = [''dev''],
        pf_classes = [''*'']\<rparr>]\<rparr>"

subsection \<open>When the engine approves\<close>

text \<open>
  C5: \<open>Decide\<close> approves exactly when the subject is not the reserved policy class, the change
  set is neither opaque nor empty, the binding requires something, the profile table is valid,
  every required obligation is proven by an enforced rule, every enforced rule is proven on each
  subject it selects (or only comments, and its obligation is not required), every deleted file
  and every edited value is selected by an enforced rule, and the points stay in the threshold.
\<close>

theorem decide_approve_iff:
  "(\<exists>res. decide rt req = Inr res \<and> res_decision res = APPROVE) \<longleftrightarrow>
     dr_subjectClass req \<noteq> ReservedPolicyClass \<and> \<not> dr_opaque req
     \<and> (\<exists>p b i rp. dr_policy req = Some p \<and> dr_binding req = Some b \<and> dr_input req = Some i
          \<and> in_changes i \<noteq> [] \<and> b_require b \<noteq> []
          \<and> resolveProfile (dr_precedence req) (dr_profiles req) (b_environment b) (b_class b) = Inr rp
          \<and> rt_newEnv rt newEvalEnv = None
          \<and> failingRules (normCeiling (dr_ceiling req)) (mp_rules p) = []
          \<and> approveSpec rt p b i (dr_approval req) (dr_ceiling req)
          \<and> pointsOf rt p b i (dr_approval req) (dr_ceiling req) \<le> b_threshold b)"
proof -
  have reduce: "res_decision (reduceContribs t cs) = APPROVE \<longleftrightarrow>
      (\<forall>c \<in> set cs. ct_decision c = APPROVE) \<and> wrap64 (sum_list (map ct_points cs)) \<le> t" for t cs
    by (auto simp: reduceContribs_def max_APPROVE fold_max_APPROVE riskDecision_def)
  show ?thesis
    by (cases "dr_policy req"; cases "dr_binding req"; cases "dr_input req")
      (auto simp: decide_def coverWithProfile_def cover_char reduce allContribs_APPROVE pointsOf_def
        reservedClassBlock_def undecidableReview_def guardResult_def cover_def [of _ None]
        bind_res_Inr_iff split: if_splits sum.splits option.splits list.splits)
qed

subsection \<open>When the engine blocks\<close>

text \<open>
  C6: \<open>Decide\<close> blocks exactly on the reserved policy class or when, on a run that completes, an
  enforced rule whose failure effect is block is false on some selected subject and no walk on
  that subject erred. An evaluation error never blocks, and nothing an author or approver
  supplies downgrades such a block.
\<close>

theorem decide_block_iff:
  "(\<exists>res. decide rt req = Inr res \<and> res_decision res = BLOCK) \<longleftrightarrow>
     dr_subjectClass req = ReservedPolicyClass
     \<or> \<not> dr_opaque req
     \<and> (\<exists>p b i rp. dr_policy req = Some p \<and> dr_binding req = Some b \<and> dr_input req = Some i
          \<and> in_changes i \<noteq> [] \<and> b_require b \<noteq> []
          \<and> resolveProfile (dr_precedence req) (dr_profiles req) (b_environment b) (b_class b) = Inr rp
          \<and> rt_newEnv rt newEvalEnv = None
          \<and> failingRules (normCeiling (dr_ceiling req)) (mp_rules p) = []
          \<and> (\<exists>r \<in> set (mp_rules p). \<exists>pv. enforced (dr_ceiling req) r pv
               \<and> (\<exists>ch \<in> set (in_changes i). selectsOne r ch \<and> blocksOn rt b i r pv (ec_subject ch))))"
proof -
  have reduce: "res_decision (reduceContribs t cs) = BLOCK \<longleftrightarrow> (\<exists>c \<in> set cs. ct_decision c = BLOCK)" for t cs
    by (auto simp: reduceContribs_def max_BLOCK fold_max_BLOCK riskDecision_def image_iff split: if_splits)
      (metis+)
  show ?thesis
    by (cases "dr_policy req"; cases "dr_binding req"; cases "dr_input req")
      (auto simp: decide_def coverWithProfile_def cover_char reduce allContribs_BLOCK
        reservedClassBlock_def undecidableReview_def guardResult_def cover_def [of _ None]
        bind_res_Inr_iff split: if_splits sum.splits option.splits list.splits)
qed

subsection \<open>What cannot change the result\<close>




text \<open>
  C8: rules whose effective phase is not enforce are inert: removing them from the policy leaves
  every field of the result as it was, except the observed findings.
\<close>

theorem cover_ignores_observed:
  assumes "cover rt (Some p) (Some b) (Some i) appr ceiling = Inr res"
    and "mp_rules q = enforcing ceiling (mp_rules p)"
  shows "\<exists>res'. cover rt (Some q) (Some b) (Some i) appr ceiling = Inr res'
     \<and> res'\<lparr>res_observed := []\<rparr> = res\<lparr>res_observed := []\<rparr>"
proof -
  let ?n = "normCeiling ceiling"
  have ok: "failingRules ?n (mp_rules p) = []" and env: "rt_newEnv rt newEvalEnv = None"
    and res: "res = reduceContribs (b_threshold b) (allContribs rt b i appr ?n (mp_rules p))"
    using assms(1) by (auto simp: cover_char split: option.splits list.splits)
  have "failingRules ?n (mp_rules q) = []"
    using ok by (auto simp: assms(2) failingRules_def enforcing_def filter_eq_Nil_iff)
  then have "cover rt (Some q) (Some b) (Some i) appr ceiling =
      Inr (reduceContribs (b_threshold b) (allContribs rt b i appr ?n (mp_rules q)))"
    using env by (simp add: cover_char)
  moreover have "(reduceContribs (b_threshold b) (allContribs rt b i appr ?n (mp_rules q)))\<lparr>res_observed := []\<rparr>
      = res\<lparr>res_observed := []\<rparr>"
    unfolding res assms(2) by (metis reduce_drop_silent allContribs_drop_observed)
  ultimately show ?thesis by blast
qed

theorem cover_ignores_observed_witness:
  "let obs = (demo_rule ''o'' ''no'' ''block'' 99)\<lparr>r_phase := PhaseObserve\<rparr>;
       p = demo_policy [obs, demo_rule ''a'' ''bounded'' ''block'' 5]; i = demo_input [demo_change ''s'' 5] in
   \<exists>res res'. cover demo_rt (Some p) (Some demo_binding) (Some i) None [] = Inr res
     \<and> cover demo_rt (Some (demo_policy [demo_rule ''a'' ''bounded'' ''block'' 5])) (Some demo_binding) (Some i) None [] = Inr res'
     \<and> res'\<lparr>res_observed := []\<rparr> = res\<lparr>res_observed := []\<rparr>"
proof -
  let ?obs = "(demo_rule ''o'' ''no'' ''block'' 99)\<lparr>r_phase := PhaseObserve\<rparr>"
  let ?p = "demo_policy [?obs, demo_rule ''a'' ''bounded'' ''block'' 5]"
  let ?q = "demo_policy [demo_rule ''a'' ''bounded'' ''block'' 5]"
  let ?i = "demo_input [demo_change ''s'' 5]"
  have "\<exists>res. cover demo_rt (Some ?p) (Some demo_binding) (Some ?i) None [] = Inr res"
    by (simp add: cover_char demo_rt_def failingRules_def ruleFails_def demo_policy_def demo_rule_def
        matchChanges_def)
  then obtain res where res: "cover demo_rt (Some ?p) (Some demo_binding) (Some ?i) None [] = Inr res" ..
  have "mp_rules ?q = enforcing [] (mp_rules ?p)"
    by (simp add: enforcing_def demo_policy_def demo_rule_def effectivePhase_def normCeiling_def phaseRank_def)
  from cover_ignores_observed [OF res this] res show ?thesis by (auto simp: Let_def)
qed

subsection \<open>Who may write\<close>

text \<open>
  C9: a result that allows the forge to be written names a profile that covers the binding, is
  the only covering profile with write authority, and won by specificity: no covering profile
  is narrower, and every covering profile earlier in the precedence table is broader.
\<close>

theorem decide_write_authority:
  assumes "decide rt req = Inr res" and "res_writeAllowed res"
  shows "\<exists>b ps p. dr_binding req = Some b
     \<and> ps = filter (\<lambda>p. covers p (b_environment b) (b_class b))
              (map (the \<circ> profilesByName (dr_profiles req)) (dr_precedence req))
     \<and> pf_name p = res_profile res \<and> filter pf_writes ps = [p] \<and> wonBy ps p"
proof -
  obtain b rpo cres where b: "dr_binding req = Some b"
    and rpo: "resolveProfile (dr_precedence req) (dr_profiles req) (b_environment b) (b_class b) = Inr rpo"
    and cres: "cover rt (dr_policy req) (Some b) (dr_input req) (dr_approval req) (dr_ceiling req) = Inr cres"
    and stamped: "res = withProfile cres rpo"
    using assms
    by (auto simp: decide_def coverWithProfile_def reservedClassBlock_def undecidableReview_def
        guardResult_def bind_res_Inr_iff split: if_splits option.splits sum.splits)
  have "\<not> res_writeAllowed cres"
    using cres by (cases "dr_policy req"; cases "dr_input req")
      (auto simp: cover_char cover_def [of _ None] cover_def [of _ _ _ None] reduceContribs_def
        split: option.splits list.splits)
  with stamped assms(2) obtain rp where rp: "rpo = Some rp" "rp_writes rp" and w: "res_profile res = rp_name rp"
    by (auto simp: withProfile_def split: option.splits)
  note rpo [unfolded rp(1)]
  then obtain c cs where cov: "coveringProfiles (dr_precedence req) (dr_profiles req) (b_environment b) (b_class b)
      = Inr (c # cs)" and win: "rp_name rp = pf_name (fst (fold pickStep cs (c, specificity c)))"
      "rp_writes rp = pf_writes (fst (fold pickStep cs (c, specificity c)))"
    by (cases "coveringProfiles (dr_precedence req) (dr_profiles req) (b_environment b) (b_class b)")
      (force simp: resolveProfile_def Let_def split: list.splits)+
  let ?p = "fst (fold pickStep cs (c, specificity c))"
  have won: "wonBy (c # cs) ?p" by (rule pick_wonBy)
  then obtain us vs where sp: "c # cs = us @ ?p # vs" unfolding wonBy_def by blast
  have "length (filter pf_writes (c # cs)) \<le> 1" using coveringProfiles_Inr [OF cov] by blast
  moreover have "filter pf_writes (c # cs) = filter pf_writes us @ ?p # filter pf_writes vs"
    using sp win rp by simp
  ultimately have "filter pf_writes (c # cs) = [?p]" by simp
  moreover have "c # cs = filter (\<lambda>p. covers p (b_environment b) (b_class b))
      (map (the \<circ> profilesByName (dr_profiles req)) (dr_precedence req))"
    using coveringProfiles_Inr [OF cov] by blast
  moreover have "pf_name ?p = res_profile res" using win w by simp
  ultimately show ?thesis using b won by metis
qed

theorem decide_write_authority_witness:
  "\<exists>res (p :: profile). decide demo_rt (demo_request [demo_rule ''r'' ''bounded'' ''block'' 5] [demo_change ''s'' 5]) = Inr res
     \<and> res_writeAllowed res \<and> pf_name p = res_profile res \<and> pf_writes p"
proof -
  let ?req = "demo_request [demo_rule ''r'' ''bounded'' ''block'' 5] [demo_change ''s'' 5]"
  have "\<exists>res. decide demo_rt ?req = Inr res \<and> res_writeAllowed res"
    by (simp add: decide_def coverWithProfile_def cover_char demo_request_def demo_input_def demo_binding_def
        demo_rt_def failingRules_def ruleFails_def demo_policy_def demo_rule_def matchChanges_def
        resolveProfile_def coveringProfiles_def profilesByName_def covers_def scopeCovers_def withProfile_def Let_def)
  then obtain res where res: "decide demo_rt ?req = Inr res" "res_writeAllowed res" by blast
  from decide_write_authority [OF res] obtain ps :: "profile list" and p where
    p: "pf_name p = res_profile res" "filter pf_writes ps = [p]" by metis
  then have "p \<in> set (filter pf_writes ps)" by simp
  then have "pf_writes p" by simp
  with res p show ?thesis by blast
qed

subsection \<open>Leaves and trees\<close>

text \<open>
  a leaf yields a boolean exactly when it compiles, fits the cost budget, evaluates without
  error to that boolean, and no relational operator saw a text operand on the way.
\<close>

theorem evalLeaf_sound:
  "evalLeaf rt i ch env expr = Inr b \<longleftrightarrow>
     rt_compile rt newEvalEnv expr = None \<and> rt_program rt celCostBudget expr = None
     \<and> (\<exists>tr. rt_eval rt expr (bindLeafActivation rt i ch env) = (tr, None, Some (CBool b))
          \<and> (\<forall>(fn, v) \<in> set tr. \<not> (relational fn \<and> text_value v)))"
  (is "?l \<longleftrightarrow> ?r")
proof
  assume ?l
  from evalLeaf_InrD [OF this] show ?r by blast
next
  assume ?r
  then obtain tr where r: "rt_compile rt newEvalEnv expr = None" "rt_program rt celCostBudget expr = None"
    "rt_eval rt expr (bindLeafActivation rt i ch env) = (tr, None, Some (CBool b))"
    "\<forall>(fn, v) \<in> set tr. \<not> (relational fn \<and> text_value v)" by blast
  then have "\<not> g_hit (fold guardWatch tr newTextOrderGuard)"
    by (auto simp: fold_guardWatch_iff newTextOrderGuard_def)
  with r show ?l by (simp add: evalLeaf_def guardErr_def)
qed

text \<open>The witness of the side condition: the guard refuses a comparison of two texts.\<close>

theorem evalLeaf_sound_witness:
  "\<not> (\<exists>b. evalLeaf demo_rt (demo_input []) (demo_change ''s'' 5) ''dev'' ''text'' = Inr b)
     \<and> evalLeaf demo_rt (demo_input []) (demo_change ''s'' 5) ''dev'' ''ok'' = Inr True"
  unfolding evalLeaf_sound
  by (simp add: demo_rt_def demo_eval_def relational_def relationalOperators_def text_value_def)

text \<open>
  C10: the tri-state walk of an assert tree refines Kleene's three-valued logic over the verdicts
  of the leaves, errors being the unknown value: for all false dominates unknown, for any true
  dominates unknown. The specification reads the children as a set, so their order is
  irrelevant, and a satisfied walk carries neither an error nor a message.
\<close>

theorem walkAssertTree_kleene:
  "verdict (walkAssertTree rt i ch env t) = kleeneTree (leafVerdict rt i ch env) 0 t
   \<and> (verdict (walkAssertTree rt i ch env t) = KTrue \<longleftrightarrow> walkAssertTree rt i ch env t = (True, [], None))"
proof -
  obtain s m e where w: "walkAssertTree rt i ch env t = (s, m, e)" by (metis prod_cases3)
  then have "s \<Longrightarrow> m = [] \<and> e = None" using walk_satisfied by (simp add: walkAssertTree_def)
  with w show ?thesis by (cases e) (auto simp flip: verdict_walk simp: walkAssertTree_def [symmetric])
qed

text \<open>
  A fact reaches the expressions with its value only when its state is resolved; in every
  other state reading its value is a missing key, hence an error, never a usable value.
\<close>

theorem factToCEL_value:
  "\<exists>m. factToCEL rt f = CMap m \<and> map_of m ''state'' = Some (CStr (f_state f))
     \<and> map_of m ''value'' =
        (if f_state f = stateResolved \<and> f_value f \<noteq> GNil then Some (toCEL rt (f_value f)) else None)"
  by (simp add: factToCEL_def)

text \<open>
  C11: evidence satisfies a require-review obligation exactly when the forge really verified it,
  for the evaluated commit and unexpired, and at least the required number (itself at least one)
  of different people approved, each forge-proven eligible and none of them the author.
\<close>

theorem approvalSatisfies_contract:
  "approvalSatisfies e sha author =
     ((\<exists>ev. e = Some ev \<and> approvalContract ev sha author),
      (\<exists>ev. e = Some ev \<and> ae_verifyingCapability ev = ''none''))"
proof (cases e)
  case (Some ev)
  have "fst (approvalSatisfies (Some ev) sha author) \<longleftrightarrow> approvalContract ev sha author"
    by (rule approvalSatisfies_iff_contract)
  moreover have "snd (approvalSatisfies (Some ev) sha author) \<longleftrightarrow> ae_verifyingCapability ev = ''none''"
    by (auto simp: approvalSatisfies_def)
  ultimately show ?thesis using Some by (cases "approvalSatisfies (Some ev) sha author") simp
qed (simp add: approvalSatisfies_def)

end
