(* ===== verification/ValueTree.thy ===== *)
theory ValueTree
  imports GoStrings
begin

text \<open>
  \<open>internal/change/diff.go\<close>: the canonical change model, the format-neutral value tree and the
  walker that compares two trees. The two mutually recursive functions \<open>walkNode\<close> and
  \<open>walkMapping\<close> append to an output slice and stop at the first reason; here they return the
  reason or the changes appended. The reasons are constructors carrying what their text names.
\<close>

subsection \<open>Changes\<close>

abbreviation KindModify :: string where "KindModify \<equiv> ''modify''"
abbreviation KindAdd :: string where "KindAdd \<equiv> ''add''"
abbreviation KindDelete :: string where "KindDelete \<equiv> ''delete''"
abbreviation KindRename :: string where "KindRename \<equiv> ''rename''"

record position =
  pos_line :: nat
  pos_column :: nat

record change =
  c_file :: string
  c_path :: string
  c_kind :: string
  c_oldPath :: string
  c_old :: string
  c_new :: string
  c_oldPos :: "position option"
  c_newPos :: "position option"
  c_entryRef :: string
  c_classes :: "string list"
  c_environment :: string

record changeSet =
  cs_changes :: "change list"
  cs_opaque :: bool
  cs_reason :: string

definition noChange :: change where
  "noChange = \<lparr>c_file = [], c_path = [], c_kind = [], c_oldPath = [], c_old = [], c_new = [],
     c_oldPos = None, c_newPos = None, c_entryRef = [], c_classes = [], c_environment = []\<rparr>"

text \<open>\<open>sortChanges\<close>, by file and path.\<close>

definition changeKey :: "change \<Rightarrow> string \<times> string" where
  "changeKey c = (c_file c, c_path c)"

definition sortChanges :: "change list \<Rightarrow> change list" where
  "sortChanges cs = sort_key changeKey cs"

text \<open>\<open>FileEvent\<close> (fileevent.go) and \<open>OneSidedLifecycle\<close> (onesided.go); a nil slice is None.\<close>

definition FileEvent :: "string \<Rightarrow> string \<Rightarrow> change" where
  "FileEvent file kind = noChange\<lparr>c_file := file, c_path := [], c_kind := kind\<rparr>"

definition OneSidedLifecycle :: "string option \<Rightarrow> string option \<Rightarrow> string \<times> bool" where
  "OneSidedLifecycle base head =
     (let baseAbsent = (base = None); headAbsent = (head = None) in
      if baseAbsent \<and> \<not> headAbsent then (KindAdd, True)
      else if \<not> baseAbsent \<and> headAbsent then (KindDelete, True)
      else ([], False))"

subsection \<open>JSON pointers\<close>

definition escapePointer :: "string \<Rightarrow> string" where
  "escapePointer token = replaceAll1 (CHR ''/'') ''~1'' (replaceAll1 (CHR ''~'') ''~0'' token)"

definition unescapePointer :: "string \<Rightarrow> string" where
  "unescapePointer token = replaceAll2 (CHR ''~'') (CHR ''0'') ''~'' (replaceAll2 (CHR ''~'') (CHR ''1'') ''/'' token)"

definition pointerOrRoot :: "string \<Rightarrow> string" where
  "pointerOrRoot pointer = (if pointer = [] then ''/'' else pointer)"

subsection \<open>The value tree\<close>

text \<open>
  \<open>vnode\<close>: the kind tag selects which fields are meaningful, so the kinds are constructors. A
  mapping's \<open>fields\<close> is a Go map, an association list here; no result depends on its order.
\<close>

datatype vnode =
    VScalar (v_render: string) (v_cmpKey: string) (v_pos: position)
  | VMapping (v_fields: "(string \<times> vnode) list") (v_pos: position)
  | VSequence (v_elems: "vnode list") (v_elemsProjected: bool) (v_pos: position)

fun isMapping :: "vnode \<Rightarrow> bool" where
  "isMapping (VMapping fs p) = True"
| "isMapping v = False"

fun isScalar :: "vnode \<Rightarrow> bool" where
  "isScalar (VScalar r k p) = True"
| "isScalar v = False"

fun isSequence :: "vnode \<Rightarrow> bool" where
  "isSequence (VSequence es b p) = True"
| "isSequence v = False"

text \<open>Why a producer or a limit refused its input; a pointer or key where the text names one.\<close>

datatype prod_reason =
    YamlNoDocument
  | YamlDecodeError string
  | YamlTrailingError string
  | YamlMultiDocument
  | YamlNotOneDocument
  | YamlRootNotMapping
  | YamlKeyAlias string
  | YamlKeyNotString string
  | YamlKeyDuplicate string string
  | YamlValueAlias string
  | YamlUnrenderable string
  | YamlKindUnsupported string
  | JsonRootNotObject
  | JsonTrailingError
  | JsonTrailingContent
  | JsonNoValue
  | JsonDecodeError
  | JsonStrayDelimiter
  | JsonKeyError
  | JsonKeyNotString
  | JsonKeyDuplicate string
  | JsonObjectNotClosed
  | JsonArrayNotClosed
  | JsonOutOfFuel
  | HclParseError string
  | HclForeignBody
  | HclBlocks nat
  | HclKeyNotLiteral
  | HclKeyDuplicate string
  | HclNotLiteral
  | HclValueError
  | HclNoSource
  | HclTypeUnsupported
  | InputTooLarge nat
  | NestingTooDeep
  | DepthExceeded
  | NodeCountExceeded

datatype diff_reason =
    TypeFlip string
  | NonScalar string
  | OneSidedNonScalar string string
  | BaseReason prod_reason
  | HeadReason prod_reason
  | EntriesRootMissing string string
  | EntriesRootKind string
  | ListUnkeyed
  | ListUnprojected string
  | EntryNotObject
  | EntryNoIdentity string
  | EntryIdentityNotScalar string
  | DuplicateIdentity string
  | UnknownMode string

definition unionKeys :: "'a assoc \<Rightarrow> 'a assoc \<Rightarrow> string list" where
  "unionKeys a b = sort (remdups (map fst a @ map fst b))"

definition emitOneSided :: "string \<Rightarrow> string \<Rightarrow> vnode \<Rightarrow> string \<Rightarrow> diff_reason + change list" where
  "emitOneSided file pointer node kind =
     (case node of
        VScalar r k p \<Rightarrow>
          (let ch = noChange\<lparr>c_file := file, c_path := pointer, c_kind := kind\<rparr> in
           Inr [if kind = KindAdd then ch\<lparr>c_new := r, c_newPos := Some p\<rparr>
                else ch\<lparr>c_old := r, c_oldPos := Some p\<rparr>])
      | _ \<Rightarrow> Inl (OneSidedNonScalar kind (pointerOrRoot pointer)))"

text \<open>The comparison of two non-mappings at the end of \<open>walkNode\<close>.\<close>

definition walkScalars :: "string \<Rightarrow> string \<Rightarrow> vnode \<Rightarrow> vnode \<Rightarrow> diff_reason + change list" where
  "walkScalars file pointer base head =
     (case (base, head) of
        (VScalar br bk bp, VScalar hr hk hp) \<Rightarrow>
          Inr (if bk \<noteq> hk
               then [noChange\<lparr>c_file := file, c_path := pointer, c_kind := KindModify, c_old := br, c_new := hr,
                              c_oldPos := Some bp, c_newPos := Some hp\<rparr>]
               else [])
      | _ \<Rightarrow> Inl (NonScalar (pointerOrRoot pointer)))"

lemma map_of_size: "map_of fs k = Some v \<Longrightarrow> size v < size_list (size_prod (\<lambda>_. 0) size) fs"
  by (induction fs) (auto split: if_splits)

function (sequential)
  walkNode :: "string \<Rightarrow> string \<Rightarrow> vnode \<Rightarrow> vnode \<Rightarrow> diff_reason + change list" and
  walkMapping :: "string \<Rightarrow> string \<Rightarrow> vnode assoc \<Rightarrow> vnode assoc \<Rightarrow> string list \<Rightarrow> diff_reason + change list" where
  "walkNode file pointer (VMapping bf bp) (VMapping hf hp) =
     walkMapping file pointer bf hf (unionKeys bf hf)"
| "walkNode file pointer base head =
     (if isMapping base \<noteq> isMapping head then Inl (TypeFlip (pointerOrRoot pointer))
      else walkScalars file pointer base head)"
| "walkMapping file pointer bf hf [] = Inr []"
| "walkMapping file pointer bf hf (k # ks) =
     (let child = pointer @ ''/'' @ escapePointer k in
      bind_res
        (case (map_of bf k, map_of hf k) of
           (Some bv, None) \<Rightarrow> emitOneSided file child bv KindDelete
         | (None, Some hv) \<Rightarrow> emitOneSided file child hv KindAdd
         | (Some bv, Some hv) \<Rightarrow> walkNode file child bv hv
         | (None, None) \<Rightarrow> Inr [])
        (\<lambda>cs. bind_res (walkMapping file pointer bf hf ks) (\<lambda>ds. Inr (cs @ ds))))"
  by pat_completeness auto

termination
  by (relation "measures [\<lambda>x. case x of Inl (f, p, b, h) \<Rightarrow> size b
        | Inr (f, p, bf, hf, ks) \<Rightarrow> size_list (size_prod (\<lambda>_. 0) size) bf,
      \<lambda>x. case x of Inl _ \<Rightarrow> 0 | Inr (f, p, bf, hf, ks) \<Rightarrow> length ks]")
    (auto dest: map_of_size [OF sym])

end
