(* ===== verification/GoJson.thy ===== *)
theory GoJson
  imports GoStrings
begin

text \<open>
  \<open>json.Marshal\<close> and \<open>json.Unmarshal\<close> of a Go string (\<open>encoding/json\<close>): the quoting the differ
  renders string scalars with and the decoder its consumers read them back with. The round trip
  holds on valid UTF-8; other bytes become U+FFFD, as in the library.
\<close>

subsection \<open>Quoting\<close>

definition hexDigit :: "nat \<Rightarrow> char" where
  "hexDigit n = (if n < 10 then char_of (48 + n) else char_of (87 + n))"

definition escapeAscii :: "char \<Rightarrow> string" where
  "escapeAscii c =
     (let n = of_char c :: nat in
      if c = CHR 0x22 \<or> c = CHR 0x5C then [CHR 0x5C, c]
      else if n = 8 then CHR 0x5C # ''b''
      else if n = 12 then CHR 0x5C # ''f''
      else if n = 10 then CHR 0x5C # ''n''
      else if n = 13 then CHR 0x5C # ''r''
      else if n = 9 then CHR 0x5C # ''t''
      else if n < 32 \<or> n = 60 \<or> n = 62 \<or> n = 38
        then CHR 0x5C # ''u00'' @ [hexDigit (n div 16), hexDigit (n mod 16)]
      else [c])"

function quoteBody :: "string \<Rightarrow> string" where
  "quoteBody [] = []"
| "quoteBody (a # s) =
     (if of_char a < (128::nat) then escapeAscii a @ quoteBody s
      else (let (r, k) = decodeRune a s in
        (if k = 0 then CHR 0x5C # ''ufffd''
         else if r = 8232 then CHR 0x5C # ''u2028''
         else if r = 8233 then CHR 0x5C # ''u2029''
         else a # take k s) @ quoteBody (drop k s)))"
  by pat_completeness auto
termination by (relation "measure length") auto

definition jsonQuote :: "string \<Rightarrow> string" where
  "jsonQuote s = CHR 0x22 # quoteBody s @ [CHR 0x22]"

subsection \<open>Unquoting\<close>

definition hexVal :: "char \<Rightarrow> nat option" where
  "hexVal c =
     (let n = of_char c :: nat in
      if 48 \<le> n \<and> n \<le> 57 then Some (n - 48)
      else if 97 \<le> n \<and> n \<le> 102 then Some (n - 87)
      else if 65 \<le> n \<and> n \<le> 70 then Some (n - 55)
      else None)"

fun hex4 :: "string \<Rightarrow> nat option" where
  "hex4 (a # b # c # d # _) =
     (case (hexVal a, hexVal b, hexVal c, hexVal d) of
        (Some w, Some x, Some y, Some z) \<Rightarrow> Some (((w * 16 + x) * 16 + y) * 16 + z)
      | _ \<Rightarrow> None)"
| "hex4 _ = None"

definition encodeRune :: "nat \<Rightarrow> string" where
  "encodeRune r = map char_of
     (if r < 128 then [r]
      else if r < 2048 then [192 + r div 64, 128 + r mod 64]
      else if r < 65536 then [224 + r div 4096, 128 + r div 64 mod 64, 128 + r mod 64]
      else [240 + r div 262144, 128 + r div 4096 mod 64, 128 + r div 64 mod 64, 128 + r mod 64])"

definition isSurrogate :: "nat \<Rightarrow> bool" where
  "isSurrogate r \<longleftrightarrow> 55296 \<le> r \<and> r < 57344"

text \<open>The low half of a surrogate pair, when the text continues with one.\<close>

definition surrogatePair :: "nat \<Rightarrow> string \<Rightarrow> nat option" where
  "surrogatePair r rest =
     (case rest of
        b # u # t \<Rightarrow>
          if b = CHR 0x5C \<and> u = CHR ''u'' then
            (case hex4 t of
               Some l \<Rightarrow> if r < 56320 \<and> 56320 \<le> l \<and> l < 57344
                 then Some (65536 + (r - 55296) * 1024 + (l - 56320)) else None
             | None \<Rightarrow> None)
          else None
      | _ \<Rightarrow> None)"

definition simpleEscape :: "char \<Rightarrow> char option" where
  "simpleEscape e = map_of
     [(CHR 0x22, CHR 0x22), (CHR 0x5C, CHR 0x5C), (CHR ''/'', CHR ''/''), (CHR ''b'', char_of (8::nat)),
      (CHR ''f'', char_of (12::nat)), (CHR ''n'', char_of (10::nat)), (CHR ''r'', char_of (13::nat)),
      (CHR ''t'', char_of (9::nat))] e"

definition isJsonSpace :: "char \<Rightarrow> bool" where
  "isJsonSpace c \<longleftrightarrow> of_char c \<in> {9, 10, 13, 32 :: nat}"

function unquoteBody :: "string \<Rightarrow> string option" where
  "unquoteBody [] = None"
| "unquoteBody (c # s) =
     (if c = CHR 0x22 then (if list_all isJsonSpace s then Some [] else None)
      else if c = CHR 0x5C then
        (case s of
           [] \<Rightarrow> None
         | e # t \<Rightarrow>
             if e = CHR ''u'' then
               (case hex4 t of
                  None \<Rightarrow> None
                | Some r \<Rightarrow>
                    if isSurrogate r then
                      (case surrogatePair r (drop 4 t) of
                         Some p \<Rightarrow> map_option ((@) (encodeRune p)) (unquoteBody (drop 10 t))
                       | None \<Rightarrow> map_option ((@) (encodeRune 65533)) (unquoteBody (drop 4 t)))
                    else map_option ((@) (encodeRune r)) (unquoteBody (drop 4 t)))
             else (case simpleEscape e of
                  None \<Rightarrow> None
                | Some x \<Rightarrow> map_option ((#) x) (unquoteBody t)))
      else if of_char c < (32::nat) then None
      else if of_char c < (128::nat) then map_option ((#) c) (unquoteBody s)
      else (let (r, k) = decodeRune c s in
        map_option ((@) (if k = 0 then encodeRune 65533 else c # take k s)) (unquoteBody (drop k s))))"
  by pat_completeness auto
termination by (relation "measure length") auto

text \<open>\<open>json.Unmarshal\<close> into a string of a text that starts with a quote.\<close>

definition jsonUnquote :: "string \<Rightarrow> string option" where
  "jsonUnquote s = (case s of c # t \<Rightarrow> if c = CHR 0x22 then unquoteBody t else None | [] \<Rightarrow> None)"

subsection \<open>Round trip\<close>

function validUtf8 :: "string \<Rightarrow> bool" where
  "validUtf8 [] \<longleftrightarrow> True"
| "validUtf8 (a # s) \<longleftrightarrow>
     (if of_char a < (128::nat) then validUtf8 s
      else (let (r, k) = decodeRune a s in k > 0 \<and> validUtf8 (drop k s)))"
  by pat_completeness auto
termination by (relation "measure length") auto

declare quoteBody.simps(2) [simp del] unquoteBody.simps(2) [simp del] validUtf8.simps(2) [simp del]

lemma hexVal_hexDigit: "n < 16 \<Longrightarrow> hexVal (hexDigit n) = Some n"
  by (auto simp: hexVal_def hexDigit_def Let_def)

lemma append_single: "(@) [x] = (#) x"
  by (rule ext) simp

lemma unquote_plain:
  "of_char c < (128::nat) \<Longrightarrow> 32 \<le> (of_char c :: nat) \<Longrightarrow> c \<noteq> CHR 0x22 \<Longrightarrow> c \<noteq> CHR 0x5C \<Longrightarrow>
     unquoteBody (c # t) = map_option ((#) c) (unquoteBody t)"
  by (simp add: unquoteBody.simps(2))

lemma unquote_simple:
  "simpleEscape e = Some x \<Longrightarrow> e \<noteq> CHR ''u'' \<Longrightarrow>
     unquoteBody (CHR 0x5C # e # t) = map_option ((#) x) (unquoteBody t)"
  by (simp add: unquoteBody.simps(2))

lemma unquote_u:
  "hex4 (a # b # c # d # t) = Some r \<Longrightarrow> \<not> isSurrogate r \<Longrightarrow>
     unquoteBody (CHR 0x5C # CHR ''u'' # a # b # c # d # t) = map_option ((@) (encodeRune r)) (unquoteBody t)"
  by (simp add: unquoteBody.simps(2))

lemma unquote_escapeAscii:
  assumes "of_char c < (128::nat)"
  shows "unquoteBody (escapeAscii c @ t) = map_option ((#) c) (unquoteBody t)"
proof -
  define n where "n = (of_char c :: nat)"
  have c: "c = char_of n" by (simp add: n_def)
  consider "c = CHR 0x22 \<or> c = CHR 0x5C" | "n \<in> {8, 12, 10, 13, 9}"
    | "c \<noteq> CHR 0x22" "c \<noteq> CHR 0x5C" "n \<notin> {8, 12, 10, 13, 9}" "n < 32 \<or> n = 60 \<or> n = 62 \<or> n = 38"
    | "c \<noteq> CHR 0x22" "c \<noteq> CHR 0x5C" "32 \<le> n" "n \<noteq> 60" "n \<noteq> 62" "n \<noteq> 38"
    by linarith
  then show ?thesis
  proof cases
    case 1
    then show ?thesis by (auto simp: escapeAscii_def Let_def unquote_simple simpleEscape_def)
  next
    case 2
    then show ?thesis
      by (auto simp: escapeAscii_def Let_def n_def [symmetric] c unquote_simple simpleEscape_def)
  next
    case 3
    then have "n < 256" "n div 16 < 16" "n < 128" by auto
    have z: "hexVal (CHR ''0'') = Some 0" by (simp add: hexVal_def)
    have h: "hex4 (CHR ''0'' # CHR ''0'' # hexDigit (n div 16) # hexDigit (n mod 16) # t) = Some n"
      using \<open>n div 16 < 16\<close> by (simp add: z hexVal_hexDigit)
    have "\<not> isSurrogate n" using \<open>n < 128\<close> by (simp add: isSurrogate_def)
    from unquote_u [OF h this] 3 \<open>n < 128\<close> show ?thesis
      by (auto simp: escapeAscii_def Let_def n_def [symmetric] encodeRune_def c append_single)
  next
    case 4
    then show ?thesis
      using assms by (auto simp: escapeAscii_def Let_def n_def [symmetric] unquote_plain)
  qed
qed

text \<open>A decoded multi-byte rune only depends on the bytes it takes.\<close>

lemma decodeRune_cases:
  assumes "decodeRune a s = (r, k)" and "k > 0"
  obtains (two) b t where "s = b # t" "rune2 a b = Some r" "k = 1"
  | (three) b c t where "s = b # c # t" "rune2 a b = None" "rune3 a b c = Some r" "k = 2"
  | (four) b c d t where "s = b # c # d # t" "rune2 a b = None" "rune3 a b c = None"
      "rune4 a b c d = Some r" "k = 3"
proof -
  have na: "\<not> of_char a < (128::nat)" using assms by (auto simp: decodeRune_def split: if_splits)
  obtain b s1 where s: "s = b # s1" using assms na by (cases s) (auto simp: decodeRune_def)
  show thesis
  proof (cases "rune2 a b")
    case (Some r2)
    then have "r = r2 \<and> k = 1" using assms na s by (auto simp: decodeRune_def split: list.splits)
    with Some s two show thesis by blast
  next
    case r2: None
    then obtain c s2 where s1: "s1 = c # s2" using assms na s by (cases s1) (auto simp: decodeRune_def)
    show thesis
    proof (cases "rune3 a b c")
      case (Some r3)
      then have "r = r3 \<and> k = 2" using assms na s s1 r2 by (auto simp: decodeRune_def split: list.splits)
      with Some r2 s s1 three show thesis by blast
    next
      case r3: None
      then obtain d s3 where s2: "s2 = d # s3" using assms na s s1 r2 by (cases s2) (auto simp: decodeRune_def)
      then have "rune4 a b c d = Some r \<and> k = 3"
        using assms na s s1 r2 r3 by (auto simp: decodeRune_def split: option.splits)
      with r2 r3 s s1 s2 four show thesis by blast
    qed
  qed
qed

lemma decodeRune_local:
  assumes "decodeRune a s = (r, k)" and "k > 0"
  shows "decodeRune a (take k s @ t) = (r, k)" "length (take k s) = k" "\<not> of_char a < (128::nat)"
proof -
  show na: "\<not> of_char a < (128::nat)" using assms by (auto simp: decodeRune_def split: if_splits)
  show "decodeRune a (take k s @ t) = (r, k)"
    using assms by (cases rule: decodeRune_cases) (use na in
        \<open>auto simp: decodeRune_def numeral_2_eq_2 numeral_3_eq_3 split: list.splits\<close>)
  show "length (take k s) = k" using assms by (cases rule: decodeRune_cases) auto
qed

lemma low6_lt: "low6 c < 64"
  by (simp add: low6_def)

lemma cont_low6: "cont c \<Longrightarrow> (of_char c :: nat) = 128 + low6 c"
  by (auto simp: cont_def low6_def) (metis div_mult_mod_eq mult.commute numeral_times_numeral semiring_norm(12,13))

text \<open>The two line separators are encoded in exactly one way.\<close>

lemma decodeRune_separator:
  assumes "decodeRune a s = (r, k)" "k > 0" "r = 8232 \<or> r = 8233"
  shows "encodeRune r = a # take k s"
  using assms(1,2)
proof (cases rule: decodeRune_cases)
  case (two b t)
  then show ?thesis using low6_lt [of b] assms(3) by (auto simp: rune2_def Let_def split: if_splits)
next
  case (four b c d t)
  then show ?thesis using assms(3) by (auto simp: rune4_def Let_def split: if_splits)
next
  case (three b c t)
  define A where "A = (of_char a :: nat)"
  have x: "(A - 224) * 4096 + low6 b * 64 + low6 c = r" "224 \<le> A" "cont b" "cont c"
    using three(3) by (auto simp: rune3_def Let_def A_def split: if_splits)
  have "A - 224 = 2"
  proof -
    have "(A - 224) * 4096 \<le> 8233" "(A - 224) * 4096 > 4096" using x(1) low6_lt [of b] low6_lt [of c] assms(3) by linarith+
    then have "A - 224 \<le> 2" "A - 224 \<ge> 2" by linarith+
    then show ?thesis by linarith
  qed
  then have A: "A = 226" and bc: "8192 + low6 b * 64 + low6 c = r" using x(1,2) by simp_all
  have "low6 b = 0" using bc assms(3) low6_lt [of c] by linarith
  with A bc have "(of_char a :: nat) = 226" "(of_char b :: nat) = 128" "(of_char c :: nat) = r - 8064"
    using cont_low6 [OF x(3)] cont_low6 [OF x(4)] assms(3) unfolding A_def by linarith+
  then have "a = char_of (226::nat)" "b = char_of (128::nat)" "c = char_of (r - 8064)"
    by (metis char_of_char)+
  with three(1,4) assms(3) show ?thesis by (auto simp: encodeRune_def numeral_2_eq_2)
qed

lemma unquote_quoteBody:
  "validUtf8 s \<Longrightarrow> unquoteBody (quoteBody s @ t) = map_option ((@) s) (unquoteBody t)"
proof (induction s rule: quoteBody.induct)
  case 1
  then show ?case by (cases "unquoteBody t") auto
next
  case (2 a s)
  show ?case
  proof (cases "of_char a < (128::nat)")
    case True
    with 2 show ?thesis
      by (cases "unquoteBody t") (simp_all add: quoteBody.simps(2) validUtf8.simps(2) unquote_escapeAscii)
  next
    case False
    obtain r k where d: "decodeRune a s = (r, k)" by fastforce
    with 2(3) False have k: "k > 0" "validUtf8 (drop k s)" by (auto simp: validUtf8.simps(2))
    note ih = 2(2) [OF False refl d [symmetric] k(2)]
    have comp: "map_option ((@) (a # take k s)) (map_option ((@) (drop k s)) x) = map_option ((@) (a # s)) x" for x
      by (cases x) (simp_all flip: append_assoc)
    show ?thesis
    proof (cases "r = 8232 \<or> r = 8233")
      case True
      have h: "hex4 (CHR ''2'' # CHR ''0'' # CHR ''2'' # CHR ''8'' # y) = Some 8232"
        "hex4 (CHR ''2'' # CHR ''0'' # CHR ''2'' # CHR ''9'' # y) = Some 8233" for y
        by (simp_all add: hexVal_def)
      have "unquoteBody (quoteBody (a # s) @ t) = map_option ((@) (encodeRune r)) (unquoteBody (quoteBody (drop k s) @ t))"
        using True False d k by (auto simp: quoteBody.simps(2) unquote_u [OF h(1)] unquote_u [OF h(2)] isSurrogate_def)
      then show ?thesis by (simp only: decodeRune_separator [OF d k(1) True] ih comp)
    next
      case sep: False
      have "a \<noteq> CHR 0x22" "a \<noteq> CHR 0x5C" "\<not> of_char a < (32::nat)" using False by auto
      then have "unquoteBody (a # take k s @ quoteBody (drop k s) @ t)
          = map_option ((@) (a # take k s)) (unquoteBody (quoteBody (drop k s) @ t))"
        using False decodeRune_local [OF d k(1)] k(1) by (simp add: unquoteBody.simps(2))
      then show ?thesis using False sep d k(1)
        by (simp add: quoteBody.simps(2) ih comp del: append_Cons) (simp add: comp flip: append_Cons)
    qed
  qed
qed

lemma jsonUnquote_jsonQuote: "validUtf8 s \<Longrightarrow> jsonUnquote (jsonQuote s) = Some s"
  by (simp add: jsonUnquote_def jsonQuote_def unquote_quoteBody unquoteBody.simps(2))

lemma jsonQuote_inj: "validUtf8 s \<Longrightarrow> validUtf8 t \<Longrightarrow> jsonQuote s = jsonQuote t \<longleftrightarrow> s = t"
  by (metis jsonUnquote_jsonQuote option.inject)

lemma jsonQuote_head: "\<exists>t. jsonQuote s = CHR 0x22 # t"
  by (simp add: jsonQuote_def)

end
