(* ===== verification/Producers.thy ===== *)
theory Producers
  imports ValueTree GoJson
begin

text \<open>
  The producers of value trees (\<open>diff.go\<close>, \<open>diff_json.go\<close>, \<open>diff_hcl.go\<close>) and the input limits
  every producer is wrapped in (\<open>limits.go\<close>). The parsers themselves are library code: the YAML
  and HCL parsers (\<open>yaml.v3\<close>, \<open>hcl/v2\<close>) are parameters that yield syntax trees, and the JSON
  decoder a parameter that yields the token stream of \<open>json.Decoder.Token\<close>.
\<close>

definition NUL :: char where "NUL = CHR 0x00"

text \<open>A comparison key: the tag, a NUL byte and the render.\<close>

definition cmpKeyOf :: "string \<Rightarrow> string \<Rightarrow> string" where
  "cmpKeyOf tag r = tag @ NUL # r"

subsection \<open>YAML\<close>

datatype ykind = YDocument | YMapping | YSequence | YScalar | YAlias | YNone

datatype yamlNode = YamlNode (y_kind: ykind) (y_tag: string) (y_value: string) (y_anchor: string)
  (y_content: "yamlNode list") (y_line: nat) (y_column: nat)

text \<open>The result of one \<open>Decode\<close> call.\<close>

datatype ydoc = YDoc yamlNode | YEof | YErr string

abbreviation tagStr :: string where "tagStr \<equiv> ''!!str''"
abbreviation tagInt :: string where "tagInt \<equiv> ''!!int''"
abbreviation tagFloat :: string where "tagFloat \<equiv> ''!!float''"
abbreviation tagBool :: string where "tagBool \<equiv> ''!!bool''"
abbreviation tagNull :: string where "tagNull \<equiv> ''!!null''"
abbreviation tagMerge :: string where "tagMerge \<equiv> ''!!merge''"

definition posOf :: "yamlNode \<Rightarrow> position" where
  "posOf n = \<lparr>pos_line = y_line n, pos_column = y_column n\<rparr>"

definition render :: "yamlNode \<Rightarrow> string option" where
  "render n =
     (if y_kind n \<noteq> YScalar then None
      else if y_tag n = tagNull then Some ''null''
      else if y_tag n = tagStr then Some (jsonQuote (y_value n))
      else if y_tag n = tagInt \<or> y_tag n = tagFloat \<or> y_tag n = tagBool then Some (y_value n)
      else None)"

definition compareKey :: "yamlNode \<Rightarrow> string \<Rightarrow> string" where
  "compareKey n humanRender = cmpKeyOf (y_tag n) humanRender"

function (sequential)
  yamlFields :: "string \<Rightarrow> yamlNode list \<Rightarrow> vnode assoc \<Rightarrow> prod_reason + vnode assoc" and
  yamlValue :: "string \<Rightarrow> yamlNode \<Rightarrow> prod_reason + vnode" where
  "yamlFields pointer (k # v # rest) flds =
     (if y_kind k = YAlias \<or> y_anchor k \<noteq> [] \<or> y_tag k = tagMerge
        then Inl (YamlKeyAlias (pointerOrRoot pointer))
      else if y_kind k \<noteq> YScalar \<or> y_tag k \<noteq> tagStr then Inl (YamlKeyNotString (pointerOrRoot pointer))
      else if map_of flds (y_value k) \<noteq> None then Inl (YamlKeyDuplicate (y_value k) (pointerOrRoot pointer))
      else bind_res (yamlValue (pointer @ ''/'' @ escapePointer (y_value k)) v)
        (\<lambda>vn. yamlFields pointer rest (flds @ [(y_value k, vn)])))"
| "yamlFields pointer rest flds = Inr flds"
| "yamlValue pointer n =
     (if y_kind n = YAlias \<or> y_anchor n \<noteq> [] then Inl (YamlValueAlias (pointerOrRoot pointer))
      else if y_kind n = YMapping
        then bind_res (yamlFields pointer (y_content n) []) (\<lambda>fs. Inr (VMapping fs (posOf n)))
      else if y_kind n = YSequence then Inr (VSequence [] False (posOf n))
      else if y_kind n = YScalar then
        (case render n of
           None \<Rightarrow> Inl (YamlUnrenderable (pointerOrRoot pointer))
         | Some r \<Rightarrow> Inr (VScalar r (compareKey n r) (posOf n)))
      else Inl (YamlKindUnsupported (pointerOrRoot pointer)))"
  by pat_completeness auto
termination
proof (relation "measure (\<lambda>x. case x of Inl (p, ns, fs) \<Rightarrow> size_list size ns | Inr (p, n) \<Rightarrow> size n)")
  fix pointer n
  show "(Inl (pointer, y_content n, []), Inr (pointer, n))
      \<in> measure (\<lambda>x. case x of Inl (p, ns, fs) \<Rightarrow> size_list size ns | Inr (p, n) \<Rightarrow> size n)"
    by (cases n) simp
qed auto

definition yamlMapping :: "string \<Rightarrow> yamlNode \<Rightarrow> prod_reason + vnode" where
  "yamlMapping pointer m = bind_res (yamlFields pointer (y_content m) []) (\<lambda>fs. Inr (VMapping fs (posOf m)))"

definition parseSingleMappingDoc :: "(string \<Rightarrow> ydoc \<times> ydoc) \<Rightarrow> string \<Rightarrow> prod_reason + yamlNode" where
  "parseSingleMappingDoc decode data =
     (let (d1, d2) = decode data in
      case d1 of
        YEof \<Rightarrow> Inl YamlNoDocument
      | YErr e \<Rightarrow> Inl (YamlDecodeError e)
      | YDoc first \<Rightarrow>
          (case d2 of
             YErr e \<Rightarrow> Inl (YamlTrailingError e)
           | YDoc _ \<Rightarrow> Inl YamlMultiDocument
           | YEof \<Rightarrow>
               if y_kind first \<noteq> YDocument \<or> length (y_content first) \<noteq> 1 then Inl YamlNotOneDocument
               else (let root = hd (y_content first) in
                 if y_kind root \<noteq> YMapping then Inl YamlRootNotMapping else Inr root)))"

definition parseYAML :: "(string \<Rightarrow> ydoc \<times> ydoc) \<Rightarrow> string \<Rightarrow> prod_reason + vnode" where
  "parseYAML decode data = bind_res (parseSingleMappingDoc decode data) (yamlMapping [])"

subsection \<open>JSON\<close>

text \<open>
  The tokens of \<open>json.Decoder\<close>, each with \<open>InputOffset\<close> before it was read; \<open>JBad\<close> is a decode
  error and the end of the list is the end of the input. \<open>More\<close> peeks at the next token.
\<close>

datatype jtok = JOpenObj | JCloseObj | JOpenArr | JCloseArr | JStr string | JNum string | JBool bool | JNull | JBad

type_synonym jstream = "(nat \<times> jtok) list"

fun decMore :: "jstream \<Rightarrow> bool" where
  "decMore ((off, t) # ts) \<longleftrightarrow> t \<noteq> JCloseObj \<and> t \<noteq> JCloseArr"
| "decMore [] \<longleftrightarrow> False"

definition isSep :: "char \<Rightarrow> bool" where
  "isSep c \<longleftrightarrow> of_char c \<in> {32, 9, 13, 10, 58, 44 :: nat}"

definition valueStart :: "string \<Rightarrow> nat \<Rightarrow> nat" where
  "valueStart data start =
     (let n = length (takeWhile isSep (drop start data)) in
      if start + n < length data then start + n else start)"

definition offsetToPos :: "string \<Rightarrow> nat \<Rightarrow> position" where
  "offsetToPos data offset =
     (let (line, col) = fold (\<lambda>c (line, col). if c = char_of (10::nat) then (line + 1, 1) else (line, col + 1))
        (take offset data) (1, 1)
      in \<lparr>pos_line = line, pos_column = col\<rparr>)"

text \<open>The scalar cases of the token switch, and the key read at the head of the object loop.\<close>

definition jsonScalar :: "string \<Rightarrow> nat \<Rightarrow> jtok \<Rightarrow> prod_reason + vnode" where
  "jsonScalar data off t =
     (let pos = offsetToPos data (valueStart data off) in
      case t of
        JStr s \<Rightarrow> Inr (VScalar (jsonQuote s) (cmpKeyOf ''s'' (jsonQuote s)) pos)
      | JNum l \<Rightarrow> Inr (VScalar l (cmpKeyOf ''n'' l) pos)
      | JBool b \<Rightarrow> (let l = (if b then ''true'' else ''false'') in Inr (VScalar l (cmpKeyOf ''b'' l) pos))
      | JNull \<Rightarrow> Inr (VScalar ''null'' (cmpKeyOf ''z'' ''null'') pos)
      | JBad \<Rightarrow> Inl JsonDecodeError
      | _ \<Rightarrow> Inl JsonStrayDelimiter)"

definition jsonKey :: "jstream \<Rightarrow> vnode assoc \<Rightarrow> prod_reason + string \<times> jstream" where
  "jsonKey ts flds =
     (case ts of
        [] \<Rightarrow> Inl JsonKeyError
      | (off, t) # rest \<Rightarrow>
          (case t of
             JStr key \<Rightarrow> if map_of flds key \<noteq> None then Inl (JsonKeyDuplicate key) else Inr (key, rest)
           | JBad \<Rightarrow> Inl JsonKeyError
           | _ \<Rightarrow> Inl JsonKeyNotString))"

definition jsonClose :: "prod_reason \<Rightarrow> 'a \<Rightarrow> jstream \<Rightarrow> prod_reason + 'a \<times> jstream" where
  "jsonClose e x ts = (case ts of [] \<Rightarrow> Inl e | t # rest \<Rightarrow> Inr (x, rest))"

text \<open>The three mutually recursive readers; the fuel bounds the tokens they may read.\<close>

function (sequential) parseJSONValue :: "nat \<Rightarrow> string \<Rightarrow> jstream \<Rightarrow> prod_reason + vnode \<times> jstream"
  and parseJSONObject :: "nat \<Rightarrow> string \<Rightarrow> nat \<Rightarrow> vnode assoc \<Rightarrow> jstream \<Rightarrow> prod_reason + vnode \<times> jstream"
  and parseJSONArray :: "nat \<Rightarrow> string \<Rightarrow> vnode list \<Rightarrow> jstream \<Rightarrow> prod_reason + vnode list \<times> jstream" where
  "parseJSONValue 0 data ts = Inl JsonOutOfFuel"
| "parseJSONValue (Suc n) data [] = Inl JsonNoValue"
| "parseJSONValue (Suc n) data ((off, t) # rest) =
     (if t = JOpenObj then parseJSONObject n data (valueStart data off) [] rest
      else if t = JOpenArr then bind_res (parseJSONArray n data [] rest)
        (\<lambda>er. Inr (VSequence (fst er) True (offsetToPos data (valueStart data off)), snd er))
      else bind_res (jsonScalar data off t) (\<lambda>v. Inr (v, rest)))"
| "parseJSONObject 0 data start flds ts = Inl JsonOutOfFuel"
| "parseJSONObject (Suc n) data start flds ts =
     (if decMore ts then bind_res (jsonKey ts flds) (\<lambda>kr. bind_res (parseJSONValue n data (snd kr))
        (\<lambda>vr. parseJSONObject n data start (flds @ [(fst kr, fst vr)]) (snd vr)))
      else jsonClose JsonObjectNotClosed (VMapping flds (offsetToPos data start)) ts)"
| "parseJSONArray 0 data es ts = Inl JsonOutOfFuel"
| "parseJSONArray (Suc n) data es ts =
     (if decMore ts then bind_res (parseJSONValue n data ts)
        (\<lambda>vr. parseJSONArray n data (es @ [fst vr]) (snd vr))
      else jsonClose JsonArrayNotClosed es ts)"
  by pat_completeness auto
termination
  by (relation "measure (\<lambda>x. case x of Inl (n, d, ts) \<Rightarrow> n
      | Inr y \<Rightarrow> (case y of Inl (n, d, st, fs, ts) \<Rightarrow> n | Inr (n, d, es, ts) \<Rightarrow> n))") auto

text \<open>Two units of fuel per token are enough, see \<open>ProducerFacts\<close>.\<close>

definition parseJSON :: "(string \<Rightarrow> jstream) \<Rightarrow> string \<Rightarrow> prod_reason + vnode" where
  "parseJSON tokens data =
     (let ts = tokens data in
      bind_res (parseJSONValue (2 * length ts + 2) data ts)
        (\<lambda>(root, rest).
           if \<not> isMapping root then Inl JsonRootNotObject
           else (case rest of
               [] \<Rightarrow> Inr root
             | (off, JBad) # _ \<Rightarrow> Inl JsonTrailingError
             | _ \<Rightarrow> Inl JsonTrailingContent)))"

subsection \<open>HCL\<close>

text \<open>
  The expression nodes the code tells apart. A value is what \<open>cty\<close> holds; a range is
  \<open>(start byte, end byte, line, column)\<close>; a key carries the two results \<open>hclKeyName\<close> asks the
  library for: the bare keyword (empty when there is none) and the literal string value.
\<close>

datatype cty = CtyNull | CtyString string | CtyNumber | CtyBool bool | CtyOther

type_synonym hrange = "int \<times> int \<times> nat \<times> nat"

record hclKey =
  hk_keyword :: string
  hk_string :: "string option"

datatype hclExpr =
    HObject "(hclKey \<times> hclExpr) list" hrange
  | HTuple hrange
  | HLiteral cty hrange
  | HTemplate bool "cty option" hrange
  | HUnary bool hclExpr hrange
  | HOther hrange

datatype hclFile = HclError string | HclForeign | HclBody nat "(string \<times> hclExpr) list"

fun hclRange :: "hclExpr \<Rightarrow> hrange" where
  "hclRange (HObject is r) = r" | "hclRange (HTuple r) = r" | "hclRange (HLiteral v r) = r"
| "hclRange (HTemplate b v r) = r" | "hclRange (HUnary b e r) = r" | "hclRange (HOther r) = r"

definition rawLiteral :: "hrange \<Rightarrow> string \<Rightarrow> string" where
  "rawLiteral r data =
     (case r of (s, e, l, c) \<Rightarrow>
        if s < 0 \<or> e > int (length data) \<or> s > e then [] else take (nat (e - s)) (drop (nat s) data))"

definition rangePos :: "hrange \<Rightarrow> position" where
  "rangePos r = (case r of (s, e, l, c) \<Rightarrow> \<lparr>pos_line = l, pos_column = c\<rparr>)"

definition hclKeyName :: "hclKey \<Rightarrow> string option" where
  "hclKeyName k = (if hk_keyword k \<noteq> [] then Some (hk_keyword k) else hk_string k)"

definition hclScalar :: "cty \<Rightarrow> hrange \<Rightarrow> string \<Rightarrow> prod_reason + vnode" where
  "hclScalar val r data =
     (case val of
        CtyNull \<Rightarrow> Inr (VScalar ''null'' (cmpKeyOf ''z'' ''null'') (rangePos r))
      | CtyString s \<Rightarrow> Inr (VScalar (jsonQuote s) (cmpKeyOf ''s'' (jsonQuote s)) (rangePos r))
      | CtyNumber \<Rightarrow> (let lit = rawLiteral r data in
          if lit = [] then Inl HclNoSource else Inr (VScalar lit (cmpKeyOf ''n'' lit) (rangePos r)))
      | CtyBool b \<Rightarrow> (let lit = (if b then ''true'' else ''false'') in
          Inr (VScalar lit (cmpKeyOf ''b'' lit) (rangePos r)))
      | CtyOther \<Rightarrow> Inl HclTypeUnsupported)"

fun isNumberLiteral :: "hclExpr \<Rightarrow> bool" where
  "isNumberLiteral (HLiteral CtyNumber r) = True"
| "isNumberLiteral e = False"

function (sequential)
  hclItems :: "string \<Rightarrow> (hclKey \<times> hclExpr) list \<Rightarrow> vnode assoc \<Rightarrow> prod_reason + vnode assoc" and
  hclExprToNode :: "hclExpr \<Rightarrow> string \<Rightarrow> prod_reason + vnode" where
  "hclItems data [] flds = Inr flds"
| "hclItems data ((k, e) # items) flds =
     (case hclKeyName k of
        None \<Rightarrow> Inl HclKeyNotLiteral
      | Some key \<Rightarrow>
          if map_of flds key \<noteq> None then Inl (HclKeyDuplicate key)
          else bind_res (hclExprToNode e data) (\<lambda>v. hclItems data items (flds @ [(key, v)])))"
| "hclExprToNode (HObject items r) data =
     bind_res (hclItems data items []) (\<lambda>fs. Inr (VMapping fs (rangePos r)))"
| "hclExprToNode (HTuple r) data = Inr (VSequence [] False (rangePos r))"
| "hclExprToNode (HLiteral v r) data = hclScalar v r data"
| "hclExprToNode (HTemplate isString v r) data =
     (if \<not> isString then Inl HclNotLiteral
      else case v of None \<Rightarrow> Inl HclValueError | Some x \<Rightarrow> hclScalar x r data)"
| "hclExprToNode (HUnary negate e r) data =
     (if negate \<and> isNumberLiteral e then
        (let raw = rawLiteral r data in
         if raw = [] then Inl HclNoSource else Inr (VScalar raw (cmpKeyOf ''n'' raw) (rangePos r)))
      else Inl HclNotLiteral)"
| "hclExprToNode (HOther r) data = Inl HclNotLiteral"
  by pat_completeness auto
termination
  by (relation "measure (\<lambda>x. case x of Inl (d, items, fs) \<Rightarrow> size_list (size_prod (\<lambda>_. 0) size) items
      | Inr (e, d) \<Rightarrow> size e)") auto

text \<open>The loop over \<open>body.Attributes\<close>, in the order the map iteration visits them, into a map.\<close>

fun hclAttributes :: "string \<Rightarrow> (string \<times> hclExpr) list \<Rightarrow> prod_reason + vnode assoc" where
  "hclAttributes data [] = Inr []"
| "hclAttributes data ((name, e) # as) =
     bind_res (hclExprToNode e data) (\<lambda>v. bind_res (hclAttributes data as) (\<lambda>fs. Inr ((name, v) # filter (\<lambda>x. fst x \<noteq> name) fs)))"

definition parseHCL :: "(string \<Rightarrow> hclFile) \<Rightarrow> string \<Rightarrow> prod_reason + vnode" where
  "parseHCL parse data =
     (case parse data of
        HclError e \<Rightarrow> Inl (HclParseError e)
      | HclForeign \<Rightarrow> Inl HclForeignBody
      | HclBody blocks attrs \<Rightarrow>
          if blocks \<noteq> 0 then Inl (HclBlocks blocks)
          else bind_res (hclAttributes data attrs)
            (\<lambda>fs. Inr (VMapping fs \<lparr>pos_line = 1, pos_column = 1\<rparr>)))"

subsection \<open>Limits (limits.go)\<close>

definition maxInputBytes :: nat where "maxInputBytes = 2 ^ 20"
definition maxDepth :: nat where "maxDepth = 64"
definition maxNodeCount :: nat where "maxNodeCount = 20000"
definition maxPreParseNesting :: nat where "maxPreParseNesting = 1000"

definition opener :: "char \<Rightarrow> bool" where
  "opener b \<longleftrightarrow> b = CHR ''{'' \<or> b = CHR ''['' \<or> b = CHR ''(''"

definition closer :: "char \<Rightarrow> bool" where
  "closer b \<longleftrightarrow> b = CHR ''}'' \<or> b = CHR '']'' \<or> b = CHR '')''"

fun preParseNesting :: "nat \<Rightarrow> string \<Rightarrow> prod_reason option" where
  "preParseNesting depth [] = None"
| "preParseNesting depth (b # bs) =
     (if opener b then
        (if depth + 1 > maxPreParseNesting then Some NestingTooDeep else preParseNesting (depth + 1) bs)
      else if closer b then preParseNesting (if depth > 0 then depth - 1 else depth) bs
      else preParseNesting depth bs)"

lemma size_sorted_fields:
  "size_list size (map snd (sort_key fst fs)) \<le> size_list (size_prod (\<lambda>_. 0) size) (fs :: vnode assoc)"
proof -
  have "size_list size (map snd xs) \<le> size_list (size_prod (\<lambda>_. 0) size) xs" for xs :: "vnode assoc"
    by (induction xs) auto
  moreover have "size_list (size_prod (\<lambda>_. 0) size) (sort_key fst fs) = size_list (size_prod (\<lambda>_. 0) size) fs"
    by (simp add: size_list_conv_sum_list) (metis mset_map mset_sort sum_mset_sum_list length_sort)
  ultimately show ?thesis by metis
qed

text \<open>The closure \<open>walk\<close>; the counter it captures is threaded through.\<close>

function (sequential)
  ceilWalk :: "vnode \<Rightarrow> nat \<Rightarrow> nat \<Rightarrow> prod_reason + nat" and
  ceilList :: "vnode list \<Rightarrow> nat \<Rightarrow> nat \<Rightarrow> prod_reason + nat" where
  "ceilWalk n depth cnt =
     (if depth > maxDepth then Inl DepthExceeded
      else if cnt + 1 > maxNodeCount then Inl NodeCountExceeded
      else (case n of
          VMapping fs p \<Rightarrow> ceilList (map snd (sort_key fst fs)) (depth + 1) (cnt + 1)
        | VSequence es b p \<Rightarrow> ceilList es (depth + 1) (cnt + 1)
        | VScalar r k p \<Rightarrow> Inr (cnt + 1)))"
| "ceilList [] depth cnt = Inr cnt"
| "ceilList (v # vs) depth cnt = bind_res (ceilWalk v depth cnt) (ceilList vs depth)"
  by pat_completeness auto

termination
  by (relation "measure (\<lambda>x. case x of Inl (n, d, c) \<Rightarrow> size n | Inr (vs, d, c) \<Rightarrow> size_list size vs)")
    (auto simp: less_Suc_eq_le intro: size_sorted_fields [simplified])

definition checkNodeCeilings :: "vnode \<Rightarrow> prod_reason option" where
  "checkNodeCeilings root = (case ceilWalk root 1 0 of Inl e \<Rightarrow> Some e | Inr _ \<Rightarrow> None)"

definition withLimits :: "(string \<Rightarrow> prod_reason + vnode) \<Rightarrow> string \<Rightarrow> prod_reason + vnode" where
  "withLimits p data =
     (if length data > maxInputBytes then Inl (InputTooLarge (length data))
      else case preParseNesting 0 data of
        Some r \<Rightarrow> Inl r
      | None \<Rightarrow> bind_res (p data)
          (\<lambda>tree. case checkNodeCeilings tree of Some r \<Rightarrow> Inl r | None \<Rightarrow> Inr tree))"

end
