(* ===== verification/DiffFacts.thy ===== *)
theory DiffFacts
  imports ValueTree
begin

text \<open>
  The specification of the walker: two trees differ at a path of keys when their scalars there
  differ by comparison key or when only one of them has a scalar there. \<open>walk_iff\<close> says the
  walker emits exactly one change per differing path, at the pointer that spells the path.
\<close>

subsection \<open>Pointers are injective\<close>

lemma escape_Nil [simp]: "escapePointer [] = []"
  by (simp add: escapePointer_def)

lemma escape_Cons:
  "escapePointer (c # cs) =
     (if c = CHR ''~'' then ''~0'' else if c = CHR ''/'' then ''~1'' else [c]) @ escapePointer cs"
  by (simp add: escapePointer_def replaceAll1_append)

lemma escape_no_slash: "CHR ''/'' \<notin> set (escapePointer s)"
  by (induction s) (auto simp: escape_Cons)

lemma unescape1:
  "replaceAll2 (CHR ''~'') (CHR ''1'') ''/'' (escapePointer s) = replaceAll1 (CHR ''~'') ''~0'' s"
proof (induction s)
  case (Cons c cs)
  show ?case
  proof (cases "c = CHR ''~'' \<or> c = CHR ''/''")
    case True
    have "replaceAll2 (CHR ''~'') (CHR ''1'') ''/'' (CHR ''0'' # xs)
        = CHR ''0'' # replaceAll2 (CHR ''~'') (CHR ''1'') ''/'' xs" for xs
      by (cases xs) auto
    with True Cons show ?thesis by (auto simp: escape_Cons)
  next
    case False
    then have "replaceAll2 (CHR ''~'') (CHR ''1'') ''/'' (c # xs)
        = c # replaceAll2 (CHR ''~'') (CHR ''1'') ''/'' xs" for xs
      by (cases xs) auto
    with False Cons show ?thesis by (auto simp: escape_Cons)
  qed
qed simp

lemma unescape0: "replaceAll2 (CHR ''~'') (CHR ''0'') ''~'' (replaceAll1 (CHR ''~'') ''~0'' s) = s"
proof (induction s)
  case (Cons c cs)
  have "c \<noteq> CHR ''~'' \<Longrightarrow> replaceAll2 (CHR ''~'') (CHR ''0'') ''~'' (c # xs)
      = c # replaceAll2 (CHR ''~'') (CHR ''0'') ''~'' xs" for xs
    by (cases xs) auto
  with Cons show ?case by auto
qed simp

lemma unescape_escape [simp]: "unescapePointer (escapePointer s) = s"
  by (simp add: unescapePointer_def unescape1 unescape0)

lemma escape_inj: "escapePointer s = escapePointer t \<longleftrightarrow> s = t"
  by (metis unescape_escape)

definition pointerOf :: "string list \<Rightarrow> string" where
  "pointerOf ks = concat (map (\<lambda>k. CHR ''/'' # escapePointer k) ks)"

lemma pointerOf_simps [simp]:
  "pointerOf [] = []" "pointerOf (k # ks) = CHR ''/'' # escapePointer k @ pointerOf ks"
  by (simp_all add: pointerOf_def)

lemma splitOn_pointerOf: "splitOn (CHR ''/'') (pointerOf ks) = [] # map escapePointer ks"
proof (induction ks)
  case (Cons k ks)
  then show ?case
    by (cases ks) (simp_all add: splitOn_absent splitOn_append escape_no_slash)
qed simp

lemma pointerOf_inj: "pointerOf ks = pointerOf js \<longleftrightarrow> ks = js"
proof
  assume "pointerOf ks = pointerOf js"
  then have "map escapePointer ks = map escapePointer js" by (metis splitOn_pointerOf list.inject)
  then show "ks = js" by (simp add: inj_map_eq_map inj_def escape_inj)
qed simp

subsection \<open>Leaves\<close>

type_synonym scalar = "string \<times> string \<times> position"

fun leafAt :: "vnode \<Rightarrow> string list \<Rightarrow> scalar option" where
  "leafAt (VScalar r k p) [] = Some (r, k, p)"
| "leafAt (VMapping fs p) (k # ks) = (case map_of fs k of None \<Rightarrow> None | Some v \<Rightarrow> leafAt v ks)"
| "leafAt v ks = None"

definition delta :: "string \<Rightarrow> string \<Rightarrow> scalar option \<Rightarrow> scalar option \<Rightarrow> change option" where
  "delta file pointer b h =
     (case (b, h) of
        (Some (br, bk, bp), Some (hr, hk, hp)) \<Rightarrow>
          if bk = hk then None
          else Some (noChange\<lparr>c_file := file, c_path := pointer, c_kind := KindModify, c_old := br, c_new := hr,
                              c_oldPos := Some bp, c_newPos := Some hp\<rparr>)
      | (Some (br, bk, bp), None) \<Rightarrow>
          Some (noChange\<lparr>c_file := file, c_path := pointer, c_kind := KindDelete, c_old := br, c_oldPos := Some bp\<rparr>)
      | (None, Some (hr, hk, hp)) \<Rightarrow>
          Some (noChange\<lparr>c_file := file, c_path := pointer, c_kind := KindAdd, c_new := hr, c_newPos := Some hp\<rparr>)
      | (None, None) \<Rightarrow> None)"

lemma delta_fields: "delta file p b h = Some c \<Longrightarrow> c_file c = file \<and> c_path c = p \<and> c_entryRef c = [] \<and> c_oldPath c = []"
  by (auto simp: delta_def noChange_def split: option.splits prod.splits if_splits)

lemma emitOneSided_iff:
  "emitOneSided file ptr v KindDelete = Inr cs \<Longrightarrow>
     c \<in> set cs \<longleftrightarrow> (\<exists>ks. delta file (ptr @ pointerOf ks) (leafAt v ks) None = Some c)"
  "emitOneSided file ptr v KindAdd = Inr cs \<Longrightarrow>
     c \<in> set cs \<longleftrightarrow> (\<exists>ks. delta file (ptr @ pointerOf ks) None (leafAt v ks) = Some c)"
proof -
  have l: "leafAt (VScalar r k p) ks = Some s \<longleftrightarrow> ks = [] \<and> s = (r, k, p)" for r k p ks s
    by (cases ks) auto
  show "emitOneSided file ptr v KindDelete = Inr cs \<Longrightarrow>
     c \<in> set cs \<longleftrightarrow> (\<exists>ks. delta file (ptr @ pointerOf ks) (leafAt v ks) None = Some c)"
    by (cases v) (auto simp: emitOneSided_def delta_def l Let_def split: option.splits)
  show "emitOneSided file ptr v KindAdd = Inr cs \<Longrightarrow>
     c \<in> set cs \<longleftrightarrow> (\<exists>ks. delta file (ptr @ pointerOf ks) None (leafAt v ks) = Some c)"
    by (cases v) (auto simp: emitOneSided_def delta_def l Let_def split: option.splits)
qed

lemma walkScalars_iff:
  "walkScalars file ptr base head = Inr cs \<Longrightarrow>
     c \<in> set cs \<longleftrightarrow> (\<exists>ks. delta file (ptr @ pointerOf ks) (leafAt base ks) (leafAt head ks) = Some c)"
proof -
  have l: "leafAt (VScalar r k p) ks = Some s \<longleftrightarrow> ks = [] \<and> s = (r, k, p)"
    "leafAt (VScalar r k p) ks = None \<longleftrightarrow> ks \<noteq> []" for r k p ks s
    by (cases ks; auto)+
  show "walkScalars file ptr base head = Inr cs \<Longrightarrow> ?thesis"
    by (cases base; cases head) (auto simp: walkScalars_def delta_def l split: option.splits if_splits)
qed

subsection \<open>The walker\<close>

lemma set_unionKeys: "set (unionKeys a b) = fst ` set a \<union> fst ` set b"
  by (auto simp: unionKeys_def)

lemma distinct_unionKeys: "distinct (unionKeys a b)"
  by (simp add: unionKeys_def)

lemma unionKeys_iff: "k \<in> set (unionKeys a b) \<longleftrightarrow> map_of a k \<noteq> None \<or> map_of b k \<noteq> None"
  by (auto simp: set_unionKeys map_of_eq_None_iff)

definition fieldAt :: "vnode assoc \<Rightarrow> string \<Rightarrow> string list \<Rightarrow> scalar option" where
  "fieldAt fs k ks = (case map_of fs k of None \<Rightarrow> None | Some v \<Rightarrow> leafAt v ks)"

lemma leafAt_mapping: "leafAt (VMapping fs p) ks = (case ks of [] \<Rightarrow> None | k # js \<Rightarrow> fieldAt fs k js)"
  by (cases ks) (simp_all add: fieldAt_def)

lemma delta_None [simp]: "delta file p None None = None"
  by (simp add: delta_def)

lemma walk_iff:
  "walkNode f p b h = Inr cs \<Longrightarrow>
     c \<in> set cs \<longleftrightarrow> (\<exists>ks. delta f (p @ pointerOf ks) (leafAt b ks) (leafAt h ks) = Some c)"
  "walkMapping g q bf hf ks = Inr ds \<Longrightarrow>
     c \<in> set ds \<longleftrightarrow> (\<exists>k \<in> set ks. \<exists>js. delta g (q @ pointerOf (k # js)) (fieldAt bf k js) (fieldAt hf k js) = Some c)"
proof (induction f p b h and g q bf hf ks arbitrary: cs and ds rule: walkNode_walkMapping.induct)
  case (1 fl pointer bf bp hf hp)
  have "c \<in> set cs \<longleftrightarrow> (\<exists>k \<in> set (unionKeys bf hf). \<exists>js.
      delta fl (pointer @ pointerOf (k # js)) (fieldAt bf k js) (fieldAt hf k js) = Some c)"
    using 1 by simp
  also have "\<dots> \<longleftrightarrow> (\<exists>k js. delta fl (pointer @ pointerOf (k # js)) (fieldAt bf k js) (fieldAt hf k js) = Some c)"
  proof -
    have "k \<in> set (unionKeys bf hf)"
      if "delta fl (pointer @ pointerOf (k # js)) (fieldAt bf k js) (fieldAt hf k js) = Some c" for k js
      using that by (cases "map_of bf k"; cases "map_of hf k") (auto simp: unionKeys_iff fieldAt_def)
    then show ?thesis by blast
  qed
  also have "\<dots> \<longleftrightarrow> (\<exists>ks. delta fl (pointer @ pointerOf ks) (leafAt (VMapping bf bp) ks) (leafAt (VMapping hf hp) ks) = Some c)"
    (is "?l \<longleftrightarrow> (\<exists>ks. ?P ks)")
  proof -
    have "\<not> ?P []" by simp
    moreover have "?P (k # js) \<longleftrightarrow> delta fl (pointer @ pointerOf (k # js)) (fieldAt bf k js) (fieldAt hf k js) = Some c" for k js
      by (simp add: leafAt_mapping)
    ultimately show ?thesis by (metis list.exhaust)
  qed
  finally show ?case .
next
  case (4 fl pointer bf hf k ks)
  let ?child = "pointer @ ''/'' @ escapePointer k"
  obtain cs1 cs2 where cs: "ds = cs1 @ cs2" and rest: "walkMapping fl pointer bf hf ks = Inr cs2"
    and one: "(case (map_of bf k, map_of hf k) of
           (Some bv, None) \<Rightarrow> emitOneSided fl ?child bv KindDelete
         | (None, Some hv) \<Rightarrow> emitOneSided fl ?child hv KindAdd
         | (Some bv, Some hv) \<Rightarrow> walkNode fl ?child bv hv
         | (None, None) \<Rightarrow> Inr []) = Inr cs1"
    using "4.prems" unfolding walkMapping.simps Let_def bind_res_Inr_iff by blast
  have "c \<in> set cs1 \<longleftrightarrow> (\<exists>js. delta fl (?child @ pointerOf js) (fieldAt bf k js) (fieldAt hf k js) = Some c)"
  proof (cases "map_of bf k")
    case bk: None
    show ?thesis
    proof (cases "map_of hf k")
      case None
      with bk one show ?thesis by (simp add: fieldAt_def)
    next
      case (Some hv)
      with bk one have "emitOneSided fl ?child hv KindAdd = Inr cs1" by simp
      from emitOneSided_iff(2) [OF this] bk Some show ?thesis by (simp add: fieldAt_def)
    qed
  next
    case bk: (Some bv)
    show ?thesis
    proof (cases "map_of hf k")
      case None
      with bk one have "emitOneSided fl ?child bv KindDelete = Inr cs1" by simp
      from emitOneSided_iff(1) [OF this] bk None show ?thesis by (simp add: fieldAt_def)
    next
      case (Some hv)
      with bk one have "walkNode fl ?child bv hv = Inr cs1" by simp
      from "4.IH"(1) [OF refl refl bk Some this] bk Some show ?thesis by (simp add: fieldAt_def)
    qed
  qed
  moreover have "c \<in> set cs2 \<longleftrightarrow> (\<exists>k \<in> set ks. \<exists>js.
      delta fl (pointer @ pointerOf (k # js)) (fieldAt bf k js) (fieldAt hf k js) = Some c)"
    by (rule "4.IH"(2) [OF refl rest])
  ultimately show ?case by (simp add: cs)
qed (auto simp: walkScalars_iff split: if_splits)

text \<open>One change per path: the emitted pointers are distinct.\<close>

lemma walk_distinct:
  "walkNode f p b h = Inr cs \<Longrightarrow> distinct (map c_path cs)"
  "walkMapping g q bf hf ks = Inr ds \<Longrightarrow> distinct ks \<Longrightarrow> distinct (map c_path ds)"
proof (induction f p b h and g q bf hf ks arbitrary: cs and ds rule: walkNode_walkMapping.induct)
  case (1 fl pointer bf bp hf hp)
  then show ?case by (simp add: distinct_unionKeys)
next
  case (4 fl pointer bf hf k ks)
  let ?child = "pointer @ ''/'' @ escapePointer k"
  let ?one = "walkMapping fl pointer bf hf [k]"
  obtain cs1 cs2 where cs: "ds = cs1 @ cs2" and rest: "walkMapping fl pointer bf hf ks = Inr cs2"
    and one: "(case (map_of bf k, map_of hf k) of
           (Some bv, None) \<Rightarrow> emitOneSided fl ?child bv KindDelete
         | (None, Some hv) \<Rightarrow> emitOneSided fl ?child hv KindAdd
         | (Some bv, Some hv) \<Rightarrow> walkNode fl ?child bv hv
         | (None, None) \<Rightarrow> Inr []) = Inr cs1"
    using "4.prems"(1) unfolding walkMapping.simps Let_def bind_res_Inr_iff by blast
  have single: "walkMapping fl pointer bf hf [k] = Inr cs1"
    unfolding walkMapping.simps Let_def bind_res_simps one by simp
  have emit: "distinct (map c_path xs)" if "emitOneSided fl ?child v kd = Inr xs" for v kd xs
    using that by (cases v) (auto simp: emitOneSided_def Let_def)
  have d1: "distinct (map c_path cs1)"
  proof (cases "map_of bf k")
    case None
    then show ?thesis using one emit by (cases "map_of hf k") auto
  next
    case bk: (Some bv)
    show ?thesis
    proof (cases "map_of hf k")
      case None
      with bk one emit show ?thesis by auto
    next
      case (Some hv)
      with bk one have "walkNode fl ?child bv hv = Inr cs1" by simp
      then show ?thesis by (rule "4.IH"(1) [OF refl refl bk Some])
    qed
  qed
  have d2: "distinct (map c_path cs2)"
    using "4.IH"(2) [OF refl rest] "4.prems"(2) by simp
  have "c_path c \<noteq> c_path d" if c: "c \<in> set cs1" and d: "d \<in> set cs2" for c d
  proof -
    obtain js where js: "c_path c = pointer @ pointerOf (k # js)"
      using c unfolding walk_iff(2) [OF single] by (auto dest: delta_fields)
    obtain k' js' where js': "c_path d = pointer @ pointerOf (k' # js')" "k' \<in> set ks"
      using d unfolding walk_iff(2) [OF rest] by (auto dest: delta_fields)
    have "k' \<noteq> k" using js'(2) "4.prems"(2) by auto
    then show ?thesis unfolding js js' append_same_eq same_append_eq pointerOf_inj by simp
  qed
  then have "set (map c_path cs1) \<inter> set (map c_path cs2) = {}" by auto
  with d1 d2 show ?case unfolding cs map_append distinct_append by blast
qed (auto simp: walkScalars_def split: if_splits vnode.splits)

end
