(* ===== verification/Diff.thy ===== *)
theory Diff
  imports Producers DiffFacts EvalLeaf
begin

text \<open>
  The entry points of \<open>internal/change\<close> over the value tree: \<open>Diff\<close>, the collection-mode
  \<open>DiffEntries\<close> (\<open>entryref.go\<close>), \<open>Entries\<close> (\<open>entries.go\<close>) and the rename fold (\<open>rename.go\<close>); and
  the bridge to the engine, \<open>internal/evaldecode\<close>.
\<close>

subsection \<open>Diff (diff.go)\<close>

text \<open>The three parsers, library code, as one parameter.\<close>

record parsers =
  ps_yaml :: "string \<Rightarrow> ydoc \<times> ydoc"
  ps_json :: "string \<Rightarrow> jstream"
  ps_hcl :: "string \<Rightarrow> hclFile"

definition baseProducerFor :: "parsers \<Rightarrow> string \<Rightarrow> string \<Rightarrow> prod_reason + vnode" where
  "baseProducerFor ps file =
     (if hasSuffix file ''.json'' then parseJSON (ps_json ps)
      else if hasSuffix file ''.tfvars'' then parseHCL (ps_hcl ps)
      else parseYAML (ps_yaml ps))"

definition producerFor :: "parsers \<Rightarrow> string \<Rightarrow> string \<Rightarrow> prod_reason + vnode" where
  "producerFor ps file = withLimits (baseProducerFor ps file)"

text \<open>
  \<open>Diff\<close> returns an opaque change set with the error \<open>ErrOpaque\<close>, or the changes; a sum here,
  and \<open>changeSetOf\<close> is the value the code returns beside the error.
\<close>

definition changeSetOf :: "diff_reason + change list \<Rightarrow> (diff_reason \<Rightarrow> string) \<Rightarrow> changeSet" where
  "changeSetOf r text =
     (case r of
        Inl e \<Rightarrow> \<lparr>cs_changes = [], cs_opaque = True, cs_reason = text e\<rparr>
      | Inr cs \<Rightarrow> \<lparr>cs_changes = cs, cs_opaque = False, cs_reason = []\<rparr>)"

definition map_err :: "('a \<Rightarrow> 'b) \<Rightarrow> 'a + 'c \<Rightarrow> 'b + 'c" where
  "map_err f r = (case r of Inl e \<Rightarrow> Inl (f e) | Inr x \<Rightarrow> Inr x)"

definition parseBoth :: "parsers \<Rightarrow> string \<Rightarrow> string \<Rightarrow> string \<Rightarrow> diff_reason + vnode \<times> vnode" where
  "parseBoth ps file base head =
     bind_res (map_err BaseReason (producerFor ps file base)) (\<lambda>b.
     bind_res (map_err HeadReason (producerFor ps file head)) (\<lambda>h. Inr (b, h)))"

definition diff :: "parsers \<Rightarrow> string \<Rightarrow> string \<Rightarrow> string \<Rightarrow> diff_reason + change list" where
  "diff ps file base head =
     bind_res (parseBoth ps file base head)
       (\<lambda>(b, h). bind_res (walkNode file [] b h) (\<lambda>cs. Inr (sortChanges cs)))"

subsection \<open>Collection mode (entryref.go)\<close>

abbreviation ModeDocument :: string where "ModeDocument \<equiv> ''document''"
abbreviation ModeMap :: string where "ModeMap \<equiv> ''map''"
abbreviation ModeList :: string where "ModeList \<equiv> ''list''"

record entryConfig =
  ec_mode :: string
  ec_root :: string
  ec_identity :: string
  ec_label :: string

fun resolveTokens :: "vnode \<Rightarrow> string list \<Rightarrow> vnode option" where
  "resolveTokens cur [] = Some cur"
| "resolveTokens cur (tok # toks) =
     (case cur of
        VMapping fs p \<Rightarrow>
          (case map_of fs (unescapePointer tok) of None \<Rightarrow> None | Some next \<Rightarrow> resolveTokens next toks)
      | _ \<Rightarrow> None)"

definition resolvePointer :: "vnode \<Rightarrow> string \<Rightarrow> vnode option" where
  "resolvePointer node pointer =
     (if pointer = [] \<or> pointer = ''/'' then Some node
      else resolveTokens node (splitOn (CHR ''/'') (trimPrefix pointer ''/'')))"

definition entryKeyLabel :: "string \<Rightarrow> string" where
  "entryKeyLabel r =
     (if length r \<ge> 2 \<and> r ! 0 = CHR 0x22 then (case jsonUnquote r of Some s \<Rightarrow> s | None \<Rightarrow> r) else r)"

fun indexByIdentity :: "string \<Rightarrow> vnode list \<Rightarrow> vnode assoc \<Rightarrow> diff_reason + vnode assoc" where
  "indexByIdentity identityPtr [] out = Inr out"
| "indexByIdentity identityPtr (el # els) out =
     (if \<not> isMapping el then Inl EntryNotObject
      else case resolvePointer el identityPtr of
        None \<Rightarrow> Inl (EntryNoIdentity identityPtr)
      | Some idNode \<Rightarrow>
          if \<not> isScalar idNode then Inl (EntryIdentityNotScalar identityPtr)
          else (let i = entryKeyLabel (v_render idNode) in
            if map_of out i \<noteq> None then Inl (DuplicateIdentity i)
            else indexByIdentity identityPtr els (out @ [(i, el)])))"

definition diffOneEntry ::
  "string \<Rightarrow> string \<Rightarrow> string \<Rightarrow> vnode option \<Rightarrow> vnode option \<Rightarrow> diff_reason + change list" where
  "diffOneEntry file entryPtr ref base head =
     bind_res
       (case (base, head) of
          (Some b, None) \<Rightarrow> Inr [noChange\<lparr>c_file := file, c_path := entryPtr, c_kind := KindDelete, c_oldPos := Some (v_pos b)\<rparr>]
        | (None, Some h) \<Rightarrow> Inr [noChange\<lparr>c_file := file, c_path := entryPtr, c_kind := KindAdd, c_newPos := Some (v_pos h)\<rparr>]
        | (Some b, Some h) \<Rightarrow> walkNode file entryPtr b h
        | (None, None) \<Rightarrow> Inr [])
       (\<lambda>local. Inr (map (\<lambda>c. c\<lparr>c_entryRef := ref\<rparr>) local))"

text \<open>The loop both modes run over the sorted union of the entry keys.\<close>

fun entriesLoop :: "string \<Rightarrow> string \<Rightarrow> string \<Rightarrow> vnode assoc \<Rightarrow> vnode assoc \<Rightarrow> string list \<Rightarrow> diff_reason + change list" where
  "entriesLoop file root label be he [] = Inr []"
| "entriesLoop file root label be he (k # ks) =
     bind_res (diffOneEntry file (root @ ''/'' @ escapePointer k) (label @ '':'' @ k) (map_of be k) (map_of he k))
       (\<lambda>cs. bind_res (entriesLoop file root label be he ks) (\<lambda>ds. Inr (cs @ ds)))"

definition entriesRoots :: "entryConfig \<Rightarrow> vnode \<Rightarrow> vnode \<Rightarrow> diff_reason + vnode \<times> vnode" where
  "entriesRoots cfg baseTree headTree =
     (case resolvePointer baseTree (ec_root cfg) of
        None \<Rightarrow> Inl (EntriesRootMissing ''base'' (ec_root cfg))
      | Some b \<Rightarrow> (case resolvePointer headTree (ec_root cfg) of
            None \<Rightarrow> Inl (EntriesRootMissing ''head'' (ec_root cfg))
          | Some h \<Rightarrow> Inr (b, h)))"

definition diffMapEntries :: "string \<Rightarrow> entryConfig \<Rightarrow> string \<Rightarrow> vnode \<Rightarrow> vnode \<Rightarrow> diff_reason + change list" where
  "diffMapEntries file cfg label baseTree headTree =
     bind_res (entriesRoots cfg baseTree headTree)
       (\<lambda>(b, h). if \<not> isMapping b \<or> \<not> isMapping h then Inl (EntriesRootKind (ec_root cfg))
          else entriesLoop file (ec_root cfg) label (v_fields b) (v_fields h) (unionKeys (v_fields b) (v_fields h)))"

definition diffListEntries :: "string \<Rightarrow> entryConfig \<Rightarrow> string \<Rightarrow> vnode \<Rightarrow> vnode \<Rightarrow> diff_reason + change list" where
  "diffListEntries file cfg label baseTree headTree =
     (if ec_identity cfg = [] then Inl ListUnkeyed
      else bind_res (entriesRoots cfg baseTree headTree)
       (\<lambda>(b, h). if \<not> isSequence b \<or> \<not> isSequence h then Inl (EntriesRootKind (ec_root cfg))
          else if \<not> v_elemsProjected b \<or> \<not> v_elemsProjected h then Inl (ListUnprojected (ec_root cfg))
          else bind_res (indexByIdentity (ec_identity cfg) (v_elems b) []) (\<lambda>be.
               bind_res (indexByIdentity (ec_identity cfg) (v_elems h) []) (\<lambda>he.
               entriesLoop file (ec_root cfg) label be he (unionKeys be he)))))"

definition diffEntries :: "parsers \<Rightarrow> string \<Rightarrow> string \<Rightarrow> string \<Rightarrow> entryConfig \<Rightarrow> diff_reason + change list" where
  "diffEntries ps file base head cfg =
     (if ec_mode cfg = [] \<or> ec_mode cfg = ModeDocument then diff ps file base head
      else bind_res (parseBoth ps file base head)
        (\<lambda>(b, h). let label = (if ec_label cfg = [] then ''entry'' else ec_label cfg) in
           bind_res
             (if ec_mode cfg = ModeMap then diffMapEntries file cfg label b h
              else if ec_mode cfg = ModeList then diffListEntries file cfg label b h
              else Inl (UnknownMode (ec_mode cfg)))
             (\<lambda>cs. Inr (sortChanges cs))))"

subsection \<open>Whole entries (entries.go)\<close>

datatype entries_error =
    EntriesDiff diff_reason
  | EntriesProducer prod_reason
  | Unprojected
  | MalformedKey
  | UndecodableString string
  | UnknownBool string
  | UnknownTag

text \<open>\<open>projectScalar\<close>: the tag is what precedes the first NUL of the comparison key.\<close>

definition projectScalar :: "string \<Rightarrow> string \<Rightarrow> entries_error + gval" where
  "projectScalar r key =
     (if NUL \<notin> set key then Inl MalformedKey
      else (let tag = takeWhile (\<lambda>c. c \<noteq> NUL) key in
        if tag = ''n'' \<or> tag = tagInt \<or> tag = tagFloat then Inr (GNum r)
        else if tag = ''s'' \<or> tag = tagStr then
          (case jsonUnquote r of None \<Rightarrow> Inl (UndecodableString r) | Some s \<Rightarrow> Inr (GStr s))
        else if tag = ''b'' \<or> tag = tagBool then
          (if r = ''true'' \<or> r = ''True'' \<or> r = ''TRUE'' then Inr (GBool True)
           else if r = ''false'' \<or> r = ''False'' \<or> r = ''FALSE'' then Inr (GBool False)
           else Inl (UnknownBool r))
        else if tag = ''z'' \<or> tag = tagNull then Inr GNil
        else Inl UnknownTag))"

function (sequential)
  projectValue :: "vnode \<Rightarrow> entries_error + gval" and
  projectFields :: "vnode assoc \<Rightarrow> entries_error + gval assoc" and
  projectElems :: "vnode list \<Rightarrow> entries_error + gval list" where
  "projectValue (VScalar r k p) = projectScalar r k"
| "projectValue (VMapping fs p) = bind_res (projectFields fs) (\<lambda>m. Inr (GMap m))"
| "projectValue (VSequence es projected p) =
     (if \<not> projected then Inl Unprojected else bind_res (projectElems es) (\<lambda>vs. Inr (GList vs)))"
| "projectFields [] = Inr []"
| "projectFields ((k, v) # fs) =
     bind_res (projectValue v) (\<lambda>x. bind_res (projectFields fs) (\<lambda>m. Inr ((k, x) # m)))"
| "projectElems [] = Inr []"
| "projectElems (v # vs) =
     bind_res (projectValue v) (\<lambda>x. bind_res (projectElems vs) (\<lambda>xs. Inr (x # xs)))"
  by pat_completeness auto
termination
  by (relation "measure (\<lambda>x. case x of Inl v \<Rightarrow> size v
      | Inr y \<Rightarrow> (case y of Inl fs \<Rightarrow> size_list (size_prod (\<lambda>_. 0) size) fs | Inr vs \<Rightarrow> size_list size vs))") auto

definition labelled :: "string \<Rightarrow> vnode assoc \<Rightarrow> entries_error + gval assoc" where
  "labelled label fs = bind_res (projectFields fs) (\<lambda>m. Inr (map (\<lambda>(k, v). (label @ '':'' @ k, v)) m))"

definition entries :: "parsers \<Rightarrow> string \<Rightarrow> string \<Rightarrow> entryConfig \<Rightarrow> entries_error + gval assoc" where
  "entries ps file data cfg =
     (if ec_mode cfg = [] \<or> ec_mode cfg = ModeDocument then Inr []
      else bind_res (map_err EntriesProducer (producerFor ps file data))
        (\<lambda>tree. let label = (if ec_label cfg = [] then ''entry'' else ec_label cfg) in
           if ec_mode cfg = ModeMap then
             (case resolvePointer tree (ec_root cfg) of
                None \<Rightarrow> Inl (EntriesDiff (EntriesRootMissing [] (ec_root cfg)))
              | Some coll \<Rightarrow>
                  if \<not> isMapping coll then Inl (EntriesDiff (EntriesRootKind (ec_root cfg)))
                  else labelled label (v_fields coll))
           else if ec_mode cfg = ModeList then
             (if ec_identity cfg = [] then Inl (EntriesDiff ListUnkeyed)
              else case resolvePointer tree (ec_root cfg) of
                None \<Rightarrow> Inl (EntriesDiff (EntriesRootMissing [] (ec_root cfg)))
              | Some coll \<Rightarrow>
                  if \<not> isSequence coll then Inl (EntriesDiff (EntriesRootKind (ec_root cfg)))
                  else if \<not> v_elemsProjected coll then Inl (EntriesDiff (ListUnprojected (ec_root cfg)))
                  else bind_res (map_err EntriesDiff (indexByIdentity (ec_identity cfg) (v_elems coll) []))
                    (labelled label))
           else Inl (EntriesDiff (UnknownMode (ec_mode cfg)))))"

end
