(* ===== verification/RenameDecode.thy ===== *)
theory RenameDecode
  imports Diff
begin

text \<open>
  \<open>internal/change/rename.go\<close>, the opt-in fold of a delete and an add into a rename, and
  \<open>internal/evaldecode\<close>, which turns the differ's rendered values back into typed ones and builds
  the engine's input from a change set.
\<close>

subsection \<open>FoldRenames\<close>

abbreviation RenameDetect :: string where "RenameDetect \<equiv> ''detect''"

definition foldKey :: "string \<Rightarrow> string \<Rightarrow> string" where
  "foldKey file val = file @ NUL # val"

text \<open>\<open>delByVal[k]\<close> and \<open>addByVal[k]\<close>: the indices of the deletes and adds under a key.\<close>

definition delByVal :: "change list \<Rightarrow> string \<Rightarrow> nat list" where
  "delByVal cs k = filter (\<lambda>i. c_kind (cs ! i) = KindDelete \<and> foldKey (c_file (cs ! i)) (c_old (cs ! i)) = k)
     [0..<length cs]"

definition addByVal :: "change list \<Rightarrow> string \<Rightarrow> nat list" where
  "addByVal cs k = filter (\<lambda>i. c_kind (cs ! i) = KindAdd \<and> foldKey (c_file (cs ! i)) (c_new (cs ! i)) = k)
     [0..<length cs]"

definition delKeys :: "change list \<Rightarrow> string list" where
  "delKeys cs = dedup (map (\<lambda>c. foldKey (c_file c) (c_old c)) (filter (\<lambda>c. c_kind c = KindDelete) cs))"

text \<open>The pair folded for one key, if any.\<close>

definition foldPair :: "change list \<Rightarrow> string \<Rightarrow> (nat \<times> nat) option" where
  "foldPair cs k =
     (case (delByVal cs k, addByVal cs k) of
        ([d], [a]) \<Rightarrow> if c_path (cs ! d) = c_path (cs ! a) then None else Some (d, a)
      | _ \<Rightarrow> None)"

definition foldPairs :: "change list \<Rightarrow> (nat \<times> nat) list" where
  "foldPairs cs = List.map_filter (foldPair cs) (delKeys cs)"

definition renameOf :: "change \<Rightarrow> change \<Rightarrow> change" where
  "renameOf d a = noChange\<lparr>c_file := c_file d, c_path := c_path a, c_oldPath := c_path d,
     c_kind := KindRename, c_old := c_old d, c_new := c_new a, c_oldPos := c_oldPos d, c_newPos := c_newPos a\<rparr>"

definition unfolded :: "change list \<Rightarrow> change list" where
  "unfolded cs = map (\<lambda>i. cs ! i)
     (filter (\<lambda>i. \<forall>p \<in> set (foldPairs cs). i \<noteq> fst p \<and> i \<noteq> snd p) [0..<length cs])"

definition FoldRenames :: "changeSet \<Rightarrow> string \<Rightarrow> changeSet" where
  "FoldRenames cs mode =
     (if mode \<noteq> RenameDetect \<or> cs_opaque cs \<or> cs_changes cs = [] then cs
      else (let renames = map (\<lambda>(d, a). renameOf (cs_changes cs ! d) (cs_changes cs ! a)) (foldPairs (cs_changes cs)) in
        if renames = [] then cs
        else \<lparr>cs_changes = sortChanges (unfolded (cs_changes cs) @ renames), cs_opaque = False, cs_reason = []\<rparr>))"

lemma foldPair_Some:
  assumes "foldPair cs k = Some (d, a)"
  shows "d < length cs" "a < length cs" "c_kind (cs ! d) = KindDelete" "c_kind (cs ! a) = KindAdd"
    "foldKey (c_file (cs ! d)) (c_old (cs ! d)) = k" "foldKey (c_file (cs ! a)) (c_new (cs ! a)) = k"
    "c_path (cs ! d) \<noteq> c_path (cs ! a)"
proof -
  have "delByVal cs k = [d]" "addByVal cs k = [a]" and p: "c_path (cs ! d) \<noteq> c_path (cs ! a)"
    using assms by (auto simp: foldPair_def split: list.splits if_splits)
  then have "d \<in> set (delByVal cs k)" "a \<in> set (addByVal cs k)" by auto
  then show "d < length cs" "a < length cs" "c_kind (cs ! d) = KindDelete" "c_kind (cs ! a) = KindAdd"
    "foldKey (c_file (cs ! d)) (c_old (cs ! d)) = k" "foldKey (c_file (cs ! a)) (c_new (cs ! a)) = k"
    by (auto simp: delByVal_def addByVal_def)
  show "c_path (cs ! d) \<noteq> c_path (cs ! a)" by (rule p)
qed

lemma foldPairs_iff: "(d, a) \<in> set (foldPairs cs) \<longleftrightarrow> (\<exists>k \<in> set (delKeys cs). foldPair cs k = Some (d, a))"
  by (force simp: foldPairs_def List.map_filter_def)

lemma takeWhile_NUL: "NUL \<notin> set f \<Longrightarrow> takeWhile (\<lambda>c. c \<noteq> NUL) (f @ NUL # v) = f"
  by (induction f) auto

lemma foldKey_inj: "NUL \<notin> set f \<Longrightarrow> NUL \<notin> set g \<Longrightarrow> foldKey f v = foldKey g w \<longleftrightarrow> f = g \<and> v = w"
proof
  assume n: "NUL \<notin> set f" "NUL \<notin> set g" and e: "foldKey f v = foldKey g w"
  then have "f = g" using takeWhile_NUL by (metis foldKey_def)
  with e show "f = g \<and> v = w" by (simp add: foldKey_def)
qed simp

subsection \<open>evaldecode\<close>

definition DecodeCanonical :: "string \<Rightarrow> gval" where
  "DecodeCanonical s =
     (if s = [] \<or> s = ''null'' then GNil
      else if s = ''true'' \<or> s = ''True'' \<or> s = ''TRUE'' then GBool True
      else if s = ''false'' \<or> s = ''False'' \<or> s = ''FALSE'' then GBool False
      else if s ! 0 = CHR 0x22 then (case jsonUnquote s of Some t \<Rightarrow> GStr t | None \<Rightarrow> GNil)
      else GNum s)"

definition SubjectOf :: "change \<Rightarrow> string" where
  "SubjectOf c = (if c_entryRef c \<noteq> [] then c_entryRef c else ''file:'' @ c_file c)"

definition evalChangeOf :: "change \<Rightarrow> evalChange" where
  "evalChangeOf c =
     \<lparr>ec_subject = SubjectOf c, ec_file = c_file c, ec_path = c_path c, ec_kind = c_kind c,
      ec_old = DecodeCanonical (c_old c), ec_new = DecodeCanonical (c_new c), ec_entry = GNil, ec_oldEntry = GNil\<rparr>"

definition BuildEvaluationInput :: "changeSet \<Rightarrow> mrInfo \<Rightarrow> string list \<Rightarrow> evalInput" where
  "BuildEvaluationInput cs mr require =
     \<lparr>in_changes = map evalChangeOf (cs_changes cs), in_facts = [], in_mr = mr, in_require = require\<rparr>"

text \<open>What a YAML scalar means, read off its resolved tag, and what the decoder makes of its render.\<close>

definition yamlMeaning :: "yamlNode \<Rightarrow> gval option" where
  "yamlMeaning n =
     (if y_kind n \<noteq> YScalar then None
      else if y_tag n = tagNull then Some GNil
      else if y_tag n = tagStr then Some (GStr (y_value n))
      else if y_tag n = tagBool then Some (GBool (y_value n \<in> {''true'', ''True'', ''TRUE''}))
      else if y_tag n = tagInt \<or> y_tag n = tagFloat then Some (GNum (y_value n))
      else None)"

text \<open>The literals the YAML resolver gives each tag, as far as the decoder tells them apart.\<close>

definition yamlResolved :: "yamlNode \<Rightarrow> bool" where
  "yamlResolved n \<longleftrightarrow>
     (y_tag n = tagStr \<longrightarrow> validUtf8 (y_value n))
     \<and> (y_tag n = tagBool \<longrightarrow> y_value n \<in> {''true'', ''True'', ''TRUE'', ''false'', ''False'', ''FALSE''})
     \<and> (y_tag n = tagInt \<or> y_tag n = tagFloat \<longrightarrow>
          y_value n \<noteq> [] \<and> hd (y_value n) \<in> set ''0123456789+-.'')"

lemma Decode_quote: "validUtf8 s \<Longrightarrow> DecodeCanonical (jsonQuote s) = GStr s"
proof -
  assume "validUtf8 s"
  then have "jsonUnquote (jsonQuote s) = Some s" by (rule jsonUnquote_jsonQuote)
  moreover obtain t where "jsonQuote s = CHR 0x22 # t" using jsonQuote_head by blast
  ultimately show ?thesis by (simp add: DecodeCanonical_def)
qed

lemma Decode_number:
  assumes "v \<noteq> []" "hd v \<in> set ''0123456789+-.''"
  shows "DecodeCanonical v = GNum v"
proof -
  obtain c cs where v: "v = c # cs" using assms(1) by (cases v) auto
  with assms(2) have "c \<in> set ''0123456789+-.''" by simp
  then show ?thesis unfolding v by (auto simp: DecodeCanonical_def)
qed

lemma Decode_render:
  assumes "yamlResolved n" and "render n = Some r"
  shows "yamlMeaning n = Some (DecodeCanonical r)"
proof -
  consider "y_tag n = tagNull" | "y_tag n = tagStr" | "y_tag n = tagBool" | "y_tag n = tagInt \<or> y_tag n = tagFloat"
    using assms(2) by (auto simp: render_def split: if_splits)
  then show ?thesis
  proof cases
    case 1
    then show ?thesis using assms by (auto simp: render_def yamlMeaning_def DecodeCanonical_def split: if_splits)
  next
    case 2
    then show ?thesis using assms by (auto simp: render_def yamlMeaning_def yamlResolved_def Decode_quote split: if_splits)
  next
    case 3
    then have "y_value n \<in> {''true'', ''True'', ''TRUE'', ''false'', ''False'', ''FALSE''}"
      using assms(1) by (simp add: yamlResolved_def)
    with 3 show ?thesis using assms(2) by (auto simp: render_def yamlMeaning_def DecodeCanonical_def split: if_splits)
  next
    case 4
    then have "DecodeCanonical (y_value n) = GNum (y_value n)"
      using assms(1) by (intro Decode_number) (auto simp: yamlResolved_def)
    with 4 show ?thesis using assms(2) by (auto simp: render_def yamlMeaning_def split: if_splits)
  qed
qed

end
