(* ===== verification/ProducerFacts.thy ===== *)
theory ProducerFacts
  imports RenameDecode
begin

text \<open>
  What every producer promises the walker: field names are distinct and every scalar's
  comparison key is its tag, a NUL and its render. This is the contract \<open>tree_producer\<close>; the
  limits preserve it and each of the three producers is an instance. Below, the limits and the
  fuel of the JSON reader.
\<close>

subsection \<open>Well-formed trees\<close>

text \<open>A tag never contains NUL, so the key determines tag and render.\<close>

definition taggedKey :: "string \<Rightarrow> string \<Rightarrow> bool" where
  "taggedKey r key \<longleftrightarrow> (\<exists>tag. NUL \<notin> set tag \<and> key = cmpKeyOf tag r)"

function (sequential)
  wfTree :: "vnode \<Rightarrow> bool" and wfFields :: "vnode assoc \<Rightarrow> bool" and wfElems :: "vnode list \<Rightarrow> bool" where
  "wfTree (VScalar r k p) \<longleftrightarrow> taggedKey r k"
| "wfTree (VMapping fs p) \<longleftrightarrow> distinct (map fst fs) \<and> wfFields fs"
| "wfTree (VSequence es b p) \<longleftrightarrow> wfElems es"
| "wfFields [] \<longleftrightarrow> True"
| "wfFields ((k, v) # fs) \<longleftrightarrow> wfTree v \<and> wfFields fs"
| "wfElems [] \<longleftrightarrow> True"
| "wfElems (v # vs) \<longleftrightarrow> wfTree v \<and> wfElems vs"
  by pat_completeness auto
termination
  by (relation "measure (\<lambda>x. case x of Inl v \<Rightarrow> size v
      | Inr y \<Rightarrow> (case y of Inl fs \<Rightarrow> size_list (size_prod (\<lambda>_. 0) size) fs | Inr vs \<Rightarrow> size_list size vs))") auto

lemma wfFields_iff: "wfFields fs \<longleftrightarrow> (\<forall>(k, v) \<in> set fs. wfTree v)"
  by (induction fs) auto

lemma wfElems_iff: "wfElems vs \<longleftrightarrow> (\<forall>v \<in> set vs. wfTree v)"
  by (induction vs) auto

lemma wfFields_snoc: "wfFields (fs @ [(k, v)]) \<longleftrightarrow> wfFields fs \<and> wfTree v"
  by (auto simp: wfFields_iff)

lemma wfElems_snoc: "wfElems (vs @ [v]) \<longleftrightarrow> wfElems vs \<and> wfTree v"
  by (auto simp: wfElems_iff)

lemma taggedKeyI: "NUL \<notin> set tag \<Longrightarrow> taggedKey r (cmpKeyOf tag r)"
  by (auto simp: taggedKey_def)

lemma taggedKey_render: "taggedKey r k \<Longrightarrow> taggedKey q k \<Longrightarrow> r = q"
  unfolding taggedKey_def cmpKeyOf_def by (metis takeWhile_NUL same_append_eq list.inject)

text \<open>Two well-formed trees with the same key at a path have the same render there.\<close>

lemma leafAt_tagged: "wfTree v \<Longrightarrow> leafAt v ks = Some (r, k, p) \<Longrightarrow> taggedKey r k"
proof (induction v ks rule: leafAt.induct)
  case (2 fs p k ks)
  then show ?case by (auto split: option.splits dest!: map_of_SomeD simp: wfFields_iff)
qed auto

locale tree_producer =
  fixes produce :: "string \<Rightarrow> prod_reason + vnode"
  assumes mapping_root: "produce data = Inr v \<Longrightarrow> isMapping v"
    and well_formed: "produce data = Inr v \<Longrightarrow> wfTree v"
begin

lemma limited_mapping: "withLimits produce data = Inr v \<Longrightarrow> isMapping v"
  by (auto simp: withLimits_def bind_res_Inr_iff mapping_root split: if_splits option.splits)

lemma limited_wf: "withLimits produce data = Inr v \<Longrightarrow> wfTree v"
  by (auto simp: withLimits_def bind_res_Inr_iff well_formed split: if_splits option.splits)

lemma limited_small: "withLimits produce data = Inr v \<Longrightarrow> length data \<le> maxInputBytes \<and> checkNodeCeilings v = None"
  by (auto simp: withLimits_def bind_res_Inr_iff split: if_splits option.splits)

end

subsection \<open>The YAML producer\<close>

lemma NUL_tags:
  "NUL \<notin> set tagStr" "NUL \<notin> set tagInt" "NUL \<notin> set tagFloat" "NUL \<notin> set tagBool" "NUL \<notin> set tagNull"
  "NUL \<notin> set ''s''" "NUL \<notin> set ''n''" "NUL \<notin> set ''b''" "NUL \<notin> set ''z''"
  by (simp_all add: NUL_def)

lemma render_tagged: "render n = Some r \<Longrightarrow> taggedKey r (compareKey n r)"
proof -
  assume "render n = Some r"
  then have "y_tag n \<in> {tagStr, tagInt, tagFloat, tagBool, tagNull}" by (auto simp: render_def split: if_splits)
  then have "NUL \<notin> set (y_tag n)" by (auto simp: NUL_def)
  then show ?thesis by (simp add: compareKey_def taggedKeyI)
qed

lemma yaml_wf:
  "yamlFields p ns fs = Inr gs \<Longrightarrow> distinct (map fst fs) \<and> wfFields fs \<Longrightarrow> distinct (map fst gs) \<and> wfFields gs"
  "yamlValue q n = Inr v \<Longrightarrow> wfTree v"
proof (induction p ns fs and q n arbitrary: gs and v rule: yamlFields_yamlValue.induct)
  case (1 pointer k v rest flds)
  have n: "map_of flds (y_value k) = None"
    using "1.prems"(1) by (simp del: yamlValue.simps split: if_split_asm)
  with "1.prems"(1) obtain vn where v: "yamlValue (pointer @ ''/'' @ escapePointer (y_value k)) v = Inr vn"
    and r: "yamlFields pointer rest (flds @ [(y_value k, vn)]) = Inr gs"
    by (auto simp: bind_res_Inr_iff simp del: yamlValue.simps split: if_splits)
  have "wfTree vn" using "1.IH"(1) v "1.prems"(1) by (auto split: if_splits)
  moreover have "y_value k \<notin> fst ` set flds" using n by (simp add: map_of_eq_None_iff)
  ultimately have "distinct (map fst (flds @ [(y_value k, vn)])) \<and> wfFields (flds @ [(y_value k, vn)])"
    using "1.prems"(2) by (auto simp: wfFields_snoc)
  then show ?case using "1.IH"(2) r n "1.prems"(1) by (auto split: if_splits)
next
  case (3 pointer n)
  then show ?case
    by (auto simp: bind_res_Inr_iff render_tagged split: if_splits option.splits)
qed auto

interpretation yaml: tree_producer "parseYAML decode" for decode
proof
  fix data v assume p: "parseYAML decode data = Inr v"
  then show "isMapping v" by (auto simp: parseYAML_def yamlMapping_def bind_res_Inr_iff)
  show "wfTree v"
    using p yaml_wf(1) by (fastforce simp: parseYAML_def yamlMapping_def bind_res_Inr_iff)
qed

subsection \<open>The JSON producer\<close>

lemma jsonScalar_wf: "jsonScalar data off t = Inr v \<Longrightarrow> wfTree v"
  using NUL_tags by (auto simp: jsonScalar_def Let_def taggedKeyI split: jtok.splits)

lemma jsonKey_Inr: "jsonKey ts fs = Inr (k, rest) \<Longrightarrow> k \<notin> fst ` set fs"
  by (auto simp: jsonKey_def map_of_eq_None_iff split: list.splits prod.splits jtok.splits if_splits)

lemma json_wf:
  "parseJSONValue n data ts = Inr vr \<Longrightarrow> wfTree (fst vr)"
  "parseJSONObject m data start fs ts = Inr vr' \<Longrightarrow> distinct (map fst fs) \<and> wfFields fs \<Longrightarrow> wfTree (fst vr')"
  "parseJSONArray l data es ts = Inr er \<Longrightarrow> wfElems es \<Longrightarrow> wfElems (fst er)"
proof (induction n data ts and m data start fs ts and l data es ts arbitrary: vr and vr' and er
    rule: parseJSONValue_parseJSONObject_parseJSONArray.induct)
  case (3 n data off t rest)
  then show ?case by (auto simp: bind_res_Inr_iff dest: jsonScalar_wf split: if_splits)
next
  case (5 n data start flds ts)
  show ?case
  proof (cases "decMore ts")
    case True
    then obtain kr v where k: "jsonKey ts flds = Inr kr" and v: "parseJSONValue n data (snd kr) = Inr v"
      and r: "parseJSONObject n data start (flds @ [(fst kr, fst v)]) (snd v) = Inr vr'"
      using "5.prems"(1) by (auto simp: bind_res_Inr_iff)
    have "fst kr \<notin> fst ` set flds" using k jsonKey_Inr by (cases kr) auto
    moreover have "wfTree (fst v)" using "5.IH"(1) [OF True] v by blast
    ultimately have "distinct (map fst (flds @ [(fst kr, fst v)])) \<and> wfFields (flds @ [(fst kr, fst v)])"
      using "5.prems"(2) by (auto simp: wfFields_snoc)
    then show ?thesis using "5.IH"(2) [OF True] r by blast
  next
    case False
    then show ?thesis using "5.prems" by (auto simp: jsonClose_def split: list.splits)
  qed
next
  case (7 n data es ts)
  show ?case
  proof (cases "decMore ts")
    case True
    then obtain v where v: "parseJSONValue n data ts = Inr v"
      and r: "parseJSONArray n data (es @ [fst v]) (snd v) = Inr er"
      using "7.prems"(1) by (auto simp: bind_res_Inr_iff)
    have "wfTree (fst v)" using "7.IH"(1) [OF True] v by blast
    then show ?thesis using "7.IH"(2) [OF True] r "7.prems"(2) by (simp add: wfElems_snoc)
  next
    case False
    then show ?thesis using "7.prems" by (auto simp: jsonClose_def split: list.splits)
  qed
qed auto

interpretation json: tree_producer "parseJSON tokens" for tokens
proof
  fix data v assume p: "parseJSON tokens data = Inr v"
  then show "isMapping v"
    by (auto simp: parseJSON_def Let_def bind_res_Inr_iff split: if_splits list.splits jtok.splits)
  obtain rest where "parseJSONValue (2 * length (tokens data) + 2) data (tokens data) = Inr (v, rest)"
    using p by (auto simp: parseJSON_def Let_def bind_res_Inr_iff split: if_splits list.splits jtok.splits)
  then show "wfTree v" using json_wf(1) by fastforce
qed

subsection \<open>The HCL producer\<close>

lemma hclScalar_wf: "hclScalar v r data = Inr w \<Longrightarrow> wfTree w"
  using NUL_tags by (auto simp: hclScalar_def Let_def taggedKeyI split: cty.splits if_splits)

lemma hcl_wf:
  "hclItems data items fs = Inr gs \<Longrightarrow> distinct (map fst fs) \<and> wfFields fs \<Longrightarrow> distinct (map fst gs) \<and> wfFields gs"
  "hclExprToNode e data' = Inr v \<Longrightarrow> wfTree v"
proof (induction data items fs and e data' arbitrary: gs and v rule: hclItems_hclExprToNode.induct)
  case (2 data k e items flds)
  then obtain key where key: "hclKeyName k = Some key" by (auto split: option.splits)
  then have n: "map_of flds key = None" using "2.prems"(1) by (simp split: if_split_asm)
  with key "2.prems"(1) obtain vn where v: "hclExprToNode e data = Inr vn"
    and r: "hclItems data items (flds @ [(key, vn)]) = Inr gs"
    by (auto simp: bind_res_Inr_iff)
  have "wfTree vn" using "2.IH"(1) [OF key] n v by simp
  moreover have "key \<notin> fst ` set flds" using n by (simp add: map_of_eq_None_iff)
  ultimately have "distinct (map fst (flds @ [(key, vn)])) \<and> wfFields (flds @ [(key, vn)])"
    using "2.prems"(2) by (auto simp: wfFields_snoc)
  then show ?case using "2.IH"(2) [OF key] r n by simp
next
  case (6 isString w r data)
  then show ?case by (auto simp: hclScalar_wf split: if_splits option.splits)
next
  case (7 negate e r data)
  then show ?case using NUL_tags by (auto simp: Let_def taggedKeyI split: if_splits)
qed (auto simp: bind_res_Inr_iff hclScalar_wf)

lemma hclAttributes_wf: "hclAttributes data as = Inr fs \<Longrightarrow> distinct (map fst fs) \<and> wfFields fs"
proof (induction as arbitrary: fs)
  case (Cons a as)
  obtain name e where a: "a = (name, e)" by fastforce
  with Cons.prems obtain v gs where v: "hclExprToNode e data = Inr v" and gs: "hclAttributes data as = Inr gs"
    and fs: "fs = (name, v) # filter (\<lambda>x. fst x \<noteq> name) gs" by (auto simp: bind_res_Inr_iff)
  have "distinct (map fst gs) \<and> wfFields gs" using Cons.IH gs by blast
  then have "distinct (map fst (filter (\<lambda>x. fst x \<noteq> name) gs)) \<and> wfFields (filter (\<lambda>x. fst x \<noteq> name) gs)"
    by (auto simp: wfFields_iff distinct_map_filter)
  moreover have "wfTree v" using hcl_wf(2) v by blast
  ultimately show ?case by (auto simp: fs)
qed simp

interpretation hcl: tree_producer "parseHCL parse" for parse
proof
  fix data v assume p: "parseHCL parse data = Inr v"
  then show "isMapping v" by (auto simp: parseHCL_def bind_res_Inr_iff split: hclFile.splits if_splits)
  show "wfTree v"
    using p hclAttributes_wf by (fastforce simp: parseHCL_def bind_res_Inr_iff split: hclFile.splits if_splits)
qed

text \<open>The producer the file name selects, under the limits.\<close>

interpretation selected: tree_producer "baseProducerFor ps fl" for ps fl
proof
  fix data v assume p: "baseProducerFor ps fl data = Inr v"
  then show "isMapping v" "wfTree v"
    using yaml.mapping_root yaml.well_formed json.mapping_root json.well_formed hcl.mapping_root hcl.well_formed
    by (auto simp: baseProducerFor_def split: if_splits)
qed

lemma producerFor_facts:
  assumes "producerFor ps file data = Inr v"
  shows "isMapping v" "wfTree v" "length data \<le> maxInputBytes" "checkNodeCeilings v = None"
  using assms selected.limited_mapping selected.limited_wf selected.limited_small
  unfolding producerFor_def by blast+

subsection \<open>Fuel of the JSON reader\<close>

lemma json_fuel:
  "2 * length ts + 1 \<le> n \<Longrightarrow> parseJSONValue n data ts \<noteq> Inl JsonOutOfFuel
     \<and> (\<forall>vr. parseJSONValue n data ts = Inr vr \<longrightarrow> length (snd vr) < length ts)"
  "2 * length us + 1 \<le> m \<Longrightarrow> parseJSONObject m data' start fs us \<noteq> Inl JsonOutOfFuel
     \<and> (\<forall>vr. parseJSONObject m data' start fs us = Inr vr \<longrightarrow> length (snd vr) < length us)"
  "2 * length ws + 2 \<le> l \<Longrightarrow> parseJSONArray l data'' es ws \<noteq> Inl JsonOutOfFuel
     \<and> (\<forall>vr. parseJSONArray l data'' es ws = Inr vr \<longrightarrow> length (snd vr) < length ws)"
proof (induction n data ts and m data' start fs us and l data'' es ws
    rule: parseJSONValue_parseJSONObject_parseJSONArray.induct)
  case (3 n data off t rest)
  have s: "jsonScalar data off t \<noteq> Inl JsonOutOfFuel"
    by (auto simp: jsonScalar_def Let_def split: jtok.splits)
  show ?case
  proof (cases "t = JOpenObj")
    case True
    with 3 show ?thesis by fastforce
  next
    case no: False
    show ?thesis
    proof (cases "t = JOpenArr")
      case True
      with no 3 show ?thesis by (cases "parseJSONArray n data [] rest") fastforce+
    next
      case False
      with no s show ?thesis by (cases "jsonScalar data off t") auto
    qed
  qed
next
  case (5 n data start flds ts)
  show ?case
  proof (cases "decMore ts")
    case True
    show ?thesis
    proof (cases "jsonKey ts flds")
      case (Inl e)
      then have "e \<noteq> JsonOutOfFuel"
        by (auto simp: jsonKey_def split: list.splits prod.splits jtok.splits if_splits)
      with Inl True show ?thesis by simp
    next
      case (Inr kr)
      then have len: "length (snd kr) < length ts"
        by (auto simp: jsonKey_def split: list.splits prod.splits jtok.splits if_splits)
      have v: "parseJSONValue n data (snd kr) \<noteq> Inl JsonOutOfFuel"
        "\<And>vr. parseJSONValue n data (snd kr) = Inr vr \<Longrightarrow> length (snd vr) < length (snd kr)"
        using "5.IH"(1) [OF True, of kr] "5.prems" len by auto
      show ?thesis
      proof (cases "parseJSONValue n data (snd kr)")
        case (Inl e)
        with v(1) Inr True show ?thesis by simp
      next
        case r: (Inr vr)
        from v(2) [OF this] len "5.IH"(2) [OF True, of vr kr] "5.prems" Inr True r show ?thesis by fastforce
      qed
    qed
  next
    case False
    then show ?thesis by (auto simp: jsonClose_def split: list.splits)
  qed
next
  case (7 n data es ts)
  show ?case
  proof (cases "decMore ts")
    case True
    have "ts \<noteq> []" using True by auto
    have v: "parseJSONValue n data ts \<noteq> Inl JsonOutOfFuel"
      "\<And>vr. parseJSONValue n data ts = Inr vr \<Longrightarrow> length (snd vr) < length ts"
      using "7.IH"(1) [OF True] "7.prems" by auto
    show ?thesis
    proof (cases "parseJSONValue n data ts")
      case (Inl e)
      with v(1) True show ?thesis by simp
    next
      case r: (Inr vr)
      from v(2) [OF this] "7.IH"(2) [OF True, of vr] "7.prems" True r show ?thesis by fastforce
    qed
  next
    case False
    then show ?thesis by (auto simp: jsonClose_def split: list.splits)
  qed
qed auto

subsection \<open>What the ceilings measure\<close>

primrec vcount :: "vnode \<Rightarrow> nat" where
  "vcount (VScalar r k p) = 1"
| "vcount (VMapping fs p) = Suc (sum_list (map snd (map (map_prod id vcount) fs)))"
| "vcount (VSequence es b p) = Suc (sum_list (map vcount es))"

primrec vdepth :: "vnode \<Rightarrow> nat" where
  "vdepth (VScalar r k p) = 1"
| "vdepth (VMapping fs p) = Suc (Max (insert 0 (set (map snd (map (map_prod id vdepth) fs)))))"
| "vdepth (VSequence es b p) = Suc (Max (insert 0 (set (map vdepth es))))"

lemma fields_count: "sum_list (map snd (map (map_prod id vcount) fs)) = sum_list (map (vcount \<circ> snd) fs)"
  by (induction fs) auto

lemma sorted_count: "sum_list (map vcount (map snd (sort_key fst fs))) = sum_list (map (vcount \<circ> snd) (fs :: vnode assoc))"
proof -
  have "mset (map vcount (map snd (sort_key fst fs))) = mset (map (vcount \<circ> snd) fs)" by (simp add: image_mset.compositionality)
  then show ?thesis by (metis sum_mset_sum_list)
qed

lemma plus_Max_le: "finite S \<Longrightarrow> (d::nat) + Max (insert 0 S) \<le> m \<longleftrightarrow> d \<le> m \<and> (\<forall>x \<in> S. d + x \<le> m)"
proof -
  assume f: "finite S"
  show ?thesis
  proof
    assume a: "d + Max (insert 0 S) \<le> m"
    have "x \<le> Max (insert 0 S)" if "x \<in> S" for x using f that by (intro Max_ge) auto
    with a show "d \<le> m \<and> (\<forall>x \<in> S. d + x \<le> m)" by fastforce
  next
    assume a: "d \<le> m \<and> (\<forall>x \<in> S. d + x \<le> m)"
    have "Max (insert 0 S) \<in> insert 0 S" using f by (intro Max_in) auto
    with a show "d + Max (insert 0 S) \<le> m" by auto
  qed
qed

lemma ceil_iff:
  "ceilWalk n d c = Inr c' \<longleftrightarrow> d + vdepth n \<le> maxDepth + 1 \<and> c + vcount n \<le> maxNodeCount \<and> c' = c + vcount n"
  "b \<le> maxNodeCount \<Longrightarrow> ceilList vs e b = Inr b' \<longleftrightarrow>
     (\<forall>v \<in> set vs. e + vdepth v \<le> maxDepth + 1) \<and> b + sum_list (map vcount vs) \<le> maxNodeCount
     \<and> b' = b + sum_list (map vcount vs)"
proof (induction n d c and vs e b arbitrary: c' and b' rule: ceilWalk_ceilList.induct)
  case (1 n depth cnt)
  show ?case
  proof (cases "depth > maxDepth \<or> cnt + 1 > maxNodeCount")
    case True
    then show ?thesis by (cases n) auto
  next
    case False
    then show ?thesis
    proof (cases n)
      case (VMapping fs p)
      define ws where "ws = map snd (sort_key fst fs)"
      have n: "vdepth n = Suc (Max (insert 0 (vdepth ` set ws)))" "vcount n = Suc (sum_list (map vcount ws))"
        using VMapping sorted_count [of fs]
        by (simp_all add: ws_def fields_count image_comp comp_def del: map_map)
      have "ceilWalk n depth cnt = ceilList ws (depth + 1) (cnt + 1)"
        using False VMapping by (simp add: ws_def)
      moreover have "ceilList ws (depth + 1) (cnt + 1) = Inr c' \<longleftrightarrow>
          (\<forall>v \<in> set ws. depth + 1 + vdepth v \<le> maxDepth + 1)
          \<and> cnt + 1 + sum_list (map vcount ws) \<le> maxNodeCount \<and> c' = cnt + 1 + sum_list (map vcount ws)"
        unfolding ws_def by (rule "1.IH"(1)) (use False VMapping in auto)
      ultimately show ?thesis
        using False by (auto simp: n plus_Max_le)
    next
      case (VSequence es b p)
      have n: "vdepth n = Suc (Max (insert 0 (vdepth ` set es)))" "vcount n = Suc (sum_list (map vcount es))"
        using VSequence by simp_all
      have "ceilWalk n depth cnt = ceilList es (depth + 1) (cnt + 1)"
        using False VSequence by simp
      moreover have "ceilList es (depth + 1) (cnt + 1) = Inr c' \<longleftrightarrow>
          (\<forall>v \<in> set es. depth + 1 + vdepth v \<le> maxDepth + 1)
          \<and> cnt + 1 + sum_list (map vcount es) \<le> maxNodeCount \<and> c' = cnt + 1 + sum_list (map vcount es)"
        by (rule "1.IH"(2)) (use False VSequence in auto)
      ultimately show ?thesis
        using False by (auto simp: n plus_Max_le)
    qed auto
  qed
next
  case (3 v vs depth cnt)
  have "ceilList (v # vs) depth cnt = Inr b' \<longleftrightarrow>
      (\<exists>a. ceilWalk v depth cnt = Inr a \<and> ceilList vs depth a = Inr b')"
    by (simp add: bind_res_Inr_iff)
  also have "\<dots> \<longleftrightarrow> depth + vdepth v \<le> maxDepth + 1 \<and> cnt + vcount v \<le> maxNodeCount
      \<and> ceilList vs depth (cnt + vcount v) = Inr b'"
    using "3.IH"(1) by auto
  also have "\<dots> \<longleftrightarrow> (\<forall>w \<in> set (v # vs). depth + vdepth w \<le> maxDepth + 1)
      \<and> cnt + sum_list (map vcount (v # vs)) \<le> maxNodeCount \<and> b' = cnt + sum_list (map vcount (v # vs))"
    using "3.IH"(2) by auto
  finally show ?case .
qed auto

lemma checkNodeCeilings_iff:
  "checkNodeCeilings v = None \<longleftrightarrow> vdepth v \<le> maxDepth \<and> vcount v \<le> maxNodeCount"
proof -
  have "checkNodeCeilings v = None \<longleftrightarrow> (\<exists>c. ceilWalk v 1 0 = Inr c)"
    by (auto simp: checkNodeCeilings_def split: sum.splits)
  then show ?thesis by (simp add: ceil_iff del: ceilWalk.simps)
qed

end
