(* ===== verification/ChangeProps.thy ===== *)
theory ChangeProps
  imports ProducerFacts
begin

text \<open>
  The properties of \<open>internal/change\<close> and \<open>internal/evaldecode\<close>: the differ neither misses nor
  invents a change, pointers name what they say, limits are exactly the stated ceilings, the
  rendered values decode to what the file meant, and what the rename fold may and does hide.
\<close>

subsection \<open>Example data\<close>

text \<open>A parser for two one-key YAML documents, \<open>partitions: 3\<close> and \<open>partitions: 12\<close>.\<close>

definition demo_scalar :: "string \<Rightarrow> string \<Rightarrow> yamlNode" where
  "demo_scalar tag v = YamlNode YScalar tag v [] [] 1 1"

definition demo_doc :: "string \<Rightarrow> yamlNode" where
  "demo_doc v = YamlNode YDocument [] [] [] [YamlNode YMapping ''!!map'' [] []
     [demo_scalar tagStr ''partitions'', demo_scalar tagInt v] 1 1] 1 1"

definition demo_parsers :: parsers where
  "demo_parsers = \<lparr>ps_yaml = (\<lambda>d. if d = ''old'' then (YDoc (demo_doc ''3''), YEof)
       else if d = ''new'' then (YDoc (demo_doc ''12''), YEof) else (YErr ''malformed'', YEof)),
     ps_json = (\<lambda>_. []), ps_hcl = (\<lambda>_. HclForeign)\<rparr>"

lemma demo_ceilings: "checkNodeCeilings (VMapping [(k, VScalar r c p)] q) = None"
  by (simp add: checkNodeCeilings_iff maxDepth_def maxNodeCount_def)

lemma demo_produces:
  "producerFor demo_parsers ''t.yaml'' ''old'' = Inr (VMapping [(''partitions'',
     VScalar ''3'' (cmpKeyOf tagInt ''3'') \<lparr>pos_line = 1, pos_column = 1\<rparr>)] \<lparr>pos_line = 1, pos_column = 1\<rparr>)"
  "producerFor demo_parsers ''t.yaml'' ''new'' = Inr (VMapping [(''partitions'',
     VScalar ''12'' (cmpKeyOf tagInt ''12'') \<lparr>pos_line = 1, pos_column = 1\<rparr>)] \<lparr>pos_line = 1, pos_column = 1\<rparr>)"
  by (simp_all add: producerFor_def baseProducerFor_def withLimits_def demo_parsers_def parseYAML_def
      parseSingleMappingDoc_def yamlMapping_def demo_doc_def demo_scalar_def posOf_def render_def compareKey_def
      pointerOrRoot_def opener_def closer_def maxInputBytes_def demo_ceilings suffix_def)

subsection \<open>The differ\<close>



text \<open>
  An empty diff means an unchanged file: the two trees have scalars at the same paths, with
  the same rendered values.
\<close>

theorem diff_empty_unchanged:
  assumes "diff ps file base head = Inr []"
  shows "\<exists>b h. producerFor ps file base = Inr b \<and> producerFor ps file head = Inr h
     \<and> (\<forall>ks. map_option fst (leafAt b ks) = map_option fst (leafAt h ks))"
proof -
  obtain b h ds where b: "producerFor ps file base = Inr b" and h: "producerFor ps file head = Inr h"
    and w: "walkNode file [] b h = Inr ds" and cs: "[] = sortChanges ds"
    using assms by (auto simp: diff_def parseBoth_def bind_res_Inr_iff map_err_def split: sum.splits)
  have "ds = []" using cs by (metis sortChanges_def set_sort set_empty)
  have none: "delta file (pointerOf ks) (leafAt b ks) (leafAt h ks) = None" for ks
  proof (cases "delta file (pointerOf ks) (leafAt b ks) (leafAt h ks)")
    case (Some c)
    then have "c \<in> set ds" using walk_iff(1) [OF w, of c] by auto
    with \<open>ds = []\<close> show ?thesis by simp
  qed
  have "map_option fst (leafAt b ks) = map_option fst (leafAt h ks)" for ks
  proof (cases "leafAt b ks"; cases "leafAt h ks")
    fix s t assume st: "leafAt b ks = Some s" "leafAt h ks = Some t"
    obtain r k p where s: "s = (r, k, p)" by (metis prod_cases3)
    obtain q l u where t: "t = (q, l, u)" by (metis prod_cases3)
    have "k = l" using none [of ks] st s t by (auto simp: delta_def split: if_splits)
    moreover have "taggedKey r k" "taggedKey q l"
      using leafAt_tagged producerFor_facts(2) b h st s t by blast+
    ultimately have "r = q" using taggedKey_render by blast
    with st s t show ?thesis by simp
  qed (use none [of ks] in \<open>auto simp: delta_def\<close>)
  with b h show ?thesis by blast
qed

theorem diff_empty_unchanged_witness:
  "\<exists>b. diff demo_parsers ''t.yaml'' ''old'' ''old'' = Inr [] \<and> producerFor demo_parsers ''t.yaml'' ''old'' = Inr b"
proof -
  have d: "diff demo_parsers ''t.yaml'' ''old'' ''old'' = Inr []"
    by (simp add: diff_def parseBoth_def map_err_def demo_produces unionKeys_def walkScalars_def sortChanges_def Let_def)
  from diff_empty_unchanged [OF this] d show ?thesis by blast
qed

subsection \<open>Pointers\<close>

lemma resolveTokens_append:
  "resolveTokens v (xs @ ys) = (case resolveTokens v xs of None \<Rightarrow> None | Some w \<Rightarrow> resolveTokens w ys)"
  by (induction xs arbitrary: v) (auto split: vnode.splits option.splits)

lemma leafAt_resolveTokens:
  "leafAt v ks = Some s \<longleftrightarrow>
     (\<exists>r k p. resolveTokens v (map escapePointer ks) = Some (VScalar r k p) \<and> s = (r, k, p))"
  by (induction v ks rule: leafAt.induct) (auto split: option.splits elim: resolveTokens.elims)

lemma resolvePointer_pointerOf:
  assumes "ks \<noteq> [[]]"
  shows "resolvePointer v (pointerOf ks) = resolveTokens v (map escapePointer ks)"
proof (cases ks)
  case Nil
  then show ?thesis by (simp add: resolvePointer_def)
next
  case (Cons k js)
  have ne: "pointerOf ks \<noteq> ''/''"
  proof
    assume "pointerOf ks = ''/''"
    then have "pointerOf ks = pointerOf [[]]" by simp
    with assms show False by (simp only: pointerOf_inj)
  qed
  have "splitOn (CHR ''/'') (trimPrefix (pointerOf ks) ''/'') = map escapePointer ks"
  proof -
    have "splitOn (CHR ''/'') (pointerOf ks) = [] # map escapePointer ks" by (rule splitOn_pointerOf)
    moreover have "pointerOf ks = CHR ''/'' # drop 1 (pointerOf ks)" using Cons by simp
    ultimately have "splitOn (CHR ''/'') (drop 1 (pointerOf ks)) = map escapePointer ks"
      by (metis list.inject splitOn.simps(2))
    then show ?thesis using Cons by (simp add: trimPrefix_def)
  qed
  moreover have "pointerOf ks \<noteq> []" using Cons by simp
  ultimately show ?thesis using ne by (simp only: resolvePointer_def simp_thms if_False)
qed

text \<open>
  the pointer the differ emits for a path of keys resolves, in the tree it was emitted for,
  to the scalar at that path, whatever slashes or tildes the keys contain. The single path the
  resolver does not support is the one empty key at the root, whose pointer it reads as the root.
\<close>

theorem resolvePointer_leaf:
  assumes "ks \<noteq> [[]]"
  shows "leafAt v ks = Some s \<longleftrightarrow>
     (\<exists>r k p. resolvePointer v (pointerOf ks) = Some (VScalar r k p) \<and> s = (r, k, p))"
  using resolvePointer_pointerOf [OF assms] leafAt_resolveTokens by simp

theorem resolvePointer_leaf_witness:
  "resolvePointer (VMapping [(''a/b~c'', VScalar ''1'' ''n'' \<lparr>pos_line = 1, pos_column = 1\<rparr>)]
     \<lparr>pos_line = 1, pos_column = 1\<rparr>) ''/a~1b~0c'' = Some (VScalar ''1'' ''n'' \<lparr>pos_line = 1, pos_column = 1\<rparr>)"
proof -
  let ?p = "\<lparr>pos_line = 1, pos_column = 1\<rparr>"
  have "pointerOf [''a/b~c''] = ''/a~1b~0c''" by (simp add: escapePointer_def)
  then show ?thesis
    using resolvePointer_leaf [of "[''a/b~c'']" "VMapping [(''a/b~c'', VScalar ''1'' ''n'' ?p)] ?p" "(''1'', ''n'', ?p)"]
    by simp
qed

text \<open>The exception: the pointer of the empty key is the one the resolver reads as the root.\<close>

lemma resolvePointer_empty_key:
  "pointerOf [[]] = ''/''" "resolvePointer v (pointerOf [[]]) = Some v"
  by (simp_all add: resolvePointer_def)

subsection \<open>Limits\<close>

definition nestStep :: "char \<Rightarrow> nat \<Rightarrow> nat" where
  "nestStep b d = (if opener b then d + 1 else if closer b then d - 1 else d)"

definition nesting :: "string \<Rightarrow> nat \<Rightarrow> nat" where
  "nesting data d = fold nestStep data d"

lemma preParse_iff:
  "d \<le> maxPreParseNesting \<Longrightarrow>
     preParseNesting d data = None \<longleftrightarrow> (\<forall>n. nesting (take n data) d \<le> maxPreParseNesting)"
proof (induction data arbitrary: d)
  case (Cons b bs)
  have all: "(\<forall>n. P (take n (b # bs))) \<longleftrightarrow> P [] \<and> (\<forall>n. P (b # take n bs))" for P
    by (metis list.inject not0_implies_Suc take_0 take_Suc_Cons)
  have step: "nesting (b # xs) d = nesting xs (nestStep b d)" for xs by (simp add: nesting_def)
  have nil: "nesting [] d = d" for d by (simp add: nesting_def)
  show ?case
  proof (cases "nestStep b d \<le> maxPreParseNesting")
    case True
    then show ?thesis using Cons.IH [OF True] Cons.prems
      by (subst all) (auto simp: step nil nestStep_def split: if_splits)
  next
    case False
    then have "opener b" "d + 1 > maxPreParseNesting" using Cons.prems by (auto simp: nestStep_def split: if_splits)
    moreover have "\<exists>n. \<not> nesting (take n (b # bs)) d \<le> maxPreParseNesting"
      by (rule exI [of _ 1]) (use False in \<open>simp add: step nil\<close>)
    ultimately show ?thesis by simp
  qed
qed (simp add: nesting_def)

text \<open>
  Wrapping a producer in the limits refuses exactly the inputs above a ceiling and leaves the
  rest alone: at most a mebibyte, never more than a thousand brackets open, a tree of depth at
  most 64 with at most 20000 nodes. The size and bracket checks do not depend on the parser.
\<close>

theorem withLimits_iff:
  "withLimits p data = Inr v \<longleftrightarrow>
     length data \<le> maxInputBytes \<and> (\<forall>n. nesting (take n data) 0 \<le> maxPreParseNesting)
     \<and> p data = Inr v \<and> vdepth v \<le> maxDepth \<and> vcount v \<le> maxNodeCount"
  using preParse_iff [of 0 data] checkNodeCeilings_iff
  by (auto simp: withLimits_def bind_res_Inr_iff split: option.splits)

text \<open>
  C13: the JSON reader terminates with an answer about its input: the fuel of two units per token
  is never exhausted.
\<close>

theorem parseJSON_terminates: "parseJSON tokens data \<noteq> Inl JsonOutOfFuel"
proof -
  have "parseJSONValue (2 * length (tokens data) + 2) data (tokens data) \<noteq> Inl JsonOutOfFuel"
    using json_fuel(1) [of "tokens data" "2 * length (tokens data) + 2" data] by simp
  then show ?thesis
    by (auto simp: parseJSON_def Let_def bind_res_def split: sum.splits if_splits list.splits jtok.splits)
qed

subsection \<open>Decoding what was rendered\<close>

text \<open>
  decoding the rendered text of a YAML scalar gives back what the scalar means by its
  resolved tag: null, the boolean, the string with exactly its bytes, or the number's literal.
  The resolver's documented spellings and valid UTF-8 text are assumed.
\<close>

theorem decode_render:
  assumes "yamlResolved n" and "render n = Some r"
  shows "yamlMeaning n = Some (DecodeCanonical r)"
  using assms by (rule Decode_render)

theorem decode_render_witness:
  "DecodeCanonical ''12'' = GNum ''12'' \<and> DecodeCanonical (jsonQuote ''12'') = GStr ''12''"
  using decode_render [of "demo_scalar tagInt ''12''" "''12''"] decode_render [of "demo_scalar tagStr ''12''" "jsonQuote ''12''"]
  by (simp add: demo_scalar_def yamlResolved_def render_def yamlMeaning_def validUtf8.simps(2))

subsection \<open>Collection mode\<close>

definition identityOf :: "string \<Rightarrow> vnode \<Rightarrow> string" where
  "identityOf ptr el = entryKeyLabel (v_render (the (resolvePointer el ptr)))"

lemma indexByIdentity_Inr:
  "indexByIdentity ptr els out = Inr m \<Longrightarrow> distinct (map fst out) \<Longrightarrow>
     m = out @ map (\<lambda>e. (identityOf ptr e, e)) els \<and> distinct (map fst m)"
proof (induction ptr els out rule: indexByIdentity.induct)
  case (2 ptr el els out)
  then obtain v where v: "isMapping el" "resolvePointer el ptr = Some v" "isScalar v"
    by (auto split: if_splits option.splits)
  let ?i = "entryKeyLabel (v_render v)"
  have n: "map_of out ?i = None" and r: "indexByIdentity ptr els (out @ [(?i, el)]) = Inr m"
    using "2.prems"(1) v by (auto simp: Let_def split: if_split_asm)
  have d: "distinct (map fst (out @ [(?i, el)]))"
    using "2.prems"(2) n by (auto simp: map_of_eq_None_iff)
  have i: "identityOf ptr el = ?i" using v(2) by (simp add: identityOf_def)
  have "m = (out @ [(?i, el)]) @ map (\<lambda>e. (identityOf ptr e, e)) els \<and> distinct (map fst m)"
    by (rule "2.IH" [OF _ v(2) _ refl _ r d]) (use v n in simp_all)
  then have "m = out @ map (\<lambda>e. (identityOf ptr e, e)) (el # els)" "distinct (map fst m)"
    unfolding list.map i append_assoc append.simps by blast+
  then show ?case by blast
qed auto

lemma walk_self: "walkNode f p v v = Inr cs \<Longrightarrow> cs = []"
proof -
  assume w: "walkNode f p v v = Inr cs"
  have "delta f q x x = None" for q x by (auto simp: delta_def split: option.split)
  then have "c \<notin> set cs" for c using walk_iff(1) [OF w, of c] by simp
  then show ?thesis by (cases cs) auto
qed

lemma entriesLoop_same:
  "entriesLoop f root label be he ks = Inr cs \<Longrightarrow> map_of be = map_of he \<Longrightarrow> cs = []"
proof (induction ks arbitrary: cs)
  case (Cons k ks)
  then obtain as bs where as: "diffOneEntry f (root @ ''/'' @ escapePointer k) (label @ '':'' @ k) (map_of he k) (map_of he k) = Inr as"
    and bs: "entriesLoop f root label be he ks = Inr bs" and cs: "cs = as @ bs"
    by (auto simp: bind_res_Inr_iff)
  have "as = []" using as walk_self by (cases "map_of he k") (auto simp: diffOneEntry_def bind_res_Inr_iff)
  with Cons.IH [OF bs Cons.prems(2)] cs show ?case by simp
qed simp

text \<open>
  in list mode entries are matched by identity, never by index: reordering the elements of
  the collection yields no change at all.
\<close>

theorem list_reorder_no_change:
  assumes "resolvePointer b (ec_root cfg) = Some (VSequence es True p)"
    and "resolvePointer h (ec_root cfg) = Some (VSequence fs True q)"
    and "mset fs = mset es" and "diffListEntries f cfg label b h = Inr cs"
  shows "cs = []"
proof -
  obtain be he where be: "indexByIdentity (ec_identity cfg) es [] = Inr be"
    and he: "indexByIdentity (ec_identity cfg) fs [] = Inr he"
    and loop: "entriesLoop f (ec_root cfg) label be he (unionKeys be he) = Inr cs"
    using assms(1,2,4) by (auto simp: diffListEntries_def entriesRoots_def bind_res_Inr_iff split: if_splits)
  have b': "be = map (\<lambda>e. (identityOf (ec_identity cfg) e, e)) es" "distinct (map fst be)"
    using indexByIdentity_Inr [OF be] by auto
  have h': "he = map (\<lambda>e. (identityOf (ec_identity cfg) e, e)) fs" "distinct (map fst he)"
    using indexByIdentity_Inr [OF he] by auto
  have "set be = set he" using mset_eq_set [OF assms(3)] b'(1) h'(1) by simp
  then have "map_of be = map_of he" using b'(2) h'(2) by (simp add: map_of_inject_set)
  with loop show ?thesis by (rule entriesLoop_same)
qed

definition demo_entry :: "string \<Rightarrow> vnode" where
  "demo_entry name = VMapping [(''id'', VScalar (jsonQuote name) (cmpKeyOf ''s'' (jsonQuote name))
     \<lparr>pos_line = 1, pos_column = 1\<rparr>)] \<lparr>pos_line = 1, pos_column = 1\<rparr>"

theorem list_reorder_no_change_witness:
  "diffListEntries ''t.json'' \<lparr>ec_mode = ModeList, ec_root = [], ec_identity = ''/id'', ec_label = []\<rparr> ''entry''
     (VSequence [demo_entry ''a'', demo_entry ''b''] True \<lparr>pos_line = 1, pos_column = 1\<rparr>)
     (VSequence [demo_entry ''b'', demo_entry ''a''] True \<lparr>pos_line = 1, pos_column = 1\<rparr>) = Inr []"
proof -
  let ?p = "\<lparr>pos_line = 1, pos_column = 1\<rparr>"
  let ?cfg = "\<lparr>ec_mode = ModeList, ec_root = [], ec_identity = ''/id'', ec_label = []\<rparr>"
  let ?b = "VSequence [demo_entry ''a'', demo_entry ''b''] True ?p"
  let ?h = "VSequence [demo_entry ''b'', demo_entry ''a''] True ?p"
  have q: "jsonUnquote (jsonQuote ''a'') = Some ''a''" "jsonUnquote (jsonQuote ''b'') = Some ''b''"
    by (rule jsonUnquote_jsonQuote; simp add: validUtf8.simps(2))+
  have l: "entryKeyLabel (jsonQuote ''a'') = ''a''" "entryKeyLabel (jsonQuote ''b'') = ''b''"
    using q by (simp_all add: entryKeyLabel_def) (simp_all add: jsonQuote_def)
  have i: "resolvePointer (demo_entry n) ''/id'' = Some (VScalar (jsonQuote n) (cmpKeyOf ''s'' (jsonQuote n)) ?p)" for n
    by (simp add: resolvePointer_def trimPrefix_def demo_entry_def unescapePointer_def)
  have m: "isMapping (demo_entry n)" for n by (simp add: demo_entry_def)
  have w: "walkNode f ptr (demo_entry n) (demo_entry n) = Inr []" for f ptr n
    by (simp add: demo_entry_def unionKeys_def walkScalars_def Let_def)
  have "\<exists>cs. diffListEntries ''t.json'' ?cfg ''entry'' ?b ?h = Inr cs"
    by (simp add: diffListEntries_def entriesRoots_def resolvePointer_def [of _ "[]"] i m l unionKeys_def
        diffOneEntry_def w Let_def)
  then obtain cs where cs: "diffListEntries ''t.json'' ?cfg ''entry'' ?b ?h = Inr cs" ..
  have "cs = []"
    by (rule list_reorder_no_change [OF _ _ _ cs, of "[demo_entry ''a'', demo_entry ''b'']" ?p
          "[demo_entry ''b'', demo_entry ''a'']" ?p]) (simp_all add: resolvePointer_def)
  with cs show ?thesis by simp
qed

subsection \<open>The rename fold\<close>

text \<open>A move: one file, one value, the only delete and the only add with it.\<close>

definition moved :: "change list \<Rightarrow> change \<Rightarrow> change \<Rightarrow> bool" where
  "moved cs d a \<longleftrightarrow> d \<in> set cs \<and> a \<in> set cs \<and> c_kind d = KindDelete \<and> c_kind a = KindAdd
     \<and> c_file a = c_file d \<and> c_new a = c_old d \<and> c_path a \<noteq> c_path d
     \<and> (\<forall>e \<in> set cs. c_kind e = KindDelete \<and> c_file e = c_file d \<and> c_old e = c_old d \<longrightarrow> e = d)
     \<and> (\<forall>e \<in> set cs. c_kind e = KindAdd \<and> c_file e = c_file d \<and> c_new e = c_old d \<longrightarrow> e = a)"

lemma foldPairs_moved:
  assumes nul: "\<forall>c \<in> set cs. NUL \<notin> set (c_file c)" and p: "(d, a) \<in> set (foldPairs cs)"
  shows "moved cs (cs ! d) (cs ! a)"
proof -
  obtain k where k: "foldPair cs k = Some (d, a)" using p by (auto simp: foldPairs_iff)
  note f = foldPair_Some [OF k]
  have nulfree: "NUL \<notin> set (c_file (cs ! d))" "NUL \<notin> set (c_file (cs ! a))" using nul f(1,2) by auto
  have eq: "c_file (cs ! a) = c_file (cs ! d) \<and> c_new (cs ! a) = c_old (cs ! d)"
    using f(5,6) foldKey_inj [OF nulfree(2) nulfree(1)] by metis
  have dd: "delByVal cs k = [d]" "addByVal cs k = [a]"
    using k by (auto simp: foldPair_def split: list.splits if_splits)
  have "e = cs ! d" if e: "e \<in> set cs" "c_kind e = KindDelete" "c_file e = c_file (cs ! d)" "c_old e = c_old (cs ! d)" for e
  proof -
    obtain i where i: "i < length cs" "e = cs ! i" using e(1) by (auto simp: in_set_conv_nth)
    then have "i \<in> set (delByVal cs k)" using e f(5) by (simp add: delByVal_def)
    with dd(1) i(2) show ?thesis by simp
  qed
  moreover have "e = cs ! a" if e: "e \<in> set cs" "c_kind e = KindAdd" "c_file e = c_file (cs ! d)" "c_new e = c_old (cs ! d)" for e
  proof -
    obtain i where i: "i < length cs" "e = cs ! i" using e(1) by (auto simp: in_set_conv_nth)
    then have "i \<in> set (addByVal cs k)" using e f(6) eq by (simp add: addByVal_def)
    with dd(2) i(2) show ?thesis by simp
  qed
  ultimately show ?thesis unfolding moved_def using f eq by auto
qed

text \<open>
  the fold only relabels and never drops or merges anything else. Every change of the result
  is a change of the input or a rename standing for one deleted and one added value of the same
  file whose rendered values are identical, the only delete and the only add with that value;
  and every change of the input is still there or is a side of such a rename. File names must
  not contain a NUL byte, which separates file and value in the fold's index.
\<close>

theorem FoldRenames_safe:
  assumes "\<forall>c \<in> set (cs_changes cs). NUL \<notin> set (c_file c)" and "\<not> cs_opaque cs"
  shows "(\<forall>c \<in> set (cs_changes (FoldRenames cs mode)).
        c \<in> set (cs_changes cs) \<or> (\<exists>d a. moved (cs_changes cs) d a \<and> c = renameOf d a))
     \<and> (\<forall>c \<in> set (cs_changes cs). c \<in> set (cs_changes (FoldRenames cs mode))
        \<or> (\<exists>d a. moved (cs_changes cs) d a \<and> (c = d \<or> c = a) \<and> renameOf d a \<in> set (cs_changes (FoldRenames cs mode))))"
  (is "(\<forall>c \<in> ?out. _) \<and> _")
proof -
  let ?cs = "cs_changes cs"
  have pair: "moved ?cs (?cs ! d) (?cs ! a)" if "(d, a) \<in> set (foldPairs ?cs)" for d a
    using foldPairs_moved [OF assms(1) that] .
  show ?thesis
  proof (cases "mode = RenameDetect \<and> ?cs \<noteq> [] \<and> foldPairs ?cs \<noteq> []")
    case False
    then have "?out = set ?cs" using assms(2) by (auto simp: FoldRenames_def Let_def)
    then show ?thesis by blast
  next
    case True
    then have out: "?out = set (unfolded ?cs) \<union> (\<lambda>(d, a). renameOf (?cs ! d) (?cs ! a)) ` set (foldPairs ?cs)"
      using assms(2) by (auto simp: FoldRenames_def Let_def sortChanges_def)
    have "set (unfolded ?cs) \<subseteq> set ?cs" by (auto simp: unfolded_def)
    then have "\<forall>c \<in> ?out. c \<in> set ?cs \<or> (\<exists>d a. moved ?cs d a \<and> c = renameOf d a)"
      unfolding out using pair by (fastforce split: prod.splits)
    moreover have "c \<in> ?out \<or> (\<exists>d a. moved ?cs d a \<and> (c = d \<or> c = a) \<and> renameOf d a \<in> ?out)" if c: "c \<in> set ?cs" for c
    proof -
      obtain i where i: "i < length ?cs" "c = ?cs ! i" using c by (auto simp: in_set_conv_nth)
      show ?thesis
      proof (cases "\<forall>p \<in> set (foldPairs ?cs). i \<noteq> fst p \<and> i \<noteq> snd p")
        case True
        then have "c \<in> set (unfolded ?cs)" using i by (auto simp: unfolded_def)
        then show ?thesis by (simp add: out)
      next
        case False
        then obtain d a where p: "(d, a) \<in> set (foldPairs ?cs)" "i = d \<or> i = a" by auto
        then have "renameOf (?cs ! d) (?cs ! a) \<in> ?out" by (force simp: out)
        with pair [OF p(1)] p(2) i(2) show ?thesis by blast
      qed
    qed
    ultimately show ?thesis by blast
  qed
qed

definition demo_side :: "string \<Rightarrow> string \<Rightarrow> string \<Rightarrow> change" where
  "demo_side kind path val = noChange\<lparr>c_file := ''t.yaml'', c_kind := kind, c_path := path,
     c_old := (if kind = KindDelete then val else []), c_new := (if kind = KindAdd then val else [])\<rparr>"

theorem FoldRenames_safe_witness:
  "let d = demo_side KindDelete ''/a'' ''1''; cs = [d, demo_side KindAdd ''/b'' ''1''];
       out = set (cs_changes (FoldRenames \<lparr>cs_changes = cs, cs_opaque = False, cs_reason = []\<rparr> RenameDetect))
   in d \<in> out \<or> (\<exists>x a. moved cs x a \<and> (d = x \<or> d = a) \<and> renameOf x a \<in> out)"
proof -
  let ?cs = "\<lparr>cs_changes = [demo_side KindDelete ''/a'' ''1'', demo_side KindAdd ''/b'' ''1''],
       cs_opaque = False, cs_reason = []\<rparr>"
  have "\<forall>c \<in> set (cs_changes ?cs). NUL \<notin> set (c_file c)" by (simp add: demo_side_def NUL_def)
  moreover have "\<not> cs_opaque ?cs" by simp
  ultimately show ?thesis
    using FoldRenames_safe [of ?cs RenameDetect] unfolding Let_def by (auto simp del: split_paired_Ex)
qed

text \<open>
  the fold does hide whole entries. The collection-mode differ emits the delete of one entry
  and the add of another with empty rendered values, so an unrelated pair, whose contents differ,
  folds to a rename that carries no entry reference any more.
\<close>

theorem FoldRenames_hides_entry:
  "\<exists>b h cs r. leafAt b [''orders'', ''partitions''] \<noteq> leafAt h [''payments'', ''partitions'']
     \<and> diffMapEntries ''t.json'' \<lparr>ec_mode = ModeMap, ec_root = [], ec_identity = [], ec_label = []\<rparr> ''entry'' b h = Inr cs
     \<and> map c_kind cs = [KindDelete, KindAdd] \<and> map c_entryRef cs = [''entry:orders'', ''entry:payments'']
     \<and> cs_changes (FoldRenames \<lparr>cs_changes = cs, cs_opaque = False, cs_reason = []\<rparr> RenameDetect) = [r]
     \<and> c_kind r = KindRename \<and> c_entryRef r = []"
proof -
  let ?p = "\<lparr>pos_line = 1, pos_column = 1\<rparr>"
  let ?entry = "\<lambda>n. VMapping [(''partitions'', VScalar n (cmpKeyOf ''n'' n) ?p)] ?p"
  let ?b = "VMapping [(''orders'', ?entry ''3'')] ?p" and ?h = "VMapping [(''payments'', ?entry ''99'')] ?p"
  let ?d = "noChange\<lparr>c_file := ''t.json'', c_path := ''/orders'', c_kind := KindDelete, c_oldPos := Some ?p, c_entryRef := ''entry:orders''\<rparr>"
  let ?a = "noChange\<lparr>c_file := ''t.json'', c_path := ''/payments'', c_kind := KindAdd, c_newPos := Some ?p, c_entryRef := ''entry:payments''\<rparr>"
  have "leafAt ?b [''orders'', ''partitions''] \<noteq> leafAt ?h [''payments'', ''partitions'']" by simp
  moreover have "diffMapEntries ''t.json'' \<lparr>ec_mode = ModeMap, ec_root = [], ec_identity = [], ec_label = []\<rparr> ''entry'' ?b ?h = Inr [?d, ?a]"
    by (simp add: diffMapEntries_def entriesRoots_def resolvePointer_def unionKeys_def diffOneEntry_def
        escapePointer_def noChange_def)
  moreover have "cs_changes (FoldRenames \<lparr>cs_changes = [?d, ?a], cs_opaque = False, cs_reason = []\<rparr> RenameDetect) = [renameOf ?d ?a]"
    by (simp add: FoldRenames_def foldPairs_def delKeys_def foldPair_def delByVal_def addByVal_def noChange_def
        unfolded_def sortChanges_def List.map_filter_def upt_rec)
  ultimately show ?thesis
    by (intro exI [of _ ?b] exI [of _ ?h] exI [of _ "[?d, ?a]"] exI [of _ "renameOf ?d ?a"])
      (simp add: renameOf_def noChange_def)
qed

end
