(* ===== verification/PolicyProps.thy ===== *)
theory PolicyProps
  imports Policy Glob
begin

text \<open>
  Properties of the policy layer: what the glob matcher accepts and where it fails, what the
  loader lets through and when a provider posture is refused.
\<close>

subsection \<open>Globs\<close>

text \<open>
  the regular expression a pattern is translated to means the pattern. An ASCII pattern
  without a wildcard matches itself alone; a single star stands for any text inside one path
  segment; a double star at the end stands for any run of characters without a newline.
\<close>

theorem glob_semantics:
  assumes p: "ascii p" "CHR ''*'' \<notin> set p" and q: "ascii q" "CHR ''*'' \<notin> set q" and m: "ascii m"
  shows "(globMatch p s \<longleftrightarrow> s = p)
    \<and> (globMatch (p @ ''*'' @ q) (p @ m @ q) \<longleftrightarrow> CHR ''/'' \<notin> set m)
    \<and> (globMatch (p @ ''**'') s \<longleftrightarrow> (\<exists>v. runes s = map of_char p @ v \<and> 10 \<notin> set v))"
  using globMatch_literal [OF p] globMatch_one_segment [OF p q m] globMatch_prefix_any [OF p] by simp

theorem glob_semantics_witness:
  "globMatch ''topics/*.yaml'' ''topics/orders.yaml'' \<and> \<not> globMatch ''topics/*.yaml'' ''topics/a/b.yaml''"
  using glob_semantics [of "''topics/''" "''.yaml''" "''orders''" "''x''"]
    glob_semantics [of "''topics/''" "''.yaml''" "''a/b''" "''x''"]
  by simp

lemma runes_bytes_ascii: "runes s = map of_char s \<Longrightarrow> ascii s"
proof (induction s rule: runes.induct)
  case (2 a s)
  obtain r k where rk: "decodeRune a s = (r, k)" by (cases "decodeRune a s")
  have e: "r = of_char a" "runes (drop k s) = map of_char s" using "2.prems" rk by auto
  have k: "k = 0"
  proof (rule ccontr)
    assume "k \<noteq> 0"
    then have "s \<noteq> []" using rk by (auto simp: decodeRune_def split: list.splits if_splits)
    have "length (runes (drop k s)) = length s" using e(2) by simp
    then have "length s \<le> length (drop k s)" using length_runes [of "drop k s"] by simp
    with \<open>k \<noteq> 0\<close> \<open>s \<noteq> []\<close> show False by (cases s) auto
  qed
  have "of_char a < (128::nat)"
  proof (rule ccontr)
    assume na: "\<not> of_char a < (128::nat)"
    then have "r = 65533" using rk k by (auto simp: decodeRune_def Let_def split: list.splits option.splits)
    moreover have "(of_char a :: nat) < 256" using of_char_mod_256 [where 'a = nat, of a] by (metis mod_less_divisor zero_less_numeral)
    ultimately show False using e(1) by simp
  qed
  with 2 rk k e show ?case by auto
qed simp

text \<open>
  a wildcard-free pattern with a byte outside ASCII does not match the path it spells: the
  translation turns each byte into the character of that number, whose encoding is longer. A
  policy for such a path governs nothing.
\<close>

theorem glob_non_ascii_literal:
  assumes "\<not> ascii p" and "CHR ''*'' \<notin> set p"
  shows "\<not> globMatch p p"
proof
  assume "globMatch p p"
  then have "runes p = map of_char p"
    using assms(2) by (simp add: globMatch_def globTokens_literal matchTokens_splits splits_literal)
  then show False using runes_bytes_ascii assms(1) by blast
qed

theorem glob_non_ascii_literal_witness:
  "\<not> globMatch [CHR 0xC3, CHR 0xBC] [CHR 0xC3, CHR 0xBC]"
  by (rule glob_non_ascii_literal) auto

subsection \<open>Loading\<close>

text \<open>
  The loader returns a policy exactly when the schema accepts the document, it decodes, and
  every kind of every fileEvents selector is one the differ can emit; it returns the decoded
  policy unchanged.
\<close>

theorem loadMergePolicy_iff:
  "loadMergePolicy validate decode raw = Inr mp \<longleftrightarrow>
     validate raw \<and> decode raw = Some mp
     \<and> list_all (\<lambda>r. case m_fileEvents (r_match r) of None \<Rightarrow> True
          | Some fe \<Rightarrow> set (fe_kinds fe) \<subseteq> {''add'', ''delete''}) (mp_rules mp)"
proof -
  have "narrowFileEvents 0 rs = None \<longleftrightarrow> list_all (\<lambda>r. case m_fileEvents (r_match r) of None \<Rightarrow> True
          | Some fe \<Rightarrow> set (fe_kinds fe) \<subseteq> {''add'', ''delete''}) rs" for rs
    by (auto simp: narrowFileEvents_None_iff list_all_iff fileEventKindEmittable_def split: option.splits)
  moreover have "loadMergePolicy validate decode raw = Inr mp \<longleftrightarrow>
      validate raw \<and> decode raw = Some mp \<and> narrowFileEvents 0 (mp_rules mp) = None"
    by (auto simp: loadMergePolicy_def split: option.splits)
  ultimately show ?thesis by simp
qed

text \<open>
  a configuration is refused exactly when some rule that escalates to require-review on
  failure reads, in any leaf of its predicate, the facts of a provider configured to fail open.
\<close>

theorem providerPosture_iff:
  "validateProviderPosture (Some cfg) (Some mp) \<noteq> None \<longleftrightarrow>
     (\<exists>r \<in> set (mp_rules mp). \<exists>pv onf. r_prove r = Some pv \<and> r_onFailure r = Some onf
        \<and> of_effect onf = EffectRequireReview
        \<and> (\<exists>l \<in> set (treeLeaves (pv_when pv)). \<exists>x \<in> set (factRefs False (lf_cel l)). \<exists>p.
             map_of (cfg_providers cfg) x = Some p \<and> p_failure p = ''open''))"
proof -
  have "validateProviderPosture (Some cfg) (Some mp) = None \<longleftrightarrow> postureRules cfg (mp_rules mp) = None"
    by (simp add: validateProviderPosture_def)
  then show ?thesis by (auto simp: postureRules_None_iff providersReferenced_def)
qed

end
