(* ===== verification/ForgePort.thy ===== *)
theory ForgePort
  imports GoStrings Prelude
begin

text \<open>
  The write side of the forge port (\<open>internal/forge/forge.go\<close>): the data that \<open>Reconcile\<close>
  publishes, the port it writes through and \<open>Reconcile\<close> itself. A port is a record of
  operations over a state \<open>'s\<close>, the forge; an operation returns an error or a value, and
  the state it left behind in both cases, because a failing call may have written.
\<close>

subsection \<open>Data\<close>

record slot =
  s_project :: string
  s_mr :: string
  s_rule :: string
  s_effect :: string
  s_entryRef :: string

record artifact =
  a_kind :: string
  a_schemaVersion :: string

record marker =
  m_slot :: slot
  m_occurrence :: string
  m_decision :: string
  m_artifact :: artifact

type_synonym key = "slot \<times> string"

definition key :: "marker \<Rightarrow> key" where
  "key m = (m_slot m, m_occurrence m)"

record thread =
  t_id :: string
  t_marker :: marker
  t_author :: string
  t_resolved :: bool

record mrNote =
  n_id :: string
  n_marker :: marker
  n_author :: string
  n_body :: string

record desiredThread =
  dt_marker :: marker
  dt_body :: string

record desiredSummary =
  ds_marker :: marker
  ds_body :: string

record desiredMerge =
  dm_source :: string
  dm_target :: string
  dm_digest :: string

record desiredReviewState =
  d_project :: string
  d_mr :: string
  d_thread :: "desiredThread option"
  d_clearSlot :: "slot option"
  d_approve :: bool
  d_merge :: "desiredMerge option"
  d_summary :: "desiredSummary option"

record preconditions =
  p_armEligible :: bool
  p_source :: string
  p_target :: string
  p_digest :: string

definition completeForMerge :: "preconditions \<Rightarrow> bool" where
  "completeForMerge pre \<longleftrightarrow> p_source pre \<noteq> '''' \<and> p_target pre \<noteq> '''' \<and> p_digest pre \<noteq> ''''"

record operation =
  o_kind :: string
  o_target :: string
  o_performedAt :: string

record repair =
  rp_repaired :: string
  rp_canonical :: string
  rp_action :: string

record publicationReceipt =
  pr_apiVersion :: string
  pr_kind :: string
  pr_operations :: "operation list"
  pr_repairs :: "repair list"
  pr_warnings :: "string list"

definition emptyReceipt :: publicationReceipt where
  "emptyReceipt = \<lparr>pr_apiVersion = '''', pr_kind = '''', pr_operations = [], pr_repairs = [], pr_warnings = []\<rparr>"

abbreviation kindThread :: string where "kindThread \<equiv> ''thread''"
abbreviation kindApproval :: string where "kindApproval \<equiv> ''approval''"
abbreviation kindMerge :: string where "kindMerge \<equiv> ''merge''"
abbreviation kindSummary :: string where "kindSummary \<equiv> ''summary-comment''"

datatype rescan_detail =
    StaleOpen string
  | OpenCount nat nat
  | TotalCount nat
  | MustRemainResolved string
  | SlotStillOpen string string

text \<open>
  The sentinels of the package, an adapter's own error, and \<open>fmt.Errorf("...: %w", err)\<close>
  as \<open>Wrapped\<close>; \<open>sentinel\<close> is what \<open>errors.Is\<close> sees through the wrapping.
\<close>

datatype forge_error =
    ErrArmingRefused
  | ErrSHAMoved
  | ErrIncompletePreconditions
  | ErrUnsupportedDecision
  | ErrInvalidSummaryMarker
  | ErrRescanFailed rescan_detail
  | DuplicateOpen string
  | AdapterError string
  | Wrapped string forge_error

fun sentinel :: "forge_error \<Rightarrow> forge_error" where
  "sentinel (Wrapped ctx e) = sentinel e"
| "sentinel e = e"

subsection \<open>Effects and the port\<close>

type_synonym ('s, 'a) io = "'s \<Rightarrow> (forge_error + 'a) \<times> 's"

definition retIO :: "'a \<Rightarrow> ('s, 'a) io" where
  "retIO a = (\<lambda>s. (Inr a, s))"

definition failIO :: "forge_error \<Rightarrow> ('s, 'a) io" where
  "failIO e = (\<lambda>s. (Inl e, s))"

definition thenIO :: "('s, 'a) io \<Rightarrow> ('a \<Rightarrow> ('s, 'b) io) \<Rightarrow> ('s, 'b) io" where
  "thenIO m k = (\<lambda>s. case m s of (Inl e, s') \<Rightarrow> (Inl e, s') | (Inr a, s') \<Rightarrow> k a s')"

definition wrapIO :: "string \<Rightarrow> ('s, 'a) io \<Rightarrow> ('s, 'a) io" where
  "wrapIO ctx m = (\<lambda>s. case m s of (Inl e, s') \<Rightarrow> (Inl (Wrapped ctx e), s') | (Inr a, s') \<Rightarrow> (Inr a, s'))"

record 's forgePort =
  ListBotThreads :: "string \<Rightarrow> string \<Rightarrow> ('s, thread list) io"
  CurrentHeads :: "string \<Rightarrow> string \<Rightarrow> ('s, string \<times> string \<times> string) io"
  CreateThread :: "string \<Rightarrow> string \<Rightarrow> marker \<Rightarrow> string \<Rightarrow> ('s, thread) io"
  ResolveThread :: "string \<Rightarrow> string \<Rightarrow> string \<Rightarrow> ('s, unit) io"
  Approve :: "string \<Rightarrow> string \<Rightarrow> ('s, string) io"
  MergeCAS :: "string \<Rightarrow> string \<Rightarrow> desiredMerge \<Rightarrow> ('s, string) io"
  ListBotNotes :: "string \<Rightarrow> string \<Rightarrow> ('s, mrNote list) io"
  UpsertComment :: "string \<Rightarrow> string \<Rightarrow> marker \<Rightarrow> string \<Rightarrow> ('s, mrNote) io"
  Warnings :: "('s \<Rightarrow> string list) option"

lemma thenIO_ok [simp]: "thenIO (retIO a) k = k a"
  by (simp add: thenIO_def retIO_def)

lemma thenIO_fail [simp]: "thenIO (failIO e) k = failIO e"
  by (simp add: thenIO_def failIO_def)

lemma retIO_eq [simp]: "retIO a s = (r, s') \<longleftrightarrow> r = Inr a \<and> s' = s"
  by (auto simp: retIO_def)

lemma failIO_eq [simp]: "failIO e s = (r, s') \<longleftrightarrow> r = Inl e \<and> s' = s"
  by (auto simp: failIO_def)

lemma thenIO_Inr_iff:
  "thenIO m k s = (Inr b, s') \<longleftrightarrow> (\<exists>a t. m s = (Inr a, t) \<and> k a t = (Inr b, s'))"
  by (auto simp: thenIO_def split: prod.splits sum.splits)

lemma thenIO_Inl_iff:
  "thenIO m k s = (Inl e, s') \<longleftrightarrow>
     m s = (Inl e, s') \<or> (\<exists>a t. m s = (Inr a, t) \<and> k a t = (Inl e, s'))"
  by (auto simp: thenIO_def split: prod.splits sum.splits)

lemma wrapIO_Inr_iff [simp]: "wrapIO ctx m s = (Inr a, s') \<longleftrightarrow> m s = (Inr a, s')"
  by (auto simp: wrapIO_def split: prod.splits sum.splits)

lemma wrapIO_Inl_iff [simp]:
  "wrapIO ctx m s = (Inl e, s') \<longleftrightarrow> (\<exists>e0. e = Wrapped ctx e0 \<and> m s = (Inl e0, s'))"
  by (auto simp: wrapIO_def split: prod.splits sum.splits)

subsection \<open>Receipts\<close>

text \<open>\<open>warningsOf\<close>, \<open>withWarnings\<close>, \<open>receiptOf\<close> and \<open>forgeIDNum\<close>.\<close>

definition warningsOf :: "'s forgePort \<Rightarrow> 's \<Rightarrow> string list" where
  "warningsOf p s = (case Warnings p of None \<Rightarrow> [] | Some w \<Rightarrow> w s)"

definition withWarnings :: "'s forgePort \<Rightarrow> 's \<Rightarrow> publicationReceipt \<Rightarrow> publicationReceipt" where
  "withWarnings p s r = r\<lparr>pr_warnings := warningsOf p s\<rparr>"

definition receiptOf :: "operation list \<Rightarrow> publicationReceipt" where
  "receiptOf ops = \<lparr>pr_apiVersion = ''assent.dev/v1alpha1'', pr_kind = ''PublicationReceipt'',
     pr_operations = sort_key o_target ops, pr_repairs = [], pr_warnings = []\<rparr>"

definition forgeIDNum :: "string \<Rightarrow> int" where
  "forgeIDNum i = (case parseInt64 (afterLast (CHR ''/'') i) of None \<Rightarrow> max_int64 | Some n \<Rightarrow> n)"

definition operationOf :: "('s \<Rightarrow> string) \<Rightarrow> string \<Rightarrow> string \<Rightarrow> ('s, operation) io" where
  "operationOf clock kd target = (\<lambda>s. (Inr \<lparr>o_kind = kd, o_target = target, o_performedAt = clock s\<rparr>, s))"

definition threadReceipt :: "('s \<Rightarrow> string) \<Rightarrow> string \<Rightarrow> ('s, publicationReceipt) io" where
  "threadReceipt clock target = thenIO (operationOf clock kindThread target) (\<lambda>op. retIO (receiptOf [op]))"

end
