(* ===== verification/Reconcile.thy ===== *)
theory Reconcile
  imports ForgePort
begin

text \<open>
  \<open>Reconcile\<close> of \<open>internal/forge/forge.go\<close>, the single write entry point: the summary
  preamble, then exactly one of the clear-slot, thread and approve-and-merge paths, each
  with its post-write rescan.
\<close>

subsection \<open>The thread path\<close>

fun resolveEach :: "'s forgePort \<Rightarrow> desiredReviewState \<Rightarrow> string \<Rightarrow> string list \<Rightarrow> ('s, unit) io" where
  "resolveEach p d ctx [] = retIO ()"
| "resolveEach p d ctx (i # is) =
     thenIO (wrapIO (ctx @ i) (ResolveThread p (d_project d) (d_mr d) i)) (\<lambda>_. resolveEach p d ctx is)"

definition staleOccurrences :: "marker \<Rightarrow> thread list \<Rightarrow> thread list" where
  "staleOccurrences m ts = [t \<leftarrow> ts. m_slot (t_marker t) = m_slot m
     \<and> m_occurrence (t_marker t) \<noteq> m_occurrence m \<and> \<not> t_resolved t]"

definition occupantsOf :: "marker \<Rightarrow> thread list \<Rightarrow> thread list" where
  "occupantsOf m ts = [t \<leftarrow> ts. key (t_marker t) = key m]"

datatype rescan_mode = rescanModeOpen | rescanModePreserveResolved | rescanModeRepair

text \<open>
  \<open>openMatching := matching[:0]\<close> shares its array with \<open>matching\<close>: appending the open
  threads overwrites the front of \<open>matching\<close>, which keeps its length.
\<close>

definition verifyThreadRescan :: "thread list \<Rightarrow> marker \<Rightarrow> rescan_mode \<Rightarrow> rescan_detail option" where
  "verifyThreadRescan ts m mode =
     (case staleOccurrences m ts of
        t # _ \<Rightarrow> Some (StaleOpen (t_id t))
      | [] \<Rightarrow>
          (let matching = occupantsOf m ts;
               openMatching = [t \<leftarrow> matching. \<not> t_resolved t];
               overwritten = openMatching @ drop (length openMatching) matching
           in case mode of
                rescanModeRepair \<Rightarrow>
                  if length openMatching \<noteq> 1
                  then Some (OpenCount (length openMatching) (length overwritten)) else None
              | rescanModePreserveResolved \<Rightarrow>
                  if length overwritten \<noteq> 1 then Some (TotalCount (length overwritten))
                  else if \<not> t_resolved (overwritten ! 0)
                       then Some (MustRemainResolved (t_id (overwritten ! 0))) else None
              | rescanModeOpen \<Rightarrow>
                  if length openMatching \<noteq> 1
                  then Some (OpenCount (length openMatching) (length overwritten)) else None))"

definition rescanThreadDesired ::
    "'s forgePort \<Rightarrow> desiredReviewState \<Rightarrow> marker \<Rightarrow> rescan_mode \<Rightarrow> ('s, unit) io" where
  "rescanThreadDesired p d m mode =
     thenIO (wrapIO ''rescan list bot threads'' (ListBotThreads p (d_project d) (d_mr d)))
       (\<lambda>ts. case verifyThreadRescan ts m mode of
               Some why \<Rightarrow> failIO (ErrRescanFailed why)
             | None \<Rightarrow> retIO ())"

definition canonicalOf :: "thread \<Rightarrow> thread list \<Rightarrow> thread" where
  "canonicalOf t ts =
     foldl (\<lambda>c u. if forgeIDNum (t_id u) < forgeIDNum (t_id c) then u else c) t ts"

definition repairsOf :: "thread \<Rightarrow> thread list \<Rightarrow> repair list" where
  "repairsOf c ts = map (\<lambda>t. \<lparr>rp_repaired = t_id t, rp_canonical = t_id c, rp_action = ''resolve''\<rparr>)
     [t \<leftarrow> ts. t_id t \<noteq> t_id c]"

definition repairDuplicates ::
    "'s forgePort \<Rightarrow> ('s \<Rightarrow> string) \<Rightarrow> desiredReviewState \<Rightarrow> thread list \<Rightarrow> ('s, publicationReceipt) io" where
  "repairDuplicates p clock d occupants =
     (let c = canonicalOf (hd occupants) (tl occupants);
          repairs = repairsOf c occupants
      in thenIO (resolveEach p d ''resolve duplicate '' (map rp_repaired repairs))
           (\<lambda>_. thenIO (threadReceipt clock (t_id c))
             (\<lambda>r. retIO (r\<lparr>pr_repairs := sort_key (\<lambda>x. forgeIDNum (rp_repaired x)) repairs\<rparr>))))"

text \<open>The final \<open>switch\<close> of \<open>reconcileThread\<close>, over the threads that occupy the desired slot.\<close>

definition publishThread ::
    "'s forgePort \<Rightarrow> ('s \<Rightarrow> string) \<Rightarrow> desiredReviewState \<Rightarrow> desiredThread \<Rightarrow> thread list \<Rightarrow> ('s, publicationReceipt) io" where
  "publishThread p clock d dt occupants =
     (case occupants of
       [] \<Rightarrow>
         thenIO (wrapIO ''create thread'' (CreateThread p (d_project d) (d_mr d) (dt_marker dt) (dt_body dt)))
           (\<lambda>created. thenIO (threadReceipt clock (t_id created))
             (\<lambda>r. thenIO (rescanThreadDesired p d (dt_marker dt) rescanModeOpen) (\<lambda>_. retIO r)))
     | [t] \<Rightarrow>
         thenIO (threadReceipt clock (t_id t))
           (\<lambda>r. thenIO (rescanThreadDesired p d (dt_marker dt)
                          (if t_resolved t then rescanModePreserveResolved else rescanModeOpen))
             (\<lambda>_. retIO r))
     | _ \<Rightarrow>
         thenIO (repairDuplicates p clock d occupants)
           (\<lambda>r. thenIO (rescanThreadDesired p d (dt_marker dt) rescanModeRepair) (\<lambda>_. retIO r)))"

definition reconcileThread ::
    "'s forgePort \<Rightarrow> ('s \<Rightarrow> string) \<Rightarrow> desiredReviewState \<Rightarrow> desiredThread \<Rightarrow> ('s, publicationReceipt) io" where
  "reconcileThread p clock d dt =
     thenIO (wrapIO ''list bot threads'' (ListBotThreads p (d_project d) (d_mr d))) (\<lambda>existing.
     thenIO (resolveEach p d ''resolve stale occurrence '' (map t_id (staleOccurrences (dt_marker dt) existing))) (\<lambda>_.
     publishThread p clock d dt (occupantsOf (dt_marker dt) existing)))"

subsection \<open>The clear-slot path\<close>

definition openInSlot :: "slot \<Rightarrow> thread list \<Rightarrow> thread list" where
  "openInSlot sl ts = [t \<leftarrow> ts. m_slot (t_marker t) = sl \<and> \<not> t_resolved t]"

definition rescanClearSlot :: "'s forgePort \<Rightarrow> desiredReviewState \<Rightarrow> slot \<Rightarrow> ('s, unit) io" where
  "rescanClearSlot p d sl =
     thenIO (wrapIO ''rescan list bot threads'' (ListBotThreads p (d_project d) (d_mr d)))
       (\<lambda>ts. case openInSlot sl ts of
               t # _ \<Rightarrow> failIO (ErrRescanFailed (SlotStillOpen (s_rule sl) (t_id t)))
             | [] \<Rightarrow> retIO ())"

definition reconcileClearSlot ::
    "'s forgePort \<Rightarrow> ('s \<Rightarrow> string) \<Rightarrow> desiredReviewState \<Rightarrow> slot \<Rightarrow> ('s, publicationReceipt) io" where
  "reconcileClearSlot p clock d sl =
     thenIO (wrapIO ''list bot threads'' (ListBotThreads p (d_project d) (d_mr d))) (\<lambda>existing.
     case openInSlot sl existing of
       [] \<Rightarrow>
         (case [t \<leftarrow> existing. m_slot (t_marker t) = sl] of
            t # _ \<Rightarrow> thenIO (threadReceipt clock (t_id t))
                       (\<lambda>r. thenIO (rescanClearSlot p d sl) (\<lambda>_. retIO r))
          | [] \<Rightarrow> failIO ErrUnsupportedDecision)
     | [t] \<Rightarrow>
         thenIO (wrapIO (''resolve no-longer-desired '' @ t_id t)
                  (ResolveThread p (d_project d) (d_mr d) (t_id t)))
           (\<lambda>_. thenIO (threadReceipt clock (t_id t))
             (\<lambda>r. thenIO (rescanClearSlot p d sl) (\<lambda>_. retIO r)))
     | _ \<Rightarrow> failIO (DuplicateOpen (s_rule sl)))"

subsection \<open>The approve-and-merge path\<close>

definition reconcileApproveMerge ::
    "'s forgePort \<Rightarrow> ('s \<Rightarrow> string) \<Rightarrow> desiredReviewState \<Rightarrow> preconditions \<Rightarrow> desiredMerge \<Rightarrow> ('s, publicationReceipt) io" where
  "reconcileApproveMerge p clock d pre m =
     (if \<not> p_armEligible pre then failIO ErrArmingRefused
      else if \<not> completeForMerge pre then failIO ErrIncompletePreconditions
      else if dm_source m \<noteq> p_source pre \<or> dm_target m \<noteq> p_target pre \<or> dm_digest m \<noteq> p_digest pre
           then failIO ErrIncompletePreconditions
      else thenIO (wrapIO ''read current heads'' (CurrentHeads p (d_project d) (d_mr d))) (\<lambda>(cs, ct, cd).
           if cs \<noteq> dm_source m \<or> ct \<noteq> dm_target m \<or> cd \<noteq> dm_digest m then failIO ErrSHAMoved
           else thenIO (wrapIO ''approve'' (Approve p (d_project d) (d_mr d))) (\<lambda>approval.
                thenIO (MergeCAS p (d_project d) (d_mr d) m) (\<lambda>mergeID.
                thenIO (operationOf clock kindApproval approval) (\<lambda>o1.
                thenIO (operationOf clock kindMerge mergeID) (\<lambda>o2.
                retIO (receiptOf [o1, o2])))))))"

subsection \<open>Reconcile\<close>

datatype reconcile_path = PathClearSlot slot | PathThread desiredThread | PathApproveMerge desiredMerge

definition reconcilePathOf :: "desiredReviewState \<Rightarrow> forge_error + reconcile_path" where
  "reconcilePathOf d =
     (case d_clearSlot d of Some sl \<Rightarrow> Inr (PathClearSlot sl)
      | None \<Rightarrow> (case d_thread d of Some dt \<Rightarrow> Inr (PathThread dt)
      | None \<Rightarrow> (case d_merge d of
                   Some m \<Rightarrow> if d_approve d then Inr (PathApproveMerge m) else Inl ErrUnsupportedDecision
                 | None \<Rightarrow> Inl ErrUnsupportedDecision)))"

definition reconcileSummary ::
    "'s forgePort \<Rightarrow> ('s \<Rightarrow> string) \<Rightarrow> desiredReviewState \<Rightarrow> desiredSummary \<Rightarrow> ('s, operation) io" where
  "reconcileSummary p clock d sm =
     (if a_kind (m_artifact (ds_marker sm)) \<noteq> kindSummary then failIO ErrInvalidSummaryMarker
      else thenIO (wrapIO ''upsert summary'' (UpsertComment p (d_project d) (d_mr d) (ds_marker sm) (ds_body sm)))
             (\<lambda>n. operationOf clock kindThread (n_id n)))"

definition reconcileSummaryPreamble ::
    "'s forgePort \<Rightarrow> ('s \<Rightarrow> string) \<Rightarrow> desiredReviewState \<Rightarrow> desiredSummary \<Rightarrow> ('s, operation) io" where
  "reconcileSummaryPreamble p clock d sm =
     thenIO (wrapIO ''list bot notes'' (ListBotNotes p (d_project d) (d_mr d)))
       (\<lambda>_. reconcileSummary p clock d sm)"

definition preamble ::
    "'s forgePort \<Rightarrow> ('s \<Rightarrow> string) \<Rightarrow> desiredReviewState \<Rightarrow> ('s, operation list) io" where
  "preamble p clock d =
     (case d_summary d of
        None \<Rightarrow> retIO []
      | Some sm \<Rightarrow> thenIO (reconcileSummaryPreamble p clock d sm) (\<lambda>op. retIO [op]))"

definition runPath ::
    "'s forgePort \<Rightarrow> ('s \<Rightarrow> string) \<Rightarrow> desiredReviewState \<Rightarrow> preconditions \<Rightarrow> reconcile_path \<Rightarrow> ('s, publicationReceipt) io" where
  "runPath p clock d pre path =
     (case path of
        PathClearSlot sl \<Rightarrow> reconcileClearSlot p clock d sl
      | PathThread dt \<Rightarrow> reconcileThread p clock d dt
      | PathApproveMerge m \<Rightarrow> reconcileApproveMerge p clock d pre m)"

definition withPreamble :: "operation list \<Rightarrow> publicationReceipt \<Rightarrow> publicationReceipt" where
  "withPreamble ops r = (if ops = [] then r else receiptOf (ops @ pr_operations r))"

definition Reconcile ::
    "'s forgePort \<Rightarrow> ('s \<Rightarrow> string) \<Rightarrow> desiredReviewState \<Rightarrow> preconditions \<Rightarrow> 's
     \<Rightarrow> (publicationReceipt \<times> forge_error option) \<times> 's" where
  "Reconcile p clock d pre s =
     (case reconcilePathOf d of
        Inl e \<Rightarrow> ((withWarnings p s emptyReceipt, Some e), s)
      | Inr path \<Rightarrow>
          (case thenIO (preamble p clock d)
                  (\<lambda>ops. thenIO (runPath p clock d pre path) (\<lambda>r. retIO (withPreamble ops r))) s of
             (Inl e, s') \<Rightarrow> ((withWarnings p s' emptyReceipt, Some e), s')
           | (Inr r, s') \<Rightarrow> ((withWarnings p s' r, None), s')))"

end
