(* ===== verification/Envelope.thy ===== *)
theory Envelope
  imports ForgePort GoJson
begin

text \<open>
  The marker envelope of \<open>internal/render/envelope.go\<close>: the hidden HTML comment that carries
  the correlation marker in front of a note or thread body, and the refusal of bodies that
  could forge or truncate it.
\<close>

abbreviation MarkerSentinel :: string where "MarkerSentinel \<equiv> ''assent:marker''"
abbreviation commentClose :: string where "commentClose \<equiv> ''-->''"

datatype envelope_error = ErrEmbeddedMarkerSentinel | ErrPrematureCommentClose

definition member :: "string \<Rightarrow> string \<Rightarrow> string" where
  "member k v = jsonQuote k @ '':'' @ jsonQuote v"

definition object :: "string list \<Rightarrow> string" where
  "object ms = ''{'' @ joinOn '','' ms @ ''}''"

definition markerJSON :: "marker \<Rightarrow> string" where
  "markerJSON m = object
     [jsonQuote ''slot'' @ '':'' @ object
        ([member ''project'' (s_project (m_slot m)), member ''mr'' (s_mr (m_slot m)),
          member ''rule'' (s_rule (m_slot m))]
         @ (if s_entryRef (m_slot m) = '''' then [] else [member ''entryRef'' (s_entryRef (m_slot m))])
         @ [member ''effect'' (s_effect (m_slot m))]),
      member ''occurrence'' (m_occurrence m),
      member ''decision'' (m_decision m),
      jsonQuote ''artifact'' @ '':'' @ object
        [member ''kind'' (a_kind (m_artifact m)), member ''schemaVersion'' (a_schemaVersion (m_artifact m))]]"

definition FormatMarker :: "marker \<Rightarrow> string" where
  "FormatMarker m = ''<!-- '' @ MarkerSentinel @ '' '' @ markerJSON m @ '' '' @ commentClose"

text \<open>\<open>strings.NewReplacer("</summary>", "", "</details>", "")\<close>: leftmost, one pass.\<close>

function stripClosers :: "string \<Rightarrow> string" where
  "stripClosers [] = []"
| "stripClosers (c # cs) =
     (if prefix ''</summary>'' (c # cs) \<or> prefix ''</details>'' (c # cs) then stripClosers (drop 9 cs)
      else c # stripClosers cs)"
  by pat_completeness auto
termination by (relation "measure length") auto

definition containsUnsafeCommentClose :: "string \<Rightarrow> bool" where
  "containsUnsafeCommentClose body \<longleftrightarrow> containsSub (stripClosers body) commentClose"

definition validateEnvelopeBody :: "string \<Rightarrow> envelope_error option" where
  "validateEnvelopeBody body =
     (if containsSub body MarkerSentinel then Some ErrEmbeddedMarkerSentinel
      else if containsUnsafeCommentClose body then Some ErrPrematureCommentClose
      else None)"

definition Envelope :: "marker \<Rightarrow> string \<Rightarrow> envelope_error + string" where
  "Envelope m body =
     (case validateEnvelopeBody body of
        Some e \<Rightarrow> Inl e
      | None \<Rightarrow> Inr (if body = '''' then FormatMarker m
                    else FormatMarker m @ [CHR 0x0A, CHR 0x0A] @ body))"

subsection \<open>What the marker cannot contain\<close>

text \<open>
  \<open>json.Marshal\<close> escapes the angle brackets, so no field of a marker can close the comment.
\<close>

lemma char_of_neq_gt: "n < 256 \<Longrightarrow> n \<noteq> 62 \<Longrightarrow> char_of (n::nat) \<noteq> CHR ''>''"
proof
  assume n: "n < 256" "n \<noteq> 62" and e: "char_of n = CHR ''>''"
  have "of_char (char_of n :: char) = n" using n by simp
  then show False using e n by simp
qed

lemma gt_not_hexDigit: "k < 16 \<Longrightarrow> hexDigit k \<noteq> CHR ''>''"
  using char_of_neq_gt [of "48 + k"] char_of_neq_gt [of "87 + k"] by (auto simp: hexDigit_def)

lemma escapeAscii_gt: "CHR ''>'' \<notin> set (escapeAscii c)"
proof -
  have "of_char c < (32::nat) \<Longrightarrow> of_char c div 16 < (16::nat)" by simp
  then show ?thesis
    using gt_not_hexDigit [of "of_char c div 16"] gt_not_hexDigit [of "of_char c mod 16"]
    by (auto simp: escapeAscii_def Let_def)
qed

lemma cont_not_gt: "cont c \<Longrightarrow> c \<noteq> CHR ''>''"
  by (auto simp: cont_def)

lemma decodeRune_cont_gt:
  assumes "decodeRune a s = (r, k)"
  shows "CHR ''>'' \<notin> set (take k s)"
proof (cases "k > 0")
  case True
  with assms show ?thesis
    by (cases rule: decodeRune_cases)
      (auto simp: rune2_def rune3_def rune4_def numeral_2_eq_2 numeral_3_eq_3 Let_def
        dest: cont_not_gt split: if_splits)
qed simp

lemma quoteBody_gt: "CHR ''>'' \<notin> set (quoteBody s)"
proof (induction s rule: quoteBody.induct)
  case 1
  then show ?case by simp
next
  case (2 a s)
  obtain r k where d: "decodeRune a s = (r, k)" by (cases "decodeRune a s")
  have "\<not> of_char a < (128::nat) \<Longrightarrow> a \<noteq> CHR ''>''" by auto
  with 2 escapeAscii_gt decodeRune_cont_gt [OF d] show ?case
    by (subst quoteBody.simps) (auto simp: d)
qed

lemma jsonQuote_gt [simp]: "CHR ''>'' \<notin> set (jsonQuote s)"
  using quoteBody_gt by (auto simp: jsonQuote_def)

lemma joinOn_set: "set (joinOn sep xs) \<subseteq> set sep \<union> (\<Union>x \<in> set xs. set x)"
  by (induction sep xs rule: joinOn.induct) auto

lemma member_gt [simp]: "CHR ''>'' \<notin> set (member k v)"
  by (simp add: member_def)

lemma object_gt [intro]: "(\<And>x. x \<in> set ms \<Longrightarrow> CHR ''>'' \<notin> set x) \<Longrightarrow> CHR ''>'' \<notin> set (object ms)"
  using joinOn_set [of "'',''" ms] by (fastforce simp: object_def)

lemma object_gt': "CHR ''>'' \<in> set (object ms) \<Longrightarrow> \<exists>x \<in> set ms. CHR ''>'' \<in> set x"
  using object_gt [of ms] by blast

lemma markerJSON_gt: "CHR ''>'' \<notin> set (markerJSON m)"
  unfolding markerJSON_def
  by (rule object_gt) (fastforce simp del: in_set_conv_decomp split: if_splits dest: object_gt')

lemma FormatMarker_close:
  obtains front where "FormatMarker m = front @ commentClose" "CHR ''>'' \<notin> set front"
  using markerJSON_gt [of m] by (auto simp: FormatMarker_def)

subsection \<open>What an accepted body cannot contain\<close>

lemma containsSub_append_free:
  "hd p \<notin> set xs \<Longrightarrow> p \<noteq> [] \<Longrightarrow> containsSub (xs @ ys) p = containsSub ys p"
  by (induction xs) (auto simp: neq_Nil_conv)

lemma strip_keeps_close: "containsSub body commentClose \<Longrightarrow> containsSub (stripClosers body) commentClose"
proof (induction body rule: stripClosers.induct)
  case 1
  then show ?case by simp
next
  case (2 c cs)
  show ?case
  proof (cases "prefix ''</summary>'' (c # cs) \<or> prefix ''</details>'' (c # cs)")
    case True
    then obtain x where "c # cs = x @ drop 9 cs" "CHR ''-'' \<notin> set x"
      by (auto simp: prefix_def)
    then have "containsSub (drop 9 cs) commentClose"
      using "2.prems" containsSub_append_free [of commentClose x "drop 9 cs"] by simp
    with True 2 show ?thesis by simp
  next
    case False
    show ?thesis
    proof (cases "containsSub cs commentClose")
      case True
      then have "containsSub (stripClosers cs) commentClose" using 2(2) False by blast
      then have "containsSub (c # stripClosers cs) commentClose" by simp
      with False show ?thesis by (auto simp del: containsSub.simps)
    next
      case no: False
      then have "prefix commentClose (c # cs)" using "2.prems" by auto
      then obtain t where "c # cs = commentClose @ t" by (auto simp: prefix_def)
      with False show ?thesis by simp
    qed
  qed
qed

lemma accepted_body:
  "Envelope m body = Inr out \<Longrightarrow>
     \<not> containsSub body commentClose \<and> \<not> containsSub body MarkerSentinel"
  using strip_keeps_close [of body]
  by (auto simp: Envelope_def validateEnvelopeBody_def containsUnsafeCommentClose_def split: if_splits)

end
