(* ===== verification/Capability.thy ===== *)
theory Capability
  imports ForgePort Approval
begin

text \<open>
  The read side of the forge port: the closed capability model
  (\<open>internal/forge/capability.go\<close>), the arming preconditions computed from a report
  (\<open>precondition.go\<close>), snapshots (\<open>snapshot.go\<close>), merge-request metadata (\<open>port.go\<close>), the
  caller's identity (\<open>runport.go\<close>) and approval resolution (\<open>resolve.go\<close>).
\<close>

subsection \<open>Capabilities\<close>

type_synonym capability = string

text \<open>The UTF-8 bytes of the em dash and of the section sign, which the messages use.\<close>

definition dash :: string where "dash = map char_of [226, 128, 148 :: nat]"
definition sect :: string where "sect = map char_of [194, 167 :: nat]"

abbreviation CapabilityThreadsBlockMerge :: capability where
  "CapabilityThreadsBlockMerge \<equiv> ''threads-block-merge''"
abbreviation CapabilityEligibleApprovalEvidence :: capability where
  "CapabilityEligibleApprovalEvidence \<equiv> ''eligible-approval-evidence''"
abbreviation CapabilityProtectedPipelineSource :: capability where
  "CapabilityProtectedPipelineSource \<equiv> ''protected-pipeline-source''"

definition AllCapabilities :: "capability list" where
  "AllCapabilities =
     [''resolvable-threads'', CapabilityThreadsBlockMerge, ''blocking-review'',
      ''review-dismissal-restrictions'', ''sha-guarded-merge'', ''deferred-merge-arming'',
      ''arming-revoked-on-push'', ''merge-result-pinning'', CapabilityEligibleApprovalEvidence,
      ''approval-reset-on-push'', CapabilityProtectedPipelineSource]"

datatype capability_error = UnknownCapability string | MissingEntries "string list"

definition ParseCapability :: "string \<Rightarrow> capability_error + capability" where
  "ParseCapability nm =
     (case find (\<lambda>c. c = nm) AllCapabilities of Some c \<Rightarrow> Inr c | None \<Rightarrow> Inl (UnknownCapability nm))"

abbreviation CapabilitySupported :: string where "CapabilitySupported \<equiv> ''supported''"
abbreviation CapabilityAbsent :: string where "CapabilityAbsent \<equiv> ''absent''"
abbreviation CapabilityUnknown :: string where "CapabilityUnknown \<equiv> ''unknown''"

record capabilityEntry =
  ce_state :: string
  ce_reason :: string

text \<open>A report is the map of its entries, or the zero report, whose map is nil.\<close>

type_synonym capabilityReport = "capabilityEntry assoc option"

definition normalizeState :: "string \<Rightarrow> string" where
  "normalizeState st =
     (if st = CapabilitySupported \<or> st = CapabilityAbsent \<or> st = CapabilityUnknown then st
      else CapabilityUnknown)"

definition entryOf :: "capabilityReport \<Rightarrow> capability \<Rightarrow> capabilityEntry option" where
  "entryOf r c = (case r of None \<Rightarrow> None | Some es \<Rightarrow> map_of es c)"

definition reportMissing :: "capabilityReport \<Rightarrow> capability_error option" where
  "reportMissing r =
     (let missing = [c \<leftarrow> AllCapabilities. entryOf r c = None]
      in if missing \<noteq> [] then Some (MissingEntries (sort missing)) else None)"

fun reportEntries :: "capabilityEntry assoc \<Rightarrow> capability_error + capabilityEntry assoc" where
  "reportEntries [] = Inr []"
| "reportEntries ((nm, e) # es) =
     (if nm \<notin> set AllCapabilities then Inl (UnknownCapability nm)
      else bind_res (reportEntries es)
             (\<lambda>rest. Inr ((nm, \<lparr>ce_state = normalizeState (ce_state e), ce_reason = ce_reason e\<rparr>) # rest)))"

definition NewCapabilityReport :: "capabilityEntry assoc \<Rightarrow> capability_error + capabilityReport" where
  "NewCapabilityReport entries =
     bind_res (reportEntries entries)
       (\<lambda>es. case reportMissing (Some es) of Some e \<Rightarrow> Inl e | None \<Rightarrow> Inr (Some es))"

definition AllUnknownCapabilityReport :: capabilityReport where
  "AllUnknownCapabilityReport =
     Some (map (\<lambda>c. (c, \<lparr>ce_state = CapabilityUnknown,
       ce_reason = ''unprobed by this fixture '' @ dash @ '' unknown never arms (ADR-0021 '' @ sect @ ''3)''\<rparr>)) AllCapabilities)"

definition UnknownCapabilityEntry :: "string \<Rightarrow> capabilityEntry" where
  "UnknownCapabilityEntry reason = \<lparr>ce_state = CapabilityUnknown, ce_reason = reason\<rparr>"

definition SupportedCapabilityEntry :: "string \<Rightarrow> capabilityEntry" where
  "SupportedCapabilityEntry reason = \<lparr>ce_state = CapabilitySupported, ce_reason = reason\<rparr>"

definition AbsentCapabilityEntry :: "string \<Rightarrow> capabilityEntry" where
  "AbsentCapabilityEntry reason = \<lparr>ce_state = CapabilityAbsent, ce_reason = reason\<rparr>"

definition capState :: "capabilityReport \<Rightarrow> capability \<Rightarrow> string" where
  "capState r c = (case entryOf r c of None \<Rightarrow> CapabilityUnknown | Some e \<Rightarrow> ce_state e)"

definition capIsZero :: "capabilityReport \<Rightarrow> bool" where
  "capIsZero r \<longleftrightarrow> r = None"

definition capReason :: "capabilityReport \<Rightarrow> capability \<Rightarrow> string" where
  "capReason r c = (case entryOf r c of None \<Rightarrow> '''' | Some e \<Rightarrow> ce_reason e)"

definition ArmedBlocks :: "capabilityReport \<Rightarrow> capability \<Rightarrow> bool" where
  "ArmedBlocks r c \<longleftrightarrow> capState r c \<noteq> CapabilitySupported"

definition SortedEntries :: "capabilityReport \<Rightarrow> (string \<times> capabilityEntry) list" where
  "SortedEntries r = sort_key fst (case r of None \<Rightarrow> [] | Some es \<Rightarrow> es)"

subsection \<open>Arming preconditions\<close>

abbreviation RefusalInsecureTopology :: string where
  "RefusalInsecureTopology \<equiv> ''insecure-topology''"
abbreviation RefusalDiscussionsGateMissing :: string where
  "RefusalDiscussionsGateMissing \<equiv> ''discussions-gate-missing''"
abbreviation RefusalTierCapabilityGap :: string where
  "RefusalTierCapabilityGap \<equiv> ''tier-capability-gap''"
abbreviation GapFreeTierRequireReview :: string where
  "GapFreeTierRequireReview \<equiv> ''free-tier-require-review-unsatisfiable''"

record preconditionRefusal =
  pf_code :: string
  pf_detail :: string

record preconditionProbe =
  pp_armEligible :: bool
  pp_autoMerge :: bool
  pp_duplicatePrevention :: string
  pp_protectedConfig :: bool
  pp_refusals :: "preconditionRefusal list"
  pp_gaps :: "string list"

definition capabilityStatePhrase :: "string \<Rightarrow> string" where
  "capabilityStatePhrase st = (if st = CapabilityUnknown then ''UNPROBED/UNKNOWN'' else ''ABSENT'')"

definition capabilityRefusalDetail :: "capabilityReport \<Rightarrow> capability \<Rightarrow> string \<Rightarrow> string" where
  "capabilityRefusalDetail r c consequence =
     ''capability '' @ [CHR 0x22] @ c @ [CHR 0x22] @ '' is '' @ capabilityStatePhrase (capState r c)
     @ '' '' @ dash @ '' '' @ consequence @ ''. '' @ capReason r c"

definition protectionTopologyRefusalDetail :: "capabilityReport \<Rightarrow> string" where
  "protectionTopologyRefusalDetail r = capabilityRefusalDetail r CapabilityProtectedPipelineSource
     (''the protected-pipeline-source capability is not proven '' @ dash
      @ '' the CI configuration that drives assent may be author-editable (ADR-0015 '' @ sect @ ''4)'')"

definition discussionsGateRefusalDetail :: "capabilityReport \<Rightarrow> string" where
  "discussionsGateRefusalDetail r = capabilityRefusalDetail r CapabilityThreadsBlockMerge
     ''unresolved discussion resolution gate is not proven to block the merge (forge dossier C3 / ADR-0009)''"

definition approvalEvidenceRefusalDetail :: "capabilityReport \<Rightarrow> string" where
  "approvalEvidenceRefusalDetail r = capabilityRefusalDetail r CapabilityEligibleApprovalEvidence
     (''forge-proven eligible approval evidence is unsatisfiable '' @ dash
      @ '' require-review cannot be proven on this forge (ADR-0017 '' @ sect @ ''3)'')"

definition refusalIf :: "capabilityReport \<Rightarrow> capability \<Rightarrow> string \<Rightarrow> string \<Rightarrow> preconditionRefusal list" where
  "refusalIf r c code detail = (if ArmedBlocks r c then [\<lparr>pf_code = code, pf_detail = detail\<rparr>] else [])"

definition PreconditionFromReport :: "capabilityReport \<Rightarrow> preconditionProbe" where
  "PreconditionFromReport r =
     (let refusals = refusalIf r CapabilityProtectedPipelineSource RefusalInsecureTopology (protectionTopologyRefusalDetail r)
            @ refusalIf r CapabilityThreadsBlockMerge RefusalDiscussionsGateMissing (discussionsGateRefusalDetail r)
            @ refusalIf r CapabilityEligibleApprovalEvidence RefusalTierCapabilityGap (approvalEvidenceRefusalDetail r)
      in \<lparr>pp_armEligible = (refusals = []),
          pp_autoMerge = (\<not> ArmedBlocks r CapabilityEligibleApprovalEvidence),
          pp_duplicatePrevention = ''unserialized-best-effort'',
          pp_protectedConfig = (\<not> ArmedBlocks r CapabilityProtectedPipelineSource),
          pp_refusals = refusals,
          pp_gaps = (if ArmedBlocks r CapabilityEligibleApprovalEvidence
                     then [GapFreeTierRequireReview] else [])\<rparr>)"

subsection \<open>Snapshots, metadata and identity\<close>

record mrHeads =
  h_source :: string
  h_target :: string
  h_sourceBranch :: string
  h_targetBranch :: string
  h_digest :: string
  h_author :: string
  h_labels :: "string list"
  h_fork :: bool

record snapshot =
  sn_heads :: mrHeads
  sn_changedFiles :: "string list"
  sn_capabilities :: capabilityReport
  sn_botThreads :: "thread list"
  sn_complete :: bool
  sn_gap :: string

definition EnumerationOpaqueReason :: "snapshot \<Rightarrow> string" where
  "EnumerationOpaqueReason s =
     (if sn_complete s then '''' else ''forge changed-file enumeration incomplete: '' @ sn_gap s)"

record mrMetadata =
  md_iid :: string
  md_project :: string
  md_sourceBranch :: string
  md_targetBranch :: string
  md_source :: string
  md_target :: string
  md_fork :: bool
  md_sourceProject :: string
  md_labels :: "string list"

record identity =
  id_kind :: string
  id_login :: string
  id_id :: string

subsection \<open>Approval resolution\<close>

record resolveRequest =
  rr_project :: string
  rr_mr :: string
  rr_subject :: string
  rr_source :: string
  rr_target :: string
  rr_digest :: string
  rr_author :: string

record capabilityGap =
  cg_reason :: string
  cg_subject :: string

record resolveResult =
  rs_evidence :: "approvalEvidence option"
  rs_gap :: "capabilityGap option"

definition WellFormed :: "resolveResult \<Rightarrow> bool" where
  "WellFormed r \<longleftrightarrow> (rs_evidence r \<noteq> None) \<noteq> (rs_gap r \<noteq> None)"

definition ResolveWithEvidence :: "approvalEvidence \<Rightarrow> resolveResult" where
  "ResolveWithEvidence ev = \<lparr>rs_evidence = Some ev, rs_gap = None\<rparr>"

definition ResolveWithGap :: "capabilityGap \<Rightarrow> resolveResult" where
  "ResolveWithGap g = \<lparr>rs_evidence = None, rs_gap = Some g\<rparr>"

subsection \<open>Facts\<close>

lemma PreconditionFromReport_arm:
  "pp_armEligible (PreconditionFromReport r) \<longleftrightarrow>
     \<not> ArmedBlocks r CapabilityProtectedPipelineSource \<and> \<not> ArmedBlocks r CapabilityThreadsBlockMerge
     \<and> \<not> ArmedBlocks r CapabilityEligibleApprovalEvidence"
  by (simp add: PreconditionFromReport_def refusalIf_def)

lemma reportEntries_keys: "reportEntries es = Inr rs \<Longrightarrow> map fst rs = map fst es \<and> set (map fst es) \<subseteq> set AllCapabilities"
proof (induction es arbitrary: rs)
  case (Cons x es)
  then show ?case by (cases x) (auto simp: bind_res_Inr_iff split: if_splits)
qed simp

lemma reportEntries_map_of:
  "reportEntries es = Inr rs \<Longrightarrow> map_of rs c =
     map_option (\<lambda>e. \<lparr>ce_state = normalizeState (ce_state e), ce_reason = ce_reason e\<rparr>) (map_of es c)"
proof (induction es arbitrary: rs)
  case (Cons x es)
  then show ?case by (cases x) (auto simp: bind_res_Inr_iff split: if_splits)
qed simp

lemma normalizeState_supported [simp]: "normalizeState st = CapabilitySupported \<longleftrightarrow> st = CapabilitySupported"
  by (auto simp: normalizeState_def)

end
