(* ===== verification/ForgeFake.thy ===== *)
theory ForgeFake
  imports Reconcile Envelope Capability
begin

text \<open>
  The in-memory forge (\<open>internal/forge/fake\<close>): the port implementation that the conformance
  suite and the engine's own tests run against. Its two function-valued hooks are arguments
  of the operations: \<open>race\<close> is \<open>AfterCurrentHeads\<close>, run after the heads are read, and
  \<open>relist\<close> is \<open>RescanListBotThreads\<close>, which replaces the first listing after a mutation.
\<close>

record fakeForge =
  fk_bot :: string
  fk_threads :: "thread list"
  fk_notes :: "mrNote list"
  fk_source :: string
  fk_target :: string
  fk_digest :: string
  fk_approvals :: "string list"
  fk_merges :: "string list"
  fk_noteCreates :: nat
  fk_noteUpdates :: nat
  fk_seq :: nat
  fk_merged :: bool
  fk_author :: string
  fk_sourceBranch :: string
  fk_targetBranch :: string
  fk_labels :: "string list"
  fk_changedFiles :: "string list"
  fk_capabilities :: capabilityReport
  fk_resolveMode :: string
  fk_iid :: string
  fk_project :: string
  fk_sourceProject :: string
  fk_fork :: bool
  fk_gap :: string
  fk_filesErr :: "string option"
  fk_files :: "string \<Rightarrow> string \<Rightarrow> string option"
  fk_refused :: "string \<Rightarrow> string option"
  fk_mutations :: nat

definition newFake :: "string \<Rightarrow> string \<Rightarrow> string \<Rightarrow> string \<Rightarrow> fakeForge" where
  "newFake botAuthor src tgt dg =
     \<lparr>fk_bot = botAuthor, fk_threads = [], fk_notes = [], fk_source = src, fk_target = tgt, fk_digest = dg,
      fk_approvals = [], fk_merges = [], fk_noteCreates = 0, fk_noteUpdates = 0, fk_seq = 0,
      fk_merged = False, fk_author = '''', fk_sourceBranch = '''', fk_targetBranch = '''', fk_labels = [],
      fk_changedFiles = [], fk_capabilities = None, fk_resolveMode = '''', fk_iid = '''', fk_project = '''',
      fk_sourceProject = '''', fk_fork = False, fk_gap = '''', fk_filesErr = None,
      fk_files = (\<lambda>_ _. None), fk_refused = (\<lambda>_. None), fk_mutations = 0\<rparr>"

subsection \<open>Seeding and counting\<close>

definition SeedThread :: "string \<Rightarrow> string \<Rightarrow> marker \<Rightarrow> bool \<Rightarrow> fakeForge \<Rightarrow> fakeForge" where
  "SeedThread i author m resolved s = s\<lparr>fk_threads := fk_threads s
     @ [\<lparr>t_id = i, t_marker = m, t_author = author, t_resolved = resolved\<rparr>]\<rparr>"

definition SeedNote :: "string \<Rightarrow> string \<Rightarrow> marker \<Rightarrow> string \<Rightarrow> fakeForge \<Rightarrow> fakeForge" where
  "SeedNote i author m body s = s\<lparr>fk_notes := fk_notes s
     @ [\<lparr>n_id = i, n_marker = m, n_author = author, n_body = body\<rparr>]\<rparr>"

definition noteMutation :: "fakeForge \<Rightarrow> fakeForge" where
  "noteMutation s = s\<lparr>fk_mutations := Suc (fk_mutations s)\<rparr>"

definition botThreads :: "fakeForge \<Rightarrow> thread list" where
  "botThreads s = [t \<leftarrow> fk_threads s. t_author t = fk_bot s]"

definition ThreadCount :: "fakeForge \<Rightarrow> nat" where
  "ThreadCount s = length (fk_threads s)"

definition BotThreadCount :: "fakeForge \<Rightarrow> nat" where
  "BotThreadCount s = length (botThreads s)"

definition OpenBotThreadCount :: "fakeForge \<Rightarrow> nat" where
  "OpenBotThreadCount s = length [t \<leftarrow> fk_threads s. t_author t = fk_bot s \<and> \<not> t_resolved t]"

definition IsResolved :: "string \<Rightarrow> fakeForge \<Rightarrow> bool" where
  "IsResolved i s = (case find (\<lambda>t. t_id t = i) (fk_threads s) of Some t \<Rightarrow> t_resolved t | None \<Rightarrow> False)"

definition SummaryNoteCount :: "fakeForge \<Rightarrow> nat" where
  "SummaryNoteCount s =
     length [n \<leftarrow> fk_notes s. n_author n = fk_bot s \<and> a_kind (m_artifact (n_marker n)) = kindSummary]"

definition NoteBody :: "string \<Rightarrow> fakeForge \<Rightarrow> string" where
  "NoteBody i s = (case find (\<lambda>n. n_id n = i) (fk_notes s) of Some n \<Rightarrow> n_body n | None \<Rightarrow> '''')"

subsection \<open>The write port\<close>

definition fakeListBotThreads :: "(thread list \<Rightarrow> string + thread list) option \<Rightarrow> (fakeForge, thread list) io" where
  "fakeListBotThreads relist = (\<lambda>s.
     (case relist of
        Some h \<Rightarrow>
          if fk_mutations s > 0
          then ((case h (botThreads s) of Inl e \<Rightarrow> Inl (AdapterError e) | Inr ts \<Rightarrow> Inr ts), s\<lparr>fk_mutations := 0\<rparr>)
          else (Inr (botThreads s), s\<lparr>fk_mutations := 0\<rparr>)
      | None \<Rightarrow> (Inr (botThreads s), s\<lparr>fk_mutations := 0\<rparr>)))"

definition fakeListBotNotes :: "(fakeForge, mrNote list) io" where
  "fakeListBotNotes = (\<lambda>s. (Inr [n \<leftarrow> fk_notes s. n_author n = fk_bot s], s))"

definition envelopeError :: "envelope_error \<Rightarrow> forge_error" where
  "envelopeError e = AdapterError (case e of
       ErrEmbeddedMarkerSentinel \<Rightarrow> ''render: body contains assent:marker sentinel''
     | ErrPrematureCommentClose \<Rightarrow> ''render: body contains premature HTML comment close'')"

definition summaryOfBot :: "string \<Rightarrow> mrNote \<Rightarrow> bool" where
  "summaryOfBot author n \<longleftrightarrow> n_author n = author \<and> a_kind (m_artifact (n_marker n)) = kindSummary"

fun updateNote :: "string \<Rightarrow> marker \<Rightarrow> string \<Rightarrow> mrNote list \<Rightarrow> (mrNote \<times> mrNote list) option" where
  "updateNote author m body [] = None"
| "updateNote author m body (n # ns) =
     (if summaryOfBot author n
      then (let n' = n\<lparr>n_marker := m, n_body := body\<rparr> in Some (n', n' # ns))
      else map_option (\<lambda>(n', ns'). (n', n # ns')) (updateNote author m body ns))"

definition fakeUpsertComment :: "marker \<Rightarrow> string \<Rightarrow> (fakeForge, mrNote) io" where
  "fakeUpsertComment m body = (\<lambda>s.
     if a_kind (m_artifact m) \<noteq> kindSummary then (Inl ErrInvalidSummaryMarker, s)
     else case Envelope m body of
        Inl e \<Rightarrow> (Inl (envelopeError e), s)
      | Inr fullBody \<Rightarrow>
          (case updateNote (fk_bot s) m fullBody (fk_notes s) of
             Some (n, ns) \<Rightarrow>
               (Inr n, noteMutation (s\<lparr>fk_noteUpdates := Suc (fk_noteUpdates s), fk_notes := ns\<rparr>))
           | None \<Rightarrow>
               (let q = Suc (fk_seq s);
                    n = \<lparr>n_id = ''note/'' @ itoa (8000 + int q), n_marker = m, n_author = fk_bot s, n_body = fullBody\<rparr>
                in (Inr n, noteMutation (s\<lparr>fk_noteCreates := Suc (fk_noteCreates s), fk_seq := q,
                      fk_notes := fk_notes s @ [n]\<rparr>)))))"

definition fakeCurrentHeads :: "(fakeForge \<Rightarrow> fakeForge) \<Rightarrow> (fakeForge, string \<times> string \<times> string) io" where
  "fakeCurrentHeads race = (\<lambda>s. (Inr (fk_source s, fk_target s, fk_digest s), race s))"

fun resolveFirst :: "string \<Rightarrow> thread list \<Rightarrow> thread list" where
  "resolveFirst i [] = []"
| "resolveFirst i (t # ts) = (if t_id t = i then t\<lparr>t_resolved := True\<rparr> # ts else t # resolveFirst i ts)"

definition fakeResolveThread :: "string \<Rightarrow> (fakeForge, unit) io" where
  "fakeResolveThread i = (\<lambda>s.
     (Inr (), case find (\<lambda>t. t_id t = i) (fk_threads s) of
         Some t \<Rightarrow> if t_resolved t then s
                   else noteMutation (s\<lparr>fk_threads := resolveFirst i (fk_threads s)\<rparr>)
       | None \<Rightarrow> s))"

definition threadId :: "nat \<Rightarrow> string" where
  "threadId q = ''note/'' @ itoa (9000 + int q)"

definition fakeCreateThread :: "marker \<Rightarrow> string \<Rightarrow> (fakeForge, thread) io" where
  "fakeCreateThread m body = (\<lambda>s.
     case Envelope m body of
       Inl e \<Rightarrow> (Inl (envelopeError e), s)
     | Inr _ \<Rightarrow>
         (let q = Suc (fk_seq s);
              t = \<lparr>t_id = threadId q, t_marker = m, t_author = fk_bot s, t_resolved = False\<rparr>
          in (Inr t, noteMutation (s\<lparr>fk_seq := q, fk_threads := fk_threads s @ [t]\<rparr>))))"

definition fakeApprove :: "(fakeForge, string) io" where
  "fakeApprove = (\<lambda>s.
     (let q = Suc (fk_seq s); i = ''approval/'' @ itoa (8000 + int q)
      in (Inr i, s\<lparr>fk_seq := q, fk_approvals := fk_approvals s @ [i]\<rparr>)))"

definition fakeMergeCAS :: "desiredMerge \<Rightarrow> (fakeForge, string) io" where
  "fakeMergeCAS m = (\<lambda>s.
     if fk_merged s then (Inl (AdapterError ''fake: already merged''), s)
     else if dm_source m \<noteq> fk_source s \<or> dm_target m \<noteq> fk_target s \<or> dm_digest m \<noteq> fk_digest s
     then (Inl ErrSHAMoved, s)
     else (let q = Suc (fk_seq s); i = ''merge/'' @ itoa (7000 + int q)
           in (Inr i, s\<lparr>fk_seq := q, fk_merges := fk_merges s @ [i], fk_merged := True\<rparr>)))"

definition fakePort ::
    "(fakeForge \<Rightarrow> fakeForge) \<Rightarrow> (thread list \<Rightarrow> string + thread list) option \<Rightarrow> fakeForge forgePort" where
  "fakePort race relist =
     \<lparr>ListBotThreads = (\<lambda>_ _. fakeListBotThreads relist),
      CurrentHeads = (\<lambda>_ _. fakeCurrentHeads race),
      CreateThread = (\<lambda>_ _. fakeCreateThread),
      ResolveThread = (\<lambda>_ _. fakeResolveThread),
      Approve = (\<lambda>_ _. fakeApprove),
      MergeCAS = (\<lambda>_ _. fakeMergeCAS),
      ListBotNotes = (\<lambda>_ _. fakeListBotNotes),
      UpsertComment = (\<lambda>_ _. fakeUpsertComment),
      Warnings = None\<rparr>"

lemma fakePort_ops [simp]:
  "ListBotThreads (fakePort race relist) pr mr = fakeListBotThreads relist"
  "CurrentHeads (fakePort race relist) pr mr = fakeCurrentHeads race"
  "CreateThread (fakePort race relist) pr mr m b = fakeCreateThread m b"
  "ResolveThread (fakePort race relist) pr mr i = fakeResolveThread i"
  "Approve (fakePort race relist) pr mr = fakeApprove"
  "MergeCAS (fakePort race relist) pr mr dm = fakeMergeCAS dm"
  "ListBotNotes (fakePort race relist) pr mr = fakeListBotNotes"
  "UpsertComment (fakePort race relist) pr mr m b = fakeUpsertComment m b"
  "Warnings (fakePort race relist) = None"
  by (simp_all add: fakePort_def)

text \<open>The fake as tests configure it by default: no race, no simulated rescan.\<close>

definition plainFake :: "fakeForge forgePort" where
  "plainFake = fakePort (\<lambda>s. s) None"

subsection \<open>The read port\<close>

definition fakeCapabilities :: "fakeForge \<Rightarrow> capabilityReport" where
  "fakeCapabilities s =
     (if \<not> capIsZero (fk_capabilities s) then fk_capabilities s else AllUnknownCapabilityReport)"

definition fakeSnapshot :: "(thread list \<Rightarrow> string + thread list) option \<Rightarrow> (fakeForge, snapshot) io" where
  "fakeSnapshot relist = (\<lambda>s.
     case fk_filesErr s of
       Some e \<Rightarrow> (Inl (AdapterError e), s)
     | None \<Rightarrow> thenIO (fakeListBotThreads relist) (\<lambda>ts s'.
         (Inr \<lparr>sn_heads = \<lparr>h_source = fk_source s', h_target = fk_target s', h_sourceBranch = fk_sourceBranch s',
                  h_targetBranch = fk_targetBranch s', h_digest = fk_digest s', h_author = fk_author s',
                  h_labels = fk_labels s', h_fork = False\<rparr>,
               sn_changedFiles = sort (fk_changedFiles s'),
               sn_capabilities = fakeCapabilities s',
               sn_botThreads = sort_key t_id ts,
               sn_complete = (fk_gap s' = ''''),
               sn_gap = fk_gap s'\<rparr>, s')) s)"

definition fakeGetMR :: "fakeForge \<Rightarrow> forge_error + mrMetadata" where
  "fakeGetMR s =
     (if fk_fork s \<and> (fk_sourceProject s = '''' \<or> fk_sourceProject s = ''0'')
      then Inl (AdapterError (''fake: fork MR fixture has no source project id '' @ dash
             @ '' head content cannot be addressed (fail-closed)''))
      else Inr \<lparr>md_iid = fk_iid s, md_project = fk_project s, md_sourceBranch = fk_sourceBranch s,
                md_targetBranch = fk_targetBranch s, md_source = fk_source s, md_target = fk_target s,
                md_fork = fk_fork s, md_sourceProject = fk_sourceProject s, md_labels = fk_labels s\<rparr>)"

definition fakeResolveMode :: "fakeForge \<Rightarrow> string" where
  "fakeResolveMode s =
     (if fk_resolveMode s \<noteq> '''' then fk_resolveMode s
      else (let report = (if capIsZero (fk_capabilities s) then AllUnknownCapabilityReport else fk_capabilities s)
            in if capState report CapabilityEligibleApprovalEvidence \<noteq> CapabilitySupported
               then ''gap-free-tier'' else ''eligible''))"

definition eligibleEvidence :: "resolveRequest \<Rightarrow> approvalEvidence" where
  "eligibleEvidence req =
     \<lparr>ae_verifyingCapability = ''approval-rules-api'', ae_approvalsRequired = 1,
      ae_approvedBy = [\<lparr>ap_id = ''202'', ap_username = ''bob'', ap_isAuthor = False\<rparr>],
      ae_eligibility = [''101'', ''202''], ae_pinSourceSha = rr_source req, ae_expired = False\<rparr>"

definition fakeResolve :: "fakeForge \<Rightarrow> resolveRequest \<Rightarrow> resolveResult" where
  "fakeResolve s req =
     (if fakeResolveMode s = ''gap-free-tier''
      then ResolveWithGap \<lparr>cg_reason = GapFreeTierRequireReview, cg_subject = rr_subject req\<rparr>
      else ResolveWithEvidence (eligibleEvidence req))"

datatype read_error = Refused string | NotFound string string

definition SeedFileAtRef :: "string \<Rightarrow> string \<Rightarrow> string \<Rightarrow> fakeForge \<Rightarrow> fakeForge" where
  "SeedFileAtRef path side content s =
     s\<lparr>fk_files := (fk_files s)(path := (fk_files s path)(side \<mapsto> content))\<rparr>"

definition refused :: "fakeForge \<Rightarrow> string \<Rightarrow> string option" where
  "refused s path = fk_refused s path"

definition readSide :: "fakeForge \<Rightarrow> string \<Rightarrow> string \<Rightarrow> read_error + string" where
  "readSide s path side =
     (case refused s path of
        Some e \<Rightarrow> Inl (Refused e)
      | None \<Rightarrow> (case fk_files s path side of Some raw \<Rightarrow> Inr raw | None \<Rightarrow> Inl (NotFound path side)))"

definition FileAtRef :: "fakeForge \<Rightarrow> string \<Rightarrow> string \<Rightarrow> read_error + string" where
  "FileAtRef s path ref = readSide s path ref"

definition FileAtBase :: "fakeForge \<Rightarrow> string \<Rightarrow> read_error + string" where
  "FileAtBase s path = readSide s path ''base''"

definition FileAtHead :: "fakeForge \<Rightarrow> string \<Rightarrow> read_error + string" where
  "FileAtHead s path = readSide s path ''head''"

definition fakeIdentity :: "fakeForge \<Rightarrow> identity" where
  "fakeIdentity s = \<lparr>id_kind = ''user'', id_login = fk_bot s, id_id = fk_bot s\<rparr>"

end
