(* ===== verification/ForgeContract.thy ===== *)
theory ForgeContract
  imports ForgeFake
begin

text \<open>
  What \<open>Reconcile\<close> needs of a forge and what it guarantees on every forge that provides it:
  the locale \<open>forge_contract\<close> states the laws of the port's documentation, the lemmas inside
  it are the engine's guarantees, and the in-memory forge is the instance.
\<close>

subsection \<open>The rescan\<close>

text \<open>Sharing the array of \<open>matching\<close> does no harm: the verdict is the one intended.\<close>

lemma verify_None_iff:
  "verifyThreadRescan ts m mode = None \<longleftrightarrow>
     staleOccurrences m ts = []
     \<and> (case mode of
          rescanModePreserveResolved \<Rightarrow> (\<exists>t. occupantsOf m ts = [t] \<and> t_resolved t)
        | _ \<Rightarrow> (\<exists>t. [t \<leftarrow> occupantsOf m ts. \<not> t_resolved t] = [t]))"
proof (cases mode)
  case rescanModePreserveResolved
  have len: "length [t \<leftarrow> xs. \<not> t_resolved t] + (length xs - length [t \<leftarrow> xs. \<not> t_resolved t]) = length xs"
    for xs :: "thread list"
    using length_filter_le [of "\<lambda>t. \<not> t_resolved t" xs] by simp
  show ?thesis
  proof (cases "length (occupantsOf m ts) = 1")
    case True
    then obtain t where "occupantsOf m ts = [t]" by (auto simp: length_Suc_conv)
    then show ?thesis
      by (auto simp: verifyThreadRescan_def Let_def rescanModePreserveResolved split: list.splits)
  next
    case False
    then have "\<nexists>t. occupantsOf m ts = [t]" by auto
    with False len [of "occupantsOf m ts"] show ?thesis
      by (auto simp: verifyThreadRescan_def Let_def rescanModePreserveResolved split: list.splits)
  qed
qed (auto simp: verifyThreadRescan_def Let_def length_Suc_conv split: list.splits)

lemma rescanThreadDesired_Inr:
  "rescanThreadDesired p d m mode s = (Inr u, s') \<longleftrightarrow>
     (\<exists>ts. ListBotThreads p (d_project d) (d_mr d) s = (Inr ts, s') \<and> verifyThreadRescan ts m mode = None)"
  by (auto simp: rescanThreadDesired_def thenIO_Inr_iff split: option.splits)

lemma rescanClearSlot_Inr:
  "rescanClearSlot p d sl s = (Inr u, s') \<longleftrightarrow>
     (\<exists>ts. ListBotThreads p (d_project d) (d_mr d) s = (Inr ts, s') \<and> openInSlot sl ts = [])"
proof -
  have "(case xs of t # _ \<Rightarrow> failIO (e t) | [] \<Rightarrow> retIO ()) t0 = (Inr u, s') \<longleftrightarrow> xs = [] \<and> s' = t0"
    for xs :: "thread list" and e t0 by (cases xs) auto
  then show ?thesis by (auto simp: rescanClearSlot_def thenIO_Inr_iff)
qed

lemma threadReceipt_eq:
  "threadReceipt clock i s = (r, s') \<longleftrightarrow>
     s' = s \<and> r = Inr (receiptOf [\<lparr>o_kind = kindThread, o_target = i, o_performedAt = clock s\<rparr>])"
  by (auto simp: threadReceipt_def operationOf_def thenIO_def retIO_def)

lemma resolveEach_append:
  "resolveEach p d ctx (is @ js) = thenIO (resolveEach p d ctx is) (\<lambda>_. resolveEach p d ctx js)"
  by (induction "is") (auto simp: thenIO_def fun_eq_iff split: prod.splits sum.splits)

subsection \<open>Relations every step of a program keeps\<close>

named_theorems stays

definition keeps :: "('s \<Rightarrow> 's \<Rightarrow> bool) \<Rightarrow> ('s, 'a) io \<Rightarrow> bool" where
  "keeps R m \<longleftrightarrow> (\<forall>s. R s (snd (m s)))"

lemma keepsD: "keeps R m \<Longrightarrow> m s = (r, s') \<Longrightarrow> R s s'"
  by (metis keeps_def snd_conv)

lemma keepsI: "(\<And>s r s'. m s = (r, s') \<Longrightarrow> R s s') \<Longrightarrow> keeps R m"
  by (metis keeps_def prod.collapse)

lemma keeps_ret [stays]: "reflp R \<Longrightarrow> keeps R (retIO a)"
  by (auto simp: keeps_def retIO_def dest: reflpD)

lemma keeps_fail [stays]: "reflp R \<Longrightarrow> keeps R (failIO e)"
  by (auto simp: keeps_def failIO_def dest: reflpD)

lemma keeps_wrap [stays]: "keeps R m \<Longrightarrow> keeps R (wrapIO ctx m)"
  by (auto simp: keeps_def wrapIO_def split: prod.split sum.split) (metis snd_conv)+

lemma keeps_then [stays]: "transp R \<Longrightarrow> keeps R m \<Longrightarrow> (\<And>a. keeps R (k a)) \<Longrightarrow> keeps R (thenIO m k)"
proof (rule keepsI)
  fix s r s'
  assume tr: "transp R" and m: "keeps R m" and k: "\<And>a. keeps R (k a)" and e: "thenIO m k s = (r, s')"
  obtain x t where ms: "m s = (x, t)" by (cases "m s")
  have st: "R s t" by (rule keepsD [OF m ms])
  show "R s s'"
  proof (cases x)
    case (Inl err)
    with e ms st show ?thesis by (simp add: thenIO_def)
  next
    case (Inr a)
    then have "k a t = (r, s')" using e ms by (simp add: thenIO_def)
    then show ?thesis using transpD [OF tr st] keepsD [OF k] by blast
  qed
qed

lemma keeps_operationOf [stays]: "reflp R \<Longrightarrow> keeps R (operationOf clock kd i)"
  by (auto simp: keeps_def operationOf_def dest: reflpD)

lemma keeps_threadReceipt [stays]: "reflp R \<Longrightarrow> keeps R (threadReceipt clock i)"
  by (rule keepsI) (auto simp: threadReceipt_eq dest: reflpD)

lemma keeps_resolveEach [stays]:
  "reflp R \<Longrightarrow> transp R \<Longrightarrow> (\<And>i. keeps R (ResolveThread p (d_project d) (d_mr d) i)) \<Longrightarrow> keeps R (resolveEach p d ctx is)"
  by (induction "is") (auto intro!: stays)

lemma keeps_rescan [stays]:
  "reflp R \<Longrightarrow> transp R \<Longrightarrow> keeps R (ListBotThreads p (d_project d) (d_mr d)) \<Longrightarrow> keeps R (rescanThreadDesired p d m mode)"
  unfolding rescanThreadDesired_def by (auto intro!: stays split: option.split)

lemma keeps_rescanClear [stays]:
  "reflp R \<Longrightarrow> transp R \<Longrightarrow> keeps R (ListBotThreads p (d_project d) (d_mr d)) \<Longrightarrow> keeps R (rescanClearSlot p d sl)"
  unfolding rescanClearSlot_def by (auto intro!: stays split: list.split)

lemma keeps_repair [stays]:
  "reflp R \<Longrightarrow> transp R \<Longrightarrow> (\<And>i. keeps R (ResolveThread p (d_project d) (d_mr d) i)) \<Longrightarrow> keeps R (repairDuplicates p clock d os)"
  unfolding repairDuplicates_def Let_def by (auto intro!: stays)

lemma keeps_reconcileThread:
  assumes "reflp R" "transp R" "keeps R (ListBotThreads p (d_project d) (d_mr d))"
    "\<And>i. keeps R (ResolveThread p (d_project d) (d_mr d) i)"
    "\<And>m b. keeps R (CreateThread p (d_project d) (d_mr d) m b)"
  shows "keeps R (reconcileThread p clock d dt)"
  unfolding reconcileThread_def publishThread_def using assms by (auto intro!: stays split: list.split)

lemma keeps_reconcileClearSlot:
  assumes "reflp R" "transp R" "keeps R (ListBotThreads p (d_project d) (d_mr d))"
    "\<And>i. keeps R (ResolveThread p (d_project d) (d_mr d) i)"
  shows "keeps R (reconcileClearSlot p clock d sl)"
  unfolding reconcileClearSlot_def using assms by (auto intro!: stays split: list.split)

lemma keeps_preamble:
  assumes "reflp R" "transp R" "keeps R (ListBotNotes p (d_project d) (d_mr d))"
    "\<And>m b. keeps R (UpsertComment p (d_project d) (d_mr d) m b)"
  shows "keeps R (preamble p clock d)"
  unfolding preamble_def reconcileSummaryPreamble_def reconcileSummary_def
  using assms by (auto intro!: stays split: option.split)

lemma keeps_approveMerge:
  assumes "reflp R" "transp R" "keeps R (CurrentHeads p (d_project d) (d_mr d))"
    "keeps R (Approve p (d_project d) (d_mr d))" "keeps R (MergeCAS p (d_project d) (d_mr d) m)"
  shows "keeps R (reconcileApproveMerge p clock d pre m)"
  unfolding reconcileApproveMerge_def using assms by (auto intro!: stays split: prod.split)

lemma keeps_Reconcile:
  assumes R: "reflp R" "transp R" "keeps R (ListBotThreads p (d_project d) (d_mr d))"
    "\<And>i. keeps R (ResolveThread p (d_project d) (d_mr d) i)"
    "\<And>m b. keeps R (CreateThread p (d_project d) (d_mr d) m b)"
    "keeps R (ListBotNotes p (d_project d) (d_mr d))"
    "\<And>m b. keeps R (UpsertComment p (d_project d) (d_mr d) m b)"
    "keeps R (CurrentHeads p (d_project d) (d_mr d))"
    "keeps R (Approve p (d_project d) (d_mr d))" "\<And>m. keeps R (MergeCAS p (d_project d) (d_mr d) m)"
  shows "R s (snd (Reconcile p clock d pre s))"
proof (cases "reconcilePathOf d")
  case (Inl e)
  with R(1) show ?thesis by (simp add: Reconcile_def reflpD)
next
  case (Inr path)
  have "keeps R (runPath p clock d pre path)"
    unfolding runPath_def
    by (cases path) (simp_all add: keeps_reconcileThread keeps_reconcileClearSlot keeps_approveMerge R)
  then have "keeps R (thenIO (preamble p clock d)
      (\<lambda>ops. thenIO (runPath p clock d pre path) (\<lambda>r. retIO (withPreamble ops r))))"
    using R by (auto intro!: stays keeps_preamble)
  then show ?thesis using Inr by (auto simp: Reconcile_def keeps_def split: prod.split sum.split) (metis snd_conv)+
qed

subsection \<open>The contract\<close>

text \<open>
  \<open>bots\<close> is the author-filtered listing, \<open>heads\<close> the current source, target and merge-result
  pins, \<open>approvals\<close> and \<open>merges\<close> the writes recorded so far; \<open>wf\<close> is the forge's own invariant
  (unique ids). A failing call leaves the threads alone.
\<close>

definition closing :: "string \<Rightarrow> thread \<Rightarrow> thread" where
  "closing i t = (if t_id t = i then t\<lparr>t_resolved := True\<rparr> else t)"

definition closings :: "string list \<Rightarrow> thread \<Rightarrow> thread" where
  "closings is t = (if t_id t \<in> set is then t\<lparr>t_resolved := True\<rparr> else t)"

lemma closings_simps [simp]:
  "t_id (closings is t) = t_id t" "t_marker (closings is t) = t_marker t" "t_author (closings is t) = t_author t"
  "t_resolved (closings is t) \<longleftrightarrow> t_resolved t \<or> t_id t \<in> set is"
  by (simp_all add: closings_def)

lemma closings_Nil [simp]: "closings [] = (\<lambda>t. t)"
  by (simp add: closings_def fun_eq_iff)

lemma closings_Cons: "closings is (closing i t) = closings (i # is) t"
  by (cases t) (simp add: closings_def closing_def)

lemma closings_append: "closings js (closings is t) = closings (is @ js) t"
  by (cases t) (simp add: closings_def)

lemma closings_idle: "(t_id t \<in> set is \<Longrightarrow> t_resolved t) \<Longrightarrow> closings is t = t"
  by (cases t) (simp add: closings_def)

lemma occupantsOf_map [simp]: "occupantsOf m (map (closings is) ts) = map (closings is) (occupantsOf m ts)"
  by (simp add: occupantsOf_def filter_map comp_def)

lemma canonicalOf_closings: "canonicalOf (closings is t) (map (closings is) ts) = closings is (canonicalOf t ts)"
  by (induction ts arbitrary: t) (auto simp: canonicalOf_def)

lemma canonicalOf_map: "t_id (canonicalOf (closings is t) (map (closings is) ts)) = t_id (canonicalOf t ts)"
  by (simp add: canonicalOf_closings)

lemma canonicalOf_in: "canonicalOf t ts \<in> insert t (set ts)"
  by (induction ts arbitrary: t) (auto simp: canonicalOf_def)

lemma repairsOf_map: "t_id c' = t_id c \<Longrightarrow> repairsOf c' (map (closings is) ts) = repairsOf c ts"
  by (induction ts) (auto simp: repairsOf_def)

lemma Reconcile_cases:
  assumes "Reconcile p clock d pre s = ((rc, err), s')"
  obtains (unsupported) e where "reconcilePathOf d = Inl e" "err = Some e" "s' = s"
      "rc = withWarnings p s' emptyReceipt"
  | (preamble) path e where "reconcilePathOf d = Inr path" "preamble p clock d s = (Inl e, s')" "err = Some e"
      "rc = withWarnings p s' emptyReceipt"
  | (path) path ops t e where "reconcilePathOf d = Inr path" "preamble p clock d s = (Inr ops, t)"
      "runPath p clock d pre path t = (Inl e, s')" "err = Some e" "rc = withWarnings p s' emptyReceipt"
  | (finished) path ops t r where "reconcilePathOf d = Inr path" "preamble p clock d s = (Inr ops, t)"
      "runPath p clock d pre path t = (Inr r, s')" "err = None" "rc = withWarnings p s' (withPreamble ops r)"
proof (cases "reconcilePathOf d")
  case (Inl e)
  with assms show thesis by (intro unsupported [of e]) (auto simp: Reconcile_def)
next
  case (Inr path)
  obtain q t where q: "preamble p clock d s = (q, t)" by (cases "preamble p clock d s")
  show thesis
  proof (cases q)
    case (Inl e)
    with assms Inr q show thesis by (intro preamble [of path e]) (auto simp: Reconcile_def thenIO_def)
  next
    case ops: (Inr ops)
    obtain x u where x: "runPath p clock d pre path t = (x, u)" by (cases "runPath p clock d pre path t")
    show thesis
      using assms Inr q ops x path [of path ops t] finished [of path ops t]
      by (cases x) (auto simp: Reconcile_def thenIO_def retIO_def)
  qed
qed

locale forge_contract =
  fixes p :: "'s forgePort"
    and wf :: "'s \<Rightarrow> bool"
    and bots :: "'s \<Rightarrow> thread list"
    and heads :: "'s \<Rightarrow> string \<times> string \<times> string"
    and approvals merges :: "'s \<Rightarrow> string list"
  assumes list_threads: "wf s \<Longrightarrow> ListBotThreads p pr mr s = (r, s') \<Longrightarrow>
        wf s' \<and> bots s' = bots s \<and> heads s' = heads s \<and> approvals s' = approvals s \<and> merges s' = merges s
        \<and> (\<forall>ts. r = Inr ts \<longrightarrow> ts = bots s)"
    and list_notes: "wf s \<Longrightarrow> ListBotNotes p pr mr s = (rn, s') \<Longrightarrow>
        wf s' \<and> bots s' = bots s \<and> heads s' = heads s \<and> approvals s' = approvals s \<and> merges s' = merges s"
    and upsert: "wf s \<Longrightarrow> UpsertComment p pr mr m b s = (ru, s') \<Longrightarrow>
        wf s' \<and> bots s' = bots s \<and> heads s' = heads s \<and> approvals s' = approvals s \<and> merges s' = merges s"
    and read_heads: "wf s \<Longrightarrow> CurrentHeads p pr mr s = (rh, s') \<Longrightarrow>
        wf s' \<and> bots s' = bots s \<and> approvals s' = approvals s \<and> merges s' = merges s
        \<and> (\<forall>h. rh = Inr h \<longrightarrow> h = heads s)"
    and create: "wf s \<Longrightarrow> CreateThread p pr mr m b s = (rc, s') \<Longrightarrow>
        wf s' \<and> heads s' = heads s \<and> approvals s' = approvals s \<and> merges s' = merges s
        \<and> (case rc of
              Inl e \<Rightarrow> bots s' = bots s
            | Inr t \<Rightarrow> bots s' = bots s @ [t] \<and> t_marker t = m \<and> \<not> t_resolved t)"
    and resolve: "wf s \<Longrightarrow> ResolveThread p pr mr i s = (rr, s') \<Longrightarrow>
        wf s' \<and> heads s' = heads s \<and> approvals s' = approvals s \<and> merges s' = merges s
        \<and> bots s' = (case rr of Inl e \<Rightarrow> bots s | Inr _ \<Rightarrow> map (closing i) (bots s))"
    and approve: "wf s \<Longrightarrow> Approve p pr mr s = (ra, s') \<Longrightarrow>
        wf s' \<and> bots s' = bots s \<and> heads s' = heads s \<and> merges s' = merges s
        \<and> approvals s' = (case ra of Inl e \<Rightarrow> approvals s | Inr i \<Rightarrow> approvals s @ [i])"
    and merge: "wf s \<Longrightarrow> MergeCAS p pr mr dm s = (rm, s') \<Longrightarrow>
        wf s' \<and> bots s' = bots s \<and> heads s' = heads s \<and> approvals s' = approvals s
        \<and> (case rm of
              Inl e \<Rightarrow> merges s' = merges s
            | Inr i \<Rightarrow> merges s' = merges s @ [i] \<and> heads s = (dm_source dm, dm_target dm, dm_digest dm))"
    and unique: "wf s \<Longrightarrow> distinct (map t_id (bots s))"
begin

definition quiet :: "'s \<Rightarrow> 's \<Rightarrow> bool" where
  "quiet s s' \<longleftrightarrow>
     (wf s \<longrightarrow> wf s' \<and> heads s' = heads s \<and> approvals s' = approvals s \<and> merges s' = merges s)"

definition calm :: "'s \<Rightarrow> 's \<Rightarrow> bool" where
  "calm s s' \<longleftrightarrow> quiet s s' \<and> (wf s \<longrightarrow> bots s' = bots s)"

lemma quiet_order: "reflp quiet" "transp quiet"
  by (auto simp: quiet_def reflp_def transp_def)

lemma calm_order: "reflp calm" "transp calm"
  by (auto simp: calm_def quiet_def reflp_def transp_def)

lemma calm_list: "keeps calm (ListBotThreads p pr mr)"
  by (rule keepsI) (auto simp: calm_def quiet_def dest: list_threads)

lemma quiet_list: "keeps quiet (ListBotThreads p pr mr)"
  by (rule keepsI) (auto simp: quiet_def dest: list_threads)

lemma quiet_resolve: "keeps quiet (ResolveThread p pr mr i)"
  by (rule keepsI) (auto simp: quiet_def dest: resolve)

lemma quiet_create: "keeps quiet (CreateThread p pr mr m b)"
  by (rule keepsI) (auto simp: quiet_def dest: create)

lemmas quiet_ops = quiet_list quiet_resolve quiet_create

lemma calm_notes: "keeps calm (ListBotNotes p pr mr)" "keeps calm (UpsertComment p pr mr m b)"
  by (rule keepsI, auto simp: calm_def quiet_def dest: list_notes upsert)+

lemma thread_quiet: "keeps quiet (reconcileThread p clock d dt)"
  by (rule keeps_reconcileThread [OF quiet_order quiet_ops])

lemma clear_quiet: "keeps quiet (reconcileClearSlot p clock d sl)"
  by (rule keeps_reconcileClearSlot [OF quiet_order quiet_ops(1,2)])

lemma preamble_calm: "keeps calm (preamble p clock d)"
  by (rule keeps_preamble [OF calm_order calm_notes])

lemma rescan_listed:
  "wf s \<Longrightarrow> rescanThreadDesired p d m mode s = (Inr u, s') \<Longrightarrow>
     verifyThreadRescan (bots s') m mode = None \<and> bots s' = bots s \<and> wf s'"
  by (auto simp: rescanThreadDesired_Inr dest: list_threads)

lemma rescan_clear_listed:
  "wf s \<Longrightarrow> rescanClearSlot p d sl s = (Inr u, s') \<Longrightarrow> openInSlot sl (bots s') = [] \<and> bots s' = bots s \<and> wf s'"
  by (auto simp: rescanClearSlot_Inr dest: list_threads)

lemma rescan_calm: "keeps calm (rescanThreadDesired p d m mode)"
  by (rule keeps_rescan [OF calm_order calm_list])

lemma resolveEach_closes:
  "wf s \<Longrightarrow> resolveEach p d ctx is s = (Inr u, s') \<Longrightarrow> wf s' \<and> bots s' = map (closings is) (bots s)"
proof (induction "is" arbitrary: s)
  case (Cons i js)
  then obtain v t where t: "ResolveThread p (d_project d) (d_mr d) i s = (Inr v, t)"
      "resolveEach p d ctx js t = (Inr u, s')"
    by (auto simp: thenIO_Inr_iff)
  with Cons.prems resolve [of s "d_project d" "d_mr d" i "Inr v" t] Cons.IH [of t] show ?case
    by (simp add: closings_Cons)
qed simp

text \<open>The approve-and-merge path: what has been written, on success and on every failure.\<close>

lemma approve_refused:
  assumes "\<not> (p_armEligible pre \<and> completeForMerge pre \<and> dm_source m = p_source pre
      \<and> dm_target m = p_target pre \<and> dm_digest m = p_digest pre)"
  shows "\<exists>e. reconcileApproveMerge p clock d pre m = failIO e"
  using assms by (auto simp: reconcileApproveMerge_def)

lemma approve_effect:
  assumes w: "wf s" and run: "reconcileApproveMerge p clock d pre m s = (r, s')"
  shows "wf s' \<and> bots s' = bots s \<and>
    (case r of
       Inr rc \<Rightarrow> heads s' = (dm_source m, dm_target m, dm_digest m)
         \<and> (\<exists>a i. approvals s' = approvals s @ [a] \<and> merges s' = merges s @ [i])
     | Inl e \<Rightarrow> merges s' = merges s
         \<and> (approvals s' = approvals s
            \<or> (heads s = (dm_source m, dm_target m, dm_digest m) \<and> (\<exists>a. approvals s' = approvals s @ [a]))))"
proof (cases "p_armEligible pre \<and> completeForMerge pre \<and> dm_source m = p_source pre
      \<and> dm_target m = p_target pre \<and> dm_digest m = p_digest pre")
  case False
  then obtain e where "reconcileApproveMerge p clock d pre m = failIO e" using approve_refused by blast
  with run w show ?thesis by auto
next
  case gates: True
  obtain rh t1 where h: "CurrentHeads p (d_project d) (d_mr d) s = (rh, t1)"
    by (cases "CurrentHeads p (d_project d) (d_mr d) s")
  note h' = read_heads [OF w h]
  show ?thesis
  proof (cases "rh = Inr (dm_source m, dm_target m, dm_digest m)")
    case False
    with run gates h h' w show ?thesis
      by (cases rh) (auto simp: reconcileApproveMerge_def thenIO_def wrapIO_def failIO_def split: prod.splits if_splits)
  next
    case pinned: True
    obtain ra t2 where a: "Approve p (d_project d) (d_mr d) t1 = (ra, t2)"
      by (cases "Approve p (d_project d) (d_mr d) t1")
    obtain rm t3 where g: "MergeCAS p (d_project d) (d_mr d) m t2 = (rm, t3)"
      by (cases "MergeCAS p (d_project d) (d_mr d) m t2")
    have w1: "wf t1" using h' by blast
    note a' = approve [OF w1 a]
    have w2: "wf t2" using a' by blast
    note g' = merge [OF w2 g]
    show ?thesis
      using run gates h h' pinned a a' g g'
      by (cases ra; cases rm)
        (auto simp: reconcileApproveMerge_def thenIO_def wrapIO_def operationOf_def retIO_def)
  qed
qed

text \<open>The thread path: what the rescan has established, and that running again changes nothing.\<close>

lemma thread_start:
  assumes w: "wf s" and run: "reconcileThread p clock d dt s = (Inr rc, s')"
  obtains t where "wf t"
    "bots t = map (closings (map t_id (staleOccurrences (dt_marker dt) (bots s)))) (bots s)"
    "publishThread p clock d dt (occupantsOf (dt_marker dt) (bots s)) t = (Inr rc, s')"
proof -
  obtain ts t0 u t1 where l: "ListBotThreads p (d_project d) (d_mr d) s = (Inr ts, t0)"
    and e: "resolveEach p d ''resolve stale occurrence '' (map t_id (staleOccurrences (dt_marker dt) ts)) t0 = (Inr u, t1)"
    and k: "publishThread p clock d dt (occupantsOf (dt_marker dt) ts) t1 = (Inr rc, s')"
    using run by (auto simp: reconcileThread_def thenIO_Inr_iff)
  from list_threads [OF w l] have q: "wf t0" "ts = bots s" "bots t0 = bots s" by auto
  with resolveEach_closes [OF q(1) e] k that [of t1] show thesis by auto
qed

lemma publish_created:
  assumes w: "wf t" and run: "publishThread p clock d dt [] t = (Inr rc, s')"
  obtains c where "wf s'" "bots s' = bots t @ [c]" "t_marker c = dt_marker dt" "\<not> t_resolved c"
    "map o_target (pr_operations rc) = [t_id c]" "pr_repairs rc = []"
    "verifyThreadRescan (bots s') (dt_marker dt) rescanModeOpen = None"
proof -
  obtain c t1 u where c: "CreateThread p (d_project d) (d_mr d) (dt_marker dt) (dt_body dt) t = (Inr c, t1)"
    and v: "rescanThreadDesired p d (dt_marker dt) rescanModeOpen t1 = (Inr u, s')"
    and r: "rc = receiptOf [\<lparr>o_kind = kindThread, o_target = t_id c, o_performedAt = clock t1\<rparr>]"
    using run by (auto simp: publishThread_def thenIO_Inr_iff threadReceipt_eq)
  from create [OF w c] have q: "wf t1" "bots t1 = bots t @ [c]" "t_marker c = dt_marker dt" "\<not> t_resolved c"
    by auto
  from rescan_listed [OF q(1) v] q r show thesis by (intro that [of c]) (auto simp: receiptOf_def)
qed

lemma publish_reused:
  assumes w: "wf t" and run: "publishThread p clock d dt [u] t = (Inr rc, s')"
  shows "wf s' \<and> bots s' = bots t \<and> map o_target (pr_operations rc) = [t_id u] \<and> pr_repairs rc = []
    \<and> verifyThreadRescan (bots s') (dt_marker dt)
        (if t_resolved u then rescanModePreserveResolved else rescanModeOpen) = None"
proof -
  obtain v where v: "rescanThreadDesired p d (dt_marker dt)
        (if t_resolved u then rescanModePreserveResolved else rescanModeOpen) t = (Inr v, s')"
    and r: "rc = receiptOf [\<lparr>o_kind = kindThread, o_target = t_id u, o_performedAt = clock t\<rparr>]"
    using run unfolding publishThread_def thenIO_Inr_iff threadReceipt_eq list.case by auto
  from rescan_listed [OF w v] r show ?thesis by (auto simp: receiptOf_def)
qed

lemma publish_repaired:
  assumes w: "wf t" and run: "publishThread p clock d dt (u # v # us) t = (Inr rc, s')"
  defines "c \<equiv> canonicalOf u (v # us)"
  shows "wf s' \<and> bots s' = map (closings (map rp_repaired (repairsOf c (u # v # us)))) (bots t)
    \<and> map o_target (pr_operations rc) = [t_id c]
    \<and> pr_repairs rc = sort_key (\<lambda>x. forgeIDNum (rp_repaired x)) (repairsOf c (u # v # us))
    \<and> verifyThreadRescan (bots s') (dt_marker dt) rescanModeRepair = None"
proof -
  let ?rs = "repairsOf c (u # v # us)"
  obtain r t1 x y where e: "resolveEach p d ''resolve duplicate '' (map rp_repaired ?rs) t = (Inr x, t1)"
    and v: "rescanThreadDesired p d (dt_marker dt) rescanModeRepair t1 = (Inr y, s')"
    and r: "rc = (receiptOf [\<lparr>o_kind = kindThread, o_target = t_id c, o_performedAt = clock t1\<rparr>])
               \<lparr>pr_repairs := sort_key (\<lambda>x. forgeIDNum (rp_repaired x)) ?rs\<rparr>"
    using run unfolding publishThread_def repairDuplicates_def Let_def c_def thenIO_Inr_iff threadReceipt_eq
      list.case list.sel by auto
  from resolveEach_closes [OF w e] rescan_listed [OF _ v] r show ?thesis by (auto simp: receiptOf_def)
qed

text \<open>Success on the thread path is what the forge lists, in the state the run leaves.\<close>

lemma thread_post:
  assumes w: "wf s" and run: "reconcileThread p clock d dt s = (Inr rc, s')"
  shows "wf s' \<and> staleOccurrences (dt_marker dt) (bots s') = []
    \<and> ((\<exists>t. [t \<leftarrow> occupantsOf (dt_marker dt) (bots s'). \<not> t_resolved t] = [t])
       \<or> (\<exists>t. occupantsOf (dt_marker dt) (bots s') = [t] \<and> t_resolved t
             \<and> (\<exists>t0. occupantsOf (dt_marker dt) (bots s) = [t0] \<and> t_resolved t0)))"
proof -
  obtain t where t: "wf t" "publishThread p clock d dt (occupantsOf (dt_marker dt) (bots s)) t = (Inr rc, s')"
    using thread_start [OF w run] by blast
  consider "occupantsOf (dt_marker dt) (bots s) = []"
    | u where "occupantsOf (dt_marker dt) (bots s) = [u]"
    | u v us where "occupantsOf (dt_marker dt) (bots s) = u # v # us"
    by (metis list.exhaust)
  then show ?thesis
  proof cases
    case 1
    from t(2) [unfolded 1] show ?thesis
      by (rule publish_created [OF t(1)]) (simp add: verify_None_iff)
  next
    case (2 u)
    with t publish_reused [OF t(1), of clock d dt u rc s'] show ?thesis
      by (cases "t_resolved u") (auto simp: verify_None_iff)
  next
    case (3 u v us)
    with t publish_repaired [OF t(1), of clock d dt u v us rc s'] show ?thesis
      by (auto simp: verify_None_iff)
  qed
qed

lemma thread_clean_start:
  assumes w: "wf s" and clean: "staleOccurrences (dt_marker dt) (bots s) = []"
    and run: "reconcileThread p clock d dt s = (Inr rc, s')"
  obtains t where "wf t" "bots t = bots s"
    "publishThread p clock d dt (occupantsOf (dt_marker dt) (bots s)) t = (Inr rc, s')"
  using thread_start [OF w run] clean by auto

text \<open>Running the same review again changes no thread and reports the same artifacts.\<close>

lemma thread_again:
  assumes w: "wf s" and run: "reconcileThread p clock d dt s = (Inr rc, s')"
    and u: "wf u" "bots u = bots s'"
    and again: "reconcileThread p clock d dt u = (Inr rc2, s'')"
  shows "bots s'' = bots s' \<and> map o_target (pr_operations rc2) = map o_target (pr_operations rc)
    \<and> pr_repairs rc2 = pr_repairs rc"
proof -
  let ?m = "dt_marker dt"
  have clean: "staleOccurrences ?m (bots u) = []" using thread_post [OF w run] u by auto
  obtain t where t: "wf t" "bots t = map (closings (map t_id (staleOccurrences ?m (bots s)))) (bots s)"
      "publishThread p clock d dt (occupantsOf ?m (bots s)) t = (Inr rc, s')"
    using thread_start [OF w run] by blast
  obtain t' where t': "wf t'" "bots t' = bots s'"
      "publishThread p clock d dt (occupantsOf ?m (bots s')) t' = (Inr rc2, s'')"
    using thread_clean_start [OF u(1) clean again] u(2) by auto
  consider "occupantsOf ?m (bots s) = []" | u where "occupantsOf ?m (bots s) = [u]"
    | u v us where "occupantsOf ?m (bots s) = u # v # us"
    by (metis list.exhaust)
  then show ?thesis
  proof cases
    case 1
    obtain c where c: "bots s' = bots t @ [c]" "t_marker c = ?m" "map o_target (pr_operations rc) = [t_id c]"
        "pr_repairs rc = []"
      by (rule publish_created [OF t(1) t(3) [unfolded 1]])
    have "occupantsOf ?m (bots t) = []" using t(2) 1 by simp
    then have "occupantsOf ?m (bots s') = [c]" using c by (simp add: occupantsOf_def)
    with publish_reused [OF t'(1), of clock d dt c rc2 s''] t' c show ?thesis by simp
  next
    case (2 u)
    have p: "bots s' = bots t" "map o_target (pr_operations rc) = [t_id u]" "pr_repairs rc = []"
      using publish_reused [OF t(1) t(3) [unfolded 2]] by auto
    then have "occupantsOf ?m (bots s') = [closings (map t_id (staleOccurrences ?m (bots s))) u]"
      using t(2) 2 by simp
    with publish_reused [OF t'(1)] t' p show ?thesis by fastforce
  next
    case (3 u v us)
    define c where "c = canonicalOf u (v # us)"
    define stale where "stale = map t_id (staleOccurrences ?m (bots s))"
    define reps where "reps = map rp_repaired (repairsOf c (u # v # us))"
    have p: "bots s' = map (closings reps) (bots t)" "map o_target (pr_operations rc) = [t_id c]"
        "pr_repairs rc = sort_key (\<lambda>x. forgeIDNum (rp_repaired x)) (repairsOf c (u # v # us))"
      using publish_repaired [OF t(1) t(3) [unfolded 3]] by (auto simp: c_def reps_def)
    have b: "bots s' = map (closings (stale @ reps)) (bots s)"
      using p(1) t(2) by (simp add: closings_append stale_def)
    let ?f = "closings (stale @ reps)"
    have o: "occupantsOf ?m (bots s') = ?f u # ?f v # map ?f us" using b 3 by simp
    define c' where "c' = canonicalOf (?f u) (?f v # map ?f us)"
    have id': "t_id c' = t_id c"
      using canonicalOf_map [of "stale @ reps" u "v # us"] by (simp add: c'_def c_def)
    have r: "repairsOf c' (?f u # ?f v # map ?f us) = repairsOf c (u # v # us)"
      using repairsOf_map [OF id', of "stale @ reps" "u # v # us"] by simp
    have p': "bots s'' = map (closings reps) (bots t')" "map o_target (pr_operations rc2) = [t_id c']"
        "pr_repairs rc2 = sort_key (\<lambda>x. forgeIDNum (rp_repaired x)) (repairsOf c (u # v # us))"
      using publish_repaired [OF t'(1) t'(3) [unfolded o]] r by (auto simp: c'_def reps_def)
    have "map (closings reps) (bots s') = bots s'"
      unfolding b by (simp add: closings_append)
    with p p' id' t'(2) show ?thesis by simp
  qed
qed

text \<open>Whatever the outcome, a thread is added only where the slot had no occupant.\<close>

definition marked :: "'s \<Rightarrow> 's \<Rightarrow> bool" where
  "marked s s' \<longleftrightarrow> (wf s \<longrightarrow> wf s' \<and> map t_marker (bots s') = map t_marker (bots s))"

lemma marked_order: "reflp marked" "transp marked"
  by (auto simp: marked_def reflp_def transp_def)

lemma marked_list: "keeps marked (ListBotThreads p pr mr)"
  by (rule keepsI) (auto simp: marked_def dest: list_threads)

lemma marked_resolve: "keeps marked (ResolveThread p pr mr i)"
proof (rule keepsI)
  fix s r s' assume c: "ResolveThread p pr mr i s = (r, s')"
  have "map t_marker (map (closing i) ts) = map t_marker ts" for ts
    by (simp add: closing_def comp_def)
  with resolve [OF _ c] show "marked s s'" by (cases r) (simp_all add: marked_def)
qed

lemma marked_clear: "keeps marked (reconcileClearSlot p clock d sl)"
  by (rule keeps_reconcileClearSlot [OF marked_order marked_list marked_resolve])

lemma thread_markers:
  assumes w: "wf s" and run: "reconcileThread p clock d dt s = (r, s')"
  shows "wf s' \<and> (map t_marker (bots s') = map t_marker (bots s)
      \<or> (occupantsOf (dt_marker dt) (bots s) = [] \<and> map t_marker (bots s') = map t_marker (bots s) @ [dt_marker dt]))"
proof -
  obtain x t where l: "ListBotThreads p (d_project d) (d_mr d) s = (x, t)"
    by (cases "ListBotThreads p (d_project d) (d_mr d) s")
  note l' = list_threads [OF w l]
  show ?thesis
  proof (cases x)
    case (Inl e)
    with run l l' show ?thesis by (auto simp: reconcileThread_def thenIO_def wrapIO_def)
  next
    case (Inr ts)
    let ?is = "map t_id (staleOccurrences (dt_marker dt) (bots s))"
    obtain y t1 where e: "resolveEach p d ''resolve stale occurrence '' ?is t = (y, t1)"
      by (cases "resolveEach p d ''resolve stale occurrence '' ?is t")
    have t1: "wf t1" "map t_marker (bots t1) = map t_marker (bots s)"
      using keepsD [OF keeps_resolveEach [OF marked_order marked_resolve] e] l' by (auto simp: marked_def)
    show ?thesis
    proof (cases y)
      case (Inl e')
      with run l Inr l' e t1 show ?thesis by (auto simp: reconcileThread_def thenIO_def wrapIO_def)
    next
      case y: (Inr u)
      have k: "publishThread p clock d dt (occupantsOf (dt_marker dt) (bots s)) t1 = (r, s')"
        using run l Inr l' e y by (auto simp: reconcileThread_def thenIO_def wrapIO_def)
      show ?thesis
      proof (cases "occupantsOf (dt_marker dt) (bots s)")
        case Nil
        obtain z t2 where c: "CreateThread p (d_project d) (d_mr d) (dt_marker dt) (dt_body dt) t1 = (z, t2)"
          by (cases "CreateThread p (d_project d) (d_mr d) (dt_marker dt) (dt_body dt) t1")
        have "calm t2 s' \<or> (t2 = s' \<and> bots t2 = bots t1)"
          using k Nil c create [OF t1(1) c] keepsD [OF rescan_calm, of d "dt_marker dt" rescanModeOpen t2]
          by (auto simp: publishThread_def thenIO_def wrapIO_def threadReceipt_def operationOf_def retIO_def
              split: sum.splits prod.splits)
        with create [OF t1(1) c] t1(2) Nil show ?thesis
          by (cases z) (auto simp: calm_def quiet_def)
      next
        case (Cons v vs)
        have "keeps marked (publishThread p clock d dt (v # vs))"
          unfolding publishThread_def
          using marked_order marked_list marked_resolve by (cases vs) (auto intro!: stays)
        from keepsD [OF this] k Cons t1 show ?thesis by (auto simp: marked_def)
      qed
    qed
  qed
qed

lemma clear_post:
  assumes w: "wf s" and run: "reconcileClearSlot p clock d sl s = (Inr rc, s')"
  shows "wf s' \<and> openInSlot sl (bots s') = []"
proof -
  obtain t r u where t: "wf t" "rescanClearSlot p d sl t = (Inr u, s')"
  proof -
    obtain ts t0 where l: "ListBotThreads p (d_project d) (d_mr d) s = (Inr ts, t0)"
      using run by (auto simp: reconcileClearSlot_def thenIO_Inr_iff)
    then have w0: "wf t0" and ts: "ts = bots s" using list_threads [OF w l] by auto
    consider "openInSlot sl ts = []" | t where "openInSlot sl ts = [t]"
      | t v vs where "openInSlot sl ts = t # v # vs" by (metis list.exhaust)
    then show thesis
    proof cases
      case 1
      then obtain v vs where v: "[t \<leftarrow> ts. m_slot (t_marker t) = sl] = v # vs"
        using run l by (cases "[t \<leftarrow> ts. m_slot (t_marker t) = sl]") (auto simp: reconcileClearSlot_def thenIO_Inr_iff)
      then show thesis
        using run l 1 w0 that by (auto simp: reconcileClearSlot_def thenIO_Inr_iff threadReceipt_eq)
    next
      case (2 t)
      then obtain x t1 u where "ResolveThread p (d_project d) (d_mr d) (t_id t) t0 = (Inr x, t1)"
          "rescanClearSlot p d sl t1 = (Inr u, s')"
        using run l by (auto simp: reconcileClearSlot_def thenIO_Inr_iff threadReceipt_eq)
      with resolve [OF w0] that show thesis by blast
    next
      case 3
      with run l show thesis by (auto simp: reconcileClearSlot_def thenIO_Inr_iff)
    qed
  qed
  with rescan_clear_listed show ?thesis by blast
qed

text \<open>Merging: only armed, only with complete pins, only at the pinned heads, and only once per run.\<close>

lemma unmerged_path:
  assumes "wf s" and "\<forall>m. path \<noteq> PathApproveMerge m" and "runPath p clock d pre path s = (r, s')"
  shows "wf s' \<and> approvals s' = approvals s \<and> merges s' = merges s"
  using assms keepsD [OF thread_quiet] keepsD [OF clear_quiet]
  by (cases path) (auto simp: runPath_def quiet_def)

lemma reconcile_merges:
  assumes w: "wf s" and run: "Reconcile p clock d pre s = ((rc, err), s')" and new: "merges s' \<noteq> merges s"
  shows "err = None \<and> d_approve d \<and> d_clearSlot d = None \<and> d_thread d = None
    \<and> p_armEligible pre \<and> completeForMerge pre \<and> heads s' = (p_source pre, p_target pre, p_digest pre)
    \<and> (\<exists>i. merges s' = merges s @ [i])"
  using run
proof (cases rule: Reconcile_cases)
  case (unsupported e)
  with new show ?thesis by simp
next
  case (preamble path e)
  with keepsD [OF preamble_calm] w new show ?thesis by (auto simp: calm_def quiet_def)
next
  case (path path ops t e)
  have t: "wf t" "merges t = merges s" using keepsD [OF preamble_calm path(2)] w by (auto simp: calm_def quiet_def)
  show ?thesis
  proof (cases path)
    case (PathApproveMerge m)
    with path(3) approve_effect [OF t(1), of clock d pre m "Inl e" s'] t new show ?thesis by (simp add: runPath_def)
  qed (use unmerged_path [OF t(1) _ path(3)] t new in auto)
next
  case (finished path ops t r)
  have t: "wf t" "merges t = merges s" using keepsD [OF preamble_calm finished(2)] w by (auto simp: calm_def quiet_def)
  show ?thesis
  proof (cases path)
    case (PathApproveMerge m)
    then have m: "reconcileApproveMerge p clock d pre m t = (Inr r, s')" using finished(3) by (simp add: runPath_def)
    then have g: "p_armEligible pre \<and> completeForMerge pre \<and> dm_source m = p_source pre
        \<and> dm_target m = p_target pre \<and> dm_digest m = p_digest pre"
      using approve_refused [of pre m clock d] by (rule_tac ccontr) auto
    have "d_approve d \<and> d_clearSlot d = None \<and> d_thread d = None"
      using finished(1) PathApproveMerge by (auto simp: reconcilePathOf_def split: option.splits if_splits)
    with approve_effect [OF t(1) m] g t finished(4) show ?thesis by simp
  qed (use unmerged_path [OF t(1) _ finished(3)] t new in auto)
qed

end

text \<open>
  A forge whose calls do not fail. On it a successful review can always be repeated.
\<close>

locale reliable_forge = forge_contract +
  assumes list_total: "\<exists>ts s'. ListBotThreads p pr mr s = (Inr ts, s')"
    and resolve_total: "\<exists>s'. ResolveThread p pr mr i s = (Inr (), s')"
begin

lemma resolveEach_total: "\<exists>s'. resolveEach p d ctx is s = (Inr (), s')"
proof (induction "is" arbitrary: s)
  case (Cons i js)
  obtain t where "ResolveThread p (d_project d) (d_mr d) i s = (Inr (), t)" using resolve_total by blast
  moreover obtain s' where "resolveEach p d ctx js t = (Inr (), s')" using Cons.IH by blast
  ultimately show ?case by (auto simp: thenIO_def wrapIO_def)
qed simp

lemma rescan_total:
  assumes "wf s" "verifyThreadRescan (bots s) m mode = None"
  shows "\<exists>s'. rescanThreadDesired p d m mode s = (Inr (), s')"
proof -
  obtain ts s' where l: "ListBotThreads p (d_project d) (d_mr d) s = (Inr ts, s')" using list_total by blast
  with list_threads [OF assms(1) l] assms(2) show ?thesis by (auto simp: rescanThreadDesired_Inr)
qed

lemma publish_again:
  assumes w: "wf s" and done_: "publishThread p clock d dt os t = (Inr rc, s')" "wf t"
    and same: "occupantsOf (dt_marker dt) (bots t) = map (closings js) os"
    and b: "bots s = bots s'"
  shows "\<exists>rc2 s''. publishThread p clock d dt (occupantsOf (dt_marker dt) (bots s)) s = (Inr rc2, s'')"
proof -
  let ?m = "dt_marker dt"
  have one: "\<exists>rc2 s''. publishThread p clock d dt [v] s = (Inr rc2, s'')"
    if "verifyThreadRescan (bots s) ?m (if t_resolved v then rescanModePreserveResolved else rescanModeOpen) = None" for v
    using rescan_total [OF w that, of d]
    by (auto simp: publishThread_def thenIO_def operationOf_def threadReceipt_def retIO_def)
  consider "os = []" | u where "os = [u]" | u v us where "os = u # v # us" by (metis list.exhaust)
  then show ?thesis
  proof cases
    case 1
    obtain c where c: "wf s'" "bots s' = bots t @ [c]" "t_marker c = ?m" "\<not> t_resolved c"
        "map o_target (pr_operations rc) = [t_id c]" "pr_repairs rc = []"
        "verifyThreadRescan (bots s') ?m rescanModeOpen = None"
      by (rule publish_created [OF done_(2) done_(1) [unfolded 1]])
    have "occupantsOf ?m (bots s) = [c]" using c same 1 b by (simp add: occupantsOf_def)
    then show ?thesis using one [of c] c b by simp
  next
    case (2 u)
    have p: "bots s' = bots t" "verifyThreadRescan (bots s') ?m
        (if t_resolved u then rescanModePreserveResolved else rescanModeOpen) = None"
      using publish_reused [OF done_(2) done_(1) [unfolded 2]] by auto
    have o: "occupantsOf ?m (bots s) = [closings js u]" using same p(1) b 2 by simp
    then have "t_resolved (closings js u) = t_resolved u"
      using p(2) b by (cases "t_resolved u") (auto simp: verify_None_iff split: if_splits)
    then show ?thesis unfolding o using one [of "closings js u"] p(2) b by simp
  next
    case (3 u v us)
    define reps where "reps = map rp_repaired (repairsOf (canonicalOf u (v # us)) (u # v # us))"
    have p: "bots s' = map (closings reps) (bots t)" "verifyThreadRescan (bots s') ?m rescanModeRepair = None"
      using publish_repaired [OF done_(2) done_(1) [unfolded 3]] by (auto simp: reps_def)
    let ?f = "closings (js @ reps)"
    have o: "occupantsOf ?m (bots s) = ?f u # ?f v # map ?f us"
      using same p(1) b 3 by (simp add: closings_append)
    have r: "repairsOf (canonicalOf (?f u) (?f v # map ?f us)) (?f u # ?f v # map ?f us)
        = repairsOf (canonicalOf u (v # us)) (u # v # us)"
      using repairsOf_map [OF canonicalOf_map [of "js @ reps" u "v # us"], of "js @ reps" "u # v # us"] by simp
    obtain x where x: "resolveEach p d ''resolve duplicate '' reps s = (Inr (), x)" using resolveEach_total by blast
    have "wf x" "bots x = bots s"
      using resolveEach_closes [OF w x] p(1) b by (simp_all add: closings_append)
    then obtain y where "rescanThreadDesired p d ?m rescanModeRepair x = (Inr (), y)"
      using rescan_total p(2) b by metis
    then show ?thesis
      using x unfolding o publishThread_def repairDuplicates_def Let_def list.case list.sel r
      by (auto simp: reps_def thenIO_def operationOf_def threadReceipt_def retIO_def)
  qed
qed

text \<open>A resolved canonical thread among several occupants: the repair closes every one and then fails.\<close>

lemma repair_closes_all:
  assumes w: "wf s" and os: "occupantsOf (dt_marker dt) (bots s) = u # v # us"
    and res: "t_resolved (canonicalOf u (v # us))"
  shows "\<exists>why s' js. reconcileThread p clock d dt s = (Inl (ErrRescanFailed why), s') \<and> wf s'
    \<and> bots s' = map (closings js) (bots s)"
proof -
  let ?m = "dt_marker dt" and ?c = "canonicalOf u (v # us)"
  let ?stale = "map t_id (staleOccurrences ?m (bots s))" and ?reps = "map rp_repaired (repairsOf ?c (u # v # us))"
  obtain ts t0 where l: "ListBotThreads p (d_project d) (d_mr d) s = (Inr ts, t0)" using list_total by blast
  have t0: "wf t0" "bots t0 = bots s" "ts = bots s" using list_threads [OF w l] by auto
  obtain t1 where r1: "resolveEach p d ''resolve stale occurrence '' ?stale t0 = (Inr (), t1)"
    using resolveEach_total by blast
  have t1: "wf t1" "bots t1 = map (closings ?stale) (bots s)" using resolveEach_closes [OF t0(1) r1] t0(2) by auto
  obtain t2 where r2: "resolveEach p d ''resolve duplicate '' ?reps t1 = (Inr (), t2)" using resolveEach_total by blast
  have t2: "wf t2" "bots t2 = map (closings (?stale @ ?reps)) (bots s)"
    using resolveEach_closes [OF t1(1) r2] t1(2) by (auto simp: closings_append)
  obtain ts3 t3 where l3: "ListBotThreads p (d_project d) (d_mr d) t2 = (Inr ts3, t3)" using list_total by blast
  have t3: "wf t3" "bots t3 = bots t2" "ts3 = bots t2" using list_threads [OF t2(1) l3] by auto
  have closed: "t_resolved (closings (?stale @ ?reps) x)" if "x \<in> set (u # v # us)" for x
  proof (cases "t_id x = t_id ?c")
    case True
    have "distinct (map t_id (u # v # us))" using unique [OF w] unfolding os [symmetric]
      by (simp add: occupantsOf_def distinct_map_filter)
    then have inj: "inj_on t_id (set (u # v # us))" by (simp only: distinct_map)
    have "?c \<in> set (u # v # us)" using canonicalOf_in [of u "v # us"] by simp
    from inj_onD [OF inj True that this] have "x = ?c" .
    with res show ?thesis by simp
  next
    case False
    with that show ?thesis by (auto simp: repairsOf_def)
  qed
  have "[t \<leftarrow> occupantsOf ?m (bots t2). \<not> t_resolved t] = []"
    using closed unfolding t2(2) occupantsOf_map os filter_empty_conv by (auto simp del: closings_simps)
  then have "verifyThreadRescan ts3 ?m rescanModeRepair \<noteq> None" using t3 by (simp add: verify_None_iff)
  then obtain why where "verifyThreadRescan ts3 ?m rescanModeRepair = Some why" by blast
  with l l3 t0 r1 r2 os have "reconcileThread p clock d dt s = (Inl (ErrRescanFailed why), t3)"
    by (simp add: reconcileThread_def publishThread_def repairDuplicates_def Let_def rescanThreadDesired_def
        thenIO_def wrapIO_def retIO_def failIO_def threadReceipt_def operationOf_def)
  with t2(2) t3 show ?thesis by auto
qed

lemma thread_repeats:
  assumes w: "wf s" and run: "reconcileThread p clock d dt s = (Inr rc, s')"
    and u: "wf u" "bots u = bots s'"
  shows "\<exists>rc2 s''. reconcileThread p clock d dt u = (Inr rc2, s'')"
proof -
  let ?m = "dt_marker dt"
  have clean: "staleOccurrences ?m (bots s') = []" using thread_post [OF w run] by auto
  obtain ts t0 where l: "ListBotThreads p (d_project d) (d_mr d) u = (Inr ts, t0)" using list_total by blast
  have t0: "wf t0" "bots t0 = bots s'" "ts = bots s'" using list_threads [OF u(1) l] u(2) by auto
  obtain t where t: "wf t" "bots t = map (closings (map t_id (staleOccurrences ?m (bots s)))) (bots s)"
      "publishThread p clock d dt (occupantsOf ?m (bots s)) t = (Inr rc, s')"
    using thread_start [OF w run] by blast
  have o: "occupantsOf ?m (bots t) = map (closings (map t_id (staleOccurrences ?m (bots s)))) (occupantsOf ?m (bots s))"
    using t(2) by simp
  obtain rc2 s'' where "publishThread p clock d dt (occupantsOf ?m (bots t0)) t0 = (Inr rc2, s'')"
    using publish_again [OF t0(1) t(3) t(1) o t0(2)] by blast
  then show ?thesis using l t0 clean by (auto simp: reconcileThread_def thenIO_def wrapIO_def retIO_def)
qed

end

subsection \<open>The in-memory forge provides it\<close>

definition freshIds :: "fakeForge \<Rightarrow> bool" where
  "freshIds s \<longleftrightarrow> distinct (map t_id (fk_threads s))
     \<and> (\<forall>k > fk_seq s. threadId k \<notin> t_id ` set (fk_threads s))"

definition headsOf :: "fakeForge \<Rightarrow> string \<times> string \<times> string" where
  "headsOf s = (fk_source s, fk_target s, fk_digest s)"

definition moveHeads :: "(string \<times> string \<times> string \<Rightarrow> string \<times> string \<times> string) \<Rightarrow> fakeForge \<Rightarrow> fakeForge" where
  "moveHeads f s = (case f (headsOf s) of (a, b, c) \<Rightarrow> s\<lparr>fk_source := a, fk_target := b, fk_digest := c\<rparr>)"

lemma closing_same [simp]: "t_resolved t \<Longrightarrow> closing i t = t"
  by (cases t) (simp add: closing_def)

lemma closing_other [simp]: "t_id t \<noteq> i \<Longrightarrow> closing i t = t"
  by (simp add: closing_def)

lemma closing_simps [simp]:
  "t_id (closing i t) = t_id t" "t_marker (closing i t) = t_marker t" "t_author (closing i t) = t_author t"
  "t_resolved (closing i t) \<longleftrightarrow> t_resolved t \<or> t_id t = i"
  by (simp_all add: closing_def)

lemma resolveFirst_map: "distinct (map t_id ts) \<Longrightarrow> resolveFirst i ts = map (closing i) ts"
proof (induction ts)
  case (Cons t ts)
  then show ?case
    by (cases "t_id t = i") (auto simp: image_iff closing_def [of i t] intro!: map_idI [symmetric])
qed simp

lemma map_closing_idle:
  "find (\<lambda>t. t_id t = i) ts = None \<Longrightarrow> map (closing i) ts = ts"
  by (auto simp: find_None_iff intro!: map_idI)

lemma map_closing_resolved:
  assumes "distinct (map t_id ts)" "find (\<lambda>t. t_id t = i) ts = Some t" "t_resolved t"
  shows "map (closing i) ts = ts"
proof (rule map_idI)
  fix u assume u: "u \<in> set ts"
  have t: "t \<in> set ts" "t_id t = i" using assms(2) by (auto simp: find_Some_iff)
  show "closing i u = u"
  proof (cases "t_id u = i")
    case True
    then have "u = t" using u t assms(1) by (auto simp: distinct_map dest: inj_onD)
    with assms(3) show ?thesis by simp
  qed simp
qed

lemma freshIds_next:
  "freshIds s \<Longrightarrow> threadId (Suc (fk_seq s)) \<notin> t_id ` set (fk_threads s)"
  by (simp add: freshIds_def)

lemma itoa_inj_nat: "itoa (int m) = itoa (int n) \<Longrightarrow> m = n"
  by (auto simp: itoa_def dest: nat_digits_inj)

lemma threadId_inj: "threadId m = threadId n \<Longrightarrow> m = n"
  using itoa_inj_nat [of "9000 + m" "9000 + n"] by (simp add: threadId_def)

lemma botThreads_map: "(\<And>t. t_author (f t) = t_author t) \<Longrightarrow>
    [t \<leftarrow> map f ts. t_author t = b] = map f [t \<leftarrow> ts. t_author t = b]"
  by (induction ts) auto

interpretation fake: forge_contract "fakePort (moveHeads f) None" freshIds botThreads headsOf fk_approvals fk_merges
  for f
proof unfold_locales
  fix s :: fakeForge and s' pr mr and m :: marker and b rc
  assume w: "freshIds s" and c: "CreateThread (fakePort (moveHeads f) None) pr mr m b s = (rc, s')"
  have "threadId k \<noteq> threadId (Suc (fk_seq s))" if "k > Suc (fk_seq s)" for k
    using that threadId_inj [of k "Suc (fk_seq s)"] by auto
  moreover have "threadId k \<notin> t_id ` set (fk_threads s)" if "k > Suc (fk_seq s)" for k
    using w that by (simp add: freshIds_def)
  ultimately show "freshIds s' \<and> headsOf s' = headsOf s \<and> fk_approvals s' = fk_approvals s \<and>
      fk_merges s' = fk_merges s \<and>
      (case rc of Inl e \<Rightarrow> botThreads s' = botThreads s
       | Inr t \<Rightarrow> botThreads s' = botThreads s @ [t] \<and> t_marker t = m \<and> \<not> t_resolved t)"
    using w c freshIds_next [OF w]
    by (auto simp: fakePort_def fakeCreateThread_def Let_def noteMutation_def freshIds_def headsOf_def
        botThreads_def image_iff split: sum.splits)
next
  fix s :: fakeForge and s' pr mr i rr
  assume w: "freshIds s" and c: "ResolveThread (fakePort (moveHeads f) None) pr mr i s = (rr, s')"
  have d: "distinct (map t_id (fk_threads s))" using w by (simp add: freshIds_def)
  have ids: "map t_id (map (closing i) (fk_threads s)) = map t_id (fk_threads s)" by simp
  have "fk_threads s' = map (closing i) (fk_threads s)"
    using c d map_closing_idle map_closing_resolved resolveFirst_map
    by (auto simp: fakePort_def fakeResolveThread_def noteMutation_def split: option.splits if_splits)
  with w c show "freshIds s' \<and> headsOf s' = headsOf s \<and> fk_approvals s' = fk_approvals s \<and> fk_merges s' = fk_merges s \<and>
      botThreads s' = (case rr of Inl e \<Rightarrow> botThreads s | Inr _ \<Rightarrow> map (closing i) (botThreads s))"
    by (auto simp: fakePort_def fakeResolveThread_def noteMutation_def freshIds_def headsOf_def botThreads_def
        botThreads_map image_iff comp_def split: option.splits if_splits)
next
  fix s :: fakeForge
  assume "freshIds s"
  then show "distinct (map t_id (botThreads s))"
    by (simp add: freshIds_def botThreads_def distinct_map_filter)
qed (auto simp: fakePort_def fakeListBotThreads_def fakeListBotNotes_def fakeUpsertComment_def fakeCurrentHeads_def
      fakeApprove_def fakeMergeCAS_def noteMutation_def freshIds_def headsOf_def botThreads_def moveHeads_def Let_def
      split: sum.splits option.splits prod.splits if_splits)

interpretation fake: reliable_forge "fakePort (moveHeads f) None" freshIds botThreads headsOf fk_approvals fk_merges
  for f
  by unfold_locales (auto simp: fakePort_def fakeListBotThreads_def fakeResolveThread_def)

end
