(* ===== verification/ForgeProps.thy ===== *)
theory ForgeProps
  imports ForgeContract
begin

text \<open>
  The guarantees of \<open>Reconcile\<close> on the in-memory forge with an arbitrary race of its heads,
  and the invariants of the forge under every interleaving of serialised runs with
  contributors, reviewers and pushes.
\<close>

abbreviation fakeF :: "(string \<times> string \<times> string \<Rightarrow> string \<times> string \<times> string) \<Rightarrow> fakeForge forgePort" where
  "fakeF f \<equiv> fakePort (moveHeads f) None"

subsection \<open>Merging\<close>

text \<open>
  C14: a run merges only when it was asked to approve and to nothing else, arming was granted, all
  three pins are present and they are the heads of the forge at the moment of the merge, even
  when the heads move between the check and the merge. The run then reports success, and it
  adds exactly one merge; no failing run merges.
\<close>

theorem reconcile_merges_pinned:
  assumes "freshIds s" and "Reconcile (fakeF f) clock d pre s = ((rc, err), s')"
    and "fk_merges s' \<noteq> fk_merges s"
  shows "err = None \<and> d_approve d \<and> d_clearSlot d = None \<and> d_thread d = None
    \<and> p_armEligible pre \<and> completeForMerge pre
    \<and> headsOf s' = (p_source pre, p_target pre, p_digest pre) \<and> (\<exists>i. fk_merges s' = fk_merges s @ [i])"
  using assms by (rule fake.reconcile_merges)

definition demo_pre :: preconditions where
  "demo_pre = \<lparr>p_armEligible = True, p_source = ''s1'', p_target = ''t1'', p_digest = ''d1''\<rparr>"

definition demo_desired :: desiredReviewState where
  "demo_desired = \<lparr>d_project = ''p'', d_mr = ''1'', d_thread = None, d_clearSlot = None, d_approve = True,
     d_merge = Some \<lparr>dm_source = ''s1'', dm_target = ''t1'', dm_digest = ''d1''\<rparr>, d_summary = None\<rparr>"

definition demo_forge :: fakeForge where
  "demo_forge = newFake ''assent-bot'' ''s1'' ''t1'' ''d1''"

lemma fresh_new: "freshIds (newFake b x y z)"
  by (simp add: freshIds_def newFake_def)

theorem reconcile_merges_pinned_witness:
  "let out = Reconcile (fakeF (\<lambda>h. h)) (\<lambda>_. ''now'') demo_desired demo_pre demo_forge in
   snd (fst out) = None \<and> headsOf (snd out) = (''s1'', ''t1'', ''d1'') \<and> length (fk_merges (snd out)) = 1"
proof -
  let ?out = "Reconcile (fakeF (\<lambda>h. h)) (\<lambda>_. ''now'') demo_desired demo_pre demo_forge"
  have m: "fk_merges (snd ?out) \<noteq> fk_merges demo_forge"
    by (simp add: Reconcile_def reconcilePathOf_def demo_desired_def preamble_def runPath_def
        reconcileApproveMerge_def demo_pre_def completeForMerge_def demo_forge_def newFake_def thenIO_def retIO_def
        wrapIO_def fakePort_def fakeCurrentHeads_def moveHeads_def headsOf_def fakeApprove_def fakeMergeCAS_def
        operationOf_def Let_def)
  obtain rc err s' where e: "?out = ((rc, err), s')" by (cases ?out) (cases "fst ?out"; auto)
  have "freshIds demo_forge" by (simp add: demo_forge_def fresh_new)
  from reconcile_merges_pinned [OF this e] m e show ?thesis
    by (auto simp: demo_pre_def demo_forge_def newFake_def Let_def)
qed

text \<open>
  The pre-write refusals write nothing at all, on any forge: without arming, with an
  incomplete pin or with a pin that differs from the desired merge, an approve run without a
  summary returns a typed refusal and leaves the forge untouched.
\<close>

theorem reconcile_refusal_writes_nothing:
  assumes "reconcilePathOf d = Inr (PathApproveMerge m)" and "d_summary d = None"
    and "\<not> (p_armEligible pre \<and> completeForMerge pre \<and> dm_source m = p_source pre
            \<and> dm_target m = p_target pre \<and> dm_digest m = p_digest pre)"
  shows "Reconcile p clock d pre s =
     ((withWarnings p s emptyReceipt,
       Some (if p_armEligible pre then ErrIncompletePreconditions else ErrArmingRefused)), s)"
  using assms
  by (auto simp: Reconcile_def preamble_def runPath_def reconcileApproveMerge_def thenIO_def retIO_def failIO_def)

theorem reconcile_refusal_writes_nothing_witness:
  "Reconcile plainFake (\<lambda>_. ''now'') demo_desired (demo_pre\<lparr>p_armEligible := False\<rparr>) demo_forge =
     ((withWarnings plainFake demo_forge emptyReceipt, Some ErrArmingRefused), demo_forge)"
  by (subst reconcile_refusal_writes_nothing
      [where m = "\<lparr>dm_source = ''s1'', dm_target = ''t1'', dm_digest = ''d1''\<rparr>"])
    (simp_all add: demo_desired_def demo_pre_def reconcilePathOf_def)

subsection \<open>Reviewing\<close>

text \<open>The notes are written by the summary preamble alone, and writing them again changes nothing.\<close>

definition sameNotes :: "fakeForge \<Rightarrow> fakeForge \<Rightarrow> bool" where
  "sameNotes s s' \<longleftrightarrow> fk_notes s' = fk_notes s \<and> fk_bot s' = fk_bot s"

lemma sameNotes_list: "keeps sameNotes (fakeListBotThreads relist)"
  by (rule keepsI) (auto simp: sameNotes_def fakeListBotThreads_def split: option.splits if_splits)

lemma sameNotes_resolve: "keeps sameNotes (fakeResolveThread i)"
  by (rule keepsI) (auto simp: sameNotes_def fakeResolveThread_def noteMutation_def split: option.splits if_splits)

lemma sameNotes_create: "keeps sameNotes (fakeCreateThread m b)"
  by (cases "Envelope m b") (simp_all add: keeps_def sameNotes_def fakeCreateThread_def noteMutation_def Let_def)

lemma thread_sameNotes: "keeps sameNotes (reconcileThread (fakeF f) clock d dt)"
  by (rule keeps_reconcileThread)
    (simp_all add: sameNotes_list sameNotes_resolve sameNotes_create, auto simp: sameNotes_def reflp_def transp_def)

lemma updateNote_again:
  "updateNote b m body ns = Some (n, ns') \<Longrightarrow> a_kind (m_artifact m) = kindSummary \<Longrightarrow>
     updateNote b m body ns' = Some (n, ns')"
proof (induction ns arbitrary: ns')
  case (Cons x ns)
  show ?case
  proof (cases "summaryOfBot b x")
    case True
    then have "ns' = n # ns" "n = x\<lparr>n_marker := m, n_body := body\<rparr>"
      using Cons.prems(1) by (auto simp: Let_def)
    then show ?thesis using True Cons.prems(2) by (simp add: summaryOfBot_def Let_def)
  next
    case False
    then obtain ms where "updateNote b m body ns = Some (n, ms)" "ns' = x # ms" using Cons.prems(1) by auto
    then show ?thesis using False Cons.IH [of ms] Cons.prems(2) by simp
  qed
qed simp

lemma updateNote_created:
  "updateNote b m body ns = None \<Longrightarrow> summaryOfBot b n \<Longrightarrow> n\<lparr>n_marker := m, n_body := body\<rparr> = n \<Longrightarrow>
     updateNote b m body (ns @ [n]) = Some (n, ns @ [n])"
  by (induction ns) (auto simp: Let_def split: if_splits)

lemma preamble_again:
  assumes run: "preamble (fakeF f) clock d s = (Inr ops, t)"
    and u: "fk_notes u = fk_notes t" "fk_bot u = fk_bot t"
  shows "\<exists>ops' u'. preamble (fakeF f) clock d u = (Inr ops', u') \<and> fk_notes u' = fk_notes t
    \<and> map o_target ops' = map o_target ops"
proof (cases "d_summary d")
  case None
  with run u show ?thesis by (auto simp: preamble_def retIO_def)
next
  case (Some sm)
  let ?m = "ds_marker sm"
  have k: "a_kind (m_artifact ?m) = kindSummary"
    using run Some
    by (auto simp: preamble_def reconcileSummaryPreamble_def reconcileSummary_def thenIO_Inr_iff split: if_splits)
  obtain full where e: "Envelope ?m (ds_body sm) = Inr full"
    using run Some k by (cases "Envelope ?m (ds_body sm)")
      (auto simp: preamble_def reconcileSummaryPreamble_def reconcileSummary_def thenIO_Inr_iff
        fakePort_def fakeUpsertComment_def fakeListBotNotes_def)
  obtain n where n: "updateNote (fk_bot t) ?m full (fk_notes t) = Some (n, fk_notes t)"
      "map o_target ops = [n_id n]"
  proof (cases "updateNote (fk_bot s) ?m full (fk_notes s)")
    case None
    let ?n = "\<lparr>n_id = ''note/'' @ itoa (8000 + int (Suc (fk_seq s))), n_marker = ?m, n_author = fk_bot s, n_body = full\<rparr>"
    from None k have "updateNote (fk_bot s) ?m full (fk_notes s @ [?n]) = Some (?n, fk_notes s @ [?n])"
      by (intro updateNote_created) (simp_all add: summaryOfBot_def)
    then show thesis
      using run Some k e None
      by (intro that [of ?n])
        (auto simp: preamble_def reconcileSummaryPreamble_def reconcileSummary_def thenIO_Inr_iff operationOf_def
          fakeUpsertComment_def fakeListBotNotes_def noteMutation_def Let_def)
  next
    case (Some x)
    obtain n ns where "x = (n, ns)" by (cases x)
    with Some show thesis
      using run \<open>d_summary d = Some sm\<close> k e updateNote_again [of "fk_bot s" ?m full "fk_notes s" n ns]
      by (intro that [of n])
        (auto simp: preamble_def reconcileSummaryPreamble_def reconcileSummary_def thenIO_Inr_iff operationOf_def
          fakeUpsertComment_def fakeListBotNotes_def noteMutation_def Let_def)
  qed
  with u Some k e show ?thesis
    by (auto simp: preamble_def reconcileSummaryPreamble_def reconcileSummary_def thenIO_def wrapIO_def retIO_def
        operationOf_def fakePort_def fakeUpsertComment_def fakeListBotNotes_def noteMutation_def)
qed

lemma targets_withPreamble:
  assumes "map o_target ops' = map o_target ops" "map o_target (pr_operations r') = map o_target (pr_operations r)"
    "pr_repairs r' = pr_repairs r"
  shows "map o_target (pr_operations (withPreamble ops' r')) = map o_target (pr_operations (withPreamble ops r))"
    "pr_repairs (withPreamble ops' r') = pr_repairs (withPreamble ops r)"
proof -
  have sorted_targets: "map o_target (sort_key o_target xs) = sort (map o_target xs)" for xs :: "operation list"
    by (rule properties_for_sort [symmetric]) simp_all
  have e: "ops' = [] \<longleftrightarrow> ops = []" using assms(1) by (metis map_is_Nil_conv)
  show "map o_target (pr_operations (withPreamble ops' r')) = map o_target (pr_operations (withPreamble ops r))"
    using assms e by (simp add: withPreamble_def receiptOf_def sorted_targets)
  show "pr_repairs (withPreamble ops' r') = pr_repairs (withPreamble ops r)"
    using assms e by (simp add: withPreamble_def receiptOf_def)
qed

lemma path_thread: "d_clearSlot d = None \<Longrightarrow> d_thread d = Some dt \<Longrightarrow> reconcilePathOf d = Inr (PathThread dt)"
  by (simp add: reconcilePathOf_def)

text \<open>
  C19: publishing a review is idempotent. After a successful run, running again with the same
  desired state succeeds, creates no thread and resolves none, leaves the notes as they are and
  reports the same artifacts and the same repairs. This holds whatever threads and notes the
  forge started with, open or resolved, duplicated or stale.
\<close>

theorem reconcile_review_idempotent:
  assumes w: "freshIds s" and d: "d_clearSlot d = None" "d_thread d = Some dt"
    and run: "Reconcile (fakeF f) clock d pre s = ((rc, None), s')"
  shows "\<exists>rc2 s''. Reconcile (fakeF f) clock d pre s' = ((rc2, None), s'')
    \<and> botThreads s'' = botThreads s' \<and> fk_notes s'' = fk_notes s'
    \<and> map o_target (pr_operations rc2) = map o_target (pr_operations rc) \<and> pr_repairs rc2 = pr_repairs rc"
  using run
proof (cases rule: Reconcile_cases)
  case (finished path ops t r)
  have path: "path = PathThread dt" using finished(1) path_thread [OF d] by simp
  then have th: "reconcileThread (fakeF f) clock d dt t = (Inr r, s')" using finished(3) by (simp add: runPath_def)
  have t: "freshIds t" using keepsD [OF fake.preamble_calm finished(2)] w by (simp add: fake.calm_def fake.quiet_def)
  have s': "freshIds s'" using fake.thread_post [OF t th] by blast
  have nb: "fk_notes s' = fk_notes t" "fk_bot s' = fk_bot t"
    using keepsD [OF thread_sameNotes th] by (auto simp: sameNotes_def)
  obtain ops' u where u: "preamble (fakeF f) clock d s' = (Inr ops', u)" "fk_notes u = fk_notes t"
      "map o_target ops' = map o_target ops"
    using preamble_again [OF finished(2) nb] by blast
  have u': "freshIds u" "botThreads u = botThreads s'"
    using keepsD [OF fake.preamble_calm u(1)] s' by (auto simp: fake.calm_def fake.quiet_def)
  obtain r2 s'' where r2: "reconcileThread (fakeF f) clock d dt u = (Inr r2, s'')"
    using fake.thread_repeats [OF t th u'] by blast
  have again: "botThreads s'' = botThreads s'" "map o_target (pr_operations r2) = map o_target (pr_operations r)"
      "pr_repairs r2 = pr_repairs r"
    using fake.thread_again [OF t th u' r2] by auto
  have "fk_notes s'' = fk_notes s'"
    using keepsD [OF thread_sameNotes r2] u(2) nb by (simp add: sameNotes_def)
  moreover have "Reconcile (fakeF f) clock d pre s' = ((withWarnings (fakeF f) s'' (withPreamble ops' r2), None), s'')"
    using u(1) r2 path finished(1) by (simp add: Reconcile_def thenIO_def retIO_def runPath_def)
  ultimately show ?thesis
    using again targets_withPreamble [OF u(3) again(2,3)] finished(5) by (auto simp: withWarnings_def)
qed simp_all

definition demo_slot :: slot where
  "demo_slot = \<lparr>s_project = ''p'', s_mr = ''1'', s_rule = ''r'', s_effect = ''challenge'', s_entryRef = []\<rparr>"

definition demo_marker :: "string \<Rightarrow> marker" where
  "demo_marker occ = \<lparr>m_slot = demo_slot, m_occurrence = occ, m_decision = ''d'',
     m_artifact = \<lparr>a_kind = ''finding-thread'', a_schemaVersion = ''v1alpha1''\<rparr>\<rparr>"

definition demo_review :: desiredReviewState where
  "demo_review = \<lparr>d_project = ''p'', d_mr = ''1'', d_thread = Some \<lparr>dt_marker = demo_marker ''o1'', dt_body = []\<rparr>,
     d_clearSlot = None, d_approve = False, d_merge = None, d_summary = None\<rparr>"

lemmas run_defs = Reconcile_def reconcilePathOf_def preamble_def runPath_def reconcileThread_def publishThread_def
  repairDuplicates_def reconcileClearSlot_def rescanThreadDesired_def rescanClearSlot_def threadReceipt_def
  operationOf_def thenIO_def retIO_def failIO_def wrapIO_def withPreamble_def
  fakeListBotThreads_def fakeResolveThread_def fakeCreateThread_def noteMutation_def Let_def

lemma demo_review_runs:
  "\<exists>rc s'. Reconcile (fakeF f) clock demo_review pre demo_forge = ((rc, None), s')"
  by (simp add: run_defs demo_review_def demo_forge_def newFake_def botThreads_def staleOccurrences_def occupantsOf_def
      Envelope_def validateEnvelopeBody_def containsUnsafeCommentClose_def verifyThreadRescan_def)

theorem reconcile_review_idempotent_witness:
  "\<exists>rc s' rc2 s''. Reconcile (fakeF (\<lambda>h. h)) (\<lambda>_. ''now'') demo_review demo_pre demo_forge = ((rc, None), s')
     \<and> Reconcile (fakeF (\<lambda>h. h)) (\<lambda>_. ''now'') demo_review demo_pre s' = ((rc2, None), s'')
     \<and> botThreads s'' = botThreads s'"
proof -
  obtain rc s' where r: "Reconcile (fakeF (\<lambda>h. h)) (\<lambda>_. ''now'') demo_review demo_pre demo_forge = ((rc, None), s')"
    using demo_review_runs by blast
  have "freshIds demo_forge" by (simp add: demo_forge_def fresh_new)
  from reconcile_review_idempotent [OF this _ _ r, of "\<lparr>dt_marker = demo_marker ''o1'', dt_body = []\<rparr>"] r
  show ?thesis by (auto simp: demo_review_def)
qed



subsection \<open>Where the receipts and repairs fall short\<close>

text \<open>
  a run that also publishes a summary never reports its repairs: the receipt is rebuilt from
  the operations alone, so on any forge a successful run with a summary has an empty list of
  repairs, whatever duplicates it resolved.
\<close>

theorem reconcile_summary_drops_repairs:
  assumes "d_summary d = Some sm" and "Reconcile p clock d pre s = ((rc, None), s')"
  shows "pr_repairs rc = []"
  using assms(2)
proof (cases rule: Reconcile_cases)
  case (finished path ops t r)
  then have "ops \<noteq> []" using assms(1) by (auto simp: preamble_def thenIO_Inr_iff)
  with finished show ?thesis by (simp add: withPreamble_def withWarnings_def receiptOf_def)
qed simp_all

definition demo_duplicates :: fakeForge where
  "demo_duplicates = SeedThread ''note/2'' ''assent-bot'' (demo_marker ''o1'') False
     (SeedThread ''note/1'' ''assent-bot'' (demo_marker ''o1'') False demo_forge)"

definition demo_summary :: desiredSummary where
  "demo_summary = \<lparr>ds_marker = (demo_marker ''o1'')\<lparr>m_artifact := \<lparr>a_kind = kindSummary, a_schemaVersion = ''v1alpha1''\<rparr>\<rparr>,
     ds_body = []\<rparr>"

theorem reconcile_summary_drops_repairs_witness:
  "\<exists>rc s'. Reconcile (fakeF (\<lambda>h. h)) (\<lambda>_. ''now'') (demo_review\<lparr>d_summary := Some demo_summary\<rparr>) demo_pre demo_duplicates = ((rc, None), s')
     \<and> \<not> IsResolved ''note/2'' demo_duplicates \<and> IsResolved ''note/2'' s' \<and> pr_repairs rc = []"
proof -
  let ?out = "Reconcile (fakeF (\<lambda>h. h)) (\<lambda>_. ''now'') (demo_review\<lparr>d_summary := Some demo_summary\<rparr>) demo_pre demo_duplicates"
  have "snd (fst ?out) = None \<and> IsResolved ''note/2'' (snd ?out)"
    by (simp add: run_defs demo_review_def demo_forge_def newFake_def botThreads_def staleOccurrences_def occupantsOf_def
        Envelope_def validateEnvelopeBody_def containsUnsafeCommentClose_def verifyThreadRescan_def demo_duplicates_def
        SeedThread_def demo_summary_def reconcileSummaryPreamble_def reconcileSummary_def fakeListBotNotes_def
        fakeUpsertComment_def demo_marker_def key_def canonicalOf_def repairsOf_def forgeIDNum_def afterLast_def
        parseInt64_def is_digit_def digits_value_def max_int64_def min_int64_def IsResolved_def)
  moreover have "\<not> IsResolved ''note/2'' demo_duplicates"
    by (simp add: IsResolved_def demo_duplicates_def SeedThread_def demo_forge_def newFake_def)
  ultimately show ?thesis
    using reconcile_summary_drops_repairs
      [of "demo_review\<lparr>d_summary := Some demo_summary\<rparr>" demo_summary "fakeF (\<lambda>h. h)" "\<lambda>_. ''now''" demo_pre demo_duplicates
        "fst (fst ?out)" "snd ?out"]
    by (intro exI [of _ "fst (fst ?out)"] exI [of _ "snd ?out"]) (simp add: prod_eq_iff)
qed

definition stuck :: "marker \<Rightarrow> fakeForge \<Rightarrow> bool" where
  "stuck m s \<longleftrightarrow> freshIds s
     \<and> (\<exists>u v us. occupantsOf m (botThreads s) = u # v # us \<and> t_resolved (canonicalOf u (v # us)))"

text \<open>
  duplicates of a thread that a reviewer has resolved are never repaired. When several bot
  threads occupy the desired slot and occurrence and the one with the lowest id is resolved, the
  run resolves the others too and then fails its own rescan, which wants one of them open; the
  state it leaves is again of this kind, so every later run fails in the same way.
\<close>

theorem repair_stuck:
  assumes "stuck (dt_marker dt) s" and "d_clearSlot d = None" "d_thread d = Some dt" "d_summary d = None"
  shows "\<exists>why s'. Reconcile (fakeF f) clock d pre s = ((emptyReceipt, Some (ErrRescanFailed why)), s')
    \<and> stuck (dt_marker dt) s'"
proof -
  obtain u v us where os: "occupantsOf (dt_marker dt) (botThreads s) = u # v # us" "t_resolved (canonicalOf u (v # us))"
    and w: "freshIds s" using assms(1) by (auto simp: stuck_def)
  obtain why s' js where r: "reconcileThread (fakeF f) clock d dt s = (Inl (ErrRescanFailed why), s')" "freshIds s'"
      "botThreads s' = map (closings js) (botThreads s)"
    using fake.repair_closes_all [OF w os] by blast
  have "stuck (dt_marker dt) s'"
    using r(2,3) os canonicalOf_closings [of js u "v # us"] by (auto simp: stuck_def)
  moreover have "Reconcile (fakeF f) clock d pre s = ((emptyReceipt, Some (ErrRescanFailed why)), s')"
    using r(1) path_thread [OF assms(2,3)] assms(4)
    by (simp add: Reconcile_def preamble_def runPath_def thenIO_def retIO_def withWarnings_def warningsOf_def emptyReceipt_def)
  ultimately show ?thesis by blast
qed

definition demo_stuck :: fakeForge where
  "demo_stuck = SeedThread ''note/2'' ''assent-bot'' (demo_marker ''o1'') False
     (SeedThread ''note/1'' ''assent-bot'' (demo_marker ''o1'') True demo_forge)"

theorem repair_stuck_witness:
  "\<exists>why s'. Reconcile (fakeF (\<lambda>h. h)) (\<lambda>_. ''now'') demo_review demo_pre demo_stuck = ((emptyReceipt, Some (ErrRescanFailed why)), s')
     \<and> stuck (demo_marker ''o1'') s'"
proof -
  have ids: "threadId k \<noteq> ''note/1'' \<and> threadId k \<noteq> ''note/2''" for k
    by (auto simp: threadId_def itoa_def nat_digits.simps [of "nat (9000 + int k)"] digit_char_def)
  have "stuck (demo_marker ''o1'') demo_stuck"
    using ids by (auto simp: stuck_def demo_stuck_def SeedThread_def demo_forge_def newFake_def freshIds_def botThreads_def
        occupantsOf_def canonicalOf_def forgeIDNum_def afterLast_def parseInt64_def is_digit_def digits_value_def
        max_int64_def min_int64_def)
  then show ?thesis
    using repair_stuck [of "\<lparr>dt_marker = demo_marker ''o1'', dt_body = []\<rparr>" demo_stuck demo_review "\<lambda>h. h" "\<lambda>_. ''now''" demo_pre]
    by (simp add: demo_review_def)
qed

subsection \<open>Arming and envelopes\<close>

text \<open>
  arming is denied by default. For a report built from an adapter's answers, arming is
  eligible exactly when the adapter answered supported, in that spelling, to the three gates;
  the refusals are exactly the gates not proven, each under its own code. The report of an
  adapter that answers nothing refuses all three.
\<close>

theorem arming_default_deny:
  assumes "NewCapabilityReport entries = Inr r"
  shows "(pp_armEligible (PreconditionFromReport r) \<longleftrightarrow>
      list_all (\<lambda>c. map_option ce_state (map_of entries c) = Some CapabilitySupported)
        [CapabilityProtectedPipelineSource, CapabilityThreadsBlockMerge, CapabilityEligibleApprovalEvidence])
    \<and> map pf_code (pp_refusals (PreconditionFromReport r)) =
        map snd [x \<leftarrow> [(CapabilityProtectedPipelineSource, RefusalInsecureTopology),
            (CapabilityThreadsBlockMerge, RefusalDiscussionsGateMissing),
            (CapabilityEligibleApprovalEvidence, RefusalTierCapabilityGap)].
          map_option ce_state (map_of entries (fst x)) \<noteq> Some CapabilitySupported]
    \<and> length (pp_refusals (PreconditionFromReport AllUnknownCapabilityReport)) = 3"
proof -
  obtain es where es: "reportEntries entries = Inr es" "r = Some es"
    using assms by (auto simp: NewCapabilityReport_def bind_res_Inr_iff split: option.splits)
  have blocks: "ArmedBlocks r c \<longleftrightarrow> map_option ce_state (map_of entries c) \<noteq> Some CapabilitySupported" for c
    using reportEntries_map_of [OF es(1), of c]
    by (cases "map_of entries c") (auto simp: ArmedBlocks_def capState_def entryOf_def es(2))
  have "ArmedBlocks AllUnknownCapabilityReport c" for c
    by (auto simp: ArmedBlocks_def capState_def entryOf_def AllUnknownCapabilityReport_def map_of_map
        split: option.split dest!: map_of_SomeD)
  then show ?thesis
    by (simp add: PreconditionFromReport_arm blocks) (simp add: PreconditionFromReport_def refusalIf_def blocks)
qed

definition demo_entries :: "capabilityEntry assoc" where
  "demo_entries = map (\<lambda>c. (c, \<lparr>ce_state = CapabilitySupported, ce_reason = []\<rparr>)) AllCapabilities"

theorem arming_default_deny_witness:
  "pp_armEligible (PreconditionFromReport (Some demo_entries))"
proof -
  have "NewCapabilityReport demo_entries = Inr (Some demo_entries)"
    by code_simp
  from arming_default_deny [OF this] show ?thesis by (simp add: demo_entries_def AllCapabilities_def)
qed

text \<open>
  a note or thread body cannot tamper with its marker. In an accepted envelope the first
  comment close is the one the renderer wrote after the marker, and what follows it contains
  neither another comment close nor the marker sentinel.
\<close>

theorem envelope_one_marker:
  assumes "Envelope m body = Inr out"
  shows "\<exists>front rest. out = front @ commentClose @ rest \<and> CHR ''>'' \<notin> set front
    \<and> \<not> containsSub rest commentClose \<and> \<not> containsSub rest MarkerSentinel"
proof -
  obtain front where f: "FormatMarker m = front @ commentClose" "CHR ''>'' \<notin> set front" by (rule FormatMarker_close)
  show ?thesis
  proof (cases "body = []")
    case True
    then have "out = front @ commentClose @ []" using assms f by (simp add: Envelope_def split: option.splits)
    with f(2) show ?thesis by (intro exI [of _ front] exI [of _ "[]"]) simp
  next
    case False
    then have "out = front @ commentClose @ ([CHR 0x0A, CHR 0x0A] @ body)"
      using assms f by (simp add: Envelope_def split: option.splits)
    with f(2) accepted_body [OF assms] show ?thesis
      by (intro exI [of _ front] exI [of _ "[CHR 0x0A, CHR 0x0A] @ body"]) simp
  qed
qed

theorem envelope_one_marker_witness:
  "\<exists>out front rest. Envelope (demo_marker ''--> assent:marker'') ''ok'' = Inr out \<and> out = front @ commentClose @ rest
     \<and> CHR ''>'' \<notin> set front \<and> \<not> containsSub rest commentClose \<and> \<not> containsSub rest MarkerSentinel"
proof -
  have "\<exists>out. Envelope (demo_marker ''--> assent:marker'') ''ok'' = Inr out"
    by (simp add: Envelope_def validateEnvelopeBody_def containsUnsafeCommentClose_def)
  then show ?thesis using envelope_one_marker by metis
qed

end
