(* ===== verification/ForgeWorld.thy ===== *)
theory ForgeWorld
  imports ForgeProps
begin

text \<open>
  The forge among its users: contributors post threads and notes with any marker, reviewers
  resolve and reopen threads, pushes move the heads, and serialised runs of \<open>Reconcile\<close> publish,
  each possibly raced by a push. The invariants hold in every state such a history can reach.
\<close>

subsection \<open>Steps\<close>

definition setResolved :: "string \<Rightarrow> bool \<Rightarrow> fakeForge \<Rightarrow> fakeForge" where
  "setResolved i b s =
     s\<lparr>fk_threads := map (\<lambda>t. if t_id t = i then t\<lparr>t_resolved := b\<rparr> else t) (fk_threads s)\<rparr>"

inductive forge_step :: "fakeForge \<Rightarrow> fakeForge \<Rightarrow> bool" where
  contributorThread: "author \<noteq> fk_bot s \<Longrightarrow> i \<notin> t_id ` set (fk_threads s) \<Longrightarrow> (\<forall>k. i \<noteq> threadId k) \<Longrightarrow>
     forge_step s (SeedThread i author m b s)"
| contributorNote: "author \<noteq> fk_bot s \<Longrightarrow> forge_step s (SeedNote i author m body s)"
| reviewer: "forge_step s (setResolved i b s)"
| push: "forge_step s (moveHeads f s)"
| publish: "Reconcile (fakeF f) clock d pre s = (out, s') \<Longrightarrow> forge_step s s'"

inductive reachable :: "fakeForge \<Rightarrow> bool" where
  start: "reachable (newFake author x y z)"
| step: "reachable s \<Longrightarrow> forge_step s s' \<Longrightarrow> reachable s'"

inductive_cases forge_stepE: "forge_step s s'"

subsection \<open>The invariant\<close>

definition occupied :: "fakeForge \<Rightarrow> key list" where
  "occupied s = map (key \<circ> t_marker) (botThreads s)"

definition mergeRecord :: "fakeForge \<Rightarrow> bool" where
  "mergeRecord s \<longleftrightarrow> length (fk_merges s) \<le> 1 \<and> (fk_merged s \<longleftrightarrow> fk_merges s \<noteq> [])"

definition forge_inv :: "fakeForge \<Rightarrow> bool" where
  "forge_inv s \<longleftrightarrow> freshIds s \<and> distinct (occupied s) \<and> SummaryNoteCount s \<le> 1 \<and> mergeRecord s"

lemma occupantsOf_occupied: "occupantsOf m (botThreads s) = [] \<longleftrightarrow> key m \<notin> set (occupied s)"
  by (auto simp: occupantsOf_def occupied_def filter_empty_conv image_iff)

lemma occupied_markers: "occupied s = map key (map t_marker (botThreads s))"
  by (simp add: occupied_def)

subsection \<open>Runs keep it\<close>

lemma summary_updateNote:
  "updateNote b m body ns = Some (n, ns') \<Longrightarrow> a_kind (m_artifact m) = kindSummary \<Longrightarrow>
     length [x \<leftarrow> ns'. summaryOfBot b x] = length [x \<leftarrow> ns. summaryOfBot b x]"
  by (induction ns arbitrary: ns') (auto simp: Let_def summaryOfBot_def split: if_splits)

lemma summary_none: "updateNote b m body ns = None \<Longrightarrow> [x \<leftarrow> ns. summaryOfBot b x] = []"
  by (induction ns) (auto simp: Let_def split: if_splits)

lemma SummaryNoteCount_alt: "SummaryNoteCount s = length [n \<leftarrow> fk_notes s. summaryOfBot (fk_bot s) n]"
  by (simp add: SummaryNoteCount_def summaryOfBot_def)

definition oneSummary :: "fakeForge \<Rightarrow> fakeForge \<Rightarrow> bool" where
  "oneSummary s s' \<longleftrightarrow> (SummaryNoteCount s \<le> 1 \<longrightarrow> SummaryNoteCount s' \<le> 1)"

definition oneMerge :: "fakeForge \<Rightarrow> fakeForge \<Rightarrow> bool" where
  "oneMerge s s' \<longleftrightarrow> (mergeRecord s \<longrightarrow> mergeRecord s')"

lemma oneSummary_upsert: "keeps oneSummary (fakeUpsertComment m body)"
proof (rule keepsI)
  fix s r s' assume run: "fakeUpsertComment m body s = (r, s')"
  show "oneSummary s s'"
  proof (cases "a_kind (m_artifact m) = kindSummary \<and> (\<exists>full. Envelope m body = Inr full)")
    case False
    then have "s' = s" using run by (auto simp: fakeUpsertComment_def split: if_splits sum.splits)
    then show ?thesis by (simp add: oneSummary_def)
  next
    case True
    then obtain full where t: "a_kind (m_artifact m) = kindSummary" "Envelope m body = Inr full" by blast
    show ?thesis
    proof (cases "updateNote (fk_bot s) m full (fk_notes s)")
      case None
      then show ?thesis using run t summary_none [OF None]
        by (auto simp: fakeUpsertComment_def Let_def noteMutation_def oneSummary_def SummaryNoteCount_alt)
    next
      case (Some x)
      obtain n ns where "x = (n, ns)" by (cases x)
      then show ?thesis using run t Some summary_updateNote [of "fk_bot s" m full "fk_notes s" n ns]
        by (auto simp: fakeUpsertComment_def noteMutation_def oneSummary_def SummaryNoteCount_alt)
    qed
  qed
qed

lemma keeps_unchanged:
  assumes "\<And>s. g (snd (m s)) = g s" and "\<And>s s'. g s' = g s \<Longrightarrow> R s s'"
  shows "keeps R m"
  using assms by (simp add: keeps_def)

lemma notes_unchanged:
  "fk_notes (snd (fakeListBotThreads None s)) = fk_notes s \<and> fk_bot (snd (fakeListBotThreads None s)) = fk_bot s"
  "fk_notes (snd (fakeResolveThread i s)) = fk_notes s \<and> fk_bot (snd (fakeResolveThread i s)) = fk_bot s"
  "fk_notes (snd (fakeCreateThread m b s)) = fk_notes s \<and> fk_bot (snd (fakeCreateThread m b s)) = fk_bot s"
  "fk_notes (snd (fakeListBotNotes s)) = fk_notes s \<and> fk_bot (snd (fakeListBotNotes s)) = fk_bot s"
  "fk_notes (snd (fakeCurrentHeads (moveHeads f) s)) = fk_notes s \<and> fk_bot (snd (fakeCurrentHeads (moveHeads f) s)) = fk_bot s"
  "fk_notes (snd (fakeApprove s)) = fk_notes s \<and> fk_bot (snd (fakeApprove s)) = fk_bot s"
  "fk_notes (snd (fakeMergeCAS dm s)) = fk_notes s \<and> fk_bot (snd (fakeMergeCAS dm s)) = fk_bot s"
  by (auto simp: fakeListBotThreads_def fakeResolveThread_def fakeCreateThread_def fakeListBotNotes_def
      fakeCurrentHeads_def moveHeads_def fakeApprove_def fakeMergeCAS_def noteMutation_def Let_def
      split: option.split sum.split prod.split)

lemma merges_unchanged:
  "fk_merges (snd (fakeListBotThreads None s)) = fk_merges s \<and> fk_merged (snd (fakeListBotThreads None s)) = fk_merged s"
  "fk_merges (snd (fakeResolveThread i s)) = fk_merges s \<and> fk_merged (snd (fakeResolveThread i s)) = fk_merged s"
  "fk_merges (snd (fakeCreateThread m b s)) = fk_merges s \<and> fk_merged (snd (fakeCreateThread m b s)) = fk_merged s"
  "fk_merges (snd (fakeListBotNotes s)) = fk_merges s \<and> fk_merged (snd (fakeListBotNotes s)) = fk_merged s"
  "fk_merges (snd (fakeCurrentHeads (moveHeads f) s)) = fk_merges s \<and> fk_merged (snd (fakeCurrentHeads (moveHeads f) s)) = fk_merged s"
  "fk_merges (snd (fakeApprove s)) = fk_merges s \<and> fk_merged (snd (fakeApprove s)) = fk_merged s"
  "fk_merges (snd (fakeUpsertComment m b s)) = fk_merges s \<and> fk_merged (snd (fakeUpsertComment m b s)) = fk_merged s"
  by (auto simp: fakeListBotThreads_def fakeResolveThread_def fakeCreateThread_def fakeListBotNotes_def
      fakeCurrentHeads_def moveHeads_def fakeApprove_def fakeUpsertComment_def noteMutation_def Let_def
      split: option.split sum.split prod.split)

lemma oneMerge_merge: "keeps oneMerge (fakeMergeCAS dm)"
  by (rule keepsI) (auto simp: fakeMergeCAS_def oneMerge_def mergeRecord_def Let_def split: if_splits)

lemma oneSummary_same: "(fk_notes s', fk_bot s') = (fk_notes s, fk_bot s) \<Longrightarrow> oneSummary s s'"
  by (simp add: oneSummary_def SummaryNoteCount_def)

lemma oneMerge_same: "(fk_merges s', fk_merged s') = (fk_merges s, fk_merged s) \<Longrightarrow> oneMerge s s'"
  by (simp add: oneMerge_def mergeRecord_def)

lemma Reconcile_oneSummary: "oneSummary s (snd (Reconcile (fakeF f) clock d pre s))"
proof -
  note k = keeps_unchanged [where g = "\<lambda>s. (fk_notes s, fk_bot s)", OF _ oneSummary_same]
  show ?thesis
    by (rule keeps_Reconcile [of oneSummary])
      (auto intro!: k oneSummary_upsert simp: notes_unchanged oneSummary_def reflp_def transp_def)
qed

lemma Reconcile_oneMerge: "oneMerge s (snd (Reconcile (fakeF f) clock d pre s))"
proof -
  note k = keeps_unchanged [where g = "\<lambda>s. (fk_merges s, fk_merged s)", OF _ oneMerge_same]
  show ?thesis
    by (rule keeps_Reconcile [of oneMerge])
      (auto intro!: k oneMerge_merge simp: merges_unchanged oneMerge_def reflp_def transp_def)
qed

lemma fresh_occupied_marked:
  assumes "fake.marked s s'" "freshIds s"
  shows "freshIds s' \<and> occupied s' = occupied s"
  using assms by (simp add: fake.marked_def occupied_markers)

lemma Reconcile_occupied:
  assumes w: "freshIds s" and dist: "distinct (occupied s)"
    and run: "Reconcile (fakeF f) clock d pre s = (out, s')"
  shows "freshIds s' \<and> distinct (occupied s')"
proof -
  obtain rc err where out: "out = (rc, err)" by (cases out)
  have path: "freshIds u \<and> distinct (occupied u)"
    if pre: "preamble (fakeF f) clock d s = (x, t)" and r: "runPath (fakeF f) clock d pre path t = (r, u)"
    for x t r u path
  proof -
    have t: "freshIds t" "occupied t = occupied s"
      using keepsD [OF fake.preamble_calm pre] w by (auto simp: fake.calm_def fake.quiet_def occupied_def)
    show ?thesis
    proof (cases path)
      case (PathThread dt)
      then have "reconcileThread (fakeF f) clock d dt t = (r, u)" using r by (simp add: runPath_def)
      from fake.thread_markers [OF t(1) this]
      have "freshIds u \<and> (occupied u = occupied t \<or> key (dt_marker dt) \<notin> set (occupied t)
          \<and> occupied u = occupied t @ [key (dt_marker dt)])"
        unfolding occupantsOf_occupied occupied_markers by (metis list.map map_append)
      then show ?thesis using t dist by auto
    next
      case (PathClearSlot sl)
      then have "reconcileClearSlot (fakeF f) clock d sl t = (r, u)" using r by (simp add: runPath_def)
      from fresh_occupied_marked [OF keepsD [OF fake.marked_clear this] t(1)] t dist show ?thesis by simp
    next
      case (PathApproveMerge m)
      then have "reconcileApproveMerge (fakeF f) clock d pre m t = (r, u)" using r by (simp add: runPath_def)
      from fake.approve_effect [OF t(1) this] t dist show ?thesis by (simp add: occupied_def)
    qed
  qed
  from run [unfolded out] show ?thesis
  proof (cases rule: Reconcile_cases)
    case (preamble p e)
    then show ?thesis
      using keepsD [OF fake.preamble_calm preamble(2)] w dist by (auto simp: fake.calm_def fake.quiet_def occupied_def)
  qed (use w dist path in blast)+
qed

lemma forge_inv_publish:
  assumes "forge_inv s" and "Reconcile (fakeF f) clock d pre s = (out, s')"
  shows "forge_inv s'"
  using assms Reconcile_occupied [OF _ _ assms(2)] Reconcile_oneSummary [of s f clock d pre]
    Reconcile_oneMerge [of s f clock d pre]
  by (auto simp: forge_inv_def oneSummary_def oneMerge_def)

subsection \<open>Everybody else keeps it\<close>

lemma setResolved_threads:
  "t_id ` set (fk_threads (setResolved i b s)) = t_id ` set (fk_threads s)"
  "map t_id (fk_threads (setResolved i b s)) = map t_id (fk_threads s)"
proof -
  have ids: "map t_id (map (\<lambda>t. if t_id t = i then t\<lparr>t_resolved := b\<rparr> else t) ts) = map t_id ts" for ts
    by (induction ts) auto
  show "map t_id (fk_threads (setResolved i b s)) = map t_id (fk_threads s)"
    using ids by (simp add: setResolved_def)
  then show "t_id ` set (fk_threads (setResolved i b s)) = t_id ` set (fk_threads s)" by (metis list.set_map)
qed

lemma setResolved_occupied: "occupied (setResolved i b s) = occupied s"
proof -
  have "map (key \<circ> t_marker) [t \<leftarrow> map (\<lambda>t. if t_id t = i then t\<lparr>t_resolved := b\<rparr> else t) ts. t_author t = a]
      = map (key \<circ> t_marker) [t \<leftarrow> ts. t_author t = a]" for ts a
    by (induction ts) auto
  then show ?thesis by (simp add: occupied_def botThreads_def setResolved_def)
qed

lemma forge_inv_step: "forge_step s s' \<Longrightarrow> forge_inv s \<Longrightarrow> forge_inv s'"
proof (erule forge_stepE)
  fix author i m b assume "forge_inv s" "author \<noteq> fk_bot s" "i \<notin> t_id ` set (fk_threads s)" "\<forall>k. i \<noteq> threadId k"
    "s' = SeedThread i author m b s"
  then show "forge_inv s'"
    by (auto simp: forge_inv_def SeedThread_def freshIds_def occupied_def botThreads_def SummaryNoteCount_def mergeRecord_def)
next
  fix author i m body assume "forge_inv s" "author \<noteq> fk_bot s" "s' = SeedNote i author m body s"
  then show "forge_inv s'"
    by (auto simp: forge_inv_def SeedNote_def freshIds_def occupied_def botThreads_def SummaryNoteCount_def mergeRecord_def)
next
  fix i b assume inv: "forge_inv s" and s': "s' = setResolved i b s"
  show "forge_inv s'"
    using inv setResolved_threads [of i b s] setResolved_occupied [of i b s]
    by (simp add: s' forge_inv_def freshIds_def) (simp add: setResolved_def SummaryNoteCount_def mergeRecord_def)
next
  fix f assume "forge_inv s" "s' = moveHeads f s"
  then show "forge_inv s'"
    by (auto simp: forge_inv_def moveHeads_def freshIds_def occupied_def botThreads_def SummaryNoteCount_def mergeRecord_def
        split: prod.split)
qed (blast intro: forge_inv_publish)

text \<open>
  C21: whatever the contributors post, the reviewers resolve or reopen and the pushes move, and
  whichever desired states serialised runs publish, raced or not, failing or not: no two bot
  threads ever occupy the same slot and occurrence, the bot has at most one summary note, the
  merge request is merged at most once, and thread ids stay unique.
\<close>

theorem reachable_invariant:
  assumes "reachable s"
  shows "forge_inv s"
  using assms
proof induction
  case (start author x y z)
  then show ?case
    by (simp add: forge_inv_def fresh_new) (simp add: newFake_def occupied_def botThreads_def SummaryNoteCount_def mergeRecord_def)
next
  case (step s s')
  then show ?case using forge_inv_step by blast
qed

theorem reachable_invariant_witness:
  "forge_inv (setResolved ''x'' True (SeedThread ''x'' ''mallory'' (demo_marker ''o1'') False demo_forge))"
proof (rule reachable_invariant)
  have "\<forall>k. ''x'' \<noteq> threadId k" by (simp add: threadId_def)
  moreover have "reachable demo_forge" unfolding demo_forge_def by (rule reachable.start)
  ultimately have "reachable (SeedThread ''x'' ''mallory'' (demo_marker ''o1'') False demo_forge)"
    by (intro reachable.step [OF _ forge_step.contributorThread]) (simp_all add: demo_forge_def newFake_def)
  then show "reachable (setResolved ''x'' True (SeedThread ''x'' ''mallory'' (demo_marker ''o1'') False demo_forge))"
    by (rule reachable.step) (rule forge_step.reviewer)
qed

end
