(* ===== verification/ForgeAuthors.thy ===== *)
theory ForgeAuthors
  imports ForgeWorld
begin

text \<open>
  Author identity: \<open>Reconcile\<close> sees the forge only through the artifacts of its own account.
  Two forges with the same view behave the same, whatever anybody else has posted.
\<close>

subsection \<open>Programs that respect a view\<close>

named_theorems respects

definition agrees :: "('s \<Rightarrow> bool) \<Rightarrow> ('s \<Rightarrow> 'v) \<Rightarrow> ('s, 'a) io \<Rightarrow> bool" where
  "agrees W F m \<longleftrightarrow> (\<forall>s u. W s \<and> W u \<and> F s = F u \<longrightarrow>
     fst (m s) = fst (m u) \<and> F (snd (m s)) = F (snd (m u)) \<and> W (snd (m s)) \<and> W (snd (m u)))"

lemma agreesD:
  "agrees W F m \<Longrightarrow> W s \<Longrightarrow> W u \<Longrightarrow> F s = F u \<Longrightarrow>
     fst (m s) = fst (m u) \<and> F (snd (m s)) = F (snd (m u)) \<and> W (snd (m s)) \<and> W (snd (m u))"
  unfolding agrees_def by blast

lemma agreesI:
  "(\<And>s u. W s \<Longrightarrow> W u \<Longrightarrow> F s = F u \<Longrightarrow>
     fst (m s) = fst (m u) \<and> F (snd (m s)) = F (snd (m u)) \<and> W (snd (m s)) \<and> W (snd (m u))) \<Longrightarrow> agrees W F m"
  unfolding agrees_def by blast

lemma agrees_ret [respects]: "agrees W F (retIO a)"
  by (simp add: agrees_def retIO_def)

lemma agrees_fail [respects]: "agrees W F (failIO e)"
  by (simp add: agrees_def failIO_def)

lemma agrees_wrap [respects]: "agrees W F m \<Longrightarrow> agrees W F (wrapIO ctx m)"
  unfolding agrees_def wrapIO_def by (fastforce split: prod.split sum.split)

lemma agrees_then [respects]:
  assumes m: "agrees W F m" and k: "\<And>a. agrees W F (k a)"
  shows "agrees W F (thenIO m k)"
proof (rule agreesI)
  fix s u assume su: "W s" "W u" "F s = F u"
  obtain x t where ms: "m s = (x, t)" by (cases "m s")
  obtain y v where mu: "m u = (y, v)" by (cases "m u")
  have h: "x = y" "F t = F v" "W t" "W v" using agreesD [OF m su] ms mu by auto
  show "fst (thenIO m k s) = fst (thenIO m k u) \<and> F (snd (thenIO m k s)) = F (snd (thenIO m k u))
      \<and> W (snd (thenIO m k s)) \<and> W (snd (thenIO m k u))"
    using h ms mu agreesD [OF k h(3,4,2)] by (cases y) (simp_all add: thenIO_def)
qed

lemma agrees_operationOf [respects]: "agrees W F (operationOf (\<lambda>_. now) kd i)"
  by (simp add: agrees_def operationOf_def)

lemma agrees_threadReceipt [respects]: "agrees W F (threadReceipt (\<lambda>_. now) i)"
  unfolding threadReceipt_def by (intro respects)

lemma agrees_resolveEach [respects]:
  "(\<And>i. agrees W F (ResolveThread p (d_project d) (d_mr d) i)) \<Longrightarrow> agrees W F (resolveEach p d ctx is)"
  by (induction "is") (auto intro!: respects)

text \<open>\<open>Reconcile\<close> respects every view that the operations of its port respect.\<close>

lemma agrees_Reconcile:
  assumes ops: "agrees W F (ListBotThreads p (d_project d) (d_mr d))"
    "\<And>i. agrees W F (ResolveThread p (d_project d) (d_mr d) i)"
    "\<And>m b. agrees W F (CreateThread p (d_project d) (d_mr d) m b)"
    "agrees W F (ListBotNotes p (d_project d) (d_mr d))"
    "\<And>m b. agrees W F (UpsertComment p (d_project d) (d_mr d) m b)"
    "agrees W F (CurrentHeads p (d_project d) (d_mr d))"
    "agrees W F (Approve p (d_project d) (d_mr d))" "\<And>m. agrees W F (MergeCAS p (d_project d) (d_mr d) m)"
    and warn: "Warnings p = None" and su: "W s" "W u" "F s = F u"
  shows "fst (Reconcile p (\<lambda>_. now) d pre s) = fst (Reconcile p (\<lambda>_. now) d pre u)
    \<and> F (snd (Reconcile p (\<lambda>_. now) d pre s)) = F (snd (Reconcile p (\<lambda>_. now) d pre u))"
proof (cases "reconcilePathOf d")
  case (Inl e)
  with warn su show ?thesis by (simp add: Reconcile_def withWarnings_def warningsOf_def)
next
  case (Inr path)
  have "agrees W F (runPath p (\<lambda>_. now) d pre path)"
    unfolding runPath_def reconcileThread_def publishThread_def repairDuplicates_def Let_def rescanThreadDesired_def
      reconcileClearSlot_def rescanClearSlot_def reconcileApproveMerge_def
    by (cases path) (auto intro!: respects ops split: list.split option.split prod.split)
  moreover have "agrees W F (preamble p (\<lambda>_. now) d)"
    unfolding preamble_def reconcileSummaryPreamble_def reconcileSummary_def
    by (auto intro!: respects ops split: option.split)
  ultimately have a: "agrees W F (thenIO (preamble p (\<lambda>_. now) d)
      (\<lambda>ops. thenIO (runPath p (\<lambda>_. now) d pre path) (\<lambda>r. retIO (withPreamble ops r))))" (is "agrees W F ?m")
    by (intro respects)
  obtain x t where s: "?m s = (x, t)" by (cases "?m s")
  obtain y v where u: "?m u = (y, v)" by (cases "?m u")
  show ?thesis
    using agreesD [OF a su] s u Inr warn
    by (cases y) (simp_all add: Reconcile_def withWarnings_def warningsOf_def)
qed

subsection \<open>The view of the bot\<close>

definition botNotes :: "fakeForge \<Rightarrow> mrNote list" where
  "botNotes s = [n \<leftarrow> fk_notes s. n_author n = fk_bot s]"

definition botView where
  "botView s = (fk_bot s, botThreads s, botNotes s, headsOf s, fk_approvals s, fk_merges s, fk_merged s, fk_seq s)"

lemma updateNote_bot:
  "updateNote b m body [n \<leftarrow> ns. n_author n = b]
     = map_option (\<lambda>(n, ns'). (n, [n \<leftarrow> ns'. n_author n = b])) (updateNote b m body ns)"
  by (induction ns) (auto simp: Let_def summaryOfBot_def option.map_comp comp_def split: prod.split intro!: map_option_cong)

lemma view_list: "agrees freshIds botView (fakeListBotThreads None)"
  by (rule agreesI) (auto simp: fakeListBotThreads_def botView_def botThreads_def botNotes_def headsOf_def freshIds_def)

lemma view_listNotes: "agrees freshIds botView fakeListBotNotes"
  by (rule agreesI) (auto simp: fakeListBotNotes_def botView_def botNotes_def)

lemma view_heads: "agrees freshIds botView (fakeCurrentHeads (moveHeads f))"
  by (rule agreesI)
    (auto simp: fakeCurrentHeads_def botView_def botThreads_def botNotes_def headsOf_def freshIds_def moveHeads_def
      split: prod.split)

lemma view_approve: "agrees freshIds botView fakeApprove"
  by (rule agreesI)
    (auto simp: fakeApprove_def botView_def botThreads_def botNotes_def headsOf_def freshIds_def Let_def)

lemma view_merge: "agrees freshIds botView (fakeMergeCAS dm)"
  by (rule agreesI)
    (auto simp: fakeMergeCAS_def botView_def botThreads_def botNotes_def headsOf_def freshIds_def Let_def)

lemma view_resolve: "agrees freshIds botView (fakeResolveThread i)"
proof (rule agreesI)
  fix s u assume w: "freshIds s" "freshIds u" and v: "botView s = botView u"
  have step: "freshIds x' \<and> botThreads x' = map (closing i) (botThreads x) \<and> fk_bot x' = fk_bot x
      \<and> botNotes x' = botNotes x \<and> headsOf x' = headsOf x \<and> fk_approvals x' = fk_approvals x
      \<and> fk_merges x' = fk_merges x \<and> fk_merged x' = fk_merged x \<and> fk_seq x' = fk_seq x"
    if "freshIds x" "fakeResolveThread i x = (Inr (), x')" for x x'
  proof -
    from that(2) have r: "ResolveThread (fakeF (\<lambda>h. h)) [] [] i x = (Inr (), x')" by simp
    from that(2) have "fk_bot x' = fk_bot x \<and> botNotes x' = botNotes x \<and> fk_merged x' = fk_merged x \<and> fk_seq x' = fk_seq x"
      by (auto simp: fakeResolveThread_def noteMutation_def botNotes_def split: option.splits if_splits)
    with fake.resolve [OF that(1) r] show ?thesis by simp
  qed
  obtain s' u' where e: "fakeResolveThread i s = (Inr (), s')" "fakeResolveThread i u = (Inr (), u')"
    by (simp add: fakeResolveThread_def)
  from step [OF w(1) e(1)] step [OF w(2) e(2)] v e
  show "fst (fakeResolveThread i s) = fst (fakeResolveThread i u)
      \<and> botView (snd (fakeResolveThread i s)) = botView (snd (fakeResolveThread i u))
      \<and> freshIds (snd (fakeResolveThread i s)) \<and> freshIds (snd (fakeResolveThread i u))"
    by (simp add: botView_def)
qed

lemma view_create: "agrees freshIds botView (fakeCreateThread m b)"
proof (rule agreesI)
  fix s u assume w: "freshIds s" "freshIds u" and v: "botView s = botView u"
  have fresh: "freshIds (snd (fakeCreateThread m b x))" if "freshIds x" for x
  proof -
    obtain r x' where c: "CreateThread (fakeF (\<lambda>h. h)) [] [] m b x = (r, x')"
      by (cases "CreateThread (fakeF (\<lambda>h. h)) [] [] m b x")
    from fake.create [OF that c] c show ?thesis by simp
  qed
  have "fst (fakeCreateThread m b s) = fst (fakeCreateThread m b u)
      \<and> botView (snd (fakeCreateThread m b s)) = botView (snd (fakeCreateThread m b u))"
    using v by (cases "Envelope m b")
      (auto simp: fakeCreateThread_def noteMutation_def Let_def botView_def botThreads_def botNotes_def headsOf_def)
  with fresh w show "fst (fakeCreateThread m b s) = fst (fakeCreateThread m b u)
      \<and> botView (snd (fakeCreateThread m b s)) = botView (snd (fakeCreateThread m b u))
      \<and> freshIds (snd (fakeCreateThread m b s)) \<and> freshIds (snd (fakeCreateThread m b u))"
    by blast
qed

lemma view_upsert: "agrees freshIds botView (fakeUpsertComment m b)"
proof (rule agreesI)
  fix s u assume w: "freshIds s" "freshIds u" and v: "botView s = botView u"
  have fresh: "freshIds (snd (fakeUpsertComment m b x))" if "freshIds x" for x
  proof -
    obtain r x' where c: "UpsertComment (fakeF (\<lambda>h. h)) [] [] m b x = (r, x')"
      by (cases "UpsertComment (fakeF (\<lambda>h. h)) [] [] m b x")
    from fake.upsert [OF that c] c show ?thesis by simp
  qed
  have bn: "botNotes s = botNotes u" "fk_bot s = fk_bot u" using v by (simp_all add: botView_def)
  have up: "map_option (\<lambda>(n, ns). (n, [x \<leftarrow> ns. n_author x = fk_bot s])) (updateNote (fk_bot s) m full (fk_notes s))
      = map_option (\<lambda>(n, ns). (n, [x \<leftarrow> ns. n_author x = fk_bot u])) (updateNote (fk_bot u) m full (fk_notes u))" for full
    using bn updateNote_bot [of "fk_bot s" m full "fk_notes s"] updateNote_bot [of "fk_bot u" m full "fk_notes u"]
    by (simp add: botNotes_def)
  have "fst (fakeUpsertComment m b s) = fst (fakeUpsertComment m b u)
      \<and> botView (snd (fakeUpsertComment m b s)) = botView (snd (fakeUpsertComment m b u))"
  proof (cases "Envelope m b")
    case (Inl e)
    then show ?thesis using v by (simp add: fakeUpsertComment_def)
  next
    case (Inr full)
    then show ?thesis
      using v up [of full]
      by (cases "updateNote (fk_bot s) m full (fk_notes s)"; cases "updateNote (fk_bot u) m full (fk_notes u)")
        (auto simp: fakeUpsertComment_def noteMutation_def Let_def botView_def botThreads_def botNotes_def headsOf_def)
  qed
  with fresh w show "fst (fakeUpsertComment m b s) = fst (fakeUpsertComment m b u)
      \<and> botView (snd (fakeUpsertComment m b s)) = botView (snd (fakeUpsertComment m b u))
      \<and> freshIds (snd (fakeUpsertComment m b s)) \<and> freshIds (snd (fakeUpsertComment m b u))"
    by blast
qed

text \<open>
  C22: a contributor cannot influence a run. Two forges that differ only in what other accounts
  have posted, threads and notes with perfectly formed markers included, give the same receipt
  or the same error, and leave the same bot threads, bot notes, approvals and merges behind.
\<close>

theorem contributors_invisible:
  assumes "freshIds s" "freshIds u" and "botView s = botView u"
  shows "fst (Reconcile (fakeF f) (\<lambda>_. now) d pre s) = fst (Reconcile (fakeF f) (\<lambda>_. now) d pre u)
    \<and> botView (snd (Reconcile (fakeF f) (\<lambda>_. now) d pre s)) = botView (snd (Reconcile (fakeF f) (\<lambda>_. now) d pre u))"
  by (rule agrees_Reconcile [where W = freshIds])
    (simp_all add: assms view_list view_listNotes view_heads view_approve view_merge view_resolve view_create view_upsert)

theorem contributors_invisible_witness:
  "fst (Reconcile (fakeF (\<lambda>h. h)) (\<lambda>_. ''now'') demo_review demo_pre demo_forge)
     = fst (Reconcile (fakeF (\<lambda>h. h)) (\<lambda>_. ''now'') demo_review demo_pre
              (SeedThread ''x'' ''mallory'' (demo_marker ''o1'') False demo_forge))"
proof -
  let ?u = "SeedThread ''x'' ''mallory'' (demo_marker ''o1'') False demo_forge"
  have "\<forall>k. threadId k \<noteq> ''x''" by (simp add: threadId_def)
  then have "freshIds demo_forge" "freshIds ?u"
    by (simp_all add: freshIds_def SeedThread_def demo_forge_def newFake_def)
  moreover have "botView demo_forge = botView ?u"
    by (simp add: botView_def botThreads_def botNotes_def headsOf_def SeedThread_def demo_forge_def newFake_def)
  ultimately show ?thesis using contributors_invisible by blast
qed

end
