(* ===== verification/DecisionRecord.thy ===== *)
theory DecisionRecord
  imports Coverage
begin

text \<open>
  \<open>internal/core/decision/record.go\<close>: the record of a decision and the model its renderers
  read. A finding of the record is the engine's finding without its message.
\<close>

subsection \<open>The merge-result pin\<close>

record mergeResult =
  mr_digest :: string
  mr_gap :: string

datatype record_error = EmptyDigest | EmptyGapReason | UnpinnedWithoutGap

definition PinnedMergeResult :: "string \<Rightarrow> record_error + mergeResult" where
  "PinnedMergeResult digest =
     (if digest = [] then Inl EmptyDigest else Inr \<lparr>mr_digest = digest, mr_gap = []\<rparr>)"

definition MergeResultGap :: "string \<Rightarrow> record_error + mergeResult" where
  "MergeResultGap reason =
     (if reason = [] then Inl EmptyGapReason else Inr \<lparr>mr_digest = [], mr_gap = reason\<rparr>)"

definition SkeletonMergeGap :: mergeResult where
  "SkeletonMergeGap =
     (case MergeResultGap (''merge-result digest not computed in the P4-E1 walking skeleton (no merge path until S08, ADR-0017 ''
              @ map char_of [194, 167 :: nat] @ ''1)'') of
        Inl e \<Rightarrow> \<lparr>mr_digest = [], mr_gap = []\<rparr> | Inr m \<Rightarrow> m)"

definition pinned :: "mergeResult \<Rightarrow> bool" where
  "pinned m \<longleftrightarrow> mr_digest m \<noteq> []"

subsection \<open>The artifacts\<close>

text \<open>\<open>factsResolvedAt\<close> is a Go map that may be nil.\<close>

record pins =
  pn_toolVersion :: string
  pn_toolDigest :: string
  pn_policySha :: string
  pn_source :: string
  pn_target :: string
  pn_mergeResult :: mergeResult
  pn_factsResolvedAt :: "string assoc option"

record recordFinding =
  rf_rule :: string
  rf_obligation :: string
  rf_effect :: effect
  rf_subject :: string
  rf_points :: int
  rf_code :: string

record findingsObject =
  fo_observed :: "recordFinding list"
  fo_enforcing :: "recordFinding list"

text \<open>
  A nil \<open>*string\<close> digest is None and marshals to null; an empty gap is left out of the
  document by \<open>omitempty\<close>.
\<close>

record pinsObject =
  po_toolVersion :: string
  po_toolDigest :: string
  po_policySha :: string
  po_source :: string
  po_target :: string
  po_mergeResultDigest :: "string option"
  po_capabilityGap :: string
  po_factsResolvedAt :: "string assoc"

record decisionRecord =
  re_apiVersion :: string
  re_kind :: string
  re_decision :: decision
  re_findings :: findingsObject
  re_pins :: pinsObject

record presentationModel =
  pm_apiVersion :: string
  pm_kind :: string
  pm_decision :: decision
  pm_findings :: "recordFinding list"

record report =
  rep_record :: decisionRecord
  rep_presentation :: presentationModel

subsection \<open>Building them\<close>

definition projectFinding :: "finding \<Rightarrow> recordFinding" where
  "projectFinding f = \<lparr>rf_rule = fd_rule f, rf_obligation = fd_obligation f, rf_effect = fd_effect f,
     rf_subject = fd_subject f, rf_points = fd_points f, rf_code = fd_code f\<rparr>"

definition recordKey :: "recordFinding \<Rightarrow> string \<times> string \<times> string \<times> string \<times> string" where
  "recordKey f = (rf_subject f, rf_rule f, rf_obligation f, rf_code f, rf_effect f)"

definition toFindings :: "finding list \<Rightarrow> recordFinding list" where
  "toFindings fs = sort_key recordKey (map projectFinding fs)"

definition nonNilFacts :: "string assoc option \<Rightarrow> string assoc" where
  "nonNilFacts m = (case m of None \<Rightarrow> [] | Some fs \<Rightarrow> fs)"

definition marshalPins :: "pins \<Rightarrow> record_error + pinsObject" where
  "marshalPins p =
     (let obj = \<lparr>po_toolVersion = pn_toolVersion p, po_toolDigest = pn_toolDigest p,
                 po_policySha = pn_policySha p, po_source = pn_source p, po_target = pn_target p,
                 po_mergeResultDigest = None, po_capabilityGap = [],
                 po_factsResolvedAt = nonNilFacts (pn_factsResolvedAt p)\<rparr> in
      if pinned (pn_mergeResult p) then Inr (obj\<lparr>po_mergeResultDigest := Some (mr_digest (pn_mergeResult p))\<rparr>)
      else if mr_gap (pn_mergeResult p) = [] then Inl UnpinnedWithoutGap
      else Inr (obj\<lparr>po_mergeResultDigest := None, po_capabilityGap := mr_gap (pn_mergeResult p)\<rparr>))"

definition Build :: "result \<Rightarrow> pins \<Rightarrow> record_error + report" where
  "Build res p =
     bind_res (marshalPins p) (\<lambda>po.
       Inr \<lparr>rep_record = \<lparr>re_apiVersion = ''assent.dev/v1alpha1'', re_kind = ''DecisionRecord'',
              re_decision = res_decision res,
              re_findings = \<lparr>fo_observed = toFindings (res_observed res), fo_enforcing = toFindings (res_findings res)\<rparr>,
              re_pins = po\<rparr>,
            rep_presentation = \<lparr>pm_apiVersion = ''assent.dev/v1alpha1'', pm_kind = ''PresentationModel'',
              pm_decision = res_decision res, pm_findings = toFindings (res_findings res)\<rparr>\<rparr>)"

subsection \<open>Facts\<close>

lemma marshalPins_Inr_iff:
  "(\<exists>po. marshalPins p = Inr po) \<longleftrightarrow> mr_digest (pn_mergeResult p) \<noteq> [] \<or> mr_gap (pn_mergeResult p) \<noteq> []"
  by (auto simp: marshalPins_def pinned_def Let_def)

lemma marshalPins_coupled:
  "marshalPins p = Inr po \<Longrightarrow> (po_mergeResultDigest po = None) = (po_capabilityGap po \<noteq> [])"
  by (auto simp: marshalPins_def pinned_def Let_def split: if_splits)

text \<open>Two findings with one key differ in their points only.\<close>

lemma toFindings_perm:
  assumes "mset fs = mset gs"
    and "\<And>f g. f \<in> set fs \<Longrightarrow> g \<in> set fs \<Longrightarrow> recordKey (projectFinding f) = recordKey (projectFinding g)
           \<Longrightarrow> fd_points f = fd_points g"
  shows "toFindings fs = toFindings gs"
  unfolding toFindings_def
proof (rule sort_key_perm)
  show "mset (map projectFinding fs) = mset (map projectFinding gs)" using assms(1) by (simp)
  fix x y
  assume "x \<in> set (map projectFinding fs)" "y \<in> set (map projectFinding fs)" and k: "recordKey x = recordKey y"
  then obtain f g where fg: "f \<in> set fs" "g \<in> set fs" "x = projectFinding f" "y = projectFinding g" by auto
  then have "fd_points f = fd_points g" using assms(2) k by blast
  then show "x = y" using k by (simp add: fg(3,4) recordKey_def projectFinding_def)
qed

end
