(* ===== verification/Provider.thy ===== *)
theory Provider
  imports EvalLeaf Policy
begin

text \<open>
  \<open>internal/provider\<close>: the host side of the fact provider protocol. The envelopes, the version
  negotiation, the age ceilings of declarations, the classification of a provider's answer,
  the exec transport's scrubbing and bounds, and the freshness check of
  \<open>cmd/assent/run_arming.go\<close> that arming repeats. An instant is its number of nanoseconds, as a
  duration is; \<open>encoding/json\<close>, the schema validator, \<open>time.ParseDuration\<close>, \<open>time.Format\<close> and
  \<open>time.Parse\<close> are parameters, and so are the HTTP exchange and the child process.
\<close>

subsection \<open>Envelopes (envelope.go, config.go)\<close>

abbreviation StateUnavailable :: string where "StateUnavailable \<equiv> ''unavailable''"
abbreviation StateInvalid :: string where "StateInvalid \<equiv> ''invalid''"
abbreviation StateExpired :: string where "StateExpired \<equiv> ''expired''"

record provSubject =
  sb_kind :: string
  sb_id :: string

record valueProjection =
  vp_pointer :: string
  vp_old :: gval
  vp_new :: gval

record factQuery =
  fq_apiVersion :: string
  fq_kind :: string
  fq_queryId :: string
  fq_asOf :: int
  fq_subject :: provSubject
  fq_outputs :: "string list"
  fq_projections :: "valueProjection list"
  fq_deadlineMs :: int

record factDecl =
  dc_type :: string
  dc_cardinality :: string
  dc_subject :: string
  dc_sensitive :: bool
  dc_maxAge :: string

record provFact =
  ft_name :: string
  ft_declaration :: factDecl
  ft_state :: string
  ft_subject :: provSubject
  ft_observedAt :: int
  ft_expiresAt :: "int option"
  ft_value :: gval
  ft_reason :: string

record factResponse =
  fr_apiVersion :: string
  fr_kind :: string
  fr_queryId :: string
  fr_facts :: "provFact list"

record execDeclaration =
  ed_binary :: string
  ed_digest :: string
  ed_env :: "string list"
  ed_args :: "string list"

record repoFileSpec =
  rfs_file :: string
  rfs_roots :: "string list"

record resourceOwnerSpec =
  ros_registry :: string

record provConfig =
  pc_name :: string
  pc_pointers :: "string list"
  pc_fullContent :: bool
  pc_capabilities :: "string list"
  pc_outputs :: "factDecl assoc"
  pc_exec :: "execDeclaration option"
  pc_repoFile :: "repoFileSpec option"
  pc_resourceOwner :: "resourceOwnerSpec option"

definition DeclarationsEqual :: "factDecl \<Rightarrow> factDecl \<Rightarrow> bool" where
  "DeclarationsEqual a b \<longleftrightarrow>
     dc_type a = dc_type b \<and> dc_cardinality a = dc_cardinality b \<and> dc_subject a = dc_subject b
     \<and> dc_sensitive a = dc_sensitive b \<and> dc_maxAge a = dc_maxAge b"

lemma DeclarationsEqual_eq [simp]: "DeclarationsEqual a b \<longleftrightarrow> a = b"
  by (cases a; cases b) (auto simp: DeclarationsEqual_def)

subsection \<open>Age ceilings (maxage.go)\<close>

definition secondNs :: int where "secondNs = 1000000000"
definition minuteNs :: int where "minuteNs = 60 * secondNs"
definition hourNs :: int where "hourNs = 60 * minuteNs"

definition MaxAgePrincipal :: int where "MaxAgePrincipal = hourNs"
definition MaxAgeRegistry :: int where "MaxAgeRegistry = 24 * hourNs"
definition MaxAgeSensitive :: int where "MaxAgeSensitive = 15 * minuteNs"
definition MaxAgeGlobalCap :: int where "MaxAgeGlobalCap = 24 * hourNs"

definition knownDeclarationType :: "string \<Rightarrow> bool" where
  "knownDeclarationType t \<longleftrightarrow> t \<in> set [''boolean'', ''string'', ''integer'', ''principal'']"

definition MaxAgeCeiling :: "factDecl \<Rightarrow> int" where
  "MaxAgeCeiling d =
     (if dc_sensitive d then (if \<not> knownDeclarationType (dc_type d) then 0 else MaxAgeSensitive)
      else if dc_type d = ''principal'' \<or> dc_type d = ''boolean'' then MaxAgePrincipal
      else if dc_type d = ''string'' \<or> dc_type d = ''integer'' then MaxAgeRegistry
      else 0)"

datatype age_error = AgeMissing | UnknownType string | AgeUnparseable string | AgeNotPositive string
  | NoCeiling string | AgeExceeds string

definition ValidateDeclarationMaxAge :: "(string \<Rightarrow> int option) \<Rightarrow> factDecl \<Rightarrow> age_error option" where
  "ValidateDeclarationMaxAge parseDuration d =
     (if dc_maxAge d = [] then Some AgeMissing
      else if \<not> knownDeclarationType (dc_type d) then Some (UnknownType (dc_type d))
      else (case parseDuration (dc_maxAge d) of
          None \<Rightarrow> Some (AgeUnparseable (dc_maxAge d))
        | Some a \<Rightarrow>
            if a \<le> 0 then Some (AgeNotPositive (dc_maxAge d))
            else if MaxAgeCeiling d \<le> 0 then Some (NoCeiling (dc_type d))
            else (let ceiling = (if MaxAgeCeiling d > MaxAgeGlobalCap then MaxAgeGlobalCap else MaxAgeCeiling d) in
                  if a > ceiling then Some (AgeExceeds (dc_maxAge d)) else None)))"

lemmas age_defs = secondNs_def minuteNs_def hourNs_def MaxAgePrincipal_def MaxAgeRegistry_def
  MaxAgeSensitive_def MaxAgeGlobalCap_def

subsection \<open>Declarations of the host (config.go)\<close>

abbreviation CapabilityFullContent :: string where "CapabilityFullContent \<equiv> ''trusted-full-content''"

datatype config_error = Undecodable | NameRequired | FullContentRefused string | OutputsRequired string
  | OutputAge string string age_error

text \<open>The outputs are a Go map: the list is one of its iteration orders.\<close>

fun outputAges :: "(string \<Rightarrow> int option) \<Rightarrow> string \<Rightarrow> factDecl assoc \<Rightarrow> config_error option" where
  "outputAges pd nm [] = None"
| "outputAges pd nm ((out, d) # ds) =
     (case ValidateDeclarationMaxAge pd d of
        Some e \<Rightarrow> Some (OutputAge nm out e)
      | None \<Rightarrow> outputAges pd nm ds)"

definition LoadProviderConfig ::
    "(string \<Rightarrow> provConfig option) \<Rightarrow> (string \<Rightarrow> int option) \<Rightarrow> string \<Rightarrow> config_error + provConfig" where
  "LoadProviderConfig decode pd raw =
     (case decode raw of
        None \<Rightarrow> Inl Undecodable
      | Some cfg \<Rightarrow>
          if pc_name cfg = [] then Inl NameRequired
          else if pc_fullContent cfg \<and> CapabilityFullContent \<notin> set (pc_capabilities cfg)
          then Inl (FullContentRefused (pc_name cfg))
          else if pc_outputs cfg = [] then Inl (OutputsRequired (pc_name cfg))
          else (case outputAges pd (pc_name cfg) (pc_outputs cfg) of
              Some e \<Rightarrow> Inl e
            | None \<Rightarrow> Inr cfg))"

definition projectValues :: "(string \<Rightarrow> (gval \<times> gval) option) \<Rightarrow> string list \<Rightarrow> valueProjection list" where
  "projectValues change ptrs =
     concat (map (\<lambda>ptr. case change ptr of
         None \<Rightarrow> [] | Some (old, new) \<Rightarrow> [\<lparr>vp_pointer = ptr, vp_old = old, vp_new = new\<rparr>]) ptrs)"

definition BuildQuery ::
    "provConfig \<Rightarrow> string \<Rightarrow> int \<Rightarrow> provSubject \<Rightarrow> string list \<Rightarrow> (string \<Rightarrow> (gval \<times> gval) option) \<Rightarrow> factQuery" where
  "BuildQuery cfg queryId asOf subject outputs change =
     \<lparr>fq_apiVersion = ''provider.assent.dev/v1alpha1'', fq_kind = ''FactQuery'', fq_queryId = queryId,
      fq_asOf = asOf, fq_subject = subject, fq_outputs = outputs,
      fq_projections = projectValues change (pc_pointers cfg), fq_deadlineMs = 0\<rparr>"

end
