(* ===== verification/Facts.thy ===== *)
theory Facts
  imports Provider
begin

text \<open>
  \<open>internal/provider/{negotiation,resolve,sensitive}.go\<close> and \<open>cmd/assent/run_arming.go\<close>: what the
  host makes of a provider's answer, how a fact enters the engine and which facts must still be
  fresh when a merge is armed.
\<close>

subsection \<open>Version negotiation (negotiation.go)\<close>

datatype outcome = OutcomeAccept | OutcomeCapabilityGap

record negotiation =
  ng_outcome :: outcome
  ng_refused :: bool
  ng_autoMerge :: bool
  ng_factStates :: "string \<Rightarrow> string option"
  ng_providerMajor :: "int option"
  ng_hostMajor :: int

definition HostMajor :: int where "HostMajor = 1"

definition ParseMajor :: "string \<Rightarrow> int option" where
  "ParseMajor apiVersion =
     (let v = trimSpace apiVersion in
      if v = [] then None
      else (case cutAt (CHR ''/'') v of
          None \<Rightarrow> None
        | Some (grp, version) \<Rightarrow>
            if grp = [] \<or> version = [] then None
            else if \<not> hasPrefix version ''v'' then None
            else (let digits = takeWhile is_digit (drop 1 version) in
              if digits = [] then None else parseInt64 digits)))"

definition refusal :: "int \<Rightarrow> string list \<Rightarrow> int option \<Rightarrow> negotiation" where
  "refusal host outputs p =
     \<lparr>ng_outcome = OutcomeCapabilityGap, ng_refused = True, ng_autoMerge = False,
      ng_factStates = (\<lambda>n. if n \<in> set outputs then Some StateUnavailable else None),
      ng_providerMajor = p, ng_hostMajor = host\<rparr>"

definition Negotiate :: "int \<Rightarrow> string \<Rightarrow> string list \<Rightarrow> negotiation" where
  "Negotiate host apiVersion outputs =
     (case ParseMajor apiVersion of
        None \<Rightarrow> refusal host outputs None
      | Some p \<Rightarrow>
          if p = host
          then \<lparr>ng_outcome = OutcomeAccept, ng_refused = False, ng_autoMerge = True,
                ng_factStates = (\<lambda>_. None), ng_providerMajor = Some p, ng_hostMajor = host\<rparr>
          else refusal host outputs (Some p))"

lemma Negotiate_accept_iff: "ng_outcome (Negotiate h v outs) = OutcomeAccept \<longleftrightarrow> ParseMajor v = Some h"
  by (auto simp: Negotiate_def refusal_def split: option.splits)

subsection \<open>Classification of an answer (resolve.go)\<close>

record resolved =
  rv_facts :: "string \<Rightarrow> provFact option"
  rv_negotiation :: negotiation

definition AutoMergeEligible :: "resolved \<Rightarrow> bool" where
  "AutoMergeEligible r \<longleftrightarrow>
     ng_outcome (rv_negotiation r) = OutcomeAccept \<and> ng_autoMerge (rv_negotiation r)"

definition noDeclaration :: factDecl where
  "noDeclaration = \<lparr>dc_type = [], dc_cardinality = [], dc_subject = [], dc_sensitive = False, dc_maxAge = []\<rparr>"

definition synthesize :: "factQuery \<Rightarrow> string \<Rightarrow> string \<Rightarrow> string \<Rightarrow> int \<Rightarrow> provFact" where
  "synthesize q name state reason now =
     \<lparr>ft_name = name, ft_declaration = noDeclaration, ft_state = state, ft_subject = fq_subject q,
      ft_observedAt = now, ft_expiresAt = None, ft_value = GNil, ft_reason = reason\<rparr>"

definition factTable :: "string list \<Rightarrow> (string \<Rightarrow> provFact) \<Rightarrow> string \<Rightarrow> provFact option" where
  "factTable names f = map_of (map (\<lambda>n. (n, f n)) names)"

definition synthesizeAll :: "factQuery \<Rightarrow> string \<Rightarrow> string \<Rightarrow> int \<Rightarrow> string \<Rightarrow> provFact option" where
  "synthesizeAll q state reason now = factTable (fq_outputs q) (\<lambda>n. synthesize q n state reason now)"

definition failClosed :: "factQuery \<Rightarrow> string \<Rightarrow> string \<Rightarrow> int \<Rightarrow> negotiation \<Rightarrow> resolved" where
  "failClosed q state reason now neg = \<lparr>rv_facts = synthesizeAll q state reason now, rv_negotiation = neg\<rparr>"

definition refusedNegotiation :: "string list \<Rightarrow> negotiation" where
  "refusedNegotiation outputs = refusal HostMajor outputs None"

text \<open>The body of the loop over the requested outputs.\<close>

definition classifyFact :: "factQuery \<Rightarrow> (string \<Rightarrow> provFact option) \<Rightarrow> int \<Rightarrow> factDecl assoc option \<Rightarrow> string \<Rightarrow> provFact" where
  "classifyFact q byName now expected name =
     (case byName name of
        None \<Rightarrow> synthesize q name StateInvalid ''provider omitted a requested output'' now
      | Some f0 \<Rightarrow>
          (let f1 = (if ft_state f0 = stateResolved \<and> (case ft_expiresAt f0 of None \<Rightarrow> False | Some e \<Rightarrow> \<not> e > now)
                     then f0\<lparr>ft_state := StateExpired, ft_reason := ''expiresAt is not after the evaluation instant'',
                             ft_value := GNil\<rparr>
                     else f0);
               f2 = (if ft_state f1 \<noteq> stateResolved then f1\<lparr>ft_value := GNil\<rparr> else f1)
           in case expected of
                None \<Rightarrow> f2
              | Some ds \<Rightarrow>
                  (case map_of ds name of
                     None \<Rightarrow> synthesize q name StateInvalid ''host config has no declaration for requested output'' now
                   | Some want \<Rightarrow>
                       if \<not> DeclarationsEqual want (ft_declaration f2)
                       then synthesize q name StateInvalid ''provider echoed declaration does not match host config'' now
                       else f2)))"

text \<open>\<open>byName\<close>: a later fact of the same name replaces an earlier one.\<close>

definition byName :: "provFact list \<Rightarrow> string \<Rightarrow> provFact option" where
  "byName fs = map_of (rev (map (\<lambda>f. (ft_name f, f)) fs))"

definition ResolveFactsChecked ::
    "(string \<Rightarrow> factResponse option) \<Rightarrow> (string \<Rightarrow> bool) \<Rightarrow> string + string \<Rightarrow> factQuery \<Rightarrow> int
     \<Rightarrow> factDecl assoc option \<Rightarrow> resolved" where
  "ResolveFactsChecked decode valid call q now expected =
     (case call of
        Inl err \<Rightarrow> failClosed q StateUnavailable (''provider call failed: '' @ err) now (refusedNegotiation (fq_outputs q))
      | Inr raw \<Rightarrow>
          (case decode raw of
             None \<Rightarrow> failClosed q StateInvalid ''response undecodable'' now (refusedNegotiation (fq_outputs q))
           | Some resp \<Rightarrow>
               (let neg = Negotiate HostMajor (fr_apiVersion resp) (fq_outputs q) in
                if ng_outcome neg \<noteq> OutcomeAccept
                then failClosed q StateUnavailable ''provider protocol major capability gap'' now neg
                else if \<not> valid raw then failClosed q StateInvalid ''response failed schema validation'' now neg
                else if fr_queryId resp \<noteq> fq_queryId q then failClosed q StateInvalid ''queryId mismatch'' now neg
                else \<lparr>rv_facts = factTable (fq_outputs q) (classifyFact q (byName (fr_facts resp)) now expected),
                      rv_negotiation = neg\<rparr>)))"

definition ResolveFacts ::
    "(string \<Rightarrow> factResponse option) \<Rightarrow> (string \<Rightarrow> bool) \<Rightarrow> string + string \<Rightarrow> factQuery \<Rightarrow> int \<Rightarrow> resolved" where
  "ResolveFacts decode valid call q now = ResolveFactsChecked decode valid call q now None"

lemma factTable_Some [simp]: "factTable names f n = (if n \<in> set names then Some (f n) else None)"
  by (induction names) (auto simp: factTable_def)

lemma synthesize_simps [simp]:
  "ft_state (synthesize q n st r now) = st" "ft_value (synthesize q n st r now) = GNil"
  "ft_declaration (synthesize q n st r now) = noDeclaration"
  by (simp_all add: synthesize_def)

lemma classifyFact_resolved:
  assumes "ft_state (classifyFact q by now expected n) = stateResolved"
  shows "\<exists>f. by n = Some f \<and> ft_state f = stateResolved \<and> classifyFact q by now expected n = f
    \<and> (\<forall>e. ft_expiresAt f = Some e \<longrightarrow> now < e)
    \<and> (\<forall>ds. expected = Some ds \<longrightarrow> map_of ds n = Some (ft_declaration f))"
proof (cases "by n")
  case None
  then show ?thesis using assms by (simp add: classifyFact_def)
next
  case (Some f)
  define f1 where "f1 = (if ft_state f = stateResolved \<and> (case ft_expiresAt f of None \<Rightarrow> False | Some e \<Rightarrow> \<not> e > now)
                     then f\<lparr>ft_state := StateExpired, ft_reason := ''expiresAt is not after the evaluation instant'',
                             ft_value := GNil\<rparr> else f)"
  define f2 where "f2 = (if ft_state f1 \<noteq> stateResolved then f1\<lparr>ft_value := GNil\<rparr> else f1)"
  have c: "classifyFact q by now expected n = (case expected of None \<Rightarrow> f2
      | Some ds \<Rightarrow> (case map_of ds n of
           None \<Rightarrow> synthesize q n StateInvalid ''host config has no declaration for requested output'' now
         | Some want \<Rightarrow> if \<not> DeclarationsEqual want (ft_declaration f2)
             then synthesize q n StateInvalid ''provider echoed declaration does not match host config'' now else f2))"
    by (simp only: classifyFact_def Some Let_def option.case f1_def f2_def)
  have "classifyFact q by now expected n = f2 \<and> (\<forall>ds. expected = Some ds \<longrightarrow> map_of ds n = Some (ft_declaration f2))"
    using assms by (auto simp: c split: option.splits if_splits)
  moreover from this assms have "ft_state f2 = stateResolved" by simp
  then have "f2 = f \<and> ft_state f = stateResolved \<and> (\<forall>e. ft_expiresAt f = Some e \<longrightarrow> now < e)"
    by (simp add: f2_def f1_def split: option.splits if_splits)
  ultimately show ?thesis using Some by simp
qed

lemma classifyFact_value:
  "ft_state (classifyFact q by now expected n) \<noteq> stateResolved \<Longrightarrow>
   ft_value (classifyFact q by now expected n) = GNil"
  by (auto simp: classifyFact_def Let_def split: option.splits if_splits)

subsection \<open>Into the engine (sensitive.go)\<close>

definition ToAggregateFact :: "(int \<Rightarrow> string) \<Rightarrow> provFact \<Rightarrow> fact" where
  "ToAggregateFact fmt f =
     \<lparr>f_state = ft_state f, f_sensitive = dc_sensitive (ft_declaration f), f_observedAt = fmt (ft_observedAt f),
      f_expiresAt = (case ft_expiresAt f of None \<Rightarrow> [] | Some e \<Rightarrow> fmt e),
      f_value = (if ft_state f = stateResolved then ft_value f else GNil), f_reason = ft_reason f\<rparr>"

subsection \<open>Freshness at arming time (run_arming.go)\<close>

definition providersInAssertTree :: "assertTree \<Rightarrow> string list" where
  "providersInAssertTree t = dedup (concat (map (\<lambda>l. factRefs False (lf_cel l)) (treeLeaves t)))"

definition controllingProviders :: "mergePolicy option \<Rightarrow> string list" where
  "controllingProviders mp =
     (case mp of
        None \<Rightarrow> []
      | Some p \<Rightarrow> dedup (concat (map (\<lambda>r.
          case (r_prove r, r_onFailure r) of
            (Some pv, Some onf) \<Rightarrow>
              if of_effect onf \<noteq> EffectRequireReview then [] else providersInAssertTree (pv_when pv)
          | _ \<Rightarrow> []) (mp_rules p))))"

definition factFresh :: "(string \<Rightarrow> int option) \<Rightarrow> int \<Rightarrow> fact \<Rightarrow> bool" where
  "factFresh parse armTime f =
     (if f_state f \<noteq> stateResolved then False
      else if f_expiresAt f = [] then True
      else (case parse (f_expiresAt f) of None \<Rightarrow> False | Some e \<Rightarrow> e > armTime))"

definition controllingFactsFreshAt ::
    "(string \<Rightarrow> int option) \<Rightarrow> mergePolicy option \<Rightarrow> fact assoc assoc \<Rightarrow> int \<Rightarrow> bool" where
  "controllingFactsFreshAt parse mp facts armTime =
     (if mp = None \<or> facts = [] then True
      else list_all (\<lambda>prov. case map_of facts prov of
             None \<Rightarrow> False
           | Some fs \<Rightarrow> fs \<noteq> [] \<and> list_all (\<lambda>(_, f). factFresh parse armTime f) fs) (controllingProviders mp))"

lemma providersInAssertTree_eq [simp]: "providersInAssertTree = providersReferenced"
  by (rule ext) (simp add: providersInAssertTree_def providersReferenced_def)

end
