(* ===== verification/Classify.thy ===== *)
theory Classify
  imports ValueTree Coverage
begin

text \<open>
  \<open>internal/core/classify\<close>: the class of a change set, read off its file paths alone, the lint
  that keeps the reserved classes away from vouching, and the four matcher domains.
\<close>

subsection \<open>Classes (classify.go)\<close>

abbreviation ClassAssentPolicy :: string where "ClassAssentPolicy \<equiv> ReservedPolicyClass"
abbreviation ClassUnclassified :: string where "ClassUnclassified \<equiv> ''unclassified''"

definition isPolicyPath :: "string \<Rightarrow> bool" where
  "isPolicyPath file =
     (let f = trimPrefix file ''./'' in f = ''.assent'' \<or> hasPrefix f ''.assent/'')"

definition FileClass :: "string \<Rightarrow> string" where
  "FileClass file = (if isPolicyPath file then ClassAssentPolicy else ClassUnclassified)"

definition Classify :: "changeSet \<Rightarrow> string" where
  "Classify cs =
     (if list_ex (\<lambda>c. isPolicyPath (c_file c)) (cs_changes cs) then ClassAssentPolicy else ClassUnclassified)"

abbreviation DispositionVouch :: string where "DispositionVouch \<equiv> ''vouch''"
abbreviation DispositionBlock :: string where "DispositionBlock \<equiv> ''block''"
abbreviation DispositionChallenge :: string where "DispositionChallenge \<equiv> ''challenge''"
abbreviation DispositionReview :: string where "DispositionReview \<equiv> ''review''"

definition reservedClasses :: "string list" where
  "reservedClasses = [ClassAssentPolicy, ClassUnclassified]"

definition isVouch :: "string \<Rightarrow> bool" where
  "isVouch d \<longleftrightarrow> d = DispositionVouch"

text \<open>The error carries the class and the disposition.\<close>

definition ValidateRouting :: "string \<Rightarrow> string \<Rightarrow> (string \<times> string) option" where
  "ValidateRouting cls disposition =
     (if cls \<notin> set reservedClasses then None
      else if isVouch disposition then Some (cls, disposition)
      else None)"

lemma Classify_policy_iff [simp]:
  "Classify cs = ClassAssentPolicy \<longleftrightarrow> (\<exists>c \<in> set (cs_changes cs). isPolicyPath (c_file c))"
  by (auto simp: Classify_def list_ex_iff)

lemma FileClass_policy_iff [simp]: "FileClass file = ClassAssentPolicy \<longleftrightarrow> isPolicyPath file"
  by (simp add: FileClass_def)

subsection \<open>Matcher domains (matcher.go)\<close>

definition selectChanges :: "changeSet \<Rightarrow> (change \<Rightarrow> bool) \<Rightarrow> change list" where
  "selectChanges cs keep = filter keep (cs_changes cs)"

definition MatchFiles :: "changeSet \<Rightarrow> string \<Rightarrow> change list" where
  "MatchFiles cs pattern = selectChanges cs (\<lambda>c. globMatch pattern (c_file c))"

definition MatchValuePointers :: "changeSet \<Rightarrow> string \<Rightarrow> change list" where
  "MatchValuePointers cs pattern = selectChanges cs (\<lambda>c. globMatch pattern (c_path c))"

definition MatchValueChanges :: "changeSet \<Rightarrow> string list \<Rightarrow> change list" where
  "MatchValueChanges cs kinds = selectChanges cs (\<lambda>c. c_kind c \<in> set kinds)"

definition MatchEntryEvents :: "changeSet \<Rightarrow> string list \<Rightarrow> change list" where
  "MatchEntryEvents cs kinds =
     selectChanges cs (\<lambda>c. if c_entryRef c = [] then False else c_kind c \<in> set kinds)"

end
