(* ===== verification/Checkout.thy ===== *)
theory Checkout
  imports Classify Diff RenameDecode Capability
begin

text \<open>
  \<open>cmd/assent/checkout.go\<close>: the local checkout as a file tree with symbolic links, the set of
  changed files read off its two sides, and the safety fold over that set or over the paths
  the forge reports.
\<close>

subsection \<open>The two sides\<close>

text \<open>
  A directory's children are in the lexical order of \<open>ReadDir\<close>; a read that fails carries its
  error. A side is absent, cannot be opened as a root, or is a directory.
\<close>

datatype node =
    Regular "string + string"
  | Symlink
  | Irregular "string + string"
  | Directory "string + (string \<times> node) list"

datatype side = AbsentSide | BrokenSide string | OpenSide "string + (string \<times> node) list"

record dirCheckout =
  dc_base :: side
  dc_head :: side

datatype checkout_error =
    SymlinkRefused "string list"
  | NonRegular "string list"
  | ReadFailed "string list" string
  | OpenFailed string
  | InvalidPath string
  | StatFailed "string list" string
  | ListChanged checkout_error
  | ReadChanged string checkout_error

subsection \<open>Walking a side\<close>

text \<open>The callback of \<open>fs.WalkDir\<close>, entry by entry; the first error ends the walk.\<close>

fun walkEntry :: "string list \<Rightarrow> node \<Rightarrow> checkout_error + (string list \<times> string) list"
  and walkDir :: "string list \<Rightarrow> (string \<times> node) list \<Rightarrow> checkout_error + (string list \<times> string) list" where
  "walkEntry p Symlink = Inl (SymlinkRefused p)"
| "walkEntry p (Irregular r) = Inl (NonRegular p)"
| "walkEntry p (Regular r) = (case r of Inl e \<Rightarrow> Inl (ReadFailed p e) | Inr bytes \<Rightarrow> Inr [(p, bytes)])"
| "walkEntry p (Directory (Inl e)) = Inl (ReadFailed p e)"
| "walkEntry p (Directory (Inr es)) = walkDir p es"
| "walkDir p [] = Inr []"
| "walkDir p ((n, x) # es) =
     bind_res (walkEntry (p @ [n]) x) (\<lambda>fs. bind_res (walkDir p es) (\<lambda>gs. Inr (fs @ gs)))"

definition slashed :: "string list \<Rightarrow> string" where
  "slashed p = joinOn ''/'' p"

definition collectFS :: "string + (string \<times> node) list \<Rightarrow> checkout_error + string assoc" where
  "collectFS d =
     (case d of
        Inl e \<Rightarrow> Inl (ReadFailed [] e)
      | Inr es \<Rightarrow> bind_res (walkDir [] es) (\<lambda>fs. Inr (map (\<lambda>(p, b). (slashed p, b)) fs)))"

definition collectTree :: "side \<Rightarrow> checkout_error + string assoc" where
  "collectTree sd =
     (case sd of AbsentSide \<Rightarrow> Inr [] | BrokenSide e \<Rightarrow> Inl (OpenFailed e) | OpenSide d \<Rightarrow> collectFS d)"

text \<open>\<open>bytes.Equal\<close> on map lookups: a missing entry is nil and equals an empty slice.\<close>

definition bytesAt :: "string assoc \<Rightarrow> string \<Rightarrow> string" where
  "bytesAt m p = (case map_of m p of None \<Rightarrow> [] | Some b \<Rightarrow> b)"

definition ChangedFiles :: "dirCheckout \<Rightarrow> checkout_error + string list" where
  "ChangedFiles co =
     bind_res (collectTree (dc_base co)) (\<lambda>base.
     bind_res (collectTree (dc_head co)) (\<lambda>head.
       Inr (sort (filter (\<lambda>p. bytesAt base p \<noteq> bytesAt head p) (remdups (map fst base @ map fst head))))))"

subsection \<open>Reading one file\<close>

text \<open>\<open>path.Clean\<close>, component by component, and \<open>fs.ValidPath\<close>.\<close>

fun cleanStep :: "bool \<Rightarrow> string \<Rightarrow> string list \<Rightarrow> string list" where
  "cleanStep rooted c acc =
     (if c = [] \<or> c = ''.'' then acc
      else if c = ''..'' then
        (if acc \<noteq> [] \<and> last acc \<noteq> ''..'' then butlast acc else if rooted then acc else acc @ [c])
      else acc @ [c])"

definition pathClean :: "string \<Rightarrow> string" where
  "pathClean p =
     (let rooted = hasPrefix p ''/'';
          body = joinOn ''/'' (fold (cleanStep rooted) (splitOn (CHR ''/'') p) [])
      in if rooted then ''/'' @ body else if body = [] then ''.'' else body)"

definition validPath :: "string \<Rightarrow> bool" where
  "validPath name \<longleftrightarrow> validUtf8 name \<and>
     (name = ''.'' \<or> list_all (\<lambda>c. c \<noteq> [] \<and> c \<noteq> ''.'' \<and> c \<noteq> ''..'') (splitOn (CHR ''/'') name))"

definition checkoutName :: "string \<Rightarrow> string" where
  "checkoutName rel = trimPrefix (pathClean rel) ''/''"

text \<open>
  \<open>refuseSymlinkedPath\<close> and the read that follows it, walking down the components: None when a
  component does not exist, an error at a link or below a file.
\<close>

fun readBelow :: "string list \<Rightarrow> string list \<Rightarrow> string + (string \<times> node) list \<Rightarrow> checkout_error + string option" where
  "readBelow at [] d = Inl (ReadFailed at ''is a directory'')"
| "readBelow at (c # cs) (Inl e) = Inl (StatFailed (at @ [c]) e)"
| "readBelow at (c # cs) (Inr es) =
     (case map_of es c of
        None \<Rightarrow> Inr None
      | Some Symlink \<Rightarrow> Inl (SymlinkRefused (at @ [c]))
      | Some (Directory d) \<Rightarrow> readBelow (at @ [c]) cs d
      | Some (Regular r) \<Rightarrow>
          if cs \<noteq> [] then Inl (StatFailed (at @ [c, hd cs]) ''not a directory'')
          else (case r of Inl e \<Rightarrow> Inl (ReadFailed (at @ [c]) e) | Inr bytes \<Rightarrow> Inr (Some bytes))
      | Some (Irregular r) \<Rightarrow>
          if cs \<noteq> [] then Inl (StatFailed (at @ [c, hd cs]) ''not a directory'')
          else (case r of Inl e \<Rightarrow> Inl (ReadFailed (at @ [c]) e) | Inr bytes \<Rightarrow> Inr (Some bytes)))"

definition readIfPresent :: "side \<Rightarrow> string \<Rightarrow> checkout_error + string option" where
  "readIfPresent sd rel =
     (let name = checkoutName rel in
      if \<not> validPath name \<or> name = ''.'' then Inl (InvalidPath rel)
      else (case sd of
          AbsentSide \<Rightarrow> Inr None
        | BrokenSide e \<Rightarrow> Inl (OpenFailed e)
        | OpenSide d \<Rightarrow> readBelow [] (splitOn (CHR ''/'') name) d))"

definition FileContents :: "dirCheckout \<Rightarrow> string \<Rightarrow> checkout_error + string option \<times> string option" where
  "FileContents co rel =
     bind_res (readIfPresent (dc_base co) rel) (\<lambda>base.
     bind_res (readIfPresent (dc_head co) rel) (\<lambda>head. Inr (base, head)))"

subsection \<open>The folds\<close>

text \<open>
  The data \<open>Diff\<close> needs: the parsers and the text of a refusal. A nil slice is passed on to
  the parsers as no bytes.
\<close>

record differ =
  df_parsers :: parsers
  df_text :: "diff_reason \<Rightarrow> string"

definition bytesOf :: "string option \<Rightarrow> string" where
  "bytesOf b = (case b of None \<Rightarrow> [] | Some s \<Rightarrow> s)"

definition goDiff :: "differ \<Rightarrow> string \<Rightarrow> string option \<Rightarrow> string option \<Rightarrow> changeSet" where
  "goDiff df file base head =
     changeSetOf (diff (df_parsers df) file (bytesOf base) (bytesOf head)) (df_text df)"

record checkoutFold =
  cf_class :: string
  cf_opaque :: bool
  cf_reason :: string

text \<open>The loop body: the class so far, the opaque flag and the reasons.\<close>

definition foldFile ::
    "differ \<Rightarrow> dirCheckout \<Rightarrow> string \<Rightarrow> string \<Rightarrow> string \<times> bool \<times> string list
     \<Rightarrow> checkout_error + string \<times> bool \<times> string list" where
  "foldFile df co governed p acc =
     (case acc of (cls, opq, reasons) \<Rightarrow>
        (let cls' = (if FileClass p = ClassAssentPolicy then ClassAssentPolicy else cls) in
         case FileContents co p of
           Inl e \<Rightarrow> Inl (ReadChanged p e)
         | Inr (base, head) \<Rightarrow>
             if p = governed \<and> snd (OneSidedLifecycle base head) then Inr (cls', opq, reasons)
             else (let cs = goDiff df p base head in
               if cs_opaque cs then Inr (cls', True, reasons @ [p @ '': '' @ cs_reason cs])
               else Inr (cls', opq, reasons))))"

fun foldFiles ::
    "differ \<Rightarrow> dirCheckout \<Rightarrow> string \<Rightarrow> string list \<Rightarrow> string \<times> bool \<times> string list
     \<Rightarrow> checkout_error + string \<times> bool \<times> string list" where
  "foldFiles df co governed [] acc = Inr acc"
| "foldFiles df co governed (p # ps) acc =
     bind_res (foldFile df co governed p acc) (foldFiles df co governed ps)"

definition foldCheckout :: "differ \<Rightarrow> dirCheckout \<Rightarrow> string \<Rightarrow> checkout_error + checkoutFold" where
  "foldCheckout df co governed =
     (case ChangedFiles co of
        Inl e \<Rightarrow> Inl (ListChanged e)
      | Inr files \<Rightarrow>
          bind_res (foldFiles df co governed files (ClassUnclassified, False, []))
            (\<lambda>(cls, opq, reasons). Inr \<lparr>cf_class = cls, cf_opaque = opq, cf_reason = joinOn ''; '' reasons\<rparr>))"

definition foldSnapshotPaths :: "snapshot \<Rightarrow> checkoutFold" where
  "foldSnapshotPaths sn =
     \<lparr>cf_class = (if list_ex (\<lambda>p. FileClass p = ClassAssentPolicy) (sn_changedFiles sn)
                  then ClassAssentPolicy else ClassUnclassified),
      cf_opaque = (EnumerationOpaqueReason sn \<noteq> []),
      cf_reason = EnumerationOpaqueReason sn\<rparr>"

end
