(* ===== verification/Builtin.thy ===== *)
theory Builtin
  imports Facts Checkout
begin

text \<open>
  \<open>internal/provider/builtin\<close>: the repo-file provider, which walks up a checkout from the
  governed file to the most specific file of a name, and the resource-owner registry. The file
  system is the root of the checkout's tree; YAML decoding is a parameter.
\<close>

subsection \<open>Paths (repo_file.go)\<close>

type_synonym rootFS = "string + (string \<times> node) list"

datatype path_error = AnchorAbsolute string | AnchorEscapes string | RootError string path_error

definition pathDirComps :: "string \<Rightarrow> string list" where
  "pathDirComps p = filter (\<lambda>c. c \<noteq> [] \<and> c \<noteq> ''.'') (butlast (splitOn (CHR ''/'') p))"

definition pathBase :: "string \<Rightarrow> string" where
  "pathBase p =
     (if p = [] then ''.''
      else (let q = rev (dropWhile (\<lambda>c. c = CHR ''/'') (rev p)) in
            if q = [] then ''/'' else afterLast (CHR ''/'') q))"

definition cleanRel :: "string \<Rightarrow> path_error + string" where
  "cleanRel p0 =
     (let p = trimSpace p0 in
      if p = [] then Inr ''.''
      else (let q = replaceAll1 (CHR 0x5C) ''/'' p in
        if hasPrefix q ''/'' then Inl (AnchorAbsolute q)
        else (let c = pathClean q in
          if c = ''..'' \<or> hasPrefix c ''../'' then Inl (AnchorEscapes q)
          else if c = ''/'' then Inr ''.''
          else Inr (trimPrefix c ''./''))))"

fun cleanRoots :: "string list \<Rightarrow> path_error + string list" where
  "cleanRoots [] = Inr []"
| "cleanRoots (r # rs) =
     (case cleanRel r of
        Inl e \<Rightarrow> Inl (RootError r e)
      | Inr c \<Rightarrow> bind_res (cleanRoots rs) (\<lambda>cs. Inr (if c = ''.'' then cs else c # cs)))"

definition underAnyRoot :: "string \<Rightarrow> string list \<Rightarrow> bool" where
  "underAnyRoot p roots \<longleftrightarrow>
     (if p = ''.'' then False else list_ex (\<lambda>root. p = root \<or> hasPrefix p (root @ ''/'')) roots)"

text \<open>
  \<open>candidates\<close>: the directory of the anchor, its parent, and so on up to the root. The anchor
  has been through \<^const>\<open>cleanRel\<close>, so its directory is a clean relative path and \<open>path.Dir\<close>
  takes its last component off.
\<close>

definition candidates :: "string \<Rightarrow> string \<Rightarrow> string list" where
  "candidates anchor fileName =
     map (\<lambda>cs. slashed (cs @ [fileName]))
       (rev (prefixes (if anchor = ''.'' then [] else pathDirComps anchor)))"

subsection \<open>Candidates\<close>

datatype candidate_status = candidateMiss | candidateFile | candidateSymlink

text \<open>The prefixes of the path are looked up one after the other, then the file itself.\<close>

fun classifyBelow :: "string list \<Rightarrow> rootFS \<Rightarrow> candidate_status" where
  "classifyBelow [] d = candidateMiss"
| "classifyBelow (c # cs) (Inl e) = candidateMiss"
| "classifyBelow (c # cs) (Inr es) =
     (case map_of es c of
        None \<Rightarrow> candidateMiss
      | Some Symlink \<Rightarrow> candidateSymlink
      | Some (Directory d) \<Rightarrow> classifyBelow cs d
      | Some (Regular r) \<Rightarrow> if cs = [] then candidateFile else candidateMiss
      | Some (Irregular r) \<Rightarrow> candidateMiss)"

definition classifyCandidate :: "rootFS \<Rightarrow> string \<Rightarrow> candidate_status" where
  "classifyCandidate fs name = classifyBelow (splitOn (CHR ''/'') name) fs"

fun firstCandidate :: "rootFS \<Rightarrow> string list \<Rightarrow> string list \<Rightarrow> string \<times> candidate_status" where
  "firstCandidate fs roots [] = ([], candidateMiss)"
| "firstCandidate fs roots (cand # cands) =
     (if roots \<noteq> [] \<and> \<not> underAnyRoot cand roots then firstCandidate fs roots cands
      else (case classifyCandidate fs cand of
          candidateMiss \<Rightarrow> firstCandidate fs roots cands
        | st \<Rightarrow> (cand, st)))"

definition findMostSpecific :: "rootFS \<Rightarrow> string \<Rightarrow> string \<Rightarrow> string list \<Rightarrow> string \<times> candidate_status" where
  "findMostSpecific fs anchor fileName roots = firstCandidate fs roots (candidates anchor fileName)"

subsection \<open>The answer\<close>

definition nonResolved :: "factQuery \<Rightarrow> string \<Rightarrow> factDecl \<Rightarrow> string \<Rightarrow> string \<Rightarrow> int \<Rightarrow> provFact" where
  "nonResolved q name decl state reason asOf =
     \<lparr>ft_name = name, ft_declaration = decl, ft_state = state, ft_subject = fq_subject q,
      ft_observedAt = asOf, ft_expiresAt = None, ft_value = GNil, ft_reason = reason\<rparr>"

definition declOf :: "factDecl assoc \<Rightarrow> string \<Rightarrow> factDecl" where
  "declOf ds name = (case map_of ds name of None \<Rightarrow> noDeclaration | Some d \<Rightarrow> d)"

definition expiresAt :: "(string \<Rightarrow> int option) \<Rightarrow> int \<Rightarrow> factDecl \<Rightarrow> age_error + int" where
  "expiresAt pd asOf d =
     (if dc_maxAge d = [] then Inl AgeMissing
      else (case pd (dc_maxAge d) of
          None \<Rightarrow> Inl (AgeUnparseable (dc_maxAge d))
        | Some a \<Rightarrow> if a \<le> 0 then Inl (AgeNotPositive (dc_maxAge d)) else Inr (asOf + a)))"

record repoFileOpts =
  ro_fs :: "rootFS option"
  ro_file :: string
  ro_anchor :: string
  ro_roots :: "string list"
  ro_declarations :: "factDecl assoc"

text \<open>
  Library code and texts: \<open>tl_yamlMapping\<close> decodes and normalises a mapping, \<open>tl_yamlOwners\<close> the
  \<open>owners\<close> map of a registry (None when it does not decode, Some None when the key is missing).
\<close>

record tools =
  tl_parseDuration :: "string \<Rightarrow> int option"
  tl_yamlMapping :: "string \<Rightarrow> string + gval assoc"
  tl_yamlOwners :: "string \<Rightarrow> string assoc option option"
  tl_pathText :: "path_error \<Rightarrow> string"
  tl_ageText :: "age_error \<Rightarrow> string"

definition readRegular :: "rootFS \<Rightarrow> string \<Rightarrow> string + string" where
  "readRegular fs name =
     (case readBelow [] (splitOn (CHR ''/'') name) fs of
        Inl e \<Rightarrow> Inl (''read '' @ name)
      | Inr None \<Rightarrow> Inl (''read '' @ name)
      | Inr (Some raw) \<Rightarrow> Inr raw)"

definition readMapping :: "tools \<Rightarrow> rootFS \<Rightarrow> string \<Rightarrow> string + gval assoc" where
  "readMapping ts fs name = bind_res (readRegular fs name) (tl_yamlMapping ts)"

definition mappingFact :: "tools \<Rightarrow> repoFileOpts \<Rightarrow> factQuery \<Rightarrow> string \<Rightarrow> gval assoc \<Rightarrow> string \<Rightarrow> provFact" where
  "mappingFact ts opts q matched doc name =
     (let decl = declOf (ro_declarations opts) name; asOf = fq_asOf q in
      case map_of doc name of
        None \<Rightarrow> nonResolved q name decl StateInvalid (''builtin/repo-file: key absent in '' @ matched) asOf
      | Some v \<Rightarrow>
          if v = GNil then nonResolved q name decl StateInvalid (''builtin/repo-file: key absent in '' @ matched) asOf
          else (case expiresAt (tl_parseDuration ts) asOf decl of
              Inl e \<Rightarrow> nonResolved q name decl StateInvalid (''builtin/repo-file: '' @ tl_ageText ts e) asOf
            | Inr expi \<Rightarrow>
                \<lparr>ft_name = name, ft_declaration = decl, ft_state = stateResolved, ft_subject = fq_subject q,
                 ft_observedAt = asOf, ft_expiresAt = Some expi, ft_value = v, ft_reason = []\<rparr>))"

definition repoFileFacts :: "tools \<Rightarrow> repoFileOpts \<Rightarrow> factQuery \<Rightarrow> provFact list" where
  "repoFileFacts ts opts q =
     (let all = (\<lambda>state reason. map (\<lambda>n. nonResolved q n (declOf (ro_declarations opts) n) state reason (fq_asOf q)) (fq_outputs q)) in
      case ro_fs opts of
        None \<Rightarrow> all StateInvalid ''builtin/repo-file: FS and File are required''
      | Some fs \<Rightarrow>
        if trimSpace (ro_file opts) = [] then all StateInvalid ''builtin/repo-file: FS and File are required''
        else (let fileName = pathBase (trimSpace (ro_file opts)) in
          if fileName = ''.'' \<or> fileName = ''/'' \<or> fileName = ''..'' \<or> CHR ''/'' \<in> set fileName
          then all StateInvalid ''builtin/repo-file: File must be a basename''
          else (case cleanRel (ro_anchor opts) of
            Inl e \<Rightarrow> all StateInvalid (''builtin/repo-file: '' @ tl_pathText ts e)
          | Inr anchor \<Rightarrow> (case cleanRoots (ro_roots opts) of
              Inl e \<Rightarrow> all StateInvalid (''builtin/repo-file: '' @ tl_pathText ts e)
            | Inr roots \<Rightarrow>
                if roots \<noteq> [] \<and> \<not> underAnyRoot anchor roots \<and> anchor \<noteq> ''.''
                then all StateUnavailable ''builtin/repo-file: anchor outside declared roots''
                else (case findMostSpecific fs anchor fileName roots of
                    (matched, candidateSymlink) \<Rightarrow>
                      all StateUnavailable (''builtin/repo-file: refusing candidate reached through a symlink: '' @ matched)
                  | (matched, candidateMiss) \<Rightarrow> all StateUnavailable ''builtin/repo-file: no matching file''
                  | (matched, candidateFile) \<Rightarrow>
                      (case readMapping ts fs matched of
                         Inl e \<Rightarrow> all StateInvalid (''builtin/repo-file: '' @ e)
                       | Inr doc \<Rightarrow> map (mappingFact ts opts q matched doc) (fq_outputs q)))))))"

definition answerRepoFile :: "tools \<Rightarrow> repoFileOpts \<Rightarrow> factQuery \<Rightarrow> factResponse" where
  "answerRepoFile ts opts q =
     \<lparr>fr_apiVersion = ''provider.assent.dev/v1alpha1'', fr_kind = ''FactResponse'',
      fr_queryId = fq_queryId q, fr_facts = repoFileFacts ts opts q\<rparr>"

subsection \<open>The owner registry (resource_owner.go, registry.go)\<close>

definition ownerMaxAge :: int where "ownerMaxAge = 24 * hourNs"

definition OwnerDeclaration :: factDecl where
  "OwnerDeclaration = \<lparr>dc_type = ''string'', dc_cardinality = ''single'', dc_subject = ''entry'',
     dc_sensitive = False, dc_maxAge = ''24h''\<rparr>"

datatype owner_error = RegistrySymlink string | RegistryUnreadable string | RegistryUndecodable string
  | OwnersRequired string | ClientNil | OwnerLookup string

definition decodeOwners :: "tools \<Rightarrow> string \<Rightarrow> string \<Rightarrow> owner_error + string assoc" where
  "decodeOwners ts file raw =
     (case tl_yamlOwners ts raw of
        None \<Rightarrow> Inl (RegistryUndecodable file)
      | Some None \<Rightarrow> Inl (OwnersRequired file)
      | Some (Some owners) \<Rightarrow> Inr owners)"

definition LoadResourceOwnerMap :: "tools \<Rightarrow> rootFS \<Rightarrow> string \<Rightarrow> owner_error + string assoc" where
  "LoadResourceOwnerMap ts fs file =
     (if classifyCandidate fs file = candidateSymlink then Inl (RegistrySymlink file)
      else (case readRegular fs file of
          Inl e \<Rightarrow> Inl (RegistryUnreadable file)
        | Inr raw \<Rightarrow> decodeOwners ts file raw))"

definition LoadResourceOwnerMapBytes :: "tools \<Rightarrow> string \<Rightarrow> string \<Rightarrow> owner_error + string assoc" where
  "LoadResourceOwnerMapBytes ts name raw =
     LoadResourceOwnerMap ts (Inr [(name, Regular (Inr raw))]) name"

text \<open>
  A client's \<open>Owner\<close>: None is \<open>ErrResourceOwnerUnknown\<close>, and a client of its own may fail.
\<close>

type_synonym ownerClient = "string \<Rightarrow> string + string option"

definition mapResourceOwner :: "string assoc \<Rightarrow> ownerClient" where
  "mapResourceOwner owners = (\<lambda>r. Inr (map_of owners r))"

definition ownerFact :: "ownerClient option \<Rightarrow> factQuery \<Rightarrow> string \<Rightarrow> owner_error + provFact" where
  "ownerFact client q name =
     (let f = nonResolved q name OwnerDeclaration [] [] (fq_asOf q) in
      if name \<noteq> ''owner''
      then Inr (f\<lparr>ft_state := StateInvalid, ft_reason := ''output not declared by builtin/resource-owner''\<rparr>)
      else if sb_kind (fq_subject q) \<noteq> ''entry'' \<or> trimSpace (sb_id (fq_subject q)) = []
      then Inr (f\<lparr>ft_state := StateInvalid,
                  ft_reason := ''resource-owner requires subject.kind=entry with a non-empty id''\<rparr>)
      else (case client of
          None \<Rightarrow> Inl ClientNil
        | Some c \<Rightarrow>
            (case c (sb_id (fq_subject q)) of
               Inl e \<Rightarrow> Inl (OwnerLookup e)
             | Inr None \<Rightarrow> Inr (f\<lparr>ft_state := StateUnavailable, ft_reason := ''resource ownership unknown''\<rparr>)
             | Inr (Some owner) \<Rightarrow>
                 Inr (f\<lparr>ft_state := stateResolved, ft_value := GStr owner,
                        ft_expiresAt := Some (fq_asOf q + ownerMaxAge)\<rparr>))))"

fun ownerFacts :: "ownerClient option \<Rightarrow> factQuery \<Rightarrow> string list \<Rightarrow> owner_error + provFact list" where
  "ownerFacts client q [] = Inr []"
| "ownerFacts client q (n # ns) =
     bind_res (ownerFact client q n) (\<lambda>f. bind_res (ownerFacts client q ns) (\<lambda>fs. Inr (f # fs)))"

definition answerResourceOwner :: "ownerClient option \<Rightarrow> factQuery \<Rightarrow> owner_error + factResponse" where
  "answerResourceOwner client q =
     bind_res (ownerFacts client q (fq_outputs q)) (\<lambda>fs.
       Inr \<lparr>fr_apiVersion = ''provider.assent.dev/v1alpha1'', fr_kind = ''FactResponse'',
            fr_queryId = fq_queryId q, fr_facts = fs\<rparr>)"

definition IsForgeGroupsType :: "string \<Rightarrow> bool" where
  "IsForgeGroupsType t \<longleftrightarrow> t = ''builtin/gitlab-groups'' \<or> t = ''builtin/forge-groups''"

definition IsResourceOwnerType :: "string \<Rightarrow> bool" where
  "IsResourceOwnerType t \<longleftrightarrow> t = ''builtin/resource-owner''"

definition IsRepoFileType :: "string \<Rightarrow> bool" where
  "IsRepoFileType t \<longleftrightarrow> t = ''builtin/repo-file''"

end
