(* ===== verification/Transport.thy ===== *)
theory Transport
  imports Facts
begin

text \<open>
  \<open>internal/provider/transport.go\<close>: what a provider process is started with, and how much of
  its answer is read. The host environment, SHA-256, the JSON encoder and the process itself
  are parameters; a process is the error of \<open>cmd.Run\<close>, if any, with the chunks it wrote.
\<close>

subsection \<open>Names of secrets\<close>

text \<open>Case folding as \<open>(?i)\<close> and \<open>strings.EqualFold\<close> do it, on the runes that fold to ASCII letters.\<close>

definition foldRune :: "nat \<Rightarrow> nat" where
  "foldRune r = (if 65 \<le> r \<and> r \<le> 90 then r + 32 else if r = 0x212A then 107 else if r = 0x17F then 115 else r)"

definition foldRunes :: "string \<Rightarrow> nat list" where
  "foldRunes s = map foldRune (runes s)"

definition secretName :: "string \<Rightarrow> bool" where
  "secretName s \<longleftrightarrow>
     sublist (map of_char ''token'') (foldRunes s) \<or> sublist (map of_char ''secret'') (foldRunes s)"

text \<open>\<open>strings.Cut(kv, "=")\<close>: name, value and whether there is an equals sign.\<close>

definition cutEq :: "string \<Rightarrow> string \<times> string \<times> bool" where
  "cutEq kv = (case cutAt (CHR ''='') kv of None \<Rightarrow> (kv, [], False) | Some (n, v) \<Rightarrow> (n, v, True))"

definition ScrubEnv :: "string \<Rightarrow> string list \<Rightarrow> string list" where
  "ScrubEnv path configured =
     (''PATH='' @ path) # filter (\<lambda>kv. \<not> secretName (fst (cutEq kv))) configured"

definition hostSecretValues :: "string list \<Rightarrow> string list" where
  "hostSecretValues environ =
     concat (map (\<lambda>kv. case cutEq kv of (name, val, ok) \<Rightarrow>
        if \<not> ok \<or> val = [] then [] else if secretName name then [val] else []) environ)"

definition keepArg :: "string list \<Rightarrow> string \<Rightarrow> bool" where
  "keepArg secrets arg =
     (case cutEq arg of (name, val, hasEq) \<Rightarrow>
        if secretName (dropWhile (\<lambda>c. c = CHR ''-'') name) then False
        else if arg \<in> set secrets then False
        else if hasEq \<and> val \<in> set secrets then False
        else True)"

definition ScrubArgv :: "string list \<Rightarrow> string list \<Rightarrow> string list" where
  "ScrubArgv environ configured = filter (keepArg (hostSecretValues environ)) configured"

subsection \<open>Bounded reads\<close>

definition MaxResponseBytes :: nat where "MaxResponseBytes = 8 * 2 ^ 20"
definition maxStderrExcerptBytes :: nat where "maxStderrExcerptBytes = 4 * 2 ^ 10"

datatype transport_error =
    ReadError string | OverLimit nat | PinMissing string | PinMismatch string | DigestRead string
  | MarshalError | RunError string | RunErrorWithStderr string string

text \<open>The reader is the bytes it has to give, or the error it ends in; at most limit+1 are taken.\<close>

definition readBounded :: "string option \<Rightarrow> string \<Rightarrow> nat \<Rightarrow> transport_error + string" where
  "readBounded readErr src limit =
     (let raw = take (limit + 1) src in
      case (if length src \<le> limit then readErr else None) of
        Some e \<Rightarrow> Inl (ReadError e)
      | None \<Rightarrow> if length raw > limit then Inl (OverLimit limit) else Inr raw)"

record boundedCapture =
  bc_limit :: nat
  bc_buf :: string

definition newBoundedCapture :: "nat \<Rightarrow> boundedCapture" where
  "newBoundedCapture limit = \<lparr>bc_limit = limit, bc_buf = []\<rparr>"

definition captureWrite :: "string \<Rightarrow> boundedCapture \<Rightarrow> boundedCapture \<times> nat" where
  "captureWrite p c =
     (let room = int (bc_limit c) + 1 - int (length (bc_buf c)) in
      (if room > 0
       then c\<lparr>bc_buf := bc_buf c @ (if int (length p) > room then take (nat room) p else p)\<rparr> else c,
       length p))"

definition captureAll :: "string list \<Rightarrow> boundedCapture \<Rightarrow> boundedCapture" where
  "captureAll ps c = fold (\<lambda>p. fst \<circ> captureWrite p) ps c"

definition overflowed :: "boundedCapture \<Rightarrow> bool" where
  "overflowed c \<longleftrightarrow> length (bc_buf c) > bc_limit c"

definition bytesOrError :: "boundedCapture \<Rightarrow> transport_error + string" where
  "bytesOrError c = readBounded None (bc_buf c) (bc_limit c)"

definition excerpt :: "boundedCapture \<Rightarrow> string" where
  "excerpt c =
     (let text = trimSpace (if overflowed c then take (bc_limit c) (bc_buf c) else bc_buf c) in
      if text = [] then [] else if overflowed c then text @ '' '' @ map char_of [226, 128, 166 :: nat] @ ''(truncated)'' else text)"

subsection \<open>The exec transport\<close>

record execOpts =
  xo_binary :: string
  xo_digest :: string
  xo_env :: "string list"
  xo_args :: "string list"

text \<open>
  \<open>readFile\<close> reads the binary, \<open>sha\<close> is the lowercase hexadecimal SHA-256.
\<close>

definition FileDigestSHA256 :: "(string \<Rightarrow> string + string) \<Rightarrow> (string \<Rightarrow> string) \<Rightarrow> string \<Rightarrow> transport_error + string" where
  "FileDigestSHA256 readFile sha path =
     (case readFile path of Inl e \<Rightarrow> Inl (DigestRead path) | Inr raw \<Rightarrow> Inr (''sha256:'' @ sha raw))"

definition VerifyExecDigest ::
    "(string \<Rightarrow> string + string) \<Rightarrow> (string \<Rightarrow> string) \<Rightarrow> string \<Rightarrow> string \<Rightarrow> transport_error option" where
  "VerifyExecDigest readFile sha path pin =
     (if trimSpace pin = [] then Some (PinMissing path)
      else (case FileDigestSHA256 readFile sha path of
          Inl e \<Rightarrow> Some e
        | Inr got \<Rightarrow> if foldRunes got \<noteq> foldRunes pin then Some (PinMismatch path) else None))"

definition execFailure :: "string \<Rightarrow> boundedCapture \<Rightarrow> transport_error" where
  "execFailure err stderr = (if excerpt stderr = [] then RunError err else RunErrorWithStderr err (excerpt stderr))"

record host =
  ho_readFile :: "string \<Rightarrow> string + string"
  ho_sha256 :: "string \<Rightarrow> string"
  ho_path :: string
  ho_environ :: "string list"

text \<open>
  \<open>spawn binary args env stdin\<close> runs the child: the error of \<open>cmd.Run\<close>, what it wrote to
  stdout and to stderr. The first component of the result lists the spawns made.
\<close>

type_synonym spawn = "string \<Rightarrow> string list \<Rightarrow> string list \<Rightarrow> string \<Rightarrow> string option \<times> string list \<times> string list"
type_synonym spawned = "(string \<times> string list \<times> string list \<times> string) list"

definition CallExec ::
    "host \<Rightarrow> (factQuery \<Rightarrow> string option) \<Rightarrow> spawn \<Rightarrow> execOpts \<Rightarrow> factQuery
     \<Rightarrow> spawned \<times> (transport_error + string)" where
  "CallExec h marshal spawn opts q =
     (case VerifyExecDigest (ho_readFile h) (ho_sha256 h) (xo_binary opts) (xo_digest opts) of
        Some e \<Rightarrow> ([], Inl e)
      | None \<Rightarrow>
          (case marshal q of
             None \<Rightarrow> ([], Inl MarshalError)
           | Some body \<Rightarrow>
               (let args = ScrubArgv (ho_environ h) (xo_args opts);
                    env = ScrubEnv (ho_path h) (xo_env opts);
                    (runErr, outs, errs) = spawn (xo_binary opts) args env body;
                    stdout = captureAll outs (newBoundedCapture MaxResponseBytes);
                    stderr = captureAll errs (newBoundedCapture maxStderrExcerptBytes)
                in ([(xo_binary opts, args, env, body)],
                    case runErr of Some e \<Rightarrow> Inl (execFailure e stderr) | None \<Rightarrow> bytesOrError stdout))))"

text \<open>\<open>CallHTTP\<close>: \<open>post url body\<close> is the transport error, or the response body with its read error.\<close>

definition CallHTTP ::
    "(factQuery \<Rightarrow> string option) \<Rightarrow> (string \<Rightarrow> string \<Rightarrow> string + string option \<times> string) \<Rightarrow> string \<Rightarrow> factQuery
     \<Rightarrow> transport_error + string" where
  "CallHTTP marshal post url q =
     (case marshal q of
        None \<Rightarrow> Inl MarshalError
      | Some body \<Rightarrow>
          (case post url body of
             Inl e \<Rightarrow> Inl (RunError e)
           | Inr (readErr, src) \<Rightarrow> readBounded readErr src MaxResponseBytes))"

subsection \<open>Facts\<close>

lemma captureWrite_buf:
  assumes "length (bc_buf c) \<le> bc_limit c + 1"
  shows "bc_buf (fst (captureWrite p c)) = take (bc_limit c + 1) (bc_buf c @ p)"
    and "bc_limit (fst (captureWrite p c)) = bc_limit c"
proof -
  have n: "nat (int (bc_limit c) + 1 - int (length (bc_buf c))) = bc_limit c + 1 - length (bc_buf c)" using assms by linarith
  show "bc_buf (fst (captureWrite p c)) = take (bc_limit c + 1) (bc_buf c @ p)"
    using assms unfolding captureWrite_def Let_def n by auto
qed (simp add: captureWrite_def Let_def)

lemma captureAll_buf:
  assumes "length (bc_buf c) \<le> bc_limit c + 1"
  shows "bc_buf (captureAll ps c) = take (bc_limit c + 1) (bc_buf c @ concat ps) \<and> bc_limit (captureAll ps c) = bc_limit c"
  using assms
proof (induction ps arbitrary: c)
  case Nil
  then show ?case by (simp add: captureAll_def)
next
  case (Cons p ps)
  have c': "bc_buf (fst (captureWrite p c)) = take (bc_limit c + 1) (bc_buf c @ p)" "bc_limit (fst (captureWrite p c)) = bc_limit c"
    using captureWrite_buf [OF Cons.prems] by auto
  have "length (bc_buf (fst (captureWrite p c))) \<le> bc_limit (fst (captureWrite p c)) + 1" by (simp add: c')
  from Cons.IH [OF this] show ?case
    by (simp add: captureAll_def c' min_def)
qed

text \<open>However the child chops its output, the capture decides as one bounded read of all of it.\<close>

lemma capture_readBounded:
  "bytesOrError (captureAll ps (newBoundedCapture n)) = readBounded None (concat ps) n"
  using captureAll_buf [of "newBoundedCapture n" ps]
  by (auto simp: bytesOrError_def newBoundedCapture_def readBounded_def Let_def min_def)

lemma readBounded_Inr_iff:
  "readBounded re src n = Inr raw \<longleftrightarrow> raw = src \<and> length src \<le> n \<and> re = None"
  by (auto simp: readBounded_def Let_def min_def split: option.splits if_splits)

end
