(* ===== verification/RunPort.thy ===== *)
theory RunPort
  imports Decide DecisionRecord Builtin Transport Reconcile
begin

text \<open>
  The surroundings of \<open>assent run\<close>: the forge port it drives (\<open>internal/forge/runport.go\<close>), the
  operating system it emits to, the configuration, and the actions over them. An action returns
  an error or a value and the world it leaves; the world is the forge, what was written to
  standard output and the files on disk.
\<close>

subsection \<open>Actions\<close>

record 's world =
  w_forge :: 's
  w_out :: "string list"
  w_disk :: "string \<Rightarrow> string option"

type_synonym ('w, 'e, 'a) act = "'w \<Rightarrow> ('e + 'a) \<times> 'w"

definition okA :: "'a \<Rightarrow> ('w, 'e, 'a) act" where
  "okA a = (\<lambda>w. (Inr a, w))"

definition errA :: "'e \<Rightarrow> ('w, 'e, 'a) act" where
  "errA e = (\<lambda>w. (Inl e, w))"

definition bindA :: "('w, 'e, 'a) act \<Rightarrow> ('a \<Rightarrow> ('w, 'e, 'b) act) \<Rightarrow> ('w, 'e, 'b) act" where
  "bindA m k = (\<lambda>w. case m w of (Inl e, w') \<Rightarrow> (Inl e, w') | (Inr a, w') \<Rightarrow> k a w')"

definition liftA :: "('e \<Rightarrow> 'f) \<Rightarrow> 'e + 'a \<Rightarrow> ('w, 'f, 'a) act" where
  "liftA ctx r = (case r of Inl e \<Rightarrow> errA (ctx e) | Inr a \<Rightarrow> okA a)"

definition wrapA :: "('e \<Rightarrow> 'f) \<Rightarrow> ('w, 'e, 'a) act \<Rightarrow> ('w, 'f, 'a) act" where
  "wrapA ctx m = (\<lambda>w. case m w of (Inl e, w') \<Rightarrow> (Inl (ctx e), w') | (Inr a, w') \<Rightarrow> (Inr a, w'))"

definition nowA :: "('s \<Rightarrow> int) \<Rightarrow> ('s world, 'e, int) act" where
  "nowA clock = (\<lambda>w. (Inr (clock (w_forge w)), w))"

lemma okA_eq [simp]: "okA a w = (r, w') \<longleftrightarrow> r = Inr a \<and> w' = w"
  by (auto simp: okA_def)

lemma errA_eq [simp]: "errA e w = (r, w') \<longleftrightarrow> r = Inl e \<and> w' = w"
  by (auto simp: errA_def)

lemma bindA_ok [simp]: "bindA (okA a) k = k a"
  by (simp add: bindA_def okA_def)

lemma bindA_err [simp]: "bindA (errA e) k = errA e"
  by (simp add: bindA_def errA_def)

lemma liftA_simps [simp]: "liftA ctx (Inl e) = errA (ctx e)" "liftA ctx (Inr a) = okA a"
  by (simp_all add: liftA_def)

lemma liftA_Inr_iff [simp]: "liftA ctx r w = (Inr a, w') \<longleftrightarrow> r = Inr a \<and> w' = w"
  by (cases r) auto

lemma bindA_Inr_iff:
  "bindA m k w = (Inr b, w') \<longleftrightarrow> (\<exists>a v. m w = (Inr a, v) \<and> k a v = (Inr b, w'))"
  by (auto simp: bindA_def split: prod.splits sum.splits)

lemma bindA_cases:
  assumes "bindA m k w = (r, w')"
  obtains (err) e where "m w = (Inl e, w')" "r = Inl e"
    | (ok) a v where "m w = (Inr a, v)" "k a v = (r, w')"
  using assms by (auto simp: bindA_def split: prod.splits sum.splits)

text \<open>
  Actions that write nothing: what \<open>view\<close> shows of the forge, the output and the disk stay. A port
  may keep caches and counters in its state; the view leaves them out.
\<close>

definition inert :: "('s \<Rightarrow> 'v) \<Rightarrow> ('s world, 'e, 'a) act \<Rightarrow> bool" where
  "inert view m \<longleftrightarrow> (\<forall>w. view (w_forge (snd (m w))) = view (w_forge w)
     \<and> w_out (snd (m w)) = w_out w \<and> w_disk (snd (m w)) = w_disk w)"

named_theorems inertRules \<open>actions that write nothing\<close>

lemma inertD:
  "inert view m \<Longrightarrow> m w = (r, w') \<Longrightarrow>
   view (w_forge w') = view (w_forge w) \<and> w_out w' = w_out w \<and> w_disk w' = w_disk w"
  by (metis inert_def snd_conv)

lemma inert_basic [inertRules]: "inert view (okA a)" "inert view (errA e)" "inert view (liftA ctx r)"
  by (auto simp: inert_def okA_def errA_def liftA_def split: sum.splits)

lemma inert_wrapA [inertRules]: "inert view m \<Longrightarrow> inert view (wrapA ctx m)"
  by (simp add: inert_def wrapA_def split: prod.split sum.split) (metis snd_conv)

lemma inert_nowA [inertRules]: "inert view (nowA clock)"
  by (simp add: inert_def nowA_def)

lemma inert_bindA [inertRules]:
  assumes m: "inert view m" and k: "\<And>a. inert view (k a)"
  shows "inert view (bindA m k)"
  unfolding inert_def
proof
  fix w
  obtain r v where r: "m w = (r, v)" by fastforce
  note v = inertD [OF m r]
  show "view (w_forge (snd (bindA m k w))) = view (w_forge w)
      \<and> w_out (snd (bindA m k w)) = w_out w \<and> w_disk (snd (bindA m k w)) = w_disk w"
  proof (cases r)
    case (Inl e)
    then show ?thesis using r v by (simp add: bindA_def)
  next
    case (Inr a)
    then show ?thesis using r v k [of a] by (simp add: bindA_def inert_def)
  qed
qed

subsection \<open>The run port (runport.go)\<close>

text \<open>\<open>errors.Is(err, forge.ErrNotFound)\<close> is \<open>PortNotFound\<close>; any other error carries its text.\<close>

datatype port_error = PortNotFound | PortError string

type_synonym ('s, 'a) rd = "'s \<Rightarrow> (port_error + 'a) \<times> 's"

record 's runPort =
  rp_write :: "'s forgePort"
  rp_getMR :: "string \<Rightarrow> string \<Rightarrow> ('s, mrMetadata) rd"
  rp_snapshot :: "string \<Rightarrow> string \<Rightarrow> ('s, snapshot) rd"
  rp_resolve :: "resolveRequest \<Rightarrow> ('s, resolveResult) rd"
  rp_fileAtRef :: "string \<Rightarrow> string \<Rightarrow> string \<Rightarrow> ('s, string) rd"
  rp_fileAtBase :: "string \<Rightarrow> string \<Rightarrow> string \<Rightarrow> ('s, string) rd"
  rp_fileAtHead :: "string \<Rightarrow> string \<Rightarrow> string \<Rightarrow> ('s, string) rd"

definition onForge :: "(port_error \<Rightarrow> 'e) \<Rightarrow> ('s, 'a) rd \<Rightarrow> ('s world, 'e, 'a) act" where
  "onForge ctx m = (\<lambda>w. case m (w_forge w) of
       (Inl e, s) \<Rightarrow> (Inl (ctx e), w\<lparr>w_forge := s\<rparr>)
     | (Inr a, s) \<Rightarrow> (Inr a, w\<lparr>w_forge := s\<rparr>))"

text \<open>A read whose error the caller inspects before it goes on.\<close>

definition readA :: "('s, 'a) rd \<Rightarrow> (port_error + 'a \<Rightarrow> ('s world, 'e, 'b) act) \<Rightarrow> ('s world, 'e, 'b) act" where
  "readA m k = (\<lambda>w. k (fst (m (w_forge w))) (w\<lparr>w_forge := snd (m (w_forge w))\<rparr>))"

lemma inert_readA:
  assumes "\<And>s. view (snd (m s)) = view s" and "\<And>x. inert view (k x)"
  shows "inert view (readA m k)"
  using assms by (simp add: inert_def readA_def)

lemma onForge_world: "snd (onForge ctx m w) = w\<lparr>w_forge := snd (m (w_forge w))\<rparr>"
  by (simp add: onForge_def split: prod.split sum.split)

lemma inert_onForge: "(\<And>s. view (snd (m s)) = view s) \<Longrightarrow> inert view (onForge ctx m)"
  by (simp add: inert_def onForge_world)

text \<open>The contract of a run port: its reads do not write.\<close>

locale run_port =
  fixes client :: "'s runPort" and view :: "'s \<Rightarrow> 'v"
  assumes getMR_keeps: "view (snd (rp_getMR client pr mr s)) = view s"
    and snapshot_keeps: "view (snd (rp_snapshot client pr mr s)) = view s"
    and resolve_keeps: "view (snd (rp_resolve client q s)) = view s"
    and fileAtRef_keeps: "view (snd (rp_fileAtRef client pr p r s)) = view s"
    and fileAtBase_keeps: "view (snd (rp_fileAtBase client pr mr p s)) = view s"
    and fileAtHead_keeps: "view (snd (rp_fileAtHead client pr mr p s)) = view s"
begin

lemmas reads_keep = getMR_keeps snapshot_keeps resolve_keeps fileAtRef_keeps fileAtBase_keeps fileAtHead_keeps

lemma inert_reads:
  "inert view (onForge ctx1 (rp_getMR client pr mr))" "inert view (onForge ctx2 (rp_snapshot client pr mr))"
  "inert view (onForge ctx3 (rp_resolve client q))" "inert view (onForge ctx4 (rp_fileAtRef client pr p r))"
  by (auto intro!: inert_onForge reads_keep)

end

subsection \<open>The operating system\<close>

text \<open>
  When a system call fails and with what: a failing write leaves the part it wrote behind.
\<close>

record os =
  os_writeFails :: "string \<Rightarrow> (string \<times> string) option"
  os_renameFails :: "string \<Rightarrow> string \<Rightarrow> string option"
  os_removeFails :: "string \<Rightarrow> bool"
  os_stdoutFails :: "string option"

definition writeFile :: "os \<Rightarrow> string \<Rightarrow> string \<Rightarrow> ('s world, string, unit) act" where
  "writeFile sys path bytes = (\<lambda>w. case os_writeFails sys path of
       Some (e, part) \<Rightarrow> (Inl e, w\<lparr>w_disk := (w_disk w)(path \<mapsto> part)\<rparr>)
     | None \<Rightarrow> (Inr (), w\<lparr>w_disk := (w_disk w)(path \<mapsto> bytes)\<rparr>))"

definition renameFile :: "os \<Rightarrow> string \<Rightarrow> string \<Rightarrow> ('s world, string, unit) act" where
  "renameFile sys a b = (\<lambda>w. case os_renameFails sys a b of
       Some e \<Rightarrow> (Inl e, w)
     | None \<Rightarrow> (Inr (), w\<lparr>w_disk := (w_disk w)(b := w_disk w a, a := None)\<rparr>))"

definition removeFile :: "os \<Rightarrow> string \<Rightarrow> 's world \<Rightarrow> 's world" where
  "removeFile sys path w = (if os_removeFails sys path then w else w\<lparr>w_disk := (w_disk w)(path := None)\<rparr>)"

definition writeStdout :: "os \<Rightarrow> string \<Rightarrow> ('s world, string, unit) act" where
  "writeStdout sys bytes = (\<lambda>w. case os_stdoutFails sys of
       Some e \<Rightarrow> (Inl e, w)
     | None \<Rightarrow> (Inr (), w\<lparr>w_out := w_out w @ [bytes]\<rparr>))"

subsection \<open>Paths\<close>

definition pathDir :: "string \<Rightarrow> string" where
  "pathDir p = pathClean (rev (dropWhile (\<lambda>c. c \<noteq> CHR ''/'') (rev p)))"

definition pathJoin :: "string list \<Rightarrow> string" where
  "pathJoin ps = (let qs = filter (\<lambda>p. p \<noteq> []) ps in if qs = [] then [] else pathClean (joinOn ''/'' qs))"

end
