(* ===== verification/RunFacts.thy ===== *)
theory RunFacts
  imports RunPort
begin

text \<open>
  \<open>cmd/assent/provider_host.go\<close>: the configured providers resolved into the facts of the run.
  The record \<open>wire\<close> holds the library code and the outside world of the provider protocol:
  decoders, the schema check, the HTTP exchange, the child process.
\<close>

record wire =
  wi_decodeConfig :: "string \<Rightarrow> provConfig option"
  wi_marshalQuery :: "factQuery \<Rightarrow> string option"
  wi_encodeResponse :: "factResponse \<Rightarrow> string option"
  wi_decodeResponse :: "string \<Rightarrow> factResponse option"
  wi_validResponse :: "string \<Rightarrow> bool"
  wi_post :: "string \<Rightarrow> string \<Rightarrow> string + string option \<times> string"
  wi_spawn :: spawn
  wi_host :: host
  wi_tools :: tools
  wi_transportText :: "transport_error \<Rightarrow> string"
  wi_ownerText :: "owner_error \<Rightarrow> string"
  wi_fmtTime :: "int \<Rightarrow> string"

text \<open>The checkout directory: its two sides, and the directory itself.\<close>

record checkoutDir =
  ck_sides :: dirCheckout
  ck_root :: side

datatype facts_error =
    CheckoutUnreadable
  | DeclarationUnreadable string string
  | DeclarationInvalid string config_error
  | ExecUndeclared string
  | RepoFileUndeclared string
  | RegistryUndeclared string
  | RegistryForge string port_error
  | RegistryInvalid string owner_error

definition anchorFromSubject :: "string \<Rightarrow> string" where
  "anchorFromSubject subject = trimPrefix (trimPrefix (trimSpace subject) ''file:'') ''/''"

text \<open>
  \<open>checkoutFS\<close>: the head side when it is a directory, else the directory itself. An
  unreadable head never gets here, the governed file was read from it before.
\<close>

definition checkoutFS :: "checkoutDir option \<Rightarrow> facts_error + rootFS option" where
  "checkoutFS ck =
     (case ck of
        None \<Rightarrow> Inr None
      | Some c \<Rightarrow>
          (case dc_head (ck_sides c) of
             OpenSide d \<Rightarrow> Inr (Some d)
           | _ \<Rightarrow> (case ck_root c of OpenSide d \<Rightarrow> Inr (Some d) | _ \<Rightarrow> Inl CheckoutUnreadable)))"

definition querySubject :: "provider \<Rightarrow> provConfig \<Rightarrow> string \<Rightarrow> string \<Rightarrow> provSubject" where
  "querySubject p cfg anchor project =
     (if IsResourceOwnerType (p_type p)
      then (let i = (case pc_resourceOwner cfg of
                 None \<Rightarrow> anchor
               | Some ro \<Rightarrow> if trimSpace (ros_registry ro) \<noteq> [] then trimSpace anchor else anchor)
            in \<lparr>sb_kind = ''entry'', sb_id = i\<rparr>)
      else \<lparr>sb_kind = ''repo'', sb_id = project\<rparr>)"

text \<open>\<open>fs.Stat\<close>: a link on the way counts as present, the loader then refuses it.\<close>

fun existsBelow :: "string list \<Rightarrow> rootFS \<Rightarrow> bool" where
  "existsBelow [] d = True"
| "existsBelow (c # cs) (Inl e) = False"
| "existsBelow (c # cs) (Inr es) =
     (case map_of es c of
        None \<Rightarrow> False
      | Some Symlink \<Rightarrow> True
      | Some (Directory d) \<Rightarrow> existsBelow cs d
      | Some _ \<Rightarrow> cs = [])"

definition loadResourceOwnerRegistry ::
    "wire \<Rightarrow> 's runPort \<Rightarrow> string \<Rightarrow> string \<Rightarrow> rootFS option \<Rightarrow> string \<Rightarrow> string
     \<Rightarrow> ('s world, facts_error, string assoc) act" where
  "loadResourceOwnerRegistry wi client project targetRef repoFS prov regPath =
     readA (rp_fileAtRef client project regPath targetRef) (\<lambda>x. case x of
         Inr raw \<Rightarrow> liftA (RegistryInvalid prov) (LoadResourceOwnerMapBytes (wi_tools wi) (pathBase regPath) raw)
       | Inl (PortError e) \<Rightarrow> errA (RegistryForge prov (PortError e))
       | Inl PortNotFound \<Rightarrow>
           (case repoFS of
              Some fs \<Rightarrow>
                if existsBelow (splitOn (CHR ''/'') regPath) fs
                then liftA (RegistryInvalid prov) (LoadResourceOwnerMap (wi_tools wi) fs regPath)
                else errA (RegistryForge prov PortNotFound)
            | None \<Rightarrow> errA (RegistryForge prov PortNotFound)))"

definition encodeOr :: "wire \<Rightarrow> factResponse \<Rightarrow> string + string" where
  "encodeOr wi r = (case wi_encodeResponse wi r of None \<Rightarrow> Inl ''marshal response'' | Some raw \<Rightarrow> Inr raw)"

text \<open>
  \<open>providerCallFor\<close>: the answer the transport will give, or None when the provider is skipped.
\<close>

definition providerCallFor ::
    "wire \<Rightarrow> 's runPort \<Rightarrow> provider \<Rightarrow> provConfig \<Rightarrow> factQuery \<Rightarrow> string \<Rightarrow> string \<Rightarrow> rootFS option \<Rightarrow> string \<Rightarrow> string
     \<Rightarrow> ('s world, facts_error, (string + string) option) act" where
  "providerCallFor wi client p cfg q project targetRef repoFS anchor prov =
     (if p_type p = ''http'' \<and> trimSpace (p_url p) \<noteq> []
      then okA (Some (map_err (wi_transportText wi) (CallHTTP (wi_marshalQuery wi) (wi_post wi) (trimSpace (p_url p)) q)))
      else if p_type p = ''exec''
      then (case pc_exec cfg of
          None \<Rightarrow> errA (ExecUndeclared prov)
        | Some ed \<Rightarrow>
            okA (Some (map_err (wi_transportText wi) (snd (CallExec (wi_host wi) (wi_marshalQuery wi) (wi_spawn wi)
              \<lparr>xo_binary = ed_binary ed, xo_digest = ed_digest ed, xo_env = ed_env ed, xo_args = ed_args ed\<rparr> q)))))
      else if IsRepoFileType (p_type p)
      then (case pc_repoFile cfg of
          None \<Rightarrow> errA (RepoFileUndeclared prov)
        | Some rf \<Rightarrow>
            if trimSpace (rfs_file rf) = [] then errA (RepoFileUndeclared prov)
            else (case repoFS of
                None \<Rightarrow> okA None
              | Some fs \<Rightarrow>
                  okA (Some (encodeOr wi (answerRepoFile (wi_tools wi)
                    \<lparr>ro_fs = Some fs, ro_file = rfs_file rf, ro_anchor = anchor, ro_roots = rfs_roots rf,
                     ro_declarations = pc_outputs cfg\<rparr> q)))))
      else if IsResourceOwnerType (p_type p)
      then (case pc_resourceOwner cfg of
          None \<Rightarrow> errA (RegistryUndeclared prov)
        | Some ro \<Rightarrow>
            if trimSpace (ros_registry ro) = [] then errA (RegistryUndeclared prov)
            else bindA (loadResourceOwnerRegistry wi client project targetRef repoFS prov (trimSpace (ros_registry ro)))
              (\<lambda>owners. okA (Some (case answerResourceOwner (Some (mapResourceOwner owners)) q of
                  Inl e \<Rightarrow> Inl (wi_ownerText wi e)
                | Inr resp \<Rightarrow> encodeOr wi resp))))
      else if IsForgeGroupsType (p_type p) then okA None
      else okA None)"

definition boundFacts :: "wire \<Rightarrow> resolved \<Rightarrow> string list \<Rightarrow> fact assoc" where
  "boundFacts wi r outputs =
     concat (map (\<lambda>n. case rv_facts r n of
         None \<Rightarrow> [] | Some f \<Rightarrow> [(n, ToAggregateFact (wi_fmtTime wi) f)]) outputs)"

text \<open>The body of the loop over the sorted providers: None is \<open>continue\<close>.\<close>

definition resolveProvider ::
    "wire \<Rightarrow> 's runPort \<Rightarrow> string \<Rightarrow> string \<Rightarrow> string \<Rightarrow> rootFS option \<Rightarrow> string \<Rightarrow> int \<Rightarrow> string \<times> provider
     \<Rightarrow> ('s world, facts_error, (string \<times> fact assoc) option) act" where
  "resolveProvider wi client declDir project targetRef repoFS anchor asOf np =
     (case np of (name, p) \<Rightarrow>
        readA (rp_fileAtRef client project (pathJoin [declDir, name @ ''.json'']) targetRef) (\<lambda>x. case x of
          Inl PortNotFound \<Rightarrow> okA None
        | Inl (PortError e) \<Rightarrow> errA (DeclarationUnreadable name e)
        | Inr raw \<Rightarrow>
            bindA (liftA (DeclarationInvalid name)
                     (LoadProviderConfig (wi_decodeConfig wi) (tl_parseDuration (wi_tools wi)) raw)) (\<lambda>cfg.
              let outputs = sort (map fst (pc_outputs cfg));
                  q = BuildQuery cfg (''run-'' @ name) asOf (querySubject p cfg anchor project) outputs (\<lambda>_. None)
              in bindA (providerCallFor wi client p cfg q project targetRef repoFS anchor name) (\<lambda>call.
                   okA (map_option (\<lambda>c. (name,
                     boundFacts wi (ResolveFactsChecked (wi_decodeResponse wi) (wi_validResponse wi) c q asOf
                                      (Some (pc_outputs cfg))) outputs)) call)))))"

fun resolveProviders ::
    "(string \<times> provider \<Rightarrow> ('s world, facts_error, (string \<times> fact assoc) option) act) \<Rightarrow> (string \<times> provider) list
     \<Rightarrow> ('s world, facts_error, fact assoc assoc) act" where
  "resolveProviders one [] = okA []"
| "resolveProviders one (np # nps) =
     bindA (one np) (\<lambda>r. bindA (resolveProviders one nps) (\<lambda>rs. okA (case r of None \<Rightarrow> rs | Some x \<Rightarrow> x # rs)))"

definition resolveRunFacts ::
    "wire \<Rightarrow> config option \<Rightarrow> string \<Rightarrow> 's runPort \<Rightarrow> string \<Rightarrow> string \<Rightarrow> checkoutDir option \<Rightarrow> string \<Rightarrow> int
     \<Rightarrow> ('s world, facts_error, fact assoc assoc \<times> string assoc) act" where
  "resolveRunFacts wi conf configPath client project targetRef ck subject now =
     (case conf of
        None \<Rightarrow> okA ([], [])
      | Some cfg \<Rightarrow>
          if cfg_providers cfg = [] then okA ([], [])
          else bindA (liftA (\<lambda>e. e) (checkoutFS ck)) (\<lambda>repoFS.
            bindA (resolveProviders
                (resolveProvider wi client (pathJoin [pathDir configPath, ''providers'']) project targetRef repoFS
                   (anchorFromSubject subject) now)
                (sort_key fst (cfg_providers cfg)))
              (\<lambda>facts. okA (facts, map (\<lambda>(name, _). (name, wi_fmtTime wi now)) facts))))"

context run_port
begin

lemma inert_loadRegistry: "inert view (loadResourceOwnerRegistry wi client project ref repoFS prov regPath)"
  unfolding loadResourceOwnerRegistry_def
  by (auto intro!: inertRules inert_readA fileAtRef_keeps split: sum.split port_error.split option.split)

lemma inert_call: "inert view (providerCallFor wi client p cfg q project ref repoFS anchor prov)"
  unfolding providerCallFor_def by (auto intro!: inertRules inert_loadRegistry split: option.split)

lemma inert_resolveProvider: "inert view (resolveProvider wi client declDir project ref repoFS anchor asOf np)"
  unfolding resolveProvider_def Let_def
  by (auto intro!: inertRules inert_readA fileAtRef_keeps inert_call split: prod.split sum.split port_error.split)

lemma inert_resolveProviders: "(\<And>np. inert view (one np)) \<Longrightarrow> inert view (resolveProviders one nps)"
  by (induction nps) (auto intro!: inertRules)

lemma inert_resolveRunFacts: "inert view (resolveRunFacts wi conf path client project ref ck subject now)"
  unfolding resolveRunFacts_def
  by (auto intro!: inertRules inert_resolveProviders inert_resolveProvider split: option.split)

end

end
