(* ===== verification/RunGate.thy ===== *)
theory RunGate
  imports RunFacts
begin

text \<open>
  \<open>cmd/assent/run.go\<close>: \<open>orchestrate\<close>, the run of the gate from reading the merge request to the
  summary line, composed of the components in the order of the code. \<open>runLibs\<close> holds the
  library code, the two renderers and the texts of errors; \<open>rl_sha\<close> is the lowercase hexadecimal
  SHA-256 and \<open>rl_quote\<close> the verb \<open>%q\<close>.
\<close>

subsection \<open>Configuration and libraries\<close>

record runConfig =
  rc_project :: string
  rc_mr :: string
  rc_policy :: string
  rc_binding :: string
  rc_subject :: string
  rc_config :: string
  rc_pack :: string
  rc_arm :: bool
  rc_emit :: string
  rc_checkout :: "checkoutDir option"

text \<open>What a renderer is given beside the findings (\<open>buildRenderContext\<close>).\<close>

record renderInputs =
  ri_config :: "config option"
  ri_policy :: mergePolicy
  ri_binding :: binding
  ri_changes :: changeSet
  ri_facts :: "fact assoc assoc"
  ri_mr :: mrInfo

record runLibs =
  rl_cel :: cel_runtime
  rl_differ :: differ
  rl_wire :: wire
  rl_policyValid :: "string \<Rightarrow> bool"
  rl_policyDecode :: "string \<Rightarrow> mergePolicy option"
  rl_bindingValid :: "string \<Rightarrow> bool"
  rl_bindingDecode :: "string \<Rightarrow> binding list option"
  rl_configValid :: "string \<Rightarrow> bool"
  rl_configDecode :: "string \<Rightarrow> config option"
  rl_packValid :: "string \<Rightarrow> bool"
  rl_packDecode :: "string \<Rightarrow> phase option"
  rl_parseTime :: "string \<Rightarrow> int option"
  rl_sha :: "string \<Rightarrow> string"
  rl_marshalRecord :: "decisionRecord \<Rightarrow> string option"
  rl_recordValid :: "string \<Rightarrow> bool"
  rl_renderSummary :: "presentationModel \<Rightarrow> renderInputs \<Rightarrow> string option"
  rl_renderThread :: "presentationModel \<Rightarrow> recordFinding \<Rightarrow> renderInputs \<Rightarrow> string option"
  rl_quote :: "string \<Rightarrow> string"
  rl_errText :: "forge_error \<Rightarrow> string"
  rl_toolVersion :: string
  rl_toolDigest :: string

text \<open>\<open>LoadRulesetBinding\<close>, \<open>LoadConfig\<close>, \<open>LoadPack\<close>: the schema, then the decoder.\<close>

definition loadDocument :: "(string \<Rightarrow> bool) \<Rightarrow> (string \<Rightarrow> 'a option) \<Rightarrow> string \<Rightarrow> policy_error + 'a" where
  "loadDocument valid decode raw =
     (if \<not> valid raw then Inl SchemaRejected
      else (case decode raw of None \<Rightarrow> Inl DecodeFailed | Some x \<Rightarrow> Inr x))"

datatype run_error =
    ReadMR port_error
  | SnapshotFailed port_error
  | HeadsMoved
  | LoadFailed string port_error
  | PolicyInvalid string policy_error
  | NoBindings
  | ManyBindings nat
  | PostureRefused policy_error
  | BadSubject string
  | GovernedUnreadable string port_error
  | CheckoutFailed checkout_error
  | ProvidersFailed facts_error
  | ApprovalFailed port_error
  | ApprovalMalformed
  | EvaluateFailed decide_error
  | PinFailed record_error
  | PinWithoutDigest
  | BuildFailed record_error
  | MarshalFailed
  | RecordSchema
  | EmitFailed string
  | ReconcileFailed forge_error

subsection \<open>Reading the inputs (steps 1 to 3)\<close>

definition readHeads :: "runConfig \<Rightarrow> 's runPort \<Rightarrow> ('s world, run_error, mrMetadata \<times> snapshot) act" where
  "readHeads cfg client =
     bindA (onForge ReadMR (rp_getMR client (rc_project cfg) (rc_mr cfg))) (\<lambda>info.
     bindA (onForge SnapshotFailed (rp_snapshot client (rc_project cfg) (rc_mr cfg))) (\<lambda>sn.
       if h_source (sn_heads sn) \<noteq> md_source info \<or> h_target (sn_heads sn) \<noteq> md_target info
       then errA HeadsMoved else okA (info, sn)))"

definition selectBinding :: "binding list \<Rightarrow> run_error + binding" where
  "selectBinding bs =
     (if bs = [] then Inl NoBindings
      else if length bs > 1 then Inl (ManyBindings (length bs))
      else Inr (bs ! 0))"

definition loadConfigStep ::
    "runLibs \<Rightarrow> runConfig \<Rightarrow> 's runPort \<Rightarrow> string \<Rightarrow> mergePolicy \<Rightarrow> ('s world, run_error, config option) act" where
  "loadConfigStep libs cfg client target mp =
     (if rc_config cfg = [] then okA None
      else bindA (onForge (LoadFailed ''config'') (rp_fileAtRef client (rc_project cfg) (rc_config cfg) target)) (\<lambda>raw.
           bindA (liftA (PolicyInvalid ''config'') (loadDocument (rl_configValid libs) (rl_configDecode libs) raw)) (\<lambda>conf.
             case validateProviderPosture (Some conf) (Some mp) of
               Some e \<Rightarrow> errA (PostureRefused e) | None \<Rightarrow> okA (Some conf))))"

definition loadPackStep ::
    "runLibs \<Rightarrow> runConfig \<Rightarrow> 's runPort \<Rightarrow> string \<Rightarrow> ('s world, run_error, phase) act" where
  "loadPackStep libs cfg client target =
     (if rc_pack cfg = [] then okA PhaseEnforce
      else bindA (onForge (LoadFailed ''pack'') (rp_fileAtRef client (rc_project cfg) (rc_pack cfg) target)) (\<lambda>raw.
           liftA (PolicyInvalid ''pack'') (loadDocument (rl_packValid libs) (rl_packDecode libs) raw)))"

record governance =
  gv_policyBytes :: string
  gv_policy :: mergePolicy
  gv_binding :: binding
  gv_config :: "config option"
  gv_ceiling :: phase

definition loadGovernance ::
    "runLibs \<Rightarrow> runConfig \<Rightarrow> 's runPort \<Rightarrow> string \<Rightarrow> ('s world, run_error, governance) act" where
  "loadGovernance libs cfg client target =
     bindA (onForge (LoadFailed ''merge-policy'') (rp_fileAtRef client (rc_project cfg) (rc_policy cfg) target)) (\<lambda>mpBytes.
     bindA (liftA (PolicyInvalid ''merge-policy'') (loadMergePolicy (rl_policyValid libs) (rl_policyDecode libs) mpBytes)) (\<lambda>mp.
     bindA (onForge (LoadFailed ''ruleset-binding'') (rp_fileAtRef client (rc_project cfg) (rc_binding cfg) target)) (\<lambda>bindBytes.
     bindA (liftA (PolicyInvalid ''ruleset-binding'') (loadDocument (rl_bindingValid libs) (rl_bindingDecode libs) bindBytes)) (\<lambda>rb.
     bindA (liftA (\<lambda>e. e) (selectBinding rb)) (\<lambda>bind.
     bindA (loadConfigStep libs cfg client target mp) (\<lambda>conf.
     bindA (loadPackStep libs cfg client target) (\<lambda>ceiling.
       okA \<lparr>gv_policyBytes = mpBytes, gv_policy = mp, gv_binding = bind, gv_config = conf, gv_ceiling = ceiling\<rparr>)))))))"

text \<open>\<open>fileAtBaseOrAbsent\<close> and \<open>fileAtHeadOrAbsent\<close>: not found is absence, any other error is an error.\<close>

definition orAbsent :: "string \<Rightarrow> ('s, string) rd \<Rightarrow> ('s world, run_error, string option) act" where
  "orAbsent governed m = readA m (\<lambda>x. case x of
       Inl PortNotFound \<Rightarrow> okA None
     | Inl (PortError e) \<Rightarrow> errA (GovernedUnreadable governed (PortError e))
     | Inr raw \<Rightarrow> okA (Some raw))"

definition fileAtBaseOrAbsent :: "runConfig \<Rightarrow> 's runPort \<Rightarrow> string \<Rightarrow> ('s world, run_error, string option) act" where
  "fileAtBaseOrAbsent cfg client path = orAbsent path (rp_fileAtBase client (rc_project cfg) (rc_mr cfg) path)"

definition fileAtHeadOrAbsent :: "runConfig \<Rightarrow> 's runPort \<Rightarrow> string \<Rightarrow> ('s world, run_error, string option) act" where
  "fileAtHeadOrAbsent cfg client path = orAbsent path (rp_fileAtHead client (rc_project cfg) (rc_mr cfg) path)"

definition readGoverned ::
    "runConfig \<Rightarrow> 's runPort \<Rightarrow> ('s world, run_error, string \<times> string option \<times> string option) act" where
  "readGoverned cfg client =
     (let governed = trimPrefix (rc_subject cfg) ''file:'' in
      if governed = rc_subject cfg then errA (BadSubject (rc_subject cfg))
      else bindA (fileAtBaseOrAbsent cfg client governed) (\<lambda>base.
           bindA (fileAtHeadOrAbsent cfg client governed) (\<lambda>head.
             case rc_checkout cfg of
               None \<Rightarrow> okA (governed, base, head)
             | Some ck \<Rightarrow> bindA (liftA CheckoutFailed (FileContents (ck_sides ck) governed))
                            (\<lambda>(b, h). okA (governed, b, h)))))"

subsection \<open>The change set and its class (steps 4 and 5)\<close>

definition changeSetForGoverned :: "differ \<Rightarrow> string \<Rightarrow> string option \<Rightarrow> string option \<Rightarrow> changeSet" where
  "changeSetForGoverned df file base head =
     (case OneSidedLifecycle base head of (kind, ok) \<Rightarrow>
        if ok then \<lparr>cs_changes = [FileEvent file kind], cs_opaque = False, cs_reason = []\<rparr>
        else goDiff df file base head)"

definition applyFold :: "string \<Rightarrow> checkoutFold \<Rightarrow> changeSet \<times> string \<Rightarrow> changeSet \<times> string" where
  "applyFold reasonPrefix fold0 x =
     (case x of (cs, cls) \<Rightarrow>
        (if cf_opaque fold0 \<and> \<not> cs_opaque cs
         then cs\<lparr>cs_opaque := True, cs_reason := reasonPrefix @ cf_reason fold0\<rparr> else cs,
         if cf_class fold0 = ClassAssentPolicy then ClassAssentPolicy else cls))"

definition assess ::
    "runLibs \<Rightarrow> runConfig \<Rightarrow> snapshot \<Rightarrow> string \<Rightarrow> string option \<Rightarrow> string option \<Rightarrow> run_error + changeSet \<times> string" where
  "assess libs cfg sn governed base head =
     (let cs = changeSetForGoverned (rl_differ libs) governed base head in
      case rc_checkout cfg of
        Some ck \<Rightarrow>
          (case foldCheckout (rl_differ libs) (ck_sides ck) governed of
             Inl e \<Rightarrow> Inl (CheckoutFailed e)
           | Inr fold0 \<Rightarrow> Inr (applyFold ''changed-file set opaque: '' fold0 (cs, Classify cs)))
      | None \<Rightarrow> Inr (applyFold [] (foldSnapshotPaths sn) (cs, Classify cs)))"

subsection \<open>Approval and decision (steps 5d and 6)\<close>

definition resolveRunApproval ::
    "runConfig \<Rightarrow> 's runPort \<Rightarrow> mrMetadata \<Rightarrow> string \<Rightarrow> string \<Rightarrow> ('s world, run_error, approvalContext) act" where
  "resolveRunApproval cfg client info digest author =
     bindA (onForge ApprovalFailed (rp_resolve client
         \<lparr>rr_project = rc_project cfg, rr_mr = rc_mr cfg, rr_subject = rc_subject cfg, rr_source = md_source info,
          rr_target = md_target info, rr_digest = digest, rr_author = author\<rparr>)) (\<lambda>res.
       if \<not> WellFormed res then errA ApprovalMalformed
       else okA \<lparr>ac_sourceSha = md_source info,
            ac_evidence = (case rs_evidence res of
                Some ev \<Rightarrow> [rc_subject cfg \<mapsto> ev]
              | None \<Rightarrow>
                  if rs_gap res \<noteq> None
                  then [rc_subject cfg \<mapsto> \<lparr>ae_verifyingCapability = ''none'', ae_approvalsRequired = 0, ae_approvedBy = [],
                          ae_eligibility = [], ae_pinSourceSha = md_source info, ae_expired = False\<rparr>]
                  else Map.empty)\<rparr>)"

definition mrFrom :: "mrMetadata \<Rightarrow> string \<Rightarrow> mrInfo" where
  "mrFrom info author = \<lparr>mr_author = author, mr_sourceBranch = md_sourceBranch info,
     mr_targetBranch = md_targetBranch info, mr_labels = md_labels info\<rparr>"

definition sanitizeFinding :: "string \<Rightarrow> finding \<Rightarrow> finding" where
  "sanitizeFinding fallback f =
     (if fd_subject f \<noteq> [] then f
      else if fd_obligation f \<noteq> [] then f\<lparr>fd_subject := ''obligation:'' @ fd_obligation f\<rparr>
      else f\<lparr>fd_subject := fallback\<rparr>)"

definition sanitizeSubjects :: "result \<Rightarrow> string \<Rightarrow> result" where
  "sanitizeSubjects res fallback =
     res\<lparr>res_findings := map (sanitizeFinding fallback) (res_findings res),
         res_observed := map (sanitizeFinding fallback) (res_observed res)\<rparr>"

definition runInput :: "changeSet \<Rightarrow> mrInfo \<Rightarrow> string list \<Rightarrow> fact assoc assoc \<Rightarrow> evalInput" where
  "runInput cs mr require facts =
     (let i = BuildEvaluationInput cs mr require in if facts \<noteq> [] then i\<lparr>in_facts := facts\<rparr> else i)"

definition runDecide ::
    "runLibs \<Rightarrow> string \<Rightarrow> string \<Rightarrow> changeSet \<Rightarrow> governance \<Rightarrow> mrMetadata \<Rightarrow> fact assoc assoc \<Rightarrow> approvalContext \<Rightarrow> string
     \<Rightarrow> decide_error + result" where
  "runDecide libs subject subjectClass cs gv info facts appr author =
     (case decide (rl_cel libs)
        \<lparr>dr_subject = subject, dr_subjectClass = subjectClass, dr_opaque = cs_opaque cs,
         dr_policy = Some (gv_policy gv), dr_binding = Some (gv_binding gv),
         dr_input = Some (runInput cs (mrFrom info author) (b_require (gv_binding gv)) facts),
         dr_approval = Some appr, dr_ceiling = gv_ceiling gv, dr_precedence = [], dr_profiles = []\<rparr> of
        Inl e \<Rightarrow> Inl e
      | Inr res \<Rightarrow> Inr (sanitizeSubjects res subject))"

subsection \<open>The record (steps 6 to 8)\<close>

abbreviation CapabilityMergeResultPinning :: string where "CapabilityMergeResultPinning \<equiv> ''merge-result-pinning''"

definition gapFallback :: string where
  "gapFallback = ''the merge-result digest is not forge-observable on this run's merge path (adapter-graded absent/unprobed); ADR-0017 ''
     @ sect @ ''1 capabilityGap''"

definition mergeResultPin :: "capabilityReport \<Rightarrow> string \<Rightarrow> run_error + mergeResult" where
  "mergeResultPin caps digest =
     (if capState caps CapabilityMergeResultPinning = CapabilitySupported \<and> digest \<noteq> []
      then map_err PinFailed (PinnedMergeResult digest)
      else if capState caps CapabilityMergeResultPinning = CapabilitySupported then Inl PinWithoutDigest
      else (let reason0 = capReason caps CapabilityMergeResultPinning;
                reason = (if reason0 = [] then gapFallback else reason0)
            in map_err PinFailed (MergeResultGap reason)))"

abbreviation sha256Prefix :: string where "sha256Prefix \<equiv> ''sha256:''"

definition buildRecord ::
    "runLibs \<Rightarrow> governance \<Rightarrow> mrMetadata \<Rightarrow> snapshot \<Rightarrow> string assoc \<Rightarrow> result \<Rightarrow> run_error + report \<times> string" where
  "buildRecord libs gv info sn resolvedAt res =
     bind_res (mergeResultPin (sn_capabilities sn) (h_digest (sn_heads sn))) (\<lambda>mr.
     bind_res (map_err BuildFailed (Build res
        \<lparr>pn_toolVersion = rl_toolVersion libs, pn_toolDigest = rl_toolDigest libs,
         pn_policySha = sha256Prefix @ rl_sha libs (gv_policyBytes gv), pn_source = md_source info, pn_target = md_target info,
         pn_mergeResult = mr, pn_factsResolvedAt = Some resolvedAt\<rparr>)) (\<lambda>rep.
       case rl_marshalRecord libs (rep_record rep) of
         None \<Rightarrow> Inl MarshalFailed
       | Some json \<Rightarrow> if \<not> rl_recordValid libs json then Inl RecordSchema else Inr (rep, json)))"

definition emitTempPath :: "string \<Rightarrow> string" where
  "emitTempPath target = target @ ''.tmp''"

definition emitRecord :: "os \<Rightarrow> string \<Rightarrow> string \<Rightarrow> ('s world, string, unit) act" where
  "emitRecord sys emit json =
     (if emit = [] then writeStdout sys (json @ [CHR 0x0A])
      else (let tmp = emitTempPath emit in (\<lambda>w.
        case writeFile sys tmp json w of
          (Inl e, w') \<Rightarrow> (Inl e, removeFile sys tmp w')
        | (Inr u, w') \<Rightarrow>
            (case renameFile sys tmp emit w' of
               (Inl e, w'') \<Rightarrow> (Inl e, removeFile sys tmp w'')
             | (Inr u, w'') \<Rightarrow> (Inr (), w'')))))"

subsection \<open>Publication (step 9)\<close>

definition reservedSelfEditBlock :: "result \<Rightarrow> bool" where
  "reservedSelfEditBlock res \<longleftrightarrow>
     (if res_decision res \<noteq> BLOCK then False
      else list_ex (\<lambda>f. fd_code f = ''assent-policy.self-edit'') (res_findings res))"

definition untrustedExecutionContext :: "snapshot \<Rightarrow> bool" where
  "untrustedExecutionContext sn \<longleftrightarrow> h_fork (sn_heads sn)"

definition buildSummaryMarker :: "runLibs \<Rightarrow> runConfig \<Rightarrow> string \<Rightarrow> marker" where
  "buildSummaryMarker libs cfg json =
     (let dg = sha256Prefix @ rl_sha libs json in
      \<lparr>m_slot = \<lparr>s_project = rc_project cfg, s_mr = rc_mr cfg, s_rule = ''assent/summary'', s_effect = ''comment'', s_entryRef = []\<rparr>,
       m_occurrence = dg, m_decision = dg,
       m_artifact = \<lparr>a_kind = ''summary-comment'', a_schemaVersion = ''v1alpha1''\<rparr>\<rparr>)"

definition drivingFinding :: "result \<Rightarrow> string \<times> string \<times> string" where
  "drivingFinding res =
     (case res_findings res of
        [] \<Rightarrow> (''require-review'', ''aggregate.changeset'', ''changeset.undecidable'')
      | f # _ \<Rightarrow> (fd_effect f, fd_rule f, fd_code f))"

definition presentationFinding :: "result \<Rightarrow> recordFinding" where
  "presentationFinding res =
     (case res_findings res of
        [] \<Rightarrow> \<lparr>rf_rule = ''aggregate.changeset'', rf_obligation = [], rf_effect = ''require-review'', rf_subject = [],
              rf_points = 0, rf_code = ''changeset.undecidable''\<rparr>
      | f # _ \<Rightarrow> projectFinding f)"

text \<open>The finding whose text the thread carries.\<close>

definition threadFinding :: "presentationModel \<Rightarrow> result \<Rightarrow> recordFinding" where
  "threadFinding pm res = (case pm_findings pm of [] \<Rightarrow> presentationFinding res | f # _ \<Rightarrow> f)"

definition decisionText :: "decision \<Rightarrow> string" where
  "decisionText d = (case d of APPROVE \<Rightarrow> ''APPROVE'' | REVIEW \<Rightarrow> ''REVIEW'' | BLOCK \<Rightarrow> ''BLOCK'')"

definition noPreconditions :: preconditions where
  "noPreconditions = \<lparr>p_armEligible = False, p_source = [], p_target = [], p_digest = []\<rparr>"

definition threadMarker :: "runLibs \<Rightarrow> runConfig \<Rightarrow> string option \<Rightarrow> result \<Rightarrow> string \<Rightarrow> marker" where
  "threadMarker libs cfg head res json =
     (case drivingFinding res of (effect, rule, code) \<Rightarrow>
        \<lparr>m_slot = \<lparr>s_project = rc_project cfg, s_mr = rc_mr cfg, s_rule = rule, s_effect = effect, s_entryRef = rc_subject cfg\<rparr>,
         m_occurrence = sha256Prefix @ rl_sha libs (bytesOf head), m_decision = sha256Prefix @ rl_sha libs json,
         m_artifact = \<lparr>a_kind = ''finding-thread'', a_schemaVersion = ''v1alpha1''\<rparr>\<rparr>)"

definition summaryBody :: "runLibs \<Rightarrow> presentationModel \<Rightarrow> renderInputs \<Rightarrow> string" where
  "summaryBody libs pm ri =
     (case rl_renderSummary libs pm ri of Some b \<Rightarrow> b | None \<Rightarrow> ''Decision: '' @ decisionText (pm_decision pm))"

definition buildDesired ::
    "runLibs \<Rightarrow> runConfig \<Rightarrow> mrMetadata \<Rightarrow> string option \<Rightarrow> result \<Rightarrow> string \<Rightarrow> bool \<Rightarrow> presentationModel \<Rightarrow> renderInputs \<Rightarrow> string
     \<Rightarrow> desiredReviewState \<times> preconditions" where
  "buildDesired libs cfg info head res json armEligible pm ri digest =
     (let summary = \<lparr>ds_marker = buildSummaryMarker libs cfg json,
            ds_body = summaryBody libs pm ri\<rparr>;
          blank = \<lparr>d_project = rc_project cfg, d_mr = rc_mr cfg, d_thread = None, d_clearSlot = None,
                   d_approve = False, d_merge = None, d_summary = Some summary\<rparr> in
      if res_decision res = APPROVE
      then (blank\<lparr>d_approve := True,
              d_merge := Some \<lparr>dm_source = md_source info, dm_target = md_target info, dm_digest = digest\<rparr>\<rparr>,
            \<lparr>p_armEligible = armEligible, p_source = md_source info, p_target = md_target info, p_digest = digest\<rparr>)
      else (let f = threadFinding pm res;
                body = (case rl_renderThread libs pm f ri of
                    Some b \<Rightarrow> b
                  | None \<Rightarrow> ''Review required: rule '' @ rl_quote libs (fst (snd (drivingFinding res))) @ '' ('' @ rf_code f @ '')'')
            in (blank\<lparr>d_thread := Some \<lparr>dt_marker = threadMarker libs cfg head res json, dt_body = body\<rparr>\<rparr>, noPreconditions)))"

definition isFailClosed :: "forge_error \<Rightarrow> bool" where
  "isFailClosed e \<longleftrightarrow> sentinel e = ErrArmingRefused \<or> sentinel e = ErrSHAMoved \<or> sentinel e = ErrIncompletePreconditions"

definition arrow :: string where "arrow = '' '' @ map char_of [226, 134, 146 :: nat] @ '' ''"

definition boolText :: "bool \<Rightarrow> string" where
  "boolText b = (if b then ''true'' else ''false'')"

definition summarizeOutcome :: "runLibs \<Rightarrow> decision \<Rightarrow> bool \<Rightarrow> publicationReceipt \<Rightarrow> forge_error option \<Rightarrow> string" where
  "summarizeOutcome libs dec arm rc err =
     ''decision='' @ decisionText dec @
     (case err of
        Some e \<Rightarrow>
          if sentinel e = ErrArmingRefused
          then '' arm='' @ boolText arm @ arrow @ ''advisory-only (arming precondition unmet, no approve/merge)''
          else if sentinel e = ErrSHAMoved then arrow @ ''SHA moved since evaluation, no merge (fail-closed)''
          else if sentinel e = ErrIncompletePreconditions
          then arrow @ ''incomplete merge preconditions, no merge (fail-closed)''
          else arrow @ ''reconcile error: '' @ rl_errText libs e
      | None \<Rightarrow> '' arm='' @ boolText arm @ arrow @ itoa (int (length (pr_operations rc))) @ '' forge operation(s) written'')"

definition warningSuffix :: "publicationReceipt \<Rightarrow> string" where
  "warningSuffix rc =
     (if pr_warnings rc = [] then []
      else '' ['' @ itoa (int (length (pr_warnings rc))) @ '' forge warning(s): '' @ joinOn ''; '' (pr_warnings rc) @ '']'')"

definition summarize :: "runLibs \<Rightarrow> decision \<Rightarrow> bool \<Rightarrow> publicationReceipt \<Rightarrow> forge_error option \<Rightarrow> string" where
  "summarize libs dec arm rc err = summarizeOutcome libs dec arm rc err @ warningSuffix rc"

text \<open>
  What is decided when the forge is about to be touched: the record is emitted at this point.
\<close>

record verdict =
  vd_info :: mrMetadata
  vd_snapshot :: snapshot
  vd_governance :: governance
  vd_head :: "string option"
  vd_changes :: changeSet
  vd_class :: string
  vd_facts :: "fact assoc assoc"
  vd_approval :: approvalContext
  vd_result :: result
  vd_report :: report
  vd_json :: string

definition judge ::
    "runLibs \<Rightarrow> runConfig \<Rightarrow> 's runPort \<Rightarrow> ('s \<Rightarrow> int) \<Rightarrow> ('s world, run_error, verdict) act" where
  "judge libs cfg client clock =
     bindA (readHeads cfg client) (\<lambda>(info, sn).
     bindA (loadGovernance libs cfg client (md_target info)) (\<lambda>gv.
     bindA (readGoverned cfg client) (\<lambda>(governed, base, head).
     bindA (liftA (\<lambda>e. e) (assess libs cfg sn governed base head)) (\<lambda>(cs, cls).
     bindA (nowA clock) (\<lambda>evalNow.
     bindA (wrapA ProvidersFailed (resolveRunFacts (rl_wire libs) (gv_config gv) (rc_config cfg) client (rc_project cfg)
              (md_targetBranch info) (rc_checkout cfg) (rc_subject cfg) evalNow))
       (\<lambda>(facts, resolvedAt).
     bindA (resolveRunApproval cfg client info (h_digest (sn_heads sn)) (h_author (sn_heads sn))) (\<lambda>appr.
     bindA (liftA EvaluateFailed
              (runDecide libs (rc_subject cfg) cls cs gv info facts appr (h_author (sn_heads sn)))) (\<lambda>res.
     bindA (liftA (\<lambda>e. e) (buildRecord libs gv info sn resolvedAt res)) (\<lambda>(rep, json).
       okA \<lparr>vd_info = info, vd_snapshot = sn, vd_governance = gv, vd_head = head, vd_changes = cs, vd_class = cls,
            vd_facts = facts, vd_approval = appr, vd_result = res, vd_report = rep, vd_json = json\<rparr>)))))))))"

definition armEligibleAt :: "runLibs \<Rightarrow> verdict \<Rightarrow> int \<Rightarrow> bool" where
  "armEligibleAt libs v armTime =
     (if res_decision (vd_result v) = APPROVE
         \<and> \<not> controllingFactsFreshAt (rl_parseTime libs) (Some (gv_policy (vd_governance v))) (vd_facts v) armTime
      then False else pp_armEligible (PreconditionFromReport (sn_capabilities (vd_snapshot v))))"

definition renderInputsOf :: "verdict \<Rightarrow> renderInputs" where
  "renderInputsOf v = \<lparr>ri_config = gv_config (vd_governance v), ri_policy = gv_policy (vd_governance v),
     ri_binding = gv_binding (vd_governance v), ri_changes = vd_changes v, ri_facts = vd_facts v,
     ri_mr = mrFrom (vd_info v) (h_author (sn_heads (vd_snapshot v)))\<rparr>"

text \<open>Step 9: the guards, then \<^const>\<open>Reconcile\<close>. None means that it was not called.\<close>

definition publish ::
    "runLibs \<Rightarrow> runConfig \<Rightarrow> 's runPort \<Rightarrow> ('s \<Rightarrow> int) \<Rightarrow> verdict \<Rightarrow> 's
     \<Rightarrow> (publicationReceipt \<times> forge_error option) option \<times> 's" where
  "publish libs cfg client clock v s =
     (if reservedSelfEditBlock (vd_result v) then (None, s)
      else if untrustedExecutionContext (vd_snapshot v) then (None, s)
      else (case buildDesired libs cfg (vd_info v) (vd_head v) (vd_result v) (vd_json v) (armEligibleAt libs v (clock s))
                  (rep_presentation (vd_report v)) (renderInputsOf v) (h_digest (sn_heads (vd_snapshot v))) of
          (desired, pre) \<Rightarrow>
            (case Reconcile (rp_write client) (\<lambda>t. wi_fmtTime (rl_wire libs) (clock t)) desired pre s of
               (out, s') \<Rightarrow> (Some out, s'))))"

definition summaryLine :: "runLibs \<Rightarrow> runConfig \<Rightarrow> verdict \<Rightarrow> (publicationReceipt \<times> forge_error option) option \<Rightarrow> string" where
  "summaryLine libs cfg v out =
     (if reservedSelfEditBlock (vd_result v)
      then ''decision=BLOCK'' @ arrow @ ''assent-policy self-edit, no forge writes (fail-closed)''
      else if untrustedExecutionContext (vd_snapshot v)
      then ''decision='' @ decisionText (res_decision (vd_result v)) @ arrow
             @ ''fork/untrusted MR context, advisory-only (no forge writes, ADR-0015 '' @ sect @ ''8)''
      else (case out of
          None \<Rightarrow> summarize libs (res_decision (vd_result v)) (rc_arm cfg) emptyReceipt None
        | Some (rc, err) \<Rightarrow> summarize libs (res_decision (vd_result v)) (rc_arm cfg) rc err))"

text \<open>Steps 8 to 10: emit, publish, print the summary; its own print error is ignored.\<close>

definition conclude ::
    "runLibs \<Rightarrow> os \<Rightarrow> runConfig \<Rightarrow> 's runPort \<Rightarrow> ('s \<Rightarrow> int) \<Rightarrow> verdict \<Rightarrow> ('s world, run_error, unit) act" where
  "conclude libs sys cfg client clock v = (\<lambda>w.
     case emitRecord sys (rc_emit cfg) (vd_json v) w of
       (Inl e, w1) \<Rightarrow> (Inl (EmitFailed e), w1)
     | (Inr u, w1) \<Rightarrow>
         (case publish libs cfg client clock v (w_forge w1) of
            (out, s) \<Rightarrow>
              (let w2 = snd (writeStdout sys (summaryLine libs cfg v out @ [CHR 0x0A]) (w1\<lparr>w_forge := s\<rparr>)) in
               case out of
                 Some (rc, Some e) \<Rightarrow> if \<not> isFailClosed e then (Inl (ReconcileFailed e), w2) else (Inr (), w2)
               | _ \<Rightarrow> (Inr (), w2))))"

definition orchestrate ::
    "runLibs \<Rightarrow> os \<Rightarrow> runConfig \<Rightarrow> 's runPort \<Rightarrow> ('s \<Rightarrow> int) \<Rightarrow> ('s world, run_error, unit) act" where
  "orchestrate libs sys cfg client clock =
     bindA (judge libs cfg client clock) (conclude libs sys cfg client clock)"

end
