(* ===== verification/RunSafety.thy ===== *)
theory RunSafety
  imports RunGate ForgeContract
begin

text \<open>
  The run as a whole: what it reads does not write, the record comes before any write, the
  guards of step 9, and what a merge presupposes. The client is any forge that meets the
  contract \<open>run_port\<close>.
\<close>

subsection \<open>Reading and judging write nothing\<close>

context run_port
begin

lemma inert_loadGovernance: "inert view (loadGovernance libs cfg client target)"
  unfolding loadGovernance_def loadConfigStep_def loadPackStep_def
  by (auto intro!: inertRules inert_reads split: option.split)

lemma inert_readGoverned: "inert view (readGoverned cfg client)"
  unfolding readGoverned_def fileAtBaseOrAbsent_def fileAtHeadOrAbsent_def orAbsent_def Let_def
  by (auto intro!: inertRules inert_readA reads_keep split: option.split sum.split port_error.split)

lemma inert_approval: "inert view (resolveRunApproval cfg client info digest author)"
  unfolding resolveRunApproval_def by (auto intro!: inertRules inert_reads)

lemma inert_readHeads: "inert view (readHeads cfg client)"
  unfolding readHeads_def by (auto intro!: inertRules inert_reads)

lemma inert_judge: "inert view (judge libs cfg client clock)"
  unfolding judge_def
  by (auto intro!: inertRules inert_readHeads inert_loadGovernance inert_readGoverned inert_resolveRunFacts
      inert_approval split: prod.split)

end
subsection \<open>What a verdict contains\<close>

lemma judge_Inr:
  assumes "judge libs cfg client clock w = (Inr v, w')"
  obtains governed base resolvedAt where
    "h_source (sn_heads (vd_snapshot v)) = md_source (vd_info v)"
    "h_target (sn_heads (vd_snapshot v)) = md_target (vd_info v)"
    "rc_subject cfg = ''file:'' @ governed"
    "assess libs cfg (vd_snapshot v) governed base (vd_head v) = Inr (vd_changes v, vd_class v)"
    "runDecide libs (rc_subject cfg) (vd_class v) (vd_changes v) (vd_governance v) (vd_info v) (vd_facts v)
       (vd_approval v) (h_author (sn_heads (vd_snapshot v))) = Inr (vd_result v)"
    "buildRecord libs (vd_governance v) (vd_info v) (vd_snapshot v) resolvedAt (vd_result v) = Inr (vd_report v, vd_json v)"
proof -
  from assms obtain info sn w1 gv w2 governed base head w3 cs cls facts resolvedAt appr res rep json where
    h: "readHeads cfg client w = (Inr (info, sn), w1)"
    and g: "readGoverned cfg client w2 = (Inr (governed, base, head), w3)"
    and a: "assess libs cfg sn governed base head = Inr (cs, cls)"
    and d: "runDecide libs (rc_subject cfg) cls cs gv info facts appr (h_author (sn_heads sn)) = Inr res"
    and b: "buildRecord libs gv info sn resolvedAt res = Inr (rep, json)"
    and v: "v = \<lparr>vd_info = info, vd_snapshot = sn, vd_governance = gv, vd_head = head, vd_changes = cs, vd_class = cls,
            vd_facts = facts, vd_approval = appr, vd_result = res, vd_report = rep, vd_json = json\<rparr>"
    unfolding judge_def by (force simp: bindA_Inr_iff)
  have "h_source (sn_heads sn) = md_source info \<and> h_target (sn_heads sn) = md_target info"
    using h unfolding readHeads_def by (auto simp: bindA_Inr_iff split: if_splits)
  moreover have "rc_subject cfg = ''file:'' @ governed"
    using g unfolding readGoverned_def Let_def
    by (auto simp: bindA_Inr_iff trimPrefix_def prefix_def split: if_splits option.splits)
  ultimately show thesis using a d b v that by simp
qed

lemma map_err_Inr_iff [simp]: "map_err f r = Inr x \<longleftrightarrow> r = Inr x"
  by (cases r) (auto simp: map_err_def)

lemma Build_Inr:
  "Build res p = Inr rep \<Longrightarrow> re_decision (rep_record rep) = res_decision res
    \<and> rep_presentation rep = \<lparr>pm_apiVersion = ''assent.dev/v1alpha1'', pm_kind = ''PresentationModel'',
          pm_decision = res_decision res, pm_findings = toFindings (res_findings res)\<rparr>"
  by (auto simp: Build_def bind_res_Inr_iff)

lemma buildRecord_Inr:
  assumes "buildRecord libs gv info sn resolvedAt res = Inr (rep, json)"
  shows "rl_marshalRecord libs (rep_record rep) = Some json \<and> rl_recordValid libs json
    \<and> re_decision (rep_record rep) = res_decision res
    \<and> rep_presentation rep = \<lparr>pm_apiVersion = ''assent.dev/v1alpha1'', pm_kind = ''PresentationModel'',
          pm_decision = res_decision res, pm_findings = toFindings (res_findings res)\<rparr>"
proof -
  from assms obtain mr p where b: "Build res p = Inr rep"
    and m: "(case rl_marshalRecord libs (rep_record rep) of None \<Rightarrow> Inl MarshalFailed
       | Some j \<Rightarrow> if \<not> rl_recordValid libs j then Inl RecordSchema else Inr (rep, j)) = Inr (rep, json)"
    unfolding buildRecord_def bind_res_Inr_iff map_err_Inr_iff
    by (auto split: option.splits if_splits)
  from m have "rl_marshalRecord libs (rep_record rep) = Some json \<and> rl_recordValid libs json"
    by (auto split: option.splits if_splits)
  with Build_Inr [OF b] show ?thesis by blast
qed

subsection \<open>Classes and guards\<close>

lemma foldFiles_class:
  "foldFiles df co governed ps (cls, opq, rs) = Inr (cls', opq', rs') \<Longrightarrow>
   cls' = (if list_ex isPolicyPath ps then ClassAssentPolicy else cls)"
proof (induction ps arbitrary: cls opq rs)
  case (Cons p ps)
  then obtain acc where f: "foldFile df co governed p (cls, opq, rs) = Inr acc"
    and r: "foldFiles df co governed ps acc = Inr (cls', opq', rs')"
    by (auto simp: bind_res_Inr_iff)
  obtain cls1 opq1 rs1 where acc: "acc = (cls1, opq1, rs1)" by (cases acc) auto
  have "cls1 = (if isPolicyPath p then ClassAssentPolicy else cls)"
    using f by (auto simp: foldFile_def acc Let_def split: sum.splits prod.splits if_splits)
  with Cons.IH [OF r [unfolded acc]] show ?case by simp
qed auto

text \<open>The paths the run reads its class off: those of the forge, or of the checkout.\<close>

definition judgedPaths :: "runConfig \<Rightarrow> snapshot \<Rightarrow> string list" where
  "judgedPaths cfg sn =
     (case rc_checkout cfg of
        None \<Rightarrow> sn_changedFiles sn
      | Some ck \<Rightarrow> (case ChangedFiles (ck_sides ck) of Inl e \<Rightarrow> [] | Inr ps \<Rightarrow> ps))"

lemma assess_policy:
  assumes "assess libs cfg sn governed base head = Inr (cs, cls)" and "p \<in> set (judgedPaths cfg sn)" "isPolicyPath p"
  shows "cls = ClassAssentPolicy"
proof (cases "rc_checkout cfg")
  case None
  then have "cf_class (foldSnapshotPaths sn) = ClassAssentPolicy"
    using assms(2,3) by (auto simp: foldSnapshotPaths_def judgedPaths_def list_ex_iff)
  then show ?thesis using assms(1) None by (auto simp: assess_def applyFold_def Let_def)
next
  case (Some ck)
  then obtain ps where ps: "ChangedFiles (ck_sides ck) = Inr ps" "p \<in> set ps"
    using assms(2) by (cases "ChangedFiles (ck_sides ck)") (auto simp: judgedPaths_def)
  have "cf_class f = ClassAssentPolicy" if "foldCheckout (rl_differ libs) (ck_sides ck) governed = Inr f" for f
    using that ps assms(3) foldFiles_class
    by (fastforce simp: foldCheckout_def bind_res_Inr_iff list_ex_iff)
  then show ?thesis using assms(1) Some by (auto simp: assess_def applyFold_def Let_def split: sum.splits)
qed

lemma assess_opaque:
  assumes "assess libs cfg sn governed base head = Inr (cs, cls)" and "rc_checkout cfg = None" "\<not> sn_complete sn"
  shows "cs_opaque cs"
  using assms by (auto simp: assess_def applyFold_def foldSnapshotPaths_def EnumerationOpaqueReason_def Let_def)

lemma sanitize_keeps [simp]:
  "res_decision (sanitizeSubjects res fb) = res_decision res"
  "fd_code (sanitizeFinding fb f) = fd_code f" "fd_rule (sanitizeFinding fb f) = fd_rule f"
  "fd_effect (sanitizeFinding fb f) = fd_effect f"
  "res_findings (sanitizeSubjects res fb) = map (sanitizeFinding fb) (res_findings res)"
  by (auto simp: sanitizeSubjects_def sanitizeFinding_def)

lemma runDecide_reserved:
  assumes "runDecide libs subject ClassAssentPolicy cs gv info facts appr author = Inr res"
  shows "res_decision res = BLOCK" "reservedSelfEditBlock res"
  using assms by (auto simp: runDecide_def decide_def reservedClassBlock_def guardResult_def reservedSelfEditBlock_def)

lemma runDecide_approve:
  assumes "runDecide libs subject cls cs gv info facts appr author = Inr res" and "res_decision res = APPROVE"
  shows "cls \<noteq> ClassAssentPolicy" "\<not> cs_opaque cs" "cs_changes cs \<noteq> []" "b_require (gv_binding gv) \<noteq> []"
proof -
  have i: "in_changes (runInput cs mr rq fs) = map evalChangeOf (cs_changes cs)" for mr rq fs
    by (simp add: runInput_def BuildEvaluationInput_def Let_def)
  show "cls \<noteq> ClassAssentPolicy" "\<not> cs_opaque cs" "cs_changes cs \<noteq> []" "b_require (gv_binding gv) \<noteq> []"
    using assms
    by (auto simp: runDecide_def decide_def reservedClassBlock_def undecidableReview_def guardResult_def i
        split: if_splits sum.splits)
qed

subsection \<open>Emission\<close>

lemma emitRecord_forge: "emitRecord sys emit json w = (r, w') \<Longrightarrow> w_forge w' = w_forge w"
  by (auto simp: emitRecord_def writeStdout_def writeFile_def renameFile_def removeFile_def Let_def
      split: if_splits option.splits sum.splits prod.splits)

definition emitted :: "runConfig \<Rightarrow> string \<Rightarrow> 's world \<Rightarrow> 's world \<Rightarrow> bool" where
  "emitted cfg json w w' \<longleftrightarrow>
     (if rc_emit cfg = [] then prefix (w_out w @ [json @ [CHR 0x0A]]) (w_out w')
      else w_disk w' (rc_emit cfg) = Some json)"

lemma emitRecord_ok:
  "emitRecord sys (rc_emit cfg) json w = (Inr u, w') \<Longrightarrow> emitted cfg json w w'"
  by (auto simp: emitted_def emitRecord_def emitTempPath_def writeStdout_def writeFile_def renameFile_def Let_def
      split: if_splits option.splits)

lemma writeStdout_keeps: "snd (writeStdout sys b w) = w\<lparr>w_out := w_out (snd (writeStdout sys b w))\<rparr>"
    "prefix (w_out w) (w_out (snd (writeStdout sys b w)))"
  by (auto simp: writeStdout_def split: option.split)

lemma conclude_cases:
  assumes "conclude libs sys cfg client clock v w = (r, w')"
  obtains (halted) e where "r = Inl (EmitFailed e)" "w_forge w' = w_forge w"
    | (published) out s where "publish libs cfg client clock v (w_forge w) = (out, s)" "w_forge w' = s"
        "emitted cfg (vd_json v) w w'"
        "r = (case out of Some (rc, Some e) \<Rightarrow> if isFailClosed e then Inr () else Inl (ReconcileFailed e) | _ \<Rightarrow> Inr ())"
proof -
  obtain x w1 where e: "emitRecord sys (rc_emit cfg) (vd_json v) w = (x, w1)" by fastforce
  note f = emitRecord_forge [OF e]
  show thesis
  proof (cases x)
    case (Inl err)
    then show thesis using assms e f by (intro halted) (auto simp: conclude_def)
  next
    case (Inr u)
    obtain out s where p: "publish libs cfg client clock v (w_forge w1) = (out, s)" by fastforce
    have w': "w' = snd (writeStdout sys (summaryLine libs cfg v out @ [CHR 0x0A]) (w1\<lparr>w_forge := s\<rparr>))"
      using assms e Inr p by (auto simp: conclude_def Let_def split: option.splits prod.splits if_splits)
    have r: "r = (case out of Some (rc, Some e) \<Rightarrow> if isFailClosed e then Inr () else Inl (ReconcileFailed e) | _ \<Rightarrow> Inr ())"
      using assms e Inr p by (auto simp: conclude_def Let_def split: option.splits prod.splits if_splits)
    have "emitted cfg (vd_json v) w w1" using e Inr by (auto intro: emitRecord_ok)
    then have "emitted cfg (vd_json v) w w'"
      using w' writeStdout_keeps [where sys = sys and b = "summaryLine libs cfg v out @ [CHR 0x0A]" and w = "w1\<lparr>w_forge := s\<rparr>"]
      by (auto simp: emitted_def writeStdout_def dest: prefix_order.trans split: option.splits if_splits)
    moreover have "w_forge w' = s" using w' by (simp add: writeStdout_def split: option.splits)
    ultimately show thesis using p r f by (intro published) auto
  qed
qed

lemma publish_guarded:
  "reservedSelfEditBlock (vd_result v) \<or> untrustedExecutionContext (vd_snapshot v) \<Longrightarrow>
   publish libs cfg client clock v s = (None, s)"
  by (auto simp: publish_def)

context run_port
begin

lemma run_writes:
  assumes run: "orchestrate libs sys cfg client clock w = (r, w')" and new: "view (w_forge w') \<noteq> view (w_forge w)"
  obtains v w1 where "judge libs cfg client clock w = (Inr v, w1)"
    "rl_marshalRecord libs (rep_record (vd_report v)) = Some (vd_json v)" "rl_recordValid libs (vd_json v)"
    "emitted cfg (vd_json v) w w'" "\<not> reservedSelfEditBlock (vd_result v)" "\<not> h_fork (sn_heads (vd_snapshot v))"
    "r = Inr () \<or> (\<exists>e. r = Inl (ReconcileFailed e))"
proof -
  obtain x w1 where j: "judge libs cfg client clock w = (x, w1)" by fastforce
  note same = inertD [OF inert_judge j]
  obtain v where x: "x = Inr v" using run j new same by (cases x) (auto simp: orchestrate_def bindA_def)
  have c: "conclude libs sys cfg client clock v w1 = (r, w')" using run j x by (simp add: orchestrate_def bindA_def)
  from c show thesis
  proof (cases rule: conclude_cases)
    case (halted e)
    then show ?thesis using new same by simp
  next
    case (published out s)
    have g: "\<not> reservedSelfEditBlock (vd_result v)" "\<not> untrustedExecutionContext (vd_snapshot v)"
      using published new same publish_guarded [of v libs cfg client clock "w_forge w1"] by auto
    obtain resolvedAt where "buildRecord libs (vd_governance v) (vd_info v) (vd_snapshot v) resolvedAt (vd_result v)
        = Inr (vd_report v, vd_json v)"
      using judge_Inr [OF j [unfolded x]] by metis
    note b = buildRecord_Inr [OF this]
    have "emitted cfg (vd_json v) w w'" using published(3) same by (auto simp: emitted_def split: if_splits)
    moreover have "r = Inr () \<or> (\<exists>e. r = Inl (ReconcileFailed e))"
      using published(4) by (auto split: option.splits prod.splits if_splits)
    ultimately show ?thesis using that j x b g by (auto simp: untrustedExecutionContext_def)
  qed
qed

lemma run_policy_edit:
  assumes j: "judge libs cfg client clock w = (Inr v, w1)" and p: "p \<in> set (judgedPaths cfg (vd_snapshot v))" "isPolicyPath p"
    and run: "orchestrate libs sys cfg client clock w = (r, w')"
  shows "res_decision (vd_result v) = BLOCK \<and> view (w_forge w') = view (w_forge w)"
proof -
  obtain governed base where a: "assess libs cfg (vd_snapshot v) governed base (vd_head v) = Inr (vd_changes v, vd_class v)"
    and d: "runDecide libs (rc_subject cfg) (vd_class v) (vd_changes v) (vd_governance v) (vd_info v) (vd_facts v)
      (vd_approval v) (h_author (sn_heads (vd_snapshot v))) = Inr (vd_result v)"
    using judge_Inr [OF j] by metis
  have "vd_class v = ClassAssentPolicy" by (rule assess_policy [OF a p])
  note blk = runDecide_reserved [OF d [unfolded this]]
  have "view (w_forge w') = view (w_forge w)"
  proof (rule ccontr)
    assume "view (w_forge w') \<noteq> view (w_forge w)"
    from run_writes [OF run this] j blk(2) show False by auto
  qed
  with blk(1) show ?thesis ..
qed

end

subsection \<open>Merging\<close>

text \<open>
  A client that also meets the contract of the write side; the view shows what was merged.
\<close>

locale gated_run = run_port client view + forge_contract "rp_write client" wf threads heads approvals merges
  for client :: "'s runPort" and view :: "'s \<Rightarrow> 'v" and wf threads heads approvals merges +
  assumes view_wf: "view s = view t \<Longrightarrow> wf s \<longleftrightarrow> wf t"
    and view_merges: "view s = view t \<Longrightarrow> merges s = merges t"
begin

lemma publish_merges:
  assumes p: "publish libs cfg client clock v s = (out, s')" and w: "wf s" and new: "merges s' \<noteq> merges s"
  shows "\<exists>rc. out = Some (rc, None) \<and> \<not> reservedSelfEditBlock (vd_result v) \<and> \<not> untrustedExecutionContext (vd_snapshot v)
    \<and> res_decision (vd_result v) = APPROVE \<and> armEligibleAt libs v (clock s)
    \<and> h_digest (sn_heads (vd_snapshot v)) \<noteq> []
    \<and> heads s' = (md_source (vd_info v), md_target (vd_info v), h_digest (sn_heads (vd_snapshot v)))
    \<and> (\<exists>i. merges s' = merges s @ [i])"
proof -
  have g: "\<not> reservedSelfEditBlock (vd_result v)" "\<not> untrustedExecutionContext (vd_snapshot v)"
    using p new publish_guarded [of v libs cfg client clock s] by auto
  obtain d pre where b: "buildDesired libs cfg (vd_info v) (vd_head v) (vd_result v) (vd_json v) (armEligibleAt libs v (clock s))
      (rep_presentation (vd_report v)) (renderInputsOf v) (h_digest (sn_heads (vd_snapshot v))) = (d, pre)" by fastforce
  obtain rc err where r: "Reconcile (rp_write client) (\<lambda>t. wi_fmtTime (rl_wire libs) (clock t)) d pre s = ((rc, err), s')"
    and out: "out = Some (rc, err)"
  proof -
    obtain rc err t where e: "Reconcile (rp_write client) (\<lambda>t. wi_fmtTime (rl_wire libs) (clock t)) d pre s = ((rc, err), t)"
      by (metis prod.exhaust)
    with p g show thesis by (intro that) (auto simp: publish_def b)
  qed
  from reconcile_merges [OF w r new] have m: "err = None" "d_thread d = None" "d_approve d" "p_armEligible pre"
      "completeForMerge pre" "heads s' = (p_source pre, p_target pre, p_digest pre)" "\<exists>i. merges s' = merges s @ [i]"
    by auto
  have a: "res_decision (vd_result v) = APPROVE"
    using b m(2) by (auto simp: buildDesired_def Let_def split: if_splits)
  then have "pre = \<lparr>p_armEligible = armEligibleAt libs v (clock s), p_source = md_source (vd_info v),
      p_target = md_target (vd_info v), p_digest = h_digest (sn_heads (vd_snapshot v))\<rparr>"
    using b by (simp add: buildDesired_def Let_def)
  with m out g a show ?thesis by (simp add: completeForMerge_def)
qed

lemma run_merges:
  assumes w: "wf (w_forge w)" and run: "orchestrate libs sys cfg client clock w = (r, w')"
    and new: "merges (w_forge w') \<noteq> merges (w_forge w)"
  shows "\<exists>v w1. judge libs cfg client clock w = (Inr v, w1) \<and> r = Inr () \<and> emitted cfg (vd_json v) w w'
    \<and> res_decision (vd_result v) = APPROVE \<and> \<not> h_fork (sn_heads (vd_snapshot v)) \<and> \<not> cs_opaque (vd_changes v)
    \<and> list_all (\<lambda>p. \<not> isPolicyPath p) (judgedPaths cfg (vd_snapshot v))
    \<and> (rc_checkout cfg = None \<longrightarrow> sn_complete (vd_snapshot v))
    \<and> pp_armEligible (PreconditionFromReport (sn_capabilities (vd_snapshot v)))
    \<and> controllingFactsFreshAt (rl_parseTime libs) (Some (gv_policy (vd_governance v))) (vd_facts v) (clock (w_forge w1))
    \<and> h_digest (sn_heads (vd_snapshot v)) \<noteq> []
    \<and> heads (w_forge w') = (md_source (vd_info v), md_target (vd_info v), h_digest (sn_heads (vd_snapshot v)))
    \<and> (\<exists>i. merges (w_forge w') = merges (w_forge w) @ [i])"
proof -
  obtain x w1 where j: "judge libs cfg client clock w = (x, w1)" by fastforce
  note same = inertD [OF inert_judge j]
  have m1: "merges (w_forge w1) = merges (w_forge w)" "wf (w_forge w1)"
    using same w view_merges view_wf by blast+
  obtain v where x: "x = Inr v"
    using run j new m1 by (cases x) (auto simp: orchestrate_def bindA_def)
  have c: "conclude libs sys cfg client clock v w1 = (r, w')" using run j x by (simp add: orchestrate_def bindA_def)
  from c show ?thesis
  proof (cases rule: conclude_cases)
    case (halted e)
    then show ?thesis using new m1 by simp
  next
    case (published out s)
    have "merges s \<noteq> merges (w_forge w1)" using new m1 published by simp
    from publish_merges [OF published(1) m1(2) this] obtain rc i where p: "out = Some (rc, None)"
      "\<not> untrustedExecutionContext (vd_snapshot v)" "res_decision (vd_result v) = APPROVE"
      "armEligibleAt libs v (clock (w_forge w1))" "h_digest (sn_heads (vd_snapshot v)) \<noteq> []"
      "heads s = (md_source (vd_info v), md_target (vd_info v), h_digest (sn_heads (vd_snapshot v)))"
      "merges s = merges (w_forge w1) @ [i]" by auto
    obtain governed base resolvedAt where
      a: "assess libs cfg (vd_snapshot v) governed base (vd_head v) = Inr (vd_changes v, vd_class v)"
      and d: "runDecide libs (rc_subject cfg) (vd_class v) (vd_changes v) (vd_governance v) (vd_info v) (vd_facts v)
        (vd_approval v) (h_author (sn_heads (vd_snapshot v))) = Inr (vd_result v)"
      using judge_Inr [OF j [unfolded x]] by metis
    note approve = runDecide_approve [OF d p(3)]
    have "list_all (\<lambda>p. \<not> isPolicyPath p) (judgedPaths cfg (vd_snapshot v))"
      using assess_policy [OF a] approve(1) by (auto simp: list_all_iff)
    moreover have "rc_checkout cfg = None \<longrightarrow> sn_complete (vd_snapshot v)"
      using assess_opaque [OF a] approve(2) by blast
    moreover have "pp_armEligible (PreconditionFromReport (sn_capabilities (vd_snapshot v)))
        \<and> controllingFactsFreshAt (rl_parseTime libs) (Some (gv_policy (vd_governance v))) (vd_facts v) (clock (w_forge w1))"
      using p(3,4) by (auto simp: armEligibleAt_def split: if_splits)
    moreover have "emitted cfg (vd_json v) w w'" using published(3) same by (auto simp: emitted_def split: if_splits)
    moreover have "r = Inr ()" using published(4) p(1) by simp
    ultimately show ?thesis
      using j x p published m1 approve(2) by (simp add: untrustedExecutionContext_def)
  qed
qed

end

end
