(* ===== verification/FakeRun.thy ===== *)
theory FakeRun
  imports RunSafety ForgeProps
begin

text \<open>
  The in-memory forge as the port of a run (\<open>internal/forge/fake/runport.go\<close>), and the contract of
  the run discharged on it. Listing threads resets a counter of the fake; the view leaves it out.
\<close>

definition portErr :: "forge_error \<Rightarrow> port_error" where
  "portErr e = (case e of AdapterError t \<Rightarrow> PortError t | _ \<Rightarrow> PortError [])"

definition readErr :: "read_error \<Rightarrow> port_error" where
  "readErr e = (case e of Refused t \<Rightarrow> PortError t | NotFound path side \<Rightarrow> PortNotFound)"

definition fakeRun ::
    "(fakeForge \<Rightarrow> fakeForge) \<Rightarrow> (thread list \<Rightarrow> string + thread list) option \<Rightarrow> fakeForge runPort" where
  "fakeRun race relist =
     \<lparr>rp_write = fakePort race relist,
      rp_getMR = (\<lambda>_ _ s. (map_err portErr (fakeGetMR s), s)),
      rp_snapshot = (\<lambda>_ _ s. (map_err portErr (fst (fakeSnapshot relist s)), snd (fakeSnapshot relist s))),
      rp_resolve = (\<lambda>q s. (Inr (fakeResolve s q), s)),
      rp_fileAtRef = (\<lambda>_ path ref s. (map_err readErr (FileAtRef s path ref), s)),
      rp_fileAtBase = (\<lambda>_ _ path s. (map_err readErr (FileAtBase s path), s)),
      rp_fileAtHead = (\<lambda>_ _ path s. (map_err readErr (FileAtHead s path), s))\<rparr>"

definition fakeView :: "fakeForge \<Rightarrow> fakeForge" where
  "fakeView s = s\<lparr>fk_mutations := 0\<rparr>"

lemma fakeList_view: "fakeView (snd (fakeListBotThreads relist s)) = fakeView s"
  by (simp add: fakeListBotThreads_def fakeView_def split: option.split)

lemma fakeSnapshot_view: "fakeView (snd (fakeSnapshot relist s)) = fakeView s"
  using fakeList_view [of relist s]
  by (auto simp: fakeSnapshot_def thenIO_def split: option.split prod.splits sum.splits)

interpretation fake_run: run_port "fakeRun race relist" fakeView for race relist
  by unfold_locales (simp_all add: fakeRun_def fakeSnapshot_view)

abbreviation fakeR :: "(string \<times> string \<times> string \<Rightarrow> string \<times> string \<times> string) \<Rightarrow> fakeForge runPort" where
  "fakeR f \<equiv> fakeRun (moveHeads f) None"

lemma fakeR_write [simp]: "rp_write (fakeRun race relist) = fakePort race relist"
  by (simp add: fakeRun_def)

lemma fakeView_eq:
  "fakeView s = fakeView t \<Longrightarrow> fk_threads s = fk_threads t \<and> fk_seq s = fk_seq t \<and> fk_merges s = fk_merges t
     \<and> fk_notes s = fk_notes t \<and> fk_approvals s = fk_approvals t \<and> fk_bot s = fk_bot t \<and> headsOf s = headsOf t"
  by (cases s; cases t) (simp add: fakeView_def headsOf_def)

interpretation fake_gate: gated_run "fakeR f" fakeView freshIds botThreads headsOf fk_approvals fk_merges for f
proof (intro gated_run.intro fake_run.run_port_axioms gated_run_axioms.intro)
  show "forge_contract (rp_write (fakeR f)) freshIds botThreads headsOf fk_approvals fk_merges"
    using fake.forge_contract_axioms by simp
qed (frule fakeView_eq, simp add: freshIds_def)+

end
