(* ===== verification/RunProps.thy ===== *)
theory RunProps
  imports FakeRun EngineProps
begin

text \<open>
  The properties of a whole run.
\<close>

subsection \<open>An example run\<close>

text \<open>
  A merge request that adds \<open>topics.yaml\<close>; the policy asks for one obligation, proven by a rule
  on added files. The libraries are the simplest ones: documents decode to fixed values, the
  record marshals to \<open>record\<close>, and every digest is \<open>d\<close>.
\<close>

definition demo_add_rule :: rule where
  "demo_add_rule = (demo_rule ''r'' ''ok'' ''block'' 0)\<lparr>r_match :=
     \<lparr>m_files = None, m_values = None, m_fileEvents = Some \<lparr>fe_paths = [''topics.yaml''], fe_kinds = [''add'']\<rparr>, m_valueChanges = None\<rparr>\<rparr>"

definition demo_tools :: tools where
  "demo_tools = \<lparr>tl_parseDuration = (\<lambda>_. None), tl_yamlMapping = (\<lambda>_. Inr []), tl_yamlOwners = (\<lambda>_. None),
     tl_pathText = (\<lambda>_. []), tl_ageText = (\<lambda>_. [])\<rparr>"

definition demo_wire :: wire where
  "demo_wire = \<lparr>wi_decodeConfig = (\<lambda>_. None), wi_marshalQuery = (\<lambda>_. None), wi_encodeResponse = (\<lambda>_. None),
     wi_decodeResponse = (\<lambda>_. None), wi_validResponse = (\<lambda>_. False), wi_post = (\<lambda>_ _. Inl []),
     wi_spawn = (\<lambda>_ _ _ _. (None, [], [])),
     wi_host = \<lparr>ho_readFile = (\<lambda>_. Inl []), ho_sha256 = (\<lambda>_. []), ho_path = [], ho_environ = []\<rparr>,
     wi_tools = demo_tools, wi_transportText = (\<lambda>_. []), wi_ownerText = (\<lambda>_. []), wi_fmtTime = (\<lambda>_. ''t'')\<rparr>"

definition demo_libs :: "rule list \<Rightarrow> runLibs" where
  "demo_libs rs = \<lparr>rl_cel = demo_rt,
     rl_differ = \<lparr>df_parsers = undefined, df_text = (\<lambda>_. ''unreadable'')\<rparr>, rl_wire = demo_wire,
     rl_policyValid = (\<lambda>_. True), rl_policyDecode = (\<lambda>_. Some (demo_policy rs)),
     rl_bindingValid = (\<lambda>_. True), rl_bindingDecode = (\<lambda>_. Some [demo_binding]),
     rl_configValid = (\<lambda>_. True), rl_configDecode = (\<lambda>_. None), rl_packValid = (\<lambda>_. True), rl_packDecode = (\<lambda>_. None),
     rl_parseTime = (\<lambda>_. None), rl_sha = (\<lambda>_. ''d''), rl_marshalRecord = (\<lambda>_. Some ''record''),
     rl_recordValid = (\<lambda>_. True), rl_renderSummary = (\<lambda>_ _. Some ''summary''), rl_renderThread = (\<lambda>_ _ _. Some ''thread''),
     rl_quote = id, rl_errText = (\<lambda>_. []), rl_toolVersion = ''v'', rl_toolDigest = ''d''\<rparr>"

definition demo_cfg :: runConfig where
  "demo_cfg = \<lparr>rc_project = ''p'', rc_mr = ''1'', rc_policy = ''policy'', rc_binding = ''binding'',
     rc_subject = ''file:topics.yaml'', rc_config = [], rc_pack = [], rc_arm = False, rc_emit = [], rc_checkout = None\<rparr>"

definition demo_sys :: os where
  "demo_sys = \<lparr>os_writeFails = (\<lambda>_. None), os_renameFails = (\<lambda>_ _. None), os_removeFails = (\<lambda>_. False), os_stdoutFails = None\<rparr>"

definition demo_caps :: "string \<Rightarrow> capabilityReport" where
  "demo_caps st = Some (map (\<lambda>c. (c, \<lparr>ce_state = (if c = CapabilityThreadsBlockMerge then st else CapabilitySupported),
     ce_reason = []\<rparr>)) AllCapabilities)"

definition demo_files :: "string \<Rightarrow> string \<Rightarrow> string option" where
  "demo_files path side =
     (if side = ''t1'' \<and> path \<in> {''policy'', ''binding''} then Some ''doc''
      else if side = ''head'' \<and> path = ''topics.yaml'' then Some ''partitions: 1'' else None)"

definition demo_mr :: "string \<Rightarrow> string list \<Rightarrow> fakeForge" where
  "demo_mr st changed = (newFake ''assent-bot'' ''s1'' ''t1'' ''d1'')\<lparr>fk_files := demo_files, fk_changedFiles := changed,
     fk_capabilities := demo_caps st\<rparr>"

definition demo_world :: "string \<Rightarrow> string list \<Rightarrow> fakeForge world" where
  "demo_world st changed = \<lparr>w_forge = demo_mr st changed, w_out = [], w_disk = Map.empty\<rparr>"

definition demo_cs :: changeSet where
  "demo_cs = \<lparr>cs_changes = [FileEvent ''topics.yaml'' ''add''], cs_opaque = False, cs_reason = []\<rparr>"

definition demo_info :: mrMetadata where
  "demo_info = \<lparr>md_iid = [], md_project = [], md_sourceBranch = [], md_targetBranch = [],
      md_source = ''s1'', md_target = ''t1'', md_fork = False, md_sourceProject = [], md_labels = []\<rparr>"

definition demo_snap :: "string \<Rightarrow> string list \<Rightarrow> snapshot" where
  "demo_snap st changed = \<lparr>sn_heads = \<lparr>h_source = ''s1'', h_target = ''t1'', h_sourceBranch = [],
      h_targetBranch = [], h_digest = ''d1'', h_author = [], h_labels = [], h_fork = False\<rparr>,
      sn_changedFiles = sort changed, sn_capabilities = demo_caps st, sn_botThreads = [], sn_complete = True, sn_gap = []\<rparr>"

definition demo_gv :: governance where
  "demo_gv = \<lparr>gv_policyBytes = ''doc'', gv_policy = demo_policy [demo_add_rule], gv_binding = demo_binding,
      gv_config = None, gv_ceiling = PhaseEnforce\<rparr>"

lemma demo_cover:
  assumes "in_changes i = map evalChangeOf (cs_changes demo_cs)"
  shows "\<exists>res. cover demo_rt (Some (demo_policy [demo_add_rule])) (Some demo_binding) (Some i) appr PhaseEnforce = Inr res
    \<and> res_decision res = APPROVE"
proof -
  let ?c = "evalChangeOf (FileEvent ''topics.yaml'' ''add'')"
  have i: "in_changes i = [?c]" using assms by (simp add: demo_cs_def)
  have m: "matchChanges (r_match demo_add_rule) [?c] = Inr [?c]"
    by (simp add: matchChanges_def demo_add_rule_def fileEventSelects_def matchesAnyGlob_def globMatch_literal
        evalChangeOf_def FileEvent_def noChange_def)
  have l: "evalLeaf demo_rt i ch envl ''ok'' = Inr True" for ch envl
    by (simp add: evalLeaf_def demo_rt_def demo_eval_def guardErr_def newTextOrderGuard_def)
  obtain pv where pv: "r_prove demo_add_rule = Some pv" "pv_obligation pv = ''bounded-partitions''"
      "pv_when pv = AssertTree (Some \<lparr>lf_cel = ''ok'', lf_message = ''too many''\<rparr>) None None None"
    by (rule that [of "the (r_prove demo_add_rule)"]) (simp_all add: demo_add_rule_def demo_rule_def)
  have w: "fold subjStep (walkSubject c subj cs) subjInit = subjInit"
    if "cx_rt c = demo_rt" "cx_in c = i" "cx_prove c = pv" for c subj cs
    using that by (induction cs) (simp_all add: walkSubject_def walkAssertTree_def walkAssertTreeDepth.simps pv walkLeaf_def l)
  have st: "subjectStep rq PhaseEnforce c cs subj s = s"
    if "cx_rt c = demo_rt" "cx_in c = i" "cx_prove c = pv" for rq c cs subj s
    unfolding subjectStep_def coverSubject_def w [OF that] by (simp add: subjInit_def)
  have fs: "fold (subjectStep rq PhaseEnforce c cs) subjs s = s"
    if "cx_rt c = demo_rt" "cx_in c = i" "cx_prove c = pv" for rq c cs subjs s
    by (induction subjs) (simp_all add: st [OF that])
  have ph: "r_phase demo_add_rule = PhaseEnforce" by (simp add: demo_add_rule_def demo_rule_def)
  have r: "ruleStep demo_rt demo_binding i appr PhaseEnforce demo_add_rule coverInit
      = Inr (coverInit\<lparr>cs_covered := {''bounded-partitions''}\<rparr>)"
    by (simp add: ruleStep_def i m pv ph effectivePhase_def fs Let_def coverInit_def)
  have e: "rt_newEnv demo_rt v = None" for v by (simp add: demo_rt_def)
  show ?thesis
    by (simp add: cover_def e demo_policy_def r Let_def)
      (simp add: coverTail_def uncoveredStep_def deleteStep_def editLoop_def editStep_def
        requiredObligationCovered_def demo_binding_def i evalChangeOf_def FileEvent_def noChange_def coverInit_def
        riskDecision_def worse_def resultOf_def Let_def)
qed

lemma demo_heads:
  "readHeads demo_cfg (fakeR (\<lambda>h. h)) (demo_world st ch) = (Inr (demo_info, demo_snap st ch), demo_world st ch)"
proof -
  have gm: "fakeGetMR (demo_mr st ch) = Inr demo_info"
    by (simp add: fakeGetMR_def demo_mr_def newFake_def demo_info_def)
  have sn: "fakeSnapshot None (demo_mr st ch) = (Inr (demo_snap st ch), demo_mr st ch)"
    by (simp add: fakeSnapshot_def demo_mr_def newFake_def thenIO_def fakeListBotThreads_def botThreads_def fakeCapabilities_def
        capIsZero_def demo_caps_def demo_snap_def)
  show ?thesis
    by (simp add: readHeads_def bindA_def onForge_def fakeRun_def demo_world_def gm sn map_err_def)
      (simp add: demo_info_def demo_snap_def)
qed

lemma demo_governance:
  "loadGovernance (demo_libs [demo_add_rule]) demo_cfg (fakeR (\<lambda>h. h)) ''t1'' (demo_world st ch) = (Inr demo_gv, demo_world st ch)"
proof -
  have f: "FileAtRef (demo_mr st ch) p ''t1'' = Inr ''doc''" if "p = ''policy'' \<or> p = ''binding''" for p
    using that by (auto simp: FileAtRef_def readSide_def refused_def demo_mr_def newFake_def demo_files_def)
  show ?thesis
    by (simp add: loadGovernance_def bindA_def onForge_def fakeRun_def demo_world_def f map_err_def demo_cfg_def demo_libs_def
        loadMergePolicy_def loadDocument_def liftA_def okA_def selectBinding_def loadConfigStep_def loadPackStep_def demo_gv_def
        demo_policy_def demo_add_rule_def demo_rule_def fileEventKindEmittable_def)
qed

lemma demo_governed:
  "readGoverned demo_cfg (fakeR (\<lambda>h. h)) (demo_world st ch)
     = (Inr (''topics.yaml'', None, Some ''partitions: 1''), demo_world st ch)"
  by (simp add: readGoverned_def bindA_def fileAtBaseOrAbsent_def fileAtHeadOrAbsent_def orAbsent_def readA_def
      fakeRun_def demo_world_def FileAtBase_def FileAtHead_def readSide_def refused_def demo_mr_def newFake_def
      demo_files_def demo_cfg_def trimPrefix_def map_err_def readErr_def okA_def Let_def)

lemma bindA_step: "m w = (Inr a, v) \<Longrightarrow> k a v = r \<Longrightarrow> bindA m k w = r"
  by (simp add: bindA_def)

text \<open>The run up to the decision, which the class and the changes of the snapshot determine.\<close>

lemma demo_judge_with:
  assumes a: "assess (demo_libs [demo_add_rule]) demo_cfg (demo_snap st ch) ''topics.yaml'' None (Some ''partitions: 1'') = Inr (cs, cls)"
    and d: "\<And>appr. \<exists>res. runDecide (demo_libs [demo_add_rule]) ''file:topics.yaml'' cls cs demo_gv demo_info [] appr [] = Inr res \<and> P res"
  shows "\<exists>v. judge (demo_libs [demo_add_rule]) demo_cfg (fakeR (\<lambda>h. h)) (\<lambda>_. 0) (demo_world st ch) = (Inr v, demo_world st ch)
     \<and> P (vd_result v) \<and> vd_info v = demo_info \<and> vd_snapshot v = demo_snap st ch \<and> vd_facts v = []"
  (is "\<exists>v. judge ?libs demo_cfg ?c ?clock ?w = (Inr v, ?w) \<and> _")
proof -
  have fc: "wrapA ProvidersFailed (resolveRunFacts wi None cp ?c pr tr ck sb now) w = (Inr ([], []), w)" for wi cp pr tr ck sb now w
    by (simp add: wrapA_def resolveRunFacts_def okA_def)
  have "\<exists>appr. resolveRunApproval demo_cfg ?c demo_info (h_digest (sn_heads (demo_snap st ch)))
      (h_author (sn_heads (demo_snap st ch))) ?w = (Inr appr, ?w)"
    by (simp add: resolveRunApproval_def bindA_def onForge_def fakeRun_def demo_world_def fakeResolve_def WellFormed_def
        ResolveWithGap_def ResolveWithEvidence_def okA_def)
  then obtain appr where ap: "resolveRunApproval demo_cfg ?c demo_info (h_digest (sn_heads (demo_snap st ch)))
      (h_author (sn_heads (demo_snap st ch))) ?w = (Inr appr, ?w)" ..
  have subj: "rc_subject demo_cfg = ''file:topics.yaml''" by (simp add: demo_cfg_def)
  have au: "h_author (sn_heads (demo_snap st ch)) = []" by (simp add: demo_snap_def)
  obtain res where res: "runDecide ?libs ''file:topics.yaml'' cls cs demo_gv demo_info [] appr [] = Inr res" "P res"
    using d by blast
  have "\<exists>rep. buildRecord ?libs demo_gv demo_info (demo_snap st ch) [] res = Inr (rep, ''record'')"
    by (simp add: buildRecord_def mergeResultPin_def demo_snap_def demo_caps_def capState_def entryOf_def
        AllCapabilities_def PinnedMergeResult_def map_err_def Build_def marshalPins_def pinned_def demo_libs_def)
  then obtain rep where rep: "buildRecord ?libs demo_gv demo_info (demo_snap st ch) [] res = Inr (rep, ''record'')" ..
  have n: "nowA ?clock ?w = (Inr 0, ?w)" by (simp add: nowA_def)
  have cfgs: "gv_config demo_gv = None" "md_target demo_info = ''t1''" by (simp_all add: demo_gv_def demo_info_def)
  have "judge ?libs demo_cfg ?c ?clock ?w = (Inr \<lparr>vd_info = demo_info, vd_snapshot = demo_snap st ch, vd_governance = demo_gv,
      vd_head = Some ''partitions: 1'', vd_changes = cs, vd_class = cls, vd_facts = [], vd_approval = appr,
      vd_result = res, vd_report = rep, vd_json = ''record''\<rparr>, ?w)"
    unfolding judge_def
    apply (rule bindA_step, rule demo_heads, unfold prod.case cfgs)
    apply (rule bindA_step, rule demo_governance)
    apply (rule bindA_step, rule demo_governed, unfold prod.case)
    apply (rule bindA_step [where a = "(cs, cls)" and v = ?w])
     apply (simp only: a liftA_simps okA_def)
    apply (unfold prod.case)
    apply (rule bindA_step, rule n, unfold cfgs)
    apply (rule bindA_step, rule fc, unfold prod.case)
    apply (rule bindA_step, rule ap, unfold subj au)
    apply (rule bindA_step [where a = res and v = ?w])
     apply (simp only: res liftA_simps okA_def)
    apply (rule bindA_step [where a = "(rep, ''record'')" and v = ?w])
     apply (simp only: rep liftA_simps okA_def)
    apply (simp add: okA_def)
    done
  then show ?thesis using res(2) by auto
qed

lemma demo_approves:
  "\<exists>v. judge (demo_libs [demo_add_rule]) demo_cfg (fakeR (\<lambda>h. h)) (\<lambda>_. 0) (demo_world st []) = (Inr v, demo_world st [])
     \<and> res_decision (vd_result v) = APPROVE \<and> vd_info v = demo_info \<and> vd_snapshot v = demo_snap st [] \<and> vd_facts v = []"
proof (rule demo_judge_with [where P = "\<lambda>res. res_decision res = APPROVE"])
  show "assess (demo_libs [demo_add_rule]) demo_cfg (demo_snap st []) ''topics.yaml'' None (Some ''partitions: 1'')
      = Inr (demo_cs, ClassUnclassified)"
    by (simp add: assess_def demo_cfg_def changeSetForGoverned_def OneSidedLifecycle_def foldSnapshotPaths_def applyFold_def
        EnumerationOpaqueReason_def demo_cs_def demo_snap_def Classify_def FileEvent_def isPolicyPath_def trimPrefix_def Let_def)
next
  fix appr
  let ?i = "runInput demo_cs (mrFrom demo_info []) [''bounded-partitions''] []"
  have i: "in_changes ?i = map evalChangeOf (cs_changes demo_cs)" by (simp add: runInput_def BuildEvaluationInput_def)
  from demo_cover [OF i, of "Some appr"] obtain res where
    "cover demo_rt (Some (demo_policy [demo_add_rule])) (Some demo_binding) (Some ?i) (Some appr) PhaseEnforce = Inr res"
    "res_decision res = APPROVE" by blast
  then show "\<exists>res. runDecide (demo_libs [demo_add_rule]) ''file:topics.yaml'' ClassUnclassified demo_cs demo_gv demo_info [] appr []
      = Inr res \<and> res_decision res = APPROVE"
    by (simp add: runDecide_def decide_def i demo_gv_def coverWithProfile_def resolveProfile_def coveringProfiles_def
        demo_libs_def demo_binding_def demo_cs_def runInput_def BuildEvaluationInput_def Let_def)
qed

text \<open>The same merge request, also touching the policy directory.\<close>

lemma demo_blocks:
  "\<exists>v. judge (demo_libs [demo_add_rule]) demo_cfg (fakeR (\<lambda>h. h)) (\<lambda>_. 0) (demo_world st [''.assent/p''])
       = (Inr v, demo_world st [''.assent/p''])
     \<and> True \<and> vd_info v = demo_info \<and> vd_snapshot v = demo_snap st [''.assent/p''] \<and> vd_facts v = []"
proof (rule demo_judge_with [where P = "\<lambda>res. True"])
  show "assess (demo_libs [demo_add_rule]) demo_cfg (demo_snap st [''.assent/p'']) ''topics.yaml'' None (Some ''partitions: 1'')
      = Inr (demo_cs, ClassAssentPolicy)"
    by (simp add: assess_def demo_cfg_def changeSetForGoverned_def OneSidedLifecycle_def foldSnapshotPaths_def applyFold_def
        EnumerationOpaqueReason_def demo_cs_def demo_snap_def Classify_def FileEvent_def isPolicyPath_def trimPrefix_def Let_def)
next
  show "\<exists>res. runDecide (demo_libs [demo_add_rule]) ''file:topics.yaml'' ClassAssentPolicy demo_cs demo_gv demo_info [] appr []
      = Inr res \<and> True" for appr
    by (simp add: runDecide_def decide_def reservedClassBlock_def guardResult_def)
qed

lemma demo_arm: "armEligibleAt (demo_libs rs) v t \<longleftrightarrow> st = CapabilitySupported"
  if "vd_snapshot v = demo_snap st ch" "vd_facts v = []"
  using that by (simp add: armEligibleAt_def controllingFactsFreshAt_def PreconditionFromReport_arm ArmedBlocks_def demo_snap_def
      demo_caps_def capState_def entryOf_def AllCapabilities_def)

lemmas publish_defs = publish_def buildDesired_def untrustedExecutionContext_def buildSummaryMarker_def summaryBody_def
  Reconcile_def reconcilePathOf_def preamble_def runPath_def reconcileSummaryPreamble_def reconcileSummary_def
  reconcileApproveMerge_def completeForMerge_def thenIO_def retIO_def failIO_def wrapIO_def operationOf_def

lemmas fake_defs = fakeListBotNotes_def fakeUpsertComment_def fakeCurrentHeads_def moveHeads_def headsOf_def fakeApprove_def
  fakeMergeCAS_def updateNote.simps Envelope_def validateEnvelopeBody_def containsUnsafeCommentClose_def

lemma demo_publish:
  assumes "res_decision (vd_result v) = APPROVE" "vd_info v = demo_info" "vd_snapshot v = demo_snap st []" "vd_facts v = []"
  shows "\<exists>rc s. publish (demo_libs rs) demo_cfg (fakeR (\<lambda>h. h)) (\<lambda>_. 0) v (demo_mr st [])
      = (Some (rc, if st = CapabilitySupported then None else Some ErrArmingRefused), s)
    \<and> length (fk_merges s) = (if st = CapabilitySupported then 1 else 0)
    \<and> length (fk_notes s) = 1"
proof -
  have r: "\<not> reservedSelfEditBlock (vd_result v)" using assms(1) by (simp add: reservedSelfEditBlock_def)
  have l: "rl_renderSummary (demo_libs rs) pm ri = Some ''summary''" "rl_sha (demo_libs rs) x = ''d''"
      "wi_fmtTime (rl_wire (demo_libs rs)) n = ''t''" for pm ri x n
    by (simp_all add: demo_libs_def demo_wire_def)
  have i: "md_source demo_info = ''s1''" "md_target demo_info = ''t1''" by (simp_all add: demo_info_def)
  have s: "h_digest (sn_heads (demo_snap st ch)) = ''d1''" "h_fork (sn_heads (demo_snap st ch)) = False" for ch
    by (simp_all add: demo_snap_def)
  show ?thesis
    using assms r demo_arm [OF assms(3,4), of rs 0]
    by (simp add: publish_defs fake_defs l i s demo_cfg_def demo_mr_def newFake_def noteMutation_def Let_def)
qed

subsection \<open>The properties\<close>

lemma demo_run:
  "\<exists>r w'. orchestrate (demo_libs [demo_add_rule]) demo_sys demo_cfg (fakeR (\<lambda>h. h)) (\<lambda>_. 0) (demo_world ''supported'' []) = (r, w')
     \<and> length (fk_merges (w_forge w')) = 1"
proof -
  obtain v where j: "judge (demo_libs [demo_add_rule]) demo_cfg (fakeR (\<lambda>h. h)) (\<lambda>_. 0) (demo_world ''supported'' [])
      = (Inr v, demo_world ''supported'' [])"
    and v: "res_decision (vd_result v) = APPROVE" "vd_info v = demo_info" "vd_snapshot v = demo_snap ''supported'' []" "vd_facts v = []"
    using demo_approves by blast
  obtain rc s where p: "publish (demo_libs [demo_add_rule]) demo_cfg (fakeR (\<lambda>h. h)) (\<lambda>_. 0) v (demo_mr ''supported'' [])
      = (Some (rc, None), s)" and m: "length (fk_merges s) = 1"
    using demo_publish [OF v, of "[demo_add_rule]"] by auto
  have "rc_emit demo_cfg = []" by (simp add: demo_cfg_def)
  then show ?thesis
    using j p m by (simp add: orchestrate_def bindA_def conclude_def emitRecord_def writeStdout_def demo_sys_def demo_world_def)
qed

lemma demo_changed:
  "\<exists>r w'. orchestrate (demo_libs [demo_add_rule]) demo_sys demo_cfg (fakeR (\<lambda>h. h)) (\<lambda>_. 0) (demo_world ''supported'' []) = (r, w')
     \<and> fakeView (w_forge w') \<noteq> fakeView (w_forge (demo_world ''supported'' []))
     \<and> fk_merges (w_forge w') \<noteq> fk_merges (w_forge (demo_world ''supported'' []))"
proof -
  have z: "fk_merges (w_forge (demo_world ''supported'' [])) = []" by (simp add: demo_world_def demo_mr_def newFake_def)
  obtain r w' where o: "orchestrate (demo_libs [demo_add_rule]) demo_sys demo_cfg (fakeR (\<lambda>h. h)) (\<lambda>_. 0)
      (demo_world ''supported'' []) = (r, w')" "length (fk_merges (w_forge w')) = 1" using demo_run by blast
  then have d: "fk_merges (w_forge w') \<noteq> fk_merges (w_forge (demo_world ''supported'' []))" using z by auto
  then have "fakeView (w_forge w') \<noteq> fakeView (w_forge (demo_world ''supported'' []))" by (auto dest: fakeView_eq)
  with o d show ?thesis by blast
qed

text \<open>
  C2: on any forge whose read operations keep what \<open>view\<close> shows, a run that changed anything on the
  forge had reached a verdict, had emitted its marshalled and schema-valid record first, and was
  neither a self-edit block nor a fork; it reports success or the error of the reconciliation.
\<close>

theorem run_writes_after_record:
  assumes "run_port client view" and "orchestrate libs sys cfg client clock w = (r, w')"
    and "view (w_forge w') \<noteq> view (w_forge w)"
  shows "\<exists>v w1. judge libs cfg client clock w = (Inr v, w1)
    \<and> rl_marshalRecord libs (rep_record (vd_report v)) = Some (vd_json v) \<and> rl_recordValid libs (vd_json v)
    \<and> emitted cfg (vd_json v) w w' \<and> \<not> reservedSelfEditBlock (vd_result v) \<and> \<not> h_fork (sn_heads (vd_snapshot v))
    \<and> (r = Inr () \<or> (\<exists>e. r = Inl (ReconcileFailed e)))"
  by (rule run_port.run_writes [OF assms]) blast

theorem run_writes_after_record_witness:
  "\<exists>w' json. snd (orchestrate (demo_libs [demo_add_rule]) demo_sys demo_cfg (fakeR (\<lambda>h. h)) (\<lambda>_. 0) (demo_world ''supported'' [])) = w'
     \<and> length (fk_merges (w_forge w')) = 1 \<and> emitted demo_cfg json (demo_world ''supported'' []) w'"
proof -
  obtain r w' where o: "orchestrate (demo_libs [demo_add_rule]) demo_sys demo_cfg (fakeR (\<lambda>h. h)) (\<lambda>_. 0)
      (demo_world ''supported'' []) = (r, w')" "fakeView (w_forge w') \<noteq> fakeView (w_forge (demo_world ''supported'' []))"
    using demo_changed by blast
  from run_writes_after_record [OF fake_run.run_port_axioms o] obtain v :: verdict where
    "emitted demo_cfg (vd_json v) (demo_world ''supported'' []) w'" by auto
  then show ?thesis using o(1) demo_run by auto
qed

text \<open>
  a merge request that touches the policy directory is blocked, and the run leaves the forge as
  it was, whatever the policy, the pack, the providers and the approvals say. The paths are those
  of the checkout when there is one, otherwise those of the snapshot.
\<close>

theorem run_blocks_policy_edit:
  assumes "run_port client view" and "judge libs cfg client clock w = (Inr v, w1)"
    and "p \<in> set (judgedPaths cfg (vd_snapshot v))" "isPolicyPath p"
    and "orchestrate libs sys cfg client clock w = (r, w')"
  shows "res_decision (vd_result v) = BLOCK \<and> view (w_forge w') = view (w_forge w)"
  by (rule run_port.run_policy_edit [OF assms])

theorem run_blocks_policy_edit_witness:
  "\<exists>v w1. judge (demo_libs [demo_add_rule]) demo_cfg (fakeR (\<lambda>h. h)) (\<lambda>_. 0) (demo_world ''supported'' [''.assent/p'']) = (Inr v, w1)
     \<and> res_decision (vd_result v) = BLOCK"
proof -
  obtain v where j: "judge (demo_libs [demo_add_rule]) demo_cfg (fakeR (\<lambda>h. h)) (\<lambda>_. 0) (demo_world ''supported'' [''.assent/p''])
      = (Inr v, demo_world ''supported'' [''.assent/p''])" and s: "vd_snapshot v = demo_snap ''supported'' [''.assent/p'']"
    using demo_blocks by blast
  obtain r w' where o: "orchestrate (demo_libs [demo_add_rule]) demo_sys demo_cfg (fakeR (\<lambda>h. h)) (\<lambda>_. 0)
      (demo_world ''supported'' [''.assent/p'']) = (r, w')" by fastforce
  have "''.assent/p'' \<in> set (judgedPaths demo_cfg (vd_snapshot v))" "isPolicyPath ''.assent/p''"
    by (simp_all add: judgedPaths_def s demo_cfg_def demo_snap_def isPolicyPath_def trimPrefix_def)
  from run_blocks_policy_edit [OF fake_run.run_port_axioms j this o] j show ?thesis by blast
qed



text \<open>
  an approval that arming refuses still writes its summary. The refusal comes after the
  preamble: one note is created or rewritten, threads, approvals and merges stay, and the run
  reports the refusal with an empty list of operations.
\<close>

theorem refused_approval_comments:
  assumes "res_decision (vd_result v) = APPROVE" "\<not> h_fork (sn_heads (vd_snapshot v))"
    and "\<not> armEligibleAt libs v (clock s)"
    and "Envelope (buildSummaryMarker libs cfg (vd_json v)) (summaryBody libs (rep_presentation (vd_report v)) (renderInputsOf v)) = Inr full"
  shows "\<exists>rc s'. publish libs cfg (fakeR f) clock v s = (Some (rc, Some ErrArmingRefused), s')
    \<and> fk_noteCreates s' + fk_noteUpdates s' = Suc (fk_noteCreates s + fk_noteUpdates s)
    \<and> fk_threads s' = fk_threads s \<and> fk_approvals s' = fk_approvals s \<and> fk_merges s' = fk_merges s
    \<and> pr_operations rc = []"
proof -
  have g: "\<not> reservedSelfEditBlock (vd_result v)" "\<not> untrustedExecutionContext (vd_snapshot v)"
    using assms(1,2) by (simp_all add: reservedSelfEditBlock_def untrustedExecutionContext_def)
  have k: "a_kind (m_artifact (buildSummaryMarker libs cfg j)) = kindSummary" for j
    by (simp add: buildSummaryMarker_def Let_def)
  obtain n s' where u: "fakeUpsertComment (buildSummaryMarker libs cfg (vd_json v))
        (summaryBody libs (rep_presentation (vd_report v)) (renderInputsOf v)) s = (Inr n, s')"
    and same: "fk_noteCreates s' + fk_noteUpdates s' = Suc (fk_noteCreates s + fk_noteUpdates s)"
      "fk_threads s' = fk_threads s" "fk_approvals s' = fk_approvals s" "fk_merges s' = fk_merges s"
    using k assms(4) by (fastforce simp: fakeUpsertComment_def noteMutation_def Let_def split: option.splits prod.splits)
  have "publish libs cfg (fakeR f) clock v s
      = (Some (withWarnings (rp_write (fakeR f)) s' emptyReceipt, Some ErrArmingRefused), s')"
    using assms(1,3) g u
    by (simp add: publish_def buildDesired_def Let_def Reconcile_def reconcilePathOf_def preamble_def runPath_def
        reconcileSummaryPreamble_def reconcileSummary_def reconcileApproveMerge_def thenIO_def failIO_def wrapIO_def
        fakeListBotNotes_def operationOf_def k retIO_def)
  then show ?thesis using same by (simp add: withWarnings_def emptyReceipt_def)
qed

theorem refused_approval_comments_witness:
  "\<exists>v rc s'. res_decision (vd_result v) = APPROVE
     \<and> publish (demo_libs [demo_add_rule]) demo_cfg (fakeR (\<lambda>h. h)) (\<lambda>_. 0) v (demo_mr ''absent'' [])
         = (Some (rc, Some ErrArmingRefused), s') \<and> fk_noteCreates s' + fk_noteUpdates s' = 1"
proof -
  obtain v :: verdict where v: "res_decision (vd_result v) = APPROVE" "vd_snapshot v = demo_snap ''absent'' []" "vd_facts v = []"
    using demo_approves [of "''absent''"] by auto
  have a: "\<not> armEligibleAt (demo_libs [demo_add_rule]) v 0" using demo_arm [OF v(2,3)] by simp
  have f: "\<not> h_fork (sn_heads (vd_snapshot v))" by (simp add: v(2) demo_snap_def)
  have e: "\<exists>full. Envelope m (summaryBody (demo_libs [demo_add_rule]) pm ri) = Inr full" for m pm ri
    by (simp add: summaryBody_def demo_libs_def Envelope_def validateEnvelopeBody_def containsUnsafeCommentClose_def)
  then obtain full where "Envelope (buildSummaryMarker (demo_libs [demo_add_rule]) demo_cfg (vd_json v))
      (summaryBody (demo_libs [demo_add_rule]) (rep_presentation (vd_report v)) (renderInputsOf v)) = Inr full" by blast
  from refused_approval_comments [where clock = "\<lambda>_. 0" and s = "demo_mr ''absent'' []", OF v(1) f a this] v(1)
  show ?thesis by (fastforce simp: demo_mr_def newFake_def)
qed

text \<open>
  the thread can name another finding than its text explains. The marker takes the first
  finding of the engine's order, in which a missing obligation has the empty subject; the text
  takes the first of the record's order, computed after that subject became
  \<open>obligation:\<dots>\<close>. Any other finding whose subject sorts before that comes first there.
\<close>

theorem thread_names_other_finding:
  assumes "res_findings res = f # fs" "fd_subject f = []" "fd_obligation f \<noteq> []"
    and "g \<in> set fs" "fd_subject g \<noteq> []" "fd_subject g < ''obligation:'' @ fd_obligation f"
    and "Build (sanitizeSubjects res fb) p = Inr rep"
  shows "fst (snd (drivingFinding (sanitizeSubjects res fb))) = fd_rule f
    \<and> rf_subject (threadFinding (rep_presentation rep) (sanitizeSubjects res fb)) < ''obligation:'' @ fd_obligation f"
proof -
  let ?fs = "res_findings (sanitizeSubjects res fb)"
  have pm: "pm_findings (rep_presentation rep) = toFindings ?fs" using Build_Inr [OF assms(7)] by simp
  let ?g = "projectFinding (sanitizeFinding fb g)"
  have g: "?g \<in> set (toFindings ?fs)" "rf_subject ?g = fd_subject g"
    using assms(1,4,5) by (auto simp: toFindings_def sanitizeFinding_def projectFinding_def simp del: sort_key_simps)
  then obtain h hs where h: "toFindings ?fs = h # hs" by (cases "toFindings ?fs") auto
  have "sorted (map recordKey (toFindings ?fs))" unfolding toFindings_def by (rule sorted_sort_key)
  then have "recordKey h \<le> recordKey ?g" using g(1) h by (auto simp: sorted_simps)
  then have "rf_subject h \<le> fd_subject g" using g(2) by (auto simp: recordKey_def less_eq_prod_def)
  then show ?thesis
    using assms(1,6) pm h by (simp add: threadFinding_def drivingFinding_def sanitize_keeps)
qed

definition demo_failed :: finding where
  "demo_failed = \<lparr>fd_rule = ''r'', fd_obligation = ''size'', fd_effect = EffectRequireReview,
     fd_subject = ''file:a'', fd_points = 0, fd_code = ''r.failed'', fd_message = []\<rparr>"

definition demo_review_result :: result where
  "demo_review_result = resultOf (uncoveredStep ''owner'' (escalate demo_failed coverInit))"

theorem thread_names_other_finding_witness:
  "\<exists>rep :: report. fst (snd (drivingFinding (sanitizeSubjects demo_review_result []))) = ''aggregate.uncovered''
     \<and> rf_subject (threadFinding (rep_presentation rep) (sanitizeSubjects demo_review_result [])) < ''obligation:owner''"
proof -
  let ?f = "synthetic ''aggregate.uncovered'' ''owner'' [] ''obligation.uncovered''"
  let ?p = "\<lparr>pn_toolVersion = [], pn_toolDigest = [], pn_policySha = [], pn_source = [], pn_target = [],
      pn_mergeResult = SkeletonMergeGap, pn_factsResolvedAt = None\<rparr>"
  have lt: "fd_subject demo_failed < ''obligation:'' @ fd_obligation ?f"
    by (simp add: demo_failed_def synthetic_def list_less_def less_char_def)
  have fs: "res_findings demo_review_result = [?f, demo_failed]"
    by (simp add: demo_review_result_def resultOf_def uncoveredStep_def escalate_def coverInit_def sortFindings_def
        findingKey_def demo_failed_def synthetic_def)
  have "\<exists>rep. Build (sanitizeSubjects demo_review_result []) ?p = Inr rep"
    by (simp add: Build_def marshalPins_def SkeletonMergeGap_def MergeResultGap_def pinned_def)
  then obtain rep where "Build (sanitizeSubjects demo_review_result []) ?p = Inr rep" ..
  from thread_names_other_finding [OF fs _ _ _ _ lt this] show ?thesis
    by (auto simp: synthetic_def demo_failed_def)
qed

end
