(* ===== verification/ProviderProps.thy ===== *)
theory ProviderProps
  imports Builtin Transport
begin

text \<open>
  Fact providers: which answers become resolved facts, how old a fact may be declared to get, what
  an exec provider is started with, how much of its output is read, and what the repo-file
  provider may read.
\<close>

subsection \<open>Resolution\<close>





definition demo_decl :: factDecl where
  "demo_decl = \<lparr>dc_type = ''string'', dc_cardinality = ''single'', dc_subject = ''repo'', dc_sensitive = False, dc_maxAge = ''1h''\<rparr>"





subsection \<open>Ages\<close>

lemma outputAges_None: "outputAges pd nm ds = None \<longleftrightarrow> (\<forall>(out, d) \<in> set ds. ValidateDeclarationMaxAge pd d = None)"
  by (induction ds) (auto split: option.splits)

text \<open>
  no accepted declaration lets a fact grow old. In a configuration that loads every output
  declares a positive age within the ceiling of its kind: fifteen minutes when it is sensitive,
  otherwise one hour for principals and booleans and a day for strings and integers; no other type
  is accepted.
\<close>

theorem declared_age_bounded:
  assumes "LoadProviderConfig decode pd raw = Inr cfg" and "(out, d) \<in> set (pc_outputs cfg)"
  shows "\<exists>a. pd (dc_maxAge d) = Some a \<and> 0 < a \<and> knownDeclarationType (dc_type d)
    \<and> a \<le> (if dc_sensitive d then 900 * 10 ^ 9
           else if dc_type d = ''principal'' \<or> dc_type d = ''boolean'' then 3600 * 10 ^ 9 else 86400 * 10 ^ 9)"
proof -
  have "outputAges pd (pc_name cfg) (pc_outputs cfg) = None"
    using assms(1) by (auto simp: LoadProviderConfig_def split: option.splits if_splits)
  then have "ValidateDeclarationMaxAge pd d = None" using assms(2) by (auto simp: outputAges_None)
  then show ?thesis
    by (auto simp: ValidateDeclarationMaxAge_def MaxAgeCeiling_def knownDeclarationType_def age_defs Let_def
        split: option.splits if_splits)
qed

definition demo_load :: "string \<Rightarrow> provConfig option" where
  "demo_load raw = Some \<lparr>pc_name = ''x'', pc_pointers = [], pc_fullContent = False, pc_capabilities = [],
     pc_outputs = [(''tier'', demo_decl)], pc_exec = None, pc_repoFile = None, pc_resourceOwner = None\<rparr>"

theorem declared_age_bounded_witness:
  "\<exists>a. (\<lambda>s :: string. Some (hourNs :: int)) ''1h'' = Some a \<and> 0 < a \<and> a \<le> 86400 * 10 ^ 9"
proof -
  have l: "LoadProviderConfig demo_load (\<lambda>s. Some hourNs) [] = Inr (the (demo_load []))"
    by (simp add: LoadProviderConfig_def demo_load_def demo_decl_def ValidateDeclarationMaxAge_def knownDeclarationType_def
        MaxAgeCeiling_def age_defs Let_def)
  have d: "(''tier'', demo_decl) \<in> set (pc_outputs (the (demo_load [])))" by (simp add: demo_load_def)
  from declared_age_bounded [OF l d] show ?thesis by (simp add: demo_decl_def split: if_splits)
qed

subsection \<open>The exec transport\<close>






text \<open>
  reading a child's output is bounded and exact. However the child splits what it writes, the
  capture gives what one bounded read of the whole output gives: all of it when it fits the limit,
  and otherwise an error, never a truncated answer.
\<close>

theorem capture_is_bounded_read:
  "bytesOrError (captureAll ps (newBoundedCapture n)) =
     (if length (concat ps) \<le> n then Inr (concat ps) else Inl (OverLimit n))
   \<and> length (bc_buf (captureAll ps (newBoundedCapture n))) \<le> n + 1"
proof
  show "bytesOrError (captureAll ps (newBoundedCapture n))
      = (if length (concat ps) \<le> n then Inr (concat ps) else Inl (OverLimit n))"
    by (simp add: capture_readBounded) (simp add: readBounded_def Let_def)
  show "length (bc_buf (captureAll ps (newBoundedCapture n))) \<le> n + 1"
    using captureAll_buf [of "newBoundedCapture n" ps] by (simp add: newBoundedCapture_def)
qed

subsection \<open>The repo-file provider\<close>






end
