(* ===== verification/CheckoutProps.thy ===== *)
theory CheckoutProps
  imports Checkout
begin

text \<open>
  The checkout gate: what the walk over the two sides guarantees, that reading one file agrees with
  it, and the files it overlooks.
\<close>

subsection \<open>The walk\<close>

fun noLinks :: "node \<Rightarrow> bool" and noLinksDir :: "(string \<times> node) list \<Rightarrow> bool" where
  "noLinks Symlink = False"
| "noLinks (Irregular r) = False"
| "noLinks (Regular r) = (\<exists>b. r = Inr b)"
| "noLinks (Directory (Inl e)) = False"
| "noLinks (Directory (Inr es)) = noLinksDir es"
| "noLinksDir [] = True"
| "noLinksDir ((n, x) # es) = (noLinks x \<and> noLinksDir es)"


lemma walk_noLinks:
  "walkEntry p x = Inr fs \<Longrightarrow> noLinks x"
  "walkDir p es = Inr gs \<Longrightarrow> noLinksDir es"
  by (induction p x and p es arbitrary: fs and gs rule: walkEntry_walkDir.induct) (auto simp: bind_res_Inr_iff split: sum.splits)

lemma noLinks_walk:
  "noLinks x \<Longrightarrow> \<exists>fs. walkEntry p x = Inr fs"
  "noLinksDir es \<Longrightarrow> \<exists>fs. walkDir p es = Inr fs"
  by (induction p x and p es rule: walkEntry_walkDir.induct) (auto simp: bind_res_Inr_iff)


text \<open>Names as a directory has them: no two alike, none empty, no dots, no slash.\<close>

definition okName :: "string \<Rightarrow> bool" where
  "okName c \<longleftrightarrow> c \<noteq> [] \<and> c \<noteq> ''.'' \<and> c \<noteq> ''..'' \<and> CHR ''/'' \<notin> set c"

fun okNode :: "node \<Rightarrow> bool" and okDir :: "(string \<times> node) list \<Rightarrow> bool" where
  "okNode (Directory (Inr es)) = okDir es"
| "okNode _ = True"
| "okDir [] = True"
| "okDir ((n, x) # es) = (okName n \<and> n \<notin> fst ` set es \<and> okNode x \<and> okDir es)"

definition okSide :: "side \<Rightarrow> bool" where
  "okSide sd \<longleftrightarrow> (case sd of OpenSide (Inr es) \<Rightarrow> okDir es | _ \<Rightarrow> True)"

lemma walk_keys:
  "walkEntry p x = Inr fs \<Longrightarrow> okNode x \<Longrightarrow> (k, b) \<in> set fs \<Longrightarrow> \<exists>cs. k = p @ cs \<and> list_all okName cs"
  "walkDir p es = Inr gs \<Longrightarrow> okDir es \<Longrightarrow> (k, b) \<in> set gs \<Longrightarrow> \<exists>n cs. k = p @ n # cs \<and> n \<in> fst ` set es \<and> list_all okName (n # cs)"
proof (induction p x and p es arbitrary: fs and gs rule: walkEntry_walkDir.induct)
  case (7 p n x es)
  then obtain fs gs' where f: "walkEntry (p @ [n]) x = Inr fs" "walkDir p es = Inr gs'" "gs = fs @ gs'"
    by (auto simp: bind_res_Inr_iff)
  show ?case
  proof (cases "(k, b) \<in> set fs")
    case True
    then show ?thesis using 7(1) [OF f(1)] 7(4) by force
  next
    case False
    then show ?thesis using 7(2) [OF f(2)] 7(4,5) f(3) by force
  qed
qed (force split: sum.splits)+

lemma walk_lookup:
  assumes "walkDir p es = Inr fs" "okDir es"
  shows "map_of fs (p @ c # cs) =
    (case map_of es c of None \<Rightarrow> None
     | Some x \<Rightarrow> (case walkEntry (p @ [c]) x of Inl e \<Rightarrow> None | Inr gs \<Rightarrow> map_of gs (p @ c # cs)))"
  using assms
proof (induction es arbitrary: fs)
  case (Cons nx es)
  obtain n x where nx: "nx = (n, x)" by fastforce
  then obtain gs hs where f: "walkEntry (p @ [n]) x = Inr gs" "walkDir p es = Inr hs" "fs = gs @ hs"
    using Cons.prems(1) by (auto simp: bind_res_Inr_iff)
  have ok: "okNode x" "okDir es" "n \<notin> fst ` set es" using Cons.prems(2) nx by auto
  note keys = walk_keys(1) [OF f(1) ok(1)] walk_keys(2) [OF f(2) ok(2)]
  have hs: "map_of hs (p @ n # cs') = None" for cs'
    using keys(2) ok(3) by (force simp: map_of_eq_None_iff)
  have gs: "map_of gs (p @ c # cs') = None" if "c \<noteq> n" for cs'
    using keys(1) that by (force simp: map_of_eq_None_iff)
  show ?case
  proof (cases "c = n")
    case True
    then show ?thesis using f nx hs by (simp add: map_add_def split: option.split)
  next
    case False
    then show ?thesis using f nx gs Cons.IH [OF f(2) ok(2)] by (simp add: map_add_def split: option.split)
  qed
qed simp

lemma read_agrees_below:
  "walkDir p es = Inr fs \<Longrightarrow> okDir es \<Longrightarrow> readBelow q (c # cs) (Inr es) = Inr x \<Longrightarrow> x = map_of fs (p @ c # cs)"
proof (induction cs arbitrary: c p q es fs)
  case Nil
  show ?case
  proof (cases "map_of es c")
    case None
    then show ?thesis using Nil walk_lookup [OF Nil(1,2)] by simp
  next
    case (Some y)
    with Nil obtain r b where "y = Regular r \<or> y = Irregular r" "r = Inr b" "x = Some b"
      by (cases y) (auto split: sum.splits)
    moreover have "noLinksDir es" using walk_noLinks(2) [OF Nil(1)] .
    then have "noLinks y" using Some by (induction es) (auto split: if_splits)
    ultimately show ?thesis using Some walk_lookup [OF Nil(1,2), of c "[]"] by auto
  qed
next
  case (Cons c' cs)
  show ?case
  proof (cases "map_of es c")
    case None
    then show ?thesis using Cons.prems walk_lookup [OF Cons.prems(1,2)] by simp
  next
    case (Some y)
    with Cons.prems(3) obtain d where d: "y = Directory d" "readBelow (q @ [c]) (c' # cs) d = Inr x"
      by (cases y) (auto simp del: readBelow.simps(3) simp: readBelow.simps(3) [where c = c])
    then obtain es' where y: "y = Directory (Inr es')" "readBelow (q @ [c]) (c' # cs) (Inr es') = Inr x"
      by (cases d) auto
    have "noLinks y" using Some walk_noLinks(2) [OF Cons.prems(1)] by (induction es) (auto split: if_splits)
    then obtain gs where gs: "walkDir (p @ [c]) es' = Inr gs" using y(1) noLinks_walk(2) by fastforce
    have "okDir es'" using Some Cons.prems(2) y(1) by (induction es) (auto split: if_splits)
    from Cons.IH [OF gs this y(2)] show ?thesis
      using Some y(1) gs walk_lookup [OF Cons.prems(1,2), of c "c' # cs"] by simp
  qed
qed

subsection \<open>Clean names\<close>

lemma okName_slash: "list_all okName cs \<Longrightarrow> \<forall>c \<in> set cs. CHR ''/'' \<notin> set c"
  by (auto simp: list_all_iff okName_def)

lemma split_slashed: "cs \<noteq> [] \<Longrightarrow> list_all okName cs \<Longrightarrow> splitOn (CHR ''/'') (slashed cs) = cs"
  unfolding slashed_def by (intro splitOn_joinOn okName_slash)

lemma slashed_inj: "cs \<noteq> [] \<Longrightarrow> ds \<noteq> [] \<Longrightarrow> list_all okName cs \<Longrightarrow> list_all okName ds \<Longrightarrow> slashed cs = slashed ds \<longleftrightarrow> cs = ds"
  using split_slashed by metis

lemma slashed_head: "cs \<noteq> [] \<Longrightarrow> list_all okName cs \<Longrightarrow> slashed cs \<noteq> [] \<and> hd (slashed cs) \<noteq> CHR ''/''"
proof -
  assume "cs \<noteq> []" "list_all okName cs"
  then obtain c cs' where c: "cs = c # cs'" "okName c" by (cases cs) auto
  then obtain a as where a: "c = a # as" "a \<noteq> CHR ''/''" by (cases c) (auto simp: okName_def)
  have "\<exists>t. slashed cs = c @ t" using c(1) by (cases cs') (auto simp: slashed_def)
  then show ?thesis using a by auto
qed

lemma clean_steps: "list_all okName cs \<Longrightarrow> fold (cleanStep r) cs acc = acc @ cs"
  by (induction cs arbitrary: acc) (auto simp: okName_def)

lemma checkoutName_slashed:
  assumes "cs \<noteq> []" "list_all okName cs"
  shows "checkoutName (slashed cs) = slashed cs"
proof -
  have h: "\<not> hasPrefix (slashed cs) ''/''" using slashed_head [OF assms] by (cases "slashed cs") auto
  moreover have "joinOn ''/'' cs = slashed cs" by (simp add: slashed_def)
  ultimately have "pathClean (slashed cs) = slashed cs"
    using assms split_slashed [OF assms] slashed_head [OF assms] by (simp add: pathClean_def clean_steps Let_def)
  then show ?thesis using h by (simp add: checkoutName_def trimPrefix_def)
qed

subsection \<open>The properties\<close>

text \<open>
  listing and reading a checkout agree. When a side has been walked, reading any path of it by
  its components gives, whenever the read succeeds, the bytes the walk collected for that path, and
  nothing exactly when the walk collected nothing.
\<close>

theorem checkout_read_agrees:
  assumes "collectTree sd = Inr files" "okSide sd" and "cs \<noteq> []" "list_all okName cs"
    and "readIfPresent sd (slashed cs) = Inr x"
  shows "x = map_of files (slashed cs)"
proof (cases sd)
  case AbsentSide
  then show ?thesis using assms by (auto simp: collectTree_def readIfPresent_def Let_def split: if_splits)
next
  case (BrokenSide e)
  then show ?thesis using assms(1) by (simp add: collectTree_def)
next
  case (OpenSide d)
  with assms(1) obtain es fs where d: "d = Inr es" and w: "walkDir [] es = Inr fs"
    and files: "files = map (\<lambda>(p, b). (slashed p, b)) fs"
    by (auto simp: collectTree_def collectFS_def bind_res_Inr_iff split: sum.splits)
  have ok: "okDir es" using assms(2) OpenSide d by (simp add: okSide_def)
  obtain c cs' where c: "cs = c # cs'" using assms(3) by (cases cs) auto
  have r: "readBelow [] (c # cs') (Inr es) = Inr x"
    using assms(5) OpenSide d c split_slashed [OF assms(3,4)] checkoutName_slashed [OF assms(3,4)]
    by (auto simp: readIfPresent_def Let_def split: if_splits)
  from read_agrees_below [OF w ok r] have x: "x = map_of fs cs" by (simp add: c)
  have keys: "k \<noteq> [] \<and> list_all okName k" if "k \<in> fst ` set fs" for k
    using that walk_keys(2) [OF w ok] by fastforce
  have inj: "inj_on slashed (insert cs (fst ` set fs))"
  proof (rule inj_onI)
    fix a b assume "a \<in> insert cs (fst ` set fs)" "b \<in> insert cs (fst ` set fs)" "slashed a = slashed b"
    then show "a = b" using assms(3,4) keys slashed_inj by (metis insert_iff)
  qed
  then have "map_of (map (\<lambda>(p, b). (slashed p, b)) fs) (slashed cs) = map_of fs cs"
  proof (induction fs)
    case (Cons f fs)
    obtain k b where f: "f = (k, b)" by fastforce
    have "inj_on slashed (insert cs (fst ` set fs))" by (rule inj_on_subset [OF Cons.prems]) auto
    moreover have "slashed k = slashed cs \<longleftrightarrow> k = cs" using Cons.prems f by (auto simp: inj_on_def)
    ultimately show ?case using Cons.IH f by auto
  qed simp
  then show ?thesis using x files by simp
qed

definition demo_side :: side where
  "demo_side = OpenSide (Inr [(''a'', Directory (Inr [(''b'', Regular (Inr ''x''))]))])"

theorem checkout_read_agrees_witness:
  "\<exists>x. readIfPresent demo_side ''a/b'' = Inr x \<and> x = map_of [(''a/b'', ''x'')] ''a/b''"
proof -
  have c: "collectTree demo_side = Inr [(''a/b'', ''x'')]"
    by (simp add: demo_side_def collectTree_def collectFS_def slashed_def)
  have n: "okSide demo_side" "[''a'', ''b''] \<noteq> []" "list_all okName [''a'', ''b'']" "slashed [''a'', ''b''] = ''a/b''"
    by (simp_all add: okSide_def okName_def demo_side_def slashed_def)
  have v: "validPath ''a/b''" by code_simp
  have "readIfPresent demo_side ''a/b'' = Inr (Some ''x'')"
    using checkoutName_slashed [OF n(2,3)] v n(4) by (simp add: readIfPresent_def demo_side_def Let_def)
  with checkout_read_agrees [OF c n(1-3), of "Some ''x''"] n(4) show ?thesis by simp
qed


text \<open>
  the gate overlooks empty files. Absent and empty compare equal, so a checkout that adds an
  empty file to the policy directory has no changed file, and the fold over it leaves the merge
  request unclassified.
\<close>

theorem empty_policy_file_overlooked:
  "isPolicyPath (slashed [''.assent'', n])
   \<and> ChangedFiles \<lparr>dc_base = OpenSide (Inr []), dc_head = OpenSide (Inr [(''.assent'', Directory (Inr [(n, Regular (Inr []))]))])\<rparr> = Inr []
   \<and> foldCheckout df \<lparr>dc_base = OpenSide (Inr []), dc_head = OpenSide (Inr [(''.assent'', Directory (Inr [(n, Regular (Inr []))]))])\<rparr> governed
       = Inr \<lparr>cf_class = ClassUnclassified, cf_opaque = False, cf_reason = []\<rparr>"
  by (simp add: ChangedFiles_def collectTree_def collectFS_def slashed_def bytesAt_def foldCheckout_def isPolicyPath_def trimPrefix_def)

end
