(* ===== verification/JsonDecode.thy ===== *)
theory JsonDecode
  imports Envelope Transport
begin

text \<open>
  \<open>encoding/json\<close> as the forge adapters use it: \<open>json.Unmarshal\<close> of a whole document, the compact
  rendering \<open>json.Marshal\<close> gives back, and the decoding of an object into the fields of a struct.
  A member name matches a field in any case (\<open>foldName\<close>); a repeated member overwrites the earlier
  one, except that \<open>null\<close> leaves a scalar alone and objects are merged; a value of the wrong type is
  an error of the whole call.
\<close>

subsection \<open>Documents\<close>

datatype jval = JsNull | JsBool bool | JsNum string | JsStr string
  | JsArr "jval list" | JsObj "(string \<times> jval) list"

definition skipWs :: "string \<Rightarrow> string" where
  "skipWs s = dropWhile isJsonSpace s"

lemma length_skipWs: "length (skipWs s) \<le> length s"
  by (simp add: skipWs_def length_dropWhile_le)

text \<open>A string literal after its opening quote: the text up to and with the closing one, and the rest.\<close>

fun splitLit :: "string \<Rightarrow> (string \<times> string) option" where
  "splitLit [] = None"
| "splitLit (c # s) =
     (if c = CHR 0x22 then Some ([c], s)
      else if c = CHR 0x5C then
        (case s of [] \<Rightarrow> None | e # t \<Rightarrow> map_option (\<lambda>(l, r). (c # e # l, r)) (splitLit t))
      else map_option (\<lambda>(l, r). (c # l, r)) (splitLit s))"

lemma splitLit_length: "splitLit s = Some (l, r) \<Longrightarrow> length r < length s"
proof (induction s arbitrary: l r rule: splitLit.induct)
  case (2 c s)
  then show ?case by (fastforce split: if_splits list.splits)
qed simp

definition readString :: "string \<Rightarrow> (string \<times> string) option" where
  "readString s = (case splitLit s of None \<Rightarrow> None
     | Some (l, r) \<Rightarrow> (case unquoteBody l of None \<Rightarrow> None | Some v \<Rightarrow> Some (v, r)))"

lemma readString_length: "readString s = Some (v, r) \<Longrightarrow> length r < length s"
  by (auto simp: readString_def dest: splitLit_length split: option.splits)

text \<open>The number grammar: sign, integer part without leading zeros, fraction, exponent.\<close>

definition intPart :: "string \<Rightarrow> string option" where
  "intPart s = (case s of [] \<Rightarrow> None
     | c # t \<Rightarrow> if c = CHR ''0'' then Some t else if is_digit c then Some (dropWhile is_digit t) else None)"

definition digits1 :: "string \<Rightarrow> string option" where
  "digits1 s = (case s of [] \<Rightarrow> None | c # t \<Rightarrow> if is_digit c then Some (dropWhile is_digit t) else None)"

definition fracPart :: "string \<Rightarrow> string option" where
  "fracPart s = (case s of c # t \<Rightarrow> if c = CHR ''.'' then digits1 t else Some s | [] \<Rightarrow> Some [])"

definition expPart :: "string \<Rightarrow> string option" where
  "expPart s = (case s of
       c # t \<Rightarrow> if c = CHR ''e'' \<or> c = CHR ''E''
         then digits1 (case t of d # u \<Rightarrow> if d = CHR ''+'' \<or> d = CHR ''-'' then u else t | [] \<Rightarrow> [])
         else Some s
     | [] \<Rightarrow> Some [])"

definition validNumber :: "string \<Rightarrow> bool" where
  "validNumber s =
     (let u = (case s of c # t \<Rightarrow> if c = CHR ''-'' then t else s | [] \<Rightarrow> []) in
      case intPart u of None \<Rightarrow> False | Some a \<Rightarrow>
      case fracPart a of None \<Rightarrow> False | Some b \<Rightarrow>
      case expPart b of None \<Rightarrow> False | Some r \<Rightarrow> r = [])"

definition numChar :: "char \<Rightarrow> bool" where
  "numChar c \<longleftrightarrow> is_digit c \<or> c \<in> set ''+-.eE''"

definition readNumber :: "string \<Rightarrow> (string \<times> string) option" where
  "readNumber s = (let l = takeWhile numChar s in if validNumber l then Some (l, dropWhile numChar s) else None)"

lemma validNumber_not_Nil: "validNumber l \<Longrightarrow> l \<noteq> []"
  by (auto simp: validNumber_def intPart_def)

lemma readNumber_length: "readNumber s = Some (l, r) \<Longrightarrow> length r < length s"
proof -
  assume a: "readNumber s = Some (l, r)"
  then have "takeWhile numChar s \<noteq> []" "r = dropWhile numChar s"
    by (auto simp: readNumber_def Let_def dest: validNumber_not_Nil split: if_splits)
  moreover have "length (takeWhile numChar s) + length (dropWhile numChar s) = length s"
    by (metis length_append takeWhile_dropWhile_id)
  ultimately show ?thesis by (simp flip: length_greater_0_conv)
qed

definition keyword :: "string \<Rightarrow> jval \<Rightarrow> string \<Rightarrow> (jval \<times> string) option" where
  "keyword w v s = (if prefix w s then Some (v, drop (length w) s) else None)"

definition readScalar :: "string \<Rightarrow> (jval \<times> string) option" where
  "readScalar s = (case s of [] \<Rightarrow> None
     | c # t \<Rightarrow>
        if c = CHR 0x22 then map_option (\<lambda>(v, r). (JsStr v, r)) (readString t)
        else if c = CHR ''n'' then keyword ''null'' JsNull s
        else if c = CHR ''t'' then keyword ''true'' (JsBool True) s
        else if c = CHR ''f'' then keyword ''false'' (JsBool False) s
        else map_option (\<lambda>(v, r). (JsNum v, r)) (readNumber s))"

lemma readScalar_length: "readScalar s = Some (v, r) \<Longrightarrow> length r < length s"
  by (auto simp: readScalar_def keyword_def dest!: readString_length readNumber_length
      split: list.splits if_splits)

text \<open>A member up to its value: the name and what follows the colon.\<close>

definition readKey :: "string \<Rightarrow> (string \<times> string) option" where
  "readKey s = (case skipWs s of [] \<Rightarrow> None
     | c # t \<Rightarrow> if c \<noteq> CHR 0x22 then None else
        (case readString t of None \<Rightarrow> None
         | Some (k, r) \<Rightarrow> (case skipWs r of [] \<Rightarrow> None
            | d # u \<Rightarrow> if d = CHR '':'' then Some (k, u) else None)))"

lemma readKey_length: "readKey s = Some (k, r) \<Longrightarrow> length r < length s"
proof -
  assume "readKey s = Some (k, r)"
  then obtain c t q d where "skipWs s = c # t" "readString t = Some (k, q)" "skipWs q = d # r"
    by (auto simp: readKey_def split: list.splits if_splits option.splits)
  then show ?thesis
    using length_skipWs [of s] length_skipWs [of q] readString_length [of t k q] by simp
qed

text \<open>
  The nesting is bounded by \<open>maxNestingDepth\<close>. The comparison of lengths before a loop goes on only
  tells Isabelle that it ends: every value takes at least one byte (\<open>parseVal_length\<close> below).
\<close>

definition maxNestingDepth :: nat where "maxNestingDepth = 10000"

function (sequential) parseVal :: "nat \<Rightarrow> string \<Rightarrow> (jval \<times> string) option"
  and parseElems :: "nat \<Rightarrow> string \<Rightarrow> (jval list \<times> string) option"
  and parseMembers :: "nat \<Rightarrow> string \<Rightarrow> ((string \<times> jval) list \<times> string) option" where
  "parseVal d s = (case skipWs s of [] \<Rightarrow> None
     | c # t \<Rightarrow>
        if c = CHR ''{'' then
          (if d = 0 then None else case skipWs t of [] \<Rightarrow> None
           | e # u \<Rightarrow> if e = CHR ''}'' then Some (JsObj [], u)
               else map_option (\<lambda>(ms, r). (JsObj ms, r)) (parseMembers (d - 1) t))
        else if c = CHR ''['' then
          (if d = 0 then None else case skipWs t of [] \<Rightarrow> None
           | e # u \<Rightarrow> if e = CHR '']'' then Some (JsArr [], u)
               else map_option (\<lambda>(vs, r). (JsArr vs, r)) (parseElems (d - 1) t))
        else readScalar (c # t))"
| "parseElems d s = (case parseVal d s of None \<Rightarrow> None
     | Some (v, r) \<Rightarrow> (case skipWs r of [] \<Rightarrow> None
        | c # t \<Rightarrow> if c = CHR '']'' then Some ([v], t)
            else if c = CHR '','' \<and> length t < length s
              then map_option (\<lambda>(vs, q). (v # vs, q)) (parseElems d t) else None))"
| "parseMembers d s = (case readKey s of None \<Rightarrow> None
     | Some (k, u) \<Rightarrow> (case parseVal d u of None \<Rightarrow> None
        | Some (v, r) \<Rightarrow> (case skipWs r of [] \<Rightarrow> None
           | c # t \<Rightarrow> if c = CHR ''}'' then Some ([(k, v)], t)
               else if c = CHR '','' \<and> length t < length s
                 then map_option (\<lambda>(ms, q). ((k, v) # ms, q)) (parseMembers d t) else None)))"
  by pat_completeness auto
termination
proof (relation "measure (\<lambda>x. case x of Inl (d, s) \<Rightarrow> 2 * length s
    | Inr (Inl (d, s)) \<Rightarrow> Suc (2 * length s) | Inr (Inr (d, s)) \<Rightarrow> Suc (2 * length s))", goal_cases)
  case (2 d s c t e u)
  then show ?case using length_skipWs [of s] by simp
next
  case (3 d s c t e u)
  then show ?case using length_skipWs [of s] by simp
next
  case (6 d s a k u)
  then show ?case using readKey_length [of s k u] by simp
qed auto

declare parseVal.simps [simp del] parseElems.simps [simp del] parseMembers.simps [simp del]

definition parseJson :: "string \<Rightarrow> jval option" where
  "parseJson s = (case parseVal maxNestingDepth s of None \<Rightarrow> None
     | Some (v, r) \<Rightarrow> if skipWs r = [] then Some v else None)"


subsection \<open>Every value takes a byte\<close>

lemma parse_length:
  "parseVal d s = Some (v, r) \<Longrightarrow> length r < length s"
  "parseElems d s = Some (vs, r) \<Longrightarrow> length r < length s"
  "parseMembers d s = Some (ms, r) \<Longrightarrow> length r < length s"
proof (induction d s and d s and d s arbitrary: v r and vs r and ms r
    rule: parseVal_parseElems_parseMembers.induct)
  case (1 d s)
  note le = length_skipWs [of s]
  show ?case
  proof (cases "skipWs s")
    case Nil
    with 1 show ?thesis by (simp add: parseVal.simps)
  next
    case (Cons c t)
    note lt = length_skipWs [of t]
    from 1 Cons le lt show ?thesis
      by (auto simp: parseVal.simps [of d s] dest!: readScalar_length split: if_splits list.splits; fastforce)
  qed
next
  case (2 d s)
  then obtain v1 r1 c t where a: "parseVal d s = Some (v1, r1)" "skipWs r1 = c # t"
    by (auto simp: parseElems.simps [of d s] split: option.splits list.splits)
  have "length t < length r1" using length_skipWs [of r1] a(2) by simp
  with 2 a show ?case by (fastforce simp: parseElems.simps [of d s] split: if_splits)
next
  case (3 d s)
  then obtain k u v1 r1 c t where a: "readKey s = Some (k, u)" "parseVal d u = Some (v1, r1)" "skipWs r1 = c # t"
    by (auto simp: parseMembers.simps [of d s] split: option.splits list.splits)
  have "length t < length r1" using length_skipWs [of r1] a(3) by simp
  with 3 a readKey_length [OF a(1)] show ?case
    by (fastforce simp: parseMembers.simps [of d s] split: if_splits)
qed

lemma parseElems_eq:
  "parseElems d s = (case parseVal d s of None \<Rightarrow> None
     | Some (v, r) \<Rightarrow> (case skipWs r of [] \<Rightarrow> None
        | c # t \<Rightarrow> if c = CHR '']'' then Some ([v], t)
            else if c = CHR '','' then map_option (\<lambda>(vs, q). (v # vs, q)) (parseElems d t) else None))"
proof -
  have "length t < length s" if "parseVal d s = Some (v, r)" "skipWs r = c # t" for v r c t
    using that parse_length(1) [of d s v r] length_skipWs [of r] by simp
  then show ?thesis by (subst parseElems.simps) (auto split: option.split list.split)
qed

lemma parseMembers_eq:
  "parseMembers d s = (case readKey s of None \<Rightarrow> None
     | Some (k, u) \<Rightarrow> (case parseVal d u of None \<Rightarrow> None
        | Some (v, r) \<Rightarrow> (case skipWs r of [] \<Rightarrow> None
           | c # t \<Rightarrow> if c = CHR ''}'' then Some ([(k, v)], t)
               else if c = CHR '','' then map_option (\<lambda>(ms, q). ((k, v) # ms, q)) (parseMembers d t) else None)))"
proof -
  have "length t < length s" if "readKey s = Some (k, u)" "parseVal d u = Some (v, r)" "skipWs r = c # t" for k u v r c t
    using that parse_length(1) [of d u v r] length_skipWs [of r] readKey_length [of s k u] by simp
  then show ?thesis by (subst parseMembers.simps) (auto split: option.split list.split)
qed

subsection \<open>json.Marshal\<close>

fun jsonOf :: "jval \<Rightarrow> string" where
  "jsonOf JsNull = ''null''"
| "jsonOf (JsBool b) = (if b then ''true'' else ''false'')"
| "jsonOf (JsNum l) = l"
| "jsonOf (JsStr s) = jsonQuote s"
| "jsonOf (JsArr vs) = ''['' @ joinOn '','' (map jsonOf vs) @ '']''"
| "jsonOf (JsObj ms) = object (map (\<lambda>(k, v). jsonQuote k @ '':'' @ jsonOf v) ms)"

fun wfVal :: "nat \<Rightarrow> jval \<Rightarrow> bool" where
  "wfVal d (JsNum l) \<longleftrightarrow> validNumber l \<and> list_all numChar l"
| "wfVal d (JsStr s) \<longleftrightarrow> validUtf8 s"
| "wfVal d (JsArr vs) \<longleftrightarrow> d > 0 \<and> (\<forall>v \<in> set vs. wfVal (d - 1) v)"
| "wfVal d (JsObj ms) \<longleftrightarrow> d > 0 \<and> (\<forall>m \<in> set ms. validUtf8 (fst m) \<and> wfVal (d - 1) (snd m))"
| "wfVal d v \<longleftrightarrow> True"

lemma splitLit_plain:
  "CHR 0x22 \<notin> set xs \<Longrightarrow> CHR 0x5C \<notin> set xs \<Longrightarrow>
     splitLit (xs @ s) = map_option (\<lambda>(l, r). (xs @ l, r)) (splitLit s)"
proof (induction xs)
  case Nil
  show ?case by (cases "splitLit s") auto
next
  case (Cons x xs)
  then show ?case by (cases "splitLit s") auto
qed

lemma hexDigit_plain: "k < 16 \<Longrightarrow> hexDigit k \<noteq> CHR 0x22 \<and> hexDigit k \<noteq> CHR 0x5C"
proof -
  assume k: "k < 16"
  have "of_char (hexDigit k) = (if k < 10 then 48 + k else 87 + k)"
    using k by (auto simp: hexDigit_def)
  then have "(of_char (hexDigit k) :: nat) \<noteq> 34 \<and> (of_char (hexDigit k) :: nat) \<noteq> 92" using k by auto
  then show ?thesis by auto
qed

lemma splitLit_escape:
  "splitLit (escapeAscii c @ s) = map_option (\<lambda>(l, r). (escapeAscii c @ l, r)) (splitLit s)"
proof -
  have esc: "splitLit (CHR 0x5C # e # xs @ s) = map_option (\<lambda>(l, r). (CHR 0x5C # e # xs @ l, r)) (splitLit s)"
    if "CHR 0x22 \<notin> set xs" "CHR 0x5C \<notin> set xs" for e xs
    using splitLit_plain [OF that, of s] by (cases "splitLit s") auto
  have hex: "(of_char c :: nat) div 16 < 16" "(of_char c :: nat) mod 16 < 16"
    using nat_of_char_less_256 [of c] by (simp_all add: div_less_iff_less_mult)
  show ?thesis
    using esc [of "[]"] esc [of "''00'' @ [hexDigit (of_char c div 16), hexDigit (of_char c mod 16)]" "CHR ''u''"]
      splitLit_plain [of "[c]" s] hexDigit_plain [OF hex(1)] hexDigit_plain [OF hex(2)]
    by (auto simp: escapeAscii_def Let_def)
qed

lemma splitLit_quoteBody:
  "splitLit (quoteBody s @ t) = map_option (\<lambda>(l, r). (quoteBody s @ l, r)) (splitLit t)"
proof (induction s rule: quoteBody.induct)
  case 1
  then show ?case by (cases "splitLit t") auto
next
  case (2 a s)
  show ?case
  proof (cases "of_char a < (128::nat)")
    case True
    then show ?thesis using 2(1) [OF True]
      by (cases "splitLit t") (auto simp: quoteBody.simps(2) splitLit_escape)
  next
    case False
    obtain r k where d: "decodeRune a s = (r, k)" by fastforce
    note ih = 2(2) [OF False refl d [symmetric]]
    have esc: "splitLit (CHR 0x5C # e # xs @ u) = map_option (\<lambda>(l, r). (CHR 0x5C # e # xs @ l, r)) (splitLit u)"
      if "CHR 0x22 \<notin> set xs" "CHR 0x5C \<notin> set xs" for e xs u
      using splitLit_plain [OF that, of u] by (cases "splitLit u") auto
    have x: "CHR 0x22 \<notin> set (a # take k s)" "CHR 0x5C \<notin> set (a # take k s)"
    proof -
      have "\<forall>c \<in> set (take k s). cont c"
      proof (cases "k > 0")
        case True
        from d True show ?thesis
          by (cases rule: decodeRune_cases)
            (auto simp: rune2_def rune3_def rune4_def numeral_2_eq_2 numeral_3_eq_3 Let_def split: if_splits)
      qed simp
      moreover have "cont c \<Longrightarrow> c \<noteq> CHR 0x22 \<and> c \<noteq> CHR 0x5C" for c by (auto simp: cont_def)
      moreover have "a \<noteq> CHR 0x22 \<and> a \<noteq> CHR 0x5C" using False by auto
      ultimately show "CHR 0x22 \<notin> set (a # take k s)" "CHR 0x5C \<notin> set (a # take k s)" by auto
    qed
    show ?thesis
      using ih esc [of "''fffd''" "CHR ''u''"] esc [of "''2028''" "CHR ''u''"] esc [of "''2029''" "CHR ''u''"]
        splitLit_plain [OF x, of "quoteBody (drop k s) @ t"] False
      by (cases "splitLit t") (auto simp: quoteBody.simps(2) d)
  qed
qed

lemma readString_quote: "validUtf8 s \<Longrightarrow> readString (quoteBody s @ CHR 0x22 # t) = Some (s, t)"
  by (simp add: readString_def splitLit_quoteBody unquote_quoteBody unquoteBody.simps(2))

lemma jsonQuote_Cons: "jsonQuote s @ t = CHR 0x22 # quoteBody s @ CHR 0x22 # t"
  by (simp add: jsonQuote_def)

lemma skipWs_Cons [simp]: "skipWs (c # s) = (if isJsonSpace c then skipWs s else c # s)"
  by (simp add: skipWs_def)

lemma skipWs_Nil [simp]: "skipWs [] = []"
  by (simp add: skipWs_def)

lemma readKey_quote: "validUtf8 k \<Longrightarrow> readKey (jsonQuote k @ CHR '':'' # u) = Some (k, u)"
  by (simp add: readKey_def jsonQuote_Cons readString_quote isJsonSpace_def)

text \<open>A number ends where a character that is not part of one follows.\<close>

definition delimited :: "string \<Rightarrow> bool" where
  "delimited t \<longleftrightarrow> (case t of [] \<Rightarrow> True | c # _ \<Rightarrow> \<not> numChar c)"

lemma readNumber_delimited:
  "validNumber l \<Longrightarrow> list_all numChar l \<Longrightarrow> delimited t \<Longrightarrow> readNumber (l @ t) = Some (l, t)"
  by (cases t) (auto simp: readNumber_def Let_def delimited_def list_all_iff takeWhile_append dropWhile_append
      takeWhile_eq_all_conv [THEN iffD2])

lemma parseElems_json:
  assumes "vs \<noteq> []" and "\<And>v t. v \<in> set vs \<Longrightarrow> delimited t \<Longrightarrow> parseVal d (jsonOf v @ t) = Some (v, t)"
  shows "parseElems d (joinOn '','' (map jsonOf vs) @ CHR '']'' # t) = Some (vs, t)"
  using assms
proof (induction vs)
  case (Cons v vs)
  show ?case
  proof (cases vs)
    case Nil
    then show ?thesis using Cons.prems(2) [of v "CHR '']'' # t"]
      by (subst parseElems_eq) (simp add: delimited_def numChar_def is_digit_def isJsonSpace_def)
  next
    case (Cons w ws)
    then show ?thesis
      using Cons.prems(2) [of v "CHR '','' # joinOn '','' (map jsonOf vs) @ CHR '']'' # t"] Cons.IH Cons.prems(2)
      by (subst parseElems_eq) (simp add: delimited_def numChar_def is_digit_def isJsonSpace_def)
  qed
qed simp

lemma parseMembers_json:
  assumes "ms \<noteq> []" and "\<And>m t. m \<in> set ms \<Longrightarrow> delimited t \<Longrightarrow> parseVal d (jsonOf (snd m) @ t) = Some (snd m, t)"
    and "\<And>m. m \<in> set ms \<Longrightarrow> validUtf8 (fst m)"
  shows "parseMembers d (joinOn '','' (map (\<lambda>(k, v). jsonQuote k @ '':'' @ jsonOf v) ms) @ CHR ''}'' # t) = Some (ms, t)"
  using assms
proof (induction ms)
  case (Cons m ms)
  obtain k v where m: "m = (k, v)" by fastforce
  have k: "validUtf8 k" using Cons.prems(3) [of m] m by simp
  show ?case
  proof (cases ms)
    case Nil
    then show ?thesis using Cons.prems(2) [of m "CHR ''}'' # t"] m k
      by (subst parseMembers_eq) (simp add: delimited_def numChar_def is_digit_def isJsonSpace_def readKey_quote)
  next
    case (Cons w ws)
    define u where "u = joinOn '','' (map (\<lambda>(k, v). jsonQuote k @ '':'' @ jsonOf v) ms) @ CHR ''}'' # t"
    have "parseMembers d u = Some (ms, t)" unfolding u_def using Cons.IH Cons.prems(2,3) Cons by simp
    moreover have "parseVal d (jsonOf v @ CHR '','' # u) = Some (v, CHR '','' # u)"
      using Cons.prems(2) [of m "CHR '','' # u"] m by (simp add: delimited_def numChar_def is_digit_def)
    moreover have "joinOn '','' (map (\<lambda>(k, v). jsonQuote k @ '':'' @ jsonOf v) (m # ms)) @ CHR ''}'' # t
        = jsonQuote k @ CHR '':'' # jsonOf v @ CHR '','' # u"
      using Cons m by (simp add: u_def)
    ultimately show ?thesis
      by (subst parseMembers_eq) (simp add: readKey_quote k m isJsonSpace_def)
  qed
qed simp

lemma parseVal_close:
  "skipWs t = CHR '']'' # u \<Longrightarrow> parseVal d t = None" "skipWs t = [] \<Longrightarrow> parseVal d t = None"
  by (auto simp: parseVal.simps [of d t] readScalar_def readNumber_def validNumber_def intPart_def numChar_def is_digit_def)

lemma parseVal_array:
  "parseElems d t = Some (vs, r) \<Longrightarrow> parseVal (Suc d) (CHR ''['' # t) = Some (JsArr vs, r)"
proof -
  assume a: "parseElems d t = Some (vs, r)"
  then have "parseVal d t \<noteq> None" by (auto simp: parseElems.simps [of d t] split: option.splits)
  then obtain e u where e: "skipWs t = e # u" using parseVal_close(2) [of t d] by (cases "skipWs t") auto
  have "e \<noteq> CHR '']''" using \<open>parseVal d t \<noteq> None\<close> parseVal_close(1) [of t u d] e by auto
  with e a show ?thesis by (simp add: parseVal.simps isJsonSpace_def)
qed

lemma parseVal_object:
  "parseMembers d t = Some (ms, r) \<Longrightarrow> parseVal (Suc d) (CHR ''{'' # t) = Some (JsObj ms, r)"
proof -
  assume a: "parseMembers d t = Some (ms, r)"
  then have "readKey t \<noteq> None" by (auto simp: parseMembers.simps [of d t] split: option.splits)
  then obtain e u where "skipWs t = e # u" "e \<noteq> CHR ''}''"
    by (cases "skipWs t") (auto simp: readKey_def split: if_splits)
  with a show ?thesis by (simp add: parseVal.simps isJsonSpace_def)
qed

lemma parseVal_empty:
  "parseVal (Suc d) (CHR ''['' # CHR '']'' # t) = Some (JsArr [], t)"
  "parseVal (Suc d) (CHR ''{'' # CHR ''}'' # t) = Some (JsObj [], t)"
  by (simp_all add: parseVal.simps isJsonSpace_def)

lemma number_head:
  assumes "validNumber l"
  obtains c t where "l = c # t" "\<not> isJsonSpace c" "c \<notin> set [CHR ''{'', CHR ''['', CHR 0x22, CHR ''n'', CHR ''t'', CHR ''f'']"
proof -
  obtain c t where l: "l = c # t" "is_digit c \<or> c = CHR ''-''"
    using assms by (cases l) (auto simp: validNumber_def intPart_def is_digit_def split: if_splits option.splits)
  have "\<not> isJsonSpace c" using l(2) by (auto simp: isJsonSpace_def is_digit_def)
  moreover have "c \<notin> set [CHR ''{'', CHR ''['', CHR 0x22, CHR ''n'', CHR ''t'', CHR ''f'']"
    using l(2) by (auto simp: is_digit_def)
  ultimately show thesis using that [OF l(1)] by blast
qed

theorem parseVal_jsonOf:
  "wfVal d v \<Longrightarrow> delimited t \<Longrightarrow> parseVal d (jsonOf v @ t) = Some (v, t)"
proof (induction v arbitrary: d t)
  case JsNull
  show ?case by (simp add: parseVal.simps isJsonSpace_def readScalar_def keyword_def)
next
  case (JsBool b)
  show ?case by (simp add: parseVal.simps isJsonSpace_def readScalar_def keyword_def)
next
  case (JsNum l)
  then have "validNumber l" by simp
  then obtain c r where l: "l = c # r" "\<not> isJsonSpace c"
      "c \<notin> set [CHR ''{'', CHR ''['', CHR 0x22, CHR ''n'', CHR ''t'', CHR ''f'']"
    by (rule number_head)
  have n: "readNumber (l @ t) = Some (l, t)" using JsNum readNumber_delimited by simp
  have "parseVal d (l @ t) = readScalar (l @ t)" using l by (subst parseVal.simps) simp
  also have "\<dots> = Some (JsNum l, t)" using l n by (simp add: readScalar_def)
  finally show ?case by simp
next
  case (JsStr s)
  then show ?case
    by (simp add: parseVal.simps jsonQuote_Cons isJsonSpace_def readScalar_def readString_quote)
next
  case (JsArr vs)
  then obtain e where d: "d = Suc e" by (cases d) auto
  show ?case
  proof (cases "vs = []")
    case True
    then show ?thesis by (simp add: d parseVal_empty)
  next
    case False
    have "parseElems e (joinOn '','' (map jsonOf vs) @ CHR '']'' # t) = Some (vs, t)"
      by (rule parseElems_json [OF False]) (use JsArr d in auto)
    then show ?thesis by (simp add: d parseVal_array)
  qed
next
  case (JsObj ms)
  then obtain e where d: "d = Suc e" by (cases d) auto
  show ?case
  proof (cases "ms = []")
    case True
    then show ?thesis by (simp add: d parseVal_empty object_def)
  next
    case False
    have "parseMembers e (joinOn '','' (map (\<lambda>(k, v). jsonQuote k @ '':'' @ jsonOf v) ms) @ CHR ''}'' # t) = Some (ms, t)"
    proof (rule parseMembers_json [OF False])
      fix m u assume m: "m \<in> set ms" "delimited u"
      show "parseVal e (jsonOf (snd m) @ u) = Some (snd m, u)"
        by (rule JsObj.IH [of m "snd m"]) (use JsObj.prems d m in \<open>auto intro: snds.intros\<close>)
    qed (use JsObj.prems in auto)
    then show ?thesis by (simp add: d parseVal_object object_def)
  qed
qed

corollary parseJson_jsonOf: "wfVal maxNestingDepth v \<Longrightarrow> parseJson (jsonOf v) = Some v"
  using parseVal_jsonOf [of maxNestingDepth v "[]"] by (simp add: parseJson_def delimited_def)

subsection \<open>Decoding into a struct\<close>

text \<open>
  The values a document gives to the field of one name, in order, and the readers of the field types;
  \<open>None\<close> is the \<open>UnmarshalTypeError\<close>. A value decoded into a struct is the list of its members.
\<close>

type_synonym jobj = "(string \<times> jval) list"

definition valuesOf :: "string \<Rightarrow> jobj \<Rightarrow> jval list" where
  "valuesOf f ms = map snd (filter (\<lambda>m. foldRunes (fst m) = foldRunes f) ms)"

fun structStep :: "jobj option \<Rightarrow> jval \<Rightarrow> jobj option" where
  "structStep (Some ms) (JsObj ns) = Some (ms @ ns)"
| "structStep (Some ms) JsNull = Some ms"
| "structStep _ _ = None"

definition structOf :: "jval \<Rightarrow> jobj option" where
  "structOf v = structStep (Some []) v"

definition structField :: "string \<Rightarrow> jobj \<Rightarrow> jobj option" where
  "structField f ms = foldl structStep (Some []) (valuesOf f ms)"

fun stringStep :: "string option \<Rightarrow> jval \<Rightarrow> string option" where
  "stringStep (Some old) (JsStr s) = Some s"
| "stringStep (Some old) JsNull = Some old"
| "stringStep _ _ = None"

definition stringField :: "string \<Rightarrow> jobj \<Rightarrow> string option" where
  "stringField f ms = foldl stringStep (Some []) (valuesOf f ms)"

fun intStep :: "int option \<Rightarrow> jval \<Rightarrow> int option" where
  "intStep (Some old) (JsNum l) = parseInt64 l"
| "intStep (Some old) JsNull = Some old"
| "intStep _ _ = None"

definition intField :: "string \<Rightarrow> jobj \<Rightarrow> int option" where
  "intField f ms = foldl intStep (Some 0) (valuesOf f ms)"

fun boolStep :: "bool option \<Rightarrow> jval \<Rightarrow> bool option" where
  "boolStep (Some old) (JsBool b) = Some b"
| "boolStep (Some old) JsNull = Some old"
| "boolStep _ _ = None"

definition boolField :: "string \<Rightarrow> jobj \<Rightarrow> bool option" where
  "boolField f ms = foldl boolStep (Some False) (valuesOf f ms)"

text \<open>Pointers to a struct and to an integer: \<open>null\<close> resets them, absence leaves them nil.\<close>

fun pointerStep :: "jobj option option \<Rightarrow> jval \<Rightarrow> jobj option option" where
  "pointerStep (Some old) (JsObj ms) = Some (Some ((case old of None \<Rightarrow> [] | Some o1 \<Rightarrow> o1) @ ms))"
| "pointerStep (Some old) JsNull = Some None"
| "pointerStep _ _ = None"

definition pointerField :: "string \<Rightarrow> jobj \<Rightarrow> jobj option option" where
  "pointerField f ms = foldl pointerStep (Some None) (valuesOf f ms)"

fun intPointerStep :: "int option option \<Rightarrow> jval \<Rightarrow> int option option" where
  "intPointerStep (Some old) (JsNum l) = map_option Some (parseInt64 l)"
| "intPointerStep (Some old) JsNull = Some None"
| "intPointerStep _ _ = None"

definition intPointerField :: "string \<Rightarrow> jobj \<Rightarrow> int option option" where
  "intPointerField f ms = foldl intPointerStep (Some None) (valuesOf f ms)"

text \<open>A slice and its elements.\<close>

fun arrayStep :: "jval list option \<Rightarrow> jval \<Rightarrow> jval list option" where
  "arrayStep (Some old) (JsArr vs) = Some vs"
| "arrayStep (Some old) JsNull = Some []"
| "arrayStep _ _ = None"

definition arrayOf :: "jval \<Rightarrow> jval list option" where
  "arrayOf v = arrayStep (Some []) v"

definition arrayField :: "string \<Rightarrow> jobj \<Rightarrow> jval list option" where
  "arrayField f ms = foldl arrayStep (Some []) (valuesOf f ms)"

fun mapAll :: "('a \<Rightarrow> 'b option) \<Rightarrow> 'a list \<Rightarrow> 'b list option" where
  "mapAll f [] = Some []"
| "mapAll f (x # xs) = (case f x of None \<Rightarrow> None | Some y \<Rightarrow> map_option ((#) y) (mapAll f xs))"

definition stringOf :: "jval \<Rightarrow> string option" where
  "stringOf v = stringStep (Some []) v"

text \<open>\<open>json.Unmarshal\<close> into a struct and into a slice of structs.\<close>

definition decodeStruct :: "(jobj \<Rightarrow> 'a option) \<Rightarrow> string \<Rightarrow> 'a option" where
  "decodeStruct dec raw = Option.bind (parseJson raw) (\<lambda>v. Option.bind (structOf v) dec)"

definition decodeList :: "(jobj \<Rightarrow> 'a option) \<Rightarrow> string \<Rightarrow> 'a list option" where
  "decodeList dec raw = Option.bind (parseJson raw) (\<lambda>v. Option.bind (arrayOf v)
     (mapAll (\<lambda>e. Option.bind (structOf e) dec)))"

lemma mapAll_length: "mapAll f xs = Some ys \<Longrightarrow> length ys = length xs"
  by (induction xs arbitrary: ys) (auto split: option.splits)

end
