(* ===== verification/MarkerScan.thy ===== *)
theory MarkerScan
  imports JsonDecode Capability
begin

text \<open>
  Reading the correlation marker back out of a note body (\<open>internal/forge/gitlab/marker.go\<close>, and the
  same grammar in \<open>internal/forge/github/write.go\<close>): the regular expression
  \<open><!--\s*assent:marker\s*(\{.*?\})\s*-->\<close>, leftmost and with the shortest payload, and the decoding
  of the payload. \<open>parseMarker_Envelope\<close> is the round trip with \<^const>\<open>Envelope\<close>.
\<close>

subsection \<open>The expression\<close>

definition isRegexSpace :: "char \<Rightarrow> bool" where
  "isRegexSpace c \<longleftrightarrow> of_char c \<in> {9, 10, 12, 13, 32 :: nat}"

definition skipSpaces :: "string \<Rightarrow> string" where
  "skipSpaces s = dropWhile isRegexSpace s"

text \<open>The lazy \<open>.*?\}\<close>: up to the first brace that the end of the comment follows, on one line.\<close>

fun lazyClose :: "string \<Rightarrow> string option" where
  "lazyClose [] = None"
| "lazyClose (c # t) =
     (if c = CHR ''}'' \<and> prefix commentClose (skipSpaces t) then Some [c]
      else if c = CHR 0x0A then None
      else map_option ((#) c) (lazyClose t))"

definition markerAt :: "string \<Rightarrow> string option" where
  "markerAt s =
     (if \<not> prefix ''<!--'' s then None
      else let a = skipSpaces (drop 4 s) in
        if \<not> prefix MarkerSentinel a then None
        else (case skipSpaces (drop (length MarkerSentinel) a) of [] \<Rightarrow> None
              | c # t \<Rightarrow> if c = CHR ''{'' then map_option ((#) c) (lazyClose t) else None))"

fun findMarker :: "string \<Rightarrow> string option" where
  "findMarker [] = None"
| "findMarker (c # s) = (case markerAt (c # s) of Some p \<Rightarrow> Some p | None \<Rightarrow> findMarker s)"

subsection \<open>The payload\<close>

definition slotOf :: "jobj \<Rightarrow> slot option" where
  "slotOf ms =
     (case stringField ''project'' ms of None \<Rightarrow> None | Some p \<Rightarrow>
      case stringField ''mr'' ms of None \<Rightarrow> None | Some r \<Rightarrow>
      case stringField ''rule'' ms of None \<Rightarrow> None | Some u \<Rightarrow>
      case stringField ''entryRef'' ms of None \<Rightarrow> None | Some e \<Rightarrow>
      case stringField ''effect'' ms of None \<Rightarrow> None | Some f \<Rightarrow>
        Some \<lparr>s_project = p, s_mr = r, s_rule = u, s_effect = f, s_entryRef = e\<rparr>)"

definition artifactOf :: "jobj \<Rightarrow> artifact option" where
  "artifactOf ms =
     (case stringField ''kind'' ms of None \<Rightarrow> None | Some k \<Rightarrow>
      case stringField ''schemaVersion'' ms of None \<Rightarrow> None | Some v \<Rightarrow>
        Some \<lparr>a_kind = k, a_schemaVersion = v\<rparr>)"

definition markerOfObj :: "jobj \<Rightarrow> marker option" where
  "markerOfObj ms =
     (case Option.bind (structField ''slot'' ms) slotOf of None \<Rightarrow> None | Some sl \<Rightarrow>
      case stringField ''occurrence'' ms of None \<Rightarrow> None | Some oc \<Rightarrow>
      case stringField ''decision'' ms of None \<Rightarrow> None | Some de \<Rightarrow>
      case Option.bind (structField ''artifact'' ms) artifactOf of None \<Rightarrow> None | Some ar \<Rightarrow>
        Some \<lparr>m_slot = sl, m_occurrence = oc, m_decision = de, m_artifact = ar\<rparr>)"

datatype marker_scan = NoMarker | Malformed string | Marked marker

definition parseMarker :: "string \<Rightarrow> marker_scan" where
  "parseMarker body =
     (case findMarker body of None \<Rightarrow> NoMarker
      | Some payload \<Rightarrow> (case decodeStruct markerOfObj payload of
           None \<Rightarrow> Malformed payload | Some m \<Rightarrow> Marked m))"

text \<open>The sentence on the receipt; the decoder's own error text is a parameter.\<close>

definition markerSkipWarning :: "string \<Rightarrow> string \<Rightarrow> string \<Rightarrow> string \<Rightarrow> string" where
  "markerSkipWarning forge kd i err =
     forge @ '': skipped bot '' @ kd @ '' '' @ i @ '' '' @ dash @ '' malformed marker payload ('' @ err
     @ ''); reconcile continued and the artifact was left in place''"

subsection \<open>Round trip\<close>

lemma lazyClose_payload:
  assumes "CHR ''>'' \<notin> set (xs @ [CHR ''}''])" "CHR 0x0A \<notin> set xs"
  shows "lazyClose (xs @ CHR ''}'' # CHR '' '' # commentClose @ t) = Some (xs @ [CHR ''}''])"
  using assms
proof (induction xs)
  case Nil
  show ?case by (simp add: skipSpaces_def isRegexSpace_def)
next
  case (Cons c xs)
  define u where "u = dropWhile isRegexSpace (xs @ [CHR ''}''])"
  have "CHR ''}'' \<in> set (xs @ [CHR ''}''])" "\<not> isRegexSpace (CHR ''}'')" by (auto simp: isRegexSpace_def)
  then have s: "skipSpaces (xs @ CHR ''}'' # CHR '' '' # commentClose @ t) = u @ CHR '' '' # commentClose @ t"
    unfolding skipSpaces_def u_def by (subst dropWhile_append1 [symmetric]) auto
  have "last u = CHR ''}''" "u \<noteq> []" "CHR ''>'' \<notin> set u"
    using Cons.prems(1) unfolding u_def
    by (auto simp: isRegexSpace_def dropWhile_append last_append dest: set_dropWhileD)
  then have "\<not> prefix commentClose (u @ CHR '' '' # commentClose @ t)"
    by (cases u; cases "tl u"; cases "tl (tl u)") (auto split: if_splits)
  with Cons s show ?case by auto
qed

lemma escapeAscii_newline: "CHR 0x0A \<notin> set (escapeAscii c)"
proof -
  have "(of_char (hexDigit k) :: nat) \<noteq> 10" if "k < 16" for k using that by (auto simp: hexDigit_def)
  then have h: "hexDigit k \<noteq> CHR 0x0A" if "k < 16" for k using that by fastforce
  have "(of_char c :: nat) div 16 < 16"
    using nat_of_char_less_256 [of c] by (simp add: div_less_iff_less_mult)
  then show ?thesis using h [of "of_char c div 16"] h [of "of_char c mod 16"]
    by (auto simp: escapeAscii_def Let_def)
qed

lemma quoteBody_newline: "CHR 0x0A \<notin> set (quoteBody s)"
proof (induction s rule: quoteBody.induct)
  case (2 a s)
  obtain r k where d: "decodeRune a s = (r, k)" by fastforce
  have "CHR 0x0A \<notin> set (take k s)"
  proof (cases "k > 0")
    case True
    have "cont c \<Longrightarrow> c \<noteq> CHR 0x0A" for c by (auto simp: cont_def)
    with d True show ?thesis
      by (cases rule: decodeRune_cases)
        (auto simp: rune2_def rune3_def rune4_def numeral_2_eq_2 numeral_3_eq_3 Let_def split: if_splits)
  qed simp
  moreover have "\<not> of_char a < (128::nat) \<Longrightarrow> a \<noteq> CHR 0x0A" by auto
  ultimately show ?case using 2 d escapeAscii_newline [of a] by (auto simp: quoteBody.simps(2))
qed simp

text \<open>The marker's text is the rendering of one object, \<open>entryRef\<close> left out when empty.\<close>

definition markerVal :: "marker \<Rightarrow> jval" where
  "markerVal m = JsObj
     [(''slot'', JsObj ([(''project'', JsStr (s_project (m_slot m))), (''mr'', JsStr (s_mr (m_slot m))),
         (''rule'', JsStr (s_rule (m_slot m)))]
        @ (if s_entryRef (m_slot m) = '''' then [] else [(''entryRef'', JsStr (s_entryRef (m_slot m)))])
        @ [(''effect'', JsStr (s_effect (m_slot m)))])),
      (''occurrence'', JsStr (m_occurrence m)), (''decision'', JsStr (m_decision m)),
      (''artifact'', JsObj [(''kind'', JsStr (a_kind (m_artifact m))),
         (''schemaVersion'', JsStr (a_schemaVersion (m_artifact m)))])]"

lemma markerJSON_jsonOf: "markerJSON m = jsonOf (markerVal m)"
  by (simp add: markerJSON_def markerVal_def member_def)

lemma jsonOf_newline: "(\<And>s. s \<in> set ms \<Longrightarrow> CHR 0x0A \<notin> set s) \<Longrightarrow> CHR 0x0A \<notin> set (object ms)"
  using joinOn_set [of "'',''" ms] by (fastforce simp: object_def)

lemma markerJSON_newline: "CHR 0x0A \<notin> set (markerJSON m)"
proof -
  have q: "CHR 0x0A \<notin> set (jsonQuote s)" for s using quoteBody_newline by (simp add: jsonQuote_def)
  have m: "CHR 0x0A \<notin> set (member k v)" for k v by (simp add: member_def q)
  have o: "CHR 0x0A \<in> set (object ms) \<Longrightarrow> \<exists>x \<in> set ms. CHR 0x0A \<in> set x" for ms
    using jsonOf_newline [of ms] by blast
  show ?thesis unfolding markerJSON_def
    by (rule jsonOf_newline) (fastforce simp: q m simp del: in_set_conv_decomp split: if_splits dest: o)
qed

definition validMarker :: "marker \<Rightarrow> bool" where
  "validMarker m \<longleftrightarrow> list_all validUtf8 [s_project (m_slot m), s_mr (m_slot m), s_rule (m_slot m),
     s_entryRef (m_slot m), s_effect (m_slot m), m_occurrence m, m_decision m,
     a_kind (m_artifact m), a_schemaVersion (m_artifact m)]"

lemma foldRunes_names:
  "list_all validUtf8 [''slot'', ''project'', ''mr'', ''rule'', ''entryRef'', ''effect'', ''occurrence'',
     ''decision'', ''artifact'', ''kind'', ''schemaVersion'']"
  by (simp add: validUtf8.simps(2))

lemma foldRunes_ascii: "ascii s \<Longrightarrow> foldRunes s = map (\<lambda>c. foldRune (of_char c)) s"
  by (simp add: foldRunes_def runes_ascii)

lemma markerOfObj_markerVal:
  "markerVal m = JsObj ms \<Longrightarrow> markerOfObj ms = Some m"
  by (cases m, cases "m_slot m", cases "m_artifact m")
    (auto simp: markerVal_def markerOfObj_def slotOf_def artifactOf_def structField_def stringField_def
      valuesOf_def foldRunes_ascii foldRune_def)

lemma decode_markerJSON:
  assumes "validMarker m"
  shows "decodeStruct markerOfObj (markerJSON m) = Some m"
proof -
  obtain ms where v: "markerVal m = JsObj ms" by (simp add: markerVal_def)
  have "wfVal maxNestingDepth (markerVal m)"
    using assms foldRunes_names by (simp add: markerVal_def validMarker_def maxNestingDepth_def)
  then have "parseJson (markerJSON m) = Some (JsObj ms)"
    unfolding markerJSON_jsonOf v by (rule parseJson_jsonOf)
  then show ?thesis using markerOfObj_markerVal [OF v] by (simp add: decodeStruct_def structOf_def)
qed

lemma findMarker_FormatMarker: "findMarker (FormatMarker m @ t) = Some (markerJSON m)"
proof -
  obtain xs where x: "markerJSON m = CHR ''{'' # xs @ [CHR ''}'']"
    by (simp add: markerJSON_def object_def)
  have "lazyClose (xs @ CHR ''}'' # CHR '' '' # commentClose @ t) = Some (xs @ [CHR ''}''])"
    by (rule lazyClose_payload) (use markerJSON_gt [of m] markerJSON_newline [of m] x in auto)
  then have "markerAt (FormatMarker m @ t) = Some (markerJSON m)"
    by (simp add: markerAt_def FormatMarker_def x skipSpaces_def isRegexSpace_def Let_def)
  then show ?thesis by (simp add: FormatMarker_def)
qed

lemma parseMarker_Envelope:
  assumes "Envelope m body = Inr full" and "validMarker m"
  shows "parseMarker full = Marked m"
proof -
  obtain t where "full = FormatMarker m @ t"
    using assms(1) by (auto simp: Envelope_def split: option.splits if_splits)
  then show ?thesis
    using decode_markerJSON [OF assms(2)] by (simp add: parseMarker_def findMarker_FormatMarker)
qed

end
