(* ===== verification/Http.thy ===== *)
theory Http
  imports MarkerScan RunPort "HOL-Library.Word"
begin

text \<open>
  The transport both forge adapters share in design (\<open>internal/forge/gitlab/gitlab.go\<close>,
  \<open>internal/forge/github/github.go\<close>): percent-encoding, the bounded read of a response, rate limits,
  and the bounded, jittered retry of idempotent requests. The network is a parameter: what
  \<open>http.Client.Do\<close> answers, whether the parent context has ended, how long a sleep takes and the
  jitter source.
\<close>

subsection \<open>Percent-encoding (net/url)\<close>

definition upperHex :: "nat \<Rightarrow> char" where
  "upperHex n = (if n < 10 then char_of (48 + n) else char_of (55 + n))"

definition percent :: "char \<Rightarrow> string" where
  "percent c = CHR ''%'' # [upperHex (of_char c div 16), upperHex (of_char c mod 16)]"

definition isAlnum :: "char \<Rightarrow> bool" where
  "isAlnum c \<longleftrightarrow> (let n = of_char c :: nat in
     (48 \<le> n \<and> n \<le> 57) \<or> (65 \<le> n \<and> n \<le> 90) \<or> (97 \<le> n \<and> n \<le> 122))"

definition pathKeeps :: "char \<Rightarrow> bool" where
  "pathKeeps c \<longleftrightarrow> isAlnum c \<or> c \<in> set ''-_.~$&+:=@''"

definition queryKeeps :: "char \<Rightarrow> bool" where
  "queryKeeps c \<longleftrightarrow> isAlnum c \<or> c \<in> set ''-_.~''"

definition PathEscape :: "string \<Rightarrow> string" where
  "PathEscape s = concat (map (\<lambda>c. if pathKeeps c then [c] else percent c) s)"

definition QueryEscape :: "string \<Rightarrow> string" where
  "QueryEscape s = concat (map (\<lambda>c. if c = CHR '' '' then ''+'' else if queryKeeps c then [c] else percent c) s)"

text \<open>\<open>url.Values\<close> with one key.\<close>

definition formBody :: "string \<Rightarrow> string \<Rightarrow> string" where
  "formBody k v = QueryEscape k @ ''='' @ QueryEscape v"

subsection \<open>Requests, responses and the network\<close>

record request =
  rq_method :: string
  rq_url :: string
  rq_path :: string
  rq_body :: "string option"
  rq_headers :: "(string \<times> string) list"

record response =
  rs_status :: int
  rs_retryAfter :: string
  rs_remaining :: string
  rs_body :: string
  rs_readErr :: "string option"

text \<open>
  \<open>nt_jitter half\<close> is \<open>time.Duration(c.retry.Jitter()*float64(half))\<close>; \<open>nt_build\<close> is the error of
  \<open>http.NewRequestWithContext\<close> on a method and URL, if any.
\<close>

record 's network =
  nt_ctxErr :: "'s \<Rightarrow> string option"
  nt_build :: "string \<Rightarrow> string \<Rightarrow> string option"
  nt_send :: "request \<Rightarrow> 's \<Rightarrow> (string + response) \<times> 's"
  nt_sleep :: "int \<Rightarrow> 's \<Rightarrow> 's"
  nt_jitter :: "int \<Rightarrow> 's \<Rightarrow> int \<times> 's"

datatype sha_move = TargetMoved string string | SourceMoved string string | DigestMoved string string
  | MergeRejected int

datatype http_error =
    ContextDone string string string
  | BuildFailed string string string
  | CredentialMissing
  | CredentialRefused string
  | TransportFailed string string string
  | RateLimited
  | BodyRead string string transport_error
  | BadStatus string int
  | Undecodable string
  | PageCap string
  | FileAbsent string string
  | Unauthorized string int
  | ShaMoved sha_move
  | InvalidSummary
  | EnvelopeRefused envelope_error
  | CapabilityFailed capability_error
  | GraphqlErrors "string list"
  | ArmingRefused string string string
  | Refused string
  | Within string http_error

text \<open>What \<open>errors.Is\<close> sees through \<open>%w\<close>.\<close>

fun rootError :: "http_error \<Rightarrow> http_error" where
  "rootError (Within ctx e) = rootError e"
| "rootError e = e"

abbreviation MethodGet :: string where "MethodGet \<equiv> ''GET''"
abbreviation MethodPost :: string where "MethodPost \<equiv> ''POST''"
abbreviation MethodPut :: string where "MethodPut \<equiv> ''PUT''"
abbreviation MethodPatch :: string where "MethodPatch \<equiv> ''PATCH''"

abbreviation isGet :: "request \<Rightarrow> bool" where
  "isGet rq \<equiv> rq_method rq = MethodGet"

subsection \<open>Retries\<close>

record retryPolicy =
  rt_maxAttempts :: int
  rt_base :: int
  rt_max :: int
  rt_timeout :: int

definition maxResponseBytes :: nat where "maxResponseBytes = 8 * 2 ^ 20"
definition listPerPage :: nat where "listPerPage = 100"
definition maxListPages :: nat where "maxListPages = 100"

text \<open>\<open>WithRetry\<close>: the fields that are positive replace those of the client.\<close>

definition WithRetry :: "retryPolicy \<Rightarrow> retryPolicy \<Rightarrow> retryPolicy" where
  "WithRetry p c =
     \<lparr>rt_maxAttempts = (if rt_maxAttempts p > 0 then rt_maxAttempts p else rt_maxAttempts c),
      rt_base = (if rt_base p > 0 then rt_base p else rt_base c),
      rt_max = (if rt_max p > 0 then rt_max p else rt_max c),
      rt_timeout = (if rt_timeout p > 0 then rt_timeout p else rt_timeout c)\<rparr>"

definition retryableMethod :: "string \<Rightarrow> bool" where
  "retryableMethod m \<longleftrightarrow> m = MethodGet \<or> m = ''HEAD''"

definition isRateLimited :: "int \<Rightarrow> response \<Rightarrow> bool" where
  "isRateLimited status h =
     (if status \<noteq> 403 \<and> status \<noteq> 429 then False else rs_retryAfter h \<noteq> '''' \<or> rs_remaining h = ''0'')"

definition bodyTooLarge :: "http_error \<Rightarrow> bool" where
  "bodyTooLarge e = (case e of BodyRead m p (OverLimit n) \<Rightarrow> True | _ \<Rightarrow> False)"

type_synonym attempt = "int \<times> (http_error + string)"

definition transient :: "attempt \<Rightarrow> bool" where
  "transient a = (case snd a of
       Inl e \<Rightarrow> \<not> bodyTooLarge e
     | Inr _ \<Rightarrow> fst a = 429 \<or> fst a \<ge> 500)"

text \<open>\<open>c.retry.BaseBackoff << (attempt - 1)\<close> on a 64-bit \<open>Duration\<close>.\<close>

definition backoffWindow :: "retryPolicy \<Rightarrow> nat \<Rightarrow> int" where
  "backoffWindow p attempt =
     (let window = sint (push_bit (attempt - 1) (word_of_int (rt_base p) :: 64 word))
      in if window \<le> 0 \<or> window > rt_max p then rt_max p else window)"

definition backoff :: "'s network \<Rightarrow> retryPolicy \<Rightarrow> nat \<Rightarrow> 's \<Rightarrow> int \<times> 's" where
  "backoff net p attempt s =
     (let half = backoffWindow p attempt div 2; (j, s') = nt_jitter net half s in (half + j, s'))"

text \<open>What one attempt makes of the answer; the read of the body is bounded.\<close>

definition answerOf :: "request \<Rightarrow> response \<Rightarrow> attempt" where
  "answerOf req resp =
     (if isRateLimited (rs_status resp) resp then (rs_status resp, Inl RateLimited)
      else case readBounded (rs_readErr resp) (rs_body resp) maxResponseBytes of
          Inl e \<Rightarrow> (rs_status resp, Inl (BodyRead (rq_method req) (rq_path req) e))
        | Inr raw \<Rightarrow> (rs_status resp, Inr raw))"

definition sendOnce :: "'s network \<Rightarrow> request \<Rightarrow> 's \<Rightarrow> attempt \<times> 's" where
  "sendOnce net req s = (case nt_send net req s of
       (Inl e, s') \<Rightarrow> ((0, Inl (TransportFailed (rq_method req) (rq_path req) e)), s')
     | (Inr resp, s') \<Rightarrow> (answerOf req resp, s'))"

text \<open>The loop of \<open>do\<close>, over one attempt of the adapter; \<open>attempt\<close> counts from 1.\<close>

definition attemptsFor :: "retryPolicy \<Rightarrow> string \<Rightarrow> string option \<Rightarrow> nat" where
  "attemptsFor p mth body =
     (if retryableMethod mth \<and> body = None then nat (rt_maxAttempts p) else 1)"

function attemptLoop :: "'s network \<Rightarrow> retryPolicy \<Rightarrow> ('s \<Rightarrow> attempt \<times> 's) \<Rightarrow> (string \<Rightarrow> http_error)
    \<Rightarrow> nat \<Rightarrow> nat \<Rightarrow> 's \<Rightarrow> attempt \<times> 's" where
  "attemptLoop net p once ctxDone attempts attempt s =
     (case nt_ctxErr net s of
        Some e \<Rightarrow> ((0, Inl (ctxDone e)), s)
      | None \<Rightarrow> (let (a, s1) = once s in
          if attempt \<ge> attempts \<or> \<not> transient a then (a, s1)
          else let (d, s2) = backoff net p attempt s1 in
            attemptLoop net p once ctxDone attempts (Suc attempt) (nt_sleep net d s2)))"
  by pat_completeness auto
termination by (relation "measure (\<lambda>(net, p, once, cd, attempts, attempt, s). attempts - attempt)") auto

declare attemptLoop.simps [simp del]

text \<open>A call that failed has no status its callers look at.\<close>

definition outcome :: "attempt \<times> 's \<Rightarrow> (http_error + int \<times> string) \<times> 's" where
  "outcome x = (case x of ((status, Inl e), s) \<Rightarrow> (Inl e, s) | ((status, Inr raw), s) \<Rightarrow> (Inr (status, raw), s))"

subsection \<open>Page loops\<close>

text \<open>
  A listing: pages from 1 until an empty or short one, an error past \<^const>\<open>maxListPages\<close>; a page is
  processed before the next is asked for.
\<close>

function pageLoop :: "'e \<Rightarrow> (nat \<Rightarrow> ('w, 'e, 'x list) act) \<Rightarrow> ('x list \<Rightarrow> ('w, 'e, 'y list) act)
    \<Rightarrow> nat \<Rightarrow> ('w, 'e, 'y list) act" where
  "pageLoop cap fetch step page =
     (if page > maxListPages then errA cap
      else bindA (fetch page) (\<lambda>rows.
        if rows = [] then okA []
        else bindA (step rows) (\<lambda>out.
          if length rows < listPerPage then okA out
          else bindA (pageLoop cap fetch step (Suc page)) (\<lambda>rest. okA (out @ rest)))))"
  by pat_completeness auto
termination by (relation "measure (\<lambda>(cap, fetch, step, page). Suc maxListPages - page)") auto

text \<open>An enumeration: at the ceiling it stops with what it has, and says that no short page was seen.\<close>

function gather :: "(nat \<Rightarrow> ('w, 'e, 'x list) act) \<Rightarrow> nat \<Rightarrow> ('w, 'e, 'x list \<times> bool) act" where
  "gather fetch page =
     (if page > maxListPages then okA ([], False)
      else bindA (fetch page) (\<lambda>rows.
        if length rows < listPerPage then okA (rows, True)
        else bindA (gather fetch (Suc page)) (\<lambda>(rest, terminated). okA (rows @ rest, terminated))))"
  by pat_completeness auto
termination by (relation "measure (\<lambda>(fetch, page). Suc maxListPages - page)") auto

declare pageLoop.simps [simp del] gather.simps [simp del]

text \<open>The rows of a page, each giving what it is, in order.\<close>

fun eachRow :: "('x \<Rightarrow> 'w \<Rightarrow> 'y list \<times> 'w) \<Rightarrow> 'x list \<Rightarrow> ('w, 'e, 'y list) act" where
  "eachRow f [] st = (Inr [], st)"
| "eachRow f (x # xs) st = (let (ys, st1) = f x st in bindA (eachRow f xs) (\<lambda>rest. okA (ys @ rest)) st1)"

definition quoted :: "string \<Rightarrow> string" where
  "quoted s = [CHR 0x22] @ s @ [CHR 0x22]"

subsection \<open>What the adapters are given\<close>

text \<open>
  The network, the hexadecimal SHA-256 digest, the error text of the JSON decoder on a payload, the
  text of an error and the clock.
\<close>

record 's adapterLibs =
  al_net :: "'s network"
  al_sha256 :: "string \<Rightarrow> string"
  al_jsonErr :: "string \<Rightarrow> string"
  al_text :: "http_error \<Rightarrow> string"
  al_now :: "'s \<Rightarrow> int"

text \<open>How an adapter's error reaches \<open>Reconcile\<close> and the run: \<open>errors.Is\<close> on the port's sentinels.\<close>

definition toForgeErr :: "'s adapterLibs \<Rightarrow> http_error \<Rightarrow> forge_error" where
  "toForgeErr libs e = (case rootError e of
       ShaMoved m \<Rightarrow> Wrapped (al_text libs e) ErrSHAMoved
     | InvalidSummary \<Rightarrow> ErrInvalidSummaryMarker
     | _ \<Rightarrow> AdapterError (al_text libs e))"

definition toPortErr :: "'s adapterLibs \<Rightarrow> http_error \<Rightarrow> port_error" where
  "toPortErr libs e = (case rootError e of FileAbsent p r \<Rightarrow> PortNotFound | _ \<Rightarrow> PortError (al_text libs e))"

lemma attemptLoop_step:
  assumes "nt_ctxErr net s = None" "once s = (a, s1)" "\<not> (attempt \<ge> attempts \<or> \<not> transient a)"
    "backoff net p attempt s1 = (d, s2)"
  shows "attemptLoop net p once cd attempts attempt s
    = attemptLoop net p once cd attempts (Suc attempt) (nt_sleep net d s2)"
  by (subst attemptLoop.simps) (use assms in simp)

lemma attemptLoop_last:
  assumes "nt_ctxErr net s = None" "once s = (a, s1)" "attempt \<ge> attempts \<or> \<not> transient a"
  shows "attemptLoop net p once cd attempts attempt s = (a, s1)"
  by (subst attemptLoop.simps) (use assms in simp)

lemma attemptLoop_ended:
  "nt_ctxErr net s = Some e \<Longrightarrow> attemptLoop net p once cd attempts attempt s = ((0, Inl (cd e)), s)"
  by (subst attemptLoop.simps) simp

subsection \<open>Relations a client keeps\<close>

definition within :: "('w \<Rightarrow> 'w \<Rightarrow> bool) \<Rightarrow> ('w, 'e, 'a) act \<Rightarrow> bool" where
  "within R m \<longleftrightarrow> (\<forall>w. R w (snd (m w)))"

named_theorems withinRules \<open>actions that stay within a relation\<close>

lemma withinI: "(\<And>w r w'. m w = (r, w') \<Longrightarrow> R w w') \<Longrightarrow> within R m"
  by (metis within_def prod.collapse)

lemma withinD: "within R m \<Longrightarrow> m w = (r, w') \<Longrightarrow> R w w'"
  by (metis within_def snd_conv)

lemma within_at: "within R m \<Longrightarrow> R w (snd (m w))"
  by (simp add: within_def)

lemma within_okA [withinRules]: "reflp R \<Longrightarrow> within R (okA a)"
  by (auto simp: within_def okA_def dest: reflpD)

lemma within_errA [withinRules]: "reflp R \<Longrightarrow> within R (errA e)"
  by (auto simp: within_def errA_def dest: reflpD)

lemma within_liftA [withinRules]: "reflp R \<Longrightarrow> within R (liftA ctx r)"
  by (cases r) (auto intro: within_okA within_errA)

lemma within_wrapA [withinRules]: "within R m \<Longrightarrow> within R (wrapA ctx m)"
  by (simp add: within_def wrapA_def split: prod.split sum.split) (metis snd_conv)

lemma wrapA_state: "snd (wrapA f m s) = snd (m s)"
  by (simp add: wrapA_def split: prod.split sum.split)

lemma within_bindA [withinRules]:
  assumes tr: "transp R" and m: "within R m" and k: "\<And>a. within R (k a)"
  shows "within R (bindA m k)"
proof (rule withinI)
  fix w r w' assume "bindA m k w = (r, w')"
  then show "R w w'"
  proof (cases rule: bindA_cases)
    case (err e)
    then show ?thesis using withinD [OF m] by blast
  next
    case (ok a v)
    then show ?thesis using withinD [OF m] withinD [OF k] transpD [OF tr] by blast
  qed
qed

lemma within_pageLoop [withinRules]:
  assumes "reflp R" "transp R" "\<And>i. within R (fetch i)" "\<And>rows. within R (step rows)"
  shows "within R (pageLoop cap fetch step page)"
proof (induction "Suc maxListPages - page" arbitrary: page)
  case 0
  then show ?case by (subst pageLoop.simps) (auto intro: within_errA assms)
next
  case (Suc n)
  then have "within R (pageLoop cap fetch step (Suc page))" by simp
  then show ?case by (subst pageLoop.simps) (auto intro!: withinRules assms)
qed

lemma within_gather [withinRules]:
  assumes "reflp R" "transp R" "\<And>i. within R (fetch i)"
  shows "within R (gather fetch page)"
proof (induction "Suc maxListPages - page" arbitrary: page)
  case 0
  then show ?case by (subst gather.simps) (auto intro: within_okA assms)
next
  case (Suc n)
  then have "within R (gather fetch (Suc page))" by simp
  then show ?case by (subst gather.simps) (auto intro!: withinRules assms split: prod.split)
qed

lemma within_eachRow [withinRules]:
  assumes "reflp R" "transp R" "\<And>x w. R w (snd (f x w))"
  shows "within R (eachRow f rows :: ('w, 'e, 'y list) act)"
proof (induction rows)
  case Nil
  show ?case using reflpD [OF assms(1)] by (simp add: within_def)
next
  case (Cons x xs)
  have k: "within R (bindA (eachRow f xs :: ('w, 'e, 'y list) act) (\<lambda>rest. okA (ys @ rest)))" for ys
    by (intro withinRules assms Cons.IH)
  show ?case
  proof (rule withinI)
    fix st r st' assume e: "(eachRow f (x # xs) :: ('w, 'e, 'y list) act) st = (r, st')"
    obtain ys st1 where f: "f x st = (ys, st1)" by (cases "f x st")
    have "R st st1" using assms(3) [of st x] f by simp
    moreover have "R st1 st'" by (rule withinD [OF k [of ys]]) (use e f in simp)
    ultimately show "R st st'" by (rule transpD [OF assms(2)])
  qed
qed

text \<open>
  What the adapters need of a network to read through it: the requests that \<open>allowed\<close> admits, sleeps
  and jitter stay within \<open>R\<close>.
\<close>

locale network_within =
  fixes net :: "'s network" and R :: "'s \<Rightarrow> 's \<Rightarrow> bool" and allowed :: "request \<Rightarrow> bool"
  assumes refl: "reflp R" and trans: "transp R"
    and send: "allowed req \<Longrightarrow> R s (snd (nt_send net req s))"
    and sleep: "R s (nt_sleep net d s)"
    and jitter: "R s (snd (nt_jitter net h s))"
begin

lemma sendOnce_within: "allowed req \<Longrightarrow> R s (snd (sendOnce net req s))"
  using send [of req s] by (auto simp: sendOnce_def split: prod.split sum.split)

lemma attemptLoop_within:
  assumes once: "\<And>t. R t (snd (once t))"
  shows "R s (snd (attemptLoop net p once cd attempts attempt s))"
proof (induction "attempts - attempt" arbitrary: attempt s rule: less_induct)
  case less
  obtain a s1 where o: "once s = (a, s1)" by (cases "once s")
  have 1: "R s s1" using once [of s] o by simp
  show ?case
  proof (cases "nt_ctxErr net s")
    case (Some e)
    show ?thesis using reflpD [OF refl] by (simp add: attemptLoop_ended [OF Some])
  next
    case None
    show ?thesis
    proof (cases "attempt \<ge> attempts \<or> \<not> transient a")
      case True
      show ?thesis using 1 attemptLoop_last [where once = once, OF None o True] by simp
    next
      case False
      obtain d s2 where b: "backoff net p attempt s1 = (d, s2)" by (cases "backoff net p attempt s1")
      have "R s1 s2" using jitter [of s1 "backoffWindow p attempt div 2"] b
        by (auto simp: backoff_def Let_def split: prod.splits)
      then have "R s s2" by (rule transpD [OF trans 1])
      then have 2: "R s (nt_sleep net d s2)" by (rule transpD [OF trans]) (rule sleep)
      have lt: "attempts - Suc attempt < attempts - attempt" using False by auto
      have "R s (snd (attemptLoop net p once cd attempts (Suc attempt) (nt_sleep net d s2)))"
        by (rule transpD [OF trans 2]) (rule less.hyps [OF lt])
      then show ?thesis using attemptLoop_step [where once = once, OF None o False b] by simp
    qed
  qed
qed

end

text \<open>A network that keeps the log of what was sent; the log may only grow by admitted requests.\<close>

definition logged :: "'s network \<Rightarrow> ('s \<times> request list) network" where
  "logged net =
     \<lparr>nt_ctxErr = \<lambda>(s, l). nt_ctxErr net s, nt_build = nt_build net,
      nt_send = \<lambda>req (s, l). (case nt_send net req s of (r, s') \<Rightarrow> (r, (s', l @ [req]))),
      nt_sleep = \<lambda>d (s, l). (nt_sleep net d s, l),
      nt_jitter = \<lambda>h (s, l). (case nt_jitter net h s of (j, s') \<Rightarrow> (j, (s', l)))\<rparr>"

definition grows :: "(request \<Rightarrow> bool) \<Rightarrow> 's \<times> request list \<Rightarrow> 's \<times> request list \<Rightarrow> bool" where
  "grows allowed x y \<longleftrightarrow> (\<exists>k. snd y = snd x @ k \<and> list_all allowed k)"

interpretation sent: network_within "logged net" "grows allowed" allowed for net allowed
proof
  show "reflp (grows allowed)" by (auto simp: reflp_def grows_def)
  show "transp (grows allowed)" by (fastforce simp: transp_def grows_def)
qed (auto simp: logged_def grows_def split: prod.split)

definition loggedLibs :: "'s adapterLibs \<Rightarrow> ('s \<times> request list) adapterLibs" where
  "loggedLibs l = \<lparr>al_net = logged (al_net l), al_sha256 = al_sha256 l, al_jsonErr = al_jsonErr l,
     al_text = al_text l, al_now = al_now l \<circ> fst\<rparr>"

lemma outcome_state: "snd (outcome x) = snd x"
  by (auto simp: outcome_def split: prod.split sum.split)

text \<open>What a caller sees of a failure that may pass.\<close>

definition passing :: "http_error + int \<times> string \<Rightarrow> bool" where
  "passing x = (case x of
       Inl e \<Rightarrow> \<not> bodyTooLarge e
     | Inr (status, raw) \<Rightarrow> status = 429 \<or> status \<ge> 500)"

lemma passing_outcome: "passing (fst (outcome x)) = transient (fst x)"
  by (auto simp: passing_def outcome_def transient_def split: prod.split sum.split)

text \<open>A call sends at most as many requests as it may make attempts, and all are the same.\<close>

lemma logged_simps [simp]:
  "nt_build (logged net) = nt_build net" "nt_ctxErr (logged net) s = nt_ctxErr net (fst s)"
  "snd (nt_sleep (logged net) d s) = snd s" "snd (snd (nt_jitter (logged net) h s)) = snd s"
  by (simp_all add: logged_def split: prod.split)

lemma sendOnce_logs: "snd (snd (sendOnce (logged net) req s)) = snd s @ [req]"
  by (cases s) (auto simp: sendOnce_def logged_def split: prod.split sum.split)

lemma backoff_logs: "backoff (logged net) p attempt s = (d, s2) \<Longrightarrow> snd s2 = snd s"
  by (auto simp: backoff_def Let_def logged_def split: prod.splits)

lemma attemptLoop_sends:
  assumes once: "\<And>s. \<exists>j \<le> 1. snd (snd (once s)) = snd s @ replicate j req"
  shows "\<exists>k \<le> Suc (attempts - attempt).
     snd (snd (attemptLoop (logged net) p once cd attempts attempt s)) = snd s @ replicate k req"
proof (induction "attempts - attempt" arbitrary: attempt s rule: less_induct)
  case less
  obtain a s1 where o: "once s = (a, s1)" by (cases "once s")
  obtain j where j: "j \<le> 1" "snd s1 = snd s @ replicate j req" using once [of s] o by auto
  show ?case
  proof (cases "nt_ctxErr (logged net) s")
    case (Some e)
    show ?thesis by (rule exI [of _ 0]) (simp add: attemptLoop_ended [OF Some])
  next
    case None
    show ?thesis
    proof (cases "attempt \<ge> attempts \<or> \<not> transient a")
      case True
      show ?thesis using j attemptLoop_last [where once = once, OF None o True] by (intro exI [of _ j]) auto
    next
      case False
      obtain d s2 where b: "backoff (logged net) p attempt s1 = (d, s2)" by (cases "backoff (logged net) p attempt s1")
      have lt: "attempts - Suc attempt < attempts - attempt" using False by auto
      from less.hyps [OF lt, of "nt_sleep (logged net) d s2"] obtain k where
        k: "k \<le> Suc (attempts - Suc attempt)"
          "snd (snd (attemptLoop (logged net) p once cd attempts (Suc attempt) (nt_sleep (logged net) d s2))) = snd s2 @ replicate k req"
        by auto
      have "snd (snd (attemptLoop (logged net) p once cd attempts attempt s)) = snd s @ replicate (j + k) req"
        using attemptLoop_step [where once = once, OF None o False b] k(2) backoff_logs [OF b] j(2) by (simp add: replicate_add)
      moreover have "j + k \<le> Suc (attempts - attempt)" using j(1) k(1) lt by linarith
      ultimately show ?thesis by blast
    qed
  qed
qed

text \<open>And it gives up on a transient failure only when all attempts are spent.\<close>

lemma attemptLoop_persists:
  assumes ctx: "\<And>s. nt_ctxErr net s = None" and "attempt \<le> attempts"
    and "attemptLoop (logged net) p (sendOnce (logged net) req) cd attempts attempt s = (a, s')" "transient a"
  shows "snd s' = snd s @ replicate (Suc (attempts - attempt)) req"
  using assms(2-)
proof (induction "attempts - attempt" arbitrary: attempt s)
  case 0
  obtain a1 s1 where o: "sendOnce (logged net) req s = (a1, s1)" by (cases "sendOnce (logged net) req s")
  have "attemptLoop (logged net) p (sendOnce (logged net) req) cd attempts attempt s = (a1, s1)"
    by (rule attemptLoop_last) (use ctx o 0 in simp_all)
  then show ?case using 0 sendOnce_logs [of net req s] o by simp
next
  case (Suc n)
  obtain a1 s1 where o: "sendOnce (logged net) req s = (a1, s1)" by (cases "sendOnce (logged net) req s")
  obtain d s2 where b: "backoff (logged net) p attempt s1 = (d, s2)" by (cases "backoff (logged net) p attempt s1")
  have N: "nt_ctxErr (logged net) s = None" by (simp add: ctx)
  have t: "\<not> (attempt \<ge> attempts \<or> \<not> transient a1)"
  proof
    assume "attempt \<ge> attempts \<or> \<not> transient a1"
    from attemptLoop_last [where once = "sendOnce (logged net) req", OF N o this] Suc.prems Suc.hyps(2) show False
      using \<open>attempt \<ge> attempts \<or> \<not> transient a1\<close> by auto
  qed
  have n: "n = attempts - Suc attempt" using Suc.hyps(2) by arith
  have "snd s' = snd (nt_sleep (logged net) d s2) @ replicate (Suc (attempts - Suc attempt)) req"
    by (rule Suc.hyps(1) [OF n]) (use Suc.prems attemptLoop_step [where once = "sendOnce (logged net) req", OF N o t b] Suc.hyps(2) in simp_all)
  moreover have "Suc (attempts - attempt) = Suc (Suc (attempts - Suc attempt))" using n Suc.hyps(2) by simp
  ultimately show ?case using backoff_logs [OF b] sendOnce_logs [of net req s] o by (simp only:) simp
qed

lemma backoffWindow_bounds:
  "0 < rt_max p \<Longrightarrow> 0 < backoffWindow p attempt \<and> backoffWindow p attempt \<le> rt_max p"
  by (auto simp: backoffWindow_def Let_def)

lemma backoff_bounds:
  assumes "0 < rt_max p" and "\<And>h s. 0 \<le> h \<Longrightarrow> 0 \<le> fst (nt_jitter net h s) \<and> fst (nt_jitter net h s) \<le> h"
  shows "0 \<le> fst (backoff net p attempt s) \<and> fst (backoff net p attempt s) \<le> rt_max p"
proof -
  define h where "h = backoffWindow p attempt div 2"
  obtain j s' where j: "nt_jitter net h s = (j, s')" by fastforce
  have "0 \<le> h" using backoffWindow_bounds [OF assms(1), of attempt] by (simp add: h_def)
  then have "0 \<le> j \<and> j \<le> h" using assms(2) [of h s] j by simp
  moreover have "h + h \<le> rt_max p"
    using backoffWindow_bounds [OF assms(1), of attempt] unfolding h_def by presburger
  moreover have "fst (backoff net p attempt s) = h + j" by (simp add: backoff_def h_def [symmetric] j Let_def)
  ultimately show ?thesis by linarith
qed

subsection \<open>What a page loop reads\<close>

text \<open>
  The pages of a listing with what each was turned into, and the pages of an enumeration: all full but
  the last.
\<close>

inductive listed :: "(nat \<Rightarrow> ('w, 'e, 'x list) act) \<Rightarrow> ('x list \<Rightarrow> ('w, 'e, 'y list) act)
    \<Rightarrow> nat \<Rightarrow> 'w \<Rightarrow> ('x list \<times> 'y list) list \<Rightarrow> 'w \<Rightarrow> bool" for fetch step where
  nothing: "fetch i w = (Inr [], w1) \<Longrightarrow> i \<le> maxListPages \<Longrightarrow> listed fetch step i w [] w1"
| short: "fetch i w = (Inr rows, w1) \<Longrightarrow> i \<le> maxListPages \<Longrightarrow> rows \<noteq> [] \<Longrightarrow> length rows < listPerPage \<Longrightarrow>
     step rows w1 = (Inr out, w2) \<Longrightarrow> listed fetch step i w [(rows, out)] w2"
| full: "fetch i w = (Inr rows, w1) \<Longrightarrow> i \<le> maxListPages \<Longrightarrow> rows \<noteq> [] \<Longrightarrow> length rows \<ge> listPerPage \<Longrightarrow>
     step rows w1 = (Inr out, w2) \<Longrightarrow> listed fetch step (Suc i) w2 pages w3 \<Longrightarrow>
     listed fetch step i w ((rows, out) # pages) w3"

inductive enumerated :: "(nat \<Rightarrow> ('w, 'e, 'x list) act) \<Rightarrow> nat \<Rightarrow> 'w \<Rightarrow> 'x list list \<Rightarrow> 'w \<Rightarrow> bool" for fetch where
  lastPage: "fetch i w = (Inr rows, w1) \<Longrightarrow> i \<le> maxListPages \<Longrightarrow> length rows < listPerPage \<Longrightarrow>
     enumerated fetch i w [rows] w1"
| fullPage: "fetch i w = (Inr rows, w1) \<Longrightarrow> i \<le> maxListPages \<Longrightarrow> length rows \<ge> listPerPage \<Longrightarrow>
     enumerated fetch (Suc i) w1 pages w2 \<Longrightarrow> enumerated fetch i w (rows # pages) w2"

lemma pageLoop_listed:
  "pageLoop cap fetch step i w = (Inr out, w') \<Longrightarrow>
     \<exists>pages. listed fetch step i w pages w' \<and> out = concat (map snd pages)"
proof (induction "Suc maxListPages - i" arbitrary: i w out)
  case 0
  then show ?case by (subst (asm) pageLoop.simps) simp
next
  case (Suc n)
  have i: "i \<le> maxListPages" "n = Suc maxListPages - Suc i" using Suc.hyps(2) by arith+
  obtain rows w1 where f: "fetch i w = (Inr rows, w1)"
    using Suc.prems i(1) by (subst (asm) pageLoop.simps) (auto simp: bindA_Inr_iff)
  show ?case
  proof (cases "rows = []")
    case True
    then have "listed fetch step i w [] w'" "out = []"
      using Suc.prems i(1) f by (subst (asm) pageLoop.simps, auto simp: bindA_def intro: listed.nothing)+
    then show ?thesis by (metis concat.simps(1) list.simps(8))
  next
    case False
    then obtain o1 w2 where s: "step rows w1 = (Inr o1, w2)"
      using Suc.prems i(1) f by (subst (asm) pageLoop.simps) (auto simp: bindA_Inr_iff)
    show ?thesis
    proof (cases "length rows < listPerPage")
      case True
      then have "out = o1 \<and> w' = w2"
        using Suc.prems i(1) f s False by (subst (asm) pageLoop.simps) (auto simp: bindA_def)
      with listed.short [of fetch i w rows w1 step o1 w2] f i(1) False True s show ?thesis
        by (intro exI [of _ "[(rows, o1)]"]) simp
    next
      case long: False
      then obtain rest where r: "pageLoop cap fetch step (Suc i) w2 = (Inr rest, w')" "out = o1 @ rest"
        using Suc.prems i(1) f s False by (subst (asm) pageLoop.simps) (auto simp: bindA_Inr_iff bindA_def split: prod.splits sum.splits)
      from Suc.hyps(1) [OF i(2) r(1)] obtain pages where
        p: "listed fetch step (Suc i) w2 pages w'" "rest = concat (map snd pages)" by blast
      have "listed fetch step i w ((rows, o1) # pages) w'"
        by (rule listed.full [of fetch i w rows w1 step o1 w2]) (use f i(1) False long s p(1) in simp_all)
      with r(2) p(2) show ?thesis by (intro exI [of _ "(rows, o1) # pages"]) simp
    qed
  qed
qed

lemma gather_enumerated:
  "gather fetch i w = (Inr (rows, True), w') \<Longrightarrow> \<exists>pages. enumerated fetch i w pages w' \<and> rows = concat pages"
proof (induction "Suc maxListPages - i" arbitrary: i w rows)
  case 0
  then show ?case by (subst (asm) gather.simps) simp
next
  case (Suc n)
  have i: "i \<le> maxListPages" "n = Suc maxListPages - Suc i" using Suc.hyps(2) by arith+
  obtain r1 w1 where f: "fetch i w = (Inr r1, w1)"
    using Suc.prems i(1) by (subst (asm) gather.simps) (auto simp: bindA_Inr_iff)
  show ?case
  proof (cases "length r1 < listPerPage")
    case True
    then have "rows = r1 \<and> w' = w1" using Suc.prems i(1) f by (subst (asm) gather.simps) (auto simp: bindA_def)
    with enumerated.lastPage [of fetch i w r1 w1] f i(1) True show ?thesis by (intro exI [of _ "[r1]"]) simp
  next
    case False
    then obtain rest where r: "gather fetch (Suc i) w1 = (Inr (rest, True), w')" "rows = r1 @ rest"
      using Suc.prems i(1) f by (subst (asm) gather.simps) (auto simp: bindA_Inr_iff bindA_def split: prod.splits sum.splits)
    from Suc.hyps(1) [OF i(2) r(1)] obtain pages where
      p: "enumerated fetch (Suc i) w1 pages w'" "rest = concat pages" by blast
    have "enumerated fetch i w (r1 # pages) w'"
      by (rule enumerated.fullPage [of fetch i w r1 w1]) (use f i(1) False p(1) in simp_all)
    with r(2) p(2) show ?thesis by (intro exI [of _ "r1 # pages"]) simp
  qed
qed

lemma eachRow_from:
  "(eachRow f rows :: ('w, 'e, 'y list) act) st = (Inr out, st') \<Longrightarrow> y \<in> set out \<Longrightarrow> \<exists>x s. x \<in> set rows \<and> y \<in> set (fst (f x s))"
proof (induction rows arbitrary: st out)
  case (Cons x xs)
  obtain ys s1 where f: "f x st = (ys, s1)" by (cases "f x st")
  obtain rest where r: "(eachRow f xs :: ('w, 'e, 'y list) act) s1 = (Inr rest, st')" "out = ys @ rest"
    using Cons.prems(1) f by (auto simp: bindA_Inr_iff)
  show ?case
  proof (cases "y \<in> set ys")
    case True
    then have "y \<in> set (fst (f x st))" by (simp add: f)
    then show ?thesis by (intro exI [of _ x] exI [of _ st]) simp
  next
    case False
    then have "y \<in> set rest" using Cons.prems(2) r(2) by simp
    from Cons.IH [OF r(1) this] show ?thesis by auto
  qed
qed simp

lemma listed_from:
  "listed fetch step i w pages w' \<Longrightarrow> y \<in> set (concat (map snd pages)) \<Longrightarrow>
     \<exists>rows out s s'. step rows s = (Inr out, s') \<and> y \<in> set out"
proof (induction rule: listed.induct)
  case (full i w rows w1 out w2 pages w3)
  show ?case
  proof (cases "y \<in> set out")
    case True
    with full(5) show ?thesis by blast
  qed (use full in simp)
qed auto

lemma enumerated_gather: "enumerated fetch i w pages w' \<Longrightarrow> gather fetch i w = (Inr (concat pages, True), w')"
  by (induction rule: enumerated.induct; subst gather.simps) (simp_all add: bindA_def okA_def)

lemma attemptLoop_from:
  "(\<exists>t. fst (attemptLoop net p once cd attempts attempt s) = fst (once t))
   \<or> (\<exists>e. fst (attemptLoop net p once cd attempts attempt s) = (0, Inl (cd e)))"
proof (induction "attempts - attempt" arbitrary: attempt s rule: less_induct)
  case less
  obtain a s1 where o: "once s = (a, s1)" by (cases "once s")
  show ?case
  proof (cases "nt_ctxErr net s")
    case (Some e)
    then show ?thesis by (auto simp: attemptLoop_ended)
  next
    case None
    show ?thesis
    proof (cases "attempt \<ge> attempts \<or> \<not> transient a")
      case True
      have "fst (attemptLoop net p once cd attempts attempt s) = fst (once s)"
        using attemptLoop_last [where once = once, OF None o True] o by simp
      then show ?thesis by blast
    next
      case False
      obtain d s2 where b: "backoff net p attempt s1 = (d, s2)" by (cases "backoff net p attempt s1")
      have "attempts - Suc attempt < attempts - attempt" using False by auto
      from less.hyps [OF this] show ?thesis
        unfolding attemptLoop_step [where once = once, OF None o False b] .
    qed
  qed
qed

subsection \<open>A path segment stays one segment\<close>

lemma percent_no_slash: "CHR ''/'' \<notin> set (percent c)"
proof -
  have "(of_char (upperHex k) :: nat) \<noteq> 47" if "k < 16" for k using that by (auto simp: upperHex_def)
  then have h: "upperHex k \<noteq> CHR ''/''" if "k < 16" for k using that by fastforce
  have "(of_char c :: nat) div 16 < 16"
    using nat_of_char_less_256 [of c] by (simp add: div_less_iff_less_mult)
  then show ?thesis using h [of "of_char c div 16"] h [of "of_char c mod 16"]
    by (auto simp: percent_def)
qed

lemma PathEscape_no_slash: "CHR ''/'' \<notin> set (PathEscape s)"
proof -
  have "\<not> pathKeeps (CHR ''/'')" by (simp add: pathKeeps_def isAlnum_def)
  then show ?thesis using percent_no_slash by (auto simp: PathEscape_def)
qed

lemma percent_inj: "percent c @ s = percent d @ t \<Longrightarrow> c = d \<and> s = t"
proof -
  assume e: "percent c @ s = percent d @ t"
  have u: "upperHex k = upperHex l \<longleftrightarrow> k = l" if "k < 16" "l < 16" for k l
  proof
    assume "upperHex k = upperHex l"
    then have "(of_char (upperHex k) :: nat) = of_char (upperHex l)" by simp
    then show "k = l" using that by (auto simp: upperHex_def split: if_splits)
  qed simp
  have b: "(of_char x :: nat) div 16 < 16" for x :: char
    using nat_of_char_less_256 [of x] by (simp add: div_less_iff_less_mult)
  have "(of_char c :: nat) div 16 = of_char d div 16" "(of_char c :: nat) mod 16 = of_char d mod 16"
    using e b [of c] b [of d] by (auto simp: percent_def u)
  then have "(of_char c :: nat) = of_char d" by (metis div_mult_mod_eq)
  then show ?thesis using e by (simp add: percent_def)
qed

lemma PathEscape_inj: "PathEscape s = PathEscape t \<Longrightarrow> s = t"
proof (induction s arbitrary: t)
  case Nil
  then show ?case by (cases t) (auto simp: PathEscape_def percent_def split: if_splits)
next
  case (Cons c s)
  have p: "\<not> pathKeeps (CHR ''%'')" by (simp add: pathKeeps_def isAlnum_def)
  obtain d u where t: "t = d # u" using Cons.prems by (cases t) (auto simp: PathEscape_def percent_def split: if_splits)
  have e: "(if pathKeeps c then [c] else percent c) @ PathEscape s
      = (if pathKeeps d then [d] else percent d) @ PathEscape u"
    using Cons.prems by (simp add: t PathEscape_def)
  have "c = d \<and> PathEscape s = PathEscape u"
  proof (cases "pathKeeps c"; cases "pathKeeps d")
    assume "\<not> pathKeeps c" "\<not> pathKeeps d"
    then show ?thesis using e percent_inj by simp
  qed (use e p in \<open>auto simp: percent_def\<close>)
  then show ?case using Cons.IH t by simp
qed

end
