(* ===== verification/Gitlab.thy ===== *)
theory Gitlab
  imports Http Builtin "HOL-Library.Monad_Syntax"
begin

text \<open>
  The GitLab adapter (\<open>internal/forge/gitlab/gitlab.go\<close>): the client and its transport, the reads the
  run pins itself to, the listings of bot threads and notes, and the writes. Its state is the remote
  side, the pinned merge request and the set of warnings; a call returns an error or a value and the
  state it left.
\<close>

subsection \<open>The client\<close>

record 's gitlabClient =
  gl_endpoint :: string
  gl_token :: string
  gl_botAuthor :: string
  gl_retry :: retryPolicy
  gl_libs :: "'s adapterLibs"

record 's gitlabState =
  gs_remote :: 's
  gs_pin :: "(string \<times> mrMetadata) option"
  gs_warnings :: "string list"

type_synonym ('s, 'a) gl = "('s gitlabState, http_error, 'a) act"

definition glDefaultRetry :: retryPolicy where
  "glDefaultRetry = \<lparr>rt_maxAttempts = 3, rt_base = 200 * 10 ^ 6, rt_max = 2 * 10 ^ 9, rt_timeout = 30 * 10 ^ 9\<rparr>"

definition glNew :: "'s adapterLibs \<Rightarrow> string \<Rightarrow> string \<Rightarrow> string \<Rightarrow> retryPolicy option \<Rightarrow> 's gitlabClient" where
  "glNew libs endpoint token botAuthor opt =
     \<lparr>gl_endpoint = rev (dropWhile (\<lambda>c. c = CHR ''/'') (rev endpoint)), gl_token = token,
      gl_botAuthor = botAuthor,
      gl_retry = (case opt of None \<Rightarrow> glDefaultRetry | Some p \<Rightarrow> WithRetry p glDefaultRetry), gl_libs = libs\<rparr>"

definition glWarn :: "string \<Rightarrow> 's gitlabState \<Rightarrow> 's gitlabState" where
  "glWarn msg st = st\<lparr>gs_warnings := List.insert msg (gs_warnings st)\<rparr>"

definition glWarningsSorted :: "'s gitlabState \<Rightarrow> string list" where
  "glWarningsSorted st = sort (gs_warnings st)"

definition glIdentity :: "'s gitlabClient \<Rightarrow> identity" where
  "glIdentity c = \<lparr>id_kind = ''user'', id_login = gl_botAuthor c, id_id = gl_botAuthor c\<rparr>"

subsection \<open>The transport\<close>

definition glRequest :: "'s gitlabClient \<Rightarrow> string \<Rightarrow> string \<Rightarrow> string option \<Rightarrow> string \<Rightarrow> request" where
  "glRequest c mth path body contentType =
     \<lparr>rq_method = mth, rq_url = gl_endpoint c @ path, rq_path = path, rq_body = body,
      rq_headers = (''PRIVATE-TOKEN'', gl_token c)
        # (if contentType = '''' then [] else [(''Content-Type'', contentType)])\<rparr>"

definition glDoOnce :: "'s gitlabClient \<Rightarrow> string \<Rightarrow> string \<Rightarrow> string option \<Rightarrow> string \<Rightarrow> 's \<Rightarrow> attempt \<times> 's" where
  "glDoOnce c mth path body contentType s =
     (case nt_build (al_net (gl_libs c)) mth (gl_endpoint c @ path) of
        Some e \<Rightarrow> ((0, Inl (BuildFailed mth path e)), s)
      | None \<Rightarrow> sendOnce (al_net (gl_libs c)) (glRequest c mth path body contentType) s)"

definition glDo :: "'s gitlabClient \<Rightarrow> string \<Rightarrow> string \<Rightarrow> string option \<Rightarrow> string \<Rightarrow> ('s, int \<times> string) gl" where
  "glDo c mth path body contentType = (\<lambda>st.
     case outcome (attemptLoop (al_net (gl_libs c)) (gl_retry c) (glDoOnce c mth path body contentType)
         (ContextDone mth path) (attemptsFor (gl_retry c) mth body) 1 (gs_remote st)) of
       (r, s) \<Rightarrow> (r, st\<lparr>gs_remote := s\<rparr>))"

text \<open>A GET that must answer 200 and decode.\<close>

definition glGetOK :: "'s gitlabClient \<Rightarrow> string \<Rightarrow> string \<Rightarrow> (string \<Rightarrow> 'a option) \<Rightarrow> ('s, 'a) gl" where
  "glGetOK c op path dec = bindA (glDo c MethodGet path None '''') (\<lambda>(status, raw).
     if status \<noteq> 200 then errA (BadStatus op status)
     else case dec raw of None \<Rightarrow> errA (Undecodable op) | Some a \<Rightarrow> okA a)"

definition glMrPath :: "string \<Rightarrow> string \<Rightarrow> string" where
  "glMrPath project mr = ''/api/v4/projects/'' @ PathEscape project @ ''/merge_requests/'' @ PathEscape mr"

definition glPageQuery :: "nat \<Rightarrow> string" where
  "glPageQuery page = ''?per_page='' @ nat_digits listPerPage @ ''&page='' @ nat_digits page"

subsection \<open>Merge requests\<close>

record mrResponse =
  mw_iid :: int
  mw_projectID :: int
  mw_sourceProjectID :: int
  mw_sha :: string
  mw_sourceBranch :: string
  mw_targetBranch :: string
  mw_labels :: "string list"

definition glDecodeMR :: "jobj \<Rightarrow> mrResponse option" where
  "glDecodeMR ms = do {
     iid \<leftarrow> intField ''iid'' ms; pid \<leftarrow> intField ''project_id'' ms;
     spid \<leftarrow> intField ''source_project_id'' ms; sha \<leftarrow> stringField ''sha'' ms;
     sb \<leftarrow> stringField ''source_branch'' ms; tb \<leftarrow> stringField ''target_branch'' ms;
     ls \<leftarrow> Option.bind (arrayField ''labels'' ms) (mapAll stringOf);
     Some \<lparr>mw_iid = iid, mw_projectID = pid, mw_sourceProjectID = spid, mw_sha = sha,
       mw_sourceBranch = sb, mw_targetBranch = tb, mw_labels = ls\<rparr> }"

definition glDecodeBranch :: "jobj \<Rightarrow> string option" where
  "glDecodeBranch ms = Option.bind (structField ''commit'' ms) (stringField ''id'')"

definition glBranchTip :: "'s gitlabClient \<Rightarrow> string \<Rightarrow> string \<Rightarrow> ('s, string) gl" where
  "glBranchTip c project branch =
     glGetOK c (''branch '' @ project @ ''/'' @ branch)
       (''/api/v4/projects/'' @ PathEscape project @ ''/repository/branches/'' @ PathEscape branch)
       (decodeStruct glDecodeBranch)"

definition glInfoOf :: "mrResponse \<Rightarrow> string \<Rightarrow> mrMetadata" where
  "glInfoOf w targetSHA =
     \<lparr>md_iid = itoa (mw_iid w), md_project = itoa (mw_projectID w), md_sourceBranch = mw_sourceBranch w,
      md_targetBranch = mw_targetBranch w, md_source = mw_sha w, md_target = targetSHA,
      md_fork = (mw_sourceProjectID w \<noteq> 0 \<and> mw_sourceProjectID w \<noteq> mw_projectID w),
      md_sourceProject = itoa (mw_sourceProjectID w), md_labels = mw_labels w\<rparr>"

definition glPinKey :: "string \<Rightarrow> string \<Rightarrow> string" where
  "glPinKey project mr = project @ ''/'' @ mr"

text \<open>First write wins: only another merge request replaces the pin.\<close>

definition glWritePin :: "string \<Rightarrow> string \<Rightarrow> mrMetadata \<Rightarrow> 's gitlabState \<Rightarrow> 's gitlabState" where
  "glWritePin project mr info st =
     (if (case gs_pin st of Some (k, i) \<Rightarrow> k \<noteq> glPinKey project mr | None \<Rightarrow> True)
      then st\<lparr>gs_pin := Some (glPinKey project mr, info)\<rparr> else st)"

definition glGetMR :: "'s gitlabClient \<Rightarrow> string \<Rightarrow> string \<Rightarrow> ('s, mrMetadata) gl" where
  "glGetMR c project mr =
     bindA (glGetOK c (''MR '' @ project @ ''!'' @ mr) (glMrPath project mr) (decodeStruct glDecodeMR)) (\<lambda>w.
     bindA (glBranchTip c project (mw_targetBranch w)) (\<lambda>targetSHA.
       (\<lambda>st. (Inr (glInfoOf w targetSHA), glWritePin project mr (glInfoOf w targetSHA) st))))"

definition glMrPinned :: "'s gitlabClient \<Rightarrow> string \<Rightarrow> string \<Rightarrow> ('s, mrMetadata) gl" where
  "glMrPinned c project mr = (\<lambda>st. case gs_pin st of
       Some (k, info) \<Rightarrow> if k = glPinKey project mr then (Inr info, st) else glGetMR c project mr st
     | None \<Rightarrow> glGetMR c project mr st)"

subsection \<open>Files\<close>

definition glFileAtRef :: "'s gitlabClient \<Rightarrow> string \<Rightarrow> string \<Rightarrow> string \<Rightarrow> ('s, string) gl" where
  "glFileAtRef c project path ref =
     bindA (glDo c MethodGet (''/api/v4/projects/'' @ PathEscape project @ ''/repository/files/''
         @ PathEscape path @ ''/raw?ref='' @ QueryEscape ref) None '''') (\<lambda>(status, raw).
       if status = 200 then okA raw
       else if status = 401 \<or> status = 403 then errA (Unauthorized (''file '' @ path @ '' at '' @ ref) status)
       else if status = 404 then errA (FileAbsent path ref)
       else errA (BadStatus (''file '' @ path @ '' at '' @ ref) status))"

definition glFileAtBase :: "'s gitlabClient \<Rightarrow> string \<Rightarrow> string \<Rightarrow> string \<Rightarrow> ('s, string) gl" where
  "glFileAtBase c project mr path =
     bindA (glMrPinned c project mr) (\<lambda>info. glFileAtRef c project path (md_target info))"

definition glFileAtHead :: "'s gitlabClient \<Rightarrow> string \<Rightarrow> string \<Rightarrow> string \<Rightarrow> ('s, string) gl" where
  "glFileAtHead c project mr path =
     bindA (glMrPinned c project mr) (\<lambda>info.
       if md_fork info then
         (if md_sourceProject info = '''' \<or> md_sourceProject info = ''0''
          then errA (Refused (''fork MR '' @ project @ ''!'' @ mr @ '' has no source project id''))
          else glFileAtRef c (md_sourceProject info) path (md_source info))
       else glFileAtRef c project path (md_source info))"

subsection \<open>Listings\<close>

record discussionNote =
  dn_body :: string
  dn_resolved :: bool
  dn_author :: string

record discussion =
  dc_id :: string
  dc_notes :: "discussionNote list"

definition glUsernameOf :: "string \<Rightarrow> jobj \<Rightarrow> string option" where
  "glUsernameOf f ms = Option.bind (structField f ms) (stringField ''username'')"

definition decodeDiscussionNote :: "jobj \<Rightarrow> discussionNote option" where
  "decodeDiscussionNote ms = do {
     b \<leftarrow> stringField ''body'' ms; r \<leftarrow> boolField ''resolved'' ms; a \<leftarrow> glUsernameOf ''author'' ms;
     Some \<lparr>dn_body = b, dn_resolved = r, dn_author = a\<rparr> }"

definition decodeDiscussion :: "jobj \<Rightarrow> discussion option" where
  "decodeDiscussion ms = do {
     i \<leftarrow> stringField ''id'' ms;
     vs \<leftarrow> arrayField ''notes'' ms;
     ns \<leftarrow> mapAll (\<lambda>v. Option.bind (structOf v) decodeDiscussionNote) vs;
     Some \<lparr>dc_id = i, dc_notes = ns\<rparr> }"

text \<open>One discussion: the thread it is, or the warning it leaves.\<close>

definition glThreadOf :: "'s gitlabClient \<Rightarrow> discussion \<Rightarrow> 's gitlabState \<Rightarrow> thread list \<times> 's gitlabState" where
  "glThreadOf c d st =
     (case dc_notes d of [] \<Rightarrow> ([], st)
      | note # _ \<Rightarrow>
         if dn_author note \<noteq> gl_botAuthor c then ([], st)
         else (case parseMarker (dn_body note) of
             Malformed payload \<Rightarrow> ([], glWarn (markerSkipWarning ''gitlab'' ''discussion'' (dc_id d)
                (''gitlab: parse marker payload: '' @ al_jsonErr (gl_libs c) payload)) st)
           | NoMarker \<Rightarrow> ([], st)
           | Marked m \<Rightarrow> ([\<lparr>t_id = dc_id d, t_marker = m, t_author = dn_author note, t_resolved = dn_resolved note\<rparr>], st)))"

definition glListBotThreads :: "'s gitlabClient \<Rightarrow> string \<Rightarrow> string \<Rightarrow> ('s, thread list) gl" where
  "glListBotThreads c project mr =
     pageLoop (PageCap (''discussions '' @ project @ ''!'' @ mr))
       (\<lambda>page. glGetOK c (''discussions '' @ project @ ''!'' @ mr)
          (glMrPath project mr @ ''/discussions'' @ glPageQuery page) (decodeList decodeDiscussion))
       (eachRow (glThreadOf c)) 1"

record noteRow =
  nr_id :: int
  nr_body :: string
  nr_author :: string

definition glDecodeNote :: "jobj \<Rightarrow> noteRow option" where
  "glDecodeNote ms = do {
     i \<leftarrow> intField ''id'' ms; b \<leftarrow> stringField ''body'' ms; a \<leftarrow> glUsernameOf ''author'' ms;
     Some \<lparr>nr_id = i, nr_body = b, nr_author = a\<rparr> }"

definition glNoteOf :: "'s gitlabClient \<Rightarrow> noteRow \<Rightarrow> 's gitlabState \<Rightarrow> mrNote list \<times> 's gitlabState" where
  "glNoteOf c n st =
     (if nr_author n \<noteq> gl_botAuthor c then ([], st)
      else (case parseMarker (nr_body n) of
          Malformed payload \<Rightarrow> ([], glWarn (markerSkipWarning ''gitlab'' ''note'' (''note/'' @ itoa (nr_id n))
             (''gitlab: parse marker payload: '' @ al_jsonErr (gl_libs c) payload)) st)
        | NoMarker \<Rightarrow> ([], st)
        | Marked m \<Rightarrow> ([\<lparr>n_id = ''note/'' @ itoa (nr_id n), n_marker = m, n_author = nr_author n, n_body = nr_body n\<rparr>], st)))"

definition glListBotNotes :: "'s gitlabClient \<Rightarrow> string \<Rightarrow> string \<Rightarrow> ('s, mrNote list) gl" where
  "glListBotNotes c project mr =
     pageLoop (PageCap (''notes '' @ project @ ''!'' @ mr))
       (\<lambda>page. glGetOK c (''notes '' @ project @ ''!'' @ mr)
          (glMrPath project mr @ ''/notes'' @ glPageQuery page) (decodeList glDecodeNote))
       (eachRow (glNoteOf c)) 1"

subsection \<open>Writes\<close>

abbreviation formType :: string where "formType \<equiv> ''application/x-www-form-urlencoded''"

definition glCreateNote :: "'s gitlabClient \<Rightarrow> string \<Rightarrow> string \<Rightarrow> marker \<Rightarrow> string \<Rightarrow> ('s, mrNote) gl" where
  "glCreateNote c project mr m body =
     bindA (liftA EnvelopeRefused (Envelope m body)) (\<lambda>fullBody.
     bindA (glDo c MethodPost (glMrPath project mr @ ''/notes'') (Some (formBody ''body'' fullBody)) formType)
       (\<lambda>(status, raw).
         if status \<noteq> 201 \<and> status \<noteq> 200 then errA (BadStatus (''create note '' @ project @ ''!'' @ mr) status)
         else case decodeStruct glDecodeNote raw of
             None \<Rightarrow> errA (Undecodable (''created note '' @ project @ ''!'' @ mr))
           | Some n \<Rightarrow> okA \<lparr>n_id = ''note/'' @ itoa (nr_id n), n_marker = m, n_author = gl_botAuthor c, n_body = fullBody\<rparr>))"

definition glUpdateNote :: "'s gitlabClient \<Rightarrow> string \<Rightarrow> string \<Rightarrow> string \<Rightarrow> marker \<Rightarrow> string \<Rightarrow> ('s, mrNote) gl" where
  "glUpdateNote c project mr i m body =
     bindA (liftA EnvelopeRefused (Envelope m body)) (\<lambda>fullBody.
     bindA (glDo c MethodPut (glMrPath project mr @ ''/notes/'' @ PathEscape (trimPrefix i ''note/''))
         (Some (formBody ''body'' fullBody)) formType)
       (\<lambda>(status, raw).
         if status \<noteq> 200 then errA (BadStatus (''update note '' @ i) status)
         else okA \<lparr>n_id = i, n_marker = m, n_author = gl_botAuthor c, n_body = fullBody\<rparr>))"

definition glUpsertComment :: "'s gitlabClient \<Rightarrow> string \<Rightarrow> string \<Rightarrow> marker \<Rightarrow> string \<Rightarrow> ('s, mrNote) gl" where
  "glUpsertComment c project mr m body =
     (if a_kind (m_artifact m) \<noteq> kindSummary then errA InvalidSummary
      else bindA (liftA EnvelopeRefused (Envelope m body)) (\<lambda>_.
        bindA (glListBotNotes c project mr) (\<lambda>existing.
          case find (\<lambda>n. a_kind (m_artifact (n_marker n)) = a_kind (m_artifact m) \<and> a_kind (m_artifact m) = kindSummary) existing of
            Some n \<Rightarrow> glUpdateNote c project mr (n_id n) m body
          | None \<Rightarrow> glCreateNote c project mr m body)))"

definition glCreateThread :: "'s gitlabClient \<Rightarrow> string \<Rightarrow> string \<Rightarrow> marker \<Rightarrow> string \<Rightarrow> ('s, thread) gl" where
  "glCreateThread c project mr m body =
     bindA (liftA EnvelopeRefused (Envelope m body)) (\<lambda>fullBody.
     bindA (glDo c MethodPost (glMrPath project mr @ ''/discussions'') (Some (formBody ''body'' fullBody)) formType)
       (\<lambda>(status, raw).
         if status \<noteq> 201 \<and> status \<noteq> 200 then errA (BadStatus (''create thread '' @ project @ ''!'' @ mr) status)
         else case decodeStruct (stringField ''id'') raw of
             None \<Rightarrow> errA (Undecodable (''created thread '' @ project @ ''!'' @ mr))
           | Some i \<Rightarrow> okA \<lparr>t_id = i, t_marker = m, t_author = gl_botAuthor c, t_resolved = False\<rparr>))"

definition glResolveThread :: "'s gitlabClient \<Rightarrow> string \<Rightarrow> string \<Rightarrow> string \<Rightarrow> ('s, unit) gl" where
  "glResolveThread c project mr i =
     bindA (glDo c MethodPut (glMrPath project mr @ ''/discussions/'' @ PathEscape i @ ''?resolved=true'') None '''')
       (\<lambda>(status, raw). if status \<noteq> 200 then errA (BadStatus (''resolve thread '' @ i) status) else okA ())"

definition glApprove :: "'s gitlabClient \<Rightarrow> string \<Rightarrow> string \<Rightarrow> ('s, string) gl" where
  "glApprove c project mr =
     bindA (glDo c MethodPost (glMrPath project mr @ ''/approve'') None '''') (\<lambda>(status, raw).
       if status = 201 \<or> status = 200 then okA (''approval/'' @ project @ ''!'' @ mr)
       else if status = 401 \<or> status = 403 then errA (Unauthorized (''approve '' @ project @ ''!'' @ mr) status)
       else errA (BadStatus (''approve '' @ project @ ''!'' @ mr) status))"

definition SyntheticDigest :: "'s adapterLibs \<Rightarrow> string \<Rightarrow> string \<Rightarrow> string" where
  "SyntheticDigest libs source target = ''sha256:'' @ al_sha256 libs (source @ CHR 0x0A # target)"

definition glCurrentHeads :: "'s gitlabClient \<Rightarrow> string \<Rightarrow> string \<Rightarrow> ('s, string \<times> string \<times> string) gl" where
  "glCurrentHeads c project mr =
     bindA (glGetMR c project mr) (\<lambda>info.
       okA (md_source info, md_target info, SyntheticDigest (gl_libs c) (md_source info) (md_target info)))"

text \<open>The merge response is decoded for its commit only; a failed decode is ignored.\<close>

definition glMergeCommitOf :: "string \<Rightarrow> string" where
  "glMergeCommitOf raw =
     (case parseJson raw of
        Some (JsObj ms) \<Rightarrow> foldl (\<lambda>old v. case v of JsStr x \<Rightarrow> x | _ \<Rightarrow> old) '''' (valuesOf ''merge_commit_sha'' ms)
      | _ \<Rightarrow> '''')"

definition glMergeCAS :: "'s gitlabClient \<Rightarrow> string \<Rightarrow> string \<Rightarrow> desiredMerge \<Rightarrow> ('s, string) gl" where
  "glMergeCAS c project mr m =
     bindA (glCurrentHeads c project mr) (\<lambda>(curSource, curTarget, dg).
       if curTarget \<noteq> dm_target m then errA (ShaMoved (TargetMoved (dm_target m) curTarget))
       else if curSource \<noteq> dm_source m then errA (ShaMoved (SourceMoved (dm_source m) curSource))
       else bindA (glDo c MethodPut (glMrPath project mr @ ''/merge?sha='' @ QueryEscape (dm_source m)) None '''')
         (\<lambda>(status, raw).
           if status = 200 then
             okA (if glMergeCommitOf raw \<noteq> '''' then ''merge/'' @ glMergeCommitOf raw
                  else ''merge/'' @ project @ ''!'' @ mr)
           else if status = 409 \<or> status = 406 then errA (ShaMoved (MergeRejected status))
           else errA (BadStatus (''merge '' @ project @ ''!'' @ mr) status)))"

text \<open>The write side of the port.\<close>

definition asIO :: "'s adapterLibs \<Rightarrow> ('w, http_error, 'a) act \<Rightarrow> ('w, 'a) io" where
  "asIO libs m = wrapA (toForgeErr libs) m"

definition gitlabForge :: "'s gitlabClient \<Rightarrow> 's gitlabState forgePort" where
  "gitlabForge c =
     \<lparr>ListBotThreads = \<lambda>p r. asIO (gl_libs c) (glListBotThreads c p r),
      CurrentHeads = \<lambda>p r. asIO (gl_libs c) (glCurrentHeads c p r),
      CreateThread = \<lambda>p r m b. asIO (gl_libs c) (glCreateThread c p r m b),
      ResolveThread = \<lambda>p r i. asIO (gl_libs c) (glResolveThread c p r i),
      Approve = \<lambda>p r. asIO (gl_libs c) (glApprove c p r),
      MergeCAS = \<lambda>p r m. asIO (gl_libs c) (glMergeCAS c p r m),
      ListBotNotes = \<lambda>p r. asIO (gl_libs c) (glListBotNotes c p r),
      UpsertComment = \<lambda>p r m b. asIO (gl_libs c) (glUpsertComment c p r m b),
      Warnings = Some glWarningsSorted\<rparr>"

end
