(* ===== verification/GitlabSnapshot.thy ===== *)
theory GitlabSnapshot
  imports Gitlab
begin

text \<open>
  The GitLab adapter's snapshot and its approval evidence (\<open>internal/forge/gitlab/snapshot.go\<close>,
  \<open>resolve.go\<close>), and the run port it makes up. The schema check of the evidence document is done by a
  JSON-schema library and is a parameter on the document's fields.
\<close>

subsection \<open>Merge request metadata\<close>

record mrMeta =
  mt_info :: mrMetadata
  mt_author :: string
  mt_changesCount :: string

definition glDecodeMRFull :: "jobj \<Rightarrow> (mrResponse \<times> string \<times> string) option" where
  "glDecodeMRFull ms = do {
     w \<leftarrow> glDecodeMR ms; n \<leftarrow> stringField ''changes_count'' ms; a \<leftarrow> glUsernameOf ''author'' ms;
     Some (w, a, n) }"

definition mrWithAuthor :: "'s gitlabClient \<Rightarrow> string \<Rightarrow> string \<Rightarrow> ('s, mrMeta) gl" where
  "mrWithAuthor c project mr =
     bindA (glGetOK c (''MR '' @ project @ ''!'' @ mr) (glMrPath project mr) (decodeStruct glDecodeMRFull)) (\<lambda>(w, author, count).
     bindA (glBranchTip c project (mw_targetBranch w)) (\<lambda>targetSHA.
       okA \<lparr>mt_info = glInfoOf w targetSHA, mt_author = author, mt_changesCount = count\<rparr>))"

subsection \<open>Changed files\<close>

record diffEntry =
  df_old :: string
  df_new :: string
  df_overflow :: bool

definition decodeDiffEntry :: "jobj \<Rightarrow> diffEntry option" where
  "decodeDiffEntry ms = do {
     old \<leftarrow> stringField ''old_path'' ms; new \<leftarrow> stringField ''new_path'' ms; v \<leftarrow> boolField ''overflow'' ms;
     Some \<lparr>df_old = old, df_new = new, df_overflow = v\<rparr> }"

record changedFileSet =
  cf_paths :: "string list"
  cf_complete :: bool
  cf_gap :: string

text \<open>The count is quoted by \<open>%q\<close>; it is left as it is between the quotes.\<close>

definition enumerationGap :: "nat \<Rightarrow> string \<Rightarrow> bool \<Rightarrow> bool \<Rightarrow> string" where
  "enumerationGap rowCount changesCount terminated overflow =
     (if \<not> terminated then ''diff pagination ceiling of 100 pages (10000 entries) reached without a terminating short page''
      else if overflow then ''forge reported a diff overflow marker on at least one enumerated entry''
      else if changesCount = '''' then ''MR changes_count absent '' @ dash @ '' the enumeration cross-check is unavailable''
      else if hasSuffix changesCount ''+'' then
        ''MR changes_count '' @ quoted changesCount @ '' is capped (trailing '' @ quoted ''+'' @ '') '' @ dash
        @ '' the true change count is unknown''
      else case parseInt64 changesCount of
          None \<Rightarrow> ''MR changes_count '' @ quoted changesCount @ '' is not a plain integer''
        | Some n \<Rightarrow> if n \<noteq> int rowCount then
            ''MR changes_count '' @ itoa n @ '' does not equal the '' @ itoa (int rowCount) @ '' enumerated diff entries''
            else '''')"

definition entryPaths :: "diffEntry \<Rightarrow> string list" where
  "entryPaths e = filter (\<lambda>p. p \<noteq> '''') [df_old e, df_new e]"

definition mrChangedFiles :: "'s gitlabClient \<Rightarrow> string \<Rightarrow> string \<Rightarrow> string \<Rightarrow> ('s, changedFileSet) gl" where
  "mrChangedFiles c project mr changesCount =
     bindA (gather (\<lambda>page. glGetOK c (''MR diffs '' @ project @ ''!'' @ mr @ '' page '' @ nat_digits page)
         (glMrPath project mr @ ''/diffs'' @ glPageQuery page) (decodeList decodeDiffEntry)) 1)
       (\<lambda>(rows, terminated).
         let gap = enumerationGap (length rows) changesCount terminated (\<exists>e \<in> set rows. df_overflow e)
         in okA \<lparr>cf_paths = dedup (concat (map entryPaths rows)), cf_complete = (gap = ''''), cf_gap = gap\<rparr>)"

subsection \<open>Capabilities\<close>

definition constantCaps :: "capabilityEntry assoc" where
  "constantCaps =
     [(''resolvable-threads'', SupportedCapabilityEntry (''constant supported '' @ dash
         @ '' licensed by the p3e5-* reconciliation conformance cases (S00 Q2 row 1)'')),
      (''sha-guarded-merge'', SupportedCapabilityEntry (''constant supported '' @ dash
         @ '' licensed by the sha-guard-* conformance cases (PUT /merge?sha= CAS)'')),
      (''deferred-merge-arming'', SupportedCapabilityEntry (''constant supported '' @ dash
         @ '' merge-when-pipelines-succeed is tier-independent (dossier C11)'')),
      (''arming-revoked-on-push'', SupportedCapabilityEntry (''constant supported '' @ dash
         @ '' any new commit cancels MWPS arming (dossier C11)'')),
      (''blocking-review'', AbsentCapabilityEntry (''GitLab has no REQUEST_CHANGES review primitive; ''
         @ ''blocking review is carried by resolvable threads (ADR-0017 '' @ sect @ ''3)'')),
      (''review-dismissal-restrictions'', AbsentCapabilityEntry ''no GitLab analogue (dossier row 4)''),
      (CapabilityProtectedPipelineSource, UnknownCapabilityEntry (''no operationally decidable predicate is probed ''
         @ dash @ '' the retired ci_config_path '' @ [CHR 0x27] @ ''@'' @ [CHR 0x27]
         @ '' substring heuristic was the SEC-04 shape (audit 2026-08-09); OQ-33 records the candidate probes'')),
      (''approval-reset-on-push'', UnknownCapabilityEntry (''not probed '' @ dash
         @ '' reset_approvals_on_push is not read by any probe today (audit RELI-03); ''
         @ ''an unprobed setting may never be cited as a safety argument''))]"

definition probedEntry :: "bool \<Rightarrow> string \<Rightarrow> string \<Rightarrow> capabilityEntry" where
  "probedEntry v trueReason falseReason =
     (if v then SupportedCapabilityEntry (''probe: '' @ trueReason)
      else AbsentCapabilityEntry (''probe: '' @ falseReason))"

definition projectCaps :: "bool \<Rightarrow> bool \<Rightarrow> capabilityEntry assoc" where
  "projectCaps discussions trains =
     [(CapabilityThreadsBlockMerge, probedEntry discussions
         ''only_allow_merge_if_all_discussions_are_resolved is true (forge dossier C3 / ADR-0009)''
         (''only_allow_merge_if_all_discussions_are_resolved is false '' @ dash
          @ '' unresolved discussions do not block the merge (forge dossier C3 / ADR-0009)'')),
      (''merge-result-pinning'', probedEntry trains
         (''merge_trains_enabled is true '' @ dash @ '' merge trains publish a real merge-result digest (S00 Q2 row 8)'')
         (''merge_trains_enabled is false '' @ dash
          @ '' plain merge exposes no merge-result digest; the CAS pins the adapter-synthesised digest (dossier C16)''))]"

definition rulesCap :: "bool \<Rightarrow> capabilityEntry" where
  "rulesCap hasRules =
     (if hasRules then SupportedCapabilityEntry (''approval-rules API present with required approvals (Premium tier); ''
        @ ''eligible_approvers is forge-computed (S00 Q2 row 9, graded full)'')
      else AbsentCapabilityEntry (''approval-rules API absent (GitLab Free) '' @ dash
        @ '' no forge-computed eligible approver set, require-review unsatisfiable (dossier C6/C7)''))"

text \<open>The rules of a page, each a document of its own, until one requires an approval.\<close>

fun someRequired :: "jval list \<Rightarrow> bool option" where
  "someRequired [] = Some False"
| "someRequired (v # vs) =
     (case Option.bind (structOf v) (intField ''approvals_required'') of
        None \<Rightarrow> None
      | Some n \<Rightarrow> if n > 0 then Some True else someRequired vs)"

function rulePages :: "'s gitlabClient \<Rightarrow> string \<Rightarrow> string \<Rightarrow> nat \<Rightarrow> ('s, bool) gl" where
  "rulePages c project mr page =
     (if page > maxListPages then errA (PageCap (''approval rules '' @ project @ ''!'' @ mr))
      else bindA (glDo c MethodGet (glMrPath project mr @ ''/approval_rules'' @ glPageQuery page) None '''') (\<lambda>(status, raw).
        if status = 404 \<or> status = 403 then okA False
        else if status \<noteq> 200 then errA (BadStatus (''approval rules '' @ project @ ''!'' @ mr) status)
        else case Option.bind (parseJson raw) arrayOf of
            None \<Rightarrow> errA (Undecodable (''approval rules '' @ project @ ''!'' @ mr))
          | Some rules \<Rightarrow>
              if rules = [] then okA (page > 1)
              else (case someRequired rules of
                  None \<Rightarrow> errA (Undecodable (''approval rule '' @ project @ ''!'' @ mr))
                | Some True \<Rightarrow> okA True
                | Some False \<Rightarrow>
                    if length rules < listPerPage then okA False
                    else rulePages c project mr (Suc page))))"
  by pat_completeness auto
termination by (relation "measure (\<lambda>(c, project, mr, page). Suc maxListPages - page)") auto

declare rulePages.simps [simp del]

definition hasApprovalRulesAPI :: "'s gitlabClient \<Rightarrow> string \<Rightarrow> string \<Rightarrow> ('s, bool) gl" where
  "hasApprovalRulesAPI c project mr = rulePages c project mr 1"

definition decodeProject :: "jobj \<Rightarrow> (bool \<times> bool) option" where
  "decodeProject ms = do {
     d \<leftarrow> boolField ''only_allow_merge_if_all_discussions_are_resolved'' ms;
     t \<leftarrow> boolField ''merge_trains_enabled'' ms;
     ci \<leftarrow> stringField ''ci_config_path'' ms;
     Some (d, t) }"

definition glProbeCapabilities :: "'s gitlabClient \<Rightarrow> string \<Rightarrow> string \<Rightarrow> ('s, capabilityReport) gl" where
  "glProbeCapabilities c project mr =
     bindA (glDo c MethodGet (''/api/v4/projects/'' @ PathEscape project) None '''') (\<lambda>(status, raw).
       if status = 404 then liftA CapabilityFailed (NewCapabilityReport constantCaps)
       else if status \<noteq> 200 then errA (BadStatus (''project '' @ project) status)
       else case decodeStruct decodeProject raw of
           None \<Rightarrow> errA (Undecodable (''project '' @ project))
         | Some (discussions, trains) \<Rightarrow>
             bindA (hasApprovalRulesAPI c project mr) (\<lambda>hasRules.
               liftA CapabilityFailed (NewCapabilityReport
                 (constantCaps @ projectCaps discussions trains
                  @ [(CapabilityEligibleApprovalEvidence, rulesCap hasRules)]))))"

subsection \<open>The snapshot\<close>

definition glSnapshot :: "'s gitlabClient \<Rightarrow> string \<Rightarrow> string \<Rightarrow> ('s, snapshot) gl" where
  "glSnapshot c project mr =
     bindA (mrWithAuthor c project mr) (\<lambda>meta.
     bindA (mrChangedFiles c project mr (mt_changesCount meta)) (\<lambda>changed.
     bindA (glProbeCapabilities c project mr) (\<lambda>caps.
     bindA (glListBotThreads c project mr) (\<lambda>threads.
       let info = mt_info meta in
       okA \<lparr>sn_heads = \<lparr>h_source = md_source info, h_target = md_target info,
              h_sourceBranch = md_sourceBranch info, h_targetBranch = md_targetBranch info,
              h_digest = SyntheticDigest (gl_libs c) (md_source info) (md_target info),
              h_author = mt_author meta, h_labels = md_labels info, h_fork = md_fork info\<rparr>,
            sn_changedFiles = sort (cf_paths changed), sn_capabilities = caps, sn_botThreads = threads,
            sn_complete = cf_complete changed, sn_gap = cf_gap changed\<rparr>))))"

subsection \<open>Approval evidence (resolve.go)\<close>

record gitlabUser =
  gu_id :: int
  gu_username :: string

record approvalStateRule =
  ru_name :: string
  ru_ruleType :: string
  ru_required :: int
  ru_eligible :: "gitlabUser list"
  ru_approvedBy :: "gitlabUser list"

definition decodeUser :: "jobj \<Rightarrow> gitlabUser option" where
  "decodeUser ms = do { i \<leftarrow> intField ''id'' ms; u \<leftarrow> stringField ''username'' ms; Some \<lparr>gu_id = i, gu_username = u\<rparr> }"

definition decodeRule :: "jobj \<Rightarrow> approvalStateRule option" where
  "decodeRule ms = do {
     i \<leftarrow> intField ''id'' ms; nm \<leftarrow> stringField ''name'' ms; rt \<leftarrow> stringField ''rule_type'' ms;
     n \<leftarrow> intField ''approvals_required'' ms; ap \<leftarrow> boolField ''approved'' ms;
     es \<leftarrow> Option.bind (arrayField ''eligible_approvers'' ms) (mapAll (\<lambda>v. Option.bind (structOf v) decodeUser));
     rows \<leftarrow> Option.bind (arrayField ''approved_by'' ms)
       (mapAll (\<lambda>v. Option.bind (structOf v) (\<lambda>o1. Option.bind (structField ''user'' o1) decodeUser)));
     Some \<lparr>ru_name = nm, ru_ruleType = rt, ru_required = n, ru_eligible = es, ru_approvedBy = rows\<rparr> }"

definition decodeState :: "jobj \<Rightarrow> approvalStateRule list option" where
  "decodeState ms = Option.bind (arrayField ''rules'' ms) (mapAll (\<lambda>v. Option.bind (structOf v) decodeRule))"

record mrAuthored =
  mu_source :: string
  mu_target :: string
  mu_authorID :: int
  mu_author :: string

definition decodeMRHeads :: "jobj \<Rightarrow> (string \<times> string \<times> gitlabUser) option" where
  "decodeMRHeads ms = do {
     iid \<leftarrow> intField ''iid'' ms; pid \<leftarrow> intField ''project_id'' ms; sha \<leftarrow> stringField ''sha'' ms;
     sb \<leftarrow> stringField ''source_branch'' ms; tb \<leftarrow> stringField ''target_branch'' ms;
     u \<leftarrow> Option.bind (structField ''author'' ms) decodeUser;
     Some (sha, tb, u) }"

definition mrHeadsWithAuthor :: "'s gitlabClient \<Rightarrow> string \<Rightarrow> string \<Rightarrow> ('s, mrAuthored) gl" where
  "mrHeadsWithAuthor c project mr =
     bindA (glGetOK c (''MR '' @ project @ ''!'' @ mr) (glMrPath project mr) (decodeStruct decodeMRHeads)) (\<lambda>(sha, tb, u).
     bindA (glBranchTip c project tb) (\<lambda>targetSHA.
       okA \<lparr>mu_source = sha, mu_target = targetSHA, mu_authorID = gu_id u, mu_author = gu_username u\<rparr>))"

definition approvalState :: "'s gitlabClient \<Rightarrow> string \<Rightarrow> string \<Rightarrow> ('s, approvalStateRule list) gl" where
  "approvalState c project mr =
     bindA (glDo c MethodGet (glMrPath project mr @ ''/approval_state'') None '''') (\<lambda>(status, raw).
       if status = 404 \<or> status = 403 then okA []
       else if status \<noteq> 200 then errA (BadStatus (''approval_state '' @ project @ ''!'' @ mr) status)
       else case decodeStruct decodeState raw of
           None \<Rightarrow> errA (Undecodable (''approval_state '' @ project @ ''!'' @ mr)) | Some rs \<Rightarrow> okA rs)"

definition currentUserID :: "'s gitlabClient \<Rightarrow> ('s, int) gl" where
  "currentUserID c = bindA (glGetOK c ''user'' ''/api/v4/user'' (decodeStruct decodeUser)) (\<lambda>u. okA (gu_id u))"

definition pickApprovalRule :: "approvalStateRule list \<Rightarrow> approvalStateRule option" where
  "pickApprovalRule rules = find (\<lambda>r. ru_required r > 0) rules"

text \<open>Whose approval never counts: the author, under any of its names, and the bot.\<close>

record excluded =
  ex_authorID :: int
  ex_author :: string
  ex_mrAuthor :: string
  ex_botID :: int
  ex_bot :: string

definition isExcludedApprover :: "gitlabUser \<Rightarrow> excluded \<Rightarrow> bool" where
  "isExcludedApprover u x \<longleftrightarrow>
     (if ex_authorID x \<noteq> 0 \<and> gu_id u = ex_authorID x then True
      else if ex_mrAuthor x \<noteq> '''' \<and> (gu_username u = ex_mrAuthor x \<or> itoa (gu_id u) = ex_mrAuthor x) then True
      else if ex_author x \<noteq> '''' \<and> gu_username u = ex_author x then True
      else if ex_botID x \<noteq> 0 \<and> gu_id u = ex_botID x then True
      else ex_bot x \<noteq> '''' \<and> gu_username u = ex_bot x)"

definition filterEligible :: "gitlabUser list \<Rightarrow> excluded \<Rightarrow> gitlabUser list" where
  "filterEligible users x = filter (\<lambda>u. \<not> isExcludedApprover u x) users"

text \<open>\<open>seen\<close> holds the ids taken so far; the first row of an id gives the user name.\<close>

fun approvedLoop :: "gitlabUser list \<Rightarrow> string list \<Rightarrow> excluded \<Rightarrow> string list \<Rightarrow> approver list" where
  "approvedLoop [] eligibleSet x seen = []"
| "approvedLoop (u # us) eligibleSet x seen =
     (if isExcludedApprover u x then approvedLoop us eligibleSet x seen
      else if itoa (gu_id u) \<notin> set eligibleSet then approvedLoop us eligibleSet x seen
      else if itoa (gu_id u) \<in> set seen then approvedLoop us eligibleSet x seen
      else \<lparr>ap_id = itoa (gu_id u), ap_username = gu_username u, ap_isAuthor = False\<rparr>
             # approvedLoop us eligibleSet x (itoa (gu_id u) # seen))"

definition filterApproved :: "gitlabUser list \<Rightarrow> gitlabUser list \<Rightarrow> excluded \<Rightarrow> approver list" where
  "filterApproved rows eligible x =
     sort_key ap_id (approvedLoop rows (map (\<lambda>u. itoa (gu_id u)) eligible) x [])"

definition eligibleIDs :: "gitlabUser list \<Rightarrow> string list" where
  "eligibleIDs users = sort (map (\<lambda>u. itoa (gu_id u)) users)"

abbreviation GapApprovalRulesUnavailable :: string where
  "GapApprovalRulesUnavailable \<equiv> ''approval-rules-api-unavailable''"

record evidenceDoc =
  ed_evidence :: approvalEvidence
  ed_principal :: approver
  ed_rule :: string
  ed_ruleType :: string
  ed_source :: string
  ed_target :: string
  ed_digest :: string
  ed_observedAt :: int

definition evidenceDocument :: "approvalEvidence \<Rightarrow> approvalStateRule \<Rightarrow> string \<Rightarrow> string \<Rightarrow> string \<Rightarrow> int \<Rightarrow> evidenceDoc" where
  "evidenceDocument ev rule src tgt dg now =
     \<lparr>ed_evidence = ev, ed_principal = hd (ae_approvedBy ev), ed_rule = ru_name rule, ed_ruleType = ru_ruleType rule,
      ed_source = src, ed_target = tgt, ed_digest = dg, ed_observedAt = now\<rparr>"

definition gapFor :: "string \<Rightarrow> resolveRequest \<Rightarrow> resolveResult" where
  "gapFor reason req = ResolveWithGap \<lparr>cg_reason = reason, cg_subject = rr_subject req\<rparr>"

text \<open>
  What the approval rule and the merge request give, once every read has answered. A fresh pin is the
  request's own, so the pins are the request's in both branches of the code.
\<close>

definition evidenceOf :: "resolveRequest \<Rightarrow> approvalStateRule \<Rightarrow> excluded \<Rightarrow> bool \<Rightarrow> approvalEvidence option" where
  "evidenceOf req rule x pinsStale =
     (let eligible = filterEligible (ru_eligible rule) x;
          approved = filterApproved (ru_approvedBy rule) eligible x
      in if eligible = [] \<or> approved = [] \<or> int (length approved) < ru_required rule then None
         else Some \<lparr>ae_verifyingCapability = ''approval-rules-api'', ae_approvalsRequired = ru_required rule,
           ae_approvedBy = approved, ae_eligibility = eligibleIDs eligible, ae_pinSourceSha = rr_source req,
           ae_expired = pinsStale\<rparr>)"

text \<open>\<open>Resolve\<close>, in its steps: the author defaulted, the pins compared, the rule picked, the evidence.\<close>

definition knownAuthor :: "resolveRequest \<Rightarrow> mrAuthored \<Rightarrow> resolveRequest" where
  "knownAuthor req h = (if rr_author req = '''' then req\<lparr>rr_author := mu_author h\<rparr> else req)"

definition pinsStale :: "'s gitlabClient \<Rightarrow> resolveRequest \<Rightarrow> mrAuthored \<Rightarrow> bool" where
  "pinsStale c req h \<longleftrightarrow> rr_source req \<noteq> mu_source h \<or> rr_target req \<noteq> mu_target h
     \<or> rr_digest req \<noteq> SyntheticDigest (gl_libs c) (mu_source h) (mu_target h)"

definition exclusionsOf :: "'s gitlabClient \<Rightarrow> resolveRequest \<Rightarrow> mrAuthored \<Rightarrow> int \<Rightarrow> excluded" where
  "exclusionsOf c req h botID = \<lparr>ex_authorID = mu_authorID h, ex_author = mu_author h,
     ex_mrAuthor = rr_author req, ex_botID = botID, ex_bot = gl_botAuthor c\<rparr>"

definition glEvidence :: "(evidenceDoc \<Rightarrow> string option) \<Rightarrow> 's gitlabClient \<Rightarrow> resolveRequest \<Rightarrow> mrAuthored
    \<Rightarrow> approvalStateRule \<Rightarrow> ('s, resolveResult) gl" where
  "glEvidence validate c req h rule =
     bindA (currentUserID c) (\<lambda>botID.
       case evidenceOf req rule (exclusionsOf c req h botID) (pinsStale c req h) of
         None \<Rightarrow> okA (gapFor GapApprovalRulesUnavailable req)
       | Some ev \<Rightarrow> (\<lambda>st.
           case validate (evidenceDocument ev rule (rr_source req) (rr_target req) (rr_digest req)
               (al_now (gl_libs c) (gs_remote st))) of
             Some e \<Rightarrow> (Inl (Refused e), st)
           | None \<Rightarrow> (Inr (ResolveWithEvidence ev), st)))"

definition glResolveAt :: "(evidenceDoc \<Rightarrow> string option) \<Rightarrow> 's gitlabClient \<Rightarrow> resolveRequest \<Rightarrow> mrAuthored
    \<Rightarrow> ('s, resolveResult) gl" where
  "glResolveAt validate c req h =
     bindA (approvalState c (rr_project req) (rr_mr req)) (\<lambda>rules.
       case pickApprovalRule rules of
         None \<Rightarrow> okA (gapFor GapApprovalRulesUnavailable req)
       | Some rule \<Rightarrow> glEvidence validate c req h rule)"

definition glResolve :: "(evidenceDoc \<Rightarrow> string option) \<Rightarrow> 's gitlabClient \<Rightarrow> resolveRequest \<Rightarrow> ('s, resolveResult) gl" where
  "glResolve validate c req =
     bindA (hasApprovalRulesAPI c (rr_project req) (rr_mr req)) (\<lambda>hasRules.
       if \<not> hasRules then okA (gapFor GapFreeTierRequireReview req)
       else bindA (mrHeadsWithAuthor c (rr_project req) (rr_mr req)) (\<lambda>h.
         glResolveAt validate c (knownAuthor req h) h))"

subsection \<open>The run port\<close>

definition asRead :: "'s adapterLibs \<Rightarrow> ('w, http_error, 'a) act \<Rightarrow> ('w, 'a) rd" where
  "asRead libs m = wrapA (toPortErr libs) m"

definition gitlabRunPort :: "(evidenceDoc \<Rightarrow> string option) \<Rightarrow> 's gitlabClient \<Rightarrow> 's gitlabState runPort" where
  "gitlabRunPort validate c =
     \<lparr>rp_write = gitlabForge c,
      rp_getMR = \<lambda>p r. asRead (gl_libs c) (glGetMR c p r),
      rp_snapshot = \<lambda>p r. asRead (gl_libs c) (glSnapshot c p r),
      rp_resolve = \<lambda>q. asRead (gl_libs c) (glResolve validate c q),
      rp_fileAtRef = \<lambda>p f r. asRead (gl_libs c) (glFileAtRef c p f r),
      rp_fileAtBase = \<lambda>p r f. asRead (gl_libs c) (glFileAtBase c p r f),
      rp_fileAtHead = \<lambda>p r f. asRead (gl_libs c) (glFileAtHead c p r f)\<rparr>"

end
