(* ===== verification/GitlabFacts.thy ===== *)
theory GitlabFacts
  imports GitlabSnapshot
begin

text \<open>
  Facts on the GitLab adapter that hold whatever the network does. \<open>gitlab_within\<close> states once how
  every operation moves the client's state: by requests a caller admits, by the write of the pin and
  by warnings. It is used for what is sent (the log of a logging network) and for the pin.
\<close>

locale gitlab_within =
  fixes c :: "'s gitlabClient" and Q :: "'s gitlabState \<Rightarrow> 's gitlabState \<Rightarrow> bool"
    and admits :: "string \<Rightarrow> string \<Rightarrow> bool" and project mr :: string
  assumes refl: "reflp Q" and trans: "transp Q"
    and does: "admits mth path \<Longrightarrow> within Q (glDo c mth path body ct)"
    and gets: "admits MethodGet path"
    and pins: "Q st (glWritePin project mr info st)"
    and warns: "Q st (glWarn msg st)"
begin

lemmas rel = refl trans

lemma same: "Q st st"
  by (rule reflpD [OF refl])

lemma get_within: "within Q (glDo c MethodGet path body ct)"
  by (rule does) (rule gets)

lemma getOK_within: "within Q (glGetOK c op path dec)"
  unfolding glGetOK_def by (auto intro!: withinRules rel get_within split: prod.split option.split)

lemma branchTip_within: "within Q (glBranchTip c p branch)"
  unfolding glBranchTip_def by (rule getOK_within)

lemma getMR_within: "within Q (glGetMR c project mr)"
proof -
  have "within Q (\<lambda>st. (Inr (glInfoOf w t), glWritePin project mr (glInfoOf w t) st))" for w t
    by (simp add: within_def pins)
  then show ?thesis
    unfolding glGetMR_def by (auto intro!: withinRules rel getOK_within branchTip_within)
qed

lemma mrPinned_within: "within Q (glMrPinned c project mr)"
  using getMR_within same by (auto simp: within_def glMrPinned_def split: option.split)

lemma fileAtRef_within: "within Q (glFileAtRef c p path ref)"
  unfolding glFileAtRef_def by (auto intro!: withinRules rel get_within split: prod.split)

lemma fileAtBase_within: "within Q (glFileAtBase c project mr path)"
  unfolding glFileAtBase_def by (auto intro!: withinRules rel mrPinned_within fileAtRef_within)

lemma fileAtHead_within: "within Q (glFileAtHead c project mr path)"
  unfolding glFileAtHead_def by (auto intro!: withinRules rel mrPinned_within fileAtRef_within)

lemma listBotThreads_within: "within Q (glListBotThreads c p r)"
  unfolding glListBotThreads_def
  by (auto intro!: withinRules rel getOK_within
      simp: glThreadOf_def warns same split: list.split marker_scan.split)

lemma listBotNotes_within: "within Q (glListBotNotes c p r)"
  unfolding glListBotNotes_def
  by (auto intro!: withinRules rel getOK_within
      simp: glNoteOf_def warns same split: marker_scan.split)

lemma currentHeads_within: "within Q (glCurrentHeads c project mr)"
  unfolding glCurrentHeads_def by (auto intro!: withinRules rel getMR_within)

lemma rulePages_within: "within Q (rulePages c p r page)"
proof (induction "Suc maxListPages - page" arbitrary: page)
  case 0
  then show ?case by (subst rulePages.simps) (auto intro: within_errA rel)
next
  case (Suc n)
  then have "within Q (rulePages c p r (Suc page))" by simp
  then show ?case
    by (subst rulePages.simps) (auto intro!: withinRules rel get_within split: prod.split option.split bool.split)
qed

lemma snapshot_within: "within Q (glSnapshot c p r)"
proof -
  have "within Q (mrWithAuthor c p r)" "within Q (mrChangedFiles c p r n)"
    "within Q (glProbeCapabilities c p r)" for n
    unfolding mrWithAuthor_def mrChangedFiles_def glProbeCapabilities_def hasApprovalRulesAPI_def
    by (auto intro!: withinRules rel getOK_within branchTip_within get_within rulePages_within
        split: prod.split option.split)
  then show ?thesis
    unfolding glSnapshot_def Let_def by (auto intro!: withinRules rel listBotThreads_within)
qed

lemma resolve_within: "within Q (glResolve validate c req)"
proof -
  have "within Q (mrHeadsWithAuthor c p r)" "within Q (approvalState c p r)" "within Q (currentUserID c)" for p r
    unfolding mrHeadsWithAuthor_def approvalState_def currentUserID_def
    by (auto intro!: withinRules rel getOK_within branchTip_within get_within split: prod.split option.split)
  moreover have "within Q (\<lambda>st. case v st of Some e \<Rightarrow> (Inl (x e), st) | None \<Rightarrow> (Inr a, st))" for v x a
    using same by (simp add: within_def split: option.split)
  ultimately show ?thesis
    unfolding glResolve_def glResolveAt_def glEvidence_def hasApprovalRulesAPI_def
    by (auto intro!: withinRules rel rulePages_within split: option.split)
qed

lemmas reads_within = getMR_within snapshot_within resolve_within fileAtRef_within fileAtBase_within
  fileAtHead_within

text \<open>The writes, where their requests are admitted.\<close>

lemma createThread_within:
  "admits MethodPost (glMrPath p r @ ''/discussions'') \<Longrightarrow> within Q (glCreateThread c p r m body)"
  unfolding glCreateThread_def by (auto intro!: withinRules rel does split: prod.split option.split)

lemma resolveThread_within:
  "admits MethodPut (glMrPath p r @ ''/discussions/'' @ PathEscape i @ ''?resolved=true'') \<Longrightarrow>
   within Q (glResolveThread c p r i)"
  unfolding glResolveThread_def by (auto intro!: withinRules rel does split: prod.split)

lemma upsertComment_within:
  assumes "admits MethodPost (glMrPath p r @ ''/notes'')"
    and "\<And>i. admits MethodPut (glMrPath p r @ ''/notes/'' @ PathEscape i)"
  shows "within Q (glUpsertComment c p r m body)"
  unfolding glUpsertComment_def glCreateNote_def glUpdateNote_def using assms
  by (auto intro!: withinRules rel does listBotNotes_within split: prod.split option.split)

lemma approve_within: "admits MethodPost (glMrPath p r @ ''/approve'') \<Longrightarrow> within Q (glApprove c p r)"
  unfolding glApprove_def by (auto intro!: withinRules rel does split: prod.split)

lemma mergeCAS_within:
  "(\<And>sha. admits MethodPut (glMrPath project mr @ ''/merge?sha='' @ QueryEscape sha)) \<Longrightarrow>
   within Q (glMergeCAS c project mr m)"
  unfolding glMergeCAS_def by (auto intro!: withinRules rel does currentHeads_within split: prod.split)

end

subsection \<open>What is sent\<close>

definition glLogged :: "'s gitlabClient \<Rightarrow> ('s \<times> request list) gitlabClient" where
  "glLogged c = \<lparr>gl_endpoint = gl_endpoint c, gl_token = gl_token c, gl_botAuthor = gl_botAuthor c,
     gl_retry = gl_retry c, gl_libs = loggedLibs (gl_libs c)\<rparr>"

definition remotely :: "('s \<Rightarrow> 's \<Rightarrow> bool) \<Rightarrow> 's gitlabState \<Rightarrow> 's gitlabState \<Rightarrow> bool" where
  "remotely R a b \<longleftrightarrow> R (gs_remote a) (gs_remote b)"

context network_within
begin

lemma glDo_within:
  assumes "al_net (gl_libs c) = net" and "\<And>rq. rq_method rq = mth \<Longrightarrow> rq_path rq = path \<Longrightarrow> allowed rq"
  shows "within (remotely R) (glDo c mth path body ct)"
proof -
  have "R s (snd (glDoOnce c mth path body ct s))" for s
    using assms sendOnce_within reflpD [OF refl] by (auto simp: glDoOnce_def glRequest_def split: option.split)
  from attemptLoop_within [of "glDoOnce c mth path body ct", OF this]
  show ?thesis
    by (auto simp: within_def remotely_def glDo_def assms(1) outcome_state [symmetric] split: prod.split)
      (metis outcome_state snd_conv)
qed

lemma gitlab_remote:
  assumes "al_net (gl_libs c) = net" and "\<And>rq. isGet rq \<Longrightarrow> allowed rq"
  shows "gitlab_within c (remotely R) (\<lambda>mth path. \<forall>rq. rq_method rq = mth \<longrightarrow> rq_path rq = path \<longrightarrow> allowed rq) project mr"
proof
  show "reflp (remotely R)" using refl by (simp add: reflp_def remotely_def)
  show "transp (remotely R)" using trans by (auto simp: transp_def remotely_def)
  show "within (remotely R) (glDo c mth path body ct)"
    if "\<forall>rq. rq_method rq = mth \<longrightarrow> rq_path rq = path \<longrightarrow> allowed rq" for mth path body ct
    by (rule glDo_within [OF assms(1)]) (use that in simp)
qed (use assms(2) reflpD [OF refl] in \<open>simp_all add: remotely_def glWritePin_def glWarn_def\<close>)

end

text \<open>A request that approves or merges.\<close>

definition finalWrite :: "request \<Rightarrow> bool" where
  "finalWrite rq \<longleftrightarrow> (rq_method rq = MethodPost \<and> hasSuffix (rq_path rq) ''/approve'')
     \<or> (rq_method rq = MethodPut \<and> hasPrefix (dropWhile (\<lambda>ch. ch \<noteq> CHR ''?'') (rq_path rq)) ''?sha='')"

definition finals :: "'s \<times> request list \<Rightarrow> request list" where
  "finals x = filter finalWrite (snd x)"

interpretation unfinal: network_within "logged net" "\<lambda>x y. finals y = finals x" "\<lambda>rq. \<not> finalWrite rq" for net
  by unfold_locales (auto simp: reflp_def transp_def finals_def logged_def split: prod.split)

lemma glLogged_sel [simp]:
  "gl_endpoint (glLogged c) = gl_endpoint c" "gl_token (glLogged c) = gl_token c"
  "gl_botAuthor (glLogged c) = gl_botAuthor c" "gl_retry (glLogged c) = gl_retry c"
  "al_sha256 (gl_libs (glLogged c)) = al_sha256 (gl_libs c)"
  by (simp_all add: glLogged_def loggedLibs_def)

lemma glLogged_net: "al_net (gl_libs (glLogged c)) = logged (al_net (gl_libs c))"
  by (simp add: glLogged_def loggedLibs_def)

interpretation glFinal: gitlab_within "glLogged c" "remotely (\<lambda>x y. finals y = finals x)"
    "\<lambda>mth path. \<forall>rq. rq_method rq = mth \<longrightarrow> rq_path rq = path \<longrightarrow> \<not> finalWrite rq" project mr for c project mr
  by (rule unfinal.gitlab_remote [OF glLogged_net]) (simp add: finalWrite_def)

interpretation glGets: gitlab_within "glLogged c" "remotely (grows isGet)"
    "\<lambda>mth path. \<forall>rq. rq_method rq = mth \<longrightarrow> rq_path rq = path \<longrightarrow> isGet rq" project mr for c project mr
  by (rule sent.gitlab_remote [OF glLogged_net])

subsection \<open>The pin\<close>

definition keepsPin :: "string \<Rightarrow> 's gitlabState \<Rightarrow> 's gitlabState \<Rightarrow> bool" where
  "keepsPin k a b \<longleftrightarrow> (\<forall>i. gs_pin a = Some (k, i) \<longrightarrow> gs_pin b = Some (k, i))"

interpretation glPin: gitlab_within c "keepsPin (glPinKey project mr)" "\<lambda>mth path. True" project mr for c project mr
proof
  show "within (keepsPin (glPinKey project mr)) (glDo c mth path body ct)" for mth path body ct
    by (auto simp: within_def keepsPin_def glDo_def split: prod.split)
qed (auto simp: reflp_def transp_def keepsPin_def glWritePin_def glWarn_def)

end
