(* ===== verification/AdvisoryRun.thy ===== *)
theory AdvisoryRun
  imports RunSafety
begin

text \<open>
  A run on a forge whose capability report never allows arming: whatever is decided, the run
  comments and resolves threads but neither approves nor merges. The view of the client shows the
  approvals and merges; commenting does not change it.
\<close>

definition sameView :: "('s \<Rightarrow> 'v) \<Rightarrow> 's \<Rightarrow> 's \<Rightarrow> bool" where
  "sameView view s t \<longleftrightarrow> view t = view s"

lemma sameView_rel: "reflp (sameView view)" "transp (sameView view)"
  by (auto simp: sameView_def reflp_def transp_def)

lemma onForge_Inr: "onForge ctx m w = (Inr a, w') \<Longrightarrow> \<exists>s'. m (w_forge w) = (Inr a, s')"
  by (auto simp: onForge_def split: prod.splits sum.splits)

lemma judge_snapshot:
  assumes "judge libs cfg client clock w = (Inr v, w')"
  obtains s s' where "rp_snapshot client (rc_project cfg) (rc_mr cfg) s = (Inr (vd_snapshot v), s')"
proof -
  from assms obtain info sn w1 where h: "readHeads cfg client w = (Inr (info, sn), w1)" and v: "vd_snapshot v = sn"
    unfolding judge_def by (force simp: bindA_Inr_iff)
  from h obtain w2 where "onForge SnapshotFailed (rp_snapshot client (rc_project cfg) (rc_mr cfg)) w2 = (Inr sn, w1)"
    unfolding readHeads_def by (auto simp: bindA_Inr_iff split: if_splits)
  from onForge_Inr [OF this] show thesis using that v by blast
qed

lemma unknown_blocks:
  assumes "map_of xs k = Some (UnknownCapabilityEntry r)" "NewCapabilityReport xs = Inr rep"
  shows "ArmedBlocks rep k"
proof -
  obtain es where "reportEntries xs = Inr es" "rep = Some es"
    using assms(2) by (auto simp: NewCapabilityReport_def bind_res_Inr_iff split: option.splits)
  then show ?thesis
    using reportEntries_map_of [of xs es k] assms(1)
    by (simp add: ArmedBlocks_def capState_def entryOf_def UnknownCapabilityEntry_def normalizeState_def)
qed

locale advisory_run = run_port client view for client :: "'s runPort" and view :: "'s \<Rightarrow> 'v" +
  assumes listThreads: "keeps (sameView view) (ListBotThreads (rp_write client) p r)"
    and createThread: "keeps (sameView view) (CreateThread (rp_write client) p r m b)"
    and resolveThread: "keeps (sameView view) (ResolveThread (rp_write client) p r i)"
    and listNotes: "keeps (sameView view) (ListBotNotes (rp_write client) p r)"
    and upsert: "keeps (sameView view) (UpsertComment (rp_write client) p r m b)"
    and neverArms: "rp_snapshot client p r s = (Inr sn, s') \<Longrightarrow> \<not> pp_armEligible (PreconditionFromReport (sn_capabilities sn))"
begin

lemmas comments = listThreads createThread resolveThread listNotes upsert

lemma reconcile_advisory:
  assumes "\<not> p_armEligible pre"
  shows "view (snd (Reconcile (rp_write client) clock d pre s)) = view s"
proof (cases "reconcilePathOf d")
  case (Inl e)
  then show ?thesis by (simp add: Reconcile_def)
next
  case (Inr path)
  have "keeps (sameView view) (runPath (rp_write client) clock d pre path)"
    unfolding runPath_def
    by (cases path) (use assms in \<open>simp_all add: keeps_reconcileThread keeps_reconcileClearSlot sameView_rel comments
        reconcileApproveMerge_def keeps_fail\<close>)
  then have "keeps (sameView view) (thenIO (preamble (rp_write client) clock d)
      (\<lambda>ops. thenIO (runPath (rp_write client) clock d pre path) (\<lambda>r. retIO (withPreamble ops r))))"
    by (auto intro!: stays keeps_preamble sameView_rel comments)
  then show ?thesis
    using Inr by (auto simp: Reconcile_def keeps_def sameView_def split: prod.split sum.split) (metis snd_conv)+
qed

lemma run_advisory:
  assumes run: "orchestrate libs sys cfg client clock w = (r, w')"
  shows "view (w_forge w') = view (w_forge w)"
proof -
  obtain x w1 where j: "judge libs cfg client clock w = (x, w1)" by fastforce
  note same = inertD [OF inert_judge j]
  show ?thesis
  proof (cases x)
    case (Inl e)
    then show ?thesis using run j same by (simp add: orchestrate_def bindA_def)
  next
    case (Inr v)
    then have c: "conclude libs sys cfg client clock v w1 = (r, w')" using run j by (simp add: orchestrate_def bindA_def)
    obtain s s' where "rp_snapshot client (rc_project cfg) (rc_mr cfg) s = (Inr (vd_snapshot v), s')"
      using judge_snapshot [OF j [unfolded Inr]] .
    from neverArms [OF this] have arm: "\<not> armEligibleAt libs v t" for t by (simp add: armEligibleAt_def)
    from c show ?thesis
    proof (cases rule: conclude_cases)
      case (halted e)
      then show ?thesis using same by simp
    next
      case (published out s)
      obtain d pre where b: "buildDesired libs cfg (vd_info v) (vd_head v) (vd_result v) (vd_json v)
          (armEligibleAt libs v (clock (w_forge w1))) (rep_presentation (vd_report v)) (renderInputsOf v)
          (h_digest (sn_heads (vd_snapshot v))) = (d, pre)" by fastforce
      then have "\<not> p_armEligible pre"
        using arm by (auto simp: buildDesired_def noPreconditions_def Let_def split: if_splits)
      note adv = reconcile_advisory [OF this, of "\<lambda>t. wi_fmtTime (rl_wire libs) (clock t)" d "w_forge w1"]
      have "view s = view (w_forge w1)"
        using published(1) adv by (auto simp: publish_def b split: if_splits prod.splits)
      then show ?thesis using published(2) same by simp
    qed
  qed
qed

end

end
