(* ===== verification/GitlabRun.thy ===== *)
theory GitlabRun
  imports GitlabFacts AdvisoryRun
begin

text \<open>
  The GitLab adapter under a run: what its capability report says, which requests its operations
  send, and the two contracts of the run (\<open>run_port\<close>, \<open>advisory_run\<close>) discharged on it.
\<close>

subsection \<open>The capability report\<close>

lemma constantCaps_unknown:
  "map_of (constantCaps @ more1) CapabilityProtectedPipelineSource
     = Some (UnknownCapabilityEntry (''no operationally decidable predicate is probed ''
         @ dash @ '' the retired ci_config_path '' @ [CHR 0x27] @ ''@'' @ [CHR 0x27]
         @ '' substring heuristic was the SEC-04 shape (audit 2026-08-09); OQ-33 records the candidate probes''))"
  by (simp add: constantCaps_def)

lemma report_unknown:
  "NewCapabilityReport (constantCaps @ more1) = Inr rep \<Longrightarrow> ArmedBlocks rep CapabilityProtectedPipelineSource"
  by (rule unknown_blocks [OF constantCaps_unknown])

lemma liftA_Inr: "liftA f x st = (Inr a, st') \<Longrightarrow> x = Inr a"
  by simp

lemma probe_unknown:
  assumes "glProbeCapabilities c p r st = (Inr rep, st')"
  shows "ArmedBlocks rep CapabilityProtectedPipelineSource"
proof -
  have "\<exists>more1. NewCapabilityReport (constantCaps @ more1) = Inr rep"
    using assms unfolding glProbeCapabilities_def
    by (auto simp: bindA_Inr_iff split: if_splits option.splits intro: exI [of _ "[]"])
  then show ?thesis using report_unknown by blast
qed

lemma gitlab_never_arms:
  assumes "glSnapshot c p r st = (Inr sn, st')"
  shows "\<not> pp_armEligible (PreconditionFromReport (sn_capabilities sn))"
proof -
  obtain st1 st2 where "glProbeCapabilities c p r st1 = (Inr (sn_capabilities sn), st2)"
    using assms unfolding glSnapshot_def Let_def by (force simp: bindA_Inr_iff)
  from probe_unknown [OF this] show ?thesis by (simp add: PreconditionFromReport_arm)
qed

subsection \<open>What is sent for a comment\<close>

lemma PathEscape_no_query: "CHR ''?'' \<notin> set (PathEscape s)"
proof -
  have "(of_char (upperHex k) :: nat) \<noteq> 63" if "k < 16" for k using that by (auto simp: upperHex_def)
  then have h: "upperHex k \<noteq> CHR ''?''" if "k < 16" for k using that by fastforce
  have b: "(of_char c :: nat) div 16 < 16" for c :: char
    using nat_of_char_less_256 [of c] by (simp add: div_less_iff_less_mult)
  have "CHR ''?'' \<notin> set (percent c)" for c
    using h [OF b [of c]] h [of "of_char c mod 16"] by (auto simp: percent_def)
  moreover have "\<not> pathKeeps (CHR ''?'')" by (simp add: pathKeeps_def isAlnum_def)
  ultimately show ?thesis by (auto simp: PathEscape_def)
qed

lemma mrPath_no_query: "CHR ''?'' \<notin> set (glMrPath p r)"
  using PathEscape_no_query by (simp add: glMrPath_def)

lemma query_of: "CHR ''?'' \<notin> set s \<Longrightarrow> dropWhile (\<lambda>ch. ch \<noteq> CHR ''?'') (s @ t) = dropWhile (\<lambda>ch. ch \<noteq> CHR ''?'') t"
  by (induction s) auto

lemma suffix_last: "suffix a b \<Longrightarrow> a \<noteq> [] \<Longrightarrow> last a = last b"
  by (auto simp: suffix_def)

lemma comments_not_final:
  "rq_method rq = MethodPost \<Longrightarrow> rq_path rq = glMrPath p r @ ''/discussions'' \<Longrightarrow> \<not> finalWrite rq"
  "rq_method rq = MethodPost \<Longrightarrow> rq_path rq = glMrPath p r @ ''/notes'' \<Longrightarrow> \<not> finalWrite rq"
  by (auto simp: finalWrite_def dest: suffix_last)

lemma edits_not_final:
  "rq_method rq = MethodPut \<Longrightarrow> rq_path rq = glMrPath p r @ ''/discussions/'' @ PathEscape i @ ''?resolved=true'' \<Longrightarrow> \<not> finalWrite rq"
  "rq_method rq = MethodPut \<Longrightarrow> rq_path rq = glMrPath p r @ ''/notes/'' @ PathEscape i \<Longrightarrow> \<not> finalWrite rq"
proof -
  have n: "dropWhile (\<lambda>ch. ch \<noteq> CHR ''?'') (PathEscape i) = []"
    using PathEscape_no_query [of i] by (auto simp: dropWhile_eq_Nil_conv)
  show "rq_method rq = MethodPut \<Longrightarrow> rq_path rq = glMrPath p r @ ''/discussions/'' @ PathEscape i @ ''?resolved=true'' \<Longrightarrow> \<not> finalWrite rq"
    "rq_method rq = MethodPut \<Longrightarrow> rq_path rq = glMrPath p r @ ''/notes/'' @ PathEscape i \<Longrightarrow> \<not> finalWrite rq"
    using query_of [OF PathEscape_no_query [of i], of "''?resolved=true''"]
    by (simp_all add: finalWrite_def query_of [OF mrPath_no_query] n)
qed

lemma final_paths:
  "rq_method rq = MethodPost \<Longrightarrow> rq_path rq = glMrPath p r @ ''/approve'' \<Longrightarrow> finalWrite rq"
  "rq_method rq = MethodPut \<Longrightarrow> rq_path rq = glMrPath p r @ ''/merge?sha='' @ sha \<Longrightarrow> finalWrite rq"
  by (simp_all add: finalWrite_def suffix_def query_of [OF mrPath_no_query])

subsection \<open>The contracts of a run\<close>

lemma asRead_within: "within (remotely R) m \<Longrightarrow> R (gs_remote s) (gs_remote (snd (asRead libs m s)))"
  by (simp add: within_def remotely_def asRead_def wrapA_state)

lemma asIO_keeps:
  "within (remotely (\<lambda>x y. v y = v x)) m \<Longrightarrow> keeps (sameView (\<lambda>st. v (gs_remote st))) (asIO libs m)"
  by (simp add: within_def keeps_def sameView_def remotely_def asIO_def wrapA_state)

lemma read_gets:
  assumes "within (remotely (grows isGet)) m"
  shows "filter (\<lambda>rq. \<not> isGet rq) (snd (gs_remote (snd (asRead libs m s)))) = filter (\<lambda>rq. \<not> isGet rq) (snd (gs_remote s))"
  using asRead_within [OF assms, of s libs] by (auto simp: grows_def filter_empty_conv list_all_iff)

lemma read_finals:
  assumes "within (remotely (\<lambda>x y. finals y = finals x)) m"
  shows "finals (gs_remote (snd (asRead libs m s))) = finals (gs_remote s)"
  by (rule asRead_within [OF assms])

interpretation glRun: run_port "gitlabRunPort validate (glLogged c)"
    "\<lambda>st. filter (\<lambda>rq. \<not> isGet rq) (snd (gs_remote st))" for validate c
  by unfold_locales (simp_all only: gitlabRunPort_def runPort.simps read_gets [OF glGets.getMR_within]
      read_gets [OF glGets.snapshot_within] read_gets [OF glGets.resolve_within] read_gets [OF glGets.fileAtRef_within]
      read_gets [OF glGets.fileAtBase_within] read_gets [OF glGets.fileAtHead_within])

interpretation glAdvisory: advisory_run "gitlabRunPort validate (glLogged c)" "\<lambda>st. finals (gs_remote st)" for validate c
proof
  fix p r m b i s sn s'
  show "keeps (sameView (\<lambda>st. finals (gs_remote st))) (ListBotThreads (rp_write (gitlabRunPort validate (glLogged c))) p r)"
    "keeps (sameView (\<lambda>st. finals (gs_remote st))) (CreateThread (rp_write (gitlabRunPort validate (glLogged c))) p r m b)"
    "keeps (sameView (\<lambda>st. finals (gs_remote st))) (ResolveThread (rp_write (gitlabRunPort validate (glLogged c))) p r i)"
    "keeps (sameView (\<lambda>st. finals (gs_remote st))) (ListBotNotes (rp_write (gitlabRunPort validate (glLogged c))) p r)"
    "keeps (sameView (\<lambda>st. finals (gs_remote st))) (UpsertComment (rp_write (gitlabRunPort validate (glLogged c))) p r m b)"
    by (auto simp: gitlabRunPort_def gitlabForge_def comments_not_final edits_not_final intro!: asIO_keeps
        glFinal.listBotThreads_within glFinal.createThread_within glFinal.resolveThread_within
        glFinal.listBotNotes_within glFinal.upsertComment_within)
  assume "rp_snapshot (gitlabRunPort validate (glLogged c)) p r s = (Inr sn, s')"
  then have "glSnapshot (glLogged c) p r s = (Inr sn, s')"
    by (auto simp: gitlabRunPort_def asRead_def wrapA_def split: prod.splits sum.splits)
  then show "\<not> pp_armEligible (PreconditionFromReport (sn_capabilities sn))" by (rule gitlab_never_arms)
qed (simp_all only: gitlabRunPort_def runPort.simps read_finals [OF glFinal.getMR_within]
    read_finals [OF glFinal.snapshot_within] read_finals [OF glFinal.resolve_within] read_finals [OF glFinal.fileAtRef_within]
    read_finals [OF glFinal.fileAtBase_within] read_finals [OF glFinal.fileAtHead_within])

end
