(* ===== verification/GitlabProps.thy ===== *)
theory GitlabProps
  imports GitlabRun
begin

text \<open>
  The properties of the GitLab adapter, alone and under a run: what a run may send, what the pin
  guarantees, when the changed files are complete, which approvals count, and the marker that is
  read back.
\<close>

subsection \<open>Runs\<close>

text \<open>
  on GitLab a run sends no request other than GET before the decision record is out: either it
  sent none at all, or the merge request was judged, its record is valid and emitted, it does not
  edit the policy and it does not come from a fork. This holds for every network.
\<close>

theorem gitlab_run_record_first:
  fixes c :: "'s gitlabClient" and w :: "('s \<times> request list) gitlabState world"
  defines "sent1 \<equiv> \<lambda>w :: ('s \<times> request list) gitlabState world. filter (\<lambda>rq. \<not> isGet rq) (snd (gs_remote (w_forge w)))"
  shows "case orchestrate libs sys cfg (gitlabRunPort validate (glLogged c)) clock w of (r, w') \<Rightarrow>
     sent1 w' = sent1 w
     \<or> (\<exists>v w1. judge libs cfg (gitlabRunPort validate (glLogged c)) clock w = (Inr v, w1)
         \<and> rl_marshalRecord libs (rep_record (vd_report v)) = Some (vd_json v) \<and> rl_recordValid libs (vd_json v)
         \<and> emitted cfg (vd_json v) w w' \<and> \<not> reservedSelfEditBlock (vd_result v)
         \<and> \<not> h_fork (sn_heads (vd_snapshot v)))"
proof -
  obtain r w' where o: "orchestrate libs sys cfg (gitlabRunPort validate (glLogged c)) clock w = (r, w')" by fastforce
  show ?thesis
  proof (cases "sent1 w' = sent1 w")
    case True
    then show ?thesis by (simp add: o)
  next
    case False
    then obtain v w1 where "judge libs cfg (gitlabRunPort validate (glLogged c)) clock w = (Inr v, w1)"
        "rl_marshalRecord libs (rep_record (vd_report v)) = Some (vd_json v)" "rl_recordValid libs (vd_json v)"
        "emitted cfg (vd_json v) w w'" "\<not> reservedSelfEditBlock (vd_result v)" "\<not> h_fork (sn_heads (vd_snapshot v))"
      unfolding sent1_def by (rule glRun.run_writes [OF o])
    then show ?thesis by (auto simp: o)
  qed
qed

text \<open>
  C3: on GitLab no run ever approves or merges, whatever the policy, the facts and the network say:
  the protected source of the pipeline is never probed, so arming is refused. Comments, threads and
  their resolution are all it sends.
\<close>

theorem gitlab_run_advisory:
  "finals (gs_remote (w_forge (snd (orchestrate libs sys cfg (gitlabRunPort validate (glLogged c)) clock w))))
     = finals (gs_remote (w_forge w))"
  by (cases "orchestrate libs sys cfg (gitlabRunPort validate (glLogged c)) clock w")
    (simp add: glAdvisory.run_advisory)

lemma readGets: "within (remotely (grows isGet)) m \<Longrightarrow> grows isGet (gs_remote st) (gs_remote (snd (m st)))"
  using within_at [of "remotely (grows isGet)" m st] by (simp add: remotely_def)

text \<open>
  every operation a run reads GitLab through sends GET requests only.
\<close>

theorem gitlab_reads_get:
  "grows isGet (gs_remote st) (gs_remote (snd (glGetMR (glLogged c) p r st)))
   \<and> grows isGet (gs_remote st) (gs_remote (snd (glSnapshot (glLogged c) p r st)))
   \<and> grows isGet (gs_remote st) (gs_remote (snd (glResolve validate (glLogged c) q st)))
   \<and> grows isGet (gs_remote st) (gs_remote (snd (glFileAtRef (glLogged c) p f ref st)))
   \<and> grows isGet (gs_remote st) (gs_remote (snd (glFileAtBase (glLogged c) p r f st)))
   \<and> grows isGet (gs_remote st) (gs_remote (snd (glFileAtHead (glLogged c) p r f st)))"
  by (intro conjI) (rule readGets, rule glGets.reads_within)+

subsection \<open>The merge\<close>

lemma glDo_sends:
  "\<exists>k \<le> max 1 (attemptsFor (gl_retry c) mth body).
     snd (gs_remote (snd (glDo (glLogged c) mth path body ct st))) = snd (gs_remote st) @ replicate k (glRequest c mth path body ct)"
proof -
  let ?once = "glDoOnce (glLogged c) mth path body ct" and ?rq = "glRequest c mth path body ct"
  let ?loop = "attemptLoop (logged (al_net (gl_libs c))) (gl_retry c) ?once (ContextDone mth path)
    (attemptsFor (gl_retry c) mth body) 1 (gs_remote st)"
  have rq: "glRequest (glLogged c) mth path body ct = ?rq" by (simp add: glRequest_def)
  have "\<exists>j \<le> 1. snd (snd (?once s)) = snd s @ replicate j ?rq" for s
  proof (cases "nt_build (al_net (gl_libs c)) mth (gl_endpoint c @ path)")
    case None
    then have "snd (snd (?once s)) = snd s @ replicate 1 ?rq"
      by (simp add: glDoOnce_def glLogged_net rq sendOnce_logs)
    then show ?thesis by blast
  next
    case (Some e)
    then have "snd (snd (?once s)) = snd s @ replicate 0 ?rq" by (simp add: glDoOnce_def glLogged_net)
    then show ?thesis by (metis zero_le)
  qed
  from attemptLoop_sends [of ?once ?rq, OF this] obtain k where
    k: "k \<le> Suc (attemptsFor (gl_retry c) mth body - 1)" "snd (snd ?loop) = snd (gs_remote st) @ replicate k ?rq" by blast
  have "gs_remote (snd (glDo (glLogged c) mth path body ct st)) = snd ?loop"
    by (cases "outcome ?loop") (use outcome_state [of ?loop] in \<open>simp add: glDo_def glLogged_net\<close>)
  with k show ?thesis by (intro exI [of _ k]) auto
qed

text \<open>
  C15: the merge request is sent only where the heads read just before are the pinned ones, it carries
  the pinned source in its query, and it is sent at most once; on any other heads nothing is sent
  after the reads.
\<close>

theorem gitlab_merge_pinned:
  "case glCurrentHeads (glLogged c) p r st of
     (Inl e, st1) \<Rightarrow> glMergeCAS (glLogged c) p r m st = (Inl e, st1)
   | (Inr (src, tgt, dg), st1) \<Rightarrow>
       if src = dm_source m \<and> tgt = dm_target m
       then \<exists>k \<le> 1. snd (gs_remote (snd (glMergeCAS (glLogged c) p r m st))) = snd (gs_remote st1)
              @ replicate k (glRequest c MethodPut (glMrPath p r @ ''/merge?sha='' @ QueryEscape (dm_source m)) None '''')
       else \<exists>x. glMergeCAS (glLogged c) p r m st = (Inl (ShaMoved x), st1)"
proof -
  obtain h st1 where h: "glCurrentHeads (glLogged c) p r st = (h, st1)" by fastforce
  show ?thesis
  proof (cases h)
    case (Inl e)
    then show ?thesis using h by (simp add: glMergeCAS_def bindA_def)
  next
    case (Inr hs)
    obtain src tgt dg where hs: "hs = (src, tgt, dg)" by (cases hs)
    let ?path = "glMrPath p r @ ''/merge?sha='' @ QueryEscape (dm_source m)"
    show ?thesis
    proof (cases "src = dm_source m \<and> tgt = dm_target m")
      case True
      obtain x st2 where d: "glDo (glLogged c) MethodPut ?path None '''' st1 = (x, st2)" by fastforce
      have one: "max 1 (attemptsFor (gl_retry c) MethodPut None) = 1"
        by (simp add: attemptsFor_def retryableMethod_def)
      have "snd (glMergeCAS (glLogged c) p r m st) = st2"
        using h Inr hs True d by (cases x) (auto simp: glMergeCAS_def bindA_def okA_def errA_def split: prod.split)
      moreover obtain k where "k \<le> 1" "snd (gs_remote st2) = snd (gs_remote st1) @ replicate k (glRequest c MethodPut ?path None '''')"
        using glDo_sends [of c MethodPut None ?path "''''" st1] unfolding one d by auto
      ultimately show ?thesis using h Inr hs True by auto
    next
      case False
      then show ?thesis using h Inr hs by (auto simp: glMergeCAS_def bindA_def errA_def)
    qed
  qed
qed

subsection \<open>The pin\<close>







text \<open>A client whose network answers every request with 200 and an empty document.\<close>

definition emptyDocs :: "unit gitlabClient" where
  "emptyDocs = \<lparr>gl_endpoint = '''', gl_token = '''', gl_botAuthor = ''bot'', gl_retry = glDefaultRetry,
     gl_libs = \<lparr>al_net = \<lparr>nt_ctxErr = \<lambda>s. None, nt_build = \<lambda>m u. None,
       nt_send = \<lambda>rq s. (Inr \<lparr>rs_status = 200, rs_retryAfter = '''', rs_remaining = '''', rs_body = ''{}'', rs_readErr = None\<rparr>, s),
       nt_sleep = \<lambda>d s. s, nt_jitter = \<lambda>h s. (0, s)\<rparr>,
       al_sha256 = \<lambda>x. x, al_jsonErr = \<lambda>x. x, al_text = \<lambda>e. '''', al_now = \<lambda>s. 0\<rparr>\<rparr>"

definition unpinned :: "unit gitlabState" where
  "unpinned = \<lparr>gs_remote = (), gs_pin = None, gs_warnings = []\<rparr>"





subsection \<open>The changed files\<close>

lemma parseInt64_plain: "parseInt64 s = Some n \<Longrightarrow> s \<noteq> '''' \<and> \<not> hasSuffix s ''+''"
proof -
  assume p: "parseInt64 s = Some n"
  have "\<not> is_digit (CHR ''+'')" by (simp add: is_digit_def)
  then have "False" if "s = t @ ''+''" for t
    using p that by (cases t) (auto simp: parseInt64_def Let_def split: if_splits)
  moreover have "hasSuffix s ''+'' \<Longrightarrow> \<exists>t. s = t @ ''+''"
    by (auto simp: suffix_def)
  ultimately show ?thesis using p by (auto simp: parseInt64_def)
qed

lemma enumerationGap_none:
  "enumerationGap n cc terminated over = '''' \<longleftrightarrow> terminated \<and> \<not> over \<and> parseInt64 cc = Some (int n)"
  using parseInt64_plain [of cc] by (auto simp: enumerationGap_def split: option.splits)

abbreviation glDiffPage :: "'s gitlabClient \<Rightarrow> string \<Rightarrow> string \<Rightarrow> nat \<Rightarrow> ('s, diffEntry list) gl" where
  "glDiffPage c p r page \<equiv> glGetOK c (''MR diffs '' @ p @ ''!'' @ r @ '' page '' @ nat_digits page)
     (glMrPath p r @ ''/diffs'' @ glPageQuery page) (decodeList decodeDiffEntry)"

text \<open>
  C18: the changed files of a snapshot are reported complete exactly when the pages read are an
  enumeration (full pages, then a short one, within the page ceiling), no row overflowed and the
  merge request's own change count is the number of rows; the paths are then the old and new names
  of all rows, each once. When they are not complete a gap is named.
\<close>

theorem gitlab_files_complete:
  "case mrChangedFiles c p r cc st of
     (Inl e, st') \<Rightarrow> (\<exists>st1. gather (glDiffPage c p r) 1 st = (Inl e, st1))
   | (Inr cf, st') \<Rightarrow>
       (cf_complete cf \<longleftrightarrow> (\<exists>pages. enumerated (glDiffPage c p r) 1 st pages st'
          \<and> parseInt64 cc = Some (int (length (concat pages)))
          \<and> True \<notin> df_overflow ` set (concat pages)
          \<and> distinct (cf_paths cf)
          \<and> set (cf_paths cf) = (\<Union>e \<in> set (concat pages). {df_old e, df_new e}) - {''''}))
       \<and> (cf_complete cf \<longleftrightarrow> cf_gap cf = '''')"
proof -
  obtain x st1 where g: "gather (glDiffPage c p r) 1 st = (x, st1)"
    by (cases "gather (glDiffPage c p r) 1 st")
  show ?thesis
  proof (cases x)
    case (Inl e)
    then show ?thesis using g by (simp add: mrChangedFiles_def bindA_def)
  next
    case (Inr a)
    obtain rows terminated where a: "a = (rows, terminated)" by (cases a)
    have paths: "set (concat (map entryPaths rows)) = (\<Union>e \<in> set rows. {df_old e, df_new e}) - {''''}" for rows
      by (auto simp: entryPaths_def split: if_splits)
    let ?gap = "enumerationGap (length rows) cc terminated (\<exists>e \<in> set rows. df_overflow e)"
    have one: "terminated \<and> rows = concat pages" if "enumerated (glDiffPage c p r) 1 st pages st1" for pages
      using enumerated_gather [OF that] g Inr a by simp
    have some: "\<exists>pages. enumerated (glDiffPage c p r) 1 st pages st1 \<and> rows = concat pages" if terminated
      using gather_enumerated [of "glDiffPage c p r" 1 st rows st1] g Inr a that by simp
    have "?gap = '''' \<longleftrightarrow> (\<exists>pages. enumerated (glDiffPage c p r) 1 st pages st1
          \<and> parseInt64 cc = Some (int (length (concat pages)))
          \<and> True \<notin> df_overflow ` set (concat pages)
          \<and> distinct (dedup (concat (map entryPaths rows)))
          \<and> set (dedup (concat (map entryPaths rows))) = (\<Union>e \<in> set (concat pages). {df_old e, df_new e}) - {''''})"
      (is "_ \<longleftrightarrow> ?Q")
    proof
      assume "?gap = ''''"
      then have t: "terminated" "True \<notin> df_overflow ` set rows" "parseInt64 cc = Some (int (length rows))"
        by (auto simp: enumerationGap_none)
      obtain pages where pages: "enumerated (glDiffPage c p r) 1 st pages st1" "rows = concat pages"
        using some [OF t(1)] by blast
      show ?Q by (rule exI [of _ pages]) (use pages t(2,3) paths [of rows] in simp)
    next
      assume ?Q
      then obtain pages where pages: "enumerated (glDiffPage c p r) 1 st pages st1"
        "parseInt64 cc = Some (int (length (concat pages)))" "True \<notin> df_overflow ` set (concat pages)" by blast
      have "terminated" "rows = concat pages" using one [OF pages(1)] by simp_all
      with pages(2,3) show "?gap = ''''" by (auto simp: enumerationGap_none)
    qed
    moreover have "mrChangedFiles c p r cc st = (Inr \<lparr>cf_paths = dedup (concat (map entryPaths rows)),
        cf_complete = (?gap = ''''), cf_gap = ?gap\<rparr>, st1)"
      using g Inr a by (simp add: mrChangedFiles_def bindA_def Let_def okA_def)
    ultimately show ?thesis by (simp only: prod.case sum.case changedFileSet.simps simp_thms)
  qed
qed


subsection \<open>Approval evidence\<close>











subsection \<open>Listings\<close>

definition sampleMarker :: marker where
  "sampleMarker = \<lparr>m_slot = \<lparr>s_project = ''p'', s_mr = ''1'', s_rule = ''r'', s_effect = ''summary'', s_entryRef = ''''\<rparr>,
     m_occurrence = ''o'', m_decision = ''d'', m_artifact = \<lparr>a_kind = ''summary'', a_schemaVersion = ''v1''\<rparr>\<rparr>"

text \<open>
  C39: a note the adapter writes is read back: where the envelope was accepted and the marker is valid
  text, a listing that meets the note gives exactly that note, with the marker it was written with.
\<close>

theorem gitlab_note_read_back:
  assumes "Envelope m body = Inr full" "validMarker m"
  shows "glNoteOf c \<lparr>nr_id = i, nr_body = full, nr_author = gl_botAuthor c\<rparr> st
    = ([\<lparr>n_id = ''note/'' @ itoa i, n_marker = m, n_author = gl_botAuthor c, n_body = full\<rparr>], st)"
  using parseMarker_Envelope [OF assms] by (simp add: glNoteOf_def)

lemma gitlab_note_read_back_witness:
  "glNoteOf emptyDocs \<lparr>nr_id = 7, nr_body = FormatMarker sampleMarker, nr_author = ''bot''\<rparr> unpinned
    = ([\<lparr>n_id = ''note/'' @ itoa 7, n_marker = sampleMarker, n_author = ''bot'', n_body = FormatMarker sampleMarker\<rparr>], unpinned)"
proof -
  have "Envelope sampleMarker '''' = Inr (FormatMarker sampleMarker)"
    by (simp add: Envelope_def validateEnvelopeBody_def containsUnsafeCommentClose_def)
  moreover have "validMarker sampleMarker" by (simp add: sampleMarker_def validMarker_def validUtf8.simps)
  ultimately show ?thesis
    using gitlab_note_read_back [of sampleMarker "''''" "FormatMarker sampleMarker" emptyDocs 7 unpinned] by (simp add: emptyDocs_def)
qed

lemma glThreads_of_bot:
  assumes "glListBotThreads c p r st = (Inr ts, st')" "t \<in> set ts"
  shows "t_author t = gl_botAuthor c \<and> (\<exists>body. parseMarker body = Marked (t_marker t))"
proof -
  from pageLoop_listed [OF assms(1) [unfolded glListBotThreads_def]] obtain pages where
    l: "listed (\<lambda>page. glGetOK c (''discussions '' @ p @ ''!'' @ r) (glMrPath p r @ ''/discussions'' @ glPageQuery page)
        (decodeList decodeDiscussion)) (eachRow (glThreadOf c)) 1 st pages st'" "ts = concat (map snd pages)" by blast
  from listed_from [OF l(1), of t] assms(2) l(2) obtain rows out s s' where
    "eachRow (glThreadOf c) rows s = ((Inr out, s') :: (http_error + thread list) \<times> 'a gitlabState)" "t \<in> set out" by blast
  from eachRow_from [OF this] obtain d s1 where "t \<in> set (fst (glThreadOf c d s1))" by blast
  then show ?thesis
    by (auto simp: glThreadOf_def split: list.splits if_splits marker_scan.splits)
qed

lemma mrChangedFiles_gap:
  "mrChangedFiles c p r cc st = (Inr cf, st') \<Longrightarrow> (cf_complete cf \<longleftrightarrow> cf_gap cf = '''') \<and> distinct (cf_paths cf)"
  by (auto simp: mrChangedFiles_def bindA_Inr_iff Let_def)

text \<open>
  C38: every snapshot is well-formed: its files are sorted, without repetition; it is incomplete exactly
  when it names a gap; its digest is that of its heads; every thread in it is the bot's and carries a
  readable marker; and its report does not arm a merge.
\<close>

theorem gitlab_snapshot_wellformed:
  "case glSnapshot c p r st of
     (Inl e, st') \<Rightarrow> True
   | (Inr sn, st') \<Rightarrow> sorted (sn_changedFiles sn) \<and> distinct (sn_changedFiles sn)
       \<and> (sn_complete sn \<longleftrightarrow> sn_gap sn = '''')
       \<and> h_digest (sn_heads sn) = SyntheticDigest (gl_libs c) (h_source (sn_heads sn)) (h_target (sn_heads sn))
       \<and> list_all (\<lambda>t. t_author t = gl_botAuthor c \<and> (\<exists>body. parseMarker body = Marked (t_marker t))) (sn_botThreads sn)
       \<and> \<not> pp_armEligible (PreconditionFromReport (sn_capabilities sn))"
proof (cases "glSnapshot c p r st")
  case (Pair z st')
  show ?thesis
  proof (cases z)
    case (Inl e)
    then show ?thesis using Pair by simp
  next
    case (Inr sn)
    obtain meta :: mrMeta and s1 cf s2 s3 threads where f: "mrChangedFiles c p r (mt_changesCount meta) s1 = (Inr cf, s2)"
      "glListBotThreads c p r s3 = (Inr threads, st')"
      and sn: "sn_changedFiles sn = sort (cf_paths cf)" "sn_complete sn = cf_complete cf" "sn_gap sn = cf_gap cf"
        "sn_botThreads sn = threads"
        "h_digest (sn_heads sn) = SyntheticDigest (gl_libs c) (h_source (sn_heads sn)) (h_target (sn_heads sn))"
      using Pair unfolding Inr glSnapshot_def Let_def by (clarsimp simp: bindA_Inr_iff)
    show ?thesis
      using mrChangedFiles_gap [OF f(1)] glThreads_of_bot [OF f(2)] gitlab_never_arms [OF Pair [unfolded Inr]]
      by (simp add: Pair Inr sn list_all_iff)
  qed
qed

subsection \<open>Retries\<close>

text \<open>
  C40: a read does not give up early: while the caller's context lives, a transient failure (a
  transport error, a rate limit, 429 or a server error) is what a GET returns only after all its
  attempts were sent, each the same request.
\<close>

theorem gitlab_read_persists:
  assumes "\<And>s. nt_ctxErr (al_net (gl_libs c)) s = None"
    and "nt_build (al_net (gl_libs c)) MethodGet (gl_endpoint c @ path) = None"
    and "glDo (glLogged c) MethodGet path None ct st = (x, st')" "passing x"
  shows "snd (gs_remote st') = snd (gs_remote st)
    @ replicate (max 1 (nat (rt_maxAttempts (gl_retry c)))) (glRequest c MethodGet path None ct)"
proof -
  let ?net = "al_net (gl_libs c)" and ?rq = "glRequest c MethodGet path None ct"
  let ?n = "nat (rt_maxAttempts (gl_retry c))"
  have rq: "glRequest (glLogged c) MethodGet path None ct = ?rq" by (simp add: glRequest_def)
  have once: "glDoOnce (glLogged c) MethodGet path None ct = sendOnce (logged ?net) ?rq"
    using assms(2) by (simp add: glDoOnce_def glLogged_net rq fun_eq_iff)
  have n: "attemptsFor (gl_retry c) MethodGet None = ?n" by (simp add: attemptsFor_def retryableMethod_def)
  obtain a s' where l: "attemptLoop (logged ?net) (gl_retry c) (sendOnce (logged ?net) ?rq) (ContextDone MethodGet path) ?n 1
      (gs_remote st) = (a, s')" by (cases "attemptLoop (logged ?net) (gl_retry c) (sendOnce (logged ?net) ?rq) (ContextDone MethodGet path) ?n 1 (gs_remote st)")
  have o: "x = fst (outcome (a, s'))" "gs_remote st' = s'"
    using assms(3) l outcome_state [of "(a, s')"]
    by (auto simp: glDo_def glLogged_net once n split: prod.splits)
  have "transient a" using assms(4) passing_outcome [of "(a, s')"] o(1) by simp
  show ?thesis
  proof (cases "1 \<le> ?n")
    case True
    from attemptLoop_persists [OF assms(1) this l \<open>transient a\<close>] True show ?thesis by (simp add: o(2))
  next
    case False
    obtain a1 s1 where s: "sendOnce (logged ?net) ?rq (gs_remote st) = (a1, s1)" by (cases "sendOnce (logged ?net) ?rq (gs_remote st)")
    have "nt_ctxErr (logged ?net) (gs_remote st) = None" by (simp add: assms(1))
    from attemptLoop_last [where once = "sendOnce (logged ?net) ?rq", OF this s] False l have "s' = s1" by simp
    then show ?thesis using sendOnce_logs [of ?net ?rq "gs_remote st"] s False o(2) by simp
  qed
qed


text \<open>A client whose network is always unavailable.\<close>

definition unavailable :: "unit gitlabClient" where
  "unavailable = emptyDocs\<lparr>gl_libs := (gl_libs emptyDocs)\<lparr>al_net := (al_net (gl_libs emptyDocs))\<lparr>nt_send := \<lambda>rq s.
     (Inr \<lparr>rs_status = 503, rs_retryAfter = '''', rs_remaining = '''', rs_body = '''', rs_readErr = None\<rparr>, s)\<rparr>\<rparr>\<rparr>"

lemma unavailable_net: "al_net (gl_libs unavailable) = \<lparr>nt_ctxErr = \<lambda>s. None, nt_build = \<lambda>m u. None,
  nt_send = \<lambda>rq s. (Inr \<lparr>rs_status = 503, rs_retryAfter = '''', rs_remaining = '''', rs_body = '''', rs_readErr = None\<rparr>, s),
  nt_sleep = \<lambda>d s. s, nt_jitter = \<lambda>h s. (0, s)\<rparr>"
  by (simp add: unavailable_def emptyDocs_def)

lemma gitlab_read_persists_witness:
  "snd (gs_remote (snd (glDo (glLogged unavailable) MethodGet ''/x'' None '''' \<lparr>gs_remote = ((), []), gs_pin = None, gs_warnings = []\<rparr>)))
     = replicate 3 (glRequest unavailable MethodGet ''/x'' None '''')"
proof -
  let ?st = "\<lparr>gs_remote = ((), []), gs_pin = None, gs_warnings = []\<rparr> :: (unit \<times> request list) gitlabState"
  obtain x st' where d: "glDo (glLogged unavailable) MethodGet ''/x'' None '''' ?st = (x, st')"
    by (cases "glDo (glLogged unavailable) MethodGet ''/x'' None '''' ?st")
  have r: "gl_retry unavailable = glDefaultRetry" by (simp add: unavailable_def emptyDocs_def)
  have "passing x"
    using d by (simp add: glDo_def glLogged_net glDoOnce_def unavailable_net r attemptLoop.simps sendOnce_def answerOf_def
        isRateLimited_def readBounded_def maxResponseBytes_def transient_def outcome_def passing_def attemptsFor_def
        retryableMethod_def glDefaultRetry_def logged_def backoff_def Let_def) (auto simp: passing_def)
  from gitlab_read_persists [OF _ _ d this] show ?thesis by (simp add: d unavailable_net r glDefaultRetry_def)
qed

end
