(* ===== verification/Base64.thy ===== *)
theory Base64
  imports GoStrings
begin

text \<open>
  Base64 (\<open>encoding/base64\<close>) as the GitHub adapter uses it: the raw URL encoding of its app token and
  the padded standard decoding of file contents, with the round trip of the standard alphabet.
\<close>

definition sextet :: "char \<Rightarrow> char \<Rightarrow> nat \<Rightarrow> char" where
  "sextet c62 c63 n = (if n < 26 then char_of (65 + n) else if n < 52 then char_of (71 + n)
     else if n < 62 then char_of (n - 4) else if n = 62 then c62 else c63)"

abbreviation stdChar :: "nat \<Rightarrow> char" where "stdChar \<equiv> sextet (CHR ''+'') (CHR ''/'')"
abbreviation urlChar :: "nat \<Rightarrow> char" where "urlChar \<equiv> sextet (CHR ''-'') (CHR ''_'')"

fun encodeBase64 :: "(nat \<Rightarrow> char) \<Rightarrow> string \<Rightarrow> string \<Rightarrow> string" where
  "encodeBase64 f pad [] = []"
| "encodeBase64 f pad [a] = [f (of_char a div 4), f (of_char a mod 4 * 16)] @ pad @ pad"
| "encodeBase64 f pad [a, b] =
     [f (of_char a div 4), f (of_char a mod 4 * 16 + of_char b div 16), f (of_char b mod 16 * 4)] @ pad"
| "encodeBase64 f pad (a # b # c # s) =
     [f (of_char a div 4), f (of_char a mod 4 * 16 + of_char b div 16), f (of_char b mod 16 * 4 + of_char c div 64),
      f (of_char c mod 64)] @ encodeBase64 f pad s"

definition stdEncode :: "string \<Rightarrow> string" where "stdEncode = encodeBase64 stdChar ''=''"
definition rawURLEncode :: "string \<Rightarrow> string" where "rawURLEncode = encodeBase64 urlChar ''''"

definition stdValue :: "char \<Rightarrow> nat option" where
  "stdValue ch = (let n = of_char ch :: nat in
     if 65 \<le> n \<and> n \<le> 90 then Some (n - 65) else if 97 \<le> n \<and> n \<le> 122 then Some (n - 71)
     else if 48 \<le> n \<and> n \<le> 57 then Some (n + 4) else if ch = CHR ''+'' then Some 62
     else if ch = CHR ''/'' then Some 63 else None)"

definition three :: "nat \<Rightarrow> nat \<Rightarrow> nat \<Rightarrow> nat \<Rightarrow> string" where
  "three p q r s = [char_of (p * 4 + q div 16), char_of (q mod 16 * 16 + r div 4), char_of (r mod 4 * 64 + s)]"

text \<open>Padding ends the text; the bits it leaves over are not looked at (the decoder is not strict).\<close>

fun stdDecode :: "string \<Rightarrow> string option" where
  "stdDecode [] = Some []"
| "stdDecode (p # q # r # s # rest) =
     (case (stdValue p, stdValue q) of
        (Some a, Some b) \<Rightarrow>
          if r = CHR ''='' then (if s = CHR ''='' \<and> rest = [] then Some (take 1 (three a b 0 0)) else None)
          else (case stdValue r of None \<Rightarrow> None
            | Some c \<Rightarrow>
                if s = CHR ''='' then (if rest = [] then Some (take 2 (three a b c 0)) else None)
                else (case stdValue s of None \<Rightarrow> None
                  | Some d \<Rightarrow> map_option (\<lambda>t. three a b c d @ t) (stdDecode rest)))
      | _ \<Rightarrow> None)"
| "stdDecode _ = None"

lemma stdValue_stdChar: "n < 64 \<Longrightarrow> stdValue (stdChar n) = Some n"
  by (cases "n = 62"; cases "n = 63") (auto simp: sextet_def stdValue_def Let_def)

lemma stdChar_not_pad: "n < 64 \<Longrightarrow> stdChar n \<noteq> CHR ''=''"
proof
  assume n: "n < 64" "stdChar n = CHR ''=''"
  have "stdValue (CHR ''='') = None" by (simp add: stdValue_def)
  with stdValue_stdChar [OF n(1)] n(2) show False by simp
qed

text \<open>A byte is cut after its first 2, 4 or 6 bits.\<close>

lemma byte_cut:
  fixes a :: char
  obtains x y where "(of_char a :: nat) = x * 4 + y" "x < 64" "y < 4" "(of_char a :: nat) div 4 = x" "(of_char a :: nat) mod 4 = y"
proof -
  have "(of_char a :: nat) < 64 * 4" using nat_of_char_less_256 [of a] by simp
  then have "(of_char a :: nat) div 4 < 64" by (rule less_mult_imp_div_less)
  then show thesis using that [of "of_char a div 4" "of_char a mod 4"] by simp
qed

lemma byte_cut4:
  fixes a :: char
  obtains x y where "(of_char a :: nat) = x * 16 + y" "x < 16" "y < 16" "(of_char a :: nat) div 16 = x" "(of_char a :: nat) mod 16 = y"
proof -
  have "(of_char a :: nat) < 16 * 16" using nat_of_char_less_256 [of a] by simp
  then have "(of_char a :: nat) div 16 < 16" by (rule less_mult_imp_div_less)
  then show thesis using that [of "of_char a div 16" "of_char a mod 16"] by simp
qed

lemma byte_cut6:
  fixes a :: char
  obtains x y where "(of_char a :: nat) = x * 64 + y" "x < 4" "y < 64" "(of_char a :: nat) div 64 = x" "(of_char a :: nat) mod 64 = y"
proof -
  have "(of_char a :: nat) < 4 * 64" using nat_of_char_less_256 [of a] by simp
  then have "(of_char a :: nat) div 64 < 4" by (rule less_mult_imp_div_less)
  then show thesis using that [of "of_char a div 64" "of_char a mod 64"] by simp
qed

lemma char_of_sum: "(of_char a :: nat) = n \<Longrightarrow> char_of n = (a :: char)"
  by (metis char_of_char)

lemma decode_one: "stdDecode (encodeBase64 stdChar ''='' [a]) = Some [a]"
proof (rule byte_cut [of a])
  fix x y assume a: "(of_char a :: nat) = x * 4 + y" "x < 64" "y < 4" "(of_char a :: nat) div 4 = x" "(of_char a :: nat) mod 4 = y"
  then show ?thesis using char_of_sum [OF a(1)] by (simp add: stdValue_stdChar three_def)
qed

lemma decode_two: "stdDecode (encodeBase64 stdChar ''='' [a, b]) = Some [a, b]"
proof (rule byte_cut [of a], rule byte_cut4 [of b])
  fix x y u v assume a: "(of_char a :: nat) = x * 4 + y" "x < 64" "y < 4" "(of_char a :: nat) div 4 = x" "(of_char a :: nat) mod 4 = y"
    and b: "(of_char b :: nat) = u * 16 + v" "u < 16" "v < 16" "(of_char b :: nat) div 16 = u" "(of_char b :: nat) mod 16 = v"
  then show ?thesis using char_of_sum [OF a(1)] char_of_sum [OF b(1)]
    by (simp add: stdValue_stdChar stdChar_not_pad three_def numeral_2_eq_2)
qed

lemma decode_three:
  "stdDecode (encodeBase64 stdChar ''='' (a # b # c # s)) = map_option ((@) [a, b, c]) (stdDecode (encodeBase64 stdChar ''='' s))"
proof (rule byte_cut [of a], rule byte_cut4 [of b], rule byte_cut6 [of c])
  fix x y u v w t assume a: "(of_char a :: nat) = x * 4 + y" "x < 64" "y < 4" "(of_char a :: nat) div 4 = x" "(of_char a :: nat) mod 4 = y"
    and b: "(of_char b :: nat) = u * 16 + v" "u < 16" "v < 16" "(of_char b :: nat) div 16 = u" "(of_char b :: nat) mod 16 = v"
    and c: "(of_char c :: nat) = w * 64 + t" "w < 4" "t < 64" "(of_char c :: nat) div 64 = w" "(of_char c :: nat) mod 64 = t"
  have n: "y * 16 + u < 64" "v * 4 + w < 64" using a(3) b(2,3) c(2) by simp_all
  have "three x (y * 16 + u) (v * 4 + w) t = [a, b, c]"
    using char_of_sum [OF a(1)] char_of_sum [OF b(1)] char_of_sum [OF c(1)] a(3) b(2,3) c(2,3) by (simp add: three_def)
  then show ?thesis using a(2-5) b(2-5) c(2-5) n by (simp add: stdValue_stdChar stdChar_not_pad)
qed

lemma stdDecode_stdEncode: "stdDecode (stdEncode s) = Some s"
proof -
  have "stdDecode (encodeBase64 stdChar ''='' s) = Some s"
  proof (induction s rule: encodeBase64.induct [of "\<lambda>f pad s. stdDecode (encodeBase64 stdChar ''='' s) = Some s"])
    case (4 f pad a b c s)
    then show ?case by (simp only: decode_three) simp
  qed (simp_all only: decode_one decode_two encodeBase64.simps(1) stdDecode.simps(1))
  then show ?thesis by (simp add: stdEncode_def)
qed

text \<open>Every sextet an encoding takes is below 64.\<close>

lemma byte_bounds:
  fixes a b :: char
  shows "(of_char a :: nat) div 4 < 64" "(of_char a :: nat) mod 4 * 16 < 64"
    "(of_char a :: nat) mod 4 * 16 + of_char b div 16 < 64" "(of_char a :: nat) mod 16 * 4 < 64"
    "(of_char a :: nat) mod 16 * 4 + of_char b div 64 < 64" "(of_char a :: nat) mod 64 < 64"
proof -
  show "(of_char a :: nat) div 4 < 64" "(of_char a :: nat) mod 4 * 16 < 64"
    by (rule byte_cut [of a], simp)+
  show "(of_char a :: nat) mod 16 * 4 < 64" by (rule byte_cut4 [of a]) simp
  show "(of_char a :: nat) mod 64 < 64" by simp
  show "(of_char a :: nat) mod 4 * 16 + of_char b div 16 < 64" by (rule byte_cut [of a], rule byte_cut4 [of b]) simp
  show "(of_char a :: nat) mod 16 * 4 + of_char b div 64 < 64" by (rule byte_cut4 [of a], rule byte_cut6 [of b]) simp
qed

end
