(* ===== verification/Github.thy ===== *)
theory Github
  imports Http Base64 Builtin "HOL-Library.Monad_Syntax"
begin

text \<open>
  The GitHub adapter's client (\<open>internal/forge/github/github.go\<close>, \<open>auth.go\<close>, \<open>graphql.go\<close>): its state,
  the two kinds of credential, the REST transport and the GraphQL transport, and the index of review
  threads. PEM, X.509, RSA and the RFC 3339 clock are parameters; the state holds the remote side, the
  caches of the run and the installation token.
\<close>

subsection \<open>The client\<close>

record appAuth =
  aa_keyPEM :: string
  aa_appID :: int
  aa_instID :: int

text \<open>
  \<open>cl_pem\<close> is the first block of a PEM text, \<open>cl_pkcs8\<close> a key that may not be RSA, \<open>cl_sign\<close> an RS256
  signature of a digest, \<open>cl_time\<close> the instant of an RFC 3339 text. Times are in nanoseconds.
\<close>

record cryptoLibs =
  cl_pem :: "string \<Rightarrow> string option"
  cl_pkcs1 :: "string \<Rightarrow> string option"
  cl_pkcs8 :: "string \<Rightarrow> string option option"
  cl_sum256 :: "string \<Rightarrow> string"
  cl_sign :: "string \<Rightarrow> string \<Rightarrow> string option"
  cl_time :: "string \<Rightarrow> int option"

record 's githubClient =
  gh_endpoint :: string
  gh_token :: string
  gh_botName :: string
  gh_appAuth :: "appAuth option"
  gh_retry :: retryPolicy
  gh_libs :: "'s adapterLibs"
  gh_crypto :: cryptoLibs

record 's githubState =
  hs_remote :: 's
  hs_pin :: "(string \<times> mrMetadata) option"
  hs_scopeOK :: "string \<Rightarrow> bool option"
  hs_mergeRef :: string
  hs_mergeable :: string
  hs_changedFiles :: "int option"
  hs_warnings :: "string list"
  hs_token :: string
  hs_tokenUntil :: int

type_synonym ('s, 'a) gh = "('s githubState, http_error, 'a) act"

definition ghDefaultRetry :: retryPolicy where
  "ghDefaultRetry = \<lparr>rt_maxAttempts = 4, rt_base = 200 * 10 ^ 6, rt_max = 4 * 10 ^ 9, rt_timeout = 30 * 10 ^ 9\<rparr>"

definition trimSlashes :: "string \<Rightarrow> string" where
  "trimSlashes s = rev (dropWhile (\<lambda>c. c = CHR ''/'') (rev s))"

definition ghNew :: "'s adapterLibs \<Rightarrow> cryptoLibs \<Rightarrow> string \<Rightarrow> string \<Rightarrow> string \<Rightarrow> appAuth option \<Rightarrow> retryPolicy option \<Rightarrow> 's githubClient" where
  "ghNew libs crypto endpoint token botName app opt =
     \<lparr>gh_endpoint = trimSlashes endpoint, gh_token = token, gh_botName = botName, gh_appAuth = app,
      gh_retry = (case opt of None \<Rightarrow> ghDefaultRetry | Some p \<Rightarrow> WithRetry p ghDefaultRetry),
      gh_libs = libs, gh_crypto = crypto\<rparr>"

definition ghWarn :: "string \<Rightarrow> 's githubState \<Rightarrow> 's githubState" where
  "ghWarn msg st = st\<lparr>hs_warnings := List.insert msg (hs_warnings st)\<rparr>"

definition ghWarningsSorted :: "'s githubState \<Rightarrow> string list" where
  "ghWarningsSorted st = sort (hs_warnings st)"

definition ghIdentity :: "'s githubClient \<Rightarrow> identity" where
  "ghIdentity c = \<lparr>id_kind = (if gh_appAuth c = None then ''user'' else ''app''), id_login = gh_botName c, id_id = gh_botName c\<rparr>"

text \<open>The network acts on the remote part of the state.\<close>

definition remoteNet :: "'s network \<Rightarrow> 's githubState network" where
  "remoteNet net =
     \<lparr>nt_ctxErr = \<lambda>st. nt_ctxErr net (hs_remote st), nt_build = nt_build net,
      nt_send = \<lambda>req st. (case nt_send net req (hs_remote st) of (r, s) \<Rightarrow> (r, st\<lparr>hs_remote := s\<rparr>)),
      nt_sleep = \<lambda>d st. st\<lparr>hs_remote := nt_sleep net d (hs_remote st)\<rparr>,
      nt_jitter = \<lambda>h st. (case nt_jitter net h (hs_remote st) of (j, s) \<Rightarrow> (j, st\<lparr>hs_remote := s\<rparr>))\<rparr>"

abbreviation ghNet :: "'s githubClient \<Rightarrow> 's githubState network" where
  "ghNet c \<equiv> remoteNet (al_net (gh_libs c))"

definition ghNow :: "'s githubClient \<Rightarrow> 's githubState \<Rightarrow> int" where
  "ghNow c st = al_now (gh_libs c) (hs_remote st)"

subsection \<open>Credentials (auth.go)\<close>

definition rsaKeyOf :: "cryptoLibs \<Rightarrow> string \<Rightarrow> http_error + string" where
  "rsaKeyOf k keyPEM =
     (case cl_pem k keyPEM of
        None \<Rightarrow> Inl (CredentialRefused ''app credential is not a parseable PEM private key'')
      | Some block \<Rightarrow> (case cl_pkcs1 k block of
          Some rsaKey \<Rightarrow> Inr rsaKey
        | None \<Rightarrow> (case cl_pkcs8 k block of
            Some (Some rsaKey) \<Rightarrow> Inr rsaKey
          | _ \<Rightarrow> Inl (CredentialRefused ''app credential is not an RSA private key''))))"

definition unixSeconds :: "int \<Rightarrow> int" where "unixSeconds ns = ns div 10 ^ 9"

definition appJWT :: "cryptoLibs \<Rightarrow> appAuth \<Rightarrow> int \<Rightarrow> http_error + string" where
  "appJWT k a now =
     bind_res (rsaKeyOf k (aa_keyPEM a)) (\<lambda>rsaKey.
       let header = object [member ''alg'' ''RS256'', member ''typ'' ''JWT''];
           claims = object [jsonQuote ''exp'' @ '':'' @ itoa (unixSeconds (now + 120 * 10 ^ 9)),
             jsonQuote ''iat'' @ '':'' @ itoa (unixSeconds (now - 30 * 10 ^ 9)),
             jsonQuote ''iss'' @ '':'' @ itoa (aa_appID a)];
           signingInput = rawURLEncode header @ ''.'' @ rawURLEncode claims
       in case cl_sign k rsaKey (cl_sum256 k signingInput) of
            None \<Rightarrow> Inl (CredentialRefused ''app JWT signing failed'')
          | Some sig \<Rightarrow> Inr (signingInput @ ''.'' @ rawURLEncode sig))"

definition tokenPath :: "appAuth \<Rightarrow> string" where
  "tokenPath a = ''/app/installations/'' @ itoa (aa_instID a) @ ''/access_tokens''"

definition tokenRequest :: "'s githubClient \<Rightarrow> appAuth \<Rightarrow> string \<Rightarrow> request" where
  "tokenRequest c a jwt =
     \<lparr>rq_method = MethodPost, rq_url = trimSlashes (gh_endpoint c) @ tokenPath a, rq_path = tokenPath a,
      rq_body = Some ''{}'', rq_headers = [(''Authorization'', ''Bearer '' @ jwt), (''Accept'', ''application/vnd.github+json'')]\<rparr>"

definition decodeMinted :: "jobj \<Rightarrow> (string \<times> string) option" where
  "decodeMinted ms = do { t \<leftarrow> stringField ''token'' ms; e \<leftarrow> stringField ''expires_at'' ms; Some (t, e) }"

text \<open>The answer of the exchange; a token is kept until its expiry, or for 55 minutes.\<close>

definition mintedToken :: "'s githubClient \<Rightarrow> response \<Rightarrow> ('s, string) gh" where
  "mintedToken c resp = (\<lambda>st.
     case readBounded (rs_readErr resp) (rs_body resp) (2 ^ 16) of
       Inl e \<Rightarrow> (Inl (CredentialRefused ''installation token response read failed''), st)
     | Inr raw \<Rightarrow>
         if rs_status resp = 201 \<or> rs_status resp = 200 then
           (case decodeStruct decodeMinted raw of
              None \<Rightarrow> (Inl (CredentialRefused ''installation token exchange returned no usable token''), st)
            | Some (t, e) \<Rightarrow>
                if trimSpace t = '''' then (Inl (CredentialRefused ''installation token exchange returned no usable token''), st)
                else (Inr t, st\<lparr>hs_token := t, hs_tokenUntil := (case cl_time (gh_crypto c) e of
                   Some u \<Rightarrow> u | None \<Rightarrow> ghNow c st + 55 * 60 * 10 ^ 9)\<rparr>))
         else if rs_status resp = 401 \<or> rs_status resp = 403 \<or> rs_status resp = 404 then
           (Inl (CredentialRefused ''installation credential rejected (401/403/404)''), st)
         else (Inl (BadStatus ''installation token exchange'' (rs_status resp)), st))"

definition installationToken :: "'s githubClient \<Rightarrow> appAuth \<Rightarrow> ('s, string) gh" where
  "installationToken c a = (\<lambda>st.
     if hs_token st \<noteq> '''' \<and> ghNow c st < hs_tokenUntil st - 60 * 10 ^ 9 then (Inr (hs_token st), st)
     else case appJWT (gh_crypto c) a (ghNow c st) of
         Inl e \<Rightarrow> (Inl e, st)
       | Inr jwt \<Rightarrow>
           (case nt_build (ghNet c) MethodPost (trimSlashes (gh_endpoint c) @ tokenPath a) of
              Some e \<Rightarrow> (Inl (CredentialRefused ''build installation token request''), st)
            | None \<Rightarrow> (case nt_send (ghNet c) (tokenRequest c a jwt) st of
                (Inl e, st1) \<Rightarrow> (Inl (TransportFailed MethodPost (tokenPath a) e), st1)
              | (Inr resp, st1) \<Rightarrow> mintedToken c resp st1)))"

definition bearer :: "'s githubClient \<Rightarrow> ('s, string) gh" where
  "bearer c = (case gh_appAuth c of
       None \<Rightarrow> if trimSpace (gh_token c) = '''' then errA CredentialMissing else okA (gh_token c)
     | Some a \<Rightarrow> installationToken c a)"

subsection \<open>The REST transport\<close>

definition ghRequest :: "'s githubClient \<Rightarrow> string \<Rightarrow> string \<Rightarrow> string option \<Rightarrow> string \<Rightarrow> string \<Rightarrow> request" where
  "ghRequest c mth path body contentType cred =
     \<lparr>rq_method = mth, rq_url = gh_endpoint c @ path, rq_path = path, rq_body = body,
      rq_headers = (''Authorization'', ''Bearer '' @ cred)
        # (if contentType = '''' then [] else [(''Content-Type'', contentType)])
        @ [(''Accept'', ''application/vnd.github+json''), (''X-GitHub-Api-Version'', ''2022-11-28'')]\<rparr>"

definition ghDoOnce :: "'s githubClient \<Rightarrow> string \<Rightarrow> string \<Rightarrow> string option \<Rightarrow> string \<Rightarrow> 's githubState \<Rightarrow> attempt \<times> 's githubState" where
  "ghDoOnce c mth path body contentType st =
     (case nt_build (ghNet c) mth (gh_endpoint c @ path) of
        Some e \<Rightarrow> ((0, Inl (BuildFailed mth path e)), st)
      | None \<Rightarrow> (case bearer c st of
          (Inl e, st1) \<Rightarrow> ((0, Inl (Within (mth @ '' '' @ path) e)), st1)
        | (Inr cred, st1) \<Rightarrow> sendOnce (ghNet c) (ghRequest c mth path body contentType cred) st1))"

definition ghDo :: "'s githubClient \<Rightarrow> string \<Rightarrow> string \<Rightarrow> string option \<Rightarrow> string \<Rightarrow> ('s, int \<times> string) gh" where
  "ghDo c mth path body contentType = (\<lambda>st.
     outcome (attemptLoop (ghNet c) (gh_retry c) (ghDoOnce c mth path body contentType)
       (ContextDone mth path) (attemptsFor (gh_retry c) mth body) 1 st))"

abbreviation jsonType :: string where "jsonType \<equiv> ''application/json''"

definition ghPageQuery :: "nat \<Rightarrow> string" where
  "ghPageQuery page = ''?per_page='' @ nat_digits listPerPage @ ''&page='' @ nat_digits page"

text \<open>A read of a list or an object, as the adapter's status switches treat it.\<close>

definition ghListing :: "'s githubClient \<Rightarrow> string \<Rightarrow> string \<Rightarrow> (string \<Rightarrow> 'a option) \<Rightarrow> ('s, 'a) gh" where
  "ghListing c op path dec = bindA (ghDo c MethodGet path None '''') (\<lambda>(status, raw).
     if status = 200 then (case dec raw of None \<Rightarrow> errA (Undecodable op) | Some a \<Rightarrow> okA a)
     else if status = 404 \<or> status = 403 then errA (Unauthorized op status)
     else errA (BadStatus op status))"

subsection \<open>The GraphQL transport (graphql.go)\<close>

definition graphqlBody :: "string \<Rightarrow> string list \<Rightarrow> string" where
  "graphqlBody query vars = object [member ''query'' query, jsonQuote ''variables'' @ '':'' @ object vars]"

definition graphqlRequest :: "'s githubClient \<Rightarrow> string \<Rightarrow> string list \<Rightarrow> string \<Rightarrow> request" where
  "graphqlRequest c query vars cred =
     \<lparr>rq_method = MethodPost, rq_url = trimSlashes (gh_endpoint c) @ ''/graphql'', rq_path = ''/graphql'',
      rq_body = Some (graphqlBody query vars),
      rq_headers = [(''Authorization'', ''Bearer '' @ cred), (''Content-Type'', jsonType)]\<rparr>"

definition decodeEnvelope :: "jobj \<Rightarrow> (string list \<times> jval option) option" where
  "decodeEnvelope ms = do {
     vs \<leftarrow> arrayField ''errors'' ms;
     es \<leftarrow> mapAll (\<lambda>v. Option.bind (structOf v) (stringField ''Message'')) vs;
     Some (es, (case valuesOf ''data'' ms of [] \<Rightarrow> None | d # ds \<Rightarrow> Some (last (d # ds)))) }"

definition graphqlAnswer :: "request \<Rightarrow> response \<Rightarrow> http_error + jval option" where
  "graphqlAnswer req resp =
     (case readBounded (rs_readErr resp) (rs_body resp) maxResponseBytes of
        Inl e \<Rightarrow> Inl (BodyRead (rq_method req) (rq_path req) e)
      | Inr raw \<Rightarrow>
          if rs_status resp \<noteq> 200 then Inl (BadStatus ''graphql'' (rs_status resp))
          else (case decodeStruct decodeEnvelope raw of
              None \<Rightarrow> Inl (Undecodable ''graphql'')
            | Some (es, dat) \<Rightarrow>
                if es \<noteq> [] \<and> (dat = None \<or> dat = Some JsNull) then Inl (GraphqlErrors es) else Inr dat))"

definition gqlDo :: "'s githubClient \<Rightarrow> string \<Rightarrow> string list \<Rightarrow> ('s, jval option) gh" where
  "gqlDo c query vars =
     bindA (bearer c) (\<lambda>cred st.
       case nt_build (ghNet c) MethodPost (trimSlashes (gh_endpoint c) @ ''/graphql'') of
         Some e \<Rightarrow> (Inl (Refused ''github: graphql: build request failed''), st)
       | None \<Rightarrow> (let req = graphqlRequest c query vars cred
           in case nt_send (ghNet c) req st of
                (Inl e, st1) \<Rightarrow> (Inl (TransportFailed MethodPost ''/graphql'' e), st1)
              | (Inr resp, st1) \<Rightarrow> (graphqlAnswer req resp, st1)))"

definition decodeData :: "(jobj \<Rightarrow> 'a option) \<Rightarrow> jval option \<Rightarrow> 'a option" where
  "decodeData dec dat = Option.bind dat (\<lambda>v. Option.bind (structOf v) dec)"

text \<open>The documents of the mutation and the query, line by line.\<close>

definition gqlResolveThread :: string where
  "gqlResolveThread = joinOn [CHR 0x0A]
     [''mutation($threadId: ID!) {'',
      ''  resolveReviewThread(input: {threadId: $threadId}) {'',
      ''    thread {'',
      ''      id'',
      ''      isResolved'',
      ''    }'',
      ''  }'',
      ''}'']"

definition gqlReviewThreads :: string where
  "gqlReviewThreads = joinOn [CHR 0x0A]
     [''query($owner: String!, $name: String!, $number: Int!, $cursor: String) {'',
      ''  repository(owner: $owner, name: $name) {'',
      ''    pullRequest(number: $number) {'',
      ''      reviewThreads(first: 100, after: $cursor) {'',
      ''        pageInfo {'',
      ''          hasNextPage'',
      ''          endCursor'',
      ''        }'',
      ''        nodes {'',
      ''          id'',
      ''          isResolved'',
      ''          comments(first: 10) {'',
      ''            nodes {'',
      ''              databaseId'',
      ''            }'',
      ''          }'',
      ''        }'',
      ''      }'',
      ''    }'',
      ''  }'',
      ''}'']"

subsection \<open>Addresses\<close>

text \<open>\<open>strings.Trim\<close> with a slash, after \<open>TrimSpace\<close>.\<close>

definition repoParts :: "string \<Rightarrow> http_error + string" where
  "repoParts project =
     (case splitOn (CHR ''/'') (dropWhile (\<lambda>c. c = CHR ''/'') (trimSlashes (trimSpace project))) of
        [owner, repo] \<Rightarrow> if owner = '''' \<or> repo = '''' then Inl (Refused (''project '' @ project @ '' is not an owner/repo pair''))
          else Inr (owner @ ''/'' @ repo)
      | _ \<Rightarrow> Inl (Refused (''project '' @ project @ '' is not an owner/repo pair'')))"

definition repoOf :: "string \<Rightarrow> ('s, string) gh" where
  "repoOf project = liftA (\<lambda>e. e) (repoParts project)"

definition ownerRepo :: "string \<Rightarrow> http_error + string \<times> string" where
  "ownerRepo project = bind_res (repoParts project) (\<lambda>parts.
     Inr (takeWhile (\<lambda>c. c \<noteq> CHR ''/'') parts, tl (dropWhile (\<lambda>c. c \<noteq> CHR ''/'') parts)))"

subsection \<open>The index of review threads\<close>

record reviewThread =
  gt_id :: string
  gt_resolved :: bool
  gt_comments :: "int list"

record threadIndex =
  ti_states :: "int \<Rightarrow> bool option"
  ti_threadIDs :: "int \<Rightarrow> string option"

definition decodeReviewThread :: "jobj \<Rightarrow> reviewThread option" where
  "decodeReviewThread ms = do {
     i \<leftarrow> stringField ''id'' ms; r \<leftarrow> boolField ''isResolved'' ms; cs \<leftarrow> structField ''comments'' ms;
     vs \<leftarrow> arrayField ''nodes'' cs;
     ids \<leftarrow> mapAll (\<lambda>v. Option.bind (structOf v) (intField ''databaseId'')) vs;
     Some \<lparr>gt_id = i, gt_resolved = r, gt_comments = ids\<rparr> }"

definition decodeThreadPage :: "jobj \<Rightarrow> (reviewThread list \<times> bool \<times> string) option" where
  "decodeThreadPage ms = do {
     repo \<leftarrow> structField ''repository'' ms; pr \<leftarrow> structField ''pullRequest'' repo; rts \<leftarrow> structField ''reviewThreads'' pr;
     pg \<leftarrow> structField ''pageInfo'' rts; more1 \<leftarrow> boolField ''hasNextPage'' pg; cur \<leftarrow> stringField ''endCursor'' pg;
     vs \<leftarrow> arrayField ''nodes'' rts;
     ts \<leftarrow> mapAll (\<lambda>v. Option.bind (structOf v) decodeReviewThread) vs;
     Some (ts, more1, cur) }"

definition indexComment :: "reviewThread \<Rightarrow> int \<Rightarrow> threadIndex \<Rightarrow> threadIndex" where
  "indexComment t i idx = (if i = 0 then idx else
     \<lparr>ti_states = (ti_states idx)(i \<mapsto> gt_resolved t), ti_threadIDs = (ti_threadIDs idx)(i \<mapsto> gt_id t)\<rparr>)"

definition indexThread :: "reviewThread \<Rightarrow> threadIndex \<Rightarrow> threadIndex" where
  "indexThread t idx = fold (indexComment t) (gt_comments t) idx"

definition threadVars :: "string \<Rightarrow> string \<Rightarrow> int \<Rightarrow> string \<Rightarrow> string list" where
  "threadVars owner nm number cursor =
     (if cursor = '''' then [] else [member ''cursor'' cursor])
     @ [member ''name'' nm, jsonQuote ''number'' @ '':'' @ itoa number, member ''owner'' owner]"

function threadPages :: "'s githubClient \<Rightarrow> string \<Rightarrow> (string \<times> string \<times> int) \<Rightarrow> nat \<Rightarrow> string \<Rightarrow> threadIndex
    \<Rightarrow> ('s, threadIndex) gh" where
  "threadPages c op addr page cursor idx =
     (if page > maxListPages then errA (PageCap op)
      else case addr of (owner, nm, number) \<Rightarrow>
        bindA (wrapA (Within op) (gqlDo c gqlReviewThreads (threadVars owner nm number cursor))) (\<lambda>dat.
          case decodeData decodeThreadPage dat of
            None \<Rightarrow> errA (Undecodable op)
          | Some (threads, hasNext, endCursor) \<Rightarrow>
              (let idx1 = fold indexThread threads idx
               in if \<not> hasNext then okA idx1 else threadPages c op addr (Suc page) endCursor idx1)))"
  by pat_completeness auto
termination by (relation "measure (\<lambda>(c, op, addr, page, cursor, idx). Suc maxListPages - page)") auto

declare threadPages.simps [simp del]

definition reviewThreadIndex :: "'s githubClient \<Rightarrow> string \<Rightarrow> string \<Rightarrow> ('s, threadIndex) gh" where
  "reviewThreadIndex c project mr =
     bindA (liftA (\<lambda>e. e) (ownerRepo project)) (\<lambda>(owner, nm).
       case parseInt64 mr of
         None \<Rightarrow> errA (Refused (''PR number '' @ quoted mr @ '' is not numeric''))
       | Some number \<Rightarrow>
           threadPages c (''review threads '' @ project @ ''#'' @ mr) (owner, nm, number) 1 ''''
             \<lparr>ti_states = (\<lambda>_. None), ti_threadIDs = (\<lambda>_. None)\<rparr>)"

definition threadNodeIDFor :: "'s githubClient \<Rightarrow> string \<Rightarrow> string \<Rightarrow> int \<Rightarrow> ('s, string) gh" where
  "threadNodeIDFor c project mr commentID =
     bindA (reviewThreadIndex c project mr) (\<lambda>idx.
       case ti_threadIDs idx commentID of
         Some i \<Rightarrow> if i = '''' then errA (Refused (''no review thread carries comment '' @ itoa commentID)) else okA i
       | None \<Rightarrow> errA (Refused (''no review thread carries comment '' @ itoa commentID)))"

end
