(* ===== verification/GithubSnapshot.thy ===== *)
theory GithubSnapshot
  imports Github
begin

text \<open>
  The read half of the GitHub adapter (\<open>internal/forge/github/snapshot.go\<close>, \<open>capability.go\<close>,
  \<open>resolve.go\<close>): pull requests and the pin, files behind the content-scope probe, the merge result, the
  changed files, the capability report, and the review chain. The listing of the bot's threads, which
  the snapshot calls, is in \<open>GithubWrite\<close>, and so is the snapshot.
\<close>

subsection \<open>Pull requests\<close>

record branchEnd =
  be_ref :: string
  be_sha :: string
  be_repo :: "string option"

record ghPR =
  pr_number :: int
  pr_sha :: string
  pr_nodeID :: string
  pr_labels :: "string list"
  pr_changedFiles :: "int option"
  pr_base :: branchEnd
  pr_head :: branchEnd
  pr_login :: string
  pr_mergeableState :: string

definition decodeEnd :: "string \<Rightarrow> jobj \<Rightarrow> branchEnd option" where
  "decodeEnd f ms = do {
     e \<leftarrow> structField f ms;
     r \<leftarrow> stringField ''ref'' e; s \<leftarrow> stringField ''sha'' e; p \<leftarrow> pointerField ''repo'' e;
     nm \<leftarrow> (case p of None \<Rightarrow> Some None | Some o1 \<Rightarrow> map_option Some (stringField ''full_name'' o1));
     Some \<lparr>be_ref = r, be_sha = s, be_repo = nm\<rparr> }"

definition decodePR :: "jobj \<Rightarrow> ghPR option" where
  "decodePR ms = do {
     n \<leftarrow> intField ''number'' ms; sha \<leftarrow> stringField ''sha'' ms; nid \<leftarrow> stringField ''node_id'' ms;
     vs \<leftarrow> arrayField ''labels'' ms; ls \<leftarrow> mapAll (\<lambda>v. Option.bind (structOf v) (stringField ''name'')) vs;
     cf \<leftarrow> intPointerField ''changed_files'' ms; b \<leftarrow> decodeEnd ''base'' ms; h \<leftarrow> decodeEnd ''head'' ms;
     u \<leftarrow> Option.bind (structField ''user'' ms) (stringField ''login''); m \<leftarrow> stringField ''mergeable_state'' ms;
     Some \<lparr>pr_number = n, pr_sha = sha, pr_nodeID = nid, pr_labels = ls, pr_changedFiles = cf, pr_base = b,
       pr_head = h, pr_login = u, pr_mergeableState = m\<rparr> }"

text \<open>The pinned source is the object's own \<open>sha\<close>; the guard looks at the one of its head.\<close>

definition mrInfoFromPR :: "string \<Rightarrow> ghPR \<Rightarrow> http_error + mrMetadata" where
  "mrInfoFromPR repo pr =
     (if be_sha (pr_head pr) = '''' \<or> be_ref (pr_head pr) = '''' \<or> be_ref (pr_base pr) = '''' then
        Inl (Refused (''PR '' @ repo @ '' is missing head/base refs''))
      else case (be_repo (pr_base pr), be_repo (pr_head pr)) of
          (Some base, Some head) \<Rightarrow>
            Inr \<lparr>md_iid = itoa (pr_number pr), md_project = repo, md_sourceBranch = be_ref (pr_head pr),
              md_targetBranch = be_ref (pr_base pr), md_source = pr_sha pr, md_target = be_sha (pr_base pr),
              md_fork = (head \<noteq> base), md_sourceProject = head, md_labels = pr_labels pr\<rparr>
        | _ \<Rightarrow> Inl (Refused (''PR '' @ repo @ ''#'' @ itoa (pr_number pr) @ '' reports no head or base repository'')))"

definition freshPR :: "'s githubClient \<Rightarrow> string \<Rightarrow> string \<Rightarrow> ('s, ghPR) gh" where
  "freshPR c repo mr =
     bindA (ghDo c MethodGet (''/repos/'' @ repo @ ''/pulls/'' @ mr) None '''') (\<lambda>(status, raw).
       if status \<noteq> 200 then errA (BadStatus (''get PR '' @ repo @ ''#'' @ mr) status)
       else case decodeStruct decodePR raw of
           None \<Rightarrow> errA (Undecodable (''PR '' @ repo @ ''#'' @ mr))
         | Some pr \<Rightarrow> (\<lambda>st. (Inr pr, st\<lparr>hs_mergeable := pr_mergeableState pr, hs_changedFiles := pr_changedFiles pr\<rparr>)))"

definition ghPinKey :: "string \<Rightarrow> string \<Rightarrow> string" where
  "ghPinKey project mr = project @ ''/'' @ mr"

text \<open>First write wins: only another pull request replaces the pin.\<close>

definition ghWritePin :: "string \<Rightarrow> string \<Rightarrow> mrMetadata \<Rightarrow> 's githubState \<Rightarrow> 's githubState" where
  "ghWritePin project mr info st =
     (if (case hs_pin st of Some (k, i) \<Rightarrow> k \<noteq> ghPinKey project mr | None \<Rightarrow> True)
      then st\<lparr>hs_pin := Some (ghPinKey project mr, info)\<rparr> else st)"

definition ghGetMR :: "'s githubClient \<Rightarrow> string \<Rightarrow> string \<Rightarrow> ('s, mrMetadata) gh" where
  "ghGetMR c project mr =
     bindA (repoOf project) (\<lambda>repo.
     bindA (freshPR c repo mr) (\<lambda>pr.
     bindA (liftA (\<lambda>e. e) (mrInfoFromPR repo pr)) (\<lambda>info.
       (\<lambda>st. (Inr info, ghWritePin project mr info st)))))"

definition ghMrPinned :: "'s githubClient \<Rightarrow> string \<Rightarrow> string \<Rightarrow> ('s, mrMetadata) gh" where
  "ghMrPinned c project mr = (\<lambda>st. case hs_pin st of
       Some (k, info) \<Rightarrow> if k = ghPinKey project mr \<and> md_iid info \<noteq> '''' then (Inr info, st) else ghGetMR c project mr st
     | None \<Rightarrow> ghGetMR c project mr st)"

subsection \<open>Files\<close>

definition contentScopeOK :: "'s githubClient \<Rightarrow> string \<Rightarrow> string \<Rightarrow> ('s, unit) gh" where
  "contentScopeOK c repo ref = (\<lambda>st0.
     if hs_scopeOK st0 (repo @ ''@'' @ ref) = Some True then (Inr (), st0)
     else bindA (wrapA (Within (''content-scope probe '' @ repo @ ''@'' @ ref))
         (ghDo c MethodGet (''/repos/'' @ repo @ ''/contents?ref='' @ QueryEscape ref) None '''')) (\<lambda>(status, raw) st.
       let granted = (status = 200);
           st1 = st\<lparr>hs_scopeOK := (hs_scopeOK st)(repo @ ''@'' @ ref \<mapsto> granted)\<rparr>
       in if granted then (Inr (), st1)
          else (Inl (Unauthorized (''content unreadable at ref '' @ ref) status), st1)) st0)"

record ghContent =
  gc_content :: string
  gc_encoding :: string
  gc_truncated :: bool

definition decodeContent :: "jobj \<Rightarrow> ghContent option" where
  "decodeContent ms = do {
     b \<leftarrow> stringField ''content'' ms; e \<leftarrow> stringField ''encoding'' ms; t \<leftarrow> boolField ''truncated'' ms;
     ty \<leftarrow> stringField ''type'' ms; n \<leftarrow> intField ''size'' ms;
     Some \<lparr>gc_content = b, gc_encoding = e, gc_truncated = t\<rparr> }"

definition ghContentOf :: "string \<Rightarrow> http_error + string" where
  "ghContentOf raw =
     (case decodeStruct decodeContent raw of
        None \<Rightarrow> Inl (Undecodable ''contents response'')
      | Some p \<Rightarrow>
          if gc_truncated p then Inl (Refused ''contents response is truncated'')
          else if gc_encoding p = ''base64'' then
            (case stdDecode (filter (\<lambda>ch. ch \<noteq> CHR 0x0A \<and> ch \<noteq> CHR 0x0D) (gc_content p)) of
               None \<Rightarrow> Inl (Undecodable ''base64 contents'') | Some bytes \<Rightarrow> Inr bytes)
          else if gc_encoding p = '''' then Inr ''''
          else Inl (Refused (''contents encoding '' @ quoted (gc_encoding p) @ '' is not supported'')))"

definition contentRead :: "'s githubClient \<Rightarrow> string \<Rightarrow> string \<Rightarrow> string \<Rightarrow> ('s, string) gh" where
  "contentRead c repo path ref =
     bindA (contentScopeOK c repo ref) (\<lambda>_.
     bindA (ghDo c MethodGet (''/repos/'' @ repo @ ''/contents/'' @ PathEscape path @ ''?ref='' @ QueryEscape ref) None '''')
       (\<lambda>(status, raw).
         if status = 200 then liftA (\<lambda>e. e) (ghContentOf raw)
         else if status = 404 then errA (FileAbsent path ref)
         else if status = 401 \<or> status = 403 then errA (Unauthorized (''file '' @ path @ '' at '' @ ref) status)
         else errA (BadStatus (''get file '' @ path @ '' at '' @ ref) status)))"

definition ghFileAtBase :: "'s githubClient \<Rightarrow> string \<Rightarrow> string \<Rightarrow> string \<Rightarrow> ('s, string) gh" where
  "ghFileAtBase c project mr path =
     bindA (ghMrPinned c project mr) (\<lambda>info. contentRead c (md_project info) path (md_target info))"

definition ghFileAtHead :: "'s githubClient \<Rightarrow> string \<Rightarrow> string \<Rightarrow> string \<Rightarrow> ('s, string) gh" where
  "ghFileAtHead c project mr path =
     bindA (ghMrPinned c project mr) (\<lambda>info.
       if md_fork info \<and> (md_sourceProject info = '''' \<or> md_sourceProject info = ''0'')
       then errA (Refused (''fork PR '' @ project @ ''#'' @ mr @ '' has no source repository''))
       else contentRead c (md_project info) path (md_source info))"

definition ghFileAtRef :: "'s githubClient \<Rightarrow> string \<Rightarrow> string \<Rightarrow> string \<Rightarrow> ('s, string) gh" where
  "ghFileAtRef c project path ref = bindA (repoOf project) (\<lambda>repo. contentRead c repo path ref)"

subsection \<open>The merge result\<close>

abbreviation mergeRefReadable :: string where "mergeRefReadable \<equiv> ''readable''"
abbreviation mergeRefUnreadable :: string where "mergeRefUnreadable \<equiv> ''unreadable''"
abbreviation mergeRefUnmergeable :: string where "mergeRefUnmergeable \<equiv> ''unmergeable''"

definition mergeResultDigest :: "'s githubClient \<Rightarrow> string \<Rightarrow> string \<Rightarrow> ('s, string) gh" where
  "mergeResultDigest c project mr =
     bindA (repoOf project) (\<lambda>repo st0.
       if hs_mergeable st0 \<noteq> '''' \<and> hs_mergeable st0 \<noteq> ''clean'' then (Inr '''', st0\<lparr>hs_mergeRef := mergeRefUnmergeable\<rparr>)
       else bindA (ghDo c MethodGet (''/repos/'' @ repo @ ''/git/ref/refs/pull%2F'' @ mr @ ''%2Fmerge'') None '''') (\<lambda>(status, raw) st.
         if status = 200 then
           (case decodeStruct (\<lambda>ms. Option.bind (structField ''object'' ms) (stringField ''sha'')) raw of
              None \<Rightarrow> (Inl (Undecodable (''merge ref '' @ repo @ ''#'' @ mr)), st)
            | Some sha \<Rightarrow>
                if sha = '''' then (Inl (Refused (''merge ref of '' @ mr @ '' on '' @ repo @ '' reports no object sha'')), st)
                else (Inr sha, st\<lparr>hs_mergeRef := mergeRefReadable\<rparr>))
         else if status = 404 then (Inr '''', st\<lparr>hs_mergeRef := mergeRefUnreadable\<rparr>)
         else (Inl (BadStatus (''get merge ref '' @ repo @ ''#'' @ mr) status), st)) st0)"

subsection \<open>Changed files\<close>

record changedFiles =
  hf_paths :: "string list"
  hf_complete :: bool
  hf_gap :: string

definition pullFilesCap :: int where "pullFilesCap = 3000"

definition changedFilesVerdict :: "int \<Rightarrow> int option \<Rightarrow> bool \<Rightarrow> bool \<times> string" where
  "changedFilesVerdict rows reported terminated =
     (if \<not> terminated then (False, ''pull-files pagination ceiling of 100 pages (10000 entries) reached without a terminating short page'')
      else case reported of
          None \<Rightarrow> (False, ''the PR object reported no changed_files count '' @ dash @ '' the enumeration completeness cross-check is unavailable'')
        | Some n \<Rightarrow>
            if n \<ge> pullFilesCap then (False, ''pull-files endpoint reports changed_files='' @ itoa n
              @ '' and the endpoint caps at 3000 files '' @ dash @ '' the enumeration cannot prove completeness'')
            else if rows \<noteq> n then
              (if rows < n then (False, ''pull-files endpoint returned '' @ itoa rows @ '' of the PR'' @ [CHR 0x27] @ ''s changed_files=''
                 @ itoa n @ '' entries (endpoint caps at 3000 files)'')
               else (False, ''pull-files endpoint returned '' @ itoa rows @ '' entries but the PR'' @ [CHR 0x27] @ ''s changed_files=''
                 @ itoa n @ '' '' @ dash @ '' the PR moved between the PR read and the files read (endpoint caps at 3000 files)''))
            else (True, ''''))"

text \<open>A row is the new path and, for a rename, the old one.\<close>

definition decodeFileDiff :: "jobj \<Rightarrow> (string \<times> string) option" where
  "decodeFileDiff ms = do { f \<leftarrow> stringField ''filename'' ms; p \<leftarrow> stringField ''previous_filename'' ms; Some (f, p) }"

definition filePaths :: "string \<times> string \<Rightarrow> string list" where
  "filePaths d = filter (\<lambda>p. p \<noteq> '''') [fst d, snd d]"

definition ghFilesPage :: "'s githubClient \<Rightarrow> string \<Rightarrow> string \<Rightarrow> string \<Rightarrow> nat \<Rightarrow> ('s, (string \<times> string) list) gh" where
  "ghFilesPage c project repo mr page =
     bindA (ghDo c MethodGet (''/repos/'' @ repo @ ''/pulls/'' @ mr @ ''/files'' @ ghPageQuery page) None '''') (\<lambda>(status, raw).
       if status \<noteq> 200 then errA (BadStatus (''get PR files '' @ project @ ''#'' @ mr @ '' page '' @ nat_digits page) status)
       else case decodeList decodeFileDiff raw of
           None \<Rightarrow> errA (Undecodable (''PR files '' @ project @ ''#'' @ mr @ '' page '' @ nat_digits page))
         | Some ds \<Rightarrow> okA ds)"

definition ghChangedFiles :: "'s githubClient \<Rightarrow> string \<Rightarrow> string \<Rightarrow> ('s, changedFiles) gh" where
  "ghChangedFiles c project mr =
     bindA (repoOf project) (\<lambda>repo.
     bindA (gather (ghFilesPage c project repo mr) 1) (\<lambda>(rows, terminated) st.
       case changedFilesVerdict (int (length rows)) (hs_changedFiles st) terminated of
         (complete, gap) \<Rightarrow> (Inr \<lparr>hf_paths = dedup (concat (map filePaths rows)), hf_complete = complete, hf_gap = gap\<rparr>, st)))"

subsection \<open>Capabilities (capability.go)\<close>

definition fixedCaps :: "capabilityEntry assoc" where
  "fixedCaps =
     [(''resolvable-threads'', SupportedCapabilityEntry (''constant supported '' @ dash
         @ '' licensed by the GraphQL thread-resolve round-trip (resolveReviewThread / ''
         @ ''isResolved, dossier C1/C2)'')),
      (''sha-guarded-merge'', SupportedCapabilityEntry (''constant supported '' @ dash
         @ '' PUT /pulls/{n}/merge honours the sha pin (409 on mismatch, dossier C10); licensed ''
         @ ''by the sha-guard-* conformance cases'')),
      (''threads-block-merge'', UnknownCapabilityEntry (''no probe is implemented for the branch-protection read (dossier C3); ''
         @ ''required_conversation_resolution'' @ [CHR 0x27] @ ''s shape is unverified against a live API ''
         @ dash @ '' unknown until confirmed (S00 Q2 row 2)'')),
      (''blocking-review'', UnknownCapabilityEntry (''required_pull_request_reviews.required_approving_review_count is enumerated (dossier '' @ sect
         @ ''2 row 3) but the branch-protection read'' @ [CHR 0x27]
         @ ''s shape is UNVERIFIED against a live API '' @ dash @ '' unknown until confirmed'')),
      (''review-dismissal-restrictions'', UnknownCapabilityEntry (''dismissal_restrictions probe (dossier C8'' @ [CHR 0x27]
         @ '') is UNVERIFIED against a live response '' @ dash
         @ '' unknown until S09 confirms (S00 Q2 row 4)'')),
      (''arming-revoked-on-push'', UnknownCapabilityEntry (''the substitute arming-revoke signal (stale-approval dismissal AND at least one ''
         @ ''required status check) is UNVERIFIED '' @ dash
         @ '' a write-access push does NOT auto-disarm GitHub auto-merge (dossier '' @ sect
         @ ''3 delta 2); unknown until verified (S00 Q2 row 7)'')),
      (''approval-reset-on-push'', UnknownCapabilityEntry (''stale-approval dismissal and require-most-recent-reviewable-push field names are ''
         @ ''UNVERIFIED (dossier C19/C8) '' @ dash
         @ '' unknown until a live response confirms them (S00 Q2 row 10)'')),
      (''protected-pipeline-source'', UnknownCapabilityEntry (''no operationally decidable predicate is probed '' @ dash @ '' ADR-0015 '' @ sect @ ''4''
         @ [CHR 0x27]
         @ ''s GitHub condition spans the workflow trust model (pull_request runs the base-ref ''
         @ ''workflow for forks; same-repo branches need branch protection on workflow paths) and ''
         @ ''its probeability is UNVERIFIED; OQ-33 records the candidate routes and no heuristic ''
         @ ''may stand in (the SEC-04 shape)'')),
      (''eligible-approval-evidence'', UnknownCapabilityEntry (''no API returns the computed per-PR eligible code owners (dossier '' @ sect
         @ ''2 step (b), graded partial) '' @ dash
         @ '' the adapter-computed CODEOWNERS set cannot prove set-equality with the forge ''
         @ ''(OQ-34); unknown per S00 Q2 row 9''))]"

definition resultPinningEntry :: "string \<Rightarrow> string \<Rightarrow> capabilityEntry" where
  "resultPinningEntry mergeRef mergeableState =
     (if mergeRef = mergeRefReadable then SupportedCapabilityEntry (''probe: refs/pull/{n}/merge is readable '' @ dash
         @ '' a real merge-result commit backs the digest axis (dossier C16)'')
      else if mergeRef = mergeRefUnmergeable then AbsentCapabilityEntry (''merge result unavailable: mergeable_state '' @ quoted mergeableState
         @ '' '' @ dash
         @ '' the PR is not mergeable now (merge queue in use or blocked, dossier C14/C16), so ''
         @ ''the digest axis is unavailable and the merge is not armed'')
      else if mergeRef = mergeRefUnreadable then AbsentCapabilityEntry (''merge ref unreadable: not mergeable or merge queue in use (dossier C16) '' @ dash
         @ '' the digest axis is honestly unavailable and completeForMerge refuses to arm'')
      else UnknownCapabilityEntry (''merge ref not probed on this run '' @ dash @ '' unprobed is not proof (dossier C16)''))"

definition deferredArmingEntry :: capabilityEntry where
  "deferredArmingEntry = UnknownCapabilityEntry (''allow_auto_merge is UNVERIFIED against a live response (S00 Q2 row 6) and the ''
         @ ''enablePullRequestAutoMerge preconditions are dossier open verification items ''
         @ ''(REQ-E10-S09-02) '' @ dash
         @ '' no probe is issued for it in v1, unknown until a live response confirms it'')"

definition ghProbeCapabilities :: "'s githubClient \<Rightarrow> string \<Rightarrow> ('s, capabilityReport) gh" where
  "ghProbeCapabilities c project =
     bindA (repoOf project) (\<lambda>_ st.
       liftA CapabilityFailed (NewCapabilityReport (fixedCaps
         @ [(''merge-result-pinning'', resultPinningEntry (hs_mergeRef st) (hs_mergeable st)),
            (''deferred-merge-arming'', deferredArmingEntry)])) st)"

subsection \<open>The review chain (resolve.go)\<close>

record ghReview =
  rv_id :: int
  rv_login :: string
  rv_state :: string

definition decodeReview :: "jobj \<Rightarrow> ghReview option" where
  "decodeReview ms = do {
     i \<leftarrow> intField ''id'' ms; u \<leftarrow> Option.bind (structField ''user'' ms) (stringField ''login''); s \<leftarrow> stringField ''state'' ms;
     Some \<lparr>rv_id = i, rv_login = u, rv_state = s\<rparr> }"

definition listReviews :: "'s githubClient \<Rightarrow> string \<Rightarrow> string \<Rightarrow> ('s, ghReview list) gh" where
  "listReviews c project mr =
     bindA (repoOf project) (\<lambda>repo.
       pageLoop (PageCap (''list PR reviews '' @ project @ ''#'' @ mr))
         (\<lambda>page. ghListing c (''list PR reviews '' @ repo @ ''#'' @ mr)
            (''/repos/'' @ repo @ ''/pulls/'' @ mr @ ''/reviews'' @ ghPageQuery page) (decodeList decodeReview))
         okA 1)"

definition isBotLogin :: "string \<Rightarrow> bool" where
  "isBotLogin login \<longleftrightarrow> hasSuffix login ''[bot]''"

text \<open>The state of each login's last review.\<close>

definition latestStates :: "ghReview list \<Rightarrow> string \<Rightarrow> string option" where
  "latestStates reviews = foldl (\<lambda>m r. if rv_login r = '''' then m else m(rv_login r \<mapsto> rv_state r)) (\<lambda>_. None) reviews"

definition latestNonDismissedApprovals :: "ghReview list \<Rightarrow> string \<Rightarrow> string \<Rightarrow> string list" where
  "latestNonDismissedApprovals reviews mrAuthor botName =
     sort [login \<leftarrow> dedup (map rv_login reviews). latestStates reviews login = Some ''APPROVED''
       \<and> \<not> (mrAuthor \<noteq> '''' \<and> login = mrAuthor) \<and> \<not> (botName \<noteq> '''' \<and> login = botName) \<and> \<not> isBotLogin login]"

definition reviewChainApprovals :: "'s githubClient \<Rightarrow> string \<Rightarrow> string \<Rightarrow> string \<Rightarrow> ('s, string list) gh" where
  "reviewChainApprovals c project mr mrAuthor =
     bindA (listReviews c project mr) (\<lambda>reviews. okA (latestNonDismissedApprovals reviews mrAuthor (gh_botName c)))"

abbreviation GapEligibilityUnprovable :: string where
  "GapEligibilityUnprovable \<equiv> ''eligible-approver-set-unprovable''"

definition ghResolve :: "'s githubClient \<Rightarrow> resolveRequest \<Rightarrow> ('s, resolveResult) gh" where
  "ghResolve c req =
     bindA (repoOf (rr_project req)) (\<lambda>repo.
     bindA (if rr_author req = '''' then bindA (freshPR c repo (rr_mr req)) (\<lambda>pr. okA (pr_login pr)) else okA (rr_author req)) (\<lambda>author.
     bindA (reviewChainApprovals c (rr_project req) (rr_mr req) author) (\<lambda>_.
       okA (ResolveWithGap \<lparr>cg_reason = GapEligibilityUnprovable, cg_subject = rr_subject req\<rparr>))))"

end
