(* ===== verification/GithubWrite.thy ===== *)
theory GithubWrite
  imports GithubSnapshot
begin

text \<open>
  The write half of the GitHub adapter (\<open>internal/forge/github/write.go\<close>), deferred arming
  (\<open>merge.go\<close>), the snapshot, which lists the bot's threads, and the run port they make up.
\<close>

subsection \<open>Listings\<close>

record ghComment =
  gm_id :: int
  gm_body :: string
  gm_login :: string

definition decodeComment :: "jobj \<Rightarrow> ghComment option" where
  "decodeComment ms = do {
     i \<leftarrow> intField ''id'' ms; b \<leftarrow> stringField ''body'' ms; u \<leftarrow> Option.bind (structField ''user'' ms) (stringField ''login'');
     Some \<lparr>gm_id = i, gm_body = b, gm_login = u\<rparr> }"

definition ghNoteID :: "string \<Rightarrow> string \<times> string" where
  "ghNoteID i =
     (if CHR ''/'' \<in> set i
      then (rev (tl (dropWhile (\<lambda>ch. ch \<noteq> CHR ''/'') (rev i))), rev (takeWhile (\<lambda>ch. ch \<noteq> CHR ''/'') (rev i)))
      else ('''', ''''))"

text \<open>What a review comment, and an issue comment, is to the bot.\<close>

definition ghSkip :: "'s githubClient \<Rightarrow> string \<Rightarrow> string \<Rightarrow> string \<Rightarrow> 's githubState \<Rightarrow> 's githubState" where
  "ghSkip c kd i payload st =
     ghWarn (markerSkipWarning ''github'' kd i (''github: parse marker payload: '' @ al_jsonErr (gh_libs c) payload)) st"

definition ghThreadOf :: "'s githubClient \<Rightarrow> ghComment \<Rightarrow> 's githubState \<Rightarrow> thread list \<times> 's githubState" where
  "ghThreadOf c row st =
     (if gm_login row \<noteq> gh_botName c then ([], st)
      else (case parseMarker (gm_body row) of
          Malformed payload \<Rightarrow> ([], ghSkip c ''review comment'' (''comment/'' @ itoa (gm_id row)) payload st)
        | NoMarker \<Rightarrow> ([], st)
        | Marked m \<Rightarrow> ([\<lparr>t_id = ''comment/'' @ itoa (gm_id row), t_marker = m, t_author = gm_login row, t_resolved = False\<rparr>], st)))"

definition ghNoteOf :: "'s githubClient \<Rightarrow> ghComment \<Rightarrow> 's githubState \<Rightarrow> mrNote list \<times> 's githubState" where
  "ghNoteOf c row st =
     (if gm_login row \<noteq> gh_botName c then ([], st)
      else (case parseMarker (gm_body row) of
          Malformed payload \<Rightarrow> ([], ghSkip c ''issue comment'' (''issue-comment/'' @ itoa (gm_id row)) payload st)
        | NoMarker \<Rightarrow> ([], st)
        | Marked m \<Rightarrow> ([\<lparr>n_id = ''issue-comment/'' @ itoa (gm_id row), n_marker = m, n_author = gm_login row, n_body = gm_body row\<rparr>], st)))"

definition withState :: "threadIndex \<Rightarrow> thread \<Rightarrow> thread" where
  "withState idx t =
     (case parseInt64 (snd (ghNoteID (t_id t))) of
        None \<Rightarrow> t
      | Some i \<Rightarrow> t\<lparr>t_resolved := (ti_states idx i = Some True)\<rparr>)"

definition withResolutionStates :: "'s githubClient \<Rightarrow> string \<Rightarrow> string \<Rightarrow> thread list \<Rightarrow> ('s, thread list) gh" where
  "withResolutionStates c project mr threads =
     (if threads = [] then okA []
      else bindA (reviewThreadIndex c project mr) (\<lambda>idx. okA (map (withState idx) threads)))"

definition ghListBotThreads :: "'s githubClient \<Rightarrow> string \<Rightarrow> string \<Rightarrow> ('s, thread list) gh" where
  "ghListBotThreads c project mr =
     bindA (repoOf project) (\<lambda>repo.
     bindA (pageLoop (PageCap (''list PR review comments '' @ project @ ''#'' @ mr))
         (\<lambda>page. ghListing c (''list PR review comments '' @ repo @ ''#'' @ mr)
            (''/repos/'' @ repo @ ''/pulls/'' @ mr @ ''/comments'' @ ghPageQuery page) (decodeList decodeComment))
         (eachRow (ghThreadOf c)) 1)
       (withResolutionStates c project mr))"

definition ghListBotNotes :: "'s githubClient \<Rightarrow> string \<Rightarrow> string \<Rightarrow> ('s, mrNote list) gh" where
  "ghListBotNotes c project mr =
     bindA (repoOf project) (\<lambda>repo.
       pageLoop (PageCap (''list issue comments '' @ project @ ''#'' @ mr))
         (\<lambda>page. ghListing c (''list issue comments '' @ repo @ ''#'' @ mr)
            (''/repos/'' @ repo @ ''/issues/'' @ mr @ ''/comments'' @ ghPageQuery page) (decodeList decodeComment))
         (eachRow (ghNoteOf c)) 1)"

subsection \<open>Comments and threads\<close>

definition ghCreateNote :: "'s githubClient \<Rightarrow> string \<Rightarrow> string \<Rightarrow> marker \<Rightarrow> string \<Rightarrow> ('s, mrNote) gh" where
  "ghCreateNote c project mr m body =
     bindA (repoOf project) (\<lambda>repo.
     bindA (liftA EnvelopeRefused (Envelope m body)) (\<lambda>fullBody.
     bindA (ghDo c MethodPost (''/repos/'' @ repo @ ''/issues/'' @ mr @ ''/comments'') (Some (object [member ''body'' fullBody])) jsonType)
       (\<lambda>(status, raw).
         if status \<noteq> 201 then errA (BadStatus (''create issue comment '' @ repo @ ''#'' @ mr) status)
         else case decodeStruct decodeComment raw of
             None \<Rightarrow> errA (Undecodable (''created comment '' @ repo @ ''#'' @ mr))
           | Some n \<Rightarrow> okA \<lparr>n_id = ''issue-comment/'' @ itoa (gm_id n), n_marker = m, n_author = gh_botName c, n_body = fullBody\<rparr>)))"

definition ghEditNote :: "'s githubClient \<Rightarrow> string \<Rightarrow> string \<Rightarrow> string \<Rightarrow> marker \<Rightarrow> string \<Rightarrow> ('s, mrNote) gh" where
  "ghEditNote c project mr i m body =
     bindA (repoOf project) (\<lambda>repo.
     bindA (liftA EnvelopeRefused (Envelope m body)) (\<lambda>fullBody.
     bindA (ghDo c MethodPatch (''/repos/'' @ repo @ ''/issues/comments/'' @ snd (ghNoteID i))
         (Some (object [member ''body'' fullBody])) jsonType)
       (\<lambda>(status, raw).
         if status \<noteq> 200 then errA (BadStatus (''edit issue comment '' @ i @ '' on '' @ repo @ ''#'' @ mr) status)
         else okA \<lparr>n_id = ''issue-comment/'' @ snd (ghNoteID i), n_marker = m, n_author = gh_botName c, n_body = fullBody\<rparr>)))"

definition ghUpsertComment :: "'s githubClient \<Rightarrow> string \<Rightarrow> string \<Rightarrow> marker \<Rightarrow> string \<Rightarrow> ('s, mrNote) gh" where
  "ghUpsertComment c project mr m body =
     (if a_kind (m_artifact m) \<noteq> kindSummary then errA InvalidSummary
      else bindA (liftA EnvelopeRefused (Envelope m body)) (\<lambda>_.
        bindA (ghListBotNotes c project mr) (\<lambda>existing.
          case find (\<lambda>n. a_kind (m_artifact (n_marker n)) = a_kind (m_artifact m) \<and> a_kind (m_artifact m) = kindSummary) existing of
            Some n \<Rightarrow> ghEditNote c project mr (n_id n) m body
          | None \<Rightarrow> ghCreateNote c project mr m body)))"

definition threadPathFromEntryRef :: "marker \<Rightarrow> http_error + string" where
  "threadPathFromEntryRef m =
     (let p = trimPrefix (s_entryRef (m_slot m)) ''file:''
      in if p \<noteq> '''' \<and> p \<noteq> s_entryRef (m_slot m) then Inr p
         else Inl (Refused (''marker slot of rule '' @ s_rule (m_slot m) @ '' carries no file entryRef'')))"

definition ghCreateThread :: "'s githubClient \<Rightarrow> string \<Rightarrow> string \<Rightarrow> marker \<Rightarrow> string \<Rightarrow> ('s, thread) gh" where
  "ghCreateThread c project mr m body =
     bindA (repoOf project) (\<lambda>repo.
     bindA (liftA (\<lambda>e. e) (threadPathFromEntryRef m)) (\<lambda>path.
     bindA (wrapA (Within (''pin thread head '' @ project @ ''#'' @ mr)) (ghMrPinned c project mr)) (\<lambda>info.
     bindA (liftA EnvelopeRefused (Envelope m body)) (\<lambda>fullBody.
     bindA (ghDo c MethodPost (''/repos/'' @ repo @ ''/pulls/'' @ mr @ ''/comments'')
         (Some (object [member ''body'' fullBody, member ''commit_id'' (md_source info), member ''path'' path,
            member ''subject_type'' ''file''])) jsonType)
       (\<lambda>(status, raw).
         if status \<noteq> 201 then errA (BadStatus (''create thread '' @ repo @ ''#'' @ mr) status)
         else case decodeStruct decodeComment raw of
             None \<Rightarrow> errA (Undecodable (''created thread '' @ repo @ ''#'' @ mr))
           | Some n \<Rightarrow> okA \<lparr>t_id = ''comment/'' @ itoa (gm_id n), t_marker = m, t_author = gh_botName c, t_resolved = False\<rparr>)))))"

text \<open>
  The text of a GraphQL error is the one the answer gave; a mutation refused because the thread is
  already resolved has succeeded. \<open>lowerAscii\<close> is \<open>strings.ToLower\<close> as far as the phrase can tell.
\<close>

definition lowerAscii :: "string \<Rightarrow> string" where
  "lowerAscii s = map (\<lambda>c. if 65 \<le> (of_char c :: nat) \<and> (of_char c :: nat) \<le> 90 then char_of ((of_char c :: nat) + 32) else c) s"

definition ghErrorText :: "'s githubClient \<Rightarrow> http_error \<Rightarrow> string" where
  "ghErrorText c e = (case e of
       GraphqlErrors ms \<Rightarrow> ''github: graphql: '' @ joinOn ''; '' ms
     | _ \<Rightarrow> al_text (gh_libs c) e)"

definition decodeResolved :: "jobj \<Rightarrow> bool option" where
  "decodeResolved ms = do {
     r \<leftarrow> structField ''resolveReviewThread'' ms; t \<leftarrow> structField ''thread'' r; i \<leftarrow> stringField ''id'' t;
     boolField ''isResolved'' t }"

definition ghResolveThread :: "'s githubClient \<Rightarrow> string \<Rightarrow> string \<Rightarrow> string \<Rightarrow> ('s, unit) gh" where
  "ghResolveThread c project mr i =
     (case parseInt64 (snd (ghNoteID i)) of
        None \<Rightarrow> errA (Refused (''thread id '' @ quoted i @ '' carries no parseable numeric comment id''))
      | Some num \<Rightarrow>
          bindA (threadNodeIDFor c project mr num) (\<lambda>threadID st.
            case gqlDo c gqlResolveThread [member ''threadId'' threadID] st of
              (Inl e, st1) \<Rightarrow>
                if containsSub (lowerAscii (ghErrorText c e)) ''already resolved'' then (Inr (), st1)
                else (Inl (Within (''resolve thread '' @ i) e), st1)
            | (Inr dat, st1) \<Rightarrow>
                (case decodeData decodeResolved dat of
                   None \<Rightarrow> (Inl (Undecodable ''resolveReviewThread''), st1)
                 | Some resolved \<Rightarrow>
                     if \<not> resolved then (Inl (Refused (''thread '' @ i @ '' did not report isResolved:true'')), st1)
                     else (Inr (), st1))))"

subsection \<open>Approval and merge\<close>

definition ghApprove :: "'s githubClient \<Rightarrow> string \<Rightarrow> string \<Rightarrow> ('s, string) gh" where
  "ghApprove c project mr =
     bindA (repoOf project) (\<lambda>repo.
     bindA (wrapA (Within (''pin approval head '' @ project @ ''#'' @ mr)) (ghMrPinned c project mr)) (\<lambda>info.
     bindA (ghDo c MethodPost (''/repos/'' @ repo @ ''/pulls/'' @ mr @ ''/reviews'')
         (Some (object [member ''commit_id'' (md_source info), member ''event'' ''APPROVE''])) jsonType)
       (\<lambda>(status, raw).
         if status = 200 \<or> status = 201 then
           (case decodeStruct decodeReview raw of
              None \<Rightarrow> errA (Undecodable (''approval review '' @ repo @ ''#'' @ mr))
            | Some rv \<Rightarrow>
                if rv_id rv = 0 then errA (Refused (''approve '' @ repo @ ''#'' @ mr @ '': forge returned no review id''))
                else okA (''review/'' @ itoa (rv_id rv)))
         else if status = 401 \<or> status = 403 then errA (Unauthorized (''approve '' @ repo @ ''#'' @ mr) status)
         else errA (BadStatus (''approve '' @ repo @ ''#'' @ mr) status))))"

definition ghCurrentHeads :: "'s githubClient \<Rightarrow> string \<Rightarrow> string \<Rightarrow> ('s, string \<times> string \<times> string) gh" where
  "ghCurrentHeads c project mr =
     bindA (ghGetMR c project mr) (\<lambda>info.
     bindA (mergeResultDigest c project mr) (\<lambda>digest. okA (md_source info, md_target info, digest)))"

definition ghMergePath :: "string \<Rightarrow> string \<Rightarrow> string" where
  "ghMergePath repo mr = ''/repos/'' @ repo @ ''/pulls/'' @ mr @ ''/merge''"

definition ghMergeBody :: "string \<Rightarrow> string" where
  "ghMergeBody sha = object [member ''merge_method'' ''merge'', member ''sha'' sha]"

definition ghMergeCAS :: "'s githubClient \<Rightarrow> string \<Rightarrow> string \<Rightarrow> desiredMerge \<Rightarrow> ('s, string) gh" where
  "ghMergeCAS c project mr m =
     bindA (repoOf project) (\<lambda>repo.
     bindA (wrapA (Within (''re-read current heads before merge '' @ project @ ''#'' @ mr)) (ghCurrentHeads c project mr))
       (\<lambda>(curSource, curTarget, curDigest).
         if curTarget \<noteq> dm_target m then errA (ShaMoved (TargetMoved (dm_target m) curTarget))
         else if curSource \<noteq> dm_source m then errA (ShaMoved (SourceMoved (dm_source m) curSource))
         else if curDigest \<noteq> dm_digest m then errA (ShaMoved (DigestMoved (dm_digest m) curDigest))
         else bindA (ghDo c MethodPut (ghMergePath repo mr) (Some (ghMergeBody (dm_source m))) jsonType) (\<lambda>(status, raw).
           if status = 200 then
             (case decodeStruct (stringField ''merge_commit_sha'') raw of
                None \<Rightarrow> errA (Undecodable (''merge response '' @ repo @ ''#'' @ mr))
              | Some sha \<Rightarrow>
                  if sha = '''' then errA (Refused (''merge '' @ repo @ ''#'' @ mr @ '' succeeded without a merge_commit_sha''))
                  else okA (''merge/'' @ sha))
           else if status = 409 \<or> status = 405 then errA (ShaMoved (MergeRejected status))
           else errA (BadStatus (''merge '' @ repo @ ''#'' @ mr) status))))"

subsection \<open>Deferred arming (merge.go)\<close>

definition parseMergeMethod :: "string \<Rightarrow> http_error + string" where
  "parseMergeMethod m = (if m = ''MERGE'' \<or> m = ''SQUASH'' \<or> m = ''REBASE'' then Inr m
     else Inl (Refused (''merge method '' @ quoted m @ '' is not one of MERGE|SQUASH|REBASE'')))"

definition armingConsultSet :: "capability list" where
  "armingConsultSet = [''deferred-merge-arming'', ''arming-revoked-on-push'', ''review-dismissal-restrictions'', ''merge-result-pinning'']"

definition armingRefusal :: "capabilityReport \<Rightarrow> http_error option" where
  "armingRefusal report =
     (case find (\<lambda>k. capState report k \<noteq> CapabilitySupported) armingConsultSet of
        None \<Rightarrow> None
      | Some k \<Rightarrow> Some (ArmingRefused k (capState report k) (capReason report k)))"

definition gqlEnableAutoMerge :: string where
  "gqlEnableAutoMerge = joinOn [CHR 0x0A]
     [''mutation($id: ID!, $method: PullRequestMergeMethod!) {'',
      ''  enablePullRequestAutoMerge(input: {pullRequestId: $id, mergeMethod: $method}) {'',
      ''    pullRequest {'',
      ''      autoMergeRequest {'',
      ''        enabled'',
      ''        mergeMethod'',
      ''      }'',
      ''    }'',
      ''  }'',
      ''}'']"

definition decodeArmed :: "jobj \<Rightarrow> bool option" where
  "decodeArmed ms = do {
     r \<leftarrow> structField ''enablePullRequestAutoMerge'' ms; pr \<leftarrow> structField ''pullRequest'' r; a \<leftarrow> structField ''autoMergeRequest'' pr;
     b \<leftarrow> boolField ''enabled'' a; mm \<leftarrow> stringField ''mergeMethod'' a; Some b }"

definition EnablePullRequestAutoMerge :: "'s githubClient \<Rightarrow> string \<Rightarrow> string \<Rightarrow> capabilityReport \<Rightarrow> string \<Rightarrow> ('s, unit) gh" where
  "EnablePullRequestAutoMerge c project mr report mth =
     (case armingRefusal report of
        Some e \<Rightarrow> errA e
      | None \<Rightarrow>
          bindA (liftA (\<lambda>e. e) (parseMergeMethod mth)) (\<lambda>_.
          bindA (repoOf project) (\<lambda>repo.
          bindA (freshPR c repo mr) (\<lambda>pr.
            if pr_nodeID pr = '''' then errA (Refused (''PR '' @ repo @ ''#'' @ mr @ '' reports no node id''))
            else bindA (wrapA (Within (''enablePullRequestAutoMerge '' @ project @ ''#'' @ mr))
                (gqlDo c gqlEnableAutoMerge [member ''id'' (pr_nodeID pr), member ''method'' mth])) (\<lambda>dat.
              case decodeData decodeArmed dat of
                None \<Rightarrow> errA (Undecodable (''enablePullRequestAutoMerge '' @ project @ ''#'' @ mr))
              | Some armed \<Rightarrow>
                  if \<not> armed then errA (Refused (''arming '' @ project @ ''#'' @ mr @ '' did not report enabled:true''))
                  else okA ())))))"

subsection \<open>The snapshot\<close>

definition ghSnapshot :: "'s githubClient \<Rightarrow> string \<Rightarrow> string \<Rightarrow> ('s, snapshot) gh" where
  "ghSnapshot c project mr =
     bindA (repoOf project) (\<lambda>repo.
     bindA (freshPR c repo mr) (\<lambda>pr.
     bindA (liftA (\<lambda>e. e) (mrInfoFromPR repo pr)) (\<lambda>info.
     bindA (mergeResultDigest c project mr) (\<lambda>digest.
     bindA (ghChangedFiles c project mr) (\<lambda>changed.
     bindA (ghProbeCapabilities c project) (\<lambda>caps.
     bindA (ghListBotThreads c project mr) (\<lambda>threads.
       okA \<lparr>sn_heads = \<lparr>h_source = md_source info, h_target = md_target info, h_sourceBranch = md_sourceBranch info,
              h_targetBranch = md_targetBranch info, h_digest = digest, h_author = pr_login pr, h_labels = md_labels info,
              h_fork = md_fork info\<rparr>,
            sn_changedFiles = sort (hf_paths changed), sn_capabilities = caps, sn_botThreads = threads,
            sn_complete = hf_complete changed, sn_gap = hf_gap changed\<rparr>)))))))"

subsection \<open>The port\<close>

definition githubForge :: "'s githubClient \<Rightarrow> 's githubState forgePort" where
  "githubForge c =
     \<lparr>ListBotThreads = \<lambda>p r. wrapA (toForgeErr (gh_libs c)) (ghListBotThreads c p r),
      CurrentHeads = \<lambda>p r. wrapA (toForgeErr (gh_libs c)) (ghCurrentHeads c p r),
      CreateThread = \<lambda>p r m b. wrapA (toForgeErr (gh_libs c)) (ghCreateThread c p r m b),
      ResolveThread = \<lambda>p r i. wrapA (toForgeErr (gh_libs c)) (ghResolveThread c p r i),
      Approve = \<lambda>p r. wrapA (toForgeErr (gh_libs c)) (ghApprove c p r),
      MergeCAS = \<lambda>p r m. wrapA (toForgeErr (gh_libs c)) (ghMergeCAS c p r m),
      ListBotNotes = \<lambda>p r. wrapA (toForgeErr (gh_libs c)) (ghListBotNotes c p r),
      UpsertComment = \<lambda>p r m b. wrapA (toForgeErr (gh_libs c)) (ghUpsertComment c p r m b),
      Warnings = Some ghWarningsSorted\<rparr>"

definition githubRunPort :: "'s githubClient \<Rightarrow> 's githubState runPort" where
  "githubRunPort c =
     \<lparr>rp_write = githubForge c,
      rp_getMR = \<lambda>p r. wrapA (toPortErr (gh_libs c)) (ghGetMR c p r),
      rp_snapshot = \<lambda>p r. wrapA (toPortErr (gh_libs c)) (ghSnapshot c p r),
      rp_resolve = \<lambda>q. wrapA (toPortErr (gh_libs c)) (ghResolve c q),
      rp_fileAtRef = \<lambda>p f r. wrapA (toPortErr (gh_libs c)) (ghFileAtRef c p f r),
      rp_fileAtBase = \<lambda>p r f. wrapA (toPortErr (gh_libs c)) (ghFileAtBase c p r f),
      rp_fileAtHead = \<lambda>p r f. wrapA (toPortErr (gh_libs c)) (ghFileAtHead c p r f)\<rparr>"

end
