(* ===== verification/GithubFacts.thy ===== *)
theory GithubFacts
  imports GithubWrite
begin

text \<open>
  Facts on the GitHub adapter that hold whatever the network does. \<open>github_within\<close> states once how every
  operation moves the client's state: by requests a caller admits, by the writes of the pin and of the
  caches, and by warnings. It is used for what is sent and for the pin.
\<close>

locale github_within =
  fixes c :: "'s githubClient" and Q :: "'s githubState \<Rightarrow> 's githubState \<Rightarrow> bool"
    and admits :: "string \<Rightarrow> string \<Rightarrow> bool" and asks :: "string \<Rightarrow> bool" and project mr :: string
  assumes refl: "reflp Q" and trans: "transp Q"
    and does: "admits mth path \<Longrightarrow> within Q (ghDo c mth path body ct)"
    and queries: "asks query \<Longrightarrow> within Q (gqlDo c query vars)"
    and gets: "admits MethodGet path"
    and threads: "asks gqlReviewThreads"
    and pins: "Q st (ghWritePin project mr info st)"
    and warns: "Q st (ghWarn msg st)"
    and scopes: "Q st (st\<lparr>hs_scopeOK := f\<rparr>)"
    and mergeRefs: "Q st (st\<lparr>hs_mergeRef := x\<rparr>)"
    and counts: "Q st (st\<lparr>hs_mergeable := x, hs_changedFiles := n\<rparr>)"
begin

lemmas rel = refl trans

lemma same: "Q st st"
  by (rule reflpD [OF refl])

lemma get_within: "within Q (ghDo c MethodGet path body ct)"
  by (rule does) (rule gets)

lemma listing_within: "within Q (ghListing c op path dec)"
  unfolding ghListing_def by (auto intro!: withinRules rel get_within split: prod.split option.split)

lemma repoOf_within: "within Q (repoOf p)"
  unfolding repoOf_def by (intro withinRules rel)

lemma freshPR_within: "within Q (freshPR c repo r)"
proof -
  have "within Q (\<lambda>st. (Inr pr, st\<lparr>hs_mergeable := a, hs_changedFiles := b\<rparr>))" for pr :: ghPR and a b
    by (simp add: within_def counts)
  then show ?thesis
    unfolding freshPR_def by (auto intro!: withinRules rel get_within split: prod.split option.split)
qed

lemma getMR_within: "within Q (ghGetMR c project mr)"
proof -
  have "within Q (\<lambda>st. (Inr info, ghWritePin project mr info st))" for info
    by (simp add: within_def pins)
  then show ?thesis unfolding ghGetMR_def by (auto intro!: withinRules rel repoOf_within freshPR_within)
qed

lemma mrPinned_within: "within Q (ghMrPinned c project mr)"
  using getMR_within same by (auto simp: within_def ghMrPinned_def split: option.split)

lemma contentScopeOK_within: "within Q (contentScopeOK c repo ref)"
proof -
  let ?probe = "bindA (wrapA (Within (''content-scope probe '' @ repo @ ''@'' @ ref))
      (ghDo c MethodGet (''/repos/'' @ repo @ ''/contents?ref='' @ QueryEscape ref) None '''')) (\<lambda>(status, raw) st.
        let granted = (status = 200);
            st1 = st\<lparr>hs_scopeOK := (hs_scopeOK st)(repo @ ''@'' @ ref \<mapsto> granted)\<rparr>
        in if granted then (Inr (), st1)
           else (Inl (Unauthorized (''content unreadable at ref '' @ ref) status), st1))"
  have "within Q ?probe"
    by (intro withinRules rel get_within) (auto simp: within_def Let_def scopes split: prod.split)
  then show ?thesis using same by (simp add: within_def contentScopeOK_def)
qed

lemma contentRead_within: "within Q (contentRead c repo path ref)"
  unfolding contentRead_def
  by (auto intro!: withinRules rel get_within contentScopeOK_within split: prod.split)

lemma fileAtBase_within: "within Q (ghFileAtBase c project mr path)"
  unfolding ghFileAtBase_def by (auto intro!: withinRules rel mrPinned_within contentRead_within)

lemma fileAtHead_within: "within Q (ghFileAtHead c project mr path)"
  unfolding ghFileAtHead_def by (auto intro!: withinRules rel mrPinned_within contentRead_within)

lemma fileAtRef_within: "within Q (ghFileAtRef c p path ref)"
  unfolding ghFileAtRef_def by (auto intro!: withinRules rel repoOf_within contentRead_within)

lemma mergeResultDigest_within: "within Q (mergeResultDigest c p r)"
proof -
  let ?read = "\<lambda>repo. bindA (ghDo c MethodGet (''/repos/'' @ repo @ ''/git/ref/refs/pull%2F'' @ r @ ''%2Fmerge'') None '''') (\<lambda>(status, raw) st.
         if status = 200 then
           (case decodeStruct (\<lambda>ms. Option.bind (structField ''object'' ms) (stringField ''sha'')) raw of
              None \<Rightarrow> (Inl (Undecodable (''merge ref '' @ repo @ ''#'' @ r)), st)
            | Some sha \<Rightarrow>
                if sha = '''' then (Inl (Refused (''merge ref of '' @ r @ '' on '' @ repo @ '' reports no object sha'')), st)
                else (Inr sha, st\<lparr>hs_mergeRef := mergeRefReadable\<rparr>))
         else if status = 404 then (Inr '''', st\<lparr>hs_mergeRef := mergeRefUnreadable\<rparr>)
         else (Inl (BadStatus (''get merge ref '' @ repo @ ''#'' @ r) status), st))"
  have "within Q (?read repo)" for repo
    by (intro withinRules rel get_within) (auto simp: within_def mergeRefs same split: prod.split option.split)
  then have "within Q (\<lambda>st. if hs_mergeable st \<noteq> '''' \<and> hs_mergeable st \<noteq> ''clean''
      then (Inr '''', st\<lparr>hs_mergeRef := mergeRefUnmergeable\<rparr>) else ?read repo st)" for repo
    using mergeRefs by (simp add: within_def)
  then show ?thesis unfolding mergeResultDigest_def by (intro withinRules rel repoOf_within)
qed

lemma changedFiles_within: "within Q (ghChangedFiles c p r)"
proof -
  have "within Q (ghFilesPage c p repo r page)" for repo page
    unfolding ghFilesPage_def by (auto intro!: withinRules rel get_within split: prod.split option.split)
  moreover have "within Q (\<lambda>st. case v st of (a, b) \<Rightarrow> (Inr (k a b), st))" for v :: "'s githubState \<Rightarrow> bool \<times> string" and k
    using same by (simp add: within_def split: prod.split)
  ultimately show ?thesis
    unfolding ghChangedFiles_def by (auto intro!: withinRules rel repoOf_within split: prod.split)
qed

lemma probeCapabilities_within: "within Q (ghProbeCapabilities c p)"
proof -
  have "Q st (snd (liftA f x st))" for f :: "capability_error \<Rightarrow> http_error" and x :: "capability_error + capabilityReport" and st
    using within_liftA [OF refl, of f x] by (simp add: within_def)
  then show ?thesis unfolding ghProbeCapabilities_def
    by (intro withinRules rel repoOf_within) (simp add: within_def)
qed

lemma threadPages_within: "within Q (threadPages c op addr page cursor idx)"
proof (induction "Suc maxListPages - page" arbitrary: page cursor idx)
  case 0
  then show ?case by (subst threadPages.simps) (auto intro: withinRules rel)
next
  case (Suc n)
  then have "within Q (threadPages c op addr (Suc page) cur i)" for cur i by simp
  then show ?case
    by (subst threadPages.simps)
      (auto intro!: withinRules rel queries threads simp: Let_def split: prod.split option.split)
qed

lemma reviewThreadIndex_within: "within Q (reviewThreadIndex c p r)"
  unfolding reviewThreadIndex_def by (auto intro!: withinRules rel threadPages_within split: prod.split option.split)

lemma threadNodeIDFor_within: "within Q (threadNodeIDFor c p r i)"
  unfolding threadNodeIDFor_def by (auto intro!: withinRules rel reviewThreadIndex_within split: option.split)

lemma listBotThreads_within: "within Q (ghListBotThreads c p r)"
  unfolding ghListBotThreads_def withResolutionStates_def
  by (auto intro!: withinRules rel repoOf_within listing_within reviewThreadIndex_within
      simp: ghThreadOf_def ghSkip_def warns same split: marker_scan.split)

lemma listBotNotes_within: "within Q (ghListBotNotes c p r)"
  unfolding ghListBotNotes_def
  by (auto intro!: withinRules rel repoOf_within listing_within
      simp: ghNoteOf_def ghSkip_def warns same split: marker_scan.split)

lemma resolve_within: "within Q (ghResolve c req)"
  unfolding ghResolve_def reviewChainApprovals_def listReviews_def
  by (auto intro!: withinRules rel repoOf_within freshPR_within listing_within)

lemma snapshot_within: "within Q (ghSnapshot c p r)"
  unfolding ghSnapshot_def
  by (auto intro!: withinRules rel repoOf_within freshPR_within mergeResultDigest_within changedFiles_within
      probeCapabilities_within listBotThreads_within)

lemma currentHeads_within: "within Q (ghCurrentHeads c project mr)"
  unfolding ghCurrentHeads_def by (auto intro!: withinRules rel getMR_within mergeResultDigest_within)

lemmas reads_within = getMR_within snapshot_within resolve_within fileAtRef_within fileAtBase_within
  fileAtHead_within listBotThreads_within listBotNotes_within currentHeads_within

text \<open>The writes, where their requests are admitted.\<close>

lemma createThread_within:
  "(\<And>repo. admits MethodPost (''/repos/'' @ repo @ ''/pulls/'' @ mr @ ''/comments'')) \<Longrightarrow> within Q (ghCreateThread c project mr m body)"
  unfolding ghCreateThread_def
  by (auto intro!: withinRules rel repoOf_within mrPinned_within does split: prod.split option.split)

lemma resolveThread_within:
  assumes "asks gqlResolveThread"
  shows "within Q (ghResolveThread c p r i)"
proof -
  have "within Q (\<lambda>st. case gqlDo c gqlResolveThread vars st of
        (Inl e, st1) \<Rightarrow> if a e then (Inr (), st1) else (Inl (b e), st1)
      | (Inr dat, st1) \<Rightarrow> (case d dat of None \<Rightarrow> (Inl x, st1)
          | Some resolved \<Rightarrow> if \<not> resolved then (Inl y, st1) else (Inr (), st1)))"
    for vars a b x y and d :: "jval option \<Rightarrow> bool option"
  proof (rule withinI)
    fix st z st' assume e: "(case gqlDo c gqlResolveThread vars st of
        (Inl e, st1) \<Rightarrow> if a e then (Inr (), st1) else (Inl (b e), st1)
      | (Inr dat, st1) \<Rightarrow> (case d dat of None \<Rightarrow> (Inl x, st1)
          | Some resolved \<Rightarrow> if \<not> resolved then (Inl y, st1) else (Inr (), st1))) = (z, st')"
    obtain g st1 where g: "gqlDo c gqlResolveThread vars st = (g, st1)" by (cases "gqlDo c gqlResolveThread vars st")
    have "st' = st1" using e g by (auto split: sum.splits option.splits if_splits)
    then show "Q st st'" using withinD [OF queries [OF assms] g] by simp
  qed
  then show ?thesis
    unfolding ghResolveThread_def
    by (auto intro!: withinRules rel threadNodeIDFor_within split: option.split)
qed

lemma upsertComment_within:
  assumes "\<And>repo. admits MethodPost (''/repos/'' @ repo @ ''/issues/'' @ r @ ''/comments'')"
    and "\<And>repo i. admits MethodPatch (''/repos/'' @ repo @ ''/issues/comments/'' @ i)"
  shows "within Q (ghUpsertComment c p r m body)"
  unfolding ghUpsertComment_def ghCreateNote_def ghEditNote_def using assms
  by (auto intro!: withinRules rel repoOf_within does listBotNotes_within split: prod.split option.split)

lemma approve_within:
  "(\<And>repo. admits MethodPost (''/repos/'' @ repo @ ''/pulls/'' @ mr @ ''/reviews'')) \<Longrightarrow> within Q (ghApprove c project mr)"
  unfolding ghApprove_def
  by (auto intro!: withinRules rel repoOf_within mrPinned_within does split: prod.split option.split)

lemma mergeCAS_within:
  "(\<And>repo. admits MethodPut (ghMergePath repo mr)) \<Longrightarrow> within Q (ghMergeCAS c project mr m)"
  unfolding ghMergeCAS_def
  by (auto intro!: withinRules rel repoOf_within currentHeads_within does split: prod.split option.split)

end

subsection \<open>Which document a request asks for\<close>

definition asksFor :: "string \<Rightarrow> request \<Rightarrow> bool" where
  "asksFor q rq \<longleftrightarrow> rq_method rq = MethodPost \<and> rq_path rq = ''/graphql''
     \<and> (case rq_body rq of None \<Rightarrow> False | Some b \<Rightarrow> hasPrefix b (''{'' @ member ''query'' q @ '',''))"

definition isTokenExchange :: "request \<Rightarrow> bool" where
  "isTokenExchange rq \<longleftrightarrow> rq_method rq = MethodPost \<and> hasPrefix (rq_path rq) ''/app/installations/''
     \<and> hasSuffix (rq_path rq) ''/access_tokens''"

lemma graphqlRequest_asks: "asksFor q (graphqlRequest c q vars cred)"
  by (simp add: asksFor_def graphqlRequest_def graphqlBody_def object_def)

lemma asksFor_unique:
  assumes "asksFor q rq" "asksFor q' rq" "validUtf8 q" "validUtf8 q'"
  shows "q = q'"
proof -
  obtain b x y where "rq_body rq = Some b" "b = ''{'' @ member ''query'' q @ '','' @ x" "b = ''{'' @ member ''query'' q' @ '','' @ y"
    using assms(1,2) by (auto simp: asksFor_def prefix_def split: option.splits)
  then have "quoteBody q @ CHR 0x22 # '','' @ x = quoteBody q' @ CHR 0x22 # '','' @ y"
    by (simp add: member_def jsonQuote_def)
  then show ?thesis
    using readString_quote [OF assms(3), of "'','' @ x"] readString_quote [OF assms(4), of "'','' @ y"] by simp
qed

lemma documents_valid: "validUtf8 gqlResolveThread" "validUtf8 gqlReviewThreads" "validUtf8 gqlEnableAutoMerge"
  by code_simp+

lemma documents_distinct: "gqlResolveThread \<noteq> gqlEnableAutoMerge" "gqlReviewThreads \<noteq> gqlEnableAutoMerge"
  by (simp_all add: gqlResolveThread_def gqlReviewThreads_def gqlEnableAutoMerge_def)

lemma not_arming:
  "asksFor gqlResolveThread rq \<Longrightarrow> \<not> asksFor gqlEnableAutoMerge rq"
  "asksFor gqlReviewThreads rq \<Longrightarrow> \<not> asksFor gqlEnableAutoMerge rq"
  using asksFor_unique documents_valid documents_distinct by blast+

subsection \<open>What is sent\<close>

definition ghLogged :: "'s githubClient \<Rightarrow> ('s \<times> request list) githubClient" where
  "ghLogged c = \<lparr>gh_endpoint = gh_endpoint c, gh_token = gh_token c, gh_botName = gh_botName c,
     gh_appAuth = gh_appAuth c, gh_retry = gh_retry c, gh_libs = loggedLibs (gh_libs c), gh_crypto = gh_crypto c\<rparr>"

lemma ghLogged_net: "al_net (gh_libs (ghLogged c)) = logged (al_net (gh_libs c))"
  by (simp add: ghLogged_def loggedLibs_def)

definition ghRemotely :: "('s \<Rightarrow> 's \<Rightarrow> bool) \<Rightarrow> 's githubState \<Rightarrow> 's githubState \<Rightarrow> bool" where
  "ghRemotely R a b \<longleftrightarrow> R (hs_remote a) (hs_remote b)"

context network_within
begin

lemma remote_net: "network_within (remoteNet net) (ghRemotely R) allowed"
proof
  show "reflp (ghRemotely R)" using refl by (simp add: reflp_def ghRemotely_def)
  show "transp (ghRemotely R)" using trans by (auto simp: transp_def ghRemotely_def)
  show "ghRemotely R s (snd (nt_send (remoteNet net) req s))" if "allowed req" for req s
    using send [OF that, of "hs_remote s"]
    by (cases "nt_send net req (hs_remote s)") (simp add: ghRemotely_def remoteNet_def)
  show "ghRemotely R s (nt_sleep (remoteNet net) d s)" for s d
    using sleep by (simp add: ghRemotely_def remoteNet_def)
  show "ghRemotely R s (snd (nt_jitter (remoteNet net) h s))" for s h
    using jitter [of "hs_remote s" h]
    by (cases "nt_jitter net h (hs_remote s)") (simp add: ghRemotely_def remoteNet_def)
qed

lemmas remote_refl = network_within.refl [OF remote_net]
lemmas remote_trans = network_within.trans [OF remote_net]
lemmas remote_send = network_within.send [OF remote_net]

lemma bearer_within:
  assumes "al_net (gh_libs c) = net" and "\<And>rq. isTokenExchange rq \<Longrightarrow> allowed rq"
  shows "within (ghRemotely R) (bearer c)"
proof -
  have minted: "ghRemotely R st (snd (mintedToken c resp st))" for resp st
    using reflpD [OF refl] by (auto simp: mintedToken_def ghRemotely_def split: sum.split option.split)
  have "isTokenExchange (tokenRequest c a jwt)" for a jwt
    by (simp add: isTokenExchange_def tokenRequest_def tokenPath_def suffix_def)
  then have sent: "ghRemotely R st (snd (nt_send (remoteNet net) (tokenRequest c a jwt) st))" for a jwt st
    by (intro remote_send assms(2))
  have "ghRemotely R st (snd (installationToken c a st))" for a st
  proof -
    have *: "ghRemotely R st (snd (case nt_send (remoteNet net) (tokenRequest c a jwt) st of
        (Inl e, st1) \<Rightarrow> (Inl (TransportFailed MethodPost (tokenPath a) e), st1)
      | (Inr resp, st1) \<Rightarrow> mintedToken c resp st1))" for jwt
    proof (cases "nt_send (remoteNet net) (tokenRequest c a jwt) st")
      case (Pair x st1)
      then have 1: "ghRemotely R st st1" using sent [of st a jwt] by simp
      show ?thesis
      proof (cases x)
        case (Inl e)
        then show ?thesis using Pair 1 by simp
      next
        case (Inr resp)
        then show ?thesis using Pair transpD [OF remote_trans 1 minted] by simp
      qed
    qed
    then show ?thesis
      using reflpD [OF refl] assms(1)
      by (auto simp: installationToken_def ghRemotely_def split: sum.split option.split)
  qed
  then show ?thesis
    using reflpD [OF refl] by (auto simp: bearer_def within_def okA_def errA_def ghRemotely_def split: option.split)
qed

lemma ghDo_within:
  assumes "al_net (gh_libs c) = net" and "\<And>rq. isTokenExchange rq \<Longrightarrow> allowed rq"
    and "\<And>rq. rq_method rq = mth \<Longrightarrow> rq_path rq = path \<Longrightarrow> allowed rq"
  shows "within (ghRemotely R) (ghDo c mth path body ct)"
proof -
  note b = bearer_within [OF assms(1,2)]
  have "ghRemotely R st (snd (ghDoOnce c mth path body ct st))" for st
  proof (cases "nt_build net mth (gh_endpoint c @ path)")
    case (Some e)
    then show ?thesis using reflpD [OF remote_refl] assms(1) by (simp add: ghDoOnce_def remoteNet_def)
  next
    case None
    obtain x st1 where x: "bearer c st = (x, st1)" by (cases "bearer c st")
    have 1: "ghRemotely R st st1" by (rule withinD [OF b x])
    have 2: "ghRemotely R st1 (snd (sendOnce (remoteNet net) (ghRequest c mth path body ct cred) st1))" for cred
      by (rule network_within.sendOnce_within [OF remote_net]) (simp add: assms(3) ghRequest_def)
    show ?thesis using None 1 transpD [OF remote_trans 1 2] x assms(1)
      by (cases x) (simp_all add: ghDoOnce_def remoteNet_def)
  qed
  from network_within.attemptLoop_within [OF remote_net, of "ghDoOnce c mth path body ct", OF this]
  show ?thesis by (simp add: within_def ghDo_def assms(1) outcome_state)
qed

lemma gqlDo_within:
  assumes "al_net (gh_libs c) = net" and "\<And>rq. isTokenExchange rq \<Longrightarrow> allowed rq"
    and "\<And>rq. asksFor query rq \<Longrightarrow> allowed rq"
  shows "within (ghRemotely R) (gqlDo c query vars)"
proof -
  let ?u = "trimSlashes (gh_endpoint c) @ ''/graphql''"
  have "within (ghRemotely R) (\<lambda>st. case nt_build (remoteNet net) MethodPost ?u of
         Some e \<Rightarrow> (Inl (Refused ''github: graphql: build request failed''), st)
       | None \<Rightarrow> (let req = graphqlRequest c query vars cred
           in case nt_send (remoteNet net) req st of
                (Inl e, st1) \<Rightarrow> (Inl (TransportFailed MethodPost ''/graphql'' e), st1)
              | (Inr resp, st1) \<Rightarrow> (graphqlAnswer req resp, st1)))" for cred
  proof (rule withinI)
    fix st z st' assume e: "(case nt_build (remoteNet net) MethodPost ?u of
         Some e \<Rightarrow> (Inl (Refused ''github: graphql: build request failed''), st)
       | None \<Rightarrow> (let req = graphqlRequest c query vars cred
           in case nt_send (remoteNet net) req st of
                (Inl e, st1) \<Rightarrow> (Inl (TransportFailed MethodPost ''/graphql'' e), st1)
              | (Inr resp, st1) \<Rightarrow> (graphqlAnswer req resp, st1))) = (z, st')"
    have "ghRemotely R st (snd (nt_send (remoteNet net) (graphqlRequest c query vars cred) st))"
      by (intro remote_send assms(3) graphqlRequest_asks)
    then show "ghRemotely R st st'"
      using e reflpD [OF remote_refl] by (auto simp: Let_def split: option.splits prod.splits sum.splits)
  qed
  then show ?thesis unfolding gqlDo_def assms(1)
    by (intro within_bindA [OF remote_trans] bearer_within [OF assms(1,2)])
qed

lemma github_remote:
  assumes "al_net (gh_libs c) = net" and "\<And>rq. isTokenExchange rq \<Longrightarrow> allowed rq"
    and "\<And>rq. isGet rq \<Longrightarrow> allowed rq" and "\<And>rq. asksFor gqlReviewThreads rq \<Longrightarrow> allowed rq"
  shows "github_within c (ghRemotely R) (\<lambda>mth path. \<forall>rq. rq_method rq = mth \<longrightarrow> rq_path rq = path \<longrightarrow> allowed rq)
    (\<lambda>q. \<forall>rq. asksFor q rq \<longrightarrow> allowed rq) project mr"
proof
  show "within (ghRemotely R) (ghDo c mth path body ct)"
    if "\<forall>rq. rq_method rq = mth \<longrightarrow> rq_path rq = path \<longrightarrow> allowed rq" for mth path body ct
    by (rule ghDo_within [OF assms(1,2)]) (use that in simp_all)
  show "within (ghRemotely R) (gqlDo c q vars)" if "\<forall>rq. asksFor q rq \<longrightarrow> allowed rq" for q vars
    by (rule gqlDo_within [OF assms(1,2)]) (use that in simp_all)
qed (use assms(3,4) remote_refl remote_trans reflpD [OF refl] in
    \<open>auto simp: ghRemotely_def ghWritePin_def ghWarn_def\<close>)

end

text \<open>The requests of a read, and those that approve, merge or arm a merge.\<close>

definition ghReads :: "request \<Rightarrow> bool" where
  "ghReads rq \<longleftrightarrow> isGet rq \<or> isTokenExchange rq \<or> asksFor gqlReviewThreads rq"

definition ghFinal :: "request \<Rightarrow> bool" where
  "ghFinal rq \<longleftrightarrow> (rq_method rq = MethodPost \<and> hasSuffix (rq_path rq) ''/reviews'')
     \<or> (rq_method rq = MethodPut \<and> hasSuffix (rq_path rq) ''/merge'') \<or> asksFor gqlEnableAutoMerge rq"

definition ghFinals :: "'s \<times> request list \<Rightarrow> request list" where
  "ghFinals x = filter ghFinal (snd x)"

interpretation ghUnfinal: network_within "logged net" "\<lambda>x y. ghFinals y = ghFinals x" "\<lambda>rq. \<not> ghFinal rq" for net
  by unfold_locales (auto simp: reflp_def transp_def ghFinals_def logged_def split: prod.split)

lemma reads_not_final: "ghReads rq \<Longrightarrow> \<not> ghFinal rq"
  using not_arming(2) by (auto simp: ghReads_def ghFinal_def isTokenExchange_def asksFor_def suffix_def)

interpretation ghFin: github_within "ghLogged c" "ghRemotely (\<lambda>x y. ghFinals y = ghFinals x)"
    "\<lambda>mth path. \<forall>rq. rq_method rq = mth \<longrightarrow> rq_path rq = path \<longrightarrow> \<not> ghFinal rq"
    "\<lambda>q. \<forall>rq. asksFor q rq \<longrightarrow> \<not> ghFinal rq" project mr for c project mr
  by (rule ghUnfinal.github_remote [OF ghLogged_net]) (use reads_not_final in \<open>auto simp: ghReads_def\<close>)

interpretation ghRd: github_within "ghLogged c" "ghRemotely (grows ghReads)"
    "\<lambda>mth path. \<forall>rq. rq_method rq = mth \<longrightarrow> rq_path rq = path \<longrightarrow> ghReads rq"
    "\<lambda>q. \<forall>rq. asksFor q rq \<longrightarrow> ghReads rq" project mr for c project mr
  by (rule sent.github_remote [OF ghLogged_net]) (auto simp: ghReads_def)

end
