(* ===== verification/GithubRun.thy ===== *)
theory GithubRun
  imports GithubFacts AdvisoryRun
begin

text \<open>
  The GitHub adapter under a run: what its capability report says, which requests its comments are, and
  the two contracts of the run (\<open>run_port\<close>, \<open>advisory_run\<close>) discharged on it.
\<close>

subsection \<open>The capability report\<close>

lemma fixedCaps_unknown:
  "\<exists>r. map_of (fixedCaps @ more1) CapabilityProtectedPipelineSource = Some (UnknownCapabilityEntry r)"
  by (simp add: fixedCaps_def) (rule exI, rule refl)

lemma ghProbe_unknown:
  assumes "ghProbeCapabilities c p st = (Inr rep, st')"
  shows "ArmedBlocks rep CapabilityProtectedPipelineSource"
proof -
  obtain more1 where "NewCapabilityReport (fixedCaps @ more1) = Inr rep"
    using assms unfolding ghProbeCapabilities_def by (auto simp: bindA_Inr_iff)
  then show ?thesis using unknown_blocks fixedCaps_unknown [of more1] by blast
qed

lemma github_never_arms:
  assumes "ghSnapshot c p r st = (Inr sn, st')"
  shows "\<not> pp_armEligible (PreconditionFromReport (sn_capabilities sn))"
proof -
  obtain st1 st2 where "ghProbeCapabilities c p st1 = (Inr (sn_capabilities sn), st2)"
    using assms unfolding ghSnapshot_def by (force simp: bindA_Inr_iff)
  from ghProbe_unknown [OF this] show ?thesis by (simp add: PreconditionFromReport_arm)
qed

subsection \<open>What a comment is\<close>

lemma comments_not_ghFinal:
  "rq_method rq = MethodPost \<Longrightarrow> rq_path rq = ''/repos/'' @ repo @ ''/pulls/'' @ mr @ ''/comments'' \<Longrightarrow> \<not> ghFinal rq"
  "rq_method rq = MethodPost \<Longrightarrow> rq_path rq = ''/repos/'' @ repo @ ''/issues/'' @ mr @ ''/comments'' \<Longrightarrow> \<not> ghFinal rq"
  "rq_method rq = MethodPatch \<Longrightarrow> \<not> ghFinal rq"
  "asksFor gqlResolveThread rq \<Longrightarrow> \<not> ghFinal rq"
proof -
  have s: "\<not> suffix ''/reviews'' (x @ ''/comments'')" for x
  proof
    assume "suffix ''/reviews'' (x @ ''/comments'')"
    then obtain y where "x @ ''/comments'' = y @ ''/reviews''" by (auto simp: suffix_def)
    then have "rev (x @ ''/comments'') = rev (y @ ''/reviews'')" by simp
    then show False by simp
  qed
  show "rq_method rq = MethodPost \<Longrightarrow> rq_path rq = ''/repos/'' @ repo @ ''/pulls/'' @ mr @ ''/comments'' \<Longrightarrow> \<not> ghFinal rq"
    "rq_method rq = MethodPost \<Longrightarrow> rq_path rq = ''/repos/'' @ repo @ ''/issues/'' @ mr @ ''/comments'' \<Longrightarrow> \<not> ghFinal rq"
    using s [of "''/repos/'' @ repo @ ''/pulls/'' @ mr"] s [of "''/repos/'' @ repo @ ''/issues/'' @ mr"]
    by (auto simp: ghFinal_def asksFor_def)
  show "rq_method rq = MethodPatch \<Longrightarrow> \<not> ghFinal rq" by (simp add: ghFinal_def asksFor_def)
  show "asksFor gqlResolveThread rq \<Longrightarrow> \<not> ghFinal rq"
    using not_arming(1) by (auto simp: ghFinal_def asksFor_def suffix_def)
qed

lemma ghFinal_paths:
  "rq_method rq = MethodPost \<Longrightarrow> rq_path rq = ''/repos/'' @ repo @ ''/pulls/'' @ mr @ ''/reviews'' \<Longrightarrow> ghFinal rq"
  "rq_method rq = MethodPut \<Longrightarrow> rq_path rq = ghMergePath repo mr \<Longrightarrow> ghFinal rq"
  by (auto simp: ghFinal_def ghMergePath_def suffix_def)

subsection \<open>The contracts of a run\<close>

lemma ghRead_within: "within (ghRemotely R) m \<Longrightarrow> R (hs_remote s) (hs_remote (snd (wrapA f m s)))"
  by (simp add: within_def ghRemotely_def wrapA_state)

lemma ghIO_keeps:
  "within (ghRemotely (\<lambda>x y. v y = v x)) m \<Longrightarrow> keeps (sameView (\<lambda>st. v (hs_remote st))) (wrapA f m)"
  by (simp add: within_def keeps_def sameView_def ghRemotely_def wrapA_state)

lemma ghRead_only:
  assumes "within (ghRemotely (grows ghReads)) m"
  shows "filter (\<lambda>rq. \<not> ghReads rq) (snd (hs_remote (snd (wrapA f m s)))) = filter (\<lambda>rq. \<not> ghReads rq) (snd (hs_remote s))"
  using ghRead_within [OF assms, of s f] by (auto simp: grows_def filter_empty_conv list_all_iff)

lemma ghRead_finals:
  assumes "within (ghRemotely (\<lambda>x y. ghFinals y = ghFinals x)) m"
  shows "ghFinals (hs_remote (snd (wrapA f m s))) = ghFinals (hs_remote s)"
  by (rule ghRead_within [OF assms])

interpretation ghRun: run_port "githubRunPort (ghLogged c)"
    "\<lambda>st. filter (\<lambda>rq. \<not> ghReads rq) (snd (hs_remote st))" for c
  by unfold_locales (simp_all only: githubRunPort_def runPort.simps ghRead_only [OF ghRd.getMR_within]
      ghRead_only [OF ghRd.snapshot_within] ghRead_only [OF ghRd.resolve_within] ghRead_only [OF ghRd.fileAtRef_within]
      ghRead_only [OF ghRd.fileAtBase_within] ghRead_only [OF ghRd.fileAtHead_within])

interpretation ghAdvisory: advisory_run "githubRunPort (ghLogged c)" "\<lambda>st. ghFinals (hs_remote st)" for c
proof
  fix p r m b i s sn s'
  show "keeps (sameView (\<lambda>st. ghFinals (hs_remote st))) (ListBotThreads (rp_write (githubRunPort (ghLogged c))) p r)"
    "keeps (sameView (\<lambda>st. ghFinals (hs_remote st))) (CreateThread (rp_write (githubRunPort (ghLogged c))) p r m b)"
    "keeps (sameView (\<lambda>st. ghFinals (hs_remote st))) (ResolveThread (rp_write (githubRunPort (ghLogged c))) p r i)"
    "keeps (sameView (\<lambda>st. ghFinals (hs_remote st))) (ListBotNotes (rp_write (githubRunPort (ghLogged c))) p r)"
    "keeps (sameView (\<lambda>st. ghFinals (hs_remote st))) (UpsertComment (rp_write (githubRunPort (ghLogged c))) p r m b)"
    by (auto simp: githubRunPort_def githubForge_def comments_not_ghFinal intro!: ghIO_keeps
        ghFin.listBotThreads_within ghFin.createThread_within ghFin.resolveThread_within
        ghFin.listBotNotes_within ghFin.upsertComment_within)
  assume "rp_snapshot (githubRunPort (ghLogged c)) p r s = (Inr sn, s')"
  then have "ghSnapshot (ghLogged c) p r s = (Inr sn, s')"
    by (auto simp: githubRunPort_def wrapA_def split: prod.splits sum.splits)
  then show "\<not> pp_armEligible (PreconditionFromReport (sn_capabilities sn))" by (rule github_never_arms)
qed (simp_all only: githubRunPort_def runPort.simps ghRead_finals [OF ghFin.getMR_within]
    ghRead_finals [OF ghFin.snapshot_within] ghRead_finals [OF ghFin.resolve_within] ghRead_finals [OF ghFin.fileAtRef_within]
    ghRead_finals [OF ghFin.fileAtBase_within] ghRead_finals [OF ghFin.fileAtHead_within])

end
