(* ===== verification/GithubProps.thy ===== *)
theory GithubProps
  imports GithubRun
begin

text \<open>
  The properties of the GitHub adapter, alone and under a run: what a run may send, the guarded merge and
  the refused arming, the pin, when an answer of 404 is an absent file, which approvals count, and the
  bytes of a file.
\<close>

subsection \<open>Runs\<close>

text \<open>
  C4: on GitHub a run sends nothing but reads (GET requests, the exchange of the app token, the query of
  the review threads) before the decision record is out: either it sent nothing else at all, or the
  pull request was judged, its record is valid and emitted, it does not edit the policy and it does not
  come from a fork. This holds for every network and both kinds of credential.
\<close>

theorem github_run_record_first:
  fixes c :: "'s githubClient" and w :: "('s \<times> request list) githubState world"
  shows "case orchestrate libs sys cfg (githubRunPort (ghLogged c)) clock w of (r, w') \<Rightarrow>
     filter (\<lambda>rq. \<not> ghReads rq) (snd (hs_remote (w_forge w'))) = filter (\<lambda>rq. \<not> ghReads rq) (snd (hs_remote (w_forge w)))
     \<or> (\<exists>v w1. judge libs cfg (githubRunPort (ghLogged c)) clock w = (Inr v, w1)
         \<and> rl_marshalRecord libs (rep_record (vd_report v)) = Some (vd_json v) \<and> rl_recordValid libs (vd_json v)
         \<and> emitted cfg (vd_json v) w w' \<and> \<not> reservedSelfEditBlock (vd_result v)
         \<and> \<not> h_fork (sn_heads (vd_snapshot v)))"
    (is "case ?o of (r, w') \<Rightarrow> ?same w' \<or> ?Q w'")
proof -
  obtain r w' where o: "?o = (r, w')" by fastforce
  show ?thesis
  proof (cases "?same w'")
    case True
    then show ?thesis by (simp add: o)
  next
    case False
    then obtain v w1 where "judge libs cfg (githubRunPort (ghLogged c)) clock w = (Inr v, w1)"
        "rl_marshalRecord libs (rep_record (vd_report v)) = Some (vd_json v)" "rl_recordValid libs (vd_json v)"
        "emitted cfg (vd_json v) w w'" "\<not> reservedSelfEditBlock (vd_result v)" "\<not> h_fork (sn_heads (vd_snapshot v))"
      by (rule ghRun.run_writes [OF o])
    then show ?thesis by (auto simp: o)
  qed
qed

text \<open>
  on GitHub no run ever approves, merges or arms a merge, whatever the policy, the facts and the
  network say: the protected source of the pipeline is not probed, so arming is refused.
\<close>

theorem github_run_advisory:
  "ghFinals (hs_remote (w_forge (snd (orchestrate libs sys cfg (githubRunPort (ghLogged c)) clock w))))
     = ghFinals (hs_remote (w_forge w))"
  by (cases "orchestrate libs sys cfg (githubRunPort (ghLogged c)) clock w")
    (simp add: ghAdvisory.run_advisory)

text \<open>
  deferred auto-merge is never armed from the adapter's own report: with the capabilities of any
  snapshot the call is refused before anything is sent, whatever the merge method.
\<close>

theorem github_arming_refused:
  "case ghSnapshot c p r st of
     (Inl e, st') \<Rightarrow> True
   | (Inr sn, st') \<Rightarrow> EnablePullRequestAutoMerge c p r (sn_capabilities sn) mth st2
       = (Inl (ArmingRefused ''deferred-merge-arming'' CapabilityUnknown (ce_reason deferredArmingEntry)), st2)"
proof (cases "ghSnapshot c p r st")
  case (Pair z st')
  show ?thesis
  proof (cases z)
    case (Inl e)
    then show ?thesis using Pair by simp
  next
    case (Inr sn)
    obtain s1 s2 where "ghProbeCapabilities c p s1 = (Inr (sn_capabilities sn), s2)"
      using Pair unfolding Inr ghSnapshot_def by (force simp: bindA_Inr_iff)
    then obtain x where rep: "NewCapabilityReport (fixedCaps @ [(''merge-result-pinning'', x),
        (''deferred-merge-arming'', deferredArmingEntry)]) = Inr (sn_capabilities sn)"
      unfolding ghProbeCapabilities_def by (auto simp: bindA_Inr_iff)
    let ?xs = "fixedCaps @ [(''merge-result-pinning'', x), (''deferred-merge-arming'', deferredArmingEntry)]"
    obtain es where es: "reportEntries ?xs = Inr es" "sn_capabilities sn = Some es"
      using rep by (auto simp: NewCapabilityReport_def bind_res_Inr_iff split: option.splits)
    have "map_of ?xs ''deferred-merge-arming'' = Some deferredArmingEntry"
      by (simp add: fixedCaps_def)
    then have "entryOf (sn_capabilities sn) ''deferred-merge-arming'' = Some deferredArmingEntry"
      using reportEntries_map_of [OF es(1), of "''deferred-merge-arming''"]
      by (simp add: es(2) entryOf_def deferredArmingEntry_def UnknownCapabilityEntry_def normalizeState_def)
    then have "armingRefusal (sn_capabilities sn)
        = Some (ArmingRefused ''deferred-merge-arming'' CapabilityUnknown (ce_reason deferredArmingEntry))"
      by (simp add: armingRefusal_def armingConsultSet_def capState_def capReason_def deferredArmingEntry_def UnknownCapabilityEntry_def)
    then show ?thesis by (simp add: Pair Inr EnablePullRequestAutoMerge_def errA_def)
  qed
qed

subsection \<open>The guarded merge\<close>

lemma ghLogged_sel [simp]:
  "gh_endpoint (ghLogged c) = gh_endpoint c" "gh_token (ghLogged c) = gh_token c" "gh_botName (ghLogged c) = gh_botName c"
  "gh_retry (ghLogged c) = gh_retry c"
  by (simp_all add: ghLogged_def)

text \<open>A call of one attempt sends at most one request that is final, after no other.\<close>

lemma ghDo_once_finals:
  assumes "attemptsFor (gh_retry c) mth body = 1"
  shows "ghFinals (hs_remote (snd (ghDo (ghLogged c) mth path body ct st))) = ghFinals (hs_remote st)
    \<or> (\<exists>cred. ghFinals (hs_remote (snd (ghDo (ghLogged c) mth path body ct st)))
        = ghFinals (hs_remote st) @ [ghRequest c mth path body ct cred])"
proof -
  let ?net = "remoteNet (logged (al_net (gh_libs c)))" and ?once = "ghDoOnce (ghLogged c) mth path body ct"
  let ?loop = "attemptLoop ?net (gh_retry c) ?once (ContextDone mth path) 1 1 st"
  have s: "snd (ghDo (ghLogged c) mth path body ct st) = snd ?loop"
    by (simp add: ghDo_def ghLogged_net assms outcome_state)
  have b: "within (ghRemotely (\<lambda>x y. ghFinals y = ghFinals x)) (bearer (ghLogged c))"
    by (rule ghUnfinal.bearer_within [OF ghLogged_net]) (use reads_not_final in \<open>simp add: ghReads_def\<close>)
  have once: "ghFinals (hs_remote (snd (?once st))) = ghFinals (hs_remote st)
    \<or> (\<exists>cred. ghFinals (hs_remote (snd (?once st))) = ghFinals (hs_remote st) @ [ghRequest c mth path body ct cred])"
  proof (cases "nt_build ?net mth (gh_endpoint c @ path)")
    case (Some e)
    then show ?thesis by (simp add: ghDoOnce_def ghLogged_net)
  next
    case None
    obtain x st1 where x: "bearer (ghLogged c) st = (x, st1)" by (cases "bearer (ghLogged c) st")
    have 1: "ghFinals (hs_remote st1) = ghFinals (hs_remote st)"
      using withinD [OF b x] by (simp add: ghRemotely_def)
    have rq: "ghRequest (ghLogged c) mth path body ct cred = ghRequest c mth path body ct cred" for cred
      by (simp add: ghRequest_def)
    have 2: "snd (hs_remote (snd (sendOnce ?net rq st1))) = snd (hs_remote st1) @ [rq]" for rq
    proof -
      obtain s l where "hs_remote st1 = (s, l)" by (cases "hs_remote st1")
      then show ?thesis by (auto simp: sendOnce_def remoteNet_def logged_def split: prod.split sum.split)
    qed
    show ?thesis
    proof (cases x)
      case (Inl e)
      then show ?thesis using None x 1 by (simp add: ghDoOnce_def ghLogged_net)
    next
      case (Inr cred)
      have "snd (?once st) = snd (sendOnce ?net (ghRequest c mth path body ct cred) st1)"
        using None x Inr by (simp add: ghDoOnce_def ghLogged_net rq)
      then show ?thesis using 1 2 [of "ghRequest c mth path body ct cred"] by (auto simp: ghFinals_def)
    qed
  qed
  show ?thesis
  proof (cases "nt_ctxErr ?net st")
    case (Some e)
    then show ?thesis by (simp add: s attemptLoop_ended)
  next
    case None
    obtain a st1 where o: "?once st = (a, st1)" by (cases "?once st")
    have "?loop = (a, st1)" by (rule attemptLoop_last [where once = ?once, OF None o]) simp
    with once o show ?thesis by (simp add: s)
  qed
qed

text \<open>
  C16: of the requests that change a pull request for good, a merge sends at most one, and only where the
  heads and the merge result read just before are the three pinned ones; it is the merge of that pull
  request and carries the pinned source.
\<close>

theorem github_merge_pinned:
  "case ghMergeCAS (ghLogged c) p r m st of (x, st') \<Rightarrow>
     ghFinals (hs_remote st') = ghFinals (hs_remote st)
     \<or> (\<exists>repo st1 cred. repoParts p = Inr repo
         \<and> ghCurrentHeads (ghLogged c) p r st = (Inr (dm_source m, dm_target m, dm_digest m), st1)
         \<and> ghFinals (hs_remote st') = ghFinals (hs_remote st)
             @ [ghRequest c MethodPut (ghMergePath repo r) (Some (ghMergeBody (dm_source m))) jsonType cred])"
proof (cases "repoParts p")
  case (Inl e)
  then show ?thesis by (simp add: ghMergeCAS_def repoOf_def bindA_def errA_def)
next
  case (Inr repo)
  obtain h st1 where h: "ghCurrentHeads (ghLogged c) p r st = (h, st1)" by fastforce
  have 1: "ghFinals (hs_remote st1) = ghFinals (hs_remote st)"
    using withinD [OF ghFin.currentHeads_within h] by (simp add: ghRemotely_def)
  let ?ctx = "''re-read current heads before merge '' @ p @ ''#'' @ r"
  have w: "wrapA (Within ?ctx) (ghCurrentHeads (ghLogged c) p r) st = (case h of Inl e \<Rightarrow> (Inl (Within ?ctx e), st1) | Inr a \<Rightarrow> (Inr a, st1))"
    unfolding wrapA_def h by (cases h) simp_all
  show ?thesis
  proof (cases "h = Inr (dm_source m, dm_target m, dm_digest m)")
    case True
    let ?put = "ghDo (ghLogged c) MethodPut (ghMergePath repo r) (Some (ghMergeBody (dm_source m))) jsonType"
    obtain y st2 where d: "?put st1 = (y, st2)" by fastforce
    have "snd (ghMergeCAS (ghLogged c) p r m st) = st2"
      using Inr w True d by (cases y) (auto simp: ghMergeCAS_def repoOf_def bindA_def okA_def errA_def split: prod.split option.split)
    moreover have "attemptsFor (gh_retry c) MethodPut (Some (ghMergeBody (dm_source m))) = 1"
      by (simp add: attemptsFor_def)
    from ghDo_once_finals [OF this, of "ghMergePath repo r" jsonType st1] have
      "ghFinals (hs_remote st2) = ghFinals (hs_remote st)
       \<or> (\<exists>cred. ghFinals (hs_remote st2) = ghFinals (hs_remote st)
            @ [ghRequest c MethodPut (ghMergePath repo r) (Some (ghMergeBody (dm_source m))) jsonType cred])"
      by (simp add: d 1)
    ultimately show ?thesis using Inr h True by (cases "ghMergeCAS (ghLogged c) p r m st") auto
  next
    case False
    have "snd (ghMergeCAS (ghLogged c) p r m st) = st1"
    proof (cases h)
      case (Inl e)
      then show ?thesis using \<open>repoParts p = Inr repo\<close> w by (simp add: ghMergeCAS_def repoOf_def bindA_def okA_def)
    next
      case (Inr hs)
      obtain a b d where "hs = (a, b, d)" by (cases hs)
      then show ?thesis using \<open>repoParts p = Inr repo\<close> w False Inr
        by (auto simp: ghMergeCAS_def repoOf_def bindA_def okA_def errA_def)
    qed
    with 1 show ?thesis by (cases "ghMergeCAS (ghLogged c) p r m st") auto
  qed
qed

subsection \<open>The pin\<close>

definition ghKeepsPin :: "string \<Rightarrow> 's githubState \<Rightarrow> 's githubState \<Rightarrow> bool" where
  "ghKeepsPin k a b \<longleftrightarrow> (\<forall>i. hs_pin a = Some (k, i) \<longrightarrow> hs_pin b = Some (k, i))"

definition samePin :: "'s githubState \<Rightarrow> 's githubState \<Rightarrow> bool" where
  "samePin a b \<longleftrightarrow> hs_pin b = hs_pin a"

interpretation ghPinNet: network_within "remoteNet net" samePin "\<lambda>rq. True" for net
  by unfold_locales (auto simp: reflp_def transp_def samePin_def remoteNet_def split: prod.split)

lemma bearer_pin: "samePin st (snd (bearer c st))"
proof -
  have "samePin st (snd (mintedToken c resp st))" for resp st
    by (auto simp: mintedToken_def samePin_def split: sum.split option.split)
  then have "hs_pin (snd (mintedToken c resp st)) = hs_pin st" for resp st by (simp add: samePin_def)
  moreover have "hs_pin (snd (nt_send (ghNet c) rq st)) = hs_pin st" for rq
    using ghPinNet.send [where req = rq and s = st] by (simp add: samePin_def)
  ultimately show ?thesis
    by (auto simp: samePin_def bearer_def installationToken_def okA_def errA_def split: option.split sum.split prod.split)
      (metis snd_conv)+
qed

lemma ghDo_pin: "samePin st (snd (ghDo c mth path body ct st))"
proof -
  have "samePin st (snd (ghDoOnce c mth path body ct st))" for st
    using bearer_pin [of st c]
    by (auto simp: ghDoOnce_def samePin_def ghPinNet.sendOnce_within [unfolded samePin_def] split: option.split prod.split sum.split)
  from ghPinNet.attemptLoop_within [of "ghDoOnce c mth path body ct", OF this]
  show ?thesis by (simp add: ghDo_def outcome_state)
qed

lemma gqlDo_pin: "samePin st (snd (gqlDo c q vars st))"
proof -
  have n: "hs_pin (snd (nt_send (ghNet c) rq st)) = hs_pin st" for rq st
    using ghPinNet.send [where req = rq and s = st] by (simp add: samePin_def)
  obtain x st1 where x: "bearer c st = (x, st1)" by (cases "bearer c st")
  show ?thesis using bearer_pin [of st c] n [of _ st1] x
    by (cases x) (auto simp: gqlDo_def bindA_def samePin_def Let_def split: option.split prod.split sum.split, (metis snd_conv)+)
qed

interpretation ghPin: github_within c "ghKeepsPin (ghPinKey project mr)" "\<lambda>mth path. True" "\<lambda>q. True" project mr for c project mr
proof
  show "within (ghKeepsPin (ghPinKey project mr)) (ghDo c mth path body ct)" for mth path body ct
    by (auto simp: within_def ghKeepsPin_def ghDo_pin [unfolded samePin_def])
  show "within (ghKeepsPin (ghPinKey project mr)) (gqlDo c q vars)" for q vars
    by (auto simp: within_def ghKeepsPin_def gqlDo_pin [unfolded samePin_def])
qed (auto simp: reflp_def transp_def ghKeepsPin_def ghWritePin_def ghWarn_def)

text \<open>The operations of the port on one pull request, and what a sequence of them leaves.\<close>

datatype ghOp = OpGetMR | OpSnapshot | OpResolve resolveRequest | OpFileAtRef string string string
  | OpFileAtBase string | OpFileAtHead string | OpListThreads | OpListNotes | OpCurrentHeads
  | OpCreateThread marker string | OpResolveThread string | OpUpsert marker string | OpApprove | OpMerge desiredMerge

fun ghApply :: "'s githubClient \<Rightarrow> string \<Rightarrow> string \<Rightarrow> ghOp \<Rightarrow> 's githubState \<Rightarrow> 's githubState" where
  "ghApply c p r OpGetMR st = snd (ghGetMR c p r st)"
| "ghApply c p r OpSnapshot st = snd (ghSnapshot c p r st)"
| "ghApply c p r (OpResolve q) st = snd (ghResolve c q st)"
| "ghApply c p r (OpFileAtRef p2 f ref) st = snd (ghFileAtRef c p2 f ref st)"
| "ghApply c p r (OpFileAtBase f) st = snd (ghFileAtBase c p r f st)"
| "ghApply c p r (OpFileAtHead f) st = snd (ghFileAtHead c p r f st)"
| "ghApply c p r OpListThreads st = snd (ghListBotThreads c p r st)"
| "ghApply c p r OpListNotes st = snd (ghListBotNotes c p r st)"
| "ghApply c p r OpCurrentHeads st = snd (ghCurrentHeads c p r st)"
| "ghApply c p r (OpCreateThread m b) st = snd (ghCreateThread c p r m b st)"
| "ghApply c p r (OpResolveThread i) st = snd (ghResolveThread c p r i st)"
| "ghApply c p r (OpUpsert m b) st = snd (ghUpsertComment c p r m b st)"
| "ghApply c p r OpApprove st = snd (ghApprove c p r st)"
| "ghApply c p r (OpMerge d) st = snd (ghMergeCAS c p r d st)"

lemma ghApply_keeps: "ghKeepsPin (ghPinKey p r) st (ghApply c p r op1 st)"
  by (cases op1) (simp_all add: within_at [OF ghPin.getMR_within] within_at [OF ghPin.snapshot_within]
      within_at [OF ghPin.resolve_within] within_at [OF ghPin.fileAtRef_within] within_at [OF ghPin.fileAtBase_within]
      within_at [OF ghPin.fileAtHead_within] within_at [OF ghPin.listBotThreads_within] within_at [OF ghPin.listBotNotes_within]
      within_at [OF ghPin.currentHeads_within] within_at [OF ghPin.createThread_within] within_at [OF ghPin.resolveThread_within]
      within_at [OF ghPin.upsertComment_within] within_at [OF ghPin.approve_within] within_at [OF ghPin.mergeCAS_within])

lemma ghApplies_keep: "hs_pin st = Some (ghPinKey p r, i) \<Longrightarrow> hs_pin (fold (ghApply c p r) ops st) = Some (ghPinKey p r, i)"
proof (induction ops arbitrary: st)
  case (Cons op1 ops)
  have "hs_pin (ghApply c p r op1 st) = Some (ghPinKey p r, i)"
    using ghApply_keeps [of p r st c op1] Cons.prems by (simp add: ghKeepsPin_def)
  then show ?case by (simp add: Cons.IH)
qed simp

lemma nat_digits_Nil: "nat_digits n \<noteq> ''''"
  by (subst nat_digits.simps) simp

lemma ghGetMR_pins:
  assumes "ghGetMR c p r st = (Inr info, st1)" "hs_pin st = None"
  shows "hs_pin st1 = Some (ghPinKey p r, info) \<and> md_iid info \<noteq> ''''"
proof -
  obtain repo pr s2 where f: "freshPR c repo r st = (Inr pr, s2)" "mrInfoFromPR repo pr = Inr info" "st1 = ghWritePin p r info s2"
    using assms(1) by (auto simp: ghGetMR_def repoOf_def bindA_Inr_iff)
  obtain d s1 where d: "ghDo c MethodGet (''/repos/'' @ repo @ ''/pulls/'' @ r) None '''' st = (d, s1)"
    by (cases "ghDo c MethodGet (''/repos/'' @ repo @ ''/pulls/'' @ r) None '''' st")
  have "hs_pin s1 = None"
    using ghDo_pin [of st c MethodGet "''/repos/'' @ repo @ ''/pulls/'' @ r" None "''''"] assms(2)
    unfolding d samePin_def by simp
  moreover have "hs_pin s2 = hs_pin s1"
    using f(1) d by (auto simp: freshPR_def bindA_def errA_def split: sum.splits prod.splits if_splits option.splits)
  moreover have "md_iid info \<noteq> ''''"
    using f(2) nat_digits_Nil by (auto simp: mrInfoFromPR_def itoa_def split: if_splits option.splits)
  ultimately show ?thesis using f(3) by (simp add: ghWritePin_def)
qed

text \<open>
  once the first read of a pull request has answered, every later read of its policy is at the
  commits of that first read, whatever operations ran in between and however often the branches moved;
  a fork without a source is refused.
\<close>

theorem github_pin_holds:
  "case ghGetMR c p r (st\<lparr>hs_pin := None\<rparr>) of
     (Inl e, st1) \<Rightarrow> True
   | (Inr info, st1) \<Rightarrow> (let st2 = fold (ghApply c p r) ops st1
       in ghFileAtBase c p r f st2 = contentRead c (md_project info) f (md_target info) st2
        \<and> ghFileAtHead c p r f st2 = (if md_fork info \<and> md_sourceProject info \<in> {'''', ''0''}
            then (Inl (http_error.Refused (''fork PR '' @ p @ ''#'' @ r @ '' has no source repository'')), st2)
            else contentRead c (md_project info) f (md_source info) st2))"
proof (cases "ghGetMR c p r (st\<lparr>hs_pin := None\<rparr>)")
  case (Pair z st1)
  show ?thesis
  proof (cases z)
    case (Inl e)
    then show ?thesis using Pair by simp
  next
    case (Inr info)
    let ?st2 = "fold (ghApply c p r) ops st1"
    have k: "hs_pin st1 = Some (ghPinKey p r, info)" "md_iid info \<noteq> ''''"
      using ghGetMR_pins [OF Pair [unfolded Inr]] by simp_all
    have "ghMrPinned c p r ?st2 = (Inr info, ?st2)"
      using ghApplies_keep [OF k(1), of c ops] k(2) by (simp add: ghMrPinned_def)
    then show ?thesis
      by (auto simp: Pair Inr Let_def ghFileAtBase_def ghFileAtHead_def bindA_def errA_def)
  qed
qed

subsection \<open>Absent files\<close>

abbreviation notAbsent :: "http_error \<Rightarrow> bool" where
  "notAbsent e \<equiv> (\<forall>a b. rootError e \<noteq> FileAbsent a b)"

lemma bearer_error: "bearer c st = (Inl e, st1) \<Longrightarrow> notAbsent e"
proof -
  have "mintedToken c resp st = (Inl e, st1) \<Longrightarrow> notAbsent e" for resp st e st1
    by (auto simp: mintedToken_def split: sum.splits option.splits if_splits prod.splits)
  moreover have "appJWT k a now = Inl e \<Longrightarrow> notAbsent e" for k a now e
    by (auto simp: appJWT_def rsaKeyOf_def Let_def bind_res_def split: sum.splits option.splits)
  ultimately have "installationToken c a st = (Inl e, st1) \<Longrightarrow> notAbsent e" for a
    by (auto simp: installationToken_def split: sum.splits option.splits if_splits prod.splits)
  then show "bearer c st = (Inl e, st1) \<Longrightarrow> notAbsent e"
    by (auto simp: bearer_def okA_def errA_def split: option.splits if_splits)
qed

lemma ghDo_error: "ghDo c mth path body ct st = (Inl e, st1) \<Longrightarrow> notAbsent e"
proof -
  assume d: "ghDo c mth path body ct st = (Inl e, st1)"
  have once: "snd (fst (ghDoOnce c mth path body ct t)) = Inl e \<Longrightarrow> notAbsent e" for t e
    by (auto simp: ghDoOnce_def sendOnce_def answerOf_def dest!: bearer_error split: option.splits prod.splits sum.splits if_splits)
  let ?loop = "attemptLoop (ghNet c) (gh_retry c) (ghDoOnce c mth path body ct) (ContextDone mth path)
    (attemptsFor (gh_retry c) mth body) 1 st"
  have "snd (fst ?loop) = Inl e"
    using d by (auto simp: ghDo_def outcome_def split: prod.splits sum.splits)
  with attemptLoop_from [of "ghNet c" "gh_retry c" "ghDoOnce c mth path body ct" "ContextDone mth path"
      "attemptsFor (gh_retry c) mth body" 1 st]
  consider (once) t where "snd (fst (ghDoOnce c mth path body ct t)) = Inl e" | (ended) x where "e = ContextDone mth path x"
    by (elim disjE exE) (simp, simp, blast)
  then show "notAbsent e" by cases (simp_all add: once)
qed

lemma ghContentOf_error: "ghContentOf raw = Inl e \<Longrightarrow> notAbsent e"
  by (auto simp: ghContentOf_def split: option.splits if_splits)

lemma contentScope_granted:
  assumes "contentScopeOK c repo ref st = (Inr u, st1)"
  shows "hs_scopeOK st1 (repo @ ''@'' @ ref) = Some True
    \<and> (hs_scopeOK st (repo @ ''@'' @ ref) = Some True
       \<or> (\<exists>raw s. ghDo c MethodGet (''/repos/'' @ repo @ ''/contents?ref='' @ QueryEscape ref) None '''' st = (Inr (200, raw), s)))"
proof (cases "hs_scopeOK st (repo @ ''@'' @ ref) = Some True")
  case True
  then show ?thesis using assms by (simp add: contentScopeOK_def)
next
  case False
  obtain d s where d: "ghDo c MethodGet (''/repos/'' @ repo @ ''/contents?ref='' @ QueryEscape ref) None '''' st = (d, s)"
    by (cases "ghDo c MethodGet (''/repos/'' @ repo @ ''/contents?ref='' @ QueryEscape ref) None '''' st")
  from assms False d show ?thesis
    by (cases d) (auto simp: contentScopeOK_def bindA_def wrapA_def Let_def split: if_splits)
qed

lemma contentScope_error: "contentScopeOK c repo ref st = (Inl e, st1) \<Longrightarrow> notAbsent e"
  by (auto simp: contentScopeOK_def bindA_def wrapA_def Let_def dest!: ghDo_error split: if_splits prod.splits sum.splits)

text \<open>
  a file is reported absent only where the file itself answered 404 and the content scope was proved
  at that repository and commit: by this read, whose probe of the same commit answered 200, or by an
  earlier one of the run. A refused probe is never absence.
\<close>

theorem github_absent_only_in_scope:
  "case contentRead c repo path ref st of (Inr bytes, st') \<Rightarrow> True
   | (Inl e, st') \<Rightarrow>
       (\<forall>a b. rootError e \<noteq> FileAbsent a b)
       \<or> (e = FileAbsent path ref
          \<and> (\<exists>st1 raw. ghDo c MethodGet (''/repos/'' @ repo @ ''/contents/'' @ PathEscape path @ ''?ref='' @ QueryEscape ref) None '''' st1
                = (Inr (404, raw), st'))
          \<and> (hs_scopeOK st (repo @ ''@'' @ ref) = Some True
             \<or> (\<exists>raw s. ghDo c MethodGet (''/repos/'' @ repo @ ''/contents?ref='' @ QueryEscape ref) None '''' st = (Inr (200, raw), s))))"
proof -
  let ?path = "''/repos/'' @ repo @ ''/contents/'' @ PathEscape path @ ''?ref='' @ QueryEscape ref"
  obtain u st1 where u: "contentScopeOK c repo ref st = (u, st1)" by (cases "contentScopeOK c repo ref st")
  show ?thesis
  proof (cases u)
    case (Inl e)
    then show ?thesis using contentScope_error [of c repo ref st e st1] u by (simp add: contentRead_def bindA_def)
  next
    case (Inr x)
    note scope = contentScope_granted [OF u [unfolded Inr]]
    obtain d st2 where d: "ghDo c MethodGet ?path None '''' st1 = (d, st2)" by (cases "ghDo c MethodGet ?path None '''' st1")
    show ?thesis
    proof (cases d)
      case (Inl e)
      then show ?thesis using ghDo_error [OF d [unfolded Inl]] u Inr d by (simp add: contentRead_def bindA_def)
    next
      case d2: (Inr a)
      obtain status raw where a: "a = (status, raw)" by (cases a)
      have c: "contentRead c repo path ref st =
         (if status = 200 then liftA (\<lambda>e. e) (ghContentOf raw)
          else if status = 404 then errA (FileAbsent path ref)
          else if status = 401 \<or> status = 403 then errA (Unauthorized (''file '' @ path @ '' at '' @ ref) status)
          else errA (BadStatus (''get file '' @ path @ '' at '' @ ref) status)) st2"
        using u Inr d d2 a by (simp add: contentRead_def bindA_def)
      show ?thesis
      proof (cases "status = 404")
        case True
        then have "contentRead c repo path ref st = (Inl (FileAbsent path ref), st2)" using c by (simp add: errA_def)
        moreover have "ghDo c MethodGet ?path None '''' st1 = (Inr (404, raw), st2)" using d d2 a True by simp
        ultimately show ?thesis using scope by auto
      next
        case False
        then show ?thesis unfolding c using ghContentOf_error [of raw]
          by (cases "ghContentOf raw") (auto simp: errA_def okA_def liftA_def)
      qed
    qed
  qed
qed

subsection \<open>The changed files\<close>

lemma changedFilesVerdict_complete:
  "fst (changedFilesVerdict n reported terminated) \<longleftrightarrow> terminated \<and> reported = Some n \<and> n < 3000"
  "fst (changedFilesVerdict n reported terminated) \<longleftrightarrow> snd (changedFilesVerdict n reported terminated) = ''''"
  by (auto simp: changedFilesVerdict_def pullFilesCap_def split: option.split)

text \<open>
  the changed files of a pull request are reported complete exactly when the pages read are an
  enumeration within the page ceiling and the count of the last read of the pull request is their
  number of rows, below the cap of the endpoint; the paths are then the new and old names of all
  rows, each once. When they are not complete a gap is named.
\<close>

theorem github_files_complete:
  "case ghChangedFiles c p r st of (Inl e, st') \<Rightarrow> True
   | (Inr cf, st') \<Rightarrow>
       (hf_complete cf \<longleftrightarrow> hf_gap cf = '''')
       \<and> (\<exists>repo. repoParts p = Inr repo
          \<and> (hf_complete cf \<longleftrightarrow> (\<exists>pages. enumerated (ghFilesPage c p repo r) 1 st pages st'
             \<and> hs_changedFiles st' = Some (int (length (concat pages))) \<and> length (concat pages) < 3000
             \<and> distinct (hf_paths cf)
             \<and> set (hf_paths cf) = (\<Union>d \<in> set (concat pages). {fst d, snd d}) - {''''})))"
proof (cases "repoParts p")
  case (Inl e)
  then show ?thesis by (simp add: ghChangedFiles_def repoOf_def bindA_def errA_def)
next
  case (Inr repo)
  let ?fetch = "ghFilesPage c p repo r"
  obtain x st1 where g: "gather ?fetch 1 st = (x, st1)" by (cases "gather ?fetch 1 st")
  show ?thesis
  proof (cases x)
    case (Inl e)
    then show ?thesis using Inr g by (simp add: ghChangedFiles_def repoOf_def bindA_def okA_def)
  next
    case x: (Inr a)
    obtain rows terminated where a: "a = (rows, terminated)" by (cases a)
    let ?v = "changedFilesVerdict (int (length rows)) (hs_changedFiles st1) terminated"
    have res: "ghChangedFiles c p r st = (Inr \<lparr>hf_paths = dedup (concat (map filePaths rows)), hf_complete = fst ?v, hf_gap = snd ?v\<rparr>, st1)"
      using Inr g x a by (simp add: ghChangedFiles_def repoOf_def bindA_def okA_def split: prod.split)
    have paths: "set (concat (map filePaths rows)) = (\<Union>d \<in> set rows. {fst d, snd d}) - {''''}" for rows
      by (auto simp: filePaths_def split: if_splits)
    have one: "terminated \<and> rows = concat pages" if "enumerated ?fetch 1 st pages st1" for pages
      using enumerated_gather [OF that] g x a by simp
    have some: "\<exists>pages. enumerated ?fetch 1 st pages st1 \<and> rows = concat pages" if terminated
      using gather_enumerated [of ?fetch 1 st rows st1] g x a that by simp
    have complete: "fst ?v \<longleftrightarrow> (\<exists>pages. enumerated ?fetch 1 st pages st1
        \<and> hs_changedFiles st1 = Some (int (length (concat pages))) \<and> length (concat pages) < 3000
        \<and> distinct (dedup (concat (map filePaths rows)))
        \<and> set (dedup (concat (map filePaths rows))) = (\<Union>d \<in> set (concat pages). {fst d, snd d}) - {''''})" (is "_ \<longleftrightarrow> ?Q")
    proof
      assume "fst ?v"
      then have t: "terminated" "hs_changedFiles st1 = Some (int (length rows))" "length rows < 3000"
        by (simp_all add: changedFilesVerdict_complete)
      obtain pages where "enumerated ?fetch 1 st pages st1" "rows = concat pages" using some [OF t(1)] by blast
      then show ?Q using t(2,3) paths [of rows] by (intro exI [of _ pages]) simp
    next
      assume ?Q
      then obtain pages where "enumerated ?fetch 1 st pages st1"
        "hs_changedFiles st1 = Some (int (length (concat pages)))" "length (concat pages) < 3000" by blast
      then show "fst ?v" using one by (simp add: changedFilesVerdict_complete)
    qed
    show ?thesis
      unfolding res prod.case sum.case changedFiles.simps
      by (intro conjI exI [of _ repo] changedFilesVerdict_complete(2) Inr complete)
  qed
qed

subsection \<open>The review chain\<close>

lemma latestStates_snoc:
  "latestStates (reviews @ [rv]) = (if rv_login rv = '''' then latestStates reviews else (latestStates reviews)(rv_login rv \<mapsto> rv_state rv))"
  by (simp add: latestStates_def)

lemma latestStates_spec:
  "latestStates reviews login = Some s \<longleftrightarrow> login \<noteq> '''' \<and>
     (\<exists>xs rv ys. reviews = xs @ rv # ys \<and> rv_login rv = login \<and> rv_state rv = s \<and> (\<forall>y \<in> set ys. rv_login y \<noteq> login))"
proof (induction reviews rule: rev_induct)
  case Nil
  then show ?case by (simp add: latestStates_def)
next
  case (snoc r reviews)
  let ?P = "\<lambda>l. \<exists>xs rv ys. l = xs @ rv # ys \<and> rv_login rv = login \<and> rv_state rv = s \<and> (\<forall>y \<in> set ys. rv_login y \<noteq> login)"
  show ?case
  proof (cases "rv_login r = login")
    case True
    have "?P (reviews @ [r]) \<longleftrightarrow> rv_state r = s"
    proof
      assume "?P (reviews @ [r])"
      then obtain xs rv ys where d: "reviews @ [r] = xs @ rv # ys" "rv_state rv = s" "\<forall>y \<in> set ys. rv_login y \<noteq> login" by blast
      have "ys = []" using d True by (cases ys rule: rev_cases) auto
      then show "rv_state r = s" using d by simp
    next
      assume "rv_state r = s"
      then show "?P (reviews @ [r])" using True by (intro exI [of _ reviews] exI [of _ r] exI [of _ "[]"]) simp
    qed
    then show ?thesis using True snoc.IH by (auto simp: latestStates_snoc)
  next
    case False
    have "?P (reviews @ [r]) \<longleftrightarrow> ?P reviews"
    proof
      assume "?P (reviews @ [r])"
      then obtain xs rv ys where d: "reviews @ [r] = xs @ rv # ys" "rv_login rv = login" "rv_state rv = s"
        "\<forall>y \<in> set ys. rv_login y \<noteq> login" by blast
      obtain zs z where "ys = zs @ [z]" using d False by (cases ys rule: rev_cases) auto
      then show "?P reviews" using d by (intro exI [of _ xs] exI [of _ rv] exI [of _ zs]) simp
    next
      assume "?P reviews"
      then obtain xs rv ys where d: "reviews = xs @ rv # ys" "rv_login rv = login" "rv_state rv = s"
        "\<forall>y \<in> set ys. rv_login y \<noteq> login" by blast
      show "?P (reviews @ [r])"
        by (rule exI [of _ xs], rule exI [of _ rv], rule exI [of _ "ys @ [r]"]) (use d False in simp)
    qed
    then show ?thesis using False snoc.IH by (simp add: latestStates_snoc)
  qed
qed

text \<open>
  the approvals of a review chain are, sorted and each once, exactly the logins whose last review is an
  approval, so that a later request for changes or a dismissal takes an approval back, and of those
  neither the author nor the bot nor an app.
\<close>

theorem github_latest_approvals:
  "sorted (latestNonDismissedApprovals reviews author botName) \<and> distinct (latestNonDismissedApprovals reviews author botName)
   \<and> (login \<in> set (latestNonDismissedApprovals reviews author botName) \<longleftrightarrow>
        login \<notin> {'''', author, botName} \<and> \<not> isBotLogin login
        \<and> (\<exists>xs rv ys. reviews = xs @ rv # ys \<and> rv_login rv = login \<and> rv_state rv = ''APPROVED''
             \<and> list_all (\<lambda>y. rv_login y \<noteq> login) ys))"
proof -
  let ?last = "\<exists>xs rv ys. reviews = xs @ rv # ys \<and> rv_login rv = login \<and> rv_state rv = ''APPROVED''
             \<and> list_all (\<lambda>y. rv_login y \<noteq> login) ys"
  have last: "latestStates reviews login = Some ''APPROVED'' \<longleftrightarrow> login \<noteq> '''' \<and> ?last"
    unfolding list_all_iff by (rule latestStates_spec)
  have seen: "login \<in> rv_login ` set reviews" if ?last
  proof -
    from that obtain xs rv ys where "reviews = xs @ rv # ys" "rv_login rv = login" by blast
    then show ?thesis by auto
  qed
  have "login \<in> set (latestNonDismissedApprovals reviews author botName) \<longleftrightarrow>
      login \<in> rv_login ` set reviews \<and> latestStates reviews login = Some ''APPROVED''
        \<and> \<not> (author \<noteq> '''' \<and> login = author) \<and> \<not> (botName \<noteq> '''' \<and> login = botName) \<and> \<not> isBotLogin login"
    by (simp only: latestNonDismissedApprovals_def set_sort set_filter set_dedup mem_Collect_eq set_map)
  also have "\<dots> \<longleftrightarrow> login \<notin> {'''', author, botName} \<and> \<not> isBotLogin login \<and> ?last"
    unfolding last using seen by blast
  finally show ?thesis by (simp add: latestNonDismissedApprovals_def)
qed

text \<open>
  the resolver reads the review chain, or fails, and never hands out evidence: its answer is a gap,
  which satisfies no review obligation.
\<close>

theorem github_never_evidence:
  "case ghResolve c req st of (Inl e, st') \<Rightarrow> True
   | (Inr res, st') \<Rightarrow> WellFormed res \<and> \<not> fst (approvalSatisfies (rs_evidence res) sha author)
       \<and> (\<exists>reviews st1. listReviews c (rr_project req) (rr_mr req) st1 = (Inr reviews, st'))"
proof (cases "ghResolve c req st")
  case (Pair z st')
  show ?thesis
  proof (cases z)
    case (Inl e)
    then show ?thesis using Pair by simp
  next
    case (Inr res)
    obtain author st1 where "reviewChainApprovals c (rr_project req) (rr_mr req) author st1 = (Inr (latestNonDismissedApprovals [] '''' ''''), st')
        \<or> (\<exists>l. reviewChainApprovals c (rr_project req) (rr_mr req) author st1 = (Inr l, st'))"
      and g: "\<exists>k. res = ResolveWithGap k"
      using Pair unfolding Inr ghResolve_def by (clarsimp simp: bindA_Inr_iff) blast
    then obtain reviews where "listReviews c (rr_project req) (rr_mr req) st1 = (Inr reviews, st')"
      by (auto simp: reviewChainApprovals_def bindA_Inr_iff)
    moreover have "WellFormed res \<and> \<not> fst (approvalSatisfies (rs_evidence res) sha author')" for author'
      using g by (auto simp: ResolveWithGap_def WellFormed_def approvalSatisfies_def)
    ultimately show ?thesis using Pair Inr by auto
  qed
qed

subsection \<open>The bytes of a file\<close>

lemma stdChar_code:
  "n < 64 \<Longrightarrow> (of_char (stdChar n) :: nat) \<in> {43, 47} \<union> {48..57} \<union> {65..90} \<union> {97..122}"
  by (auto simp: sextet_def)

lemma stdEncode_chars:
  "ch \<in> set (stdEncode s) \<Longrightarrow> (of_char ch :: nat) \<in> {43, 47, 61} \<union> {48..57} \<union> {65..90} \<union> {97..122}"
proof -
  have "\<forall>ch \<in> set (encodeBase64 stdChar ''='' s). (of_char ch :: nat) \<in> {43, 47, 61} \<union> {48..57} \<union> {65..90} \<union> {97..122}"
  proof (induction s rule: encodeBase64.induct [of "\<lambda>f pad s. \<forall>ch \<in> set (encodeBase64 stdChar ''='' s).
      (of_char ch :: nat) \<in> {43, 47, 61} \<union> {48..57} \<union> {65..90} \<union> {97..122}"])
    case (2 f pad a)
    show ?case using stdChar_code [OF byte_bounds(1) [of a]] stdChar_code [OF byte_bounds(2) [of a]] by auto
  next
    case (3 f pad a b)
    show ?case using stdChar_code [OF byte_bounds(1) [of a]] stdChar_code [OF byte_bounds(3) [of a b]]
        stdChar_code [OF byte_bounds(4) [of b]] by auto
  next
    case (4 f pad a b c s)
    show ?case using stdChar_code [OF byte_bounds(1) [of a]] stdChar_code [OF byte_bounds(3) [of a b]]
        stdChar_code [OF byte_bounds(5) [of b c]] stdChar_code [OF byte_bounds(6) [of c]] 4 by auto
  qed simp
  then show "ch \<in> set (stdEncode s) \<Longrightarrow> (of_char ch :: nat) \<in> {43, 47, 61} \<union> {48..57} \<union> {65..90} \<union> {97..122}"
    by (simp add: stdEncode_def)
qed

lemma ascii_valid: "\<forall>ch \<in> set s. (of_char ch :: nat) < 128 \<Longrightarrow> validUtf8 s"
  by (induction s) (simp_all add: validUtf8.simps(2))

text \<open>
  whatever the bytes of a file, the answer that carries them in base64 is read back as those bytes.
\<close>

theorem github_content_roundtrip:
  "ghContentOf (jsonOf (JsObj [(''content'', JsStr (stdEncode bytes)), (''encoding'', JsStr ''base64'')])) = Inr bytes"
proof -
  let ?ms = "[(''content'', JsStr (stdEncode bytes)), (''encoding'', JsStr ''base64'')]"
  have valid: "validUtf8 (stdEncode bytes)"
    by (rule ascii_valid) (use stdEncode_chars in fastforce)
  have parse: "parseJson (jsonOf (JsObj ?ms)) = Some (JsObj ?ms)"
    by (rule parseJson_jsonOf) (simp add: valid maxNestingDepth_def validUtf8.simps(2))
  have "ch \<noteq> CHR 0x0A \<and> ch \<noteq> CHR 0x0D" if "ch \<in> set (stdEncode bytes)" for ch
    using stdEncode_chars [OF that] by auto
  then have keep: "filter (\<lambda>ch. ch \<noteq> CHR 0x0A \<and> ch \<noteq> CHR 0x0D) (stdEncode bytes) = stdEncode bytes"
    by (simp add: filter_id_conv)
  have "decodeStruct decodeContent (jsonOf (JsObj ?ms))
      = Some \<lparr>gc_content = stdEncode bytes, gc_encoding = ''base64'', gc_truncated = False\<rparr>"
    unfolding decodeStruct_def parse
    by (simp add: structOf_def decodeContent_def stringField_def boolField_def intField_def valuesOf_def
        foldRunes_ascii foldRune_def)
  then show ?thesis by (simp only: ghContentOf_def option.case ghContent.simps keep stdDecode_stdEncode refl if_True) simp
qed

subsection \<open>The pinned source\<close>

text \<open>
  The guard on a pull request looks at the commit of its head, the pin takes the object's own: an
  answer with the first and without the second is pinned to no commit.
\<close>

theorem github_pins_unguarded_sha:
  "\<exists>pr info. be_sha (pr_head pr) = ''abc'' \<and> mrInfoFromPR repo pr = Inr info \<and> md_source info = ''''"
  by (intro exI [of _ "\<lparr>pr_number = 1, pr_sha = '''', pr_nodeID = '''', pr_labels = [], pr_changedFiles = None,
      pr_base = \<lparr>be_ref = ''main'', be_sha = ''b'', be_repo = Some ''o/r''\<rparr>,
      pr_head = \<lparr>be_ref = ''f'', be_sha = ''abc'', be_repo = Some ''o/r''\<rparr>, pr_login = '''', pr_mergeableState = ''''\<rparr>"])
    (simp add: mrInfoFromPR_def)

end
