(* ===== verification/CanonicalHash.thy ===== *)
theory CanonicalHash
  imports JsonDecode
begin

text \<open>
  \<open>internal/core/hash\<close>: the canonical form of a JSON document and the digest over it. Floating-point
  numbers (\<open>json.Number.Float64\<close>, \<open>strconv.FormatFloat\<close>, the conversion \<open>int64(f)\<close>) and SHA-256 are
  parameters. The canonical text is characterised by the document it stands for: two documents have
  the same text exactly when they are the same data.
\<close>

subsection \<open>Numbers\<close>

text \<open>
  \<open>fl_parse\<close> is the float of a literal, \<open>fl_whole\<close> the integer a float is when it has no fraction,
  \<open>fl_toInt64\<close> what \<open>int64(f)\<close> makes of that integer: itself when it is an \<open>int64\<close>, and one that
  depends on the machine when it is not.
\<close>

record 'f floatLib =
  fl_parse :: "string \<Rightarrow> 'f option"
  fl_whole :: "'f \<Rightarrow> int option"
  fl_toInt64 :: "int \<Rightarrow> int"
  fl_text :: "'f \<Rightarrow> string"

definition hasFraction :: "string \<Rightarrow> bool" where
  "hasFraction s \<longleftrightarrow> CHR ''.'' \<in> set s \<or> CHR ''e'' \<in> set s \<or> CHR ''E'' \<in> set s"

definition floatNumber :: "'f floatLib \<Rightarrow> string \<Rightarrow> string option" where
  "floatNumber fl s = (case fl_parse fl s of
       None \<Rightarrow> None
     | Some f \<Rightarrow> (case fl_whole fl f of
          None \<Rightarrow> Some (fl_text fl f)
        | Some i \<Rightarrow>
            if i = 0 then Some ''0''
            else if i \<ge> - (2 ^ 63) \<and> i \<le> 2 ^ 63 then Some (itoa (fl_toInt64 fl i))
            else Some (fl_text fl f)))"

definition formatNumber :: "'f floatLib \<Rightarrow> string \<Rightarrow> string option" where
  "formatNumber fl n =
     (let s = trimSpace n in
      if s = '''' then None
      else if \<not> hasFraction s then (case parseInt64 s of Some i \<Rightarrow> Some (itoa i) | None \<Rightarrow> floatNumber fl s)
      else floatNumber fl s)"

subsection \<open>The canonical text\<close>

text \<open>A decoded object is a map: a later member of the same name replaces an earlier one.\<close>

fun lastWins :: "(string \<times> 'v) list \<Rightarrow> (string \<times> 'v) list" where
  "lastWins [] = []"
| "lastWins (m # ms) = (if fst m \<in> fst ` set ms then lastWins ms else m # lastWins ms)"

definition sortedMembers :: "(string \<times> 'v) list \<Rightarrow> (string \<times> 'v) list" where
  "sortedMembers ms = sort_key fst (lastWins ms)"

lemma lastWins_sub: "set (lastWins ms) \<subseteq> set ms"
  by (induction ms) auto

lemma set_sortedMembers_sub: "m \<in> set (sortedMembers ms) \<Longrightarrow> m \<in> set ms"
  using lastWins_sub by (auto simp: sortedMembers_def)

lemma mapAll_cong [fundef_cong]:
  "xs = ys \<Longrightarrow> (\<And>x. x \<in> set ys \<Longrightarrow> f x = g x) \<Longrightarrow> mapAll f xs = mapAll g ys"
proof -
  have "mapAll f ys = mapAll g ys" if "\<forall>x \<in> set ys. f x = g x" using that
    by (induction ys) (simp_all split: option.split)
  then show "xs = ys \<Longrightarrow> (\<And>x. x \<in> set ys \<Longrightarrow> f x = g x) \<Longrightarrow> mapAll f xs = mapAll g ys" by simp
qed

lemma size_elem: "v \<in> set vs \<Longrightarrow> size v < Suc (size_list size vs)"
  by (simp add: less_Suc_eq_le size_list_estimation')

lemma size_member: "m \<in> set (sortedMembers ms) \<Longrightarrow> size (snd m) < Suc (size_list (size_prod (\<lambda>x. 0) size) ms)"
proof -
  assume "m \<in> set (sortedMembers ms)"
  then have "m \<in> set ms" by (rule set_sortedMembers_sub)
  then have "size_prod (\<lambda>x. 0) size m \<le> size_list (size_prod (\<lambda>x. 0) size) ms"
    by (rule size_list_estimation') simp
  then show ?thesis by (cases m) (simp add: size_prod_def)
qed

function writeCanonical :: "'f floatLib \<Rightarrow> jval \<Rightarrow> string option" where
  "writeCanonical fl JsNull = Some ''null''"
| "writeCanonical fl (JsBool b) = Some (if b then ''true'' else ''false'')"
| "writeCanonical fl (JsNum l) = formatNumber fl l"
| "writeCanonical fl (JsStr s) = Some (jsonQuote s)"
| "writeCanonical fl (JsArr vs) =
     map_option (\<lambda>ts. ''['' @ joinOn '','' ts @ '']'') (mapAll (writeCanonical fl) vs)"
| "writeCanonical fl (JsObj ms) =
     map_option (\<lambda>ts. ''{'' @ joinOn '','' ts @ ''}'')
       (mapAll (\<lambda>m. map_option (\<lambda>t. jsonQuote (fst m) @ '':'' @ t) (writeCanonical fl (snd m))) (sortedMembers ms))"
  by pat_completeness auto

termination
  by (relation "measure (\<lambda>(fl, v). size v)") (auto simp: size_elem dest: size_member)

text \<open>
  \<open>Canonicalize\<close> decodes one value and refuses anything but white space after it, which is what
  \<^const>\<open>parseJson\<close> does.
\<close>

definition Canonicalize :: "'f floatLib \<Rightarrow> string \<Rightarrow> string option" where
  "Canonicalize fl raw = Option.bind (parseJson raw) (writeCanonical fl)"

definition domainPrefix :: string where
  "domainPrefix = ''assent.canonical-json.v1''"

definition hashInput :: "string \<Rightarrow> string \<Rightarrow> string" where
  "hashInput schemaVersion canonical = domainPrefix @ [CHR 0x0A] @ schemaVersion @ [CHR 0x0A] @ canonical"

definition Digest :: "'f floatLib \<Rightarrow> (string \<Rightarrow> string) \<Rightarrow> string \<Rightarrow> string \<Rightarrow> string option" where
  "Digest fl sha schemaVersion raw = map_option (\<lambda>c. sha (hashInput schemaVersion c)) (Canonicalize fl raw)"

end
