(* ===== verification/Compare.thy ===== *)
theory Compare
  imports Decide CanonicalHash
begin

text \<open>
  \<open>internal/compare\<close>: the comparison of two policies over pinned replay bundles. Two results of the
  engine are classified (\<open>classify\<close>), broken down by finding (\<open>collectDeltas\<close>), and judged by the
  promotion gates of a suite (\<open>EvaluateGates\<close>, \<open>RunSuite\<close>), whose outcome is an exit code. Schema
  validation, the decoding of an evaluation input, floats, SHA-256 and the order in which Go ranges
  over a map are parameters.
\<close>

subsection \<open>Kinds, gates, verdicts\<close>

type_synonym kind = string
type_synonym gateID = string

abbreviation KindStricter :: kind where "KindStricter \<equiv> ''stricter-intervention-added''"
abbreviation KindMissed :: kind where "KindMissed \<equiv> ''destructive-or-authorization-intervention-missed''"
abbreviation KindUncovered :: kind where "KindUncovered \<equiv> ''subject-or-obligation-uncovered''"
abbreviation KindNewlyAutoMergeable :: kind where "KindNewlyAutoMergeable \<equiv> ''newly-auto-mergeable''"
abbreviation KindScoreThreshold :: kind where "KindScoreThreshold \<equiv> ''score-threshold-change''"
abbreviation KindExplanationOnly :: kind where "KindExplanationOnly \<equiv> ''explanation-only''"

abbreviation GateZeroMissedDestructive :: gateID where "GateZeroMissedDestructive \<equiv> ''zero-missed-destructive''"
abbreviation GateZeroMissedAuthorization :: gateID where
  "GateZeroMissedAuthorization \<equiv> ''zero-missed-authorization-ownership''"
abbreviation GateNoObligationRemoval :: gateID where "GateNoObligationRemoval \<equiv> ''no-unexpected-obligation-removal''"
abbreviation GateBoundedWidening :: gateID where "GateBoundedWidening \<equiv> ''bounded-auto-merge-widening''"
abbreviation GateAcceptedDeltas :: gateID where "GateAcceptedDeltas \<equiv> ''explicitly-accepted-deltas''"

datatype verdict_pf = VerdictPass | VerdictFail

datatype compare_error =
    Unclassifiable
  | DuplicateDelta
  | MissingIdentity
  | RecordRefused
  | BundleMalformed
  | BundleSchemaRefused
  | InputRefused
  | SuiteMalformed
  | SuiteSchemaRefused
  | UnknownAcceptedCase string
  | MissingBundle string
  | DigestFailed string
  | DigestMismatch string
  | EngineFailed decide_error

subsection \<open>Keys\<close>

definition bar :: string where "bar = ''|''"

definition interventionKey :: "finding \<Rightarrow> string" where
  "interventionKey f = fd_rule f @ bar @ fd_obligation f @ bar @ fd_effect f @ bar @ fd_subject f @ bar @ fd_code f"

definition findingKey :: "bool \<Rightarrow> finding \<Rightarrow> string" where
  "findingKey withMessage f = interventionKey f @ bar @ itoa (fd_points f) @ (if withMessage then bar @ fd_message f else [])"

definition findingKeys :: "finding list \<Rightarrow> bool \<Rightarrow> string list" where
  "findingKeys fs withMessage = sort (map (findingKey withMessage) fs)"

definition interventionKeys :: "finding list \<Rightarrow> string list" where
  "interventionKeys fs = sort (map interventionKey fs)"

definition deltaIdentity :: "finding \<Rightarrow> string" where
  "deltaIdentity f = fd_rule f @ bar @ fd_obligation f @ bar @ fd_subject f"

text \<open>A map from identities: of two findings with one identity the later one is kept.\<close>

definition findingsByIdentity :: "finding list \<Rightarrow> string \<Rightarrow> finding option" where
  "findingsByIdentity fs = map_of (rev (map (\<lambda>f. (deltaIdentity f, f)) fs))"

definition isMissedInterventionEffect :: "effect \<Rightarrow> bool" where
  "isMissedInterventionEffect e \<longleftrightarrow> e = EffectBlock \<or> e = EffectRequireReview"

definition isStricterInterventionEffect :: "effect \<Rightarrow> bool" where
  "isStricterInterventionEffect e \<longleftrightarrow> e = EffectBlock \<or> e = EffectRequireReview \<or> e = EffectChallenge"

subsection \<open>The kind of a case\<close>

definition decisionRank :: "decision \<Rightarrow> nat" where
  "decisionRank d = (case d of APPROVE \<Rightarrow> 0 | REVIEW \<Rightarrow> 1 | BLOCK \<Rightarrow> 2)"

definition decisionWorsened :: "decision \<Rightarrow> decision \<Rightarrow> bool" where
  "decisionWorsened b c \<longleftrightarrow> decisionRank c > decisionRank b"

abbreviation codeUncovered :: string where "codeUncovered \<equiv> ''obligation.uncovered''"

definition uncoveredObligations :: "result \<Rightarrow> string list" where
  "uncoveredObligations r = map fd_obligation (filter (\<lambda>f. fd_code f = codeUncovered \<and> fd_obligation f \<noteq> []) (res_findings r))"

definition isObligationUncovered :: "result \<Rightarrow> result \<Rightarrow> bool" where
  "isObligationUncovered b c \<longleftrightarrow>
     list_ex (\<lambda>obl. obl \<notin> set (uncoveredObligations b) \<and> decisionWorsened (res_decision b) (res_decision c)) (uncoveredObligations c)"

definition detectMissedIntervention :: "result \<Rightarrow> result \<Rightarrow> bool" where
  "detectMissedIntervention b c \<longleftrightarrow>
     (if res_decision c = APPROVE then False
      else list_ex (\<lambda>f. isMissedInterventionEffect (fd_effect f)
             \<and> findingsByIdentity (res_findings c) (deltaIdentity f) = None) (res_findings b))"

definition interventionFindingsByIdentity :: "finding list \<Rightarrow> string \<Rightarrow> finding option" where
  "interventionFindingsByIdentity fs = findingsByIdentity (filter (\<lambda>f. isStricterInterventionEffect (fd_effect f)) fs)"

definition detectStricterInterventionAdded :: "result \<Rightarrow> result \<Rightarrow> bool" where
  "detectStricterInterventionAdded b c \<longleftrightarrow>
     (if res_decision b \<noteq> APPROVE then False
      else list_ex (\<lambda>f. isStricterInterventionEffect (fd_effect f)
             \<and> interventionFindingsByIdentity (res_findings b) (deltaIdentity f) = None) (res_findings c))"

definition isScoreThresholdChange :: "result \<Rightarrow> result \<Rightarrow> bool" where
  "isScoreThresholdChange b c \<longleftrightarrow> res_decision b \<noteq> res_decision c
     \<and> interventionKeys (res_findings b) = interventionKeys (res_findings c)"

definition classifyEqualDecision :: "result \<Rightarrow> result \<Rightarrow> compare_error + kind" where
  "classifyEqualDecision b c =
     (if findingKeys (res_findings b) False \<noteq> findingKeys (res_findings c) False then Inl Unclassifiable
      else if findingKeys (res_findings b) True = findingKeys (res_findings c) True then Inr []
      else Inr KindExplanationOnly)"

definition classify :: "result \<Rightarrow> result \<Rightarrow> compare_error + kind" where
  "classify b c =
     (if res_decision b = res_decision c then classifyEqualDecision b c
      else if detectMissedIntervention b c then Inr KindMissed
      else if isObligationUncovered b c then Inr KindUncovered
      else if res_decision c = APPROVE \<and> res_decision b \<noteq> APPROVE then
        (if interventionKeys (res_findings b) = interventionKeys (res_findings c) then Inr KindScoreThreshold
         else Inr KindNewlyAutoMergeable)
      else if isScoreThresholdChange b c then Inr KindScoreThreshold
      else if detectStricterInterventionAdded b c then Inr KindStricter
      else Inl Unclassifiable)"

end
