(* ===== verification/CompareSuite.thy ===== *)
theory CompareSuite
  imports Compare
begin

text \<open>
  The record of a case, the promotion gates and the suite (\<open>record.go\<close>, \<open>gates.go\<close>, \<open>suite.go\<close>,
  \<open>exit.go\<close> of \<open>internal/compare\<close>, and the report of \<open>cmd/assent/compare.go\<close>).
\<close>

subsection \<open>Deltas\<close>

record outcomeSide =
  os_present :: bool
  os_decision :: decision
  os_effect :: effect
  os_points :: "int option"

record delta =
  dt_kind :: kind
  dt_rule :: string
  dt_subject :: string
  dt_obligation :: string
  dt_baseline :: outcomeSide
  dt_candidate :: outcomeSide

record comparisonRecord =
  cr_baseline :: string
  cr_candidate :: string
  cr_caseID :: string
  cr_deltas :: "delta list"

definition deltaKey :: "delta \<Rightarrow> kind \<times> string \<times> string" where
  "deltaKey d = (dt_kind d, dt_rule d, dt_subject d)"

definition interventionIdentityEqual :: "finding \<Rightarrow> finding \<Rightarrow> bool" where
  "interventionIdentityEqual a b \<longleftrightarrow> fd_rule a = fd_rule b \<and> fd_obligation a = fd_obligation b
     \<and> fd_effect a = fd_effect b \<and> fd_subject a = fd_subject b \<and> fd_code a = fd_code b"

fun classifyIdentityDelta :: "result \<Rightarrow> result \<Rightarrow> finding option \<Rightarrow> finding option \<Rightarrow> kind option" where
  "classifyIdentityDelta b c (Some bf) (Some cf) =
     (if interventionIdentityEqual bf cf then
        (if res_decision b = res_decision c \<and> fd_message bf \<noteq> fd_message cf then Some KindExplanationOnly
         else if res_decision b \<noteq> res_decision c \<and> interventionKeys (res_findings b) = interventionKeys (res_findings c)
           then Some KindScoreThreshold
         else None)
      else None)"
| "classifyIdentityDelta b c (Some bf) None =
     (if isMissedInterventionEffect (fd_effect bf) \<and> res_decision c \<noteq> APPROVE then Some KindMissed
      else if res_decision c = APPROVE \<and> res_decision b \<noteq> APPROVE then Some KindNewlyAutoMergeable
      else None)"
| "classifyIdentityDelta b c None (Some cf) =
     (if fd_code cf = codeUncovered \<and> fd_obligation cf \<notin> set (uncoveredObligations b)
         \<and> decisionWorsened (res_decision b) (res_decision c) then Some KindUncovered
      else if isStricterInterventionEffect (fd_effect cf) \<and> res_decision b = APPROVE then Some KindStricter
      else None)"
| "classifyIdentityDelta b c None None = None"

definition outcomeOf :: "finding option \<Rightarrow> decision \<Rightarrow> outcomeSide" where
  "outcomeOf f d = (case f of
       None \<Rightarrow> \<lparr>os_present = False, os_decision = d, os_effect = [], os_points = None\<rparr>
     | Some f \<Rightarrow> \<lparr>os_present = True, os_decision = d, os_effect = fd_effect f,
          os_points = (if fd_points f \<noteq> 0 then Some (fd_points f) else None)\<rparr>)"

definition firstText :: "string list \<Rightarrow> string" where
  "firstText xs = (case filter (\<lambda>x. x \<noteq> []) xs of [] \<Rightarrow> [] | x # _ \<Rightarrow> x)"

text \<open>A finding without a subject takes one of its obligation, else any finding's, else the bundle's first.\<close>

definition resolveDeltaSubject :: "string \<Rightarrow> finding list \<Rightarrow> finding list \<Rightarrow> string list \<Rightarrow> string" where
  "resolveDeltaSubject obligation bfs cfs subjects =
     (let own = firstText (map fd_subject (filter (\<lambda>f. obligation \<noteq> [] \<and> fd_obligation f = obligation) (bfs @ cfs)));
          any = firstText (map fd_subject (bfs @ cfs))
      in if own \<noteq> [] then own else if any \<noteq> [] then any else case subjects of [] \<Rightarrow> [] | s # _ \<Rightarrow> s)"

definition sideText :: "(finding \<Rightarrow> string) \<Rightarrow> finding option \<Rightarrow> finding option \<Rightarrow> string" where
  "sideText f bf cf = firstText (map f ((case bf of None \<Rightarrow> [] | Some x \<Rightarrow> [x]) @ (case cf of None \<Rightarrow> [] | Some x \<Rightarrow> [x])))"

definition buildDelta :: "kind \<Rightarrow> finding option \<Rightarrow> finding option \<Rightarrow> result \<Rightarrow> result \<Rightarrow> string list \<Rightarrow> delta" where
  "buildDelta k bf cf b c subjects =
     (let subject = sideText fd_subject bf cf; obligation = sideText fd_obligation bf cf
      in \<lparr>dt_kind = k, dt_rule = sideText fd_rule bf cf,
          dt_subject = (if subject = [] then resolveDeltaSubject obligation (res_findings b) (res_findings c) subjects else subject),
          dt_obligation = obligation,
          dt_baseline = outcomeOf bf (res_decision b), dt_candidate = outcomeOf cf (res_decision c)\<rparr>)"

definition deltaAt :: "result \<Rightarrow> result \<Rightarrow> string list \<Rightarrow> string \<Rightarrow> delta option" where
  "deltaAt b c subjects i =
     (let bf = findingsByIdentity (res_findings b) i; cf = findingsByIdentity (res_findings c) i
      in map_option (\<lambda>k. buildDelta k bf cf b c subjects) (classifyIdentityDelta b c bf cf))"

fun insertDeltas :: "(string \<Rightarrow> delta option) \<Rightarrow> string list \<Rightarrow> delta list \<Rightarrow> compare_error + delta list" where
  "insertDeltas at [] acc = Inr acc"
| "insertDeltas at (i # ids) acc = (case at i of
       None \<Rightarrow> insertDeltas at ids acc
     | Some d \<Rightarrow> if deltaKey d \<in> deltaKey ` set acc then Inl DuplicateDelta else insertDeltas at ids (acc @ [d]))"

definition unionIdentityKeys :: "result \<Rightarrow> result \<Rightarrow> string list" where
  "unionIdentityKeys b c = dedup (map deltaIdentity (res_findings b @ res_findings c))"

definition deltaOrder :: "delta \<Rightarrow> string list" where
  "deltaOrder d = [dt_rule d, dt_subject d, dt_kind d]"

text \<open>\<open>order\<close> is the order in which the identities are visited: a range over a map.\<close>

definition collectDeltas :: "(string list \<Rightarrow> string list) \<Rightarrow> result \<Rightarrow> result \<Rightarrow> string list \<Rightarrow> compare_error + delta list" where
  "collectDeltas order b c subjects =
     bind_res (classify b c) (\<lambda>k.
       if k = [] then Inr []
       else bind_res (insertDeltas (deltaAt b c subjects) (order (unionIdentityKeys b c)) []) (\<lambda>ds.
         if ds = [] then Inl Unclassifiable else Inr (sort_key deltaOrder ds)))"

subsection \<open>Parameters\<close>

record 'f compareLibs =
  cl_rt :: cel_runtime
  cl_float :: "'f floatLib"
  cl_sha :: "string \<Rightarrow> string"
  cl_bundleValid :: "jval \<Rightarrow> bool"
  cl_suiteValid :: "jval \<Rightarrow> bool"
  cl_recordValid :: "comparisonRecord \<Rightarrow> bool"
  cl_evalInput :: "jval option \<Rightarrow> evalInput option"
  cl_order :: "string list \<Rightarrow> string list"

subsection \<open>The record of a case\<close>

definition validateDeltaUniqueKeys :: "delta list \<Rightarrow> compare_error option" where
  "validateDeltaUniqueKeys ds = (if distinct (map deltaKey ds) then None else Some DuplicateDelta)"

definition validateRecord :: "'f compareLibs \<Rightarrow> comparisonRecord \<Rightarrow> compare_error option" where
  "validateRecord libs rec = (case validateDeltaUniqueKeys (cr_deltas rec) of
       Some e \<Rightarrow> Some e
     | None \<Rightarrow> if cl_recordValid libs rec then None else Some RecordRefused)"

definition BuildComparisonRecord ::
    "'f compareLibs \<Rightarrow> string \<Rightarrow> string \<Rightarrow> string \<Rightarrow> result \<Rightarrow> result \<Rightarrow> string list \<Rightarrow> compare_error + comparisonRecord" where
  "BuildComparisonRecord libs caseID bName cName b c subjects =
     (if caseID = [] then Inl MissingIdentity
      else if bName = [] \<or> cName = [] then Inl MissingIdentity
      else bind_res (collectDeltas (cl_order libs) b c subjects) (\<lambda>ds.
        let rec = \<lparr>cr_baseline = bName, cr_candidate = cName, cr_caseID = caseID, cr_deltas = ds\<rparr>
        in case validateRecord libs rec of Some e \<Rightarrow> Inl e | None \<Rightarrow> Inr rec))"

subsection \<open>Gates\<close>

record promotionGate =
  pg_gateID :: gateID
  pg_failOnKinds :: "kind list"
  pg_defaultVerdict :: string
  pg_acceptance :: string

record acceptedDelta =
  ad_caseID :: string
  ad_kind :: kind
  ad_rule :: string
  ad_subject :: string
  ad_obligation :: string

record suiteSpec =
  ss_gates :: "promotionGate list"
  ss_accepted :: "acceptedDelta list"

definition matchesAcceptedDelta :: "acceptedDelta \<Rightarrow> string \<Rightarrow> delta \<Rightarrow> bool" where
  "matchesAcceptedDelta ad caseID d \<longleftrightarrow>
     (if ad_caseID ad \<noteq> caseID \<or> ad_kind ad \<noteq> dt_kind d \<or> ad_rule ad \<noteq> dt_rule d \<or> ad_subject ad \<noteq> dt_subject d then False
      else if ad_obligation ad \<noteq> [] then ad_obligation ad = dt_obligation d
      else True)"

definition isAcceptedDelta :: "acceptedDelta list \<Rightarrow> string \<Rightarrow> delta \<Rightarrow> bool" where
  "isAcceptedDelta accepted caseID d \<longleftrightarrow> list_ex (\<lambda>ad. matchesAcceptedDelta ad caseID d) accepted"

definition tripsGate :: "promotionGate \<Rightarrow> acceptedDelta list \<Rightarrow> string \<Rightarrow> delta \<Rightarrow> bool" where
  "tripsGate g accepted caseID d \<longleftrightarrow>
     (if dt_kind d = KindExplanationOnly then False
      else if dt_kind d \<notin> set (pg_failOnKinds g) then False
      else if pg_acceptance g = ''per-delta-identity'' \<and> isAcceptedDelta accepted caseID d then False
      else if pg_defaultVerdict g = ''pass'' then False
      else True)"

definition evaluateGate :: "promotionGate \<Rightarrow> acceptedDelta list \<Rightarrow> comparisonRecord list \<Rightarrow> verdict_pf" where
  "evaluateGate g accepted records =
     (if list_ex (\<lambda>rec. list_ex (tripsGate g accepted (cr_caseID rec)) (cr_deltas rec)) records
      then VerdictFail else VerdictPass)"

record gateEvaluation =
  ge_results :: "gateID \<Rightarrow> verdict_pf option"
  ge_firstFailure :: gateID

fun gateLoop :: "(promotionGate \<Rightarrow> verdict_pf) \<Rightarrow> promotionGate list \<Rightarrow> gateEvaluation \<Rightarrow> gateEvaluation" where
  "gateLoop v [] ev = ev"
| "gateLoop v (g # gs) ev = gateLoop v gs
     \<lparr>ge_results = (ge_results ev)(pg_gateID g \<mapsto> v g),
      ge_firstFailure = (if v g = VerdictFail \<and> ge_firstFailure ev = [] then pg_gateID g else ge_firstFailure ev)\<rparr>"

definition EvaluateGates :: "suiteSpec \<Rightarrow> comparisonRecord list \<Rightarrow> gateEvaluation" where
  "EvaluateGates spec records = gateLoop (\<lambda>g. evaluateGate g (ss_accepted spec) records) (ss_gates spec)
     \<lparr>ge_results = (\<lambda>_. None), ge_firstFailure = []\<rparr>"

definition ExitCodeFailClosed :: int where "ExitCodeFailClosed = 6"

definition ExitCodeForGate :: "gateID \<Rightarrow> int" where
  "ExitCodeForGate g =
     (if g = GateZeroMissedDestructive then 1
      else if g = GateZeroMissedAuthorization then 2
      else if g = GateNoObligationRemoval then 3
      else if g = GateBoundedWidening then 4
      else if g = GateAcceptedDeltas then 5
      else ExitCodeFailClosed)"

definition ExitCodeForSuiteRun :: "gateEvaluation \<Rightarrow> int" where
  "ExitCodeForSuiteRun ev = (if ge_firstFailure ev = [] then 0 else ExitCodeForGate (ge_firstFailure ev))"

subsection \<open>Profiles and bundles\<close>

record compareProfile =
  cp_name :: string
  cp_policy :: "mergePolicy option"
  cp_bind :: "binding option"
  cp_ceiling :: phase
  cp_approval :: "approvalContext option"
  cp_precedence :: "string list"
  cp_profiles :: "profile option list"

text \<open>The request has no subject, class or opacity: their zero values.\<close>

definition evaluate :: "cel_runtime \<Rightarrow> evalInput \<Rightarrow> compareProfile \<Rightarrow> compare_error + result" where
  "evaluate rt i p = (case decide rt
       \<lparr>dr_subject = [], dr_subjectClass = [], dr_opaque = False, dr_policy = cp_policy p, dr_binding = cp_bind p,
        dr_input = Some i, dr_approval = cp_approval p, dr_ceiling = cp_ceiling p, dr_precedence = cp_precedence p,
        dr_profiles = cp_profiles p\<rparr> of
     Inl e \<Rightarrow> Inl (EngineFailed e) | Inr r \<Rightarrow> Inr r)"

definition gateVerdict :: "kind \<Rightarrow> verdict_pf" where
  "gateVerdict k = (if k = KindNewlyAutoMergeable then VerdictFail else VerdictPass)"

record comparison =
  cm_baseline :: decision
  cm_candidate :: decision
  cm_kind :: kind
  cm_gate :: gateID
  cm_verdict :: verdict_pf

definition compareProfiles :: "cel_runtime \<Rightarrow> evalInput option \<Rightarrow> compareProfile \<Rightarrow> compareProfile \<Rightarrow> compare_error + comparison" where
  "compareProfiles rt inp bp cp = (case inp of None \<Rightarrow> Inl InputRefused
     | Some i \<Rightarrow> bind_res (evaluate rt i bp) (\<lambda>b. bind_res (evaluate rt i cp) (\<lambda>c. bind_res (classify b c) (\<lambda>k.
         Inr \<lparr>cm_baseline = res_decision b, cm_candidate = res_decision c, cm_kind = k,
           cm_gate = GateBoundedWidening, cm_verdict = gateVerdict k\<rparr>))))"

text \<open>
  \<open>jsonNumberDoc\<close> reads the first value of the text, \<open>json.Unmarshal\<close> wants nothing after it. A raw
  message is the last value of its member.
\<close>

definition rawField :: "string \<Rightarrow> jobj \<Rightarrow> jval option" where
  "rawField f ms = (case rev (valuesOf f ms) of [] \<Rightarrow> None | v # _ \<Rightarrow> Some v)"

definition validated :: "(jval \<Rightarrow> bool) \<Rightarrow> compare_error \<Rightarrow> compare_error \<Rightarrow> string \<Rightarrow> compare_error + jobj" where
  "validated ok malformed refused raw = (case parseVal maxNestingDepth raw of
       None \<Rightarrow> Inl malformed
     | Some (doc, _) \<Rightarrow>
         if \<not> ok doc then Inl refused
         else (case Option.bind (parseJson raw) structOf of None \<Rightarrow> Inl malformed | Some ms \<Rightarrow> Inr ms))"

definition LoadBundle :: "'f compareLibs \<Rightarrow> string \<Rightarrow> compare_error + evalInput" where
  "LoadBundle libs raw = bind_res (validated (cl_bundleValid libs) BundleMalformed BundleSchemaRefused raw) (\<lambda>ms.
     case cl_evalInput libs (rawField ''evaluationInput'' ms) of None \<Rightarrow> Inl InputRefused | Some i \<Rightarrow> Inr i)"

definition replayBundleSchemaID :: string where
  "replayBundleSchemaID = ''https://assent.dev/schemas/decision/v1alpha1/replay-bundle.schema.json''"

definition ReplayBundleDigest :: "'f compareLibs \<Rightarrow> string \<Rightarrow> string option" where
  "ReplayBundleDigest libs raw = Digest (cl_float libs) (cl_sha libs) replayBundleSchemaID raw"

subsection \<open>The suite document\<close>

record suiteCase =
  sc_caseID :: string
  sc_digest :: string

record comparisonSuite =
  su_baselineRef :: string
  su_candidateRef :: string
  su_cases :: "suiteCase list"
  su_spec :: suiteSpec

definition objects :: "string \<Rightarrow> (jobj \<Rightarrow> 'a option) \<Rightarrow> jobj \<Rightarrow> 'a list option" where
  "objects f dec ms = Option.bind (arrayField f ms) (mapAll (\<lambda>v. Option.bind (structOf v) dec))"

definition decodeCase :: "jobj \<Rightarrow> suiteCase option" where
  "decodeCase ms = Option.bind (stringField ''caseId'' ms) (\<lambda>i. Option.bind (stringField ''replayBundleDigest'' ms) (\<lambda>d.
     Some \<lparr>sc_caseID = i, sc_digest = d\<rparr>))"

definition decodeGate :: "jobj \<Rightarrow> promotionGate option" where
  "decodeGate ms = Option.bind (stringField ''gateId'' ms) (\<lambda>g.
     Option.bind (Option.bind (arrayField ''failOnKinds'' ms) (mapAll stringOf)) (\<lambda>ks.
     Option.bind (stringField ''defaultVerdict'' ms) (\<lambda>v. Option.bind (stringField ''acceptance'' ms) (\<lambda>a.
     Some \<lparr>pg_gateID = g, pg_failOnKinds = ks, pg_defaultVerdict = v, pg_acceptance = a\<rparr>))))"

definition decodeAccepted :: "jobj \<Rightarrow> acceptedDelta option" where
  "decodeAccepted ms = Option.bind (stringField ''caseId'' ms) (\<lambda>i. Option.bind (stringField ''kind'' ms) (\<lambda>k.
     Option.bind (stringField ''rule'' ms) (\<lambda>r. Option.bind (stringField ''subject'' ms) (\<lambda>s.
     Option.bind (stringField ''obligation'' ms) (\<lambda>obl. Option.bind (stringField ''rationale'' ms) (\<lambda>_.
     Some \<lparr>ad_caseID = i, ad_kind = k, ad_rule = r, ad_subject = s, ad_obligation = obl\<rparr>))))))"

definition decodeSuite :: "jobj \<Rightarrow> comparisonSuite option" where
  "decodeSuite doc = Option.bind (structField ''metadata'' doc) (\<lambda>meta.
     Option.bind (stringField ''name'' meta) (\<lambda>_. Option.bind (stringField ''version'' meta) (\<lambda>_.
     Option.bind (structField ''spec'' doc) (\<lambda>ms.
     Option.bind (stringField ''baselineProfile'' ms) (\<lambda>b. Option.bind (stringField ''candidateProfile'' ms) (\<lambda>c.
     Option.bind (objects ''cases'' decodeCase ms) (\<lambda>cs. Option.bind (objects ''promotionGates'' decodeGate ms) (\<lambda>gs.
     Option.bind (objects ''acceptedDeltas'' decodeAccepted ms) (\<lambda>as.
     Some \<lparr>su_baselineRef = b, su_candidateRef = c, su_cases = cs,
       su_spec = \<lparr>ss_gates = gs, ss_accepted = as\<rparr>\<rparr>)))))))))"

definition LoadSuite :: "'f compareLibs \<Rightarrow> string \<Rightarrow> compare_error + comparisonSuite" where
  "LoadSuite libs raw = bind_res (validated (cl_suiteValid libs) SuiteMalformed SuiteSchemaRefused raw) (\<lambda>ms.
     case decodeSuite ms of
       None \<Rightarrow> Inl SuiteMalformed
     | Some su \<Rightarrow> (case filter (\<lambda>ad. ad_caseID ad \<notin> sc_caseID ` set (su_cases su)) (ss_accepted (su_spec su)) of
           ad # _ \<Rightarrow> Inl (UnknownAcceptedCase (ad_caseID ad))
         | [] \<Rightarrow> Inr su))"

subsection \<open>The run of a suite\<close>

definition bundleSubjects :: "evalInput \<Rightarrow> string list" where
  "bundleSubjects i = sort (dedup (filter (\<lambda>s. s \<noteq> []) (map ec_subject (in_changes i))))"

definition runCase ::
    "'f compareLibs \<Rightarrow> (string \<Rightarrow> string option) \<Rightarrow> compareProfile \<Rightarrow> compareProfile \<Rightarrow> suiteCase \<Rightarrow> compare_error + comparisonRecord" where
  "runCase libs bundles bp cp sc = (case bundles (sc_caseID sc) of
       None \<Rightarrow> Inl (MissingBundle (sc_caseID sc))
     | Some raw \<Rightarrow> (case ReplayBundleDigest libs raw of
         None \<Rightarrow> Inl (DigestFailed (sc_caseID sc))
       | Some digest \<Rightarrow>
           if digest \<noteq> sc_digest sc then Inl (DigestMismatch (sc_caseID sc))
           else bind_res (LoadBundle libs raw) (\<lambda>i.
             bind_res (evaluate (cl_rt libs) i bp) (\<lambda>b. bind_res (evaluate (cl_rt libs) i cp) (\<lambda>c.
               BuildComparisonRecord libs (sc_caseID sc) (cp_name bp) (cp_name cp) b c (bundleSubjects i))))))"

fun runCases :: "('c \<Rightarrow> 'e + 'r) \<Rightarrow> 'c list \<Rightarrow> 'e + 'r list" where
  "runCases f [] = Inr []"
| "runCases f (c # cs) = bind_res (f c) (\<lambda>r. bind_res (runCases f cs) (\<lambda>rs. Inr (r # rs)))"

record suiteResult =
  sr_records :: "comparisonRecord list"
  sr_gates :: gateEvaluation

text \<open>
  The records are sorted by case; the schema makes the case ids of a suite distinct, and the sort of the
  model keeps the order of equal ones, which no result below depends on.
\<close>

definition RunSuite ::
    "'f compareLibs \<Rightarrow> comparisonSuite \<Rightarrow> (string \<Rightarrow> string option) \<Rightarrow> compareProfile \<Rightarrow> compareProfile \<Rightarrow> compare_error + suiteResult" where
  "RunSuite libs suite bundles bp cp = bind_res (runCases (runCase libs bundles bp cp) (su_cases suite)) (\<lambda>recs.
     let records = sort_key cr_caseID recs
     in Inr \<lparr>sr_records = records, sr_gates = EvaluateGates (su_spec suite) records\<rparr>)"

text \<open>The exit code of the command: an error of any step is 6.\<close>

definition suiteExit :: "compare_error + suiteResult \<Rightarrow> int" where
  "suiteExit r = (case r of Inl _ \<Rightarrow> ExitCodeFailClosed | Inr res \<Rightarrow> ExitCodeForSuiteRun (sr_gates res))"

definition compareExit :: "compare_error + comparison \<Rightarrow> int" where
  "compareExit r = (case r of Inl _ \<Rightarrow> ExitCodeFailClosed
     | Inr cmp \<Rightarrow> if cm_verdict cmp = VerdictFail then ExitCodeForGate (cm_gate cmp) else 0)"

definition assertProfileRef :: "string \<Rightarrow> string \<Rightarrow> bool" where
  "assertProfileRef ref name \<longleftrightarrow> (if ref = [] then True else name = ref)"

definition verdictText :: "verdict_pf \<Rightarrow> string" where
  "verdictText v = (case v of VerdictPass \<Rightarrow> ''PASS'' | VerdictFail \<Rightarrow> ''FAIL'')"

definition gateOrder :: "gateID list" where
  "gateOrder = [GateZeroMissedDestructive, GateZeroMissedAuthorization, GateNoObligationRemoval,
     GateBoundedWidening, GateAcceptedDeltas]"

definition suiteReport :: "suiteResult \<Rightarrow> string list" where
  "suiteReport res =
     map (\<lambda>rec. ''case '' @ cr_caseID rec @ '': baseline='' @ cr_baseline rec @ '' candidate='' @ cr_candidate rec @ '' delta=''
        @ (case cr_deltas rec of [] \<Rightarrow> ''(no delta)'' | [d] \<Rightarrow> dt_kind d | ds \<Rightarrow> itoa (int (length ds)) @ '' deltas'')) (sr_records res)
     @ map (\<lambda>g. ''gate '' @ g @ ''='' @ verdictText (case ge_results (sr_gates res) g of None \<Rightarrow> VerdictPass | Some v \<Rightarrow> v)) gateOrder
     @ (if ge_firstFailure (sr_gates res) \<noteq> [] then [''first-failure='' @ ge_firstFailure (sr_gates res)] else [])"

end
