(* ===== verification/HashProps.thy ===== *)
theory HashProps
  imports CanonicalHash MarkerScan
begin

text \<open>What the canonical text and the digest over it identify.\<close>

subsection \<open>The data of a document\<close>

text \<open>\<open>nf\<close> is the reading of numbers: two literals with one reading are the same number.\<close>

datatype doc = DNull | DBool bool | DNum string | DStr string | DArr "doc list" | DObj "string \<Rightarrow> doc option"

lemma size_prod_snd: "m \<in> set ms \<Longrightarrow> size (snd m) < Suc (size_list (size_prod (\<lambda>x. 0) size) ms)"
proof -
  assume "m \<in> set ms"
  then have "size_prod (\<lambda>x. 0) size m \<le> size_list (size_prod (\<lambda>x. 0) size) ms"
    by (rule size_list_estimation') simp
  then show ?thesis by (cases m) (simp add: size_prod_def)
qed

function docOf :: "(string \<Rightarrow> string) \<Rightarrow> jval \<Rightarrow> doc" where
  "docOf nf JsNull = DNull"
| "docOf nf (JsBool b) = DBool b"
| "docOf nf (JsNum l) = DNum (nf l)"
| "docOf nf (JsStr s) = DStr s"
| "docOf nf (JsArr vs) = DArr (map (docOf nf) vs)"
| "docOf nf (JsObj ms) = DObj (map_of (rev (map (\<lambda>m. (fst m, docOf nf (snd m))) ms)))"
  by pat_completeness auto

termination
  by (relation "measure (\<lambda>(nf, v). size v)") (auto simp: size_elem dest: size_prod_snd)

function canon :: "(string \<Rightarrow> string) \<Rightarrow> jval \<Rightarrow> jval" where
  "canon nf JsNull = JsNull"
| "canon nf (JsBool b) = JsBool b"
| "canon nf (JsNum l) = JsNum (nf l)"
| "canon nf (JsStr s) = JsStr s"
| "canon nf (JsArr vs) = JsArr (map (canon nf) vs)"
| "canon nf (JsObj ms) = JsObj (map (\<lambda>m. (fst m, canon nf (snd m))) (sortedMembers ms))"
  by pat_completeness auto

termination
  by (relation "measure (\<lambda>(nf, v). size v)") (auto simp: size_elem dest: size_member)

definition numberText :: "'f floatLib \<Rightarrow> string \<Rightarrow> string" where
  "numberText fl l = (case formatNumber fl l of None \<Rightarrow> [] | Some t \<Rightarrow> t)"

lemma mapAll_Some: "mapAll f xs = Some ys \<longleftrightarrow> list_all2 (\<lambda>x y. f x = Some y) xs ys"
  by (induction xs arbitrary: ys) (auto simp: list_all2_Cons1 split: option.splits)

lemma mapAll_map: "mapAll f xs = Some ys \<Longrightarrow> (\<And>x y. x \<in> set xs \<Longrightarrow> f x = Some y \<Longrightarrow> y = g x) \<Longrightarrow> ys = map g xs"
  by (induction xs arbitrary: ys) (auto split: option.splits)

lemma writeCanonical_canon: "writeCanonical fl v = Some t \<Longrightarrow> t = jsonOf (canon (numberText fl) v)"
proof (induction fl v arbitrary: t rule: writeCanonical.induct)
  case (5 fl vs)
  then obtain ts where ts: "mapAll (writeCanonical fl) vs = Some ts" "t = ''['' @ joinOn '','' ts @ '']''" by auto
  have "ts = map (\<lambda>v. jsonOf (canon (numberText fl) v)) vs" by (rule mapAll_map [OF ts(1)]) (rule 5(1))
  then show ?case by (simp add: ts(2) comp_def)
next
  case (6 fl ms)
  then obtain ts where ts: "mapAll (\<lambda>m. map_option (\<lambda>t. jsonQuote (fst m) @ '':'' @ t) (writeCanonical fl (snd m))) (sortedMembers ms) = Some ts"
    "t = ''{'' @ joinOn '','' ts @ ''}''" by auto
  have "ts = map (\<lambda>m. jsonQuote (fst m) @ '':'' @ jsonOf (canon (numberText fl) (snd m))) (sortedMembers ms)"
    by (rule mapAll_map [OF ts(1)]) (auto dest: 6(1))
  then show ?case by (simp add: ts(2) object_def comp_def)
qed (auto simp: numberText_def)

subsection \<open>One text, one document\<close>

lemma distinct_lastWins: "distinct (map fst (lastWins ms))"
  using lastWins_sub by (induction ms) fastforce+

lemma map_of_lastWins: "map_of (lastWins ms) = map_of (rev ms)"
proof (induction ms)
  case (Cons m ms)
  show ?case
  proof (cases "fst m \<in> fst ` set ms")
    case True
    then have "map_of (rev ms) (fst m) \<noteq> None" by (simp add: map_of_eq_None_iff)
    then have "map_of (rev (m # ms)) = map_of (rev ms)"
      by (cases m) (auto simp: map_add_def fun_eq_iff split: option.split)
    then show ?thesis using True Cons by simp
  next
    case False
    then have "map_of (rev ms) (fst m) = None" by (simp add: map_of_eq_None_iff)
    then show ?thesis using False Cons by (cases m) (auto simp: map_add_def fun_eq_iff split: option.split)
  qed
qed simp

lemma sortedMembers_facts:
  "sorted (map fst (sortedMembers ms))" "distinct (map fst (sortedMembers ms))" "map_of (sortedMembers ms) = map_of (rev ms)"
proof -
  show "sorted (map fst (sortedMembers ms))" by (simp add: sortedMembers_def)
  have d: "mset (map fst (sortedMembers ms)) = mset (map fst (lastWins ms))" by (simp add: sortedMembers_def)
  then show dd: "distinct (map fst (sortedMembers ms))" using distinct_lastWins [of ms] mset_eq_imp_distinct_iff by blast
  have "set (sortedMembers ms) = set (lastWins ms)" by (simp add: sortedMembers_def)
  then show "map_of (sortedMembers ms) = map_of (rev ms)"
    using map_of_eqI map_of_lastWins dd distinct_lastWins by (metis map_of_inject_set)
qed

lemma map_of_members: "map_of (map (\<lambda>m. (fst m, f (snd m))) ms) k = map_option f (map_of ms k)"
  by (induction ms) auto

lemma docOf_members:
  "map_of (rev (map (\<lambda>m. (fst m, f (snd m))) ms)) = (\<lambda>k. map_option f (map_of (rev ms) k))"
  by (simp add: rev_map map_of_members fun_eq_iff)

lemma map_of_rev_distinct: "distinct (map fst ms) \<Longrightarrow> map_of (rev ms) = map_of ms"
  by (rule map_of_inject_set [THEN iffD2]) (simp_all add: rev_map [symmetric])

lemma docOf_canon: "docOf (\<lambda>l. l) (canon nf v) = docOf nf v"
proof (induction nf v rule: canon.induct)
  case (6 nf ms)
  have m: "map_of (rev (sortedMembers ms)) = map_of (rev ms)"
    using sortedMembers_facts(2,3) [of ms] by (simp add: map_of_rev_distinct)
  have "map_option (docOf (\<lambda>l. l)) (map_option (canon nf) (map_of (rev ms) k)) = map_option (docOf nf) (map_of (rev ms) k)" for k
  proof (cases "map_of (rev ms) k")
    case (Some v)
    then have "(k, v) \<in> set (sortedMembers ms)" using sortedMembers_facts(3) [of ms] map_of_SomeD by metis
    then show ?thesis using 6 [of "(k, v)"] Some by simp
  qed simp
  then show ?case by (simp only: canon.simps docOf.simps docOf_members m)
qed simp_all

lemma canon_unique: "docOf nf v = docOf nf w \<Longrightarrow> canon nf v = canon nf w"
proof (induction nf v arbitrary: w rule: canon.induct)
  case (5 nf vs)
  then obtain ws where w: "w = JsArr ws" "map (docOf nf) vs = map (docOf nf) ws" by (cases w) auto
  from w(2) 5(1) have "map (canon nf) vs = map (canon nf) ws"
  proof (induction vs arbitrary: ws)
    case (Cons v vs)
    then obtain x xs where "ws = x # xs" by (cases ws) auto
    with Cons show ?case by auto
  qed simp
  then show ?case by (simp add: w)
next
  case (6 nf ms)
  then obtain ns where w: "w = JsObj ns" by (cases w) auto
  have eq: "map_option (docOf nf) (map_of (rev ms) k) = map_option (docOf nf) (map_of (rev ns) k)" for k
    using 6(2) by (simp add: w docOf_members fun_eq_iff)
  have keys: "map fst (sortedMembers ms) = map fst (sortedMembers ns)"
  proof -
    have d: "dom (map_of (rev xs)) = dom (\<lambda>k. map_option (docOf nf) (map_of (rev xs) k))" for xs :: "(string \<times> jval) list"
      by (auto simp: dom_def)
    have "dom (map_of (rev ms)) = dom (map_of (rev ns))" unfolding d eq by simp
    then have "set (map fst (sortedMembers ms)) = set (map fst (sortedMembers ns))"
      by (simp add: sortedMembers_facts(3) [symmetric] dom_map_of_conv_image_fst)
    then show ?thesis by (intro sorted_distinct_set_unique sortedMembers_facts)
  qed
  have "map (\<lambda>m. (fst m, canon nf (snd m))) (sortedMembers ms) = map (\<lambda>m. (fst m, canon nf (snd m))) (sortedMembers ns)"
  proof (rule nth_equalityI)
    show len: "length (map (\<lambda>m. (fst m, canon nf (snd m))) (sortedMembers ms))
        = length (map (\<lambda>m. (fst m, canon nf (snd m))) (sortedMembers ns))"
      using arg_cong [OF keys, of length] by simp
    fix i assume "i < length (map (\<lambda>m. (fst m, canon nf (snd m))) (sortedMembers ms))"
    then have i: "i < length (sortedMembers ms)" "i < length (sortedMembers ns)" using len by simp_all
    obtain k u where u: "sortedMembers ms ! i = (k, u)" by fastforce
    have k: "fst (sortedMembers ns ! i) = k"
      using arg_cong [OF keys, of "\<lambda>xs. xs ! i"] i u by simp
    then obtain x where x: "sortedMembers ns ! i = (k, x)" by (cases "sortedMembers ns ! i") auto
    have "map_of (rev ms) k = Some u" "map_of (rev ns) k = Some x"
      using map_of_is_SomeI [OF sortedMembers_facts(2)] u x i nth_mem sortedMembers_facts(3) by metis+
    then have "docOf nf u = docOf nf x" using eq [of k] by simp
    moreover have "(k, u) \<in> set (sortedMembers ms)" using u i nth_mem by metis
    ultimately have "canon nf u = canon nf x" using 6(1) [of "(k, u)" x] by simp
    then show "map (\<lambda>m. (fst m, canon nf (snd m))) (sortedMembers ms) ! i = map (\<lambda>m. (fst m, canon nf (snd m))) (sortedMembers ns) ! i"
      using i u x by simp
  qed
  then show ?case by (simp add: w)
qed (case_tac [!] w; simp)+

subsection \<open>Numbers read back\<close>

lemma nat_digits_shape:
  "\<exists>c t. nat_digits n = c # t \<and> list_all is_digit (c # t) \<and> (c = CHR ''0'' \<longrightarrow> t = [] \<and> n = 0)"
proof (induction n rule: nat_digits.induct)
  case (1 n)
  show ?case
  proof (cases "n < 10")
    case True
    have "digit_char n = CHR ''0'' \<Longrightarrow> n = 0"
    proof -
      assume "digit_char n = CHR ''0''"
      then have "(of_char (digit_char n) :: nat) = 48" by simp
      then show "n = 0" using of_char_digit [OF True] by simp
    qed
    with True show ?thesis by (simp add: nat_digits.simps [of n])
  next
    case False
    with 1 obtain c t where "nat_digits (n div 10) = c # t" "list_all is_digit (c # t)" "c = CHR ''0'' \<longrightarrow> n div 10 = 0" by auto
    moreover have "n div 10 \<noteq> 0" using False by (simp add: div_eq_0_iff)
    ultimately show ?thesis using False by (simp add: nat_digits.simps [of n])
  qed
qed

lemma dropWhile_digits: "list_all is_digit t \<Longrightarrow> dropWhile is_digit t = []"
  by (simp add: list_all_iff)

lemma itoa_number: "validNumber (itoa i) \<and> list_all numChar (itoa i)"
proof -
  have "validNumber (nat_digits n) \<and> validNumber (''-'' @ nat_digits n) \<and> list_all numChar (nat_digits n)" for n
  proof -
    obtain c t where n: "nat_digits n = c # t" "is_digit c" "list_all is_digit t" "c = CHR ''0'' \<longrightarrow> t = []"
      using nat_digits_shape [of n] by auto
    then have "intPart (nat_digits n) = Some []" by (auto simp: intPart_def dropWhile_digits)
    moreover have "c \<noteq> CHR ''-''" using n(2) by auto
    ultimately show ?thesis using n by (auto simp: validNumber_def fracPart_def expPart_def numChar_def list_all_iff)
  qed
  then show ?thesis by (simp add: itoa_def numChar_def)
qed

text \<open>\<open>FormatFloat\<close> with \<open>'g'\<close> writes a JSON number, for the floats a literal can have.\<close>

definition numberTexts :: "'f floatLib \<Rightarrow> bool" where
  "numberTexts fl \<longleftrightarrow> (\<forall>f. validNumber (fl_text fl f) \<and> list_all numChar (fl_text fl f))"

lemma formatNumber_valid: "numberTexts fl \<Longrightarrow> formatNumber fl l = Some t \<Longrightarrow> validNumber t \<and> list_all numChar t"
proof -
  assume fl: "numberTexts fl"
  have zero: "validNumber ''0'' \<and> list_all numChar ''0''" 
    by (simp add: validNumber_def intPart_def fracPart_def expPart_def numChar_def is_digit_def)
  have "validNumber t \<and> list_all numChar t" if "floatNumber fl s = Some t" for s t
    using that fl itoa_number zero by (auto simp: floatNumber_def numberTexts_def split: option.splits if_splits)
  then show "formatNumber fl l = Some t \<Longrightarrow> validNumber t \<and> list_all numChar t"
    using itoa_number by (auto simp: formatNumber_def Let_def split: if_splits option.splits)
qed

lemma mapAll_in: "mapAll f xs = Some ys \<Longrightarrow> x \<in> set xs \<Longrightarrow> \<exists>y. f x = Some y"
  by (induction xs arbitrary: ys) (auto split: option.splits)

lemma canon_wf:
  "numberTexts fl \<Longrightarrow> wfVal d v \<Longrightarrow> writeCanonical fl v = Some t \<Longrightarrow> wfVal d (canon (numberText fl) v)"
proof (induction fl v arbitrary: d t rule: writeCanonical.induct)
  case (3 fl l)
  then show ?case using formatNumber_valid by (auto simp: numberText_def)
next
  case (5 fl vs)
  then show ?case by (auto dest!: mapAll_in)
next
  case (6 fl ms)
  have "wfVal (d - 1) (canon (numberText fl) (snd m)) \<and> validUtf8 (fst m)" if m: "m \<in> set (sortedMembers ms)" for m
  proof -
    from 6(4) obtain ts where "mapAll (\<lambda>m. map_option (\<lambda>t. jsonQuote (fst m) @ '':'' @ t) (writeCanonical fl (snd m))) (sortedMembers ms) = Some ts" by auto
    from mapAll_in [OF this m] obtain u where "writeCanonical fl (snd m) = Some u" by auto
    then show ?thesis using 6(1) [OF m 6(2)] 6(3) set_sortedMembers_sub [OF m] by auto
  qed
  then show ?case using 6(3) by auto
qed auto

lemma writeCanonical_reads_back:
  "numberTexts fl \<Longrightarrow> wfVal maxNestingDepth v \<Longrightarrow> writeCanonical fl v = Some t
     \<Longrightarrow> parseJson t = Some (canon (numberText fl) v)"
  using writeCanonical_canon canon_wf parseJson_jsonOf by metis

subsection \<open>The digest\<close>

lemma joinOn_newline: "CHR 0x0A \<notin> set sep \<Longrightarrow> \<forall>t \<in> set ts. CHR 0x0A \<notin> set t \<Longrightarrow> CHR 0x0A \<notin> set (joinOn sep ts)"
  by (induction sep ts rule: joinOn.induct) auto

lemma number_newline: "list_all numChar t \<Longrightarrow> CHR 0x0A \<notin> set t"
  by (auto simp: list_all_iff numChar_def is_digit_def)

lemma jsonQuote_newline: "CHR 0x0A \<notin> set (jsonQuote s)"
  using quoteBody_newline [of s] by (simp add: jsonQuote_def)

lemma writeCanonical_newline: "numberTexts fl \<Longrightarrow> writeCanonical fl v = Some t \<Longrightarrow> CHR 0x0A \<notin> set t"
proof (induction fl v arbitrary: t rule: writeCanonical.induct)
  case (3 fl l)
  then show ?case using formatNumber_valid number_newline by auto
next
  case (5 fl vs)
  from 5(3) obtain ts where ts: "mapAll (writeCanonical fl) vs = Some ts" "t = ''['' @ joinOn '','' ts @ '']''" by auto
  have "\<forall>u \<in> set ts. CHR 0x0A \<notin> set u"
    using ts(1) 5(1,2) by (auto simp: mapAll_Some list_all2_conv_all_nth in_set_conv_nth) (metis nth_mem)
  then show ?case using joinOn_newline [of "'',''" ts] by (simp add: ts(2))
next
  case (6 fl ms)
  from 6(3) obtain ts where ts: "mapAll (\<lambda>m. map_option (\<lambda>t. jsonQuote (fst m) @ '':'' @ t) (writeCanonical fl (snd m))) (sortedMembers ms) = Some ts"
    "t = ''{'' @ joinOn '','' ts @ ''}''" by auto
  have "CHR 0x0A \<notin> set (ts ! i)" if "i < length ts" for i
  proof -
    have len: "length (sortedMembers ms) = length ts" using ts(1) by (simp add: mapAll_Some list_all2_lengthD)
    let ?m = "sortedMembers ms ! i"
    have "map_option (\<lambda>t. jsonQuote (fst ?m) @ '':'' @ t) (writeCanonical fl (snd ?m)) = Some (ts ! i)"
      using list_all2_nthD [OF ts(1) [unfolded mapAll_Some], of i] that len by simp
    then obtain u where "writeCanonical fl (snd ?m) = Some u" "ts ! i = jsonQuote (fst ?m) @ '':'' @ u" by auto
    then show ?thesis using 6(1) [of ?m u] 6(2) that len jsonQuote_newline by auto
  qed
  then have "\<forall>u \<in> set ts. CHR 0x0A \<notin> set u" by (metis in_set_conv_nth)
  then show ?case using joinOn_newline [of "'',''" ts] by (simp add: ts(2))
qed (use jsonQuote_newline in \<open>auto split: if_splits\<close>)

lemma last_newline: "CHR 0x0A \<notin> set c \<Longrightarrow> CHR 0x0A \<notin> set d \<Longrightarrow>
    v @ CHR 0x0A # c = w @ CHR 0x0A # d \<longleftrightarrow> v = w \<and> c = d"
  by (auto simp: append_eq_append_conv2 Cons_eq_append_conv append_eq_Cons_conv)

text \<open>
  C35: what is hashed identifies the schema and the document: two documents give the same input of the hash
  exactly when they are hashed under the same schema version and are the same data, members in any
  order, a repeated member read as its last value, numbers read as \<open>formatNumber\<close> reads them.
\<close>

theorem hash_identifies:
  assumes "numberTexts fl" "wfVal maxNestingDepth v" "wfVal maxNestingDepth w"
    and "writeCanonical fl v = Some t" "writeCanonical fl w = Some u"
  shows "hashInput schema t = hashInput schema' u
    \<longleftrightarrow> schema = schema' \<and> docOf (numberText fl) v = docOf (numberText fl) w"
proof -
  have "t = u \<longleftrightarrow> docOf (numberText fl) v = docOf (numberText fl) w"
  proof
    assume "t = u"
    then have "canon (numberText fl) v = canon (numberText fl) w"
      using writeCanonical_reads_back [OF assms(1,2,4)] writeCanonical_reads_back [OF assms(1,3,5)] by simp
    then show "docOf (numberText fl) v = docOf (numberText fl) w" using docOf_canon by metis
  next
    assume "docOf (numberText fl) v = docOf (numberText fl) w"
    from canon_unique [OF this] show "t = u"
      using writeCanonical_canon [OF assms(4)] writeCanonical_canon [OF assms(5)] by simp
  qed
  then show ?thesis
    using last_newline [OF writeCanonical_newline [OF assms(1,4)] writeCanonical_newline [OF assms(1,5)], of schema schema']
    by (simp add: hashInput_def)
qed

definition wholeLib :: "int floatLib" where
  "wholeLib = \<lparr>fl_parse = (\<lambda>s. Some (int (digits_value s))), fl_whole = Some, fl_toInt64 = (\<lambda>i. if i \<le> max_int64 then i else min_int64),
     fl_text = itoa\<rparr>"

lemma hash_identifies_witness:
  "let v = JsObj [(''b'', JsBool True), (''a'', JsArr [])]; w = JsObj [(''a'', JsArr []), (''b'', JsBool True)]
   in docOf (numberText wholeLib) v = docOf (numberText wholeLib) w"
proof -
  have n: "numberTexts wholeLib" using itoa_number by (simp add: numberTexts_def wholeLib_def)
  have w: "writeCanonical wholeLib (JsObj [(''b'', JsBool True), (''a'', JsArr [])]) = Some (jsonOf (JsObj [(''a'', JsArr []), (''b'', JsBool True)]))"
    "writeCanonical wholeLib (JsObj [(''a'', JsArr []), (''b'', JsBool True)]) = Some (jsonOf (JsObj [(''a'', JsArr []), (''b'', JsBool True)]))"
    by (simp_all add: sortedMembers_def object_def less_list_code)
  have "wfVal maxNestingDepth (JsObj [(''b'', JsBool True), (''a'', JsArr [])])"
    "wfVal maxNestingDepth (JsObj [(''a'', JsArr []), (''b'', JsBool True)])"
    by (simp_all add: maxNestingDepth_def validUtf8.simps)
  from hash_identifies [OF n this w, of "''s''" "''s''"] show ?thesis unfolding Let_def by simp
qed

lemma trimSpace_number: "l \<noteq> [] \<Longrightarrow> list_all numChar l \<Longrightarrow> trimSpace l = l"
proof -
  assume l: "l \<noteq> []" "list_all numChar l"
  have n: "(32::nat) < of_char c \<and> of_char c < (128::nat)" if "numChar c" for c
    using that by (auto simp: numChar_def is_digit_def)
  from l have "numChar (hd l)" "numChar (last l)" by (simp_all add: list_all_iff)
  with n l show ?thesis by (intro trimSpace_plain) auto
qed

lemma itoa_plain: "itoa i \<noteq> [] \<and> \<not> hasFraction (itoa i)"
proof -
  have d: "\<not> is_digit (CHR ''.'')" "\<not> is_digit (CHR ''e'')" "\<not> is_digit (CHR ''E'')" by (simp_all add: is_digit_def)
  have "CHR ''.'' \<notin> set (nat_digits n)" "CHR ''e'' \<notin> set (nat_digits n)" "CHR ''E'' \<notin> set (nat_digits n)" for n
    using nat_digits_digits [of n] d by (auto simp: list_all_iff)
  then show ?thesis by (auto simp: itoa_def hasFraction_def)
qed

text \<open>
  C36: a number and another one can have one digest. The integer just above the range of \<open>int64\<close>, 2 to
  the 63, passes the check against \<open>float64(MaxInt64)\<close>, which is that very number, and is then converted
  to an \<open>int64\<close>: whatever integer the machine gives, the literal of that integer has the same digest
  under every schema.
\<close>

theorem hash_number_collision:
  assumes "fl_parse fl ''9223372036854775808'' = Some f" "fl_whole fl f = Some (2 ^ 63)"
    and "min_int64 \<le> fl_toInt64 fl (2 ^ 63)" "fl_toInt64 fl (2 ^ 63) \<le> max_int64"
  shows "\<exists>j. min_int64 \<le> j \<and> j \<le> max_int64 \<and> Digest fl sha schema (itoa j) = Digest fl sha schema ''9223372036854775808''
    \<and> Digest fl sha schema (itoa j) \<noteq> None"
proof -
  let ?j = "fl_toInt64 fl (2 ^ 63)"
  have big: "formatNumber fl ''9223372036854775808'' = Some (itoa ?j)"
  proof -
    have "floatNumber fl ''9223372036854775808'' = Some (itoa ?j)"
      using assms(1,2) by (simp add: floatNumber_def)
    moreover have "parseInt64 ''9223372036854775808'' = None" "\<not> hasFraction ''9223372036854775808''"
      "list_all numChar ''9223372036854775808''"
      by (simp add: parseInt64_def digits_value_def is_digit_def max_int64_def) (simp_all add: hasFraction_def numChar_def is_digit_def)
    moreover from this(3) have "trimSpace ''9223372036854775808'' = ''9223372036854775808''"
      by (intro trimSpace_number) simp_all
    ultimately show ?thesis by (simp only: formatNumber_def Let_def list.distinct if_False if_True option.case not_False_eq_True)
  qed
  have small: "formatNumber fl (itoa ?j) = Some (itoa ?j)"
    using parseInt64_itoa [OF assms(3,4)] trimSpace_number [of "itoa ?j"] itoa_number [of ?j] itoa_plain [of ?j]
    by (simp add: formatNumber_def)
  have c: "Canonicalize fl l = formatNumber fl l" if "validNumber l \<and> list_all numChar l" for l
    using parseJson_jsonOf [of "JsNum l"] that by (simp add: Canonicalize_def)
  have l: "validNumber ''9223372036854775808'' \<and> list_all numChar ''9223372036854775808''"
    by (simp add: validNumber_def intPart_def fracPart_def expPart_def numChar_def is_digit_def)
  show ?thesis
    by (rule exI [of _ ?j]) (simp only: Digest_def c [OF l] c [OF itoa_number] big small assms(3,4) option.simps simp_thms)
qed

lemma hash_number_collision_witness:
  "\<exists>j. min_int64 \<le> j \<and> j \<le> max_int64 \<and> Digest wholeLib id ''s'' (itoa j) = Digest wholeLib id ''s'' ''9223372036854775808''
    \<and> Digest wholeLib id ''s'' (itoa j) \<noteq> None"
  by (rule hash_number_collision [where f = "2 ^ 63"]) (simp_all add: wholeLib_def digits_value_def min_int64_def max_int64_def)

end
