(* ===== verification/CompareProps.thy ===== *)
theory CompareProps
  imports CompareSuite EngineProps HashProps
begin

text \<open>What a comparison that passes proves of the candidate policy.\<close>

subsection \<open>The deltas of a case\<close>

definition tabledKinds :: "kind list" where
  "tabledKinds = [KindMissed, KindUncovered, KindNewlyAutoMergeable, KindScoreThreshold, KindStricter]"



lemma insertDeltas_char:
  "distinct (map deltaKey acc) \<Longrightarrow> insertDeltas at ids acc =
     (if distinct (map deltaKey (acc @ List.map_filter at ids)) then Inr (acc @ List.map_filter at ids) else Inl DuplicateDelta)"
proof (induction ids arbitrary: acc)
  case (Cons i ids)
  show ?case
  proof (cases "at i")
    case None
    then show ?thesis using Cons by (simp add: List.map_filter_simps)
  next
    case (Some d)
    then show ?thesis using Cons.prems Cons.IH [of "acc @ [d]"] by (auto simp: List.map_filter_simps)
  qed
qed (simp add: List.map_filter_simps)

definition deltasOf :: "(string list \<Rightarrow> string list) \<Rightarrow> result \<Rightarrow> result \<Rightarrow> string list \<Rightarrow> delta list" where
  "deltasOf order b c subjects = List.map_filter (deltaAt b c subjects) (order (unionIdentityKeys b c))"

lemma collectDeltas_char:
  "collectDeltas order b c subjects = bind_res (classify b c) (\<lambda>k. if k = [] then Inr []
     else if \<not> distinct (map deltaKey (deltasOf order b c subjects)) then Inl DuplicateDelta
     else if deltasOf order b c subjects = [] then Inl Unclassifiable
     else Inr (sort_key deltaOrder (deltasOf order b c subjects)))"
proof (cases "classify b c")
  case (Inr k)
  have "insertDeltas (deltaAt b c subjects) (order (unionIdentityKeys b c)) [] =
      (if distinct (map deltaKey (deltasOf order b c subjects)) then Inr (deltasOf order b c subjects) else Inl DuplicateDelta)"
    using insertDeltas_char [of "[]"] by (simp add: deltasOf_def)
  then show ?thesis by (simp add: collectDeltas_def Inr)
qed (simp add: collectDeltas_def)

lemma mset_map_filter: "mset xs = mset ys \<Longrightarrow> mset (List.map_filter f xs) = mset (List.map_filter f ys)"
  by (simp add: List.map_filter_def)

lemma collectDeltas_order:
  assumes "mset (order (unionIdentityKeys b c)) = mset (order' (unionIdentityKeys b c))"
  shows "collectDeltas order b c subjects = collectDeltas order' b c subjects"
proof -
  let ?ds = "deltasOf order b c subjects" and ?es = "deltasOf order' b c subjects"
  have m: "mset ?ds = mset ?es" unfolding deltasOf_def by (rule mset_map_filter) (rule assms)
  then have "mset (map deltaKey ?ds) = mset (map deltaKey ?es)" by simp
  then have d: "distinct (map deltaKey ?ds) \<longleftrightarrow> distinct (map deltaKey ?es)" by (rule mset_eq_imp_distinct_iff)
  have s: "sort_key deltaOrder ?ds = sort_key deltaOrder ?es" if "distinct (map deltaKey ?ds)"
  proof (rule sort_key_perm [OF m])
    fix x y assume "x \<in> set ?ds" "y \<in> set ?ds" "deltaOrder x = deltaOrder y"
    then have "deltaKey x = deltaKey y" by (auto simp: deltaOrder_def deltaKey_def)
    then show "x = y" using that \<open>x \<in> set ?ds\<close> \<open>y \<in> set ?ds\<close> by (auto simp: distinct_map dest: inj_onD)
  qed
  have e: "?ds = [] \<longleftrightarrow> ?es = []" by (rule mset_eq_Nil_iff [OF m])
  show ?thesis
  proof (cases "distinct (map deltaKey ?ds)")
    case True
    with s d e show ?thesis by (simp add: collectDeltas_char cong: if_cong)
  next
    case False
    with d show ?thesis by (simp add: collectDeltas_char)
  qed
qed





subsection \<open>A suite that passes\<close>










definition demoLibs :: "int compareLibs" where
  "demoLibs = \<lparr>cl_rt = demo_rt, cl_float = wholeLib, cl_sha = id, cl_bundleValid = (\<lambda>_. True), cl_suiteValid = (\<lambda>_. True),
     cl_recordValid = (\<lambda>_. True), cl_evalInput = (\<lambda>_. Some (demo_input [demo_change ''s'' 5])), cl_order = rev\<rparr>"

definition demoProfile :: compareProfile where
  "demoProfile = \<lparr>cp_name = ''p'', cp_policy = Some (demo_policy [demo_rule ''a'' ''bounded'' ''block'' 5]),
     cp_bind = Some demo_binding, cp_ceiling = PhaseEnforce, cp_approval = None, cp_precedence = [], cp_profiles = []\<rparr>"

definition demoSuite :: comparisonSuite where
  "demoSuite = \<lparr>su_baselineRef = [], su_candidateRef = [],
     su_cases = [\<lparr>sc_caseID = ''c'', sc_digest = hashInput replayBundleSchemaID ''{}''\<rparr>],
     su_spec = \<lparr>ss_gates = [\<lparr>pg_gateID = GateAcceptedDeltas, pg_failOnKinds = tabledKinds, pg_defaultVerdict = ''fail'',
        pg_acceptance = ''none''\<rparr>], ss_accepted = []\<rparr>\<rparr>"



text \<open>
  C34: the report of a suite does not depend on the order in which Go ranges over the map of findings:
  with any two visiting orders the run gives the same records, gates and exit code, or the same error.
\<close>

theorem suite_order_independent:
  assumes "\<And>xs. mset (order xs) = mset xs" "\<And>xs. mset (order' xs) = mset xs"
  shows "RunSuite (libs\<lparr>cl_order := order\<rparr>) suite bundles bp cp = RunSuite (libs\<lparr>cl_order := order'\<rparr>) suite bundles bp cp"
proof -
  have "collectDeltas order b c subjects = collectDeltas order' b c subjects" for b c subjects
    by (rule collectDeltas_order) (simp add: assms)
  then have "runCase (libs\<lparr>cl_order := order\<rparr>) bundles bp cp = runCase (libs\<lparr>cl_order := order'\<rparr>) bundles bp cp"
    by (simp add: fun_eq_iff runCase_def BuildComparisonRecord_def LoadBundle_def ReplayBundleDigest_def validateRecord_def
        cong: if_cong option.case_cong)
  then show ?thesis by (simp add: RunSuite_def)
qed

lemma suite_order_independent_witness:
  "RunSuite (demoLibs\<lparr>cl_order := rev\<rparr>) demoSuite [''c'' \<mapsto> ''{}''] demoProfile demoProfile
     = RunSuite (demoLibs\<lparr>cl_order := sort\<rparr>) demoSuite [''c'' \<mapsto> ''{}''] demoProfile demoProfile"
  by (rule suite_order_independent) simp_all

text \<open>
  a weakened intervention can stay out of the record. Where both policies report a finding of one
  identity, a change of its effect is no delta: the record of this case, in which a block became a
  comment, lists the missing review of another subject and nothing else, so that accepting that one
  delta accepts both.
\<close>

theorem weakened_effect_unrecorded:
  "\<exists>b c f g. f \<in> set (res_findings b) \<and> g \<in> set (res_findings c) \<and> deltaIdentity f = deltaIdentity g
     \<and> fd_effect f = EffectBlock \<and> fd_effect g = EffectComment
     \<and> (\<exists>d. collectDeltas id b c [] = Inr [d] \<and> dt_subject d \<noteq> fd_subject f \<and> dt_kind d = KindMissed)"
proof -
  let ?f = "\<lambda>s e. \<lparr>fd_rule = ''r'', fd_obligation = [], fd_effect = e, fd_subject = s, fd_points = 0, fd_code = [], fd_message = []\<rparr>"
  let ?r = "\<lambda>d fs. \<lparr>res_decision = d, res_findings = fs, res_observed = [], res_gaps = (\<lambda>_. None), res_profile = [], res_writeAllowed = False\<rparr>"
  let ?b = "?r BLOCK [?f ''s'' EffectBlock, ?f ''t'' EffectRequireReview]" and ?c = "?r REVIEW [?f ''s'' EffectComment]"
  have "classify ?b ?c = Inr KindMissed"
    by (simp add: classify_def detectMissedIntervention_def isMissedInterventionEffect_def findingsByIdentity_def deltaIdentity_def bar_def)
  then have "\<exists>d. collectDeltas id ?b ?c [] = Inr [d] \<and> dt_subject d \<noteq> ''s'' \<and> dt_kind d = KindMissed"
    by (simp add: collectDeltas_char deltasOf_def deltaAt_def unionIdentityKeys_def deltaIdentity_def bar_def findingsByIdentity_def
        List.map_filter_simps interventionIdentityEqual_def isMissedInterventionEffect_def buildDelta_def Let_def sideText_def firstText_def)
  then show ?thesis
    by (intro exI [of _ ?b] exI [of _ ?c] exI [of _ "?f ''s'' EffectBlock"] exI [of _ "?f ''s'' EffectComment"])
      (simp add: deltaIdentity_def)
qed

end
