(* ===== verification/MessageTemplate.thy ===== *)
theory MessageTemplate
  imports AssertWalk GoJson
begin

text \<open>
  \<open>internal/core/aggregate/messagetemplate.go\<close>: the slots of a message template, their compilation
  and replacement, and the lookup of a sensitive fact. The runtime is the one of a leaf; where an
  error of the compiler points into its expression is a parameter.
\<close>

subsection \<open>Slots\<close>

text \<open>
  The expression \<open>\{\{\s*([^}]+?)\s*\}\}\<close> matches at a position exactly when two opening braces, a
  text that is not empty and has no closing brace, and two closing braces follow. Trimmed, its group
  is the trimmed text.
\<close>

definition slotAt :: "string \<Rightarrow> (string \<times> string) option" where
  "slotAt s =
     (let body = takeWhile (\<lambda>c. c \<noteq> CHR ''}'') (drop 2 s); rest = drop (2 + length body) s
      in if prefix ''{{'' s \<and> body \<noteq> [] \<and> prefix ''}}'' rest then Some (body, drop 2 rest) else None)"

lemma slotAt_shorter: "slotAt s = Some (body, rest) \<Longrightarrow> length rest < length s"
  by (cases s) (auto simp: slotAt_def Let_def split: if_splits)

text \<open>\<open>ReplaceAllStringFunc\<close> with a closure that keeps the first error.\<close>

function replaceSlots :: "(string \<Rightarrow> 'e + string) \<Rightarrow> string \<Rightarrow> 'e + string" where
  "replaceSlots f [] = Inr []"
| "replaceSlots f (c # cs) =
     (case slotAt (c # cs) of
        None \<Rightarrow> bind_res (replaceSlots f cs) (\<lambda>t. Inr (c # t))
      | Some (body, rest) \<Rightarrow>
          bind_res (if trimSpace body = [] then Inr (''{{'' @ body @ ''}}'') else f (trimSpace body)) (\<lambda>r.
          bind_res (replaceSlots f rest) (\<lambda>t. Inr (r @ t))))"
  by pat_completeness auto
termination by (relation "measure (length \<circ> snd)") (auto dest: slotAt_shorter)

definition ReplaceMessageSlots :: "(string \<Rightarrow> 'e + string) \<Rightarrow> string \<Rightarrow> 'e + string" where
  "ReplaceMessageSlots f tmpl = (if \<not> containsSub tmpl ''{{'' then Inr tmpl else replaceSlots f tmpl)"

record messageSlot =
  sl_expr :: string
  sl_offset :: nat
  sl_line :: int
  sl_column :: int

text \<open>Line and column, counted from 1, of a byte offset.\<close>

fun messageSlotPosition :: "string \<Rightarrow> nat \<Rightarrow> int \<times> int \<Rightarrow> int \<times> int" where
  "messageSlotPosition s 0 p = p"
| "messageSlotPosition [] (Suc n) p = p"
| "messageSlotPosition (c # cs) (Suc n) (line, col) =
     messageSlotPosition cs n (if c = CHR 0x0A then (line + 1, 1) else (line, col + 1))"

function slotOffsets :: "string \<Rightarrow> nat \<Rightarrow> (string \<times> nat) list" where
  "slotOffsets [] n = []"
| "slotOffsets (c # cs) n = (case slotAt (c # cs) of
       None \<Rightarrow> slotOffsets cs (Suc n)
     | Some (body, rest) \<Rightarrow> (trimSpace body, n) # slotOffsets rest (n + (length (c # cs) - length rest)))"
  by pat_completeness auto
termination by (relation "measure (length \<circ> fst)") (auto dest: slotAt_shorter)

definition ParseMessageSlots :: "string \<Rightarrow> messageSlot list" where
  "ParseMessageSlots tmpl = map (\<lambda>(expr, off). (case messageSlotPosition tmpl off (1, 1) of (line, col) \<Rightarrow>
     \<lparr>sl_expr = expr, sl_offset = off, sl_line = line, sl_column = col\<rparr>)) (slotOffsets tmpl 0)"

subsection \<open>Compilation\<close>

datatype message_error =
    NoScopeEnv string
  | TemplateError int int string
  | SlotFailed eval_error
  | UnknownRule string
  | NoDebugLine string int

text \<open>An issue of the compiler: its text and, where it has one, its line and column in the expression.\<close>

type_synonym issue_at = "string \<Rightarrow> (int \<times> int) option"

definition formatMessageSlotIssue :: "issue_at \<Rightarrow> messageSlot \<Rightarrow> string \<Rightarrow> message_error" where
  "formatMessageSlotIssue at slot msg = (case at msg of
       None \<Rightarrow> TemplateError (sl_line slot) (sl_column slot) msg
     | Some (line, col) \<Rightarrow>
         if line = 1 then TemplateError (sl_line slot) (sl_column slot + col) msg
         else TemplateError (sl_line slot + line - 1) col msg)"

definition compileMessageSlot :: "cel_runtime \<Rightarrow> issue_at \<Rightarrow> messageSlot \<Rightarrow> message_error option" where
  "compileMessageSlot rt at slot = (case rt_compile rt newEvalEnv (sl_expr slot) of
       Some e \<Rightarrow> Some (formatMessageSlotIssue at slot e)
     | None \<Rightarrow> map_option (TemplateError (sl_line slot) (sl_column slot)) (rt_program rt celCostBudget (sl_expr slot)))"

fun firstError :: "('a \<Rightarrow> 'e option) \<Rightarrow> 'a list \<Rightarrow> 'e option" where
  "firstError f [] = None"
| "firstError f (x # xs) = (case f x of Some e \<Rightarrow> Some e | None \<Rightarrow> firstError f xs)"

definition CompileMessageTemplate :: "cel_runtime \<Rightarrow> issue_at \<Rightarrow> string \<Rightarrow> message_error option" where
  "CompileMessageTemplate rt at tmpl =
     (if \<not> containsSub tmpl ''{{'' then None
      else (case rt_newEnv rt newEvalEnv of
          Some e \<Rightarrow> Some (NoScopeEnv e)
        | None \<Rightarrow> firstError (\<lambda>slot. if sl_expr slot = [] then None else compileMessageSlot rt at slot) (ParseMessageSlots tmpl)))"

subsection \<open>References to facts\<close>

definition FactRefFromExpr :: "string \<Rightarrow> (string \<times> string) option" where
  "FactRefFromExpr expr =
     (if \<not> hasPrefix expr ''facts.'' then None
      else (case splitOn (CHR ''.'') (trimPrefix expr ''facts.'') of p # n # _ \<Rightarrow> Some (p, n) | _ \<Rightarrow> None))"

definition mapField :: "string \<Rightarrow> cval \<Rightarrow> cval option" where
  "mapField k v = (case v of CMap m \<Rightarrow> map_of m k | _ \<Rightarrow> None)"

definition SensitiveFactAt :: "cval \<Rightarrow> string \<Rightarrow> string \<Rightarrow> bool" where
  "SensitiveFactAt act prov name \<longleftrightarrow>
     Option.bind (Option.bind (Option.bind (mapField ''facts'' act) (mapField prov)) (mapField name)) (mapField ''sensitive'')
       = Some (CBool True)"

end
