(* ===== verification/Rendering.thy ===== *)
theory Rendering
  imports MessageTemplate RunGate
begin

text \<open>
  \<open>internal/render\<close> and \<open>cmd/assent/run_render.go\<close>: clamping, escaping, the redaction of facts, the
  evaluation of message templates, the body of a thread and of the summary, and the context a run
  gives them. The texts of characters outside ASCII are their UTF-8 bytes. \<open>json.Marshal\<close> of the
  values that are neither text, number, truth value, list nor map, and the text of a value built by
  the CEL library itself, are parameters.
\<close>

subsection \<open>Clamping and escaping\<close>

abbreviation bytes :: "nat list \<Rightarrow> string" where "bytes ns \<equiv> map char_of ns"

definition DefaultClampRunes :: int where "DefaultClampRunes = 500"

definition ClampEllipsis :: string where "ClampEllipsis = bytes [226, 128, 166]"

definition fromRunes :: "nat list \<Rightarrow> string" where
  "fromRunes rs = concat (map encodeRune rs)"

definition Clamp :: "string \<Rightarrow> int \<Rightarrow> string" where
  "Clamp s maxRunes =
     (if maxRunes \<le> 0 then []
      else let rs = runes s; ell = runes ClampEllipsis in
        if int (length rs) \<le> maxRunes then s
        else if maxRunes \<le> int (length ell) then fromRunes (take (nat maxRunes) ell)
        else fromRunes (take (nat (maxRunes - int (length ell))) rs) @ ClampEllipsis)"

fun escapeRunes :: "bool \<Rightarrow> nat list \<Rightarrow> string" where
  "escapeRunes start [] = []"
| "escapeRunes start (r # rs) =
     (if r = 92 then [CHR 0x5C, CHR 0x5C] @ escapeRunes False rs
      else if r \<in> set [91, 93, 40, 41, 96] then CHR 0x5C # encodeRune r @ escapeRunes False rs
      else if r = 35 then (if start then [CHR 0x5C] else []) @ encodeRune r @ escapeRunes False rs
      else if r = 10 \<or> r = 13 then encodeRune r @ escapeRunes True rs
      else encodeRune r @ escapeRunes False rs)"

definition backslashEscapeMarkdown :: "string \<Rightarrow> string" where
  "backslashEscapeMarkdown s = escapeRunes True (runes s)"

definition htmlEscapeChar :: "char \<Rightarrow> string" where
  "htmlEscapeChar c =
     (if c = CHR ''&'' then ''&amp;'' else if c = CHR ''<'' then ''&lt;'' else if c = CHR ''>'' then ''&gt;'' else [c])"

definition htmlEscapeScalars :: "string \<Rightarrow> string" where
  "htmlEscapeScalars s = concat (map htmlEscapeChar s)"

definition EscapeMarkdown :: "string \<Rightarrow> string" where
  "EscapeMarkdown s = htmlEscapeScalars (backslashEscapeMarkdown s)"

definition EscapeAndClamp :: "string \<Rightarrow> string" where
  "EscapeAndClamp s = Clamp (EscapeMarkdown s) DefaultClampRunes"

subsection \<open>Options and fixed texts\<close>

record renderOptions =
  op_verbosity :: string
  op_emoji :: bool
  op_collapse :: int
  op_locale :: string

record presentationKnobs =
  pk_name :: string
  pk_verbosity :: string
  pk_emoji :: "bool option"
  pk_collapse :: "int option"
  pk_locale :: string

record presentationConfig =
  pc_global :: presentationKnobs
  pc_environments :: "presentationKnobs list"

definition DefaultOptions :: renderOptions where
  "DefaultOptions = \<lparr>op_verbosity = ''standard'', op_emoji = True, op_collapse = 5, op_locale = ''en''\<rparr>"

definition mergePresentation :: "renderOptions \<Rightarrow> presentationKnobs \<Rightarrow> renderOptions" where
  "mergePresentation base k =
     \<lparr>op_verbosity = (if pk_verbosity k \<noteq> [] then pk_verbosity k else op_verbosity base),
      op_emoji = (case pk_emoji k of Some b \<Rightarrow> b | None \<Rightarrow> op_emoji base),
      op_collapse = (case pk_collapse k of Some n \<Rightarrow> n | None \<Rightarrow> op_collapse base),
      op_locale = (if pk_locale k \<noteq> [] then pk_locale k else op_locale base)\<rparr>"

definition OptionsForEnvironment :: "presentationConfig option \<Rightarrow> string \<Rightarrow> renderOptions" where
  "OptionsForEnvironment pc env = (case pc of
       None \<Rightarrow> DefaultOptions
     | Some p \<Rightarrow>
         let opts = mergePresentation DefaultOptions (pc_global p)
         in (case find (\<lambda>k. pk_name k = env) (pc_environments p) of
               None \<Rightarrow> opts | Some k \<Rightarrow> mergePresentation opts k))"

text \<open>The catalogue \<open>en.yaml\<close>; another locale falls back to it with a warning.\<close>

definition enCatalog :: "string assoc" where
  "enCatalog =
     [(''resolve_thread'', ''Resolve this thread to confirm.''),
      (''why_this_check'', ''Why this check exists & how to fix''),
      (''full_documentation'', ''Full documentation''),
      (''evaluation_details'', ''Evaluation details''),
      (''matched_change'', ''matched change''),
      (''facts_used'', ''facts used''),
      (''score_contribution'', ''score contribution''),
      (''collapsed_paths'', ''Additional paths''),
      (''summary_headline'', ''Policy evaluation''),
      (''summary_decision'', ''Decision''),
      (''summary_score'', ''Score''),
      (''summary_threshold'', ''Threshold''),
      (''summary_findings'', ''Findings'')]"

definition ForLocale :: "string \<Rightarrow> string assoc \<times> string list" where
  "ForLocale locale = (if locale = [] \<or> locale = ''en'' then (enCatalog, []) else (enCatalog, [''unknown-locale'']))"

definition Chrome :: "renderOptions \<Rightarrow> string \<Rightarrow> string" where
  "Chrome opts i = (case map_of (fst (ForLocale (op_locale opts))) i of Some s \<Rightarrow> s | None \<Rightarrow> [])"

subsection \<open>Values and facts\<close>

record renderLibs =
  ml_cel :: cel_runtime
  ml_issueAt :: issue_at
  ml_json :: "cval \<Rightarrow> string"
  ml_built :: "string \<Rightarrow> bool"
  ml_text :: "cval \<Rightarrow> string"

text \<open>\<open>fmt.Sprint\<close> of a value of the activation: a map is printed in the order of its keys.\<close>

fun goSprint :: "cel_runtime \<Rightarrow> cval \<Rightarrow> string" where
  "goSprint rt CNull = ''<nil>''"
| "goSprint rt (CList vs) = ''['' @ joinOn '' '' (map (goSprint rt) vs) @ '']''"
| "goSprint rt (CMap m) = ''map['' @ joinOn '' ''
     (map (\<lambda>(k, t). k @ '':'' @ t) (sort_key fst (map (\<lambda>(k, v). (k, goSprint rt v)) m))) @ '']''"
| "goSprint rt v = fmtV rt v"

text \<open>\<open>json.Marshal\<close> of a value of the activation.\<close>

fun goMarshal :: "(cval \<Rightarrow> string) \<Rightarrow> cval \<Rightarrow> string" where
  "goMarshal other CNull = ''null''"
| "goMarshal other (CBool b) = (if b then ''true'' else ''false'')"
| "goMarshal other (CInt i) = itoa i"
| "goMarshal other (CStr s) = jsonQuote s"
| "goMarshal other (CList vs) = ''['' @ joinOn '','' (map (goMarshal other) vs) @ '']''"
| "goMarshal other (CMap m) = ''{'' @ joinOn '',''
     (map (\<lambda>(k, t). jsonQuote k @ '':'' @ t) (sort_key fst (map (\<lambda>(k, v). (k, goMarshal other v)) m))) @ ''}''"
| "goMarshal other v = other v"

definition factValueString :: "renderLibs \<Rightarrow> cval \<Rightarrow> string" where
  "factValueString libs v = (case v of CStr s \<Rightarrow> s | CErr e \<Rightarrow> e | _ \<Rightarrow> goMarshal (ml_json libs) v)"

definition RedactedDisplay :: string where "RedactedDisplay = ''[redacted]''"

definition displayFactValue :: "renderLibs \<Rightarrow> string \<Rightarrow> bool \<Rightarrow> cval \<Rightarrow> string" where
  "displayFactValue libs state sensitive v =
     (if state \<noteq> stateResolved \<or> v = CNull then state
      else if sensitive then RedactedDisplay
      else factValueString libs v)"

definition orNil :: "cval option \<Rightarrow> cval" where "orNil v = (case v of Some x \<Rightarrow> x | None \<Rightarrow> CNull)"

definition isTrue :: "cval option \<Rightarrow> bool" where "isTrue v \<longleftrightarrow> v = Some (CBool True)"

text \<open>The envelope of a fact is a map with a state.\<close>

definition formatMessageScalar :: "renderLibs \<Rightarrow> cval \<Rightarrow> string" where
  "formatMessageScalar libs v = (case mapField ''state'' v of
       Some st \<Rightarrow> displayFactValue libs (goSprint (ml_cel libs) st) (isTrue (mapField ''sensitive'' v)) (orNil (mapField ''value'' v))
     | None \<Rightarrow> goSprint (ml_cel libs) v)"

definition formatActivationScalar :: "renderLibs \<Rightarrow> cval \<Rightarrow> string" where
  "formatActivationScalar libs v =
     (if v = CNull then bytes [226, 136, 133] else EscapeAndClamp (formatMessageScalar libs v))"

definition formatFactActivationValue :: "renderLibs \<Rightarrow> cval \<Rightarrow> string" where
  "formatFactActivationValue libs v = EscapeAndClamp (formatMessageScalar libs v)"

text \<open>
  The facts section reads the facts themselves, whose numbers are literals: \<open>json.Marshal\<close> keeps a
  literal as it is.
\<close>

fun marshalG :: "gval \<Rightarrow> string" where
  "marshalG GNil = ''null''"
| "marshalG (GBool b) = (if b then ''true'' else ''false'')"
| "marshalG (GNum n) = n"
| "marshalG (GStr s) = jsonQuote s"
| "marshalG (GList vs) = ''['' @ joinOn '','' (map marshalG vs) @ '']''"
| "marshalG (GMap m) = ''{'' @ joinOn '',''
     (map (\<lambda>(k, t). jsonQuote k @ '':'' @ t) (sort_key fst (map (\<lambda>(k, v). (k, marshalG v)) m))) @ ''}''"

definition factDisplay :: "fact \<Rightarrow> string" where
  "factDisplay f =
     (if f_state f \<noteq> stateResolved \<or> f_value f = GNil then f_state f
      else if f_sensitive f then RedactedDisplay
      else (case f_value f of GStr s \<Rightarrow> s | v \<Rightarrow> marshalG v))"

definition RedactFacts :: "fact assoc assoc \<Rightarrow> string assoc assoc" where
  "RedactFacts facts = map (\<lambda>(p, byName). (p, map (\<lambda>(n, f). (n, factDisplay f)) byName)) facts"

definition factPaths :: "'v assoc assoc \<Rightarrow> string list" where
  "factPaths facts = sort (concat (map (\<lambda>(p, byName). map (\<lambda>(n, f). p @ ''.'' @ n) byName) facts))"

definition bullet :: "string \<Rightarrow> string" where "bullet line = ''- '' @ line @ [CHR 0x0A]"

definition detailsBlock :: "string \<Rightarrow> string \<Rightarrow> string" where
  "detailsBlock title inner =
     ''<details>'' @ [CHR 0x0A] @ ''<summary>'' @ EscapeAndClamp title @ ''</summary>'' @ [CHR 0x0A, CHR 0x0A]
     @ inner @ [CHR 0x0A] @ ''</details>''"

text \<open>A path is cut at its first dot; the missing entry of a map reads as the empty text.\<close>

definition RenderFactsSection :: "fact assoc assoc \<Rightarrow> renderOptions \<Rightarrow> string" where
  "RenderFactsSection facts opts =
     (let shown = RedactFacts facts in
      detailsBlock (Chrome opts ''evaluation_details'')
        (concat (map (\<lambda>path. (case cutAt (CHR ''.'') path of
            None \<Rightarrow> []
          | Some (p, n) \<Rightarrow> bullet (''`'' @ EscapeAndClamp path @ ''`: ''
              @ EscapeAndClamp (case Option.bind (map_of shown p) (\<lambda>byName. map_of byName n) of Some t \<Rightarrow> t | None \<Rightarrow> []))))
          (factPaths facts))))"

end
