(* ===== verification/RenderThread.thy ===== *)
theory RenderThread
  imports Rendering
begin

text \<open>
  The bodies (\<open>message.go\<close>, \<open>theme_default.go\<close>, \<open>summary.go\<close> of \<open>internal/render\<close>) and the context
  that \<open>cmd/assent/run_render.go\<close> builds for them.
\<close>

subsection \<open>The context\<close>

record ruleMeta =
  rm_message :: string
  rm_summary :: string
  rm_url :: string
  rm_debug :: "string list"

record renderContext =
  cx_options :: renderOptions
  cx_activation :: cval
  cx_rules :: "ruleMeta assoc"
  cx_threshold :: int

subsection \<open>Messages\<close>

text \<open>
  A slot that names a sensitive fact shows the placeholder; any other is evaluated. The value of an
  expression that yields a list, a map or null of the library's own types (\<open>ml_built\<close>) is printed by
  the library's types, every other like a value of the activation.
\<close>

definition evalMessageSlot :: "renderLibs \<Rightarrow> cval \<Rightarrow> string \<Rightarrow> message_error + string" where
  "evalMessageSlot libs act expr =
     (if (case FactRefFromExpr expr of Some (p, n) \<Rightarrow> SensitiveFactAt act p n | None \<Rightarrow> False)
      then Inr (EscapeAndClamp RedactedDisplay)
      else (case evalScalar (ml_cel libs) expr act of
          Inl e \<Rightarrow> Inl (SlotFailed e)
        | Inr v \<Rightarrow> Inr (EscapeAndClamp (if ml_built libs expr then ml_text libs v else formatMessageScalar libs v))))"

definition EvalMessage :: "renderLibs \<Rightarrow> string \<Rightarrow> renderContext \<Rightarrow> message_error + string" where
  "EvalMessage libs tmpl ctx = (case CompileMessageTemplate (ml_cel libs) (ml_issueAt libs) tmpl of
       Some e \<Rightarrow> Inl e
     | None \<Rightarrow> ReplaceMessageSlots (evalMessageSlot libs (cx_activation ctx)) tmpl)"

definition EvalRuleMessage :: "renderLibs \<Rightarrow> string \<Rightarrow> renderContext \<Rightarrow> message_error + string" where
  "EvalRuleMessage libs name ctx = (case map_of (cx_rules ctx) name of
       None \<Rightarrow> Inl (UnknownRule name) | Some m \<Rightarrow> EvalMessage libs (rm_message m) ctx)"

definition EvalDocsSummary :: "renderLibs \<Rightarrow> string \<Rightarrow> renderContext \<Rightarrow> message_error + string" where
  "EvalDocsSummary libs name ctx = (case map_of (cx_rules ctx) name of
       None \<Rightarrow> Inl (UnknownRule name) | Some m \<Rightarrow> EvalMessage libs (rm_summary m) ctx)"

definition EvalDebugLine :: "renderLibs \<Rightarrow> string \<Rightarrow> int \<Rightarrow> renderContext \<Rightarrow> message_error + string" where
  "EvalDebugLine libs name i ctx = (case map_of (cx_rules ctx) name of
       None \<Rightarrow> Inl (UnknownRule name)
     | Some m \<Rightarrow> if i < 0 \<or> i \<ge> int (length (rm_debug m)) then Inl (NoDebugLine name i)
         else EvalMessage libs (rm_debug m ! nat i) ctx)"

subsection \<open>The thread of a finding\<close>

definition effectEmoji :: "effect \<Rightarrow> string" where
  "effectEmoji e =
     (if e = EffectBlock \<or> e = EffectChallenge then bytes [226, 154, 160, 239, 184, 143, 32]
      else if e = EffectRequireReview then bytes [240, 159, 145, 128, 32]
      else [])"

definition ruleHeadlineText :: "renderLibs \<Rightarrow> recordFinding \<Rightarrow> renderContext \<Rightarrow> message_error + string" where
  "ruleHeadlineText libs f ctx =
     (let plain = ''Review required: '' @ rf_rule f @ (if rf_code f \<noteq> [] then '' ('' @ rf_code f @ '')'' else [])
      in (case map_of (cx_rules ctx) (rf_rule f) of
            None \<Rightarrow> Inr plain
          | Some m \<Rightarrow> if trimSpace (rm_message m) \<noteq> [] then EvalMessage libs (rm_message m) ctx else Inr plain))"

definition renderHeadline :: "renderLibs \<Rightarrow> recordFinding \<Rightarrow> renderContext \<Rightarrow> message_error + string" where
  "renderHeadline libs f ctx = bind_res (ruleHeadlineText libs f ctx) (\<lambda>t.
     Inr (''**'' @ EscapeAndClamp (if op_emoji (cx_options ctx) then effectEmoji (rf_effect f) @ t else t) @ ''**''))"

definition renderDocsSection :: "renderLibs \<Rightarrow> recordFinding \<Rightarrow> renderContext \<Rightarrow> string" where
  "renderDocsSection libs f ctx = (case map_of (cx_rules ctx) (rf_rule f) of
       None \<Rightarrow> []
     | Some m \<Rightarrow>
         let summary = trimSpace (case EvalDocsSummary libs (rf_rule f) ctx of Inl _ \<Rightarrow> [] | Inr s \<Rightarrow> s);
             url = trimSpace (rm_url m)
         in if summary = [] \<and> url = [] then []
            else detailsBlock (Chrome (cx_options ctx) ''why_this_check'')
              ((if summary \<noteq> [] then EscapeAndClamp summary @ [CHR 0x0A] else [])
               @ (if url \<noteq> [] then bytes [240, 159, 147, 150] @ '' ['' @ EscapeAndClamp (Chrome (cx_options ctx) ''full_documentation'')
                    @ '']('' @ EscapeAndClamp url @ '')'' @ [CHR 0x0A] else [])))"

definition textField :: "string \<Rightarrow> cval \<Rightarrow> string" where
  "textField k act = (case mapField k act of Some (CStr s) \<Rightarrow> s | _ \<Rightarrow> [])"

definition matchedChangeLine :: "renderLibs \<Rightarrow> renderContext \<Rightarrow> string" where
  "matchedChangeLine libs ctx =
     (let act = cx_activation ctx; path = textField ''path'' act; kind = textField ''kind'' act;
          old = formatActivationScalar libs (orNil (mapField ''old'' act));
          new = formatActivationScalar libs (orNil (mapField ''new'' act))
      in if path = [] \<and> kind = [] then []
         else (if path \<noteq> [] then ''`'' @ EscapeAndClamp path @ ''` '' else [])
           @ EscapeAndClamp kind @ '' `'' @ old @ ''` -> `'' @ new @ ''`'')"

text \<open>The providers of the activation that are maps, each with its facts.\<close>

fun factMaps :: "cval assoc \<Rightarrow> cval assoc assoc" where
  "factMaps [] = []"
| "factMaps ((p, v) # ps) = (case v of CMap names \<Rightarrow> (p, names) # factMaps ps | _ \<Rightarrow> factMaps ps)"

definition factsUsedLine :: "renderLibs \<Rightarrow> renderContext \<Rightarrow> string" where
  "factsUsedLine libs ctx = (case mapField ''facts'' (cx_activation ctx) of
       Some (CMap raw) \<Rightarrow>
         joinOn '', '' (concat (map (\<lambda>path. (case cutAt (CHR ''.'') path of
             None \<Rightarrow> []
           | Some (p, n) \<Rightarrow> (case map_of raw p of
               Some (CMap names) \<Rightarrow>
                 [''`'' @ EscapeAndClamp path @ ''`='' @ formatFactActivationValue libs (orNil (map_of names n))]
             | _ \<Rightarrow> []))) (factPaths (factMaps raw))))
     | _ \<Rightarrow> [])"

definition scoreLine :: "recordFinding \<Rightarrow> renderContext \<Rightarrow> string" where
  "scoreLine f ctx = EscapeAndClamp (Chrome (cx_options ctx) ''score_contribution'') @ '': '' @
     ''+'' @ itoa (rf_points f) @ bytes [32, 194, 183, 32] @ ''rule `'' @ EscapeAndClamp (rf_rule f)
     @ ''`'' @ bytes [32, 194, 183, 32] @ ''code `'' @ EscapeAndClamp (rf_code f) @ ''`''"

definition defaultEvaluationLines :: "renderLibs \<Rightarrow> recordFinding \<Rightarrow> renderContext \<Rightarrow> string list" where
  "defaultEvaluationLines libs f ctx =
     (let label = (\<lambda>i. EscapeAndClamp (Chrome (cx_options ctx) i) @ '': '');
          matched = matchedChangeLine libs ctx; facts = factsUsedLine libs ctx
      in (if matched \<noteq> [] then [label ''matched_change'' @ matched] else [])
         @ (if facts \<noteq> [] then [label ''facts_used'' @ facts] else [])
         @ [scoreLine f ctx])"

definition collapsedPathsLine :: "presentationModel \<Rightarrow> recordFinding \<Rightarrow> renderContext \<Rightarrow> string" where
  "collapsedPathsLine pm f ctx =
     (let limit = op_collapse (cx_options ctx);
          sameCode = sort (map rf_subject (filter (\<lambda>g. rf_code g = rf_code f \<and> rf_rule g = rf_rule f) (pm_findings pm)));
          hidden = drop (nat limit) sameCode
      in if limit < 1 then []
         else if int (length sameCode) \<le> limit then []
         else EscapeAndClamp (Chrome (cx_options ctx) ''collapsed_paths'') @ '' ('' @ itoa (int (length hidden)) @ ''): ''
           @ EscapeAndClamp (joinOn '', '' hidden))"

text \<open>The lines of \<open>debug\<close> that evaluate to something, as they are.\<close>

definition debugLines :: "renderLibs \<Rightarrow> recordFinding \<Rightarrow> renderContext \<Rightarrow> string list" where
  "debugLines libs f ctx = (case map_of (cx_rules ctx) (rf_rule f) of
       None \<Rightarrow> []
     | Some m \<Rightarrow> filter (\<lambda>l. l \<noteq> []) (map (\<lambda>i. (case EvalDebugLine libs (rf_rule f) (int i) ctx of
           Inl _ \<Rightarrow> [] | Inr l \<Rightarrow> trimSpace l)) [0..<length (rm_debug m)]))"

definition renderEvaluationDetails :: "renderLibs \<Rightarrow> presentationModel \<Rightarrow> recordFinding \<Rightarrow> renderContext \<Rightarrow> string" where
  "renderEvaluationDetails libs pm f ctx =
     (let collapsed = collapsedPathsLine pm f ctx;
          ls = debugLines libs f ctx @ defaultEvaluationLines libs f ctx @ (if collapsed \<noteq> [] then [collapsed] else [])
      in if ls = [] then []
         else detailsBlock (Chrome (cx_options ctx) ''evaluation_details'') (concat (map bullet ls)))"

definition gap :: "string \<Rightarrow> string" where
  "gap part = (if part = [] then [] else [CHR 0x0A, CHR 0x0A] @ part)"

definition RenderFindingThread :: "renderLibs \<Rightarrow> presentationModel \<Rightarrow> recordFinding \<Rightarrow> renderContext \<Rightarrow> message_error + string" where
  "RenderFindingThread libs pm f ctx = bind_res (renderHeadline libs f ctx) (\<lambda>headline.
     Inr (headline @ [CHR 0x0A, CHR 0x0A] @ EscapeAndClamp (Chrome (cx_options ctx) ''resolve_thread'')
       @ '' `'' @ EscapeAndClamp (rf_subject f) @ ''`'' @ bytes [32, 194, 183, 32] @ ''rule `'' @ EscapeAndClamp (rf_rule f) @ ''`''
       @ gap (renderDocsSection libs f ctx)
       @ (if op_verbosity (cx_options ctx) \<noteq> ''minimal'' then gap (renderEvaluationDetails libs pm f ctx) else [])))"

subsection \<open>The summary\<close>

definition decisionEmoji :: "decision \<Rightarrow> string" where
  "decisionEmoji d = (case d of
       APPROVE \<Rightarrow> bytes [226, 156, 133, 32]
     | BLOCK \<Rightarrow> bytes [226, 155, 148, 32]
     | REVIEW \<Rightarrow> bytes [240, 159, 147, 139, 32])"

definition presentationScore :: "recordFinding list \<Rightarrow> int" where
  "presentationScore fs = wrap64 (sum_list (map rf_points fs))"

definition summaryOrder :: "recordFinding \<Rightarrow> string list" where
  "summaryOrder f = [rf_rule f, rf_code f, rf_subject f]"

definition summaryLine :: "renderContext \<Rightarrow> recordFinding \<Rightarrow> string" where
  "summaryLine ctx f = bullet ((if op_emoji (cx_options ctx) then effectEmoji (rf_effect f) else [])
     @ ''`'' @ EscapeAndClamp (rf_rule f) @ ''`'' @ bytes [32, 194, 183, 32] @ ''`'' @ EscapeAndClamp (rf_subject f)
     @ ''`'' @ bytes [32, 194, 183, 32] @ ''`'' @ EscapeAndClamp (rf_code f) @ ''` (+'' @ itoa (rf_points f) @ '')'')"

definition RenderSummary :: "presentationModel \<Rightarrow> renderContext \<Rightarrow> string" where
  "RenderSummary pm ctx =
     (let chrome = (\<lambda>i. EscapeAndClamp (Chrome (cx_options ctx) i));
          threshold = itoa (cx_threshold ctx); dot = bytes [32, 194, 183, 32]
      in ''**'' @ EscapeAndClamp ((if op_emoji (cx_options ctx) then decisionEmoji (pm_decision pm) else [])
              @ Chrome (cx_options ctx) ''summary_headline'') @ ''**'' @ [CHR 0x0A, CHR 0x0A]
         @ ''**'' @ chrome ''summary_decision'' @ '':** '' @ EscapeAndClamp (decisionText (pm_decision pm))
         @ dot @ ''**'' @ chrome ''summary_score'' @ '':** '' @ itoa (presentationScore (pm_findings pm)) @ ''/'' @ threshold
         @ dot @ ''**'' @ chrome ''summary_threshold'' @ '':** '' @ threshold @ [CHR 0x0A]
         @ [CHR 0x0A] @ ''**'' @ chrome ''summary_findings'' @ '':**''
         @ (if pm_findings pm = [] then '' none''
            else [CHR 0x0A] @ concat (map (summaryLine ctx) (sort_key summaryOrder (pm_findings pm)))))"

subsection \<open>The context of a run (\<open>run_render.go\<close>)\<close>

text \<open>
  Of a loaded configuration and rule, the renderer also reads the presentation and the documentation
  address, which the records of the engine leave out: they are given beside them.
\<close>

record presentationSource =
  ps_presentation :: "config \<Rightarrow> presentationConfig option"
  ps_docsURL :: "rule \<Rightarrow> string"

definition rulesMetaFromPolicy :: "presentationSource \<Rightarrow> mergePolicy \<Rightarrow> ruleMeta assoc" where
  "rulesMetaFromPolicy src mp = rev (map (\<lambda>r. (r_name r,
     \<lparr>rm_message = r_message r, rm_summary = [], rm_url = trimSpace (ps_docsURL src r), rm_debug = []\<rparr>)) (mp_rules mp))"

definition renderOpts :: "presentationSource \<Rightarrow> config option \<Rightarrow> binding \<Rightarrow> renderOptions" where
  "renderOpts src conf bind = (case conf of
       None \<Rightarrow> DefaultOptions | Some c \<Rightarrow> OptionsForEnvironment (ps_presentation src c) (b_environment bind))"

definition buildRenderContext :: "renderLibs \<Rightarrow> presentationSource \<Rightarrow> renderInputs \<Rightarrow> renderContext" where
  "buildRenderContext libs src ri =
     (let env = b_environment (ri_binding ri);
          i = runInput (ri_changes ri) (ri_mr ri) (b_require (ri_binding ri)) (ri_facts ri)
      in \<lparr>cx_options = renderOpts src (ri_config ri) (ri_binding ri),
          cx_activation = (case in_changes i of
              [] \<Rightarrow> CMap [(''env'', CStr env)] | ch # _ \<Rightarrow> bindLeafActivation (ml_cel libs) i ch env),
          cx_rules = rulesMetaFromPolicy src (ri_policy ri),
          cx_threshold = b_threshold (ri_binding ri)\<rparr>)"

text \<open>The two renderers of a run.\<close>

definition runSummary :: "renderLibs \<Rightarrow> presentationSource \<Rightarrow> presentationModel \<Rightarrow> renderInputs \<Rightarrow> string option" where
  "runSummary libs src pm ri = Some (RenderSummary pm (buildRenderContext libs src ri))"

definition runThread :: "renderLibs \<Rightarrow> presentationSource \<Rightarrow> presentationModel \<Rightarrow> recordFinding \<Rightarrow> renderInputs \<Rightarrow> string option" where
  "runThread libs src pm f ri =
     (case RenderFindingThread libs pm f (buildRenderContext libs src ri) of Inl _ \<Rightarrow> None | Inr b \<Rightarrow> Some b)"

end
