(* ===== verification/RenderFacts.thy ===== *)
theory RenderFacts
  imports RenderThread Envelope
begin

text \<open>
  Facts on the texts of the renderer: encoding and decoding runes, what clamping and escaping keep,
  the tags of a text, and bodies that cannot close a comment.
\<close>

subsection \<open>Runes and their encoding\<close>

definition scalar :: "nat \<Rightarrow> bool" where
  "scalar r \<longleftrightarrow> r < 1114112 \<and> \<not> (55296 \<le> r \<and> r < 57344)"

lemma of_char_small: "n < 256 \<Longrightarrow> of_char (char_of n :: char) = (n::nat)"
  by simp

lemma decodeRune_two: "\<not> of_char a < (128::nat) \<Longrightarrow> rune2 a b = Some r \<Longrightarrow> decodeRune a (b # s) = (r, 1)"
  by (auto simp: decodeRune_def split: list.splits)

lemma decodeRune_three:
  "\<not> of_char a < (128::nat) \<Longrightarrow> rune2 a b = None \<Longrightarrow> rune3 a b c = Some r \<Longrightarrow> decodeRune a (b # c # s) = (r, 2)"
  by (auto simp: decodeRune_def split: list.splits)

lemma decodeRune_four:
  "\<not> of_char a < (128::nat) \<Longrightarrow> rune2 a b = None \<Longrightarrow> rune3 a b c = None \<Longrightarrow> rune4 a b c d = Some r \<Longrightarrow>
     decodeRune a (b # c # d # s) = (r, 3)"
  by (auto simp: decodeRune_def)

lemma cont_low: "n < 64 \<Longrightarrow> cont (char_of (128 + n)) \<and> low6 (char_of (128 + n)) = n"
proof -
  assume "n < 64"
  then have "(128 + n) div 64 = 2" "(128 + n) mod 64 = n"
    by (auto intro: div_nat_eqI mod_nat_eqI)
  with \<open>n < 64\<close> show ?thesis by (simp add: cont_def low6_def)
qed

lemma decode_encode:
  assumes "scalar r"
  shows "\<exists>a t. encodeRune r = a # t \<and> decodeRune a (t @ s) = (r, length t)"
proof -
  consider "r < 128" | "128 \<le> r" "r < 2048" | "2048 \<le> r" "r < 65536" | "65536 \<le> r" "r < 1114112"
    using assms by (force simp: scalar_def)
  then show ?thesis
  proof cases
    case 1
    then show ?thesis by (simp add: encodeRune_def decodeRune_def)
  next
    case 2
    have x: "194 \<le> 192 + r div 64" "192 + r div 64 < 224" using 2 by auto
    have "rune2 (char_of (192 + r div 64)) (char_of (128 + r mod 64)) = Some r"
      using x by (simp add: rune2_def cont_low Let_def)
    from decodeRune_two [OF _ this] show ?thesis using 2 x by (simp add: encodeRune_def)
  next
    case 3
    have x: "r div 4096 < 16" using 3 by auto
    have r: "r div 4096 * 4096 + r div 64 mod 64 * 64 + r mod 64 = r"
      using div_mult_mod_eq [of "r div 64" 64] div_mult_mod_eq [of r 64] div_mult2_eq [of r 64 64, simplified] by linarith
    let ?a = "char_of (224 + r div 4096) :: char"
    have "rune2 ?a (char_of (128 + r div 64 mod 64)) = None" using x by (simp add: rune2_def Let_def)
    moreover have "rune3 ?a (char_of (128 + r div 64 mod 64)) (char_of (128 + r mod 64)) = Some r"
      using x r 3 assms by (simp add: rune3_def cont_low Let_def scalar_def)
    ultimately show ?thesis using decodeRune_three [of ?a] 3 x by (simp add: encodeRune_def)
  next
    case 4
    have x: "r div 262144 < 5" using 4 by auto
    have r: "r div 262144 * 262144 + r div 4096 mod 64 * 4096 + r div 64 mod 64 * 64 + r mod 64 = r"
      using div_mult_mod_eq [of "r div 4096" 64] div_mult_mod_eq [of "r div 64" 64] div_mult_mod_eq [of r 64]
        div_mult2_eq [of r 64 64, simplified] div_mult2_eq [of r 4096 64, simplified] by linarith
    let ?a = "char_of (240 + r div 262144) :: char"
    have "rune2 ?a b = None" "rune3 ?a b c = None" for b c using x by (simp_all add: rune2_def rune3_def Let_def)
    moreover have "rune4 ?a (char_of (128 + r div 4096 mod 64)) (char_of (128 + r div 64 mod 64)) (char_of (128 + r mod 64)) = Some r"
      using x r 4 by (simp add: rune4_def cont_low Let_def)
    ultimately show ?thesis using decodeRune_four [of ?a] 4 x by (simp add: encodeRune_def)
  qed
qed

lemma runes_encode: "scalar r \<Longrightarrow> runes (encodeRune r @ s) = r # runes s"
  using decode_encode [of r s] by auto

lemma runes_fromRunes: "list_all scalar rs \<Longrightarrow> runes (fromRunes rs @ s) = rs @ runes s"
  by (induction rs) (simp_all add: fromRunes_def runes_encode)

lemma decodeRune_scalar: "decodeRune a s = (r, k) \<Longrightarrow> scalar r"
proof (cases "k > 0")
  case True
  assume "decodeRune a s = (r, k)"
  then show ?thesis using True
  proof (cases rule: decodeRune_cases)
    case (two b t)
    then show ?thesis using low6_lt [of b] by (auto simp: rune2_def scalar_def Let_def split: if_splits)
  next
    case (three b c t)
    then show ?thesis using low6_lt [of b] low6_lt [of c] by (auto simp: rune3_def scalar_def Let_def split: if_splits)
  next
    case (four b c d t)
    then show ?thesis by (auto simp: rune4_def scalar_def Let_def split: if_splits)
  qed
next
  case False
  assume "decodeRune a s = (r, k)"
  then show ?thesis using False of_char_small
    by (auto simp: decodeRune_def scalar_def split: if_splits list.splits option.splits)
qed

lemma runes_scalar: "list_all scalar (runes s)"
proof (induction s rule: runes.induct)
  case (2 a s)
  obtain r k where d: "decodeRune a s = (r, k)" by fastforce
  with 2 decodeRune_scalar [OF d] show ?case by simp
qed simp

subsection \<open>Clamping\<close>

lemma ellipsis_encode: "ClampEllipsis = encodeRune 8230"
  by (simp add: ClampEllipsis_def encodeRune_def)

lemma runes_ellipsis: "runes ClampEllipsis = [8230]"
  using runes_encode [of 8230 "[]"] by (simp add: ellipsis_encode scalar_def)

lemma scalar_take: "list_all scalar (take n (runes s))"
  using runes_scalar [of s] by (auto simp: list_all_iff dest: in_set_takeD)

lemma Clamp_cases:
  assumes "0 < n"
  shows "Clamp s (int n) = (if length (runes s) \<le> n then s else fromRunes (take (n - 1) (runes s)) @ ClampEllipsis)"
proof -
  have "Clamp s (int n) = ClampEllipsis" if "n = 1" "\<not> length (runes s) \<le> 1"
    using that runes_ellipsis by (simp add: Clamp_def Let_def fromRunes_def ellipsis_encode del: runes.simps)
  then show ?thesis
    using assms by (auto simp: Clamp_def Let_def runes_ellipsis fromRunes_def nat_diff_distrib le_Suc_eq)
qed

lemma runes_Clamp:
  "0 < n \<Longrightarrow> runes (Clamp s (int n)) = (if length (runes s) \<le> n then runes s else take (n - 1) (runes s) @ [8230])"
  by (simp add: Clamp_cases runes_fromRunes scalar_take runes_ellipsis)

subsection \<open>Escaping, by runes\<close>

fun escapedRunes :: "bool \<Rightarrow> nat list \<Rightarrow> nat list" where
  "escapedRunes start [] = []"
| "escapedRunes start (r # rs) =
     (if r \<in> {92, 91, 93, 40, 41, 96} \<or> r = 35 \<and> start then [92] else []) @ r # escapedRunes (r = 10 \<or> r = 13) rs"

fun htmlRune :: "nat \<Rightarrow> nat list" where
  "htmlRune r = (if r = 38 then [38, 97, 109, 112, 59] else if r = 60 then [38, 108, 116, 59]
     else if r = 62 then [38, 103, 116, 59] else [r])"

abbreviation htmlRunes :: "nat list \<Rightarrow> nat list" where "htmlRunes rs \<equiv> concat (map htmlRune rs)"

lemma fromRunes_simps [simp]: "fromRunes [] = []" "fromRunes (r # rs) = encodeRune r @ fromRunes rs"
  "fromRunes (rs @ qs) = fromRunes rs @ fromRunes qs"
  by (simp_all add: fromRunes_def)

lemma encodeRune_backslash: "encodeRune 92 = [CHR 0x5C]"
  by code_simp

lemma escapeRunes_from: "escapeRunes start rs = fromRunes (escapedRunes start rs)"
  by (induction start rs rule: escapeRunes.induct) (auto simp: encodeRune_backslash)

lemma htmlEscape_append: "htmlEscapeScalars (s @ t) = htmlEscapeScalars s @ htmlEscapeScalars t"
  by (simp add: htmlEscapeScalars_def)

lemma htmlEscape_rune: "scalar r \<Longrightarrow> htmlEscapeScalars (encodeRune r) = fromRunes (htmlRune r)"
proof -
  assume "scalar r"
  have big: "htmlEscapeScalars (map char_of ns) = map char_of ns" if "list_all (\<lambda>n. 128 \<le> n \<and> n < 256) ns" for ns :: "nat list"
  proof -
    have "htmlEscapeChar (char_of n) = [char_of n]" if "128 \<le> n" "n < 256" for n :: nat
      using that by (auto simp: htmlEscapeChar_def dest!: arg_cong [where f = "of_char :: char \<Rightarrow> nat"])
    with that show ?thesis by (induction ns) (simp_all add: htmlEscapeScalars_def)
  qed
  show ?thesis
  proof (cases "r < 128")
    case True
    have named: "htmlEscapeChar (char_of (38::nat)) = fromRunes (htmlRune 38)"
      "htmlEscapeChar (char_of (60::nat)) = fromRunes (htmlRune 60)" "htmlEscapeChar (char_of (62::nat)) = fromRunes (htmlRune 62)"
      by code_simp+
    have "htmlEscapeChar (char_of r) = fromRunes (htmlRune r)"
    proof (cases "r \<in> {38, 60, 62}")
      case True
      with named show ?thesis by blast
    next
      case other: False
      then have "char_of r \<noteq> CHR ''&''" "char_of r \<noteq> CHR ''<''" "char_of r \<noteq> CHR ''>''"
        using True by (auto dest!: arg_cong [where f = "of_char :: char \<Rightarrow> nat"])
      with other True show ?thesis by (simp add: htmlEscapeChar_def encodeRune_def)
    qed
    with True show ?thesis by (simp add: htmlEscapeScalars_def encodeRune_def)
  next
    case False
    then have "r \<noteq> 38" "r \<noteq> 60" "r \<noteq> 62" by auto
    moreover have "htmlEscapeScalars (encodeRune r) = encodeRune r"
      unfolding encodeRune_def using False \<open>scalar r\<close>
      by (intro big) (auto simp: scalar_def)
    ultimately show ?thesis by simp
  qed
qed

lemma htmlEscape_from: "list_all scalar rs \<Longrightarrow> htmlEscapeScalars (fromRunes rs) = fromRunes (htmlRunes rs)"
  by (induction rs) (simp_all add: htmlEscape_append htmlEscape_rune, simp add: htmlEscapeScalars_def)

lemma escapedRunes_scalar: "list_all scalar rs \<Longrightarrow> list_all scalar (escapedRunes start rs)"
  by (induction rs arbitrary: start) (auto simp: scalar_def)

lemma htmlRunes_scalar: "list_all scalar rs \<Longrightarrow> list_all scalar (htmlRunes rs)"
  by (induction rs) (auto simp: scalar_def)

lemma EscapeMarkdown_from: "EscapeMarkdown s = fromRunes (htmlRunes (escapedRunes True (runes s)))"
  by (simp add: EscapeMarkdown_def backslashEscapeMarkdown_def escapeRunes_from htmlEscape_from escapedRunes_scalar runes_scalar)

lemma runes_EscapeMarkdown: "runes (EscapeMarkdown s) = htmlRunes (escapedRunes True (runes s))"
  using runes_fromRunes [of "htmlRunes (escapedRunes True (runes s))" "[]"]
  by (simp add: EscapeMarkdown_from htmlRunes_scalar escapedRunes_scalar runes_scalar)

lemma htmlRune_split: "htmlRune r @ rs = htmlRune q @ qs \<Longrightarrow> r = q \<and> rs = qs"
  by (auto split: if_splits)

declare htmlRune.simps [simp del]

lemma htmlRunes_inj: "htmlRunes rs = htmlRunes qs \<Longrightarrow> rs = qs"
proof (induction rs arbitrary: qs)
  case Nil
  then show ?case by (cases qs) (auto simp: htmlRune.simps split: if_splits)
next
  case (Cons r rs)
  then obtain q qs' where q: "qs = q # qs'" by (cases qs) (auto simp: htmlRune.simps split: if_splits)
  with Cons.prems have "r = q \<and> htmlRunes rs = htmlRunes qs'" by (intro htmlRune_split) simp
  with Cons.IH q show ?case by simp
qed

lemma escapedRunes_inj: "escapedRunes start rs = escapedRunes start qs \<Longrightarrow> rs = qs"
proof (induction rs arbitrary: qs start)
  case Nil
  then show ?case by (cases qs) (auto split: if_splits)
next
  case (Cons r rs)
  then obtain q qs' where q: "qs = q # qs'" by (cases qs) (auto split: if_splits)
  with Cons.prems have "r = q \<and> escapedRunes (r = 10 \<or> r = 13) rs = escapedRunes (r = 10 \<or> r = 13) qs'"
    by (auto split: if_splits)
  with Cons.IH q show ?case by blast
qed

subsection \<open>What an escaped value cannot contain\<close>

lemma encodeRune_ascii: "scalar r \<Longrightarrow> c \<in> set (encodeRune r) \<Longrightarrow> of_char c < (128::nat) \<Longrightarrow> r = of_char c"
  by (auto simp: encodeRune_def scalar_def split: if_splits)

lemma fromRunes_ascii: "list_all scalar rs \<Longrightarrow> c \<in> set (fromRunes rs) \<Longrightarrow> of_char c < (128::nat) \<Longrightarrow> of_char c \<in> set rs"
  by (induction rs) (auto dest: encodeRune_ascii)

lemma htmlRunes_no_angle: "60 \<notin> set (htmlRunes rs) \<and> 62 \<notin> set (htmlRunes rs)"
  by (induction rs) (auto simp: htmlRune.simps)

text \<open>A bracket, parenthesis or backtick stands only behind a backslash that is not escaped itself.\<close>

fun guarded :: "bool \<Rightarrow> nat list \<Rightarrow> bool" where
  "guarded esc [] = True"
| "guarded esc (r # rs) \<longleftrightarrow> (if r \<in> {91, 93, 40, 41, 96} then esc else True) \<and> guarded (r = 92 \<and> \<not> esc) rs"

lemma guarded_escaped: "guarded False (htmlRunes (escapedRunes start rs))"
  by (induction rs arbitrary: start) (auto simp: htmlRune.simps)

lemma guarded_take: "guarded esc rs \<Longrightarrow> guarded esc (take n rs @ [8230])"
proof (induction rs arbitrary: esc n)
  case (Cons r rs)
  then show ?case by (cases n) auto
qed simp

lemma EscapeAndClamp_runes:
  "\<exists>rs. EscapeAndClamp s = fromRunes rs \<and> list_all scalar rs \<and> length rs \<le> 500 \<and> guarded False rs \<and> 60 \<notin> set rs \<and> 62 \<notin> set rs"
proof -
  let ?e = "htmlRunes (escapedRunes True (runes s))"
  have e: "list_all scalar ?e" by (simp add: htmlRunes_scalar escapedRunes_scalar runes_scalar)
  have c: "EscapeAndClamp s = (if length ?e \<le> 500 then EscapeMarkdown s else fromRunes (take 499 ?e) @ ClampEllipsis)"
    using Clamp_cases [of 500 "EscapeMarkdown s"] by (simp add: EscapeAndClamp_def DefaultClampRunes_def runes_EscapeMarkdown)
  show ?thesis
  proof (cases "length ?e \<le> 500")
    case True
    with c e show ?thesis
      by (intro exI [of _ ?e]) (simp add: EscapeMarkdown_from guarded_escaped htmlRunes_no_angle del: set_concat)
  next
    case False
    have "60 \<notin> set (take 499 ?e)" "62 \<notin> set (take 499 ?e)"
      using htmlRunes_no_angle [of "escapedRunes True (runes s)"] in_set_takeD [of _ 499 ?e] by blast+
    moreover have "list_all scalar (take 499 ?e)" using e in_set_takeD [of _ 499 ?e] unfolding list_all_iff by blast
    moreover have "guarded False (take 499 ?e @ [8230])" by (rule guarded_take [OF guarded_escaped])
    ultimately show ?thesis using False c
      by (intro exI [of _ "take 499 ?e @ [8230]"]) (simp add: ellipsis_encode scalar_def)
  qed
qed

lemma EscapeAndClamp_no_angle [simp]: "CHR ''<'' \<notin> set (EscapeAndClamp s)" "CHR ''>'' \<notin> set (EscapeAndClamp s)"
proof -
  obtain rs where r: "EscapeAndClamp s = fromRunes rs" "list_all scalar rs" "60 \<notin> set rs" "62 \<notin> set rs"
    using EscapeAndClamp_runes [of s] by blast
  show "CHR ''<'' \<notin> set (EscapeAndClamp s)" "CHR ''>'' \<notin> set (EscapeAndClamp s)"
    using fromRunes_ascii [OF r(2), of "CHR ''<''"] fromRunes_ascii [OF r(2), of "CHR ''>''"] r by auto
qed

subsection \<open>Tags and comment closers\<close>

fun tagsOf :: "string \<Rightarrow> string list" where
  "tagsOf [] = []"
| "tagsOf (c # cs) = (if c = CHR ''<'' then takeWhile (\<lambda>x. x \<noteq> CHR ''>'') cs # tagsOf cs else tagsOf cs)"

lemma tagsOf_plain [simp]: "CHR ''<'' \<notin> set s \<Longrightarrow> tagsOf (s @ t) = tagsOf t"
  by (induction s) auto

lemma tagsOf_none [simp]: "CHR ''<'' \<notin> set s \<Longrightarrow> tagsOf s = []"
  using tagsOf_plain [of s "[]"] by simp

text \<open>
  Every \<open>>\<close> of a tame text ends a word in s or y, as the renderer's tags do, or the arrow behind a
  blank. Tame texts can be joined, and no joined text closes a comment, even without its closing tags.
\<close>

fun okGt :: "char \<Rightarrow> char \<Rightarrow> string \<Rightarrow> bool" where
  "okGt p q [] = True"
| "okGt p q (c # cs) \<longleftrightarrow>
     (if c = CHR ''>'' then q = CHR ''s'' \<or> q = CHR ''y'' \<or> q = CHR ''-'' \<and> p = CHR '' '' else True) \<and> okGt q c cs"

definition tame :: "string \<Rightarrow> bool" where
  "tame s \<longleftrightarrow> (\<forall>p q. okGt p q s)"

lemma okGt_append: "okGt p q s \<Longrightarrow> tame t \<Longrightarrow> okGt p q (s @ t)"
  by (induction p q s rule: okGt.induct) (auto simp: tame_def)

lemma tame_append [intro]: "tame s \<Longrightarrow> tame t \<Longrightarrow> tame (s @ t)"
  using okGt_append by (auto simp: tame_def)

lemma tame_plain [simp]: "CHR ''>'' \<notin> set s \<Longrightarrow> tame s"
proof -
  have "CHR ''>'' \<notin> set s \<Longrightarrow> okGt p q s" for p q by (induction p q s rule: okGt.induct) auto
  then show "CHR ''>'' \<notin> set s \<Longrightarrow> tame s" by (simp add: tame_def)
qed

lemma okGt_stripped:
  assumes "okGt p q s" "p = p' \<and> q = q' \<or> q = CHR ''>'' \<or> p = CHR ''>'' \<and> q = q'"
  shows "okGt p' q' (stripClosers s)"
  using assms
proof (induction s arbitrary: p q p' q' rule: stripClosers.induct)
  case 1
  then show ?case by simp
next
  case (2 c cs)
  show ?case
  proof (cases "prefix ''</summary>'' (c # cs) \<or> prefix ''</details>'' (c # cs)")
    case True
    then obtain rest where "c # cs = ''</summary>'' @ rest \<or> c # cs = ''</details>'' @ rest" by (auto simp: prefix_def)
    then have "drop 9 cs = rest" "\<exists>x. okGt x (CHR ''>'') rest" using "2.prems"(1) by auto
    with True 2 show ?thesis by auto
  next
    case False
    then have "stripClosers (c # cs) = c # stripClosers cs" by (simp only: stripClosers.simps if_False)
    moreover have "okGt q c cs" using "2.prems"(1) by simp
    ultimately show ?thesis using "2.prems" False "2.IH"(2) [of q c q' c] by (auto split: if_splits)
  qed
qed

lemma okGt_no_close: "okGt p q s \<Longrightarrow> \<not> containsSub s commentClose"
proof (induction p q s rule: okGt.induct)
  case (2 p q c cs)
  then have "\<not> containsSub cs commentClose" by simp
  moreover have "\<not> prefix commentClose (c # cs)"
  proof
    assume "prefix commentClose (c # cs)"
    then obtain zs where "c = CHR ''-''" "cs = ''->'' @ zs" by (auto simp: prefix_def)
    with 2(2) show False by simp
  qed
  ultimately show ?case by (simp del: prefix_code)
qed simp

lemma tame_body:
  "tame body \<Longrightarrow> validateEnvelopeBody body = (if containsSub body MarkerSentinel then Some ErrEmbeddedMarkerSentinel else None)"
  using okGt_no_close [OF okGt_stripped [of "CHR '' ''" "CHR '' ''" body "CHR '' ''" "CHR '' ''"]]
  by (auto simp: validateEnvelopeBody_def containsUnsafeCommentClose_def tame_def)

end
