(* ===== verification/RenderProps.thy ===== *)
theory RenderProps
  imports RenderFacts
begin

text \<open>
  The properties of the renderer: the HTML of a body is the renderer's own and no value in it closes
  the marker's comment, a sensitive value is not shown, and how a value is shown.
\<close>

subsection \<open>Bodies\<close>

definition foldTags :: "string list" where
  "foldTags = [''details'', ''summary'', ''/summary'', ''/details'']"

lemma itoa_angle [simp]: "CHR ''<'' \<notin> set (itoa i)" "CHR ''>'' \<notin> set (itoa i)"
proof -
  have "\<not> is_digit (CHR ''<'')" "\<not> is_digit (CHR ''>'')" by (simp_all add: is_digit_def)
  then show "CHR ''<'' \<notin> set (itoa i)" "CHR ''>'' \<notin> set (itoa i)"
    using nat_digits_digits by (auto simp: itoa_def list_all_iff)
qed

lemma char_of_angle [simp]:
  "n < 256 \<Longrightarrow> n \<noteq> 60 \<Longrightarrow> char_of (n::nat) \<noteq> CHR ''<''" "n < 256 \<Longrightarrow> n \<noteq> 62 \<Longrightarrow> char_of (n::nat) \<noteq> CHR ''>''"
  by (auto dest!: arg_cong [where f = "of_char :: char \<Rightarrow> nat"])

text \<open>The part of a body that stands between tags: no tag, and no closer of a comment.\<close>

definition inert_text :: "string \<Rightarrow> bool" where
  "inert_text s \<longleftrightarrow> CHR ''<'' \<notin> set s \<and> tame s"

lemma inert_text_plain [simp]: "CHR ''<'' \<notin> set s \<Longrightarrow> CHR ''>'' \<notin> set s \<Longrightarrow> inert_text s"
  by (simp add: inert_text_def)

lemma inert_text_append [simp]: "inert_text s \<Longrightarrow> inert_text t \<Longrightarrow> inert_text (s @ t)"
  by (auto simp: inert_text_def)

lemma inert_text_Cons [simp]: "c \<noteq> CHR ''<'' \<Longrightarrow> c \<noteq> CHR ''>'' \<Longrightarrow> inert_text s \<Longrightarrow> inert_text (c # s)"
  using inert_text_append [of "[c]" s] by simp

lemma inert_text_arrow [simp]: "inert_text s \<Longrightarrow> inert_text (CHR '' '' # CHR ''-'' # CHR ''>'' # s)"
proof -
  have "inert_text '' ->''" by (simp add: inert_text_def tame_def)
  then show "inert_text s \<Longrightarrow> ?thesis" using inert_text_append [of "'' ->''" s] by simp
qed

lemma inert_text_concat: "list_all inert_text ss \<Longrightarrow> inert_text (concat ss)"
  by (induction ss) auto

lemma inert_text_joinOn: "CHR ''<'' \<notin> set sep \<Longrightarrow> CHR ''>'' \<notin> set sep \<Longrightarrow> list_all inert_text ss \<Longrightarrow> inert_text (joinOn sep ss)"
  by (induction sep ss rule: joinOn.induct) auto

lemma inert_text_bullet: "inert_text line \<Longrightarrow> inert_text (bullet line)"
  by (simp add: bullet_def)

lemma tame_tags: "tame ''<details>''" "tame ''<summary>''" "tame ''</summary>''" "tame ''</details>''"
  by (simp_all add: tame_def)

lemma detailsBlock_shape:
  assumes "inert_text inner"
  shows "tame (detailsBlock title inner)" "tagsOf (detailsBlock title inner @ rest) = foldTags @ tagsOf rest"
proof -
  show "tame (detailsBlock title inner)"
    using assms unfolding detailsBlock_def inert_text_def by (intro tame_append tame_tags) auto
  show "tagsOf (detailsBlock title inner @ rest) = foldTags @ tagsOf rest"
    using assms by (simp add: detailsBlock_def inert_text_def foldTags_def)
qed

lemma activation_inert [simp]: "inert_text (formatActivationScalar libs v)"
  by (simp add: formatActivationScalar_def)

lemma matched_inert [simp]: "inert_text (matchedChangeLine libs ctx)"
  by (simp add: matchedChangeLine_def Let_def)

lemma facts_inert [simp]: "inert_text (factsUsedLine libs ctx)"
  by (auto simp: factsUsedLine_def formatFactActivationValue_def list_all_iff split: option.splits cval.splits
      intro!: inert_text_joinOn)

lemma lines_inert: "list_all inert_text (defaultEvaluationLines libs f ctx)"
  by (simp add: defaultEvaluationLines_def Let_def scoreLine_def)

lemma details_lines:
  assumes "debugLines libs f ctx = []"
  shows "\<exists>title inner. renderEvaluationDetails libs pm f ctx = detailsBlock title inner \<and> inert_text inner"
proof -
  let ?c = "collapsedPathsLine pm f ctx"
  let ?ls = "defaultEvaluationLines libs f ctx @ (if ?c \<noteq> [] then [?c] else [])"
  have "inert_text ?c" by (simp add: collapsedPathsLine_def Let_def)
  then have "list_all inert_text ?ls" using lines_inert by simp
  moreover have "list_all inert_text ls \<Longrightarrow> list_all inert_text (map bullet ls)" for ls
    by (induction ls) (simp_all add: inert_text_bullet)
  ultimately have "list_all inert_text (map bullet ?ls)" by blast
  then have "inert_text (concat (map bullet ?ls))" by (rule inert_text_concat)
  moreover have "?ls \<noteq> []" by (simp add: defaultEvaluationLines_def Let_def)
  then have "renderEvaluationDetails libs pm f ctx
      = detailsBlock (Chrome (cx_options ctx) ''evaluation_details'') (concat (map bullet ?ls))"
    unfolding renderEvaluationDetails_def Let_def assms append_Nil by (rule if_not_P)
  ultimately show ?thesis by blast
qed

lemma docs_shape: "renderDocsSection libs f ctx = [] \<or> (\<exists>title inner. renderDocsSection libs f ctx = detailsBlock title inner \<and> inert_text inner)"
proof (cases "map_of (cx_rules ctx) (rf_rule f)")
  case None
  then show ?thesis by (simp add: renderDocsSection_def)
next
  case (Some m)
  let ?inner = "\<lambda>summary url. (if summary \<noteq> [] then EscapeAndClamp summary @ [CHR 0x0A] else [])
      @ (if url \<noteq> [] then bytes [240, 159, 147, 150] @ '' ['' @ EscapeAndClamp (Chrome (cx_options ctx) ''full_documentation'')
           @ '']('' @ EscapeAndClamp url @ '')'' @ [CHR 0x0A] else [])"
  have i: "inert_text (?inner summary url)" for summary url by simp
  define s where "s = trimSpace (case EvalDocsSummary libs (rf_rule f) ctx of Inl _ \<Rightarrow> [] | Inr s \<Rightarrow> s)"
  have "renderDocsSection libs f ctx = (if s = [] \<and> trimSpace (rm_url m) = [] then []
      else detailsBlock (Chrome (cx_options ctx) ''why_this_check'') (?inner s (trimSpace (rm_url m))))"
    using Some by (simp add: renderDocsSection_def Let_def s_def)
  with i show ?thesis by metis
qed

text \<open>A part after a gap: nothing, or one folded block.\<close>

definition foldedPart :: "string \<Rightarrow> bool" where
  "foldedPart s \<longleftrightarrow> tame s \<and> ((\<forall>rest. tagsOf (s @ rest) = tagsOf rest) \<or> (\<forall>rest. tagsOf (s @ rest) = foldTags @ tagsOf rest))"

lemma foldedPart_none: "foldedPart []"
  by (simp add: foldedPart_def)

lemma foldedPart_gap: "x = [] \<or> (\<exists>title inner. x = detailsBlock title inner \<and> inert_text inner) \<Longrightarrow> foldedPart (gap x)"
proof (cases "x = []")
  case False
  assume "x = [] \<or> (\<exists>title inner. x = detailsBlock title inner \<and> inert_text inner)"
  with False obtain title inner where x: "x = detailsBlock title inner" "inert_text inner" by blast
  have "tame ([CHR 0x0A, CHR 0x0A] @ x)" using detailsBlock_shape(1) [OF x(2)] x(1) by (intro tame_append) auto
  with False x detailsBlock_shape(2) [OF x(2)] show ?thesis by (simp add: foldedPart_def gap_def)
qed (simp add: gap_def foldedPart_none)

definition ownTags :: "string \<Rightarrow> bool" where
  "ownTags body \<longleftrightarrow> tagsOf body \<in> {[], foldTags, foldTags @ foldTags}"

lemma thread_body:
  assumes "RenderFindingThread libs pm f ctx = Inr body"
  obtains head where "head \<noteq> []" "inert_text head"
    "body = head @ gap (renderDocsSection libs f ctx)
       @ (if op_verbosity (cx_options ctx) \<noteq> ''minimal'' then gap (renderEvaluationDetails libs pm f ctx) else [])"
proof -
  obtain h t where b: "h = ''**'' @ EscapeAndClamp t @ ''**''"
    "body = (h @ [CHR 0x0A, CHR 0x0A] @ EscapeAndClamp (Chrome (cx_options ctx) ''resolve_thread'')
       @ '' `'' @ EscapeAndClamp (rf_subject f) @ ''`'' @ bytes [32, 194, 183, 32] @ ''rule `'' @ EscapeAndClamp (rf_rule f) @ ''`'')
       @ gap (renderDocsSection libs f ctx)
       @ (if op_verbosity (cx_options ctx) \<noteq> ''minimal'' then gap (renderEvaluationDetails libs pm f ctx) else [])"
    using assms unfolding RenderFindingThread_def renderHeadline_def bind_res_Inr_iff sum.inject append_assoc by metis
  show thesis by (rule that [OF _ _ b(2)]) (simp_all add: b(1))
qed

lemma thread_shape:
  assumes "RenderFindingThread libs pm f ctx = Inr body" "debugLines libs f ctx = []"
  shows "ownTags body \<and> tame body"
proof -
  let ?docs = "gap (renderDocsSection libs f ctx)"
  let ?details = "if op_verbosity (cx_options ctx) \<noteq> ''minimal'' then gap (renderEvaluationDetails libs pm f ctx) else []"
  obtain head where b: "body = head @ ?docs @ ?details" "inert_text head"
    using thread_body [OF assms(1)] by blast
  have d: "foldedPart ?docs" "foldedPart ?details"
    using docs_shape details_lines [OF assms(2)] foldedPart_none by (auto intro!: foldedPart_gap)
  have "tame head" "tame ?docs" "tame ?details" using b(2) d unfolding inert_text_def foldedPart_def by blast+
  then have "tame body" unfolding b(1) by (intro tame_append)
  moreover have "tagsOf ?details = [] \<or> tagsOf ?details = foldTags"
    using d(2) unfolding foldedPart_def by (metis append_Nil2 tagsOf.simps(1))
  moreover have "tagsOf (?docs @ ?details) = tagsOf ?details \<or> tagsOf (?docs @ ?details) = foldTags @ tagsOf ?details"
    using d(1) unfolding foldedPart_def by blast
  ultimately have "tame body" "tagsOf (?docs @ ?details) \<in> {[], foldTags, foldTags @ foldTags}" by auto
  then have "tagsOf body \<in> {[], foldTags, foldTags @ foldTags}"
    using b by (simp add: inert_text_def)
  with \<open>tame body\<close> show ?thesis by (simp add: ownTags_def)
qed

lemma run_no_debug: "debugLines libs f (buildRenderContext libs src ri) = []"
proof -
  have "rm_debug m = []" if "map_of (rulesMetaFromPolicy src mp) n = Some m" for mp n m
    using map_of_SomeD [OF that] by (auto simp: rulesMetaFromPolicy_def)
  then show ?thesis by (auto simp: debugLines_def buildRenderContext_def Let_def split: option.splits)
qed

lemma summary_inert: "inert_text (RenderSummary pm ctx)"
proof -
  have "inert_text (summaryLine ctx f)" for f
    by (simp add: summaryLine_def inert_text_bullet effectEmoji_def)
  then have "list_all inert_text (map (summaryLine ctx) fs)" for fs by (induction fs) simp_all
  then have "inert_text (concat (map (summaryLine ctx) fs))" for fs by (rule inert_text_concat)
  then have "inert_text (if pm_findings pm = [] then '' none''
      else [CHR 0x0A] @ concat (map (summaryLine ctx) (sort_key summaryOrder (pm_findings pm))))" by simp
  then show ?thesis unfolding RenderSummary_def Let_def by (intro inert_text_append) simp_all
qed

definition enveloped :: "marker \<Rightarrow> string \<Rightarrow> envelope_error + string" where
  "enveloped m body = (if containsSub body MarkerSentinel then Inl ErrEmbeddedMarkerSentinel
     else Inr (FormatMarker m @ [CHR 0x0A, CHR 0x0A] @ body))"

lemma tame_enveloped: "tame body \<Longrightarrow> body \<noteq> [] \<Longrightarrow> Envelope m body = enveloped m body"
  by (simp add: Envelope_def tame_body enveloped_def)

subsection \<open>Secrets\<close>

text \<open>The facts without their secrets: a sensitive value, where there is one, is replaced by a constant.\<close>

definition hideValue :: "fact \<Rightarrow> fact" where
  "hideValue f = (if f_sensitive f \<and> f_value f \<noteq> GNil then f\<lparr>f_value := GBool True\<rparr> else f)"

definition hideSecrets :: "fact assoc assoc \<Rightarrow> fact assoc assoc" where
  "hideSecrets facts = map (\<lambda>(p, named). (p, map (\<lambda>(n, f). (n, hideValue f)) named)) facts"

lemma hideValue_state [simp]: "f_state (hideValue f) = f_state f" "f_sensitive (hideValue f) = f_sensitive f"
  by (simp_all add: hideValue_def)

lemma factDisplay_hidden [simp]: "factDisplay (hideValue f) = factDisplay f"
  by (simp add: factDisplay_def hideValue_def)

lemma factPaths_map: "factPaths (map (\<lambda>(p, named). (p, map (\<lambda>(n, f). (n, g f)) named)) facts) = factPaths facts"
proof -
  have "concat (map (\<lambda>(p, named). map (\<lambda>(n, f). p @ ''.'' @ n) named) (map (\<lambda>(p, named). (p, map (\<lambda>(n, f). (n, g f)) named)) facts))
      = concat (map (\<lambda>(p, named). map (\<lambda>(n, f). p @ ''.'' @ n) named) facts)"
    by (induction facts) (auto simp: case_prod_beta')
  then show ?thesis by (simp only: factPaths_def)
qed

lemma RedactFacts_hidden: "RedactFacts (hideSecrets facts) = RedactFacts facts"
  by (simp add: RedactFacts_def hideSecrets_def case_prod_beta')

lemma RenderFactsSection_hidden: "RenderFactsSection (hideSecrets facts) opts = RenderFactsSection facts opts"
  unfolding RenderFactsSection_def RedactFacts_hidden by (simp add: hideSecrets_def factPaths_map)

text \<open>The same on the activation.\<close>

lemma toCEL_not_null: "toCEL rt v = CNull \<longleftrightarrow> v = GNil"
  by (cases v) (auto split: option.splits)

lemma factToCEL_fields:
  "mapField ''state'' (factToCEL rt f) = Some (CStr (f_state f))"
  "mapField ''sensitive'' (factToCEL rt f) = Some (CBool (f_sensitive f))"
  "mapField ''value'' (factToCEL rt f) = (if f_state f = stateResolved \<and> f_value f \<noteq> GNil then Some (toCEL rt (f_value f)) else None)"
  by (simp_all add: mapField_def factToCEL_def)

lemma fact_shown_hidden:
  "formatMessageScalar libs (factToCEL (ml_cel libs) (hideValue f)) = formatMessageScalar libs (factToCEL (ml_cel libs) f)"
  by (auto simp: formatMessageScalar_def factToCEL_fields displayFactValue_def hideValue_def orNil_def isTrue_def toCEL_not_null)

abbreviation celFacts :: "cel_runtime \<Rightarrow> fact assoc assoc \<Rightarrow> cval assoc" where
  "celFacts rt facts \<equiv> map (\<lambda>(p, named). (p, CMap (map (\<lambda>(n, f). (n, factToCEL rt f)) named))) facts"

lemma factMaps_cel: "factMaps (celFacts rt facts) = map (\<lambda>(p, named). (p, map (\<lambda>(n, f). (n, factToCEL rt f)) named)) facts"
  by (induction facts) auto

lemma map_of_pairs: "map_of (map (\<lambda>(k, x). (k, g x)) xs) k = map_option g (map_of xs k)"
  by (induction xs) auto

definition usedFacts :: "renderLibs \<Rightarrow> fact assoc assoc \<Rightarrow> string" where
  "usedFacts libs facts = joinOn '', '' (concat (map (\<lambda>path. (case cutAt (CHR ''.'') path of
       None \<Rightarrow> []
     | Some (p, n) \<Rightarrow> (case map_of facts p of
         None \<Rightarrow> []
       | Some named \<Rightarrow> [''`'' @ EscapeAndClamp path @ ''`=''
           @ formatFactActivationValue libs (orNil (map_option (factToCEL (ml_cel libs)) (map_of named n)))]))) (factPaths facts)))"

lemma factsUsed_cel:
  assumes "mapField ''facts'' (cx_activation ctx) = Some (factsToCEL (ml_cel libs) facts)"
  shows "factsUsedLine libs ctx = usedFacts libs facts"
proof -
  have "(case map_of (celFacts (ml_cel libs) facts) p of Some (CMap named) \<Rightarrow> g named | _ \<Rightarrow> d)
      = (case map_of facts p of None \<Rightarrow> d | Some named \<Rightarrow> g (map (\<lambda>(n, f). (n, factToCEL (ml_cel libs) f)) named))" for p g d
    by (simp add: map_of_pairs split: option.split)
  then show ?thesis
    using assms by (simp add: factsUsedLine_def usedFacts_def factsToCEL_def factMaps_cel factPaths_map map_of_pairs cong: option.case_cong)
qed

lemma usedFacts_hidden: "usedFacts libs (hideSecrets facts) = usedFacts libs facts"
proof -
  have "formatFactActivationValue libs (orNil (map_option (factToCEL (ml_cel libs)) (map_option hideValue x)))
      = formatFactActivationValue libs (orNil (map_option (factToCEL (ml_cel libs)) x))" for x
    by (cases x) (simp_all add: formatFactActivationValue_def orNil_def fact_shown_hidden)
  then show ?thesis
    by (auto simp: usedFacts_def hideSecrets_def factPaths_map map_of_pairs split: option.split intro!: arg_cong [where f = "joinOn _"]
        arg_cong [where f = concat] map_cong)
qed

text \<open>The context of a run, with and without its secrets.\<close>

lemma runInput_hidden:
  "runInput cs mr req (hideSecrets facts) = (runInput cs mr req facts)\<lparr>in_facts := hideSecrets (in_facts (runInput cs mr req facts))\<rparr>"
  by (cases facts) (simp_all add: runInput_def Let_def hideSecrets_def BuildEvaluationInput_def)

abbreviation hidden :: "renderInputs \<Rightarrow> renderInputs" where
  "hidden ri \<equiv> ri\<lparr>ri_facts := hideSecrets (ri_facts ri)\<rparr>"

abbreviation activationOf :: "renderLibs \<Rightarrow> presentationSource \<Rightarrow> renderInputs \<Rightarrow> cval" where
  "activationOf libs src ri \<equiv> cx_activation (buildRenderContext libs src ri)"

lemma context_hidden [simp]:
  "cx_options (buildRenderContext libs src (hidden ri)) = cx_options (buildRenderContext libs src ri)"
  "cx_rules (buildRenderContext libs src (hidden ri)) = cx_rules (buildRenderContext libs src ri)"
  "cx_threshold (buildRenderContext libs src (hidden ri)) = cx_threshold (buildRenderContext libs src ri)"
  by (simp_all add: buildRenderContext_def Let_def)

lemma activation_cases:
  obtains env where "activationOf libs src ri = CMap [(''env'', CStr env)]" "activationOf libs src (hidden ri) = CMap [(''env'', CStr env)]"
  | i ch env where "activationOf libs src ri = bindLeafActivation (ml_cel libs) i ch env"
      "activationOf libs src (hidden ri) = bindLeafActivation (ml_cel libs) (i\<lparr>in_facts := hideSecrets (in_facts i)\<rparr>) ch env"
  by (cases "in_changes (runInput (ri_changes ri) (ri_mr ri) (b_require (ri_binding ri)) (ri_facts ri))")
    (auto simp: buildRenderContext_def Let_def runInput_hidden)

lemma field_hidden: "k \<noteq> ''facts'' \<Longrightarrow> mapField k (activationOf libs src (hidden ri)) = mapField k (activationOf libs src ri)"
  by (cases rule: activation_cases [of libs src ri]) (auto simp: mapField_def bindLeafActivation_def)

lemmas change_hidden = field_hidden [of "''path''", simplified] field_hidden [of "''kind''", simplified]
  field_hidden [of "''old''", simplified] field_hidden [of "''new''", simplified]

lemma facts_hidden:
  obtains "mapField ''facts'' (activationOf libs src ri) = None" "mapField ''facts'' (activationOf libs src (hidden ri)) = None"
  | facts where "mapField ''facts'' (activationOf libs src ri) = Some (factsToCEL (ml_cel libs) facts)"
      "mapField ''facts'' (activationOf libs src (hidden ri)) = Some (factsToCEL (ml_cel libs) (hideSecrets facts))"
  by (cases rule: activation_cases [of libs src ri]) (auto simp: mapField_def bindLeafActivation_def)

lemma sensitive_hidden: "SensitiveFactAt (activationOf libs src (hidden ri)) p n = SensitiveFactAt (activationOf libs src ri) p n"
proof (cases rule: facts_hidden [of libs src ri])
  case 1
  then show ?thesis by (simp add: SensitiveFactAt_def)
next
  case (2 facts)
  have "Option.bind (mapField p (factsToCEL rt fs)) (mapField n) = map_option (factToCEL rt) (Option.bind (map_of fs p) (\<lambda>named. map_of named n))" for rt fs
    by (cases "map_of fs p") (simp_all add: factsToCEL_def mapField_def map_of_pairs)
  moreover have "Option.bind (map_of (hideSecrets facts) p) (\<lambda>named. map_of named n) = map_option hideValue (Option.bind (map_of facts p) (\<lambda>named. map_of named n))"
    by (cases "map_of facts p") (simp_all add: hideSecrets_def map_of_pairs)
  ultimately show ?thesis using 2
    by (cases "Option.bind (map_of facts p) (\<lambda>named. map_of named n)") (simp_all add: SensitiveFactAt_def factToCEL_fields)
qed

lemma factsUsed_hidden: "factsUsedLine libs (buildRenderContext libs src (hidden ri)) = factsUsedLine libs (buildRenderContext libs src ri)"
proof (cases rule: facts_hidden [of libs src ri])
  case 1
  then show ?thesis by (simp add: factsUsedLine_def)
next
  case (2 facts)
  then show ?thesis by (simp add: factsUsed_cel usedFacts_hidden)
qed

lemma replaceSlots_cong:
  "(\<And>e. e \<in> fst ` set (slotOffsets s n) \<Longrightarrow> f e = g e) \<Longrightarrow> replaceSlots f s = replaceSlots g s"
proof (induction s n rule: slotOffsets.induct)
  case (2 c cs n)
  show ?case
  proof (cases "slotAt (c # cs)")
    case None
    then show ?thesis using 2 by simp
  next
    case (Some p)
    obtain body rest where p: "p = (body, rest)" by fastforce
    with Some 2(2) [OF Some p [symmetric]] "2.prems" show ?thesis by (simp add: image_iff)
  qed
qed simp

text \<open>A slot that shows the placeholder.\<close>

definition redactedSlot :: "cval \<Rightarrow> string \<Rightarrow> bool" where
  "redactedSlot act expr \<longleftrightarrow> (case FactRefFromExpr expr of Some (p, n) \<Rightarrow> SensitiveFactAt act p n | None \<Rightarrow> False)"

lemma evalMessageSlot_redacted:
  "evalMessageSlot libs act expr = (if redactedSlot act expr then Inr (EscapeAndClamp RedactedDisplay)
     else (case evalScalar (ml_cel libs) expr act of
          Inl e \<Rightarrow> Inl (SlotFailed e)
        | Inr v \<Rightarrow> Inr (EscapeAndClamp (if ml_built libs expr then ml_text libs v else formatMessageScalar libs v))))"
  by (simp only: evalMessageSlot_def redactedSlot_def)

lemma redactedSlot_hidden: "redactedSlot (activationOf libs src (hidden ri)) expr = redactedSlot (activationOf libs src ri) expr"
  by (simp only: redactedSlot_def sensitive_hidden)

definition slotsAgree :: "renderLibs \<Rightarrow> cval \<Rightarrow> cval \<Rightarrow> string \<Rightarrow> bool" where
  "slotsAgree libs act act' tmpl \<longleftrightarrow> list_all (\<lambda>slot. redactedSlot act (sl_expr slot)
     \<or> rt_eval (ml_cel libs) (sl_expr slot) act' = rt_eval (ml_cel libs) (sl_expr slot) act) (ParseMessageSlots tmpl)"

lemma slot_exprs: "sl_expr ` set (ParseMessageSlots tmpl) = fst ` set (slotOffsets tmpl 0)"
proof -
  have "map sl_expr (ParseMessageSlots tmpl) = map fst (slotOffsets tmpl 0)"
    by (auto simp: ParseMessageSlots_def split: prod.splits)
  then show ?thesis by (metis set_map)
qed

lemma EvalMessage_hidden:
  assumes "slotsAgree libs (activationOf libs src ri) (activationOf libs src (hidden ri)) tmpl"
  shows "EvalMessage libs tmpl (buildRenderContext libs src (hidden ri)) = EvalMessage libs tmpl (buildRenderContext libs src ri)"
proof -
  have "evalMessageSlot libs (activationOf libs src (hidden ri)) e = evalMessageSlot libs (activationOf libs src ri) e"
    if "e \<in> fst ` set (slotOffsets tmpl 0)" for e
  proof -
    from that have "e \<in> sl_expr ` set (ParseMessageSlots tmpl)" by (simp only: slot_exprs)
    then obtain slot where "slot \<in> set (ParseMessageSlots tmpl)" "e = sl_expr slot" by blast
    then have "redactedSlot (activationOf libs src ri) e
        \<or> rt_eval (ml_cel libs) e (activationOf libs src (hidden ri)) = rt_eval (ml_cel libs) e (activationOf libs src ri)"
      using assms unfolding slotsAgree_def list_all_iff by blast
    then have "redactedSlot (activationOf libs src ri) e
        \<or> evalScalar (ml_cel libs) e (activationOf libs src (hidden ri)) = evalScalar (ml_cel libs) e (activationOf libs src ri)"
      by (elim disjE) (simp_all only: evalScalar_def simp_thms)
    then show ?thesis by (auto simp only: evalMessageSlot_redacted redactedSlot_hidden if_True)
  qed
  then have "replaceSlots (evalMessageSlot libs (activationOf libs src (hidden ri))) tmpl = replaceSlots (evalMessageSlot libs (activationOf libs src ri)) tmpl"
    by (rule replaceSlots_cong)
  then show ?thesis by (simp only: EvalMessage_def ReplaceMessageSlots_def)
qed

subsection \<open>Properties\<close>

text \<open>
  C27: the HTML of what a run publishes is its own. Whatever texts the changes, the facts, the findings
  and the policy bring in, the summary has no tag at all and a thread at most two folded blocks, each
  properly closed, and no text of them closes the comment of the marker: the envelope takes the body,
  unless it has the words that start a marker.
\<close>

theorem rendered_bodies_own_html:
  "tagsOf (RenderSummary pm ctx) = [] \<and> Envelope m (RenderSummary pm ctx) = enveloped m (RenderSummary pm ctx)
   \<and> (case runThread libs src pm f ri of
        None \<Rightarrow> True
      | Some body \<Rightarrow> ownTags body \<and> Envelope m body = enveloped m body)"
proof -
  have "RenderSummary pm ctx \<noteq> []" by (simp add: RenderSummary_def Let_def)
  then have s: "tagsOf (RenderSummary pm ctx) = []" "Envelope m (RenderSummary pm ctx) = enveloped m (RenderSummary pm ctx)"
    using summary_inert [of pm ctx] by (simp_all add: inert_text_def tame_enveloped)
  have "ownTags body \<and> Envelope m body = enveloped m body" if "runThread libs src pm f ri = Some body" for body
  proof -
    have b: "RenderFindingThread libs pm f (buildRenderContext libs src ri) = Inr body"
      using that by (simp add: runThread_def split: sum.splits)
    then have "body \<noteq> []" using thread_body by blast
    with thread_shape [OF b run_no_debug] show ?thesis by (simp add: tame_enveloped)
  qed
  with s show ?thesis by (simp split: option.split)
qed

lemma meta_of_rule:
  "map_of (cx_rules (buildRenderContext libs src ri)) n = Some m \<Longrightarrow>
     \<exists>r \<in> set (mp_rules (ri_policy ri)). rm_message m = r_message r \<and> rm_summary m = [] \<and> rm_debug m = []"
  using map_of_SomeD [of "rulesMetaFromPolicy src (ri_policy ri)" n m]
  by (auto simp: buildRenderContext_def Let_def rulesMetaFromPolicy_def)

lemma headline_hidden:
  assumes "list_all (\<lambda>r. slotsAgree libs (activationOf libs src ri) (activationOf libs src (hidden ri)) (r_message r)) (mp_rules (ri_policy ri))"
  shows "renderHeadline libs f (buildRenderContext libs src (hidden ri)) = renderHeadline libs f (buildRenderContext libs src ri)"
proof -
  let ?c = "buildRenderContext libs src ri" and ?h = "buildRenderContext libs src (hidden ri)"
  have "EvalMessage libs (rm_message m) ?h = EvalMessage libs (rm_message m) ?c" if "map_of (cx_rules ?c) n = Some m" for n m
    using meta_of_rule [OF that] assms EvalMessage_hidden [of libs src ri] by (auto simp: list_all_iff)
  then have "ruleHeadlineText libs f ?h = ruleHeadlineText libs f ?c"
    by (auto simp: ruleHeadlineText_def Let_def split: option.splits)
  then show ?thesis by (simp add: renderHeadline_def)
qed

lemma docs_hidden: "renderDocsSection libs f (buildRenderContext libs src (hidden ri)) = renderDocsSection libs f (buildRenderContext libs src ri)"
proof -
  let ?c = "buildRenderContext libs src ri" and ?h = "buildRenderContext libs src (hidden ri)"
  have "EvalMessage libs [] ctx = Inr []" for ctx
    by (simp add: EvalMessage_def CompileMessageTemplate_def ReplaceMessageSlots_def)
  then have "EvalDocsSummary libs n ?h = EvalDocsSummary libs n ?c" for n
    using meta_of_rule [of libs src ri n] by (auto simp: EvalDocsSummary_def split: option.split)
  then show ?thesis by (simp only: renderDocsSection_def context_hidden)
qed

lemma details_hidden:
  "renderEvaluationDetails libs pm f (buildRenderContext libs src (hidden ri)) = renderEvaluationDetails libs pm f (buildRenderContext libs src ri)"
proof -
  let ?c = "buildRenderContext libs src ri" and ?h = "buildRenderContext libs src (hidden ri)"
  have "matchedChangeLine libs ?h = matchedChangeLine libs ?c"
    by (simp only: matchedChangeLine_def textField_def change_hidden Let_def)
  then have "defaultEvaluationLines libs f ?h = defaultEvaluationLines libs f ?c"
    by (simp only: defaultEvaluationLines_def factsUsed_hidden scoreLine_def context_hidden)
  then show ?thesis by (simp only: renderEvaluationDetails_def run_no_debug collapsedPathsLine_def context_hidden)
qed

text \<open>
  C28: the value of a sensitive fact is not shown. What a run publishes is the same whatever the
  sensitive values are, provided that no slot of a message computes with them: a slot that begins
  with a sensitive fact may stay, for it shows the placeholder. The facts section needs no proviso.
\<close>

theorem secrets_not_shown:
  assumes "list_all (\<lambda>r. slotsAgree libs (activationOf libs src ri) (activationOf libs src (hidden ri)) (r_message r)) (mp_rules (ri_policy ri))"
  shows "runThread libs src pm f (hidden ri) = runThread libs src pm f ri
    \<and> runSummary libs src pm (hidden ri) = runSummary libs src pm ri
    \<and> RenderFactsSection (hideSecrets (ri_facts ri)) opts = RenderFactsSection (ri_facts ri) opts"
proof -
  have "RenderFindingThread libs pm f (buildRenderContext libs src (hidden ri)) = RenderFindingThread libs pm f (buildRenderContext libs src ri)"
    by (simp only: RenderFindingThread_def headline_hidden [OF assms] docs_hidden details_hidden context_hidden)
  moreover have "runSummary libs src pm (hidden ri) = runSummary libs src pm ri"
    by (simp only: runSummary_def RenderSummary_def summaryLine_def [abs_def] context_hidden)
  ultimately show ?thesis by (simp add: runThread_def RenderFactsSection_hidden)
qed

definition page_libs :: renderLibs where
  "page_libs = \<lparr>ml_cel = \<lparr>rt_newEnv = (\<lambda>_. None), rt_compile = (\<lambda>_ _. None), rt_program = (\<lambda>_ _. None),
       rt_eval = (\<lambda>_ act. ([], None, Some (CStr (textField ''path'' act)))), rt_parseFloat = (\<lambda>_. True), rt_fmtDouble = id\<rparr>,
     ml_issueAt = (\<lambda>_. None), ml_json = (\<lambda>_. []), ml_built = (\<lambda>_. False), ml_text = (\<lambda>_. [])\<rparr>"

definition secret_rule :: rule where
  "secret_rule = \<lparr>r_name = ''r'', r_phase = PhaseEnforce,
     r_match = \<lparr>m_files = None, m_values = None, m_fileEvents = None, m_valueChanges = None\<rparr>,
     r_prove = None, r_onFailure = None, r_effect = EffectBlock,
     r_message = ''{{ facts.vault.key.value }} at {{ path }}'', r_points = 0\<rparr>"

definition secret_inputs :: "string \<Rightarrow> renderInputs" where
  "secret_inputs v = \<lparr>ri_config = None, ri_policy = \<lparr>mp_name = [], mp_rules = [secret_rule]\<rparr>,
     ri_binding = \<lparr>b_class = [], b_environment = ''prod'', b_packs = [], b_threshold = 0, b_require = []\<rparr>,
     ri_changes = \<lparr>cs_changes = [noChange], cs_opaque = False, cs_reason = []\<rparr>,
     ri_facts = [(''vault'', [(''key'', \<lparr>f_state = stateResolved, f_sensitive = True, f_observedAt = [], f_expiresAt = [],
        f_value = GStr v, f_reason = []\<rparr>)])],
     ri_mr = \<lparr>mr_author = [], mr_sourceBranch = [], mr_targetBranch = [], mr_labels = []\<rparr>\<rparr>"

definition vault_finding :: recordFinding where
  "vault_finding = \<lparr>rf_rule = ''r'', rf_obligation = [], rf_effect = EffectBlock, rf_subject = [], rf_points = 0, rf_code = ''r''\<rparr>"

definition vault_page :: presentationModel where
  "vault_page = \<lparr>pm_apiVersion = ''v1'', pm_kind = ''DecisionRecord'', pm_decision = BLOCK, pm_findings = [vault_finding]\<rparr>"

theorem secrets_not_shown_witness:
  "runThread page_libs \<lparr>ps_presentation = (\<lambda>_. None), ps_docsURL = (\<lambda>_. [])\<rparr> vault_page vault_finding (hidden (secret_inputs ''hunter2''))
     = runThread page_libs \<lparr>ps_presentation = (\<lambda>_. None), ps_docsURL = (\<lambda>_. [])\<rparr> vault_page vault_finding (secret_inputs ''hunter2'')
   \<and> hideSecrets (ri_facts (secret_inputs ''hunter2'')) \<noteq> ri_facts (secret_inputs ''hunter2'')"
proof -
  let ?s = "\<lparr>ps_presentation = (\<lambda>_. None), ps_docsURL = (\<lambda>_. [])\<rparr> :: presentationSource"
  have "slotsAgree page_libs (activationOf page_libs ?s ri) (activationOf page_libs ?s (hidden ri)) tmpl" for ri tmpl
    by (simp add: slotsAgree_def page_libs_def textField_def change_hidden list_all_iff)
  then have agree: "list_all (\<lambda>r. slotsAgree page_libs (activationOf page_libs ?s ri) (activationOf page_libs ?s (hidden ri)) (r_message r)) rs" for ri rs
    by (simp add: list_all_iff)
  have "runThread page_libs ?s vault_page vault_finding (hidden (secret_inputs ''hunter2'')) = runThread page_libs ?s vault_page vault_finding (secret_inputs ''hunter2'')"
    using secrets_not_shown [OF agree] by blast
  moreover have "hideSecrets (ri_facts (secret_inputs ''hunter2'')) \<noteq> ri_facts (secret_inputs ''hunter2'')"
    by (simp add: secret_inputs_def hideSecrets_def hideValue_def)
  ultimately show ?thesis by blast
qed

text \<open>
  C30: an expression shows what its plain reference hides. A slot is redacted by its text only: one that
  wraps the sensitive fact in a conversion does not begin with \<open>facts.\<close>, so a runtime that evaluates it
  as CEL does puts the secret into the message.
\<close>

theorem wrapped_secret_shown:
  assumes "rt_newEnv (ml_cel libs) newEvalEnv = None"
    and "rt_compile (ml_cel libs) newEvalEnv ''string(facts.vault.key.value)'' = None"
    and "rt_program (ml_cel libs) celCostBudget ''string(facts.vault.key.value)'' = None"
    and "rt_eval (ml_cel libs) ''string(facts.vault.key.value)'' (cx_activation ctx) = (tr, None, Some (CStr secret))"
    and "\<not> ml_built libs ''string(facts.vault.key.value)''"
    and "SensitiveFactAt (cx_activation ctx) ''vault'' ''key''"
  shows "EvalMessage libs ''{{string(facts.vault.key.value)}}'' ctx = Inr (EscapeAndClamp secret)
    \<and> evalMessageSlot libs (cx_activation ctx) ''facts.vault.key.value'' = Inr (EscapeAndClamp RedactedDisplay)"
proof -
  let ?e = "''string(facts.vault.key.value)''" and ?t = "''{{string(facts.vault.key.value)}}''"
  have c: "containsSub ?t ''{{''" by simp
  have s: "slotAt ?t = Some (?e, [])" by (simp add: slotAt_def)
  have t: "trimSpace ?e = ?e" by (rule trimSpace_plain) simp_all
  have ref: "FactRefFromExpr ''facts.vault.key.value'' = Some (''vault'', ''key'')" "FactRefFromExpr ?e = None"
    by (simp_all add: FactRefFromExpr_def trimPrefix_def)
  have "slotOffsets ?t 0 = [(?e, 0)]"
    using slotOffsets.simps(2) [of "CHR ''{''" "''{string(facts.vault.key.value)}}''" 0] by (simp add: s t)
  then obtain sl where sl: "ParseMessageSlots ?t = [sl]" "sl_expr sl = ?e"
    by (simp add: ParseMessageSlots_def)
  have "CompileMessageTemplate (ml_cel libs) (ml_issueAt libs) ?t = None"
    using assms(1-3) c by (simp add: CompileMessageTemplate_def sl compileMessageSlot_def)
  moreover have e: "evalMessageSlot libs (cx_activation ctx) ?e = Inr (EscapeAndClamp secret)"
    using assms by (simp add: evalMessageSlot_def ref evalScalar_def compileCheck_def formatMessageScalar_def mapField_def)
  moreover have "replaceSlots g ?t = bind_res (g ?e) (\<lambda>r. Inr (r @ []))" for g :: "string \<Rightarrow> message_error + string"
    using replaceSlots.simps(2) [of g "CHR ''{''" "''{string(facts.vault.key.value)}}''"] by (simp add: s t)
  ultimately show ?thesis
    using c assms(6) by (simp add: EvalMessage_def ReplaceMessageSlots_def evalMessageSlot_def ref)
qed

text \<open>A runtime that reads the value of the fact, as the conversion of a text does.\<close>

definition vault_libs :: renderLibs where
  "vault_libs = page_libs\<lparr>ml_cel := (ml_cel page_libs)\<lparr>rt_eval := (\<lambda>_ act. ([], None,
     Option.bind (Option.bind (Option.bind (mapField ''facts'' act) (mapField ''vault'')) (mapField ''key'')) (mapField ''value'')))\<rparr>\<rparr>"

definition vault_context :: renderContext where
  "vault_context = \<lparr>cx_options = DefaultOptions,
     cx_activation = CMap [(''facts'', factsToCEL (ml_cel page_libs) (ri_facts (secret_inputs ''hunter2'')))], cx_rules = [], cx_threshold = 0\<rparr>"

theorem wrapped_secret_shown_witness:
  "EvalMessage vault_libs ''{{string(facts.vault.key.value)}}'' vault_context = Inr (EscapeAndClamp ''hunter2'')"
  by (rule wrapped_secret_shown [THEN conjunct1])
    (simp_all add: vault_libs_def page_libs_def vault_context_def secret_inputs_def factsToCEL_def SensitiveFactAt_def mapField_def factToCEL_def)

text \<open>
  C29: how a value is shown: in at most 500 characters, without angle brackets, and with no bracket,
  parenthesis or backtick that a backslash does not guard. A value that fits is shown whole; a longer
  one loses its end to an ellipsis. Two values have the same escaped text only if they are the same
  sequence of characters.
\<close>

theorem shown_value:
  "length (runes (EscapeAndClamp s)) \<le> 500 \<and> CHR ''<'' \<notin> set (EscapeAndClamp s) \<and> CHR ''>'' \<notin> set (EscapeAndClamp s)
   \<and> guarded False (runes (EscapeAndClamp s))
   \<and> runes (EscapeAndClamp s) = (if length (runes (EscapeMarkdown s)) \<le> 500 then runes (EscapeMarkdown s)
        else take 499 (runes (EscapeMarkdown s)) @ [8230])
   \<and> (EscapeMarkdown s = EscapeMarkdown t \<longleftrightarrow> runes s = runes t)"
proof -
  obtain rs where "EscapeAndClamp s = fromRunes rs" "list_all scalar rs" "length rs \<le> 500" "guarded False rs"
    using EscapeAndClamp_runes [of s] by blast
  then have "length (runes (EscapeAndClamp s)) \<le> 500" "guarded False (runes (EscapeAndClamp s))"
    using runes_fromRunes [of rs "[]"] by simp_all
  moreover have "EscapeMarkdown s = EscapeMarkdown t \<longleftrightarrow> runes s = runes t"
    using htmlRunes_inj escapedRunes_inj by (metis EscapeMarkdown_from runes_EscapeMarkdown)
  ultimately show ?thesis
    using runes_Clamp [of 500 "EscapeMarkdown s"] EscapeAndClamp_no_angle [of s]
    by (simp add: EscapeAndClamp_def DefaultClampRunes_def)
qed


end
