(* ===== verification/Lint.thy ===== *)
theory Lint
  imports Classify Decide
begin

text \<open>
  \<open>internal/lint\<close>: the checks of the authoring tree. A diagnostic carries its code, its place and the
  values its sentence names, the first of them telling which sentence of the code it is; the sentences
  are a parameter. The YAML decoders, the strict loaders, the CEL parser and the order in which Go
  ranges over the map of packs are parameters as well.
\<close>

subsection \<open>Diagnostics and sources\<close>

record diagnostic =
  dg_code :: string
  dg_severity :: string
  dg_file :: string
  dg_name :: string
  dg_words :: "string list"

abbreviation SeverityError :: string where "SeverityError \<equiv> ''error''"

definition addError :: "string \<Rightarrow> string \<Rightarrow> string \<Rightarrow> string list \<Rightarrow> diagnostic" where
  "addError code file name words =
     \<lparr>dg_code = code, dg_severity = SeverityError, dg_file = file, dg_name = name, dg_words = words\<rparr>"

abbreviation CodeObligationCoverage :: string where "CodeObligationCoverage \<equiv> ''obligation-coverage''"
abbreviation CodeBindingRequireEmpty :: string where "CodeBindingRequireEmpty \<equiv> ''binding-require-empty''"
abbreviation CodeSchemaInvalid :: string where "CodeSchemaInvalid \<equiv> ''schema-invalid''"
abbreviation CodeParseError :: string where "CodeParseError \<equiv> ''parse-error''"
abbreviation CodeReservedClass :: string where "CodeReservedClass \<equiv> ''reserved-class''"
abbreviation CodeNoImplicitEnforcePhase :: string where "CodeNoImplicitEnforcePhase \<equiv> ''no-implicit-enforce-phase''"
abbreviation CodeUnkeyedList :: string where "CodeUnkeyedList \<equiv> ''unkeyed-list''"
abbreviation CodeFactsReferenceSyntax :: string where "CodeFactsReferenceSyntax \<equiv> ''facts-reference-syntax''"
abbreviation CodeFactsReferenceShape :: string where "CodeFactsReferenceShape \<equiv> ''facts-reference-shape''"
abbreviation CodeUndeclaredPredicateScope :: string where "CodeUndeclaredPredicateScope \<equiv> ''undeclared-predicate-scope''"
abbreviation CodeMessageTemplateScope :: string where "CodeMessageTemplateScope \<equiv> ''message-template-scope''"
abbreviation CodeTier1Deferred :: string where "CodeTier1Deferred \<equiv> ''tier-1-deferred''"
abbreviation CodeFailOpen :: string where "CodeFailOpen \<equiv> ''fail-open''"
abbreviation CodeSingleWriterProfile :: string where "CodeSingleWriterProfile \<equiv> ''single-writer-profile''"
abbreviation CodeTestsPerRule :: string where "CodeTestsPerRule \<equiv> ''tests-per-rule''"

record lintSource =
  so_path :: string
  so_bytes :: string

text \<open>
  Of a decoded rule the checks also read the summary of its documentation and its debug lines, and of a
  policy its entries, which the records of the engine leave out.
\<close>

record lintRule =
  lr_rule :: rule
  lr_summary :: string
  lr_debug :: "string list"

record lintEntry =
  le_mode :: string
  le_pointer :: string

record ingestedDoc =
  id_path :: string
  id_isPack :: bool
  id_rules :: "lintRule list"
  id_entries :: "lintEntry assoc"
  id_packPhase :: phase
  id_packName :: string

record lintModel =
  lm_bindings :: "(string \<times> binding) list"
  lm_packs :: "lintRule list assoc"
  lm_docs :: "ingestedDoc list"

text \<open>A parsed expression: what the checks see of the tree of cel-go.\<close>

datatype celExpr =
    AIdent string
  | ASelect celExpr string
  | ACall string "celExpr option" "celExpr list"
  | AOther "celExpr list"

record lintLibs =
  ll_kind :: "string \<Rightarrow> string + string"
  ll_bindings :: "string \<Rightarrow> binding list option"
  ll_policy :: "string \<Rightarrow> (lintRule list \<times> lintEntry assoc) option"
  ll_pack :: "string \<Rightarrow> (string \<times> phase) option"
  ll_config :: "string \<Rightarrow> config option"
  ll_profile :: "string \<Rightarrow> profile option"
  ll_cases :: "string \<Rightarrow> string list option"
  ll_loadBinding :: "string \<Rightarrow> string option"
  ll_loadPolicy :: "string \<Rightarrow> string option"
  ll_loadPack :: "string \<Rightarrow> string option"
  ll_loadConfig :: "string \<Rightarrow> string option"
  ll_celEnv :: "string option"
  ll_parse :: "string \<Rightarrow> string + celExpr"
  ll_cel :: cel_runtime
  ll_evalErr :: "eval_error \<Rightarrow> string"
  ll_policyErr :: "policy_error \<Rightarrow> string"
  ll_order :: "string list \<Rightarrow> string list"
  ll_sentence :: "string \<Rightarrow> string list \<Rightarrow> string"

subsection \<open>Errors of the schema validator\<close>

definition isBlank :: "char \<Rightarrow> bool" where
  "isBlank c \<longleftrightarrow> c \<in> set (map char_of [9, 10, 12, 13, 32 :: nat])"

definition uriChar :: "char \<Rightarrow> bool" where
  "uriChar c \<longleftrightarrow> \<not> isBlank c \<and> c \<noteq> CHR 0x27 \<and> c \<noteq> CHR 0x22"

text \<open>
  \<open>normalizeLoaderError\<close>: an address \<open>file://...\<close> is replaced by the part behind its last slash; the
  expression takes as much as it can, and slashes at the very end stay.
\<close>

function normalizeLoaderError :: "string \<Rightarrow> string" where
  "normalizeLoaderError [] = []"
| "normalizeLoaderError (c # cs) =
     (let run = takeWhile uriChar (drop 7 (c # cs));
          core = rev (dropWhile (\<lambda>x. x = CHR ''/'') (rev run)) in
      if prefix ''file://'' (c # cs) \<and> CHR ''/'' \<in> set core
      then afterLast (CHR ''/'') core @ normalizeLoaderError (drop (7 + length core) (c # cs))
      else c # normalizeLoaderError cs)"
  by pat_completeness auto
termination by (relation "measure length") auto

text \<open>The causes form a forest by indentation: below a line stand the following lines with more of it.\<close>

datatype indentNode = IndentNode string "indentNode list"

definition indentOf :: "string \<Rightarrow> nat" where
  "indentOf line = length (takeWhile (\<lambda>c. c = CHR '' '') line)"

function indentForest :: "string list \<Rightarrow> indentNode list" where
  "indentForest [] = []"
| "indentForest (l # ls) =
     (let below = takeWhile (\<lambda>x. indentOf l < indentOf x) ls
      in IndentNode l (indentForest below) # indentForest (drop (length below) ls))"
  by pat_completeness auto
termination
  by (relation "measure length") (auto simp: le_imp_less_Suc length_takeWhile_le)

definition parseIndentForest :: "string list \<Rightarrow> indentNode list" where
  "parseIndentForest ls = indentForest (filter (\<lambda>l. trimSpace l \<noteq> []) ls)"

fun renderIndentNode :: "indentNode \<Rightarrow> string" where
  "renderIndentNode (IndentNode l ns) = l @ concat (map (\<lambda>n. CHR 0x0A # renderIndentNode n) ns)"

fun sortIndentNode :: "indentNode \<Rightarrow> indentNode" where
  "sortIndentNode (IndentNode l ns) = IndentNode l (sort_key renderIndentNode (map sortIndentNode ns))"

definition sortIndentForest :: "indentNode list \<Rightarrow> indentNode list" where
  "sortIndentForest ns = sort_key renderIndentNode (map sortIndentNode ns)"

definition canonicalizeSchemaError :: "string \<Rightarrow> string" where
  "canonicalizeSchemaError msg =
     (case splitOn (CHR 0x0A) msg of
        l # l' # ls \<Rightarrow> l @ concat (map (\<lambda>n. CHR 0x0A # renderIndentNode n) (sortIndentForest (parseIndentForest (l' # ls))))
      | _ \<Rightarrow> msg)"

definition schemaInvalid :: "string \<Rightarrow> string \<Rightarrow> diagnostic" where
  "schemaInvalid path err = addError CodeSchemaInvalid path [] [canonicalizeSchemaError (normalizeLoaderError err)]"

text \<open>The text behind the first \<open>': \<close> of a line.\<close>

fun complaint :: "string \<Rightarrow> string option" where
  "complaint [] = None"
| "complaint (c # cs) = (if prefix [CHR 0x27, CHR '':'', CHR '' ''] (c # cs) then Some (drop 2 cs) else complaint cs)"

fun phaseOnly :: "string list \<Rightarrow> bool \<Rightarrow> bool" where
  "phaseOnly [] seen = seen"
| "phaseOnly (l # ls) seen = (case complaint l of
       None \<Rightarrow> phaseOnly ls seen
     | Some t \<Rightarrow>
         if trimSpace t = ''validation failed'' then phaseOnly ls seen
         else if trimSpace t = ''missing property '' @ [CHR 0x27] @ ''phase'' @ [CHR 0x27] then phaseOnly ls True
         else False)"

definition isPhaseOnlyLoaderError :: "string \<Rightarrow> bool" where
  "isPhaseOnlyLoaderError msg = phaseOnly (splitOn (CHR 0x0A) msg) False"

definition removeSchemaInvalidForPhase :: "string \<Rightarrow> diagnostic list \<Rightarrow> diagnostic list" where
  "removeSchemaInvalidForPhase path =
     filter (\<lambda>d. \<not> (dg_code d = CodeSchemaInvalid \<and> dg_file d = path \<and> list_all isPhaseOnlyLoaderError (dg_words d)))"

subsection \<open>Ingestion\<close>

fun packSegment :: "string list \<Rightarrow> string" where
  "packSegment (a # b # segs) = (if a = ''packs'' then b else packSegment (b # segs))"
| "packSegment segs = []"

definition packName :: "string \<Rightarrow> string" where
  "packName path = packSegment (splitOn (CHR ''/'') path)"

definition loaderError :: "string \<Rightarrow> string option \<Rightarrow> diagnostic list" where
  "loaderError path e = (case e of None \<Rightarrow> [] | Some t \<Rightarrow> [schemaInvalid path t])"

definition addRules :: "string \<Rightarrow> lintRule list \<Rightarrow> lintRule list assoc \<Rightarrow> lintRule list assoc" where
  "addRules name rs packs =
     (if name \<in> fst ` set packs then map (\<lambda>(n, old). (n, if n = name then old @ rs else old)) packs else packs @ [(name, rs)])"

definition ingestBinding :: "lintLibs \<Rightarrow> lintSource \<Rightarrow> lintModel \<Rightarrow> lintModel \<times> diagnostic list" where
  "ingestBinding libs s m =
     (case ll_bindings libs (so_bytes s) of
        None \<Rightarrow> m | Some bs \<Rightarrow> m\<lparr>lm_bindings := lm_bindings m @ map (\<lambda>b. (so_path s, b)) bs\<rparr>,
      loaderError (so_path s) (ll_loadBinding libs (so_bytes s)))"

definition ingestMergePolicy :: "lintLibs \<Rightarrow> lintSource \<Rightarrow> lintModel \<Rightarrow> lintModel \<times> diagnostic list" where
  "ingestMergePolicy libs s m =
     (case ll_policy libs (so_bytes s) of
        None \<Rightarrow> m
      | Some (rs, entries) \<Rightarrow> m\<lparr>lm_packs := addRules (packName (so_path s)) rs (lm_packs m),
          lm_docs := lm_docs m @ [\<lparr>id_path = so_path s, id_isPack = False, id_rules = rs, id_entries = entries,
            id_packPhase = [], id_packName = []\<rparr>]\<rparr>,
      loaderError (so_path s) (ll_loadPolicy libs (so_bytes s)))"

definition ingestPack :: "lintLibs \<Rightarrow> lintSource \<Rightarrow> lintModel \<Rightarrow> lintModel \<times> diagnostic list" where
  "ingestPack libs s m =
     (case ll_pack libs (so_bytes s) of
        None \<Rightarrow> m
      | Some (name, phase) \<Rightarrow> m\<lparr>lm_docs := lm_docs m @ [\<lparr>id_path = so_path s, id_isPack = True, id_rules = [], id_entries = [],
            id_packPhase = phase, id_packName = name\<rparr>]\<rparr>,
      loaderError (so_path s) (ll_loadPack libs (so_bytes s)))"

definition ingestOne :: "lintLibs \<Rightarrow> lintSource \<Rightarrow> lintModel \<Rightarrow> lintModel \<times> diagnostic list" where
  "ingestOne libs s m = (case ll_kind libs (so_bytes s) of
       Inl e \<Rightarrow> (m, [addError CodeParseError (so_path s) [] [''yaml'', e]])
     | Inr kind \<Rightarrow>
         if kind = ''RulesetBinding'' then ingestBinding libs s m
         else if kind = ''MergePolicy'' then ingestMergePolicy libs s m
         else if kind = ''Config'' then (m, loaderError (so_path s) (ll_loadConfig libs (so_bytes s)))
         else if kind = ''Pack'' then ingestPack libs s m
         else (m, []))"

fun ingestFrom :: "lintLibs \<Rightarrow> lintSource list \<Rightarrow> lintModel \<Rightarrow> lintModel \<times> diagnostic list" where
  "ingestFrom libs [] m = (m, [])"
| "ingestFrom libs (s # ss) m = (case ingestOne libs s m of (m', ds) \<Rightarrow>
     (case ingestFrom libs ss m' of (m'', es) \<Rightarrow> (m'', ds @ es)))"

definition ingest :: "lintLibs \<Rightarrow> lintSource list \<Rightarrow> lintModel \<times> diagnostic list" where
  "ingest libs ss = ingestFrom libs ss \<lparr>lm_bindings = [], lm_packs = [], lm_docs = []\<rparr>"

end
