(* ===== verification/LintChecks.thy ===== *)
theory LintChecks
  imports Lint
begin

text \<open>The checks of \<open>internal/lint\<close> over the ingested model, the report and the command's exit code.\<close>

subsection \<open>Labels\<close>

definition ruleLabel :: "rule \<Rightarrow> nat \<Rightarrow> string" where
  "ruleLabel r i = (if r_name r \<noteq> [] then r_name r else ''rule['' @ itoa (int i) @ '']'')"

definition bindingName :: "binding \<Rightarrow> string" where
  "bindingName b = ''class='' @ b_class b @ '' environment='' @ b_environment b"

definition indexed :: "'a list \<Rightarrow> (nat \<times> 'a) list" where
  "indexed xs = zip [0..<length xs] xs"

subsection \<open>Obligations (coverage.go)\<close>

definition packRules :: "lintModel \<Rightarrow> string \<Rightarrow> lintRule list" where
  "packRules m name = (case map_of (lm_packs m) name of None \<Rightarrow> [] | Some rs \<Rightarrow> rs)"

definition provenObligations :: "lintModel \<Rightarrow> string list \<Rightarrow> string list" where
  "provenObligations m packs = concat (map (\<lambda>name. concat (map (\<lambda>lr. (case r_prove (lr_rule lr) of
       None \<Rightarrow> [] | Some p \<Rightarrow> if pv_obligation p \<noteq> [] then [pv_obligation p] else [])) (packRules m name))) packs)"

definition checkObligationCoverage :: "lintModel \<Rightarrow> diagnostic list" where
  "checkObligationCoverage m = concat (map (\<lambda>(file, b).
     map (\<lambda>req. addError CodeObligationCoverage file (bindingName b) (req # b_class b # b_environment b # b_packs b))
       (filter (\<lambda>req. req \<notin> set (provenObligations m (b_packs b))) (b_require b))) (lm_bindings m))"

definition checkBindingRequireEmpty :: "lintModel \<Rightarrow> diagnostic list" where
  "checkBindingRequireEmpty m = map (\<lambda>(file, b). addError CodeBindingRequireEmpty file (bindingName b) [b_class b, b_environment b])
     (filter (\<lambda>(file, b). b_class b \<noteq> ClassAssentPolicy \<and> \<not> length (b_require b) > 0) (lm_bindings m))"

subsection \<open>References to facts (facts\_ref.go)\<close>

text \<open>How an identifier is used: by the chain of selections around it, as the target of an index, or bare.\<close>

datatype parentCtx = PSelect string | PIndexed | POther

datatype factsUse = DotUse "string list" | IndexUse | BareUse

fun selectChainFields :: "parentCtx list \<Rightarrow> string list" where
  "selectChainFields (PSelect f # ps) = f # selectChainFields ps"
| "selectChainFields ps = []"

definition classifyFactsIdent :: "parentCtx list \<Rightarrow> factsUse" where
  "classifyFactsIdent ps = (case ps of
       PSelect f # _ \<Rightarrow> DotUse (selectChainFields ps)
     | PIndexed # _ \<Rightarrow> IndexUse
     | _ \<Rightarrow> BareUse)"

abbreviation indexOperator :: string where "indexOperator \<equiv> ''_[_]''"

fun factUses :: "parentCtx list \<Rightarrow> celExpr \<Rightarrow> factsUse list" where
  "factUses ps (AIdent x) = (if x = ''facts'' then [classifyFactsIdent ps] else [])"
| "factUses ps (ASelect e f) = factUses (PSelect f # ps) e"
| "factUses ps (ACall fn target args) =
     (case target of None \<Rightarrow> [] | Some t \<Rightarrow> factUses (POther # ps) t)
     @ (case args of
          [] \<Rightarrow> []
        | a # as \<Rightarrow> factUses ((if fn = indexOperator then PIndexed else POther) # ps) a
            @ concat (map (factUses (POther # ps)) as))"
| "factUses ps (AOther es) = concat (map (factUses (POther # ps)) es)"

definition factAccessors :: "string list" where
  "factAccessors = [''value'', ''state'', ''expiresAt'', ''observedAt'', ''reason'', ''sensitive'']"

definition checkFactsShape :: "string list \<Rightarrow> string \<Rightarrow> string \<Rightarrow> string \<Rightarrow> diagnostic list" where
  "checkFactsShape segs celText file name =
     (if length segs \<ge> 3 \<and> segs ! 2 \<in> set factAccessors then []
      else if length segs \<ge> 3 then [addError CodeFactsReferenceShape file name (''through'' # celText # segs)]
      else [addError CodeFactsReferenceShape file name (''bare'' # celText # segs)])"

definition factUseErrors :: "string \<Rightarrow> string \<Rightarrow> string \<Rightarrow> factsUse \<Rightarrow> diagnostic list" where
  "factUseErrors celText file name u = (case u of
       DotUse segs \<Rightarrow> checkFactsShape segs celText file name
     | IndexUse \<Rightarrow> [addError CodeFactsReferenceSyntax file name [''bracket'', celText]]
     | BareUse \<Rightarrow> [addError CodeFactsReferenceSyntax file name [''bare'', celText]])"

definition usedProviders :: "factsUse list \<Rightarrow> string list" where
  "usedProviders us = concat (map (\<lambda>u. (case u of DotUse (p # _) \<Rightarrow> [p] | _ \<Rightarrow> [])) us)"

definition leafCELs :: "assertTree \<Rightarrow> string list" where
  "leafCELs t = map lf_cel (treeLeaves t)"

definition leafMessages :: "assertTree \<Rightarrow> string list" where
  "leafMessages t = filter (\<lambda>s. s \<noteq> []) (map lf_message (treeLeaves t))"

text \<open>One leaf: its diagnostics, and the providers its tree selects.\<close>

definition scanLeaf :: "lintLibs \<Rightarrow> string \<Rightarrow> string \<Rightarrow> string \<Rightarrow> diagnostic list \<times> string list" where
  "scanLeaf libs file name c = (case ll_celEnv libs of
       Some e \<Rightarrow> ([addError CodeParseError file name [''environment'', c, e]], [])
     | None \<Rightarrow> (case ll_parse libs c of
         Inl e \<Rightarrow> ([addError CodeParseError file name [''leaf'', c, e]], [])
       | Inr a \<Rightarrow> (concat (map (factUseErrors c file name) (factUses [] a)), usedProviders (factUses [] a))))"

definition checkRuleFactsRefs :: "lintLibs \<Rightarrow> string \<Rightarrow> string \<Rightarrow> assertTree \<Rightarrow> diagnostic list" where
  "checkRuleFactsRefs libs file name tree =
     (let cels = leafCELs tree;
          captured = concat (map (factRefs False) cels);
          scans = map (scanLeaf libs file name) cels;
          missed = sort (dedup (filter (\<lambda>p. p \<notin> set captured) (concat (map snd scans))))
      in concat (map fst scans) @ map (\<lambda>p. addError CodeFactsReferenceSyntax file name [''spacing'', p]) missed)"

text \<open>The place of these diagnostics is the name of the pack.\<close>

definition overPacks :: "lintLibs \<Rightarrow> lintModel \<Rightarrow> (string \<Rightarrow> nat \<Rightarrow> lintRule \<Rightarrow> diagnostic list) \<Rightarrow> diagnostic list" where
  "overPacks libs m f = concat (map (\<lambda>name. concat (map (\<lambda>(i, lr). f name i lr) (indexed (packRules m name))))
     (ll_order libs (map fst (lm_packs m))))"

definition checkFactsReferences :: "lintLibs \<Rightarrow> lintModel \<Rightarrow> diagnostic list" where
  "checkFactsReferences libs m = overPacks libs m (\<lambda>name i lr. (case r_prove (lr_rule lr) of
       None \<Rightarrow> [] | Some p \<Rightarrow> checkRuleFactsRefs libs name (r_name (lr_rule lr)) (pv_when p)))"

subsection \<open>Structure (structural.go)\<close>

definition ruleDisposition :: "rule \<Rightarrow> string" where
  "ruleDisposition r =
     (if r_prove r \<noteq> None then DispositionVouch
      else if r_effect r = EffectBlock then DispositionBlock
      else if r_effect r = EffectChallenge then DispositionChallenge
      else DispositionReview)"

definition reservedPacks :: "lintModel \<Rightarrow> string list" where
  "reservedPacks m = concat (map (\<lambda>(file, b). if b_class b \<noteq> ClassAssentPolicy then [] else b_packs b) (lm_bindings m))"

definition reservedRule :: "string \<Rightarrow> nat \<Rightarrow> rule \<Rightarrow> diagnostic list" where
  "reservedRule path i r =
     (let disp = ruleDisposition r in
      if ValidateRouting ClassAssentPolicy disp \<noteq> None then [addError CodeReservedClass path (ruleLabel r i) [''arming'', disp]]
      else if disp \<noteq> DispositionBlock \<and> disp \<noteq> DispositionChallenge
        then [addError CodeReservedClass path (ruleLabel r i) [''advisory'', disp]]
      else [])"

definition checkReservedClass :: "lintModel \<Rightarrow> diagnostic list" where
  "checkReservedClass m =
     (if reservedPacks m = [] then []
      else concat (map (\<lambda>d. if id_isPack d \<or> id_rules d = [] then []
          else if packName (id_path d) \<notin> set (reservedPacks m) then []
          else concat (map (\<lambda>(i, lr). reservedRule (id_path d) i (lr_rule lr)) (indexed (id_rules d)))) (lm_docs m)))"

definition missingPhases :: "ingestedDoc \<Rightarrow> diagnostic list" where
  "missingPhases d =
     (if id_isPack d
      then (if id_packPhase d = [] then [addError CodeNoImplicitEnforcePhase (id_path d) (id_packName d) [''pack'', id_packName d]] else [])
      else concat (map (\<lambda>(i, lr). if r_phase (lr_rule lr) = []
          then [addError CodeNoImplicitEnforcePhase (id_path d) (ruleLabel (lr_rule lr) i) [''rule'', ruleLabel (lr_rule lr) i]] else [])
        (indexed (id_rules d))))"

fun checkNoImplicitEnforcePhase :: "ingestedDoc list \<Rightarrow> diagnostic list \<Rightarrow> diagnostic list" where
  "checkNoImplicitEnforcePhase [] rep = rep"
| "checkNoImplicitEnforcePhase (d # ds) rep = checkNoImplicitEnforcePhase ds
     (if missingPhases d \<noteq> [] then removeSchemaInvalidForPhase (id_path d) (rep @ missingPhases d) else rep)"

definition checkUnkeyedLists :: "lintModel \<Rightarrow> diagnostic list" where
  "checkUnkeyedLists m = concat (map (\<lambda>d. if id_isPack d then []
     else map (\<lambda>(name, e). addError CodeUnkeyedList (id_path d) name [name])
       (filter (\<lambda>(name, e). le_mode e = ''list'' \<and> le_pointer e = []) (sort_key fst (id_entries d)))) (lm_docs m))"

definition checkStructural :: "lintModel \<Rightarrow> diagnostic list \<Rightarrow> diagnostic list" where
  "checkStructural m rep = checkNoImplicitEnforcePhase (lm_docs m) (rep @ checkReservedClass m) @ checkUnkeyedLists m"

subsection \<open>Scope (scope.go) and templates (presentation.go)\<close>

function undeclaredRefs :: "string \<Rightarrow> string list" where
  "undeclaredRefs [] = []"
| "undeclaredRefs (c # cs) =
     (let lead = ''undeclared reference to '' @ [CHR 0x27];
          tail = drop (length lead) (c # cs);
          ident = takeWhile (\<lambda>x. x \<noteq> CHR 0x27) tail
      in if prefix lead (c # cs) \<and> length ident < length tail
         then ident # undeclaredRefs (drop (Suc (length ident)) tail) else undeclaredRefs cs)"
  by pat_completeness auto
termination by (relation "measure length") auto

definition undeclaredNames :: "string \<Rightarrow> string list" where
  "undeclaredNames err = sort (dedup (undeclaredRefs err))"

definition compileError :: "lintLibs \<Rightarrow> string \<Rightarrow> string option" where
  "compileError libs c = map_option (ll_evalErr libs) (compileCheck (ll_cel libs) c)"

definition checkLeafScope :: "lintLibs \<Rightarrow> string \<Rightarrow> string \<Rightarrow> string \<Rightarrow> diagnostic list" where
  "checkLeafScope libs file name c = (case compileError libs c of
       None \<Rightarrow> []
     | Some err \<Rightarrow>
         if undeclaredNames err = [] then [addError CodeParseError file name [''scope'', c, err]]
         else map (\<lambda>n. addError CodeUndeclaredPredicateScope file name [c, n]) (undeclaredNames err))"

text \<open>The placeholders of a message, as \<^const>\<open>replacePlaceholders\<close> finds them.\<close>

function placeholders :: "string \<Rightarrow> string list" where
  "placeholders [] = []"
| "placeholders (c # cs) =
     (let body = takeWhile no_brace (drop 2 (c # cs)); rest = drop (2 + length body) (c # cs) in
      if prefix ''{{'' (c # cs) \<and> prefix ''}}'' rest then body # placeholders (drop 2 rest) else placeholders cs)"
  by pat_completeness auto
termination by (relation "measure length") auto

definition checkMessageScope :: "lintLibs \<Rightarrow> string \<Rightarrow> string \<Rightarrow> string \<Rightarrow> diagnostic list" where
  "checkMessageScope libs file name msg =
     (if \<not> containsSub msg ''{{'' then []
      else concat (map (\<lambda>body. (case if trimSpace body = [] then None else compileError libs (trimSpace body) of
          None \<Rightarrow> []
        | Some err \<Rightarrow> map (\<lambda>n. addError CodeMessageTemplateScope file name [body, n]) (undeclaredNames err))) (placeholders msg)))"

definition checkPredicateScope :: "lintLibs \<Rightarrow> lintModel \<Rightarrow> diagnostic list" where
  "checkPredicateScope libs m = overPacks libs m (\<lambda>pack i lr.
     let name = ruleLabel (lr_rule lr) i; messages = (\<lambda>ms. concat (map (checkMessageScope libs pack name) ms)) in
     (case r_prove (lr_rule lr) of
        None \<Rightarrow> []
      | Some p \<Rightarrow> concat (map (checkLeafScope libs pack name) (leafCELs (pv_when p))) @ messages (leafMessages (pv_when p)))
     @ messages (r_message (lr_rule lr) # lr_summary lr # lr_debug lr))"

definition tier1TemplatesPrefix :: string where "tier1TemplatesPrefix = ''.assent/templates/''"

definition checkTier1Templates :: "lintSource list \<Rightarrow> diagnostic list" where
  "checkTier1Templates ss =
     (if list_ex (\<lambda>s. hasPrefix (so_path s) tier1TemplatesPrefix) ss
      then [addError CodeTier1Deferred tier1TemplatesPrefix [] []] else [])"

subsection \<open>Posture (posture.go)\<close>

definition ofKind :: "lintLibs \<Rightarrow> string \<Rightarrow> lintSource \<Rightarrow> bool" where
  "ofKind libs kind s \<longleftrightarrow> ll_kind libs (so_bytes s) = Inr kind"

definition parsePostureConfigs :: "lintLibs \<Rightarrow> lintSource list \<Rightarrow> (string \<times> config) list" where
  "parsePostureConfigs libs ss = concat (map (\<lambda>s. (case ll_config libs (so_bytes s) of
       None \<Rightarrow> [] | Some c \<Rightarrow> [(so_path s, c)])) (filter (ofKind libs ''Config'') ss))"

definition parsePostureProfiles :: "lintLibs \<Rightarrow> lintSource list \<Rightarrow> profile list" where
  "parsePostureProfiles libs ss = concat (map (\<lambda>s. (case ll_profile libs (so_bytes s) of
       None \<Rightarrow> [] | Some p \<Rightarrow> [p])) (filter (ofKind libs ''PolicyProfile'') ss))"

definition allRuleRefs :: "lintModel \<Rightarrow> (nat \<times> rule) list" where
  "allRuleRefs m = concat (map (\<lambda>d. if id_isPack d then [] else map (\<lambda>(i, lr). (i, lr_rule lr)) (indexed (id_rules d))) (lm_docs m))"

definition requiredObligations :: "lintModel \<Rightarrow> string list" where
  "requiredObligations m = concat (map (\<lambda>(file, b). b_require b) (lm_bindings m))"

definition providersInWhen :: "assertTree \<Rightarrow> string list" where
  "providersInWhen t = sort (dedup (concat (map (factRefs False) (leafCELs t))))"

fun astReferencesEntry :: "celExpr \<Rightarrow> bool" where
  "astReferencesEntry (AIdent x) \<longleftrightarrow> x = ''entry'' \<or> x = ''oldEntry''"
| "astReferencesEntry (ASelect e f) \<longleftrightarrow> astReferencesEntry e"
| "astReferencesEntry (ACall fn target args) \<longleftrightarrow>
     (case target of None \<Rightarrow> False | Some t \<Rightarrow> astReferencesEntry t) \<or> list_ex astReferencesEntry args"
| "astReferencesEntry (AOther es) \<longleftrightarrow> list_ex astReferencesEntry es"

definition whenReadsEntryScope :: "lintLibs \<Rightarrow> assertTree \<Rightarrow> bool" where
  "whenReadsEntryScope libs t \<longleftrightarrow>
     (if ll_celEnv libs \<noteq> None then False
      else list_ex (\<lambda>c. (case ll_parse libs c of Inl e \<Rightarrow> False | Inr a \<Rightarrow> astReferencesEntry a)) (leafCELs t))"

definition failsOpen :: "config \<Rightarrow> string \<Rightarrow> bool" where
  "failsOpen cfg p \<longleftrightarrow> (case map_of (cfg_providers cfg) p of None \<Rightarrow> False | Some pr \<Rightarrow> p_failure pr = ''open'')"

text \<open>The controlling uses of a provider, and the first of each provider that fails open.\<close>

definition controllingUses :: "lintLibs \<Rightarrow> lintModel \<Rightarrow> (nat \<times> rule) \<Rightarrow> (string \<times> string list) list" where
  "controllingUses libs m ir = (case r_prove (snd ir) of
       None \<Rightarrow> []
     | Some p \<Rightarrow>
         if whenReadsEntryScope libs (pv_when p)
         then map (\<lambda>prov. (prov, [''entries-identity'', prov, ruleLabel (snd ir) (fst ir)])) (providersInWhen (pv_when p))
         else if pv_obligation p \<in> set (requiredObligations m)
         then map (\<lambda>prov. (prov, [''approval-eligibility'', prov, pv_obligation p])) (providersInWhen (pv_when p))
         else [])"

fun flagEach :: "string \<Rightarrow> (string \<times> string list) list \<Rightarrow> string list \<Rightarrow> diagnostic list" where
  "flagEach path [] flagged = []"
| "flagEach path ((prov, words) # us) flagged =
     (if prov \<in> set flagged then flagEach path us flagged
      else addError CodeFailOpen path prov words # flagEach path us (prov # flagged))"

definition checkFailOpen :: "lintLibs \<Rightarrow> (string \<times> config) list \<Rightarrow> lintModel \<Rightarrow> diagnostic list" where
  "checkFailOpen libs configs m = concat (map (\<lambda>(path, cfg).
     (case validateProviderPosture (Some cfg) (Some \<lparr>mp_name = [], mp_rules = map snd (allRuleRefs m)\<rparr>) of
        None \<Rightarrow> [] | Some e \<Rightarrow> [addError CodeFailOpen path [] [ll_policyErr libs e]])
     @ flagEach path (filter (\<lambda>u. failsOpen cfg (fst u)) (concat (map (controllingUses libs m) (allRuleRefs m)))) []) configs)"

definition checkSingleWriterProfile :: "lintLibs \<Rightarrow> (string \<times> config) list \<Rightarrow> profile list \<Rightarrow> lintModel \<Rightarrow> diagnostic list" where
  "checkSingleWriterProfile libs configs profiles m = concat (map (\<lambda>(path, cfg). if length (cfg_profiles cfg) = 0 then []
     else concat (map (\<lambda>(file, b). (case resolveProfile (cfg_profiles cfg) (map Some profiles) (b_environment b) (b_class b) of
         Inl e \<Rightarrow> [addError CodeSingleWriterProfile file (bindingName b) [''error'', ll_policyErr libs e]]
       | Inr None \<Rightarrow> [addError CodeSingleWriterProfile file (bindingName b) [''none'', b_class b, b_environment b]]
       | Inr (Some rp) \<Rightarrow> if rp_writes rp then []
           else [addError CodeSingleWriterProfile file (bindingName b) [''none'', b_class b, b_environment b]])) (lm_bindings m))) configs)"

definition checkConfigPosture :: "lintLibs \<Rightarrow> lintSource list \<Rightarrow> lintModel \<Rightarrow> diagnostic list" where
  "checkConfigPosture libs ss m = checkFailOpen libs (parsePostureConfigs libs ss) m
     @ checkSingleWriterProfile libs (parsePostureConfigs libs ss) (parsePostureProfiles libs ss) m"

subsection \<open>Test cases (tests\_per\_rule.go)\<close>

text \<open>The segments behind \<open>.assent/tests\<close>, at its first occurrence.\<close>

fun testsSegment :: "string list \<Rightarrow> string list option" where
  "testsSegment (a # b # segs) = (if a = ''.assent'' \<and> b = ''tests'' then Some segs else testsSegment (b # segs))"
| "testsSegment segs = None"

definition caseNames :: "lintLibs \<Rightarrow> lintSource \<Rightarrow> (string \<times> string) list" where
  "caseNames libs s = (case testsSegment (splitOn (CHR ''/'') (so_path s)) of
       Some (pack # candidate # rest) \<Rightarrow>
         filter (\<lambda>(p, n). n \<noteq> []) (if candidate = ''cases.yaml'' \<and> rest = []
           then map (Pair pack) (case ll_cases libs (so_bytes s) of None \<Rightarrow> [] | Some ns \<Rightarrow> ns)
           else [(pack, candidate)])
     | _ \<Rightarrow> [])"

definition ruleTestTokens :: "rule \<Rightarrow> string list" where
  "ruleTestTokens r = filter (\<lambda>t. t \<noteq> []) (r_name r # (case r_prove r of None \<Rightarrow> [] | Some p \<Rightarrow> [pv_obligation p]))"

definition checkTestsPerRule :: "lintLibs \<Rightarrow> lintSource list \<Rightarrow> lintModel \<Rightarrow> diagnostic list" where
  "checkTestsPerRule libs ss m =
     (let present = concat (map (caseNames libs) ss) in
      concat (map (\<lambda>d. if id_isPack d then []
        else concat (map (\<lambda>(i, lr). if list_ex (\<lambda>t. (packName (id_path d), t) \<in> set present) (ruleTestTokens (lr_rule lr)) then []
            else [addError CodeTestsPerRule (id_path d) (ruleLabel (lr_rule lr) i)
              (ruleLabel (lr_rule lr) i # packName (id_path d) # ruleTestTokens (lr_rule lr))])
          (indexed (id_rules d)))) (lm_docs m)))"

subsection \<open>The report (lint.go)\<close>

definition Lint :: "lintLibs \<Rightarrow> lintSource list \<Rightarrow> diagnostic list" where
  "Lint libs ss = (case ingest libs ss of (m, ds) \<Rightarrow>
     checkStructural m (ds @ checkObligationCoverage m @ checkBindingRequireEmpty m @ checkFactsReferences libs m)
     @ checkPredicateScope libs m @ checkTier1Templates ss @ checkConfigPosture libs ss m @ checkTestsPerRule libs ss m)"

definition locationText :: "diagnostic \<Rightarrow> string" where
  "locationText d = (if dg_name d = [] then dg_file d else dg_file d @ '' ('' @ dg_name d @ '')'')"

definition messageText :: "lintLibs \<Rightarrow> diagnostic \<Rightarrow> string" where
  "messageText libs d = ll_sentence libs (dg_code d) (dg_words d)"

definition sortKey :: "lintLibs \<Rightarrow> diagnostic \<Rightarrow> string" where
  "sortKey libs d = dg_code d @ [CHR 0x00] @ locationText d @ [CHR 0x00] @ messageText libs d"

definition Diagnostics :: "lintLibs \<Rightarrow> diagnostic list \<Rightarrow> diagnostic list" where
  "Diagnostics libs ds = sort_key (sortKey libs) ds"

definition HasErrors :: "diagnostic list \<Rightarrow> bool" where
  "HasErrors ds \<longleftrightarrow> list_ex (\<lambda>d. dg_severity d = SeverityError) ds"

definition Render :: "lintLibs \<Rightarrow> diagnostic list \<Rightarrow> string" where
  "Render libs ds = concat (map (\<lambda>d. dg_severity d @ '': ['' @ dg_code d @ ''] '' @ locationText d @ '': '' @ messageText libs d @ [CHR 0x0A])
     (Diagnostics libs ds))"

text \<open>\<open>runLint\<close>: 2 when there is no tree to lint, else whether there are errors.\<close>

definition runLint :: "lintLibs \<Rightarrow> lintSource list option \<Rightarrow> int" where
  "runLint libs discovered = (case discovered of None \<Rightarrow> 2 | Some ss \<Rightarrow> if HasErrors (Lint libs ss) then 1 else 0)"

end
