(* ===== verification/LintProps.thy ===== *)
theory LintProps
  imports LintChecks
begin

text \<open>The properties of the lint: what a clean tree guarantees, and that its output is determined.\<close>

subsection \<open>Diagnostics that stay\<close>

definition plain :: "diagnostic \<Rightarrow> bool" where
  "plain d \<longleftrightarrow> dg_severity d = SeverityError \<and> CHR 0x00 \<notin> set (dg_code d)"

definition isError :: "diagnostic \<Rightarrow> bool" where
  "isError d \<longleftrightarrow> plain d \<and> dg_code d \<noteq> CodeSchemaInvalid"

lemma plain_add: "CHR 0x00 \<notin> set code \<Longrightarrow> plain (addError code file name words)"
  by (simp add: plain_def addError_def)

lemma isError_add: "code \<noteq> CodeSchemaInvalid \<Longrightarrow> CHR 0x00 \<notin> set code \<Longrightarrow> isError (addError code file name words)"
  by (simp add: isError_def plain_def addError_def)

lemma errors_plain: "list_all isError ds \<Longrightarrow> list_all plain ds"
  by (auto simp: list_all_iff isError_def)

lemma phase_keeps: "d \<in> set rep \<Longrightarrow> isError d \<Longrightarrow> d \<in> set (checkNoImplicitEnforcePhase ds rep)"
  by (induction ds rep rule: checkNoImplicitEnforcePhase.induct)
    (auto simp: removeSchemaInvalidForPhase_def isError_def)

text \<open>The parts of the report that the removal of a schema error cannot touch.\<close>

definition lintParts :: "lintLibs \<Rightarrow> lintSource list \<Rightarrow> diagnostic list list" where
  "lintParts libs ss = (let m = fst (ingest libs ss) in
     [checkObligationCoverage m, checkBindingRequireEmpty m, checkFactsReferences libs m, checkConfigPosture libs ss m])"

lemma clean_parts:
  assumes "\<not> HasErrors (Lint libs ss)" "ds \<in> set (lintParts libs ss)" "list_all isError ds"
  shows "ds = []"
proof (rule ccontr)
  assume "ds \<noteq> []"
  then obtain d where d: "d \<in> set ds" "isError d" using assms(3) by (cases ds) auto
  obtain m es where i: "ingest libs ss = (m, es)" by fastforce
  have "d \<in> set (Lint libs ss)"
    using assms(2) d i phase_keeps [OF _ d(2)] by (auto simp: lintParts_def Lint_def checkStructural_def)
  with d(2) assms(1) show False by (auto simp: HasErrors_def list_ex_iff isError_def plain_def)
qed

lemma errors_concat: "(\<And>x. x \<in> set xs \<Longrightarrow> list_all P (f x)) \<Longrightarrow> list_all P (concat (map f xs))"
  by (induction xs) auto

lemma coverage_errors: "list_all isError (checkObligationCoverage m)"
  unfolding checkObligationCoverage_def by (intro errors_concat) (auto simp: list_all_iff isError_add)

lemma requireEmpty_errors: "list_all isError (checkBindingRequireEmpty m)"
  by (auto simp: checkBindingRequireEmpty_def list_all_iff isError_add)

lemma use_errors: "list_all isError (factUseErrors c file name u)"
  by (auto simp: factUseErrors_def checkFactsShape_def isError_add split: factsUse.split)

lemma rule_errors: "list_all isError (checkRuleFactsRefs libs file name t)"
proof -
  have "list_all isError (fst (scanLeaf libs file name c))" for c
    by (auto simp: scanLeaf_def isError_add use_errors split: option.split sum.split intro!: errors_concat)
  then have "list_all isError (concat (map (\<lambda>c. fst (scanLeaf libs file name c)) cs))" for cs
    by (rule errors_concat)
  then show ?thesis
    by (simp add: checkRuleFactsRefs_def Let_def comp_def) (auto simp: list_all_iff isError_add)
qed

lemma facts_errors: "list_all isError (checkFactsReferences libs m)"
  unfolding checkFactsReferences_def overPacks_def
  by (intro errors_concat) (auto simp: rule_errors split: option.split intro!: errors_concat)

lemma flagEach_errors: "list_all isError (flagEach path us flagged)"
  by (induction path us flagged rule: flagEach.induct) (auto simp: isError_add)

lemma posture_errors: "list_all isError (checkConfigPosture libs ss m)"
proof -
  have "list_all isError (checkFailOpen libs cs m)" for cs
    unfolding checkFailOpen_def
    by (intro errors_concat) (auto simp: isError_add flagEach_errors split: option.split)
  moreover have "list_all isError (checkSingleWriterProfile libs cs ps m)" for cs ps
    unfolding checkSingleWriterProfile_def
    by (intro errors_concat) (auto simp: isError_add split: sum.split option.split intro!: errors_concat)
  ultimately show ?thesis by (simp add: checkConfigPosture_def)
qed

lemma clean_checks:
  assumes "\<not> HasErrors (Lint libs ss)"
  defines "m \<equiv> fst (ingest libs ss)"
  shows "checkObligationCoverage m = []" "checkBindingRequireEmpty m = []" "checkFactsReferences libs m = []"
    "checkConfigPosture libs ss m = []"
  unfolding m_def
  by (rule clean_parts [OF assms(1)]; simp add: lintParts_def Let_def coverage_errors requireEmpty_errors facts_errors posture_errors)+

subsection \<open>The model\<close>

text \<open>The rules of the documents are the rules of the packs.\<close>

definition packed :: "lintModel \<Rightarrow> bool" where
  "packed m \<longleftrightarrow> (\<forall>d \<in> set (lm_docs m). id_isPack d \<or> (\<forall>lr \<in> set (id_rules d). lr \<in> set (packRules m (packName (id_path d)))))"

lemma map_of_at: "map_of (map (\<lambda>(k, v). (k, if k = a then f v else v)) xs) n
    = (if n = a then map_option f (map_of xs n) else map_of xs n)"
  by (induction xs) auto

lemma addRules_lookup:
  "map_of (addRules name rs packs) n
     = (if n = name then Some ((case map_of packs name of None \<Rightarrow> [] | Some old \<Rightarrow> old) @ rs) else map_of packs n)"
proof (cases "map_of packs name")
  case None
  then have "name \<notin> fst ` set packs" by (simp add: map_of_eq_None_iff)
  with None show ?thesis by (cases "n = name"; cases "map_of packs n") (simp_all add: addRules_def map_add_def)
next
  case (Some old)
  then have "name \<in> fst ` set packs" by (metis domI dom_map_of_conv_image_fst)
  with Some show ?thesis by (simp add: addRules_def map_of_at [where f = "\<lambda>old. old @ rs"])
qed

lemma packed_same:
  assumes "packed m" "lm_packs m' = lm_packs m" "\<forall>d \<in> set (lm_docs m'). d \<in> set (lm_docs m) \<or> id_isPack d"
  shows "packed m'"
proof -
  have "packRules m' = packRules m" by (rule ext) (simp add: packRules_def assms(2))
  with assms(1,3) show ?thesis unfolding packed_def by metis
qed

lemma packRules_add:
  "packRules (m\<lparr>lm_packs := addRules n rs (lm_packs m), lm_docs := ds\<rparr>) k
     = (if k = n then packRules m n @ rs else packRules m k)"
  by (simp add: packRules_def addRules_lookup)

lemma packed_add:
  assumes "packed m" "n = packName path"
  shows "packed (m\<lparr>lm_packs := addRules n rs (lm_packs m),
      lm_docs := lm_docs m @ [\<lparr>id_path = path, id_isPack = False, id_rules = rs, id_entries = es, id_packPhase = [], id_packName = []\<rparr>]\<rparr>)"
    (is "packed ?m'")
proof -
  have "set (packRules m k) \<subseteq> set (packRules ?m' k)" for k by (auto simp: packRules_add)
  moreover have "set rs \<subseteq> set (packRules ?m' (packName path))" using assms(2) by (auto simp: packRules_add)
  ultimately show ?thesis using assms(1) unfolding packed_def by (simp del: packRules_add) blast
qed

lemma packed_ingestOne: "packed m \<Longrightarrow> packed (fst (ingestOne libs s m))"
proof -
  assume p: "packed m"
  have "packed (fst (ingestBinding libs s m))"
    by (rule packed_same [OF p]) (cases "ll_bindings libs (so_bytes s)"; simp add: ingestBinding_def)+
  moreover have "packed (fst (ingestMergePolicy libs s m))"
    using p by (cases "ll_policy libs (so_bytes s)") (simp_all add: ingestMergePolicy_def packed_add split: prod.split)
  moreover have "packed (fst (ingestPack libs s m))"
    by (rule packed_same [OF p]) (cases "ll_pack libs (so_bytes s)"; auto simp: ingestPack_def)+
  ultimately show ?thesis using p by (simp add: ingestOne_def split: sum.split)
qed

lemma packed_ingestFrom: "packed m \<Longrightarrow> packed (fst (ingestFrom libs ss m))"
proof (induction ss arbitrary: m)
  case (Cons s ss)
  obtain m' ds where "ingestOne libs s m = (m', ds)" by fastforce
  with Cons.IH [of m'] packed_ingestOne [OF Cons.prems, of libs s] show ?case
    by (cases "ingestFrom libs ss m'") simp
qed simp

lemma packed_ingest: "packed (fst (ingest libs ss))"
  unfolding ingest_def by (rule packed_ingestFrom) (simp add: packed_def)

lemma indexed_mem: "x \<in> set xs \<Longrightarrow> \<exists>i. (i, x) \<in> set (indexed xs)"
  by (force simp: indexed_def in_set_zip in_set_conv_nth)

lemma concat_map_nil: "concat (map f xs) = [] \<Longrightarrow> x \<in> set xs \<Longrightarrow> f x = []"
  by (induction xs) auto

lemma packRules_key: "lr \<in> set (packRules m n) \<Longrightarrow> n \<in> set (map fst (lm_packs m))"
  by (cases "map_of (lm_packs m) n") (force simp: packRules_def dest: map_of_SomeD)+

lemma sort_dedup_nil: "sort (dedup xs) = [] \<longleftrightarrow> set xs = {}"
  by (metis set_sort set_dedup set_empty)

lemma overPacks_nil:
  assumes "overPacks libs m f = []" "\<And>ks. set (ll_order libs ks) = set ks" "lr \<in> set (packRules m n)"
  shows "\<exists>i. f n i lr = []"
proof -
  from indexed_mem [OF assms(3)] obtain i where i: "(i, lr) \<in> set (indexed (packRules m n))" by blast
  have "n \<in> set (ll_order libs (map fst (lm_packs m)))" using packRules_key [OF assms(3)] assms(2) by blast
  from concat_map_nil [OF assms(1) [unfolded overPacks_def] this] have "concat (map (\<lambda>(i, lr). f n i lr) (indexed (packRules m n))) = []" .
  from concat_map_nil [OF this i] show ?thesis by auto
qed

subsection \<open>A clean rule\<close>

definition soundUse :: "string list \<Rightarrow> factsUse \<Rightarrow> bool" where
  "soundUse seen u = (case u of
       DotUse (p # n # acc # segs) \<Rightarrow> acc \<in> set factAccessors \<and> p \<in> set seen
     | _ \<Rightarrow> False)"

lemma factUseErrors_nil:
  assumes "factUseErrors c file name u = []"
  obtains p n acc segs where "u = DotUse (p # n # acc # segs)" "acc \<in> set factAccessors"
proof (cases u)
  case (DotUse segs)
  with assms have "length segs \<ge> 3" "segs ! 2 \<in> set factAccessors"
    by (auto simp: factUseErrors_def checkFactsShape_def split: if_splits)
  moreover then obtain p n acc ss where "segs = p # n # acc # ss"
    by (cases segs; cases "tl segs"; cases "tl (tl segs)") auto
  ultimately show thesis using DotUse that by simp
qed (use assms in \<open>simp_all add: factUseErrors_def\<close>)

lemma scanLeaf_nil:
  assumes "fst (scanLeaf libs file name c) = []"
  obtains a where "ll_celEnv libs = None" "ll_parse libs c = Inr a" "snd (scanLeaf libs file name c) = usedProviders (factUses [] a)"
    "\<And>u. u \<in> set (factUses [] a) \<Longrightarrow> factUseErrors c file name u = []"
  using assms by (auto simp: scanLeaf_def split: option.splits sum.splits)

lemma rule_clean:
  assumes "checkRuleFactsRefs libs file name t = []" "c \<in> set (leafCELs t)"
  obtains a where "ll_celEnv libs = None" "ll_parse libs c = Inr a" "list_all (soundUse (providersInWhen t)) (factUses [] a)"
proof -
  let ?scans = "map (scanLeaf libs file name) (leafCELs t)"
  have errs: "concat (map fst ?scans) = []"
    and missed: "\<forall>p \<in> set (concat (map snd ?scans)). p \<in> set (providersInWhen t)"
    using assms(1) unfolding checkRuleFactsRefs_def Let_def append_is_Nil_conv map_is_Nil_conv sort_dedup_nil
    by (simp_all add: providersInWhen_def) blast
  have "fst (scanLeaf libs file name c) = []" using errs assms(2) by auto
  then obtain a where a: "ll_celEnv libs = None" "ll_parse libs c = Inr a"
      "snd (scanLeaf libs file name c) = usedProviders (factUses [] a)"
      "\<And>u. u \<in> set (factUses [] a) \<Longrightarrow> factUseErrors c file name u = []"
    by (rule scanLeaf_nil) blast
  have "soundUse (providersInWhen t) u" if u: "u \<in> set (factUses [] a)" for u
  proof -
    from a(4) [OF u] obtain p n acc segs where s: "u = DotUse (p # n # acc # segs)" "acc \<in> set factAccessors"
      by (rule factUseErrors_nil)
    have "p \<in> set (snd (scanLeaf libs file name c))"
      using u s(1) unfolding a(3) usedProviders_def by force
    with missed assms(2) have "p \<in> set (providersInWhen t)" by auto
    with s show ?thesis by (simp add: soundUse_def)
  qed
  with a(1,2) that show thesis by (simp add: list_all_iff)
qed

lemma flagEach_nil: "flagEach path us flagged = [] \<Longrightarrow> set (map fst us) \<subseteq> set flagged"
  by (induction path us flagged rule: flagEach.induct) (auto split: if_splits)

lemma used_sound:
  assumes "list_all (soundUse seen) us" "prov \<in> set (usedProviders us)"
  shows "prov \<in> set seen"
proof -
  from assms(2) obtain u where u: "u \<in> set us" "prov \<in> set (case u of DotUse (p # _) \<Rightarrow> [p] | _ \<Rightarrow> [])"
    by (auto simp: usedProviders_def)
  then obtain segs where "u = DotUse (prov # segs)" by (auto split: factsUse.splits list.splits)
  moreover have "soundUse seen u" using assms(1) u(1) by (auto simp: list_all_iff)
  ultimately show ?thesis by (auto simp: soundUse_def split: list.splits)
qed

definition controlsApproval :: "lintLibs \<Rightarrow> lintModel \<Rightarrow> rule \<Rightarrow> prove \<Rightarrow> bool" where
  "controlsApproval libs m r p \<longleftrightarrow> whenReadsEntryScope libs (pv_when p) \<or> pv_obligation p \<in> set (requiredObligations m)
     \<or> (case r_onFailure r of None \<Rightarrow> False | Some onf \<Rightarrow> of_effect onf = EffectRequireReview)"

lemma posture_clean:
  assumes "checkFailOpen libs cs m = []" "(path, cfg) \<in> set cs" "(i, r) \<in> set (allRuleRefs m)"
    and "r_prove r = Some p" "controlsApproval libs m r p" "prov \<in> set (providersInWhen (pv_when p))"
  shows "\<not> failsOpen cfg prov"
proof
  assume open_prov: "failsOpen cfg prov"
  from concat_map_nil [OF assms(1) [unfolded checkFailOpen_def] assms(2)]
  have v: "validateProviderPosture (Some cfg) (Some \<lparr>mp_name = [], mp_rules = map snd (allRuleRefs m)\<rparr>) = None"
    and f: "flagEach path (filter (\<lambda>u. failsOpen cfg (fst u)) (concat (map (controllingUses libs m) (allRuleRefs m)))) [] = []"
    by (auto split: option.splits)
  have r: "r \<in> set (map snd (allRuleRefs m))" using assms(3) by force
  show False
  proof (cases "whenReadsEntryScope libs (pv_when p) \<or> pv_obligation p \<in> set (requiredObligations m)")
    case True
    with assms(4,6) have "prov \<in> fst ` set (controllingUses libs m (i, r))"
      by (force simp: controllingUses_def)
    then obtain w where "(prov, w) \<in> set (controllingUses libs m (i, r))" by force
    with assms(3) have "(prov, w) \<in> set (concat (map (controllingUses libs m) (allRuleRefs m)))" by auto
    with open_prov flagEach_nil [OF f] show False by (auto simp: filter_empty_conv)
  next
    case False
    with assms(5) obtain onf where "r_onFailure r = Some onf" "of_effect onf = EffectRequireReview"
      by (auto simp: controlsApproval_def split: option.splits)
    moreover have "prov \<in> set (providersReferenced (pv_when p))"
      using assms(6) by (auto simp: providersInWhen_def leafCELs_def providersReferenced_def)
    ultimately show False using v r assms(4) open_prov
      unfolding validateProviderPosture_def by (auto simp: postureRules_None_iff failsOpen_def split: option.splits)
  qed
qed

text \<open>
  C31: a clean tree has no unseen fact. When the lint reports no error, every leaf of every rule's proof
  parses, and every use of \<open>facts\<close> in its tree is a dotted path through a provider, a name and one of the
  accessors, with a provider that the textual scan of the engine finds in the rule. And when the rule
  controls an approval, because it reads an entry, proves a required obligation or sends a failure to
  review, no config of the tree declares that provider to fail open.
\<close>

theorem lint_clean_controlling:
  assumes "\<not> HasErrors (Lint libs ss)" "\<And>ks. set (ll_order libs ks) = set ks"
    and "d \<in> set (lm_docs (fst (ingest libs ss)))" "\<not> id_isPack d" "lr \<in> set (id_rules d)"
    and "r_prove (lr_rule lr) = Some p" "c \<in> set (leafCELs (pv_when p))"
  shows "\<exists>a. ll_parse libs c = Inr a \<and> list_all (soundUse (providersInWhen (pv_when p))) (factUses [] a)
    \<and> (if controlsApproval libs (fst (ingest libs ss)) (lr_rule lr) p
       then list_all (\<lambda>prov. list_all (\<lambda>(path, cfg). \<not> failsOpen cfg prov) (parsePostureConfigs libs ss)) (usedProviders (factUses [] a))
       else True)"
proof -
  let ?m = "fst (ingest libs ss)"
  have "lr \<in> set (packRules ?m (packName (id_path d)))"
    using packed_ingest [of libs ss] assms(3,4,5) unfolding packed_def by blast
  from overPacks_nil [OF clean_checks(3) [OF assms(1), unfolded checkFactsReferences_def] assms(2) this]
  have "checkRuleFactsRefs libs (packName (id_path d)) (r_name (lr_rule lr)) (pv_when p) = []"
    using assms(6) by auto
  then obtain a where a: "ll_parse libs c = Inr a" "list_all (soundUse (providersInWhen (pv_when p))) (factUses [] a)"
    using assms(7) by (rule rule_clean)
  note used = used_sound [OF a(2)]
  obtain i where "(i, lr) \<in> set (indexed (id_rules d))" using indexed_mem [OF assms(5)] by blast
  then have refs: "(i, lr_rule lr) \<in> set (allRuleRefs ?m)" using assms(3,4) by (force simp: allRuleRefs_def)
  have "checkFailOpen libs (parsePostureConfigs libs ss) ?m = []"
    using clean_checks(4) [OF assms(1)] by (simp add: checkConfigPosture_def)
  note posture = posture_clean [OF this _ refs assms(6)]
  have "\<not> failsOpen cfg prov"
    if "controlsApproval libs ?m (lr_rule lr) p" "prov \<in> set (usedProviders (factUses [] a))"
      "(path, cfg) \<in> set (parsePostureConfigs libs ss)" for path cfg prov
    using posture [OF that(3,1)] used [OF that(2)] by simp
  then have "if controlsApproval libs ?m (lr_rule lr) p
       then list_all (\<lambda>prov. list_all (\<lambda>(path, cfg). \<not> failsOpen cfg prov) (parsePostureConfigs libs ss)) (usedProviders (factUses [] a))
       else True"
    by (auto simp: list_all_iff)
  with a show ?thesis by blast
qed

definition clean_rule :: lintRule where
  "clean_rule = \<lparr>lr_rule = \<lparr>r_name = ''r'', r_phase = PhaseEnforce,
       r_match = \<lparr>m_files = None, m_values = None, m_fileEvents = None, m_valueChanges = None\<rparr>,
       r_prove = Some \<lparr>pv_obligation = ''o'', pv_when = AssertTree (Some \<lparr>lf_cel = ''facts.v.n.value'', lf_message = []\<rparr>) None None None\<rparr>,
       r_onFailure = None, r_effect = [], r_message = [], r_points = 0\<rparr>, lr_summary = [], lr_debug = []\<rparr>"

definition clean_libs :: lintLibs where
  "clean_libs = \<lparr>ll_kind = (\<lambda>t. Inr t),
     ll_bindings = (\<lambda>_. Some [\<lparr>b_class = ''app'', b_environment = ''prod'', b_packs = [''p''], b_threshold = 0, b_require = [''o'']\<rparr>]),
     ll_policy = (\<lambda>_. Some ([clean_rule], [])), ll_pack = (\<lambda>_. None),
     ll_config = (\<lambda>_. Some \<lparr>cfg_providers = [(''v'', \<lparr>p_type = ''exec'', p_url = [], p_failure = ''closed''\<rparr>)], cfg_profiles = []\<rparr>),
     ll_profile = (\<lambda>_. None), ll_cases = (\<lambda>_. None), ll_loadBinding = (\<lambda>_. None), ll_loadPolicy = (\<lambda>_. None),
     ll_loadPack = (\<lambda>_. None), ll_loadConfig = (\<lambda>_. None), ll_celEnv = None,
     ll_parse = (\<lambda>_. Inr (ASelect (ASelect (ASelect (AIdent ''facts'') ''v'') ''n'') ''value'')),
     ll_cel = \<lparr>rt_newEnv = (\<lambda>_. None), rt_compile = (\<lambda>_ _. None), rt_program = (\<lambda>_ _. None),
       rt_eval = (\<lambda>_ _. ([], None, None)), rt_parseFloat = (\<lambda>_. True), rt_fmtDouble = id\<rparr>,
     ll_evalErr = (\<lambda>_. []), ll_policyErr = (\<lambda>_. []), ll_order = id, ll_sentence = (\<lambda>c ws. concat ws)\<rparr>"

definition clean_tree :: "lintSource list" where
  "clean_tree = [\<lparr>so_path = ''packs/p/policy.yaml'', so_bytes = ''MergePolicy''\<rparr>,
     \<lparr>so_path = ''bindings.yaml'', so_bytes = ''RulesetBinding''\<rparr>, \<lparr>so_path = ''config.yaml'', so_bytes = ''Config''\<rparr>,
     \<lparr>so_path = ''.assent/tests/p/o/event.json'', so_bytes = ''Case''\<rparr>]"

definition clean_model :: lintModel where
  "clean_model = \<lparr>lm_bindings = [(''bindings.yaml'', \<lparr>b_class = ''app'', b_environment = ''prod'', b_packs = [''p''], b_threshold = 0, b_require = [''o'']\<rparr>)],
     lm_packs = [(''p'', [clean_rule])],
     lm_docs = [\<lparr>id_path = ''packs/p/policy.yaml'', id_isPack = False, id_rules = [clean_rule], id_entries = [], id_packPhase = [], id_packName = []\<rparr>]\<rparr>"

lemma clean_ingest: "ingest clean_libs clean_tree = (clean_model, [])"
  by (simp add: ingest_def clean_tree_def ingestOne_def clean_libs_def ingestBinding_def ingestMergePolicy_def loaderError_def
      addRules_def packName_def clean_model_def)

lemma clean_refs: "factRefs False ''facts.v.n.value'' = [''v'']"
  by code_simp

declare factRefs.simps [simp del]

lemma clean_cels: "leafCELs (AssertTree (Some \<lparr>lf_cel = c, lf_message = msg\<rparr>) None None None) = [c]"
  by (simp add: leafCELs_def)

lemma clean_facts: "checkFactsReferences clean_libs clean_model = []"
  by (simp add: checkFactsReferences_def overPacks_def clean_libs_def clean_model_def packRules_def indexed_def clean_rule_def
      checkRuleFactsRefs_def clean_cels clean_refs scanLeaf_def classifyFactsIdent_def factUseErrors_def checkFactsShape_def
      factAccessors_def usedProviders_def)

lemma clean_structural: "checkStructural clean_model [] = []"
  by (simp add: checkStructural_def checkReservedClass_def reservedPacks_def clean_model_def missingPhases_def indexed_def
      clean_rule_def checkUnkeyedLists_def)

lemma clean_scope: "checkPredicateScope clean_libs clean_model = []"
  by (simp add: checkPredicateScope_def overPacks_def clean_libs_def clean_model_def packRules_def indexed_def clean_rule_def
      clean_cels leafMessages_def checkLeafScope_def compileError_def compileCheck_def checkMessageScope_def)

lemma clean_posture: "checkConfigPosture clean_libs clean_tree clean_model = []"
  by (simp add: checkConfigPosture_def checkFailOpen_def checkSingleWriterProfile_def parsePostureConfigs_def parsePostureProfiles_def
      ofKind_def clean_libs_def clean_tree_def clean_model_def allRuleRefs_def indexed_def clean_rule_def validateProviderPosture_def
      controllingUses_def requiredObligations_def whenReadsEntryScope_def clean_cels providersInWhen_def clean_refs failsOpen_def)

lemma clean_tests: "checkTestsPerRule clean_libs clean_tree clean_model = []"
  by (simp add: checkTestsPerRule_def clean_libs_def clean_tree_def clean_model_def caseNames_def indexed_def clean_rule_def
      packName_def ruleTestTokens_def)

lemma clean_lint: "Lint clean_libs clean_tree = []"
proof -
  have "checkObligationCoverage clean_model = []" "checkBindingRequireEmpty clean_model = []" "checkTier1Templates clean_tree = []"
    by (simp_all add: checkObligationCoverage_def checkBindingRequireEmpty_def checkTier1Templates_def provenObligations_def
        packRules_def clean_model_def clean_rule_def clean_tree_def tier1TemplatesPrefix_def)
  then show ?thesis
    by (simp add: Lint_def clean_ingest clean_facts clean_structural clean_scope clean_posture clean_tests)
qed

theorem lint_clean_controlling_witness:
  "controlsApproval clean_libs clean_model (lr_rule clean_rule) \<lparr>pv_obligation = ''o'', pv_when = AssertTree (Some \<lparr>lf_cel = ''facts.v.n.value'', lf_message = []\<rparr>) None None None\<rparr>
   \<and> (\<exists>a. ll_parse clean_libs ''facts.v.n.value'' = Inr a \<and> list_all (soundUse [''v'']) (factUses [] a))"
proof -
  let ?p = "\<lparr>pv_obligation = ''o'', pv_when = AssertTree (Some \<lparr>lf_cel = ''facts.v.n.value'', lf_message = []\<rparr>) None None None\<rparr>"
  have o: "set (ll_order clean_libs ks) = set ks" for ks by (simp add: clean_libs_def)
  have e: "\<not> HasErrors (Lint clean_libs clean_tree)" by (simp add: clean_lint HasErrors_def)
  have d: "hd (lm_docs clean_model) \<in> set (lm_docs (fst (ingest clean_libs clean_tree)))" "\<not> id_isPack (hd (lm_docs clean_model))"
      "clean_rule \<in> set (id_rules (hd (lm_docs clean_model)))" "r_prove (lr_rule clean_rule) = Some ?p"
      "''facts.v.n.value'' \<in> set (leafCELs (pv_when ?p))"
    by (simp_all add: clean_ingest clean_model_def clean_rule_def clean_cels)
  have "providersInWhen (pv_when ?p) = [''v'']" by (simp add: providersInWhen_def clean_cels clean_refs)
  moreover have "controlsApproval clean_libs clean_model (lr_rule clean_rule) ?p"
    by (simp add: controlsApproval_def requiredObligations_def clean_model_def)
  ultimately show ?thesis using lint_clean_controlling [OF e o d] by auto
qed

subsection \<open>The order of the packs\<close>

lemma plain_concat: "(\<And>x. x \<in> set xs \<Longrightarrow> list_all plain (f x)) \<Longrightarrow> list_all plain (concat (map f xs))"
  by (rule errors_concat)

lemma plain_loader: "list_all plain (loaderError path e)"
  by (simp add: loaderError_def schemaInvalid_def plain_add split: option.split)

lemma plain_ingestOne: "list_all plain (snd (ingestOne libs s m))"
  by (simp add: ingestOne_def ingestBinding_def ingestMergePolicy_def ingestPack_def plain_loader plain_add split: sum.split)

lemma plain_ingest: "list_all plain (snd (ingestFrom libs ss m))"
proof (induction ss arbitrary: m)
  case (Cons s ss)
  obtain m' ds where i: "ingestOne libs s m = (m', ds)" by fastforce
  have "list_all plain ds" using plain_ingestOne [of libs s m] i by simp
  with i Cons.IH [of m'] show ?case by (cases "ingestFrom libs ss m'") simp
qed simp

lemma plain_reserved: "list_all plain (checkReservedClass m)"
  unfolding checkReservedClass_def
  by (auto intro!: plain_concat simp: reservedRule_def Let_def plain_add)

lemma plain_missing: "list_all plain (missingPhases d)"
  unfolding missingPhases_def by (auto intro!: plain_concat simp: plain_add)

lemma plain_phase: "list_all plain rep \<Longrightarrow> list_all plain (checkNoImplicitEnforcePhase ds rep)"
proof (induction ds arbitrary: rep)
  case (Cons d ds)
  have "list_all plain (removeSchemaInvalidForPhase (id_path d) (rep @ missingPhases d))"
    using Cons.prems plain_missing [of d] by (auto simp: removeSchemaInvalidForPhase_def list_all_iff)
  with Cons show ?case by simp
qed simp

lemma plain_scope: "list_all plain (checkPredicateScope libs m)"
proof -
  have leaf: "list_all plain (checkLeafScope libs pack name c)" for pack name c
    by (auto simp: checkLeafScope_def plain_add list_all_iff split: option.split)
  have msg: "list_all plain (checkMessageScope libs pack name t)" for pack name t
    unfolding checkMessageScope_def
    by (auto intro!: plain_concat simp: plain_add list_all_iff split: option.split)
  show ?thesis unfolding checkPredicateScope_def overPacks_def
    by (intro plain_concat) (auto intro!: plain_concat simp: leaf msg Let_def split: option.split)
qed

lemma plain_tests: "list_all plain (checkTestsPerRule libs ss m)"
  unfolding checkTestsPerRule_def Let_def by (intro plain_concat) (auto intro!: plain_concat simp: plain_add)

lemma plain_Lint: "list_all plain (Lint libs ss)"
proof -
  obtain m ds where i: "ingest libs ss = (m, ds)" by fastforce
  have "list_all plain ds" using plain_ingest [of libs ss] i by (metis ingest_def snd_conv)
  moreover have "list_all plain (checkUnkeyedLists m)"
    unfolding checkUnkeyedLists_def by (intro plain_concat) (auto simp: plain_add list_all_iff)
  moreover have "list_all plain (checkTier1Templates ss)" by (simp add: checkTier1Templates_def plain_add)
  ultimately show ?thesis
    by (simp add: Lint_def i checkStructural_def plain_phase plain_reserved plain_scope plain_tests
        errors_plain [OF coverage_errors] errors_plain [OF requireEmpty_errors] errors_plain [OF facts_errors]
        errors_plain [OF posture_errors])
qed

text \<open>Another order of the packs permutes the report.\<close>

abbreviation inOrder :: "(string list \<Rightarrow> string list) \<Rightarrow> lintLibs \<Rightarrow> lintLibs" where
  "inOrder order libs \<equiv> libs\<lparr>ll_order := order\<rparr>"

lemma mset_concat_perm: "mset xs = mset ys \<Longrightarrow> mset (concat (map f xs)) = mset (concat (map f ys))"
  by (metis mset_concat mset_map sum_mset_sum_list)

lemma overPacks_perm:
  assumes "\<And>ks. mset (ll_order libs ks) = mset ks" "\<And>ks. mset (order ks) = mset ks"
  shows "mset (overPacks (inOrder order libs) m f) = mset (overPacks libs m f)"
  unfolding overPacks_def by (rule mset_concat_perm) (simp add: assms)

lemma order_sel:
  "ll_kind (inOrder order libs) = ll_kind libs"
  "ll_bindings (inOrder order libs) = ll_bindings libs"
  "ll_policy (inOrder order libs) = ll_policy libs"
  "ll_pack (inOrder order libs) = ll_pack libs"
  "ll_config (inOrder order libs) = ll_config libs"
  "ll_profile (inOrder order libs) = ll_profile libs"
  "ll_cases (inOrder order libs) = ll_cases libs"
  "ll_loadBinding (inOrder order libs) = ll_loadBinding libs"
  "ll_loadPolicy (inOrder order libs) = ll_loadPolicy libs"
  "ll_loadPack (inOrder order libs) = ll_loadPack libs"
  "ll_loadConfig (inOrder order libs) = ll_loadConfig libs"
  "ll_celEnv (inOrder order libs) = ll_celEnv libs"
  "ll_parse (inOrder order libs) = ll_parse libs"
  "ll_cel (inOrder order libs) = ll_cel libs"
  "ll_evalErr (inOrder order libs) = ll_evalErr libs"
  "ll_policyErr (inOrder order libs) = ll_policyErr libs"
  "ll_sentence (inOrder order libs) = ll_sentence libs"
  "ll_order (inOrder order libs) = order"
  by simp_all

lemma ingest_order: "ingest (inOrder order libs) = ingest libs"
proof (rule ext)
  have one: "ingestOne (inOrder order libs) = ingestOne libs"
    unfolding ingestOne_def [abs_def] ingestBinding_def [abs_def] ingestMergePolicy_def [abs_def] ingestPack_def [abs_def] order_sel ..
  fix ss
  have "ingestFrom (inOrder order libs) ss m = ingestFrom libs ss m" for m
    by (induction ss arbitrary: m) (simp_all add: one split: prod.split)
  then show "ingest (inOrder order libs) ss = ingest libs ss" by (simp add: ingest_def)
qed

lemma facts_order:
  assumes "\<And>ks. mset (ll_order libs ks) = mset ks" "\<And>ks. mset (order ks) = mset ks"
  shows "mset (checkFactsReferences (inOrder order libs) m) = mset (checkFactsReferences libs m)"
proof -
  have "scanLeaf (inOrder order libs) = scanLeaf libs" unfolding scanLeaf_def [abs_def] order_sel ..
  then have c: "checkRuleFactsRefs (inOrder order libs) = checkRuleFactsRefs libs" unfolding checkRuleFactsRefs_def [abs_def] by simp
  show ?thesis unfolding checkFactsReferences_def c by (rule overPacks_perm [OF assms])
qed

lemma scope_order:
  assumes "\<And>ks. mset (ll_order libs ks) = mset ks" "\<And>ks. mset (order ks) = mset ks"
  shows "mset (checkPredicateScope (inOrder order libs) m) = mset (checkPredicateScope libs m)"
proof -
  have c: "compileError (inOrder order libs) = compileError libs" unfolding compileError_def [abs_def] order_sel ..
  have l: "checkLeafScope (inOrder order libs) = checkLeafScope libs" unfolding checkLeafScope_def [abs_def] c ..
  have t: "checkMessageScope (inOrder order libs) = checkMessageScope libs" unfolding checkMessageScope_def [abs_def] c ..
  show ?thesis unfolding checkPredicateScope_def l t by (rule overPacks_perm [OF assms])
qed

lemma posture_order: "checkConfigPosture (inOrder order libs) = checkConfigPosture libs"
proof -
  have w: "whenReadsEntryScope (inOrder order libs) = whenReadsEntryScope libs" unfolding whenReadsEntryScope_def [abs_def] order_sel ..
  have k: "ofKind (inOrder order libs) = ofKind libs" unfolding ofKind_def [abs_def] order_sel ..
  have u: "controllingUses (inOrder order libs) = controllingUses libs" unfolding controllingUses_def [abs_def] w ..
  have "checkFailOpen (inOrder order libs) = checkFailOpen libs" unfolding checkFailOpen_def [abs_def] order_sel u ..
  moreover have "checkSingleWriterProfile (inOrder order libs) = checkSingleWriterProfile libs"
    unfolding checkSingleWriterProfile_def [abs_def] order_sel ..
  moreover have "parsePostureConfigs (inOrder order libs) = parsePostureConfigs libs"
    unfolding parsePostureConfigs_def [abs_def] order_sel k ..
  moreover have "parsePostureProfiles (inOrder order libs) = parsePostureProfiles libs"
    unfolding parsePostureProfiles_def [abs_def] order_sel k ..
  ultimately show ?thesis by (intro ext) (simp add: checkConfigPosture_def)
qed

lemma tests_order: "checkTestsPerRule (inOrder order libs) = checkTestsPerRule libs"
proof -
  have c: "caseNames (inOrder order libs) = caseNames libs" unfolding caseNames_def [abs_def] order_sel ..
  show ?thesis unfolding checkTestsPerRule_def [abs_def] c ..
qed

lemma phase_perm: "mset rep = mset rep' \<Longrightarrow> mset (checkNoImplicitEnforcePhase ds rep) = mset (checkNoImplicitEnforcePhase ds rep')"
proof (induction ds arbitrary: rep rep')
  case (Cons d ds)
  have "mset (removeSchemaInvalidForPhase (id_path d) (rep @ missingPhases d)) = mset (removeSchemaInvalidForPhase (id_path d) (rep' @ missingPhases d))"
    using Cons.prems by (simp add: removeSchemaInvalidForPhase_def)
  from Cons.IH [OF this] Cons.IH [OF Cons.prems] show ?case by (cases "missingPhases d = []") simp_all
qed simp

lemma structural_perm: "mset rep = mset rep' \<Longrightarrow> mset (checkStructural m rep) = mset (checkStructural m rep')"
  by (simp add: checkStructural_def phase_perm [of "rep @ checkReservedClass m" "rep' @ checkReservedClass m"])

lemma Lint_order:
  assumes "\<And>ks. mset (ll_order libs ks) = mset ks" "\<And>ks. mset (order ks) = mset ks"
  shows "mset (Lint (inOrder order libs) ss) = mset (Lint libs ss)"
proof -
  obtain m ds where i: "ingest libs ss = (m, ds)" by fastforce
  have "mset (checkStructural m (ds @ checkObligationCoverage m @ checkBindingRequireEmpty m @ checkFactsReferences (inOrder order libs) m))
      = mset (checkStructural m (ds @ checkObligationCoverage m @ checkBindingRequireEmpty m @ checkFactsReferences libs m))"
    by (rule structural_perm) (simp add: facts_order [OF assms])
  then show ?thesis by (simp add: Lint_def ingest_order i posture_order tests_order scope_order [OF assms])
qed

text \<open>A line of the output is a function of the key it is sorted by, as long as no place contains a zero byte.\<close>

definition line :: "lintLibs \<Rightarrow> diagnostic \<Rightarrow> string" where
  "line libs d = dg_severity d @ '': ['' @ dg_code d @ ''] '' @ locationText d @ '': '' @ messageText libs d @ [CHR 0x0A]"

lemma split_at: "a \<notin> set xs \<Longrightarrow> a \<notin> set ys \<Longrightarrow> xs @ a # r = ys @ a # s \<Longrightarrow> xs = ys \<and> r = s"
  by (induction xs arbitrary: ys) (auto simp: Cons_eq_append_conv append_eq_Cons_conv)

lemma line_of_key:
  assumes "plain d" "plain e" "CHR 0x00 \<notin> set (locationText d)" "CHR 0x00 \<notin> set (locationText e)" "sortKey libs d = sortKey libs e"
  shows "line libs d = line libs e"
proof -
  have "dg_code d = dg_code e \<and> locationText d @ CHR 0x00 # messageText libs d = locationText e @ CHR 0x00 # messageText libs e"
    using split_at [of "CHR 0x00" "dg_code d" "dg_code e"] assms(1,2,5) by (simp add: plain_def sortKey_def)
  moreover then have "locationText d = locationText e \<and> messageText libs d = messageText libs e"
    using split_at [of "CHR 0x00" "locationText d" "locationText e"] assms(3,4) by blast
  ultimately show ?thesis using assms(1,2) by (simp add: line_def plain_def)
qed

lemma map_key_sort: "map k (sort_key k xs) = sort (map k xs)"
  by (rule sym, rule properties_for_sort) auto

lemma lines_perm:
  assumes "mset xs = mset ys" "\<And>x y. x \<in> set xs \<Longrightarrow> y \<in> set xs \<Longrightarrow> k x = k y \<Longrightarrow> f x = f y"
  shows "map f (sort_key k xs) = map f (sort_key k ys)"
proof -
  have "map k (sort_key k xs) = map k (sort_key k ys)"
    using assms(1) by (simp only: map_key_sort) (metis mset_map sorted_list_of_multiset_mset)
  then have "list_all2 (\<lambda>x y. k x = k y) (sort_key k xs) (sort_key k ys)"
    by (simp add: list_all2_conv_all_nth list_eq_iff_nth_eq)
  then have "list_all2 (\<lambda>x y. f x = f y) (sort_key k xs) (sort_key k ys)"
  proof (rule list.rel_mono_strong)
    fix x y assume "x \<in> set (sort_key k xs)" "y \<in> set (sort_key k ys)" "k x = k y"
    then show "f x = f y" using mset_eq_setD [OF assms(1)] by (intro assms(2)) simp_all
  qed
  then show ?thesis by (simp add: list_all2_conv_all_nth list_eq_iff_nth_eq)
qed

text \<open>
  C32: the report does not depend on the order in which Go ranges over the map of packs. With any two
  orders the printed text and the exit code are the same, when no place in the report contains the zero
  byte that separates the parts of the key.
\<close>

theorem lint_order_independent:
  assumes "\<And>ks. mset (ll_order libs ks) = mset ks" "\<And>ks. mset (order ks) = mset ks"
    and "list_all (\<lambda>d. CHR 0x00 \<notin> set (locationText d)) (Lint libs ss)"
  shows "Render libs (Lint (inOrder order libs) ss) = Render libs (Lint libs ss)
    \<and> runLint (inOrder order libs) (Some ss) = runLint libs (Some ss)"
proof -
  note m = Lint_order [OF assms(1,2), of ss]
  have "map (line libs) (sort_key (sortKey libs) (Lint libs ss)) = map (line libs) (sort_key (sortKey libs) (Lint (inOrder order libs) ss))"
  proof (rule lines_perm [OF m [symmetric]])
    fix d e assume de: "d \<in> set (Lint libs ss)" "e \<in> set (Lint libs ss)" "sortKey libs d = sortKey libs e"
    have p: "plain x \<and> CHR 0x00 \<notin> set (locationText x)" if "x \<in> set (Lint libs ss)" for x
      using plain_Lint [of libs ss] assms(3) that unfolding list_all_iff by blast
    show "line libs d = line libs e" using line_of_key [OF _ _ _ _ de(3)] p [OF de(1)] p [OF de(2)] by blast
  qed
  then have "Render libs (Lint (inOrder order libs) ss) = Render libs (Lint libs ss)"
    by (simp add: Render_def Diagnostics_def line_def [abs_def])
  moreover have "HasErrors (Lint (inOrder order libs) ss) = HasErrors (Lint libs ss)"
    using mset_eq_setD [OF m] by (simp add: HasErrors_def list_ex_iff)
  ultimately show ?thesis by (simp add: runLint_def)
qed

theorem lint_order_independent_witness:
  "Render clean_libs (Lint (inOrder rev clean_libs) clean_tree) = Render clean_libs (Lint clean_libs clean_tree)
   \<and> runLint (inOrder rev clean_libs) (Some clean_tree) = 0"
proof -
  have "list_all (\<lambda>d. CHR 0x00 \<notin> set (locationText d)) (Lint clean_libs clean_tree)" by (simp add: clean_lint)
  from lint_order_independent [OF _ _ this, of rev] show ?thesis
    by (simp add: clean_libs_def) (simp add: runLint_def clean_lint HasErrors_def clean_libs_def [symmetric])
qed

end
