(* ===== verification/Spec2Isabelle.thy ===== *)
theory Spec2Isabelle
  imports EngineProps ChangeProps PolicyProps ForgeAuthors RunProps ProviderProps CheckoutProps
    GitlabProps GithubProps CompareProps RenderProps LintProps
begin

text \<open>
  assent: a deterministic, policy-driven gate that decides whether a merge request may be approved
  and merged without a human, and publishes that decision on the forge.

  \<^bold>\<open>The program and how its parts interact.\<close> \<open>cmd/assent/run.go\<close> drives one run: it reads the merge
  request and a snapshot from the forge port, loads the policy, the binding, the configuration and
  the pack at the pinned target commit, reads both sides of the governed file, computes its change
  set, folds the class and the completeness of all changed paths, asks the fact providers, resolves
  the approval evidence, decides, builds and validates the decision record, emits it, and only then
  lets \<open>forge.Reconcile\<close> write: a summary note, and either one review thread or an approval with a
  merge pinned to three digests. The forge port has three implementations: the adapters of GitLab and
  GitHub, which speak HTTP, and an in-memory forge. \<open>assent lint\<close> checks the authoring tree and
  \<open>assent compare\<close> two policies on recorded cases, both without a forge.

  \<^bold>\<open>Theories.\<close>
  \<^item> \<open>Prelude\<close>, \<open>GoStrings\<close>: errors as sums, association lists, the byte strings of Go (a string is
    the list of its bytes), UTF-8 runes, the functions of package \<open>strings\<close> that the code uses.
  \<^item> \<open>Glob\<close> (\<open>internal/glob\<close>), \<open>Policy\<close> (\<open>internal/core/policy\<close>): the pattern compiler with its
    matcher, the policy data, loader checks, profile scopes and the provider posture;
    \<open>PolicyProps\<close> has their properties.
  \<^item> \<open>EvalLeaf\<close>, \<open>AssertWalk\<close>, \<open>Approval\<close>, \<open>Coverage\<close>, \<open>Decide\<close> (\<open>internal/core/aggregate\<close>): a
    leaf expression, the tri-state walk of an assert tree, approval evidence, the coverage loop with
    its findings, the guards and profiles. \<open>CoverageFacts\<close>, \<open>CoverSpec\<close> and \<open>CoverOrder\<close> give the
    loop a declarative reading, free of the order of rules and changes; \<open>EngineProps\<close> states the
    properties: when it approves, when it blocks, what it ignores.
  \<^item> \<open>ValueTree\<close>, \<open>GoJson\<close>, \<open>Producers\<close>, \<open>Diff\<close>, \<open>RenameDecode\<close> (\<open>internal/change\<close>,
    \<open>internal/evaldecode\<close>): the value tree and its walk, the YAML, JSON and HCL front ends with
    their resource limits, the entry differ, rename folding, and the engine's input. \<open>DiffFacts\<close>,
    \<open>ProducerFacts\<close> and \<open>ChangeProps\<close> show that a diff is exact, pointers resolve, scalars round-trip.
  \<^item> \<open>Classify\<close> (\<open>internal/core/classify\<close>), \<open>DecisionRecord\<close> (\<open>internal/core/decision\<close>).
    \<open>CanonicalHash\<close> (\<open>internal/core/hash\<close>): the canonical bytes behind a digest; \<open>HashProps\<close> shows which
    documents share them.
  \<^item> \<open>Provider\<close>, \<open>Facts\<close>, \<open>Transport\<close>, \<open>Builtin\<close> (\<open>internal/provider\<close>,
    \<open>cmd/assent/run_arming.go\<close>): declarations and age ceilings, negotiation and classification of an
    answer, the exec and HTTP transports, the repo-file and resource-owner providers;
    \<open>ProviderProps\<close>. \<open>Checkout\<close> with \<open>CheckoutProps\<close>: \<open>cmd/assent/checkout.go\<close>.
  \<^item> \<open>ForgePort\<close>, \<open>Reconcile\<close> (\<open>internal/forge/forge.go\<close>), \<open>Envelope\<close>
    (\<open>internal/render/envelope.go\<close>), \<open>Capability\<close> (the read side of \<open>internal/forge\<close>), \<open>ForgeFake\<close>
    (\<open>internal/forge/fake\<close>). \<open>ForgeContract\<close> is the contract of a forge as a locale, with what
    reconciliation guarantees on any forge that meets it, interpreted on the in-memory forge;
    \<open>ForgeProps\<close>, \<open>ForgeWorld\<close> (runs interleaved with contributors, reviewers and pushes, as a
    step relation) and \<open>ForgeAuthors\<close> state the properties.
  \<^item> \<open>RunPort\<close>, \<open>RunFacts\<close>, \<open>RunGate\<close> (\<open>cmd/assent/run.go\<close>, \<open>run_authority.go\<close>,
    \<open>provider_host.go\<close>): actions over the world (the forge, standard output, the disk), the port of
    a run as the locale \<open>run_port\<close>, the provider host, and \<open>orchestrate\<close>, split at the point where
    the decision is made (\<open>judge\<close>) and published (\<open>conclude\<close>). \<open>RunSafety\<close> shows that judging writes
    nothing and what a write or a merge presupposes, on every port of the contract (\<open>gated_run\<close> joins
    the two contracts); \<open>FakeRun\<close> interprets both locales on the in-memory forge, \<open>RunProps\<close> states the
    properties of a run.
  \<^item> \<open>Base64\<close>, \<open>JsonDecode\<close>, \<open>MarkerScan\<close>, \<open>Http\<close>: what both adapters use of the Go library (base64,
    decoding JSON into structures), the scanner of comment markers, and the policy of requests: budgets
    of attempts, transient outcomes, bounded bodies and the log of what was sent.
  \<^item> \<open>Gitlab\<close>, \<open>GitlabSnapshot\<close> (\<open>internal/forge/gitlab\<close>): the client with its pin, content reads, changed
    files, notes, threads, approval and merge; the snapshot with its capability report and the evidence of
    approvals. \<open>GitlabFacts\<close> has the traces of the operations, \<open>GitlabRun\<close> the port of a run over them,
    \<open>GitlabProps\<close> the properties. \<open>AdvisoryRun\<close> is the contract, as a locale, of a forge that never arms.
  \<^item> \<open>Github\<close>, \<open>GithubSnapshot\<close>, \<open>GithubWrite\<close> (\<open>internal/forge/github\<close>): app credentials and tokens, REST
    and GraphQL requests, the reads with the scope probe, the review chain, the writes and the merge;
    \<open>GithubFacts\<close>, \<open>GithubRun\<close> and \<open>GithubProps\<close> as for GitLab.
  \<^item> \<open>MessageTemplate\<close>, \<open>Rendering\<close>, \<open>RenderThread\<close> (\<open>internal/render\<close>, \<open>cmd/assent/run_render.go\<close>): the
    placeholders of messages, escaping and clamping, redaction, the summary, the thread of a finding and
    the section of facts. \<open>RenderFacts\<close> follows what reaches a body; \<open>RenderProps\<close> states that bodies keep
    their own structure, that they do not depend on sensitive values, and where they do.
  \<^item> \<open>Compare\<close>, \<open>CompareSuite\<close> (\<open>internal/compare\<close>, \<open>cmd/assent/compare.go\<close>): the deltas between two
    decisions, the gates of a suite and its exit code; \<open>CompareProps\<close>.
  \<^item> \<open>Lint\<close>, \<open>LintChecks\<close> (\<open>internal/lint\<close>): ingestion, every check, the report; \<open>LintProps\<close> states what a
    clean tree guarantees the engine and that the report is determined.

  \<^bold>\<open>State and errors.\<close> Operations of the forge are functions from its state to a result and the new
  state; every returned Go error is the left side of a sum. Texts that only reach a log are left
  out or kept as a code; texts that reach the record, the forge or the standard output are kept.

  \<^bold>\<open>Parameters.\<close> Libraries and the outside world are arguments: the CEL runtime and parser, YAML and
  HCL decoders, the JSON texts beyond what \<open>GoJson\<close> reads, the schema validator and the strict loaders,
  SHA-256, PEM, X.509 and RSA, floating point numbers, the clock and RFC 3339 texts, the network and child
  processes, the order in which Go ranges over a map, the sentences of the lint, and the decoding of a
  recorded evaluation input. A race on the forge is a function applied between the reading of the heads
  and the write.

  \<^bold>\<open>Bounds and fuel.\<close> Loops are structural or have a measure. Only the JSON reader has fuel, two
  units per token, which is shown to be enough; the attempts of a request and the pages of a listing are
  bounded by the budgets of the code. Go's \<open>int\<close> and \<open>int64\<close> are \<open>int\<close> with the bounds written out where a
  number is parsed; the points of a result are summed with the wrap-around of 64 bits. An instant is its
  number of nanoseconds.

  \<^bold>\<open>Not modelled.\<close> Flag parsing and the file and process I/O of the commands (the loading of the cases
  of a comparison, the doctor, the adapter and test commands), the walk that finds the authoring tree, the
  rule catalogue, which prints documentation, the adopter test harness and its fixtures, the embedded JSON
  schemas with their drift check, the conformance suite of the forges, the factory, which only picks one of the
  two constructors, the spikes and the tests.
\<close>

end
